(* ===== verification/Py_Base.thy ===== *)
theory Py_Base
  imports Main "HOL-Library.Word" "HOL-Library.AList"
begin

text \<open>
  The prelude: what every component of the development shares.  It models the part of Python
  and of its standard library that the kernel patchers and the profile tools use: exceptions as
  values of a sum type, slices of a byte string with Python's clipping of the bounds, the
  big-endian \<open>struct\<close> codecs, the search for a NUL byte, text decoding and the
  insertion-ordered dictionary (an association list under \<open>AList.update\<close>).
\<close>

named_theorems py_simps "evaluation rules of the Python primitives"

subsection \<open>Exceptions as values\<close>

text \<open>
  One constructor per exception the code can raise.  \<open>SystemExit\<close> and \<open>CaptureError\<close> carry
  the fixed text of the message that identifies the abort; the arguments formatted into it are
  left out.
\<close>

datatype exn =
    StructError
  | ValueError
  | IndexError
  | TypeError
  | KeyError string
  | UnicodeDecodeError
  | AssertionError string
  | ZeroDivisionError
  | SystemExit string
  | CaptureError string

fun bind_e :: "'e + 'a \<Rightarrow> ('a \<Rightarrow> 'e + 'b) \<Rightarrow> 'e + 'b" where
  "bind_e (Inl e) f = Inl e"
| "bind_e (Inr x) f = f x"

lemma bind_e_cong [fundef_cong]:
  "m = m' \<Longrightarrow> (\<And>x. m' = Inr x \<Longrightarrow> f x = g x) \<Longrightarrow> bind_e m f = bind_e m' g"
  by (cases m) auto

lemma bind_e_Inr_iff [simp]:
  "bind_e m f = Inr y \<longleftrightarrow> (\<exists>x. m = Inr x \<and> f x = Inr y)"
  by (cases m) auto

lemma bind_e_Inl_iff:
  "bind_e m f = Inl e \<longleftrightarrow> m = Inl e \<or> (\<exists>x. m = Inr x \<and> f x = Inl e)"
  by (cases m) auto

lemma bind_e_return [simp]: "bind_e m Inr = m"
  by (cases m) auto

lemma bind_e_assoc: "bind_e (bind_e m f) g = bind_e m (\<lambda>x. bind_e (f x) g)"
  by (cases m) auto

text \<open>\<open>map_e\<close> is a list comprehension whose element expression may raise.\<close>

fun map_e :: "('a \<Rightarrow> 'e + 'b) \<Rightarrow> 'a list \<Rightarrow> 'e + 'b list" where
  "map_e f [] = Inr []"
| "map_e f (x # xs) = bind_e (f x) (\<lambda>y. bind_e (map_e f xs) (\<lambda>ys. Inr (y # ys)))"

lemma map_e_cong [fundef_cong]:
  "xs = ys \<Longrightarrow> (\<And>x. x \<in> set ys \<Longrightarrow> f x = g x) \<Longrightarrow> map_e f xs = map_e g ys"
  by (induction ys arbitrary: xs) auto

lemma map_e_length: "map_e f xs = Inr ys \<Longrightarrow> length ys = length xs"
  by (induction xs arbitrary: ys) auto

lemma map_e_nth: "map_e f xs = Inr ys \<Longrightarrow> i < length xs \<Longrightarrow> f (xs ! i) = Inr (ys ! i)"
  by (induction xs arbitrary: ys i) (auto simp: nth_Cons split: nat.splits)

text \<open>
  A script that rewrites one file maps its bytes to the bytes it leaves behind and to the way it
  ends.  \<open>write_back\<close> is the common shape: compute everything, then write.
\<close>

type_synonym byte = "8 word"
type_synonym 'r script = "byte list \<Rightarrow> byte list \<times> (exn + 'r)"

definition write_back :: "byte list \<Rightarrow> exn + (byte list \<times> 'r) \<Rightarrow> byte list \<times> (exn + 'r)" where
  "write_back b r = (case r of Inl e \<Rightarrow> (b, Inl e) | Inr (b', x) \<Rightarrow> (b', Inr x))"

lemma write_back_simps [simp]:
  "write_back b (Inl e) = (b, Inl e)"
  "write_back b (Inr (b', x)) = (b', Inr x)"
  by (simp_all add: write_back_def)

subsection \<open>Slices\<close>

text \<open>
  \<open>clip n k\<close> is the position a slice bound \<open>k\<close> stands for in a sequence of length \<open>n\<close>:
  a negative bound counts from the end, and everything is cut to the sequence.
\<close>

definition clip :: "nat \<Rightarrow> int \<Rightarrow> nat" where
  "clip n k = nat (if k < 0 then max 0 (k + int n) else min k (int n))"

definition slice :: "'a list \<Rightarrow> int \<Rightarrow> int \<Rightarrow> 'a list" where
  "slice b i j = (let i' = clip (length b) i; j' = clip (length b) j in take (j' - i') (drop i' b))"

definition splice :: "'a list \<Rightarrow> int \<Rightarrow> int \<Rightarrow> 'a list \<Rightarrow> 'a list" where
  "splice b i j v = (let i' = clip (length b) i; j' = clip (length b) j
     in take i' b @ v @ drop (max i' j') b)"

lemma clip_le [simp]: "clip n k \<le> n"
  by (auto simp: clip_def)

lemma clip_id: "0 \<le> k \<Longrightarrow> k \<le> int n \<Longrightarrow> clip n k = nat k"
  by (auto simp: clip_def)

text \<open>The range of \<open>n\<close> elements from position \<open>p\<close>, and its overwriting in place.\<close>

definition sub :: "nat \<Rightarrow> nat \<Rightarrow> 'a list \<Rightarrow> 'a list" where
  "sub p n b = take n (drop p b)"

definition overwrite :: "nat \<Rightarrow> 'a list \<Rightarrow> 'a list \<Rightarrow> 'a list" where
  "overwrite p v b = take p b @ v @ drop (p + length v) b"

lemma length_overwrite [simp]: "p + length v \<le> length b \<Longrightarrow> length (overwrite p v b) = length b"
  by (simp add: overwrite_def)

lemma length_sub: "p + n \<le> length b \<Longrightarrow> length (sub p n b) = n"
  by (simp add: sub_def)

lemma nth_sub: "p + n \<le> length b \<Longrightarrow> i < n \<Longrightarrow> sub p n b ! i = b ! (p + i)"
  by (simp add: sub_def)

lemma nth_overwrite:
  "p + length v \<le> length b \<Longrightarrow> i < length b \<Longrightarrow>
   overwrite p v b ! i = (if p \<le> i \<and> i < p + length v then v ! (i - p) else b ! i)"
  by (auto simp: overwrite_def nth_append min_def)

lemma overwrite_sub: "p + n \<le> length b \<Longrightarrow> overwrite p (sub p n b) b = b"
  by (rule nth_equalityI) (auto simp: nth_overwrite length_sub nth_sub)

lemma sub_overwrite_same: "p + length v \<le> length b \<Longrightarrow> sub p (length v) (overwrite p v b) = v"
  by (rule nth_equalityI) (auto simp: length_sub nth_sub nth_overwrite)

lemma sub_overwrite_disjoint:
  "p + length v \<le> length b \<Longrightarrow> q + n \<le> length b \<Longrightarrow> p + length v \<le> q \<or> q + n \<le> p \<Longrightarrow>
   sub q n (overwrite p v b) = sub q n b"
  by (rule nth_equalityI) (auto simp: length_sub nth_sub nth_overwrite)

lemma sub_eq_nth:
  "p + n \<le> length b \<Longrightarrow> sub p n b = v \<longleftrightarrow> length v = n \<and> (\<forall>i<n. b ! (p + i) = v ! i)"
  by (auto simp: list_eq_iff_nth_eq length_sub nth_sub)

lemma slice_eq_sub: "0 \<le> i \<Longrightarrow> i + int n \<le> int (length b) \<Longrightarrow> slice b i (i + int n) = sub (nat i) n b"
  by (simp add: slice_def sub_def clip_id Let_def nat_add_distrib)

text \<open>
  A slice \<open>b[i:i+n]\<close> that has all its \<open>n > 0\<close> elements is a range that lies inside the
  sequence, whatever the sign of \<open>i\<close>, and assigning to it overwrites exactly that range.
\<close>

lemma slice_full:
  assumes "length (slice b i (i + int n)) = n" "0 < n"
  shows "clip (length b) i + n \<le> length b"
    and "slice b i (i + int n) = sub (clip (length b) i) n b"
    and "length v = n \<Longrightarrow> splice b i (i + int n) v = overwrite (clip (length b) i) v b"
proof -
  let ?i = "clip (length b) i" and ?j = "clip (length b) (i + int n)"
  have j: "?j - ?i = n"
  proof -
    have "n \<le> ?j - ?i" using assms(1) by (simp add: slice_def Let_def)
    moreover have "?j \<le> ?i + n" using assms
      by (auto simp: clip_def slice_def Let_def split: if_splits)
    ultimately show ?thesis by linarith
  qed
  then have j': "?j = ?i + n" using assms(2) by linarith
  then show "?i + n \<le> length b" by (metis clip_le)
  show "slice b i (i + int n) = sub ?i n b" using j by (simp add: slice_def sub_def Let_def)
  show "length v = n \<Longrightarrow> splice b i (i + int n) v = overwrite ?i v b"
    using j' by (simp add: splice_def overwrite_def Let_def)
qed

subsection \<open>Big-endian words\<close>

definition unpack_H :: "byte list \<Rightarrow> exn + int" where
  "unpack_H s = (case s of [a, b] \<Rightarrow> Inr (uint a * 256 + uint b) | _ \<Rightarrow> Inl StructError)"

definition unpack_I :: "byte list \<Rightarrow> exn + int" where
  "unpack_I s = (case s of
     [a, b, c, d] \<Rightarrow> Inr (uint a * 16777216 + uint b * 65536 + uint c * 256 + uint d)
   | _ \<Rightarrow> Inl StructError)"

text \<open>\<open>unpack_i\<close> is the signed \<open>">i"\<close> format: the same four bytes as two's complement.\<close>

definition unpack_i :: "byte list \<Rightarrow> exn + int" where
  "unpack_i s = bind_e (unpack_I s)
     (\<lambda>u. Inr (if u < 2147483648 then u else u - 4294967296))"

definition pack_I :: "int \<Rightarrow> exn + byte list" where
  "pack_I k = (if 0 \<le> k \<and> k < 4294967296
     then Inr [word_of_int (k div 16777216), word_of_int (k div 65536),
               word_of_int (k div 256), word_of_int k]
     else Inl StructError)"

lemma uint_byte_bounds: "0 \<le> uint (a :: byte)" "uint (a :: byte) < 256"
  using uint_lt2p [of a] by simp_all

lemma unpack_I_bounds: "unpack_I s = Inr u \<Longrightarrow> 0 \<le> u \<and> u < 4294967296"
  using uint_byte_bounds by (auto simp: unpack_I_def split: list.splits) (smt (verit))

lemma unpack_H_bounds: "unpack_H s = Inr u \<Longrightarrow> 0 \<le> u \<and> u < 65536"
  using uint_byte_bounds by (auto simp: unpack_H_def split: list.splits) (smt (verit))

lemma pack_I_length: "pack_I k = Inr v \<Longrightarrow> length v = 4"
  by (auto simp: pack_I_def split: if_splits)

lemma unpack_pack_I:
  assumes "pack_I k = Inr v" shows "unpack_I v = Inr k"
proof -
  have k: "0 \<le> k" "k < 4294967296" using assms by (auto simp: pack_I_def split: if_splits)
  have u: "uint (word_of_int m :: byte) = m mod 256" for m
    by (simp add: uint_word_of_int)
  have "unpack_I v = Inr ((k div 16777216) mod 256 * 16777216 + (k div 65536) mod 256 * 65536
      + (k div 256) mod 256 * 256 + k mod 256)"
    using assms by (auto simp: pack_I_def unpack_I_def u split: if_splits)
  moreover have "(k div 16777216) mod 256 * 16777216 + (k div 65536) mod 256 * 65536
      + (k div 256) mod 256 * 256 + k mod 256 = k"
  proof -
    have e1: "k div 65536 = k div 256 div 256"
      using zdiv_zmult2_eq [of 256 k 256] by simp
    have e2: "k div 16777216 = k div 65536 div 256"
      using zdiv_zmult2_eq [of 256 k 65536] by simp
    have e3: "k div 16777216 mod 256 = k div 16777216"
      using k by (intro mod_pos_pos_trivial) auto
    have d: "m div 256 * 256 + m mod 256 = m" for m :: int
      by (rule div_mult_mod_eq)
    show ?thesis
      using d [of k] d [of "k div 256"] d [of "k div 65536"] unfolding e3 e1 [symmetric] e2 [symmetric]
      by linarith
  qed
  ultimately show ?thesis by (simp only:)
qed

definition u16 :: "byte list \<Rightarrow> int \<Rightarrow> exn + int" where
  "u16 b i = unpack_H (slice b i (i + 2))"

definition u32 :: "byte list \<Rightarrow> int \<Rightarrow> exn + int" where
  "u32 b i = unpack_I (slice b i (i + 4))"

definition i32 :: "byte list \<Rightarrow> int \<Rightarrow> exn + int" where
  "i32 b i = unpack_i (slice b i (i + 4))"

lemma u32_bounds: "u32 b i = Inr u \<Longrightarrow> 0 \<le> u \<and> u < 4294967296"
  by (auto simp: u32_def dest: unpack_I_bounds)

lemma u16_bounds: "u16 b i = Inr u \<Longrightarrow> 0 \<le> u \<and> u < 65536"
  by (auto simp: u16_def dest: unpack_H_bounds)

subsection \<open>NUL-terminated names and their decoding\<close>

definition index_nul :: "byte list \<Rightarrow> int \<Rightarrow> exn + int" where
  "index_nul b i =
     (let s = clip (length b) i; k = length (takeWhile (\<lambda>x. x \<noteq> 0) (drop s b))
      in if s + k < length b then Inr (int (s + k)) else Inl ValueError)"

definition cstr :: "byte list \<Rightarrow> int \<Rightarrow> exn + byte list" where
  "cstr b i = bind_e (index_nul b i) (\<lambda>e. Inr (slice b i e))"

definition byte_char :: "byte \<Rightarrow> char" where
  "byte_char w = char_of (unat w)"

definition ascii :: "string \<Rightarrow> byte list" where
  "ascii s = map (\<lambda>c. of_char c) s"

text \<open>
  \<open>decode("latin1")\<close> never fails.  \<open>decode()\<close> is strict UTF-8: a text is modelled by its
  UTF-8 encoding, so decoding is the identity on the well-formed byte strings and raises on the
  others.  Every literal the code compares a decoded name with is ASCII.
\<close>

definition decode_latin1 :: "byte list \<Rightarrow> string" where
  "decode_latin1 s = map byte_char s"

lemma of_char_byte_char: "of_char (byte_char w) = w"
proof -
  have "unat w < 256" using unsigned_less [of w] by simp
  then have "(of_char (byte_char w) :: nat) = unat w" by (simp add: byte_char_def)
  then have "of_nat (of_char (byte_char w)) = (of_nat (unat w) :: byte)" by (rule arg_cong)
  then show ?thesis by (simp add: of_nat_of_char)
qed

lemma byte_char_of_char: "byte_char (of_char c) = c"
proof -
  have "unat (of_nat (of_char c) :: byte) = of_char c mod 256" by (simp only: unat_of_nat) simp
  then have "unat (of_char c :: byte) = of_char c" by (simp add: of_nat_of_char)
  then show ?thesis by (simp add: byte_char_def)
qed

lemma decode_latin1_iff: "decode_latin1 s = t \<longleftrightarrow> s = ascii t"
  by (auto simp: decode_latin1_def ascii_def of_char_byte_char byte_char_of_char comp_def)

definition cont_byte :: "byte \<Rightarrow> bool" where
  "cont_byte w \<longleftrightarrow> 128 \<le> uint w \<and> uint w \<le> 191"

fun utf8_ok :: "byte list \<Rightarrow> bool" where
  "utf8_ok [] = True"
| "utf8_ok (a # r) =
     (if uint a < 128 then utf8_ok r
      else case r of [] \<Rightarrow> False | b # r1 \<Rightarrow>
        if uint a < 194 then False
        else if uint a \<le> 223 then cont_byte b \<and> utf8_ok r1
        else case r1 of [] \<Rightarrow> False | c # r2 \<Rightarrow>
          if uint a \<le> 239 then
            cont_byte b \<and> (uint a = 224 \<longrightarrow> 160 \<le> uint b) \<and> (uint a = 237 \<longrightarrow> uint b \<le> 159)
            \<and> cont_byte c \<and> utf8_ok r2
          else case r2 of [] \<Rightarrow> False | d # r3 \<Rightarrow>
            uint a \<le> 244 \<and> cont_byte b \<and> (uint a = 240 \<longrightarrow> 144 \<le> uint b)
            \<and> (uint a = 244 \<longrightarrow> uint b \<le> 143) \<and> cont_byte c \<and> cont_byte d \<and> utf8_ok r3)"

definition decode_utf8 :: "byte list \<Rightarrow> exn + string" where
  "decode_utf8 s = (if utf8_ok s then Inr (map byte_char s) else Inl UnicodeDecodeError)"

definition dict_get :: "string \<Rightarrow> (string \<times> 'v) list \<Rightarrow> exn + 'v" where
  "dict_get k d = (case map_of d k of None \<Rightarrow> Inl (KeyError k) | Some v \<Rightarrow> Inr v)"

subsection \<open>Byte strings that agree outside a range\<close>

text \<open>
  \<open>agree lo hi b b'\<close>: the two byte strings differ at most at positions \<open>lo \<le> i < hi\<close>.
  A read that stays outside the range cannot tell them apart.
\<close>

definition agree :: "nat \<Rightarrow> nat \<Rightarrow> 'a list \<Rightarrow> 'a list \<Rightarrow> bool" where
  "agree lo hi b b' \<longleftrightarrow> length b' = length b \<and> (\<forall>i < length b. i < lo \<or> hi \<le> i \<longrightarrow> b' ! i = b ! i)"

lemma agree_refl [simp]: "agree lo hi b b"
  by (simp add: agree_def)

lemma agree_trans: "agree lo hi a b \<Longrightarrow> agree lo hi b c \<Longrightarrow> agree lo hi a c"
  by (auto simp: agree_def)

lemma agree_length: "agree lo hi b b' \<Longrightarrow> length b' = length b"
  by (simp add: agree_def)

lemma agree_overwrite:
  "lo \<le> p \<Longrightarrow> p + length v \<le> hi \<Longrightarrow> p + length v \<le> length b \<Longrightarrow> agree lo hi b (overwrite p v b)"
  by (auto simp: agree_def nth_overwrite)

lemma agree_slice:
  assumes "agree lo hi b b'" "0 \<le> i" "i \<le> j" "j \<le> int lo \<or> int hi \<le> i"
  shows "slice b' i j = slice b i j"
proof (rule nth_equalityI)
  have l: "length b' = length b" using assms(1) by (simp add: agree_def)
  then show "length (slice b' i j) = length (slice b i j)" by (simp add: slice_def Let_def)
  fix k assume k: "k < length (slice b' i j)"
  let ?i = "clip (length b) i"
  have kk: "k < clip (length b) j - ?i" "?i + k < length b"
    using k l by (auto simp: slice_def Let_def)
  then have "?i + k < lo \<or> hi \<le> ?i + k"
    using assms(2-4) by (auto simp: clip_def split: if_splits)
  with kk assms(1) have "b' ! (?i + k) = b ! (?i + k)" by (auto simp: agree_def)
  then show "slice b' i j ! k = slice b i j ! k"
    using kk l by (auto simp: slice_def Let_def)
qed

lemma agree_u32:
  "agree lo hi b b' \<Longrightarrow> 0 \<le> i \<Longrightarrow> i + 4 \<le> int lo \<or> int hi \<le> i \<Longrightarrow> u32 b' i = u32 b i"
  by (simp add: u32_def agree_slice)

lemma agree_u16:
  "agree lo hi b b' \<Longrightarrow> 0 \<le> i \<Longrightarrow> i + 2 \<le> int lo \<or> int hi \<le> i \<Longrightarrow> u16 b' i = u16 b i"
  by (simp add: u16_def agree_slice)

lemma index_nul_Inr_iff:
  "index_nul b i = Inr e \<longleftrightarrow>
     (\<exists>m. e = int m \<and> clip (length b) i \<le> m \<and> m < length b \<and> b ! m = 0
        \<and> (\<forall>k. clip (length b) i \<le> k \<and> k < m \<longrightarrow> b ! k \<noteq> 0))" (is "?L \<longleftrightarrow> ?R")
proof -
  let ?s = "clip (length b) i"
  let ?t = "takeWhile (\<lambda>x. x \<noteq> 0) (drop ?s b)"
  have t_nth: "k < length ?t \<Longrightarrow> b ! (?s + k) \<noteq> 0" for k
    using nth_mem [of k ?t] takeWhile_nth [of k "\<lambda>x. x \<noteq> 0" "drop ?s b"]
      set_takeWhileD length_takeWhile_le [of "\<lambda>x. x \<noteq> 0" "drop ?s b"] by fastforce
  have t_end: "b ! (?s + length ?t) = 0" if "?s + length ?t < length b"
    using nth_length_takeWhile [of "\<lambda>x. x \<noteq> 0" "drop ?s b"] that by simp
  show ?thesis
  proof
    assume ?L
    then have e: "?s + length ?t < length b" "e = int (?s + length ?t)"
      by (auto simp: index_nul_def Let_def split: if_splits)
    have "b ! k \<noteq> 0" if "?s \<le> k" "k < ?s + length ?t" for k
      using t_nth [of "k - ?s"] that by simp
    then show ?R using e t_end by (intro exI [of _ "?s + length ?t"]) auto
  next
    assume ?R
    then obtain m where m: "e = int m" "?s \<le> m" "m < length b" "b ! m = 0"
      "\<And>k. ?s \<le> k \<Longrightarrow> k < m \<Longrightarrow> b ! k \<noteq> 0" by auto
    have "length ?t = m - ?s"
      by (rule length_takeWhile_less_P_nth [THEN le_antisym [rotated]])
        (use m t_nth [of "m - ?s"] in \<open>auto simp: not_less [symmetric]\<close>)
    then show ?L using m by (simp add: index_nul_def Let_def)
  qed
qed

lemma agree_index_nul:
  assumes a: "agree lo hi b b'" and e: "index_nul b i = Inr e" and i: "0 \<le> i"
    and out: "e < int lo \<or> int hi \<le> i"
  shows "index_nul b' i = Inr e"
proof -
  have l: "length b' = length b" using a by (simp add: agree_def)
  obtain m where m: "e = int m" "clip (length b) i \<le> m" "m < length b" "b ! m = 0"
    "\<And>k. clip (length b) i \<le> k \<Longrightarrow> k < m \<Longrightarrow> b ! k \<noteq> 0"
    using e unfolding index_nul_Inr_iff by blast
  have i': "clip (length b) i = nat i"
    using m i by (auto simp: clip_def split: if_splits)
  have same: "b' ! k = b ! k" if "nat i \<le> k" "k \<le> m" for k
    using a that m(1,3) out by (auto simp: agree_def)
  show ?thesis unfolding index_nul_Inr_iff l
    using m i' same by (intro exI [of _ m]) auto
qed

lemma agree_cstr:
  assumes "agree lo hi b b'" "index_nul b i = Inr e" "0 \<le> i" "e < int lo \<or> int hi \<le> i"
  shows "cstr b' i = cstr b i"
proof -
  have "i \<le> e" using assms(2,3) unfolding index_nul_Inr_iff
    by (auto simp: clip_def split: if_splits)
  then have "slice b' i e = slice b i e" using agree_slice [OF assms(1,3)] assms(4) by auto
  then show ?thesis using agree_index_nul [OF assms] assms(2) by (simp add: cstr_def)
qed

end
