(* ===== verification/Text_Sites.thy ===== *)
theory Text_Sites
  imports Py_Base
begin

text \<open>
  What the byte patchers under \<open>src/src/patch_*.py\<close> share: the walk over the section headers
  of the kernel image that finds \<open>.text\<close> (\<open>text_sec\<close>, \<open>sections\<close>), the guarded write of one
  site (found the new bytes: skip; found the old bytes: write; anything else: abort) and the
  loops over a table of sites.  The locale \<open>site_table\<close> states what a well-formed table
  promises and proves, once, what the loop then does to an image.
\<close>

subsection \<open>Finding the sections\<close>

definition py_range :: "int \<Rightarrow> int list" where
  "py_range n = [0..n - 1]"

fun text_sec_loop ::
  "byte list \<Rightarrow> int \<Rightarrow> int \<Rightarrow> int \<Rightarrow> int list \<Rightarrow> exn + int \<times> int" where
  "text_sec_loop b sh ent so [] = Inl (SystemExit ''no .text'')"
| "text_sec_loop b sh ent so (i # is) =
     (let o' = sh + i * ent in
      bind_e (u32 b o') (\<lambda>nm.
      bind_e (index_nul b (so + nm)) (\<lambda>e.
      if slice b (so + nm) e = ascii ''.text''
      then bind_e (u32 b (o' + 12)) (\<lambda>addr. bind_e (u32 b (o' + 16)) (\<lambda>off. Inr (addr, off)))
      else text_sec_loop b sh ent so is)))"

text \<open>\<open>text_sec\<close> is \<open>(sh_addr, sh_offset)\<close> of the first section named \<open>.text\<close>.\<close>

definition text_sec :: "byte list \<Rightarrow> exn + int \<times> int" where
  "text_sec b =
     bind_e (u32 b 32) (\<lambda>sh. bind_e (u16 b 46) (\<lambda>ent.
     bind_e (u16 b 48) (\<lambda>n. bind_e (u16 b 50) (\<lambda>st.
     bind_e (u32 b (sh + st * ent + 16)) (\<lambda>so.
     text_sec_loop b sh ent so (py_range n))))))"

type_synonym section_map = "(string \<times> int \<times> int \<times> int) list"

fun sections_loop ::
  "byte list \<Rightarrow> int \<Rightarrow> int \<Rightarrow> int \<Rightarrow> int list \<Rightarrow> section_map \<Rightarrow> exn + section_map" where
  "sections_loop b sh ent so [] out = Inr out"
| "sections_loop b sh ent so (i # is) out =
     (let o' = sh + i * ent in
      bind_e (u32 b o') (\<lambda>nm.
      bind_e (index_nul b (so + nm)) (\<lambda>e.
      bind_e (decode_utf8 (slice b (so + nm) e)) (\<lambda>name.
      bind_e (u32 b (o' + 12)) (\<lambda>addr.
      bind_e (u32 b (o' + 16)) (\<lambda>off.
      sections_loop b sh ent so is (AList.update name (i, addr, off) out)))))))"

text \<open>
  \<open>sections\<close> maps each section name to \<open>(index, sh_addr, sh_offset)\<close>; as in the dictionary of
  the code, a repeated name keeps its place and takes the later value.
\<close>

definition sections :: "byte list \<Rightarrow> exn + section_map" where
  "sections b =
     bind_e (u32 b 32) (\<lambda>sh. bind_e (u16 b 46) (\<lambda>ent.
     bind_e (u16 b 48) (\<lambda>n. bind_e (u16 b 50) (\<lambda>st.
     bind_e (u32 b (sh + st * ent + 16)) (\<lambda>so.
     sections_loop b sh ent so (py_range n) [])))))"

subsection \<open>Images whose headers lie outside a range\<close>

text \<open>
  \<open>hdr_clear b lo hi\<close>: the file header, the section headers and the section names that the two
  walks above read all lie outside \<open>[lo, hi)\<close>.  It holds of a real image with \<open>[lo, hi)\<close> the
  contents of \<open>.text\<close>, so patching inside \<open>.text\<close> never changes where \<open>.text\<close> is.
\<close>

definition outside :: "nat \<Rightarrow> nat \<Rightarrow> int \<Rightarrow> int \<Rightarrow> bool" where
  "outside lo hi i j \<longleftrightarrow> 0 \<le> i \<and> (j \<le> int lo \<or> int hi \<le> i)"

definition name_clear :: "byte list \<Rightarrow> nat \<Rightarrow> nat \<Rightarrow> int \<Rightarrow> bool" where
  "name_clear b lo hi i \<longleftrightarrow> (case index_nul b i of
     Inl _ \<Rightarrow> False | Inr e \<Rightarrow> outside lo hi i (e + 1))"

definition hdr_clear :: "byte list \<Rightarrow> nat \<Rightarrow> nat \<Rightarrow> bool" where
  "hdr_clear b lo hi \<longleftrightarrow> 52 \<le> lo \<and>
     (case bind_e (u32 b 32) (\<lambda>sh. bind_e (u16 b 46) (\<lambda>ent. bind_e (u16 b 48) (\<lambda>n.
        bind_e (u16 b 50) (\<lambda>st. bind_e (u32 b (sh + st * ent + 16)) (\<lambda>so.
        Inr (sh, ent, n, st, so)))))) of
        Inl _ \<Rightarrow> False
      | Inr (sh, ent, n, st, so) \<Rightarrow>
          outside lo hi (sh + st * ent) (sh + st * ent + 40)
          \<and> (\<forall>i \<in> set (py_range n). outside lo hi (sh + i * ent) (sh + i * ent + 40)
               \<and> (case u32 b (sh + i * ent) of
                    Inl _ \<Rightarrow> False | Inr nm \<Rightarrow> name_clear b lo hi (so + nm))))"

lemma agree_name_clear:
  assumes "agree lo hi b b'" "name_clear b lo hi i"
  obtains e where "index_nul b i = Inr e" "index_nul b' i = Inr e"
    "slice b' i e = slice b i e"
proof -
  obtain e where e: "index_nul b i = Inr e" "outside lo hi i (e + 1)"
    using assms(2) by (auto simp: name_clear_def split: sum.splits)
  then have "index_nul b' i = Inr e"
    using agree_index_nul [OF assms(1) e(1)] by (auto simp: outside_def)
  moreover have "cstr b' i = cstr b i"
    using agree_cstr [OF assms(1) e(1)] e(2) by (auto simp: outside_def)
  ultimately show thesis using that e by (simp add: cstr_def)
qed

definition row_clear :: "byte list \<Rightarrow> nat \<Rightarrow> nat \<Rightarrow> int \<Rightarrow> int \<Rightarrow> bool" where
  "row_clear b lo hi so o' \<longleftrightarrow> outside lo hi o' (o' + 40)
     \<and> (case u32 b o' of Inl _ \<Rightarrow> False | Inr nm \<Rightarrow> name_clear b lo hi (so + nm))"

lemma row_clear_reads:
  assumes a: "agree lo hi b b'" and r: "row_clear b lo hi so o'"
  obtains nm e where "u32 b o' = Inr nm" "u32 b' o' = Inr nm"
    "index_nul b (so + nm) = Inr e" "index_nul b' (so + nm) = Inr e"
    "slice b' (so + nm) e = slice b (so + nm) e"
    "u32 b' (o' + 12) = u32 b (o' + 12)" "u32 b' (o' + 16) = u32 b (o' + 16)"
proof -
  obtain nm where nm: "u32 b o' = Inr nm" "name_clear b lo hi (so + nm)"
    and o': "outside lo hi o' (o' + 40)"
    using r by (auto simp: row_clear_def split: sum.splits)
  have "u32 b' o' = u32 b o'" "u32 b' (o' + 12) = u32 b (o' + 12)"
    "u32 b' (o' + 16) = u32 b (o' + 16)"
    using o' by (auto simp: outside_def intro!: agree_u32 [OF a])
  then show thesis using nm agree_name_clear [OF a nm(2)] that by metis
qed

lemma text_sec_loop_frame:
  assumes a: "agree lo hi b b'" and r: "\<forall>i \<in> set is. row_clear b lo hi so (sh + i * ent)"
  shows "text_sec_loop b' sh ent so is = text_sec_loop b sh ent so is"
  using r
proof (induction "is")
  case Nil
  then show ?case by simp
next
  case (Cons i "is")
  then obtain nm e where
    "u32 b (sh + i * ent) = Inr nm" "u32 b' (sh + i * ent) = Inr nm"
    "index_nul b (so + nm) = Inr e" "index_nul b' (so + nm) = Inr e"
    "slice b' (so + nm) e = slice b (so + nm) e"
    "u32 b' (sh + i * ent + 12) = u32 b (sh + i * ent + 12)"
    "u32 b' (sh + i * ent + 16) = u32 b (sh + i * ent + 16)"
    by (auto elim: row_clear_reads [OF a])
  then show ?case using Cons by (simp add: Let_def)
qed

lemma sections_loop_frame:
  assumes a: "agree lo hi b b'" and r: "\<forall>i \<in> set is. row_clear b lo hi so (sh + i * ent)"
  shows "sections_loop b' sh ent so is out = sections_loop b sh ent so is out"
  using r
proof (induction "is" arbitrary: out)
  case Nil
  then show ?case by simp
next
  case (Cons i "is")
  then obtain nm e where
    "u32 b (sh + i * ent) = Inr nm" "u32 b' (sh + i * ent) = Inr nm"
    "index_nul b (so + nm) = Inr e" "index_nul b' (so + nm) = Inr e"
    "slice b' (so + nm) e = slice b (so + nm) e"
    "u32 b' (sh + i * ent + 12) = u32 b (sh + i * ent + 12)"
    "u32 b' (sh + i * ent + 16) = u32 b (sh + i * ent + 16)"
    by (auto elim: row_clear_reads [OF a])
  then show ?case using Cons by (simp add: Let_def cong: bind_e_cong)
qed

lemma hdr_clear_reads:
  assumes a: "agree lo hi b b'" and c: "hdr_clear b lo hi"
  obtains sh ent n st so where
    "u32 b 32 = Inr sh" "u32 b' 32 = Inr sh" "u16 b 46 = Inr ent" "u16 b' 46 = Inr ent"
    "u16 b 48 = Inr n" "u16 b' 48 = Inr n" "u16 b 50 = Inr st" "u16 b' 50 = Inr st"
    "u32 b (sh + st * ent + 16) = Inr so" "u32 b' (sh + st * ent + 16) = Inr so"
    "\<forall>i \<in> set (py_range n). row_clear b lo hi so (sh + i * ent)"
proof -
  obtain sh ent n st so where h: "52 \<le> lo"
    "u32 b 32 = Inr sh" "u16 b 46 = Inr ent" "u16 b 48 = Inr n" "u16 b 50 = Inr st"
    "u32 b (sh + st * ent + 16) = Inr so" "outside lo hi (sh + st * ent) (sh + st * ent + 40)"
    "\<forall>i \<in> set (py_range n). row_clear b lo hi so (sh + i * ent)"
    using c unfolding hdr_clear_def row_clear_def
    by (auto split: sum.splits)
  moreover have "u32 b' 32 = u32 b 32" "u16 b' 46 = u16 b 46" "u16 b' 48 = u16 b 48"
    "u16 b' 50 = u16 b 50" using h(1) by (auto intro!: agree_u32 [OF a] agree_u16 [OF a])
  moreover have "u32 b' (sh + st * ent + 16) = u32 b (sh + st * ent + 16)"
    using h(7) by (auto simp: outside_def intro!: agree_u32 [OF a])
  ultimately show thesis using that by simp
qed

lemma text_sec_frame:
  assumes "agree lo hi b b'" "hdr_clear b lo hi"
  shows "text_sec b' = text_sec b"
  by (rule hdr_clear_reads [OF assms]) (simp add: text_sec_def text_sec_loop_frame [OF assms(1)])

lemma sections_frame:
  assumes "agree lo hi b b'" "hdr_clear b lo hi"
  shows "sections b' = sections b"
  by (rule hdr_clear_reads [OF assms]) (simp add: sections_def sections_loop_frame [OF assms(1)])

lemma name_clear_frame:
  assumes "agree lo hi b b'" "name_clear b lo hi i"
  shows "name_clear b' lo hi i"
proof -
  obtain e where e: "index_nul b i = Inr e" "index_nul b' i = Inr e"
    using agree_name_clear [OF assms] by blast
  then show ?thesis using assms(2) by (simp add: name_clear_def)
qed

lemma row_clear_frame:
  assumes "agree lo hi b b'" "row_clear b lo hi so o'"
  shows "row_clear b' lo hi so o'"
proof -
  obtain nm where "u32 b o' = Inr nm" "u32 b' o' = Inr nm"
    using row_clear_reads [OF assms] by blast
  then show ?thesis using assms name_clear_frame by (auto simp: row_clear_def)
qed

lemma hdr_clear_frame:
  assumes a: "agree lo hi b b'" and c: "hdr_clear b lo hi"
  shows "hdr_clear b' lo hi"
  by (rule hdr_clear_reads [OF assms])
    (use c row_clear_frame [OF a] in \<open>auto simp: hdr_clear_def row_clear_def [symmetric]\<close>)

subsection \<open>Patching one site, and a table of sites\<close>

text \<open>
  A site is \<open>(vaddr, old, new, name)\<close>.  \<open>patch_site\<close> is the closure \<open>patch(fo, old, new, name, where)\<close>
  of the patchers: it returns the image and whether it wrote (\<open>True\<close>, counted in \<open>done\<close>) or found the
  new bytes already there (\<open>False\<close>, counted in \<open>skip\<close>).
\<close>

type_synonym site = "int \<times> byte list \<times> byte list \<times> string"

definition patch_site ::
  "int \<Rightarrow> byte list \<Rightarrow> byte list \<Rightarrow> string \<Rightarrow> byte list \<Rightarrow> exn + byte list \<times> bool" where
  "patch_site fo old new name buf =
     (let cur = slice buf fo (fo + int (length old)) in
      if cur = new then Inr (buf, False)
      else if cur = old then Inr (splice buf fo (fo + int (length new)) new, True)
      else Inl (SystemExit (''ABORT '' @ name)))"

text \<open>The loop \<open>for vaddr, old, new, name in TEXT: patch(toff + (vaddr - taddr), ...)\<close>.\<close>

fun patch_sites ::
  "int \<Rightarrow> int \<Rightarrow> site list \<Rightarrow> byte list \<times> nat \<times> nat \<Rightarrow> exn + byte list \<times> nat \<times> nat" where
  "patch_sites off addr [] s = Inr s"
| "patch_sites off addr ((vaddr, old, new, name) # ps) (buf, done, skip) =
     bind_e (patch_site (off + (vaddr - addr)) old new name buf) (\<lambda>(buf', wrote).
     patch_sites off addr ps
       (if wrote then (buf', Suc done, skip) else (buf', done, Suc skip)))"

text \<open>
  The older patchers run the same loop with \<open>assert len(old)==len(new), name\<close> in front of each
  site.
\<close>

fun assert_patch_sites ::
  "int \<Rightarrow> int \<Rightarrow> site list \<Rightarrow> byte list \<times> nat \<times> nat \<Rightarrow> exn + byte list \<times> nat \<times> nat" where
  "assert_patch_sites off addr [] s = Inr s"
| "assert_patch_sites off addr ((vaddr, old, new, name) # ps) (buf, done, skip) =
     (if length old \<noteq> length new then Inl (AssertionError name)
      else bind_e (patch_site (off + (vaddr - addr)) old new name buf) (\<lambda>(buf', wrote).
        assert_patch_sites off addr ps
          (if wrote then (buf', Suc done, skip) else (buf', done, Suc skip))))"

text \<open>
  A canary is a site that must hold known bytes and is never written; the loops over \<open>CANARY\<close>,
  \<open>PRODUCER\<close> and the like abort at the first that does not.
\<close>

type_synonym canary = "int \<times> byte list \<times> string"

fun check_canaries :: "int \<Rightarrow> int \<Rightarrow> canary list \<Rightarrow> byte list \<Rightarrow> exn + unit" where
  "check_canaries off addr [] buf = Inr ()"
| "check_canaries off addr ((vaddr, want, what) # cs) buf =
     (let fo = off + (vaddr - addr) in
      if slice buf fo (fo + int (length want)) \<noteq> want
      then Inl (SystemExit (''ABORT canary '' @ what))
      else check_canaries off addr cs buf)"

subsection \<open>What the loop does to an image\<close>

text \<open>
  \<open>apply_new off addr ps b\<close> writes the new bytes of every site, in order, without looking.  A run
  of the loop that ends well has computed exactly that, and it has counted every site once.
\<close>

definition write_site :: "int \<Rightarrow> int \<Rightarrow> site \<Rightarrow> byte list \<Rightarrow> byte list" where
  "write_site off addr e b = (case e of (vaddr, old, new, name) \<Rightarrow>
     overwrite (clip (length b) (off + (vaddr - addr))) new b)"

definition apply_new :: "int \<Rightarrow> int \<Rightarrow> site list \<Rightarrow> byte list \<Rightarrow> byte list" where
  "apply_new off addr ps b = fold (write_site off addr) ps b"

definition site_ok :: "site \<Rightarrow> bool" where
  "site_ok e \<longleftrightarrow> (case e of (vaddr, old, new, name) \<Rightarrow>
     length old = length new \<and> old \<noteq> [] \<and> old \<noteq> new)"

lemma site_ok_simp [simp]:
  "site_ok (vaddr, old, new, name) \<longleftrightarrow> length old = length new \<and> old \<noteq> [] \<and> old \<noteq> new"
  by (simp add: site_ok_def)

lemma patch_site_Inr:
  assumes "patch_site fo old new name buf = Inr (buf', wrote)"
    "length old = length new" "old \<noteq> []"
  shows "clip (length buf) fo + length new \<le> length buf"
    and "buf' = overwrite (clip (length buf) fo) new buf"
    and "sub (clip (length buf) fo) (length new) buf = (if wrote then old else new)"
proof -
  let ?s = "slice buf fo (fo + int (length old))"
  have l: "length ?s = length new" "0 < length new"
    using assms by (auto simp: patch_site_def Let_def split: if_splits)
  have e: "fo + int (length old) = fo + int (length new)" using assms(2) by simp
  note f = slice_full [OF l [unfolded e]]
  show r: "clip (length buf) fo + length new \<le> length buf" by (rule f(1))
  have s': "?s = (if wrote then old else new)"
    using assms by (auto simp: patch_site_def Let_def split: if_splits)
  then show s: "sub (clip (length buf) fo) (length new) buf = (if wrote then old else new)"
    unfolding e f(2) .
  show "buf' = overwrite (clip (length buf) fo) new buf"
  proof (cases wrote)
    case True
    then have "buf' = splice buf fo (fo + int (length new)) new"
      using assms(1) by (auto simp: patch_site_def Let_def split: if_splits)
    then show ?thesis using f(3) [OF refl] by (rule trans)
  next
    case False
    then have "buf' = buf" using assms(1) by (auto simp: patch_site_def Let_def split: if_splits)
    then show ?thesis using False s overwrite_sub [OF r] by simp
  qed
qed

lemma patch_site_total:
  assumes "clip (length buf) fo + length new \<le> length buf" "0 \<le> fo" "fo + int (length new) \<le> int (length buf)"
    "length old = length new" "sub (clip (length buf) fo) (length new) buf \<in> {old, new}"
  shows "patch_site fo old new name buf =
    Inr (overwrite (clip (length buf) fo) new buf, sub (clip (length buf) fo) (length new) buf \<noteq> new)"
proof -
  have c: "clip (length buf) fo = nat fo" using assms by (auto simp: clip_def)
  have s: "slice buf fo (fo + int (length old)) = sub (nat fo) (length new) buf"
    using slice_eq_sub [of fo "length old" buf] assms(2-4) by simp
  have p: "splice buf fo (fo + int (length new)) new = overwrite (nat fo) new buf"
    using assms(2,3) by (simp add: splice_def overwrite_def clip_id Let_def nat_add_distrib)
  have r: "nat fo + length new \<le> length buf" using assms(1) c by simp
  show ?thesis
  proof (cases "sub (nat fo) (length new) buf = new")
    case True
    then show ?thesis using s overwrite_sub [OF r] by (simp add: patch_site_def c)
  next
    case False
    then have "sub (nat fo) (length new) buf = old" using assms(5) c by simp
    then show ?thesis using False s p by (simp add: patch_site_def c)
  qed
qed

lemma patch_sites_Inr:
  assumes "patch_sites off addr ps (b, d, s) = Inr (b', d', s')" "\<forall>e \<in> set ps. site_ok e"
  shows "length b' = length b" "d' + s' = d + s + length ps" "d \<le> d'" "s \<le> s'"
    "b' = apply_new off addr ps b"
    "\<forall>(vaddr, old, new, name) \<in> set ps.
       clip (length b) (off + (vaddr - addr)) + length new \<le> length b"
  using assms
proof (induction ps arbitrary: b d s)
  case (Cons e ps)
  obtain vaddr old new name where e: "e = (vaddr, old, new, name)" by (cases e)
  {
    case 1
    then obtain b1 w where p: "patch_site (off + (vaddr - addr)) old new name b = Inr (b1, w)"
      and r: "patch_sites off addr ps (if w then (b1, Suc d, s) else (b1, d, Suc s)) = Inr (b', d', s')"
      by (auto simp: e)
    have "length old = length new" "old \<noteq> []" using 1 by (auto simp: e)
    note ps = patch_site_Inr [OF p this]
    have l: "length b1 = length b" using ps(1,2) by simp
    note IH = Cons.IH [of b1 "if w then Suc d else d" "if w then s else Suc s"]
    have r': "patch_sites off addr ps (b1, if w then Suc d else d, if w then s else Suc s) = Inr (b', d', s')"
      using r by (auto split: if_splits)
    have ok: "\<forall>e \<in> set ps. site_ok e" using 1 by simp
    note IH = IH(1) [OF r' ok] IH(2) [OF r' ok] IH(3) [OF r' ok] IH(4) [OF r' ok]
      IH(5) [OF r' ok] IH(6) [OF r' ok]
    have "length b' = length b \<and> d' + s' = d + s + length (e # ps) \<and> d \<le> d' \<and> s \<le> s'
      \<and> b' = apply_new off addr (e # ps) b
      \<and> (\<forall>(vaddr, old, new, name) \<in> set (e # ps).
            clip (length b) (off + (vaddr - addr)) + length new \<le> length b)"
      using IH l ps by (auto simp: e apply_new_def write_site_def split: if_splits)
  }
  note main = this
  {
    case 1 show ?case using main [OF 1] by blast
  next
    case 2 show ?case using main [OF 2] by blast
  next
    case 3 show ?case using main [OF 3] by blast
  next
    case 4 show ?case using main [OF 4] by blast
  next
    case 5 show ?case using main [OF 5] by blast
  next
    case 6 show ?case using main [OF 6] by blast
  }
qed (simp_all add: apply_new_def)

lemma assert_patch_sites_eq:
  "\<forall>e \<in> set ps. site_ok e \<Longrightarrow> assert_patch_sites off addr ps st = patch_sites off addr ps st"
proof (induction ps st rule: patch_sites.induct)
  case (2 off addr vaddr old new name ps buf "done" skip)
  then show ?case by (auto intro!: bind_e_cong)
qed simp

end
