(* ===== verification/Site_Tables.thy ===== *)
theory Site_Tables
  imports Text_Sites
begin

text \<open>
  What a well-formed table of sites promises.  A table is \<open>consistent\<close> when every entry replaces
  a non-empty byte string by a different one of the same length and any two entries are either
  disjoint or repeat the same edit.  The abstract specification of a run is pointwise: byte by
  byte, the patched image is the table where the table speaks and the input elsewhere
  (\<open>site_byte\<close>).  The locale \<open>site_table\<close> derives from consistency alone what every patcher over
  such a table does; \<open>site_tree\<close> is a sorted index by which the consistency of the real tables is
  checked.
\<close>

subsection \<open>Consistent tables\<close>

definition compat :: "site \<Rightarrow> site \<Rightarrow> bool" where
  "compat e f \<longleftrightarrow> (case (e, f) of ((v, old, new, _), (v', old', new', _)) \<Rightarrow>
     v + int (length new) \<le> v' \<or> v' + int (length new') \<le> v \<or> (v = v' \<and> old = old' \<and> new = new'))"

definition consistent :: "site list \<Rightarrow> bool" where
  "consistent ps \<longleftrightarrow> (\<forall>e \<in> set ps. site_ok e) \<and> (\<forall>e \<in> set ps. \<forall>f \<in> set ps. compat e f)"

fun site_byte :: "site list \<Rightarrow> int \<Rightarrow> byte option" where
  "site_byte [] a = None"
| "site_byte ((vaddr, old, new, name) # ps) a =
     (if vaddr \<le> a \<and> a < vaddr + int (length new) then Some (new ! nat (a - vaddr))
      else site_byte ps a)"

text \<open>
  \<open>room off addr lo hi ps\<close>: every site of the table lies in the file range \<open>[lo, hi)\<close>, where
  \<open>.text\<close> starts at file offset \<open>off\<close> and address \<open>addr\<close>.
\<close>

definition room :: "int \<Rightarrow> int \<Rightarrow> nat \<Rightarrow> nat \<Rightarrow> site list \<Rightarrow> bool" where
  "room off addr lo hi ps \<longleftrightarrow> (\<forall>(vaddr, old, new, name) \<in> set ps.
     int lo \<le> off + (vaddr - addr) \<and> off + (vaddr - addr) + int (length new) \<le> int hi)"

definition site_read :: "int \<Rightarrow> int \<Rightarrow> byte list \<Rightarrow> site \<Rightarrow> byte list" where
  "site_read off addr b e = (case e of (vaddr, old, new, name) \<Rightarrow>
     sub (nat (off + (vaddr - addr))) (length new) b)"

definition old_of :: "site \<Rightarrow> byte list" where "old_of e = fst (snd e)"
definition new_of :: "site \<Rightarrow> byte list" where "new_of e = fst (snd (snd e))"
definition edit_of :: "site \<Rightarrow> int \<times> byte list \<times> byte list" where
  "edit_of e = (fst e, old_of e, new_of e)"

definition all_new :: "int \<Rightarrow> int \<Rightarrow> site list \<Rightarrow> byte list \<Rightarrow> bool" where
  "all_new off addr ps b \<longleftrightarrow> (\<forall>e \<in> set ps. site_read off addr b e = new_of e)"

definition all_old :: "int \<Rightarrow> int \<Rightarrow> site list \<Rightarrow> byte list \<Rightarrow> bool" where
  "all_old off addr ps b \<longleftrightarrow> (\<forall>e \<in> set ps. site_read off addr b e = old_of e)"

definition all_known :: "int \<Rightarrow> int \<Rightarrow> site list \<Rightarrow> byte list \<Rightarrow> bool" where
  "all_known off addr ps b \<longleftrightarrow> (\<forall>e \<in> set ps. site_read off addr b e \<in> {old_of e, new_of e})"

lemma site_fields [simp]:
  "old_of (v, old, new, name) = old" "new_of (v, old, new, name) = new"
  "edit_of (v, old, new, name) = (v, old, new)"
  by (simp_all add: old_of_def new_of_def edit_of_def)

lemma all_old_known: "all_old off addr ps b \<Longrightarrow> all_known off addr ps b"
  by (auto simp: all_old_def all_known_def)

lemma all_new_known: "all_new off addr ps b \<Longrightarrow> all_known off addr ps b"
  by (auto simp: all_new_def all_known_def)

lemma consistent_subset: "consistent qs \<Longrightarrow> set ps \<subseteq> set qs \<Longrightarrow> consistent ps"
  unfolding consistent_def by blast

lemma consistent_Cons: "consistent (e # ps) \<Longrightarrow> consistent ps"
  by (erule consistent_subset) auto

lemma room_Cons [simp]: "room off addr lo hi ((v, old, new, name) # ps) \<longleftrightarrow>
    int lo \<le> off + (v - addr) \<and> off + (v - addr) + int (length new) \<le> int hi \<and> room off addr lo hi ps"
  by (auto simp: room_def)

lemma room_Nil [simp]: "room off addr lo hi []"
  by (simp add: room_def)

lemma room_append [simp]:
  "room off addr lo hi (ps @ qs) \<longleftrightarrow> room off addr lo hi ps \<and> room off addr lo hi qs"
  unfolding room_def by (simp add: ball_Un)

lemma room_mono: "room off addr lo hi ps \<Longrightarrow> lo' \<le> lo \<Longrightarrow> hi \<le> hi' \<Longrightarrow> room off addr lo' hi' ps"
  by (induction ps) auto

subsection \<open>One write\<close>

lemma clip_site:
  "0 \<le> off + (v - addr) \<Longrightarrow> off + (v - addr) + int n \<le> int (length b) \<Longrightarrow>
   clip (length b) (off + (v - addr)) = nat (off + (v - addr))"
  by (rule clip_id) auto

lemma site_fits:
  "room off addr 0 (length b) [(v, old, new, name)] \<Longrightarrow>
   nat (off + (v - addr)) + length new \<le> length b"
  by (simp add: nat_add_distrib [symmetric]) linarith

lemma write_site_eq:
  "room off addr 0 (length b) [(v, old, new, name)] \<Longrightarrow>
   write_site off addr (v, old, new, name) b = overwrite (nat (off + (v - addr))) new b"
  by (auto simp: write_site_def clip_site)

lemma length_write_site [simp]:
  "room off addr 0 (length b) [e] \<Longrightarrow> length (write_site off addr e b) = length b"
  by (cases e) (auto simp: write_site_eq)

lemma nth_write_site:
  assumes "room off addr 0 (length b) [(v, old, new, name)]" "i < length b"
  shows "write_site off addr (v, old, new, name) b ! i =
    (if v \<le> int i - off + addr \<and> int i - off + addr < v + int (length new)
     then new ! nat (int i - off + addr - v) else b ! i)"
proof -
  have "0 \<le> off + (v - addr)" using assms(1) by simp
  then obtain p where p: "off + (v - addr) = int p" by (rule nonneg_int_cases)
  have "p + length new \<le> length b" using assms(1) p by simp
  moreover have "v \<le> int i - off + addr \<longleftrightarrow> p \<le> i"
    "int i - off + addr < v + int (length new) \<longleftrightarrow> i < p + length new"
    "nat (int i - off + addr - v) = i - p" using p by linarith+
  ultimately show ?thesis unfolding write_site_eq [OF assms(1)] p
    using assms(2) by (simp add: nth_overwrite)
qed

lemma site_read_write_same:
  "room off addr 0 (length b) [e] \<Longrightarrow> site_read off addr (write_site off addr e b) e = new_of e"
  by (cases e) (auto simp: site_read_def write_site_eq intro!: sub_overwrite_same)

lemma site_read_write_compat:
  assumes "room off addr 0 (length b) [e]" "room off addr 0 (length b) [f]" "compat e f"
  shows "site_read off addr (write_site off addr e b) f =
    (if edit_of f = edit_of e then new_of e else site_read off addr b f)"
proof -
  obtain v old new name v' old' new' name' where
    ef: "e = (v, old, new, name)" "f = (v', old', new', name')" by (cases e, cases f)
  show ?thesis
  proof (cases "edit_of f = edit_of e")
    case True
    then show ?thesis using site_read_write_same [OF assms(1)] by (auto simp: ef site_read_def)
  next
    case False
    then have "v + int (length new) \<le> v' \<or> v' + int (length new') \<le> v"
      using assms(3) by (auto simp: compat_def ef)
    then have "sub (nat (off + (v' - addr))) (length new') (overwrite (nat (off + (v - addr))) new b)
        = sub (nat (off + (v' - addr))) (length new') b"
      using assms(1,2) by (intro sub_overwrite_disjoint) (auto simp: ef)
    then show ?thesis using False assms(1) by (auto simp: ef site_read_def write_site_eq)
  qed
qed

lemma patch_site_known:
  assumes "room off addr 0 (length b) [(v, old, new, name)]" "length old = length new"
    "site_read off addr b (v, old, new, name) \<in> {old, new}"
  shows "patch_site (off + (v - addr)) old new name b =
    Inr (write_site off addr (v, old, new, name) b, site_read off addr b (v, old, new, name) \<noteq> new)"
proof -
  have c: "clip (length b) (off + (v - addr)) = nat (off + (v - addr))"
    using assms(1) by (auto intro: clip_site)
  show ?thesis using assms
    by (subst patch_site_total) (auto simp: c site_read_def write_site_def)
qed

subsection \<open>A whole table\<close>

lemma apply_new_Cons [simp]:
  "apply_new off addr (e # ps) b = apply_new off addr ps (write_site off addr e b)"
  by (simp add: apply_new_def)

lemma apply_new_Nil [simp]: "apply_new off addr [] b = b"
  by (simp add: apply_new_def)

lemma apply_new_append:
  "apply_new off addr (ps @ qs) b = apply_new off addr qs (apply_new off addr ps b)"
  by (simp add: apply_new_def)

lemma length_apply_new [simp]:
  "room off addr 0 (length b) ps \<Longrightarrow> length (apply_new off addr ps b) = length b"
proof (induction ps arbitrary: b)
  case (Cons e ps)
  have "room off addr 0 (length b) [e]" "room off addr 0 (length b) ps"
    using Cons.prems by (cases e; simp)+
  then show ?case using Cons.IH [of "write_site off addr e b"] by simp
qed simp

lemma site_byte_compat:
  assumes "\<forall>f \<in> set ps. compat e f" "site_byte ps a = Some x" "fst e \<le> a"
    "a < fst e + int (length (new_of e))"
  shows "x = new_of e ! nat (a - fst e)"
  using assms
proof (induction ps)
  case (Cons f ps)
  then show ?case by (cases e; cases f) (auto simp: compat_def split: if_splits)
qed simp

theorem nth_apply_new:
  assumes "consistent ps" "room off addr 0 (length b) ps" "i < length b"
  shows "apply_new off addr ps b ! i =
    (case site_byte ps (int i - off + addr) of Some x \<Rightarrow> x | None \<Rightarrow> b ! i)"
  using assms
proof (induction ps arbitrary: b)
  case Nil
  then show ?case by simp
next
  case (Cons e ps)
  obtain v old new name where e: "e = (v, old, new, name)" by (cases e)
  let ?a = "int i - off + addr"
  have r: "room off addr 0 (length b) [e]" "room off addr 0 (length b) ps"
    using Cons.prems(2) by (auto simp: e)
  have "apply_new off addr (e # ps) b ! i =
      (case site_byte ps ?a of Some x \<Rightarrow> x | None \<Rightarrow> write_site off addr e b ! i)"
    using Cons.IH [of "write_site off addr e b"] consistent_Cons [OF Cons.prems(1)] r Cons.prems(3)
    by simp
  moreover have "x = new ! nat (?a - v)"
    if "site_byte ps ?a = Some x" "v \<le> ?a" "?a < v + int (length new)" for x
    using site_byte_compat [of ps e ?a x] that Cons.prems(1) by (auto simp: consistent_def e)
  moreover note nth_write_site [OF r(1) [unfolded e] Cons.prems(3)]
  ultimately show ?case by (auto simp: e split: option.splits)
qed

lemma agree_apply_new:
  assumes "room off addr lo hi ps" "hi \<le> length b"
  shows "agree lo hi b (apply_new off addr ps b)"
  using assms
proof (induction ps arbitrary: b)
  case (Cons e ps)
  obtain v old new name where e: "e = (v, old, new, name)" by (cases e)
  have r: "room off addr 0 (length b) [(v, old, new, name)]"
    using Cons.prems by (auto simp: e)
  have "agree lo hi b (write_site off addr e b)"
    using Cons.prems r unfolding e write_site_eq [OF r] by (intro agree_overwrite) auto
  moreover have "agree lo hi (write_site off addr e b) (apply_new off addr ps (write_site off addr e b))"
    using Cons.IH [of "write_site off addr e b"] Cons.prems r by (simp add: e)
  ultimately show ?case by (auto intro: agree_trans)
qed simp

lemma all_known_write:
  assumes "consistent (e # ps)" "room off addr 0 (length b) (e # ps)"
    and k: "site_read off addr b e \<in> {old_of e, new_of e}"
  shows "all_known off addr ps (write_site off addr e b) \<longleftrightarrow> all_known off addr ps b"
proof -
  have "site_read off addr (write_site off addr e b) f \<in> {old_of f, new_of f}
      \<longleftrightarrow> site_read off addr b f \<in> {old_of f, new_of f}" if f: "f \<in> set ps" for f
  proof -
    have "compat e f" using assms(1) f by (simp add: consistent_def)
    moreover have "room off addr 0 (length b) [e]" "room off addr 0 (length b) [f]"
      using assms(2) f by (auto simp: room_def)
    ultimately have s: "site_read off addr (write_site off addr e b) f =
        (if edit_of f = edit_of e then new_of e else site_read off addr b f)"
      using site_read_write_compat by blast
    show ?thesis
    proof (cases "edit_of f = edit_of e")
      case True
      then have "site_read off addr b f = site_read off addr b e" "new_of f = new_of e" "old_of f = old_of e"
        by (cases e; cases f; simp add: site_read_def)+
      then show ?thesis using s True k by simp
    qed (simp add: s)
  qed
  then show ?thesis by (auto simp: all_known_def)
qed

theorem patch_sites_ok_iff:
  assumes "consistent ps" "room off addr 0 (length b) ps"
  shows "(\<exists>r. patch_sites off addr ps (b, d, s) = Inr r) \<longleftrightarrow> all_known off addr ps b"
  using assms
proof (induction ps arbitrary: b d s)
  case Nil
  then show ?case by (simp add: all_known_def)
next
  case (Cons e ps)
  obtain v old new name where e: "e = (v, old, new, name)" by (cases e)
  have ok: "length old = length new" "old \<noteq> []" using Cons.prems(1) by (auto simp: consistent_def e)
  have r: "room off addr 0 (length b) [(v, old, new, name)]" "room off addr 0 (length b) ps"
    using Cons.prems(2) by (auto simp: e)
  let ?rd = "site_read off addr b e"
  show ?case
  proof (cases "?rd \<in> {old, new}")
    case True
    note p = patch_site_known [OF r(1) ok(1) True [unfolded e]]
    have "(\<exists>r. patch_sites off addr ps (write_site off addr e b, d', s') = Inr r)
        \<longleftrightarrow> all_known off addr ps b" for d' s'
      using Cons.IH [of "write_site off addr e b"] consistent_Cons [OF Cons.prems(1)] r
        all_known_write [OF Cons.prems] True by (simp add: e)
    then show ?thesis using p True by (auto simp: e all_known_def)
  next
    case False
    have "\<nexists>x. patch_site (off + (v - addr)) old new name b = Inr x"
    proof
      assume "\<exists>x. patch_site (off + (v - addr)) old new name b = Inr x"
      then obtain b' w where "patch_site (off + (v - addr)) old new name b = Inr (b', w)" by auto
      from patch_site_Inr(3) [OF this ok] show False
        using False r(1) clip_site [of off v addr "length new" b]
        by (auto simp: e site_read_def split: if_splits)
    qed
    then show ?thesis using False by (auto simp: e all_known_def)
  qed
qed

lemma all_new_apply_new:
  assumes "consistent ps" "room off addr 0 (length b) ps"
  shows "all_new off addr ps (apply_new off addr ps b)"
proof -
  have "site_read off addr (apply_new off addr ps b) e = new_of e" if e: "e \<in> set ps" for e
  proof -
    obtain v old new name where ee: "e = (v, old, new, name)" by (cases e)
    have r: "0 \<le> off + (v - addr)" "off + (v - addr) + int (length new) \<le> int (length b)"
      using assms(2) e by (fastforce simp: room_def ee)+
    have "site_byte ps (v + int k) = Some (new ! k)" if k: "k < length new" for k
    proof -
      have "\<exists>x. site_byte ps (v + int k) = Some x"
        using e k unfolding ee by (induction ps) auto
      then show ?thesis using site_byte_compat [of ps e "v + int k"] assms(1) e k
        by (auto simp: consistent_def ee)
    qed
    then show ?thesis using r nth_apply_new [OF assms] assms(2)
      by (auto simp: ee site_read_def sub_eq_nth algebra_simps)
  qed
  then show ?thesis by (simp add: all_new_def)
qed

lemma apply_new_all_new:
  assumes "consistent ps" "room off addr 0 (length b) ps" "all_new off addr ps b"
  shows "apply_new off addr ps b = b"
  using assms
proof (induction ps arbitrary: b)
  case (Cons e ps)
  obtain v old new name where e: "e = (v, old, new, name)" by (cases e)
  have r: "room off addr 0 (length b) [(v, old, new, name)]" using Cons.prems(2) by (simp add: e)
  have "sub (nat (off + (v - addr))) (length new) b = new"
    using Cons.prems(3) by (auto simp: all_new_def site_read_def e)
  then have "write_site off addr e b = b"
    using overwrite_sub [of "nat (off + (v - addr))" "length new" b] site_fits [OF r]
    unfolding e write_site_eq [OF r] by simp
  then show ?case using Cons.IH [of b] Cons.prems consistent_Cons [OF Cons.prems(1)]
    by (simp add: e all_new_def)
qed simp

lemma apply_new_commute:
  assumes "consistent (ps @ qs)" "room off addr 0 (length b) (ps @ qs)"
  shows "apply_new off addr ps (apply_new off addr qs b) = apply_new off addr qs (apply_new off addr ps b)"
proof (rule nth_equalityI)
  have c: "consistent ps" "consistent qs" using assms(1) by (auto intro: consistent_subset)
  have r: "room off addr 0 (length b) ps" "room off addr 0 (length b) qs" using assms(2) by simp_all
  show "length (apply_new off addr ps (apply_new off addr qs b)) =
      length (apply_new off addr qs (apply_new off addr ps b))" using r by simp
  fix i assume "i < length (apply_new off addr ps (apply_new off addr qs b))"
  then have i: "i < length b" using r by simp
  let ?a = "int i - off + addr"
  have "x = y" if "site_byte ps ?a = Some x" "site_byte qs ?a = Some y" for x y
  proof -
    have "\<exists>e \<in> set ps. fst e \<le> ?a \<and> ?a < fst e + int (length (new_of e)) \<and> x = new_of e ! nat (?a - fst e)"
      using that(1) by (induction ps) (auto split: if_splits)
    then obtain e where e: "e \<in> set ps" "fst e \<le> ?a" "?a < fst e + int (length (new_of e))"
      "x = new_of e ! nat (?a - fst e)" by blast
    have "\<forall>f \<in> set qs. compat e f" using assms(1) e(1) by (auto simp: consistent_def)
    from site_byte_compat [OF this that(2) e(2,3)] e(4) show ?thesis by simp
  qed
  then show "apply_new off addr ps (apply_new off addr qs b) ! i =
      apply_new off addr qs (apply_new off addr ps b) ! i"
    using nth_apply_new [OF c(1), of off addr "apply_new off addr qs b" i]
      nth_apply_new [OF c(2), of off addr "apply_new off addr ps b" i]
      nth_apply_new [OF c(1) r(1) i] nth_apply_new [OF c(2) r(2) i] r i
    by (auto split: option.splits)
qed

lemma all_known_apply_new:
  assumes "consistent (ps @ qs)" "room off addr 0 (length b) (ps @ qs)" "all_known off addr (ps @ qs) b"
  shows "all_known off addr qs (apply_new off addr ps b)"
  using assms
proof (induction ps arbitrary: b)
  case (Cons e ps)
  have r: "room off addr 0 (length b) [e]" using Cons.prems(2) by (cases e; simp)
  have "all_known off addr (ps @ qs) (write_site off addr e b)"
    using all_known_write [of e "ps @ qs" off addr b] Cons.prems by (simp add: all_known_def)
  moreover have "consistent (ps @ qs)" using Cons.prems(1) by (auto intro: consistent_Cons)
  ultimately show ?case using Cons.IH [of "write_site off addr e b"] Cons.prems(2) r by (cases e) simp
qed simp

text \<open>
  How a run counts.  If every site still holds its old bytes, except that the edits in \<open>S\<close> have
  been made, the run writes each remaining distinct edit once and skips the rest.
\<close>

lemma patch_sites_counts:
  assumes "consistent ps" "room off addr 0 (length b) ps"
    "\<forall>e \<in> set ps. site_read off addr b e = (if edit_of e \<in> S then new_of e else old_of e)"
  shows "patch_sites off addr ps (b, d, s) = Inr (apply_new off addr ps b,
    d + card (edit_of ` set ps - S), s + (length ps - card (edit_of ` set ps - S)))"
  using assms
proof (induction ps arbitrary: b d s S)
  case Nil
  then show ?case by simp
next
  case (Cons e ps)
  obtain v old new name where e: "e = (v, old, new, name)" by (cases e)
  have ok: "length old = length new" "old \<noteq> new" using Cons.prems(1) by (auto simp: consistent_def e)
  have r: "room off addr 0 (length b) [(v, old, new, name)]" "room off addr 0 (length b) ps"
    using Cons.prems(2) by (auto simp: e)
  have rd: "site_read off addr b e = (if edit_of e \<in> S then new else old)"
    using Cons.prems(3) by (auto simp: e)
  then have "site_read off addr b (v, old, new, name) \<in> {old, new}" by (auto simp: e)
  note p = patch_site_known [OF r(1) ok(1) this]
  let ?b = "write_site off addr e b" and ?S = "insert (edit_of e) S"
  have st: "\<forall>f \<in> set ps. site_read off addr ?b f = (if edit_of f \<in> ?S then new_of f else old_of f)"
  proof
    fix f assume f: "f \<in> set ps"
    have "compat e f" using Cons.prems(1) f by (simp add: consistent_def)
    moreover have "room off addr 0 (length b) [e]" "room off addr 0 (length b) [f]"
      using Cons.prems(2) f by (auto simp: room_def)
    ultimately have "site_read off addr ?b f =
        (if edit_of f = edit_of e then new_of e else site_read off addr b f)"
      using site_read_write_compat by blast
    moreover have "new_of f = new_of e" if "edit_of f = edit_of e"
      using that by (simp add: edit_of_def)
    ultimately show "site_read off addr ?b f = (if edit_of f \<in> ?S then new_of f else old_of f)"
      using Cons.prems(3) f by auto
  qed
  have IH: "patch_sites off addr ps (?b, d', s') = Inr (apply_new off addr ps ?b,
      d' + card (edit_of ` set ps - ?S), s' + (length ps - card (edit_of ` set ps - ?S)))" for d' s'
    using Cons.IH [OF consistent_Cons [OF Cons.prems(1)] _ st] r by (simp add: e)
  have fin: "finite (edit_of ` set ps - ?S)" by simp
  have "card (edit_of ` set ps - ?S) \<le> card (edit_of ` set ps)"
    by (intro card_mono) auto
  also have "\<dots> \<le> length ps" using card_image_le [of "set ps" edit_of] card_length [of ps] by simp
  finally have le: "card (edit_of ` set ps - ?S) \<le> length ps" .
  show ?case
  proof (cases "edit_of e \<in> S")
    case True
    then have "edit_of ` set (e # ps) - S = edit_of ` set ps - ?S" by auto
    moreover have "patch_sites off addr (e # ps) (b, d, s) = patch_sites off addr ps (?b, d, Suc s)"
      using p rd True by (simp add: e)
    ultimately show ?thesis using IH [of d "Suc s"] le by simp
  next
    case False
    then have "edit_of ` set (e # ps) - S = insert (edit_of e) (edit_of ` set ps - ?S)" by auto
    then have "card (edit_of ` set (e # ps) - S) = Suc (card (edit_of ` set ps - ?S))"
      using fin by simp
    moreover have "patch_sites off addr (e # ps) (b, d, s) = patch_sites off addr ps (?b, Suc d, s)"
      using p rd False ok by (simp add: e)
    ultimately show ?thesis using IH [of "Suc d" s] le by simp
  qed
qed

definition n_edits :: "site list \<Rightarrow> nat" where
  "n_edits ps = length (remdups (map edit_of ps))"

lemma n_edits_addr:
  assumes "consistent ps" shows "n_edits ps = length (remdups (map fst ps))"
proof -
  have "inj_on fst (edit_of ` set ps)"
  proof (rule inj_onI)
    fix x y assume "x \<in> edit_of ` set ps" "y \<in> edit_of ` set ps" and eq: "fst x = fst y"
    then obtain e f where ef: "e \<in> set ps" "f \<in> set ps" "x = edit_of e" "y = edit_of f" by blast
    then have "compat e f" "site_ok e" "site_ok f" using assms by (auto simp: consistent_def)
    then show "x = y" using eq ef by (cases e; cases f) (auto simp: compat_def)
  qed
  then have "card (fst ` edit_of ` set ps) = card (edit_of ` set ps)" by (rule card_image)
  moreover have "fst ` edit_of ` set ps = fst ` set ps"
    unfolding image_image edit_of_def by simp
  ultimately show ?thesis by (simp add: n_edits_def length_remdups_card_conv)
qed

lemma n_edits_card: "n_edits ps = card (edit_of ` set ps)"
  by (simp add: n_edits_def length_remdups_card_conv)

subsection \<open>The contract of a table\<close>

locale site_table =
  fixes tbl :: "site list"
  assumes consistent: "consistent tbl"
begin

lemma sites_ok: "\<forall>e \<in> set tbl. site_ok e"
  using consistent by (simp add: consistent_def)

lemma asserts_hold: "assert_patch_sites off addr tbl st = patch_sites off addr tbl st"
  by (rule assert_patch_sites_eq [OF sites_ok])

text \<open>A run that ends well has applied the whole table and counted every site.\<close>

lemma run_result:
  assumes "patch_sites off addr tbl (b, 0, 0) = Inr (b', d, s)"
  shows "b' = apply_new off addr tbl b" "length b' = length b" "d + s = length tbl"
  using patch_sites_Inr [OF assms sites_ok] by simp_all

lemma run_ok_iff:
  "room off addr 0 (length b) tbl \<Longrightarrow>
   (\<exists>r. patch_sites off addr tbl (b, d, s) = Inr r) \<longleftrightarrow> all_known off addr tbl b"
  by (rule patch_sites_ok_iff [OF consistent])

text \<open>The refinement of the byte-by-byte specification.\<close>

lemma run_bytes:
  assumes "patch_sites off addr tbl (b, 0, 0) = Inr (b', d, s)" "room off addr 0 (length b) tbl"
    "i < length b"
  shows "b' ! i = (case site_byte tbl (int i - off + addr) of Some x \<Rightarrow> x | None \<Rightarrow> b ! i)"
  using run_result(1) [OF assms(1)] nth_apply_new [OF consistent assms(2,3)] by simp

lemma run_all_new:
  assumes "patch_sites off addr tbl (b, 0, 0) = Inr (b', d, s)" "room off addr 0 (length b) tbl"
  shows "all_new off addr tbl b'"
  using run_result(1) [OF assms(1)] all_new_apply_new [OF consistent assms(2)] by simp

lemma rerun:
  assumes "all_new off addr tbl b" "room off addr 0 (length b) tbl"
  shows "patch_sites off addr tbl (b, 0, 0) = Inr (b, 0, length tbl)"
  using patch_sites_counts [OF consistent assms(2), of "edit_of ` set tbl" 0 0] assms(1)
    apply_new_all_new [OF consistent assms(2,1)] by (auto simp: all_new_def)

lemma run_stock:
  assumes "all_old off addr tbl b" "room off addr 0 (length b) tbl"
  shows "patch_sites off addr tbl (b, 0, 0) =
    Inr (apply_new off addr tbl b, n_edits tbl, length tbl - n_edits tbl)"
  using patch_sites_counts [OF consistent assms(2), of "{}" 0 0] assms(1)
  by (auto simp: all_old_def n_edits_card)

end

subsection \<open>The site index\<close>

text \<open>
  \<open>site_tree\<close> holds edits sorted by address.  When the edits of its in-order walk are well-formed
  and do not overlap, any table all of whose edits are found in it is consistent; so is the
  concatenation of two such tables.  The checks are linear in the tree and in the table.
\<close>

datatype site_tree = Tip | Bin site_tree int "byte list" "byte list" site_tree

fun walk :: "site_tree \<Rightarrow> (int \<times> byte list \<times> byte list) list" where
  "walk Tip = []"
| "walk (Bin l v old new r) = walk l @ (v, old, new) # walk r"

fun chain :: "(int \<times> byte list \<times> byte list) list \<Rightarrow> bool" where
  "chain [] = True"
| "chain [(v, old, new)] = (length old = length new \<and> old \<noteq> [] \<and> old \<noteq> new)"
| "chain ((v, old, new) # (v', old', new') # es) =
     (length old = length new \<and> old \<noteq> [] \<and> old \<noteq> new \<and> v + int (length new) \<le> v'
      \<and> chain ((v', old', new') # es))"

fun indexed :: "site_tree \<Rightarrow> site \<Rightarrow> bool" where
  "indexed Tip e = False"
| "indexed (Bin l v old new r) (v', old', new', name) =
     (if v' < v then indexed l (v', old', new', name)
      else if v < v' then indexed r (v', old', new', name)
      else old = old' \<and> new = new')"

lemma indexed_walk: "indexed t e \<Longrightarrow> edit_of e \<in> set (walk t)"
  by (induction t e rule: indexed.induct) (auto split: if_splits)

lemma chain_Cons_le:
  "chain (e # es) \<Longrightarrow> f \<in> set es \<Longrightarrow> fst e + int (length (snd (snd e))) \<le> fst f"
proof (induction es arbitrary: e)
  case (Cons g es)
  then show ?case by (cases e; cases g) fastforce
qed simp

lemma chain_tl: "chain (e # es) \<Longrightarrow> chain es"
  by (cases es; cases e) auto

lemma chain_ok: "chain es \<Longrightarrow> (v, old, new) \<in> set es \<Longrightarrow> length old = length new \<and> old \<noteq> [] \<and> old \<noteq> new"
  by (induction es rule: chain.induct) auto

lemma chain_disjoint:
  "chain es \<Longrightarrow> e \<in> set es \<Longrightarrow> f \<in> set es \<Longrightarrow>
   e = f \<or> fst e + int (length (snd (snd e))) \<le> fst f \<or> fst f + int (length (snd (snd f))) \<le> fst e"
proof (induction es)
  case (Cons g es)
  have "e = g \<or> e \<in> set es" "f = g \<or> f \<in> set es" using Cons.prems by auto
  then show ?case
    using chain_Cons_le [OF Cons.prems(1), of e] chain_Cons_le [OF Cons.prems(1), of f]
      Cons.IH [OF chain_tl [OF Cons.prems(1)]] by blast
qed simp

theorem indexed_consistent:
  assumes "chain (walk t)" "\<forall>e \<in> set ps. indexed t e"
  shows "consistent ps"
proof -
  have "site_ok e" if "e \<in> set ps" for e
    using chain_ok [OF assms(1)] indexed_walk assms(2) that by (cases e) fastforce
  moreover have "compat e f" if "e \<in> set ps" "f \<in> set ps" for e f
  proof -
    have "edit_of e \<in> set (walk t)" "edit_of f \<in> set (walk t)"
      using assms(2) that indexed_walk by blast+
    from chain_disjoint [OF assms(1) this] show ?thesis
      by (cases e; cases f) (auto simp: compat_def)
  qed
  ultimately show ?thesis by (simp add: consistent_def)
qed


text \<open>\<open>gap t a b\<close>: no edit of the index touches the addresses \<open>a \<le> x < b\<close>.\<close>

fun gap :: "site_tree \<Rightarrow> int \<Rightarrow> int \<Rightarrow> bool" where
  "gap Tip a b = True"
| "gap (Bin l v old new r) a b =
     (if b \<le> v then gap l a b else if v + int (length new) \<le> a then gap r a b else False)"

lemma chain_appendD:
  "chain (xs @ ys) \<Longrightarrow> chain xs \<and> chain ys \<and>
   (\<forall>x \<in> set xs. \<forall>y \<in> set ys. fst x + int (length (snd (snd x))) \<le> fst y)"
proof (induction xs)
  case (Cons x xs)
  have c: "chain (xs @ ys)" using Cons.prems chain_tl [of x "xs @ ys"] by simp
  have "length (fst (snd x)) = length (snd (snd x)) \<and> fst (snd x) \<noteq> [] \<and> fst (snd x) \<noteq> snd (snd x)"
    using chain_ok [OF Cons.prems, of "fst x" "fst (snd x)" "snd (snd x)"] by simp
  then have "chain (x # xs)" using Cons.prems Cons.IH [OF c] by (cases xs; cases x) auto
  then show ?case using Cons.IH [OF c] chain_Cons_le [of x "xs @ ys"] Cons.prems by auto
qed simp

lemma gap_walk:
  "chain (walk t) \<Longrightarrow> gap t a b \<Longrightarrow> (v, old, new) \<in> set (walk t) \<Longrightarrow> b \<le> v \<or> v + int (length new) \<le> a"
proof (induction t a b rule: gap.induct)
  case (2 l u o' n' r a b)
  have c: "chain (walk l)" "chain (walk r)"
    "\<forall>x \<in> set (walk l). fst x + int (length (snd (snd x))) \<le> u"
    "\<forall>y \<in> set (walk r). u + int (length n') \<le> fst y"
    using chain_appendD [of "walk l" "(u, o', n') # walk r"] chain_appendD [of "[(u, o', n')]" "walk r"] 2
    by auto
  from 2(5) consider "(v, old, new) \<in> set (walk l)" | "v = u" "new = n'" | "(v, old, new) \<in> set (walk r)"
    by auto
  then show ?case
  proof cases
    case 1
    then have "v + int (length new) \<le> u" using c(3) by fastforce
    then show ?thesis using 2 1 c(1) by (auto split: if_splits)
  next
    case 3
    then have "u + int (length n') \<le> v" using c(4) by fastforce
    then show ?thesis using 2 3 c(2) by (auto split: if_splits)
  qed (use 2 in \<open>auto split: if_splits\<close>)
qed simp

lemma indexed_site_table:
  "chain (walk t) \<Longrightarrow> list_all (indexed t) ps \<Longrightarrow> site_table ps"
  by (rule site_table.intro, rule indexed_consistent) (auto simp: list_all_iff)

subsection \<open>Byte constants the tables share\<close>

text \<open>\<open>#2047 -> #4095\<close> and \<open>#2048 -> #4096\<close> as long immediates, under both names the files use.\<close>

definition A47 :: "byte list" where "A47 = [0x00, 0x00, 0x07, 0xff]"
definition A95 :: "byte list" where "A95 = [0x00, 0x00, 0x0f, 0xff]"
definition A48 :: "byte list" where "A48 = [0x00, 0x00, 0x08, 0x00]"
definition A96 :: "byte list" where "A96 = [0x00, 0x00, 0x10, 0x00]"
definition R47 :: "byte list" where "R47 = [0x00, 0x00, 0x07, 0xff]"
definition R95 :: "byte list" where "R95 = [0x00, 0x00, 0x0f, 0xff]"
definition NOP :: "byte list" where "NOP = [0x4e, 0x71]"

lemmas byte_consts = A47_def A95_def A48_def A96_def R47_def R95_def NOP_def

subsection \<open>Tables with groups\<close>

text \<open>
  \<open>set((os.environ.get(VAR) or default).split(","))\<close>: the groups an environment variable selects,
  as a list used only for membership.
\<close>

fun split_comma :: "string \<Rightarrow> string \<Rightarrow> string list" where
  "split_comma cur [] = [rev cur]"
| "split_comma cur (c # cs) =
     (if c = CHR '','' then rev cur # split_comma [] cs else split_comma (c # cur) cs)"

definition env_groups :: "string option \<Rightarrow> string \<Rightarrow> string list" where
  "env_groups env dflt = split_comma [] (case env of None \<Rightarrow> dflt | Some v \<Rightarrow> if v = [] then dflt else v)"

definition startswith :: "string \<Rightarrow> string \<Rightarrow> bool" where
  "startswith s p \<longleftrightarrow> take (length p) s = p"

text \<open>
  The loop over \<open>(grp, vaddr, old, new, name)\<close> with \<open>if grp not in GROUPS: off += 1; continue\<close>, and
  the loop of the older patchers that derives the group from the name after their \<open>assert\<close>.
\<close>

fun group_sites ::
  "string list \<Rightarrow> int \<Rightarrow> int \<Rightarrow> (string \<times> site) list \<Rightarrow> byte list \<times> nat \<times> nat \<times> nat
   \<Rightarrow> exn + byte list \<times> nat \<times> nat \<times> nat" where
  "group_sites gs off addr [] st = Inr st"
| "group_sites gs off addr ((grp, vaddr, old, new, name) # ps) (buf, done, skip, noff) =
     (if grp \<notin> set gs then group_sites gs off addr ps (buf, done, skip, Suc noff)
      else bind_e (patch_site (off + (vaddr - addr)) old new name buf) (\<lambda>(buf', wrote).
        group_sites gs off addr ps
          (if wrote then (buf', Suc done, skip, noff) else (buf', done, Suc skip, noff))))"

fun assert_group_sites ::
  "(string \<Rightarrow> string) \<Rightarrow> string list \<Rightarrow> int \<Rightarrow> int \<Rightarrow> site list \<Rightarrow> byte list \<times> nat \<times> nat \<times> nat
   \<Rightarrow> exn + byte list \<times> nat \<times> nat \<times> nat" where
  "assert_group_sites group_of gs off addr [] st = Inr st"
| "assert_group_sites group_of gs off addr ((vaddr, old, new, name) # ps) (buf, done, skip, noff) =
     (if length old \<noteq> length new then Inl (AssertionError name)
      else if group_of name \<notin> set gs
      then assert_group_sites group_of gs off addr ps (buf, done, skip, Suc noff)
      else bind_e (patch_site (off + (vaddr - addr)) old new name buf) (\<lambda>(buf', wrote).
        assert_group_sites group_of gs off addr ps
          (if wrote then (buf', Suc done, skip, noff) else (buf', done, Suc skip, noff))))"

definition selected :: "string list \<Rightarrow> (string \<times> site) list \<Rightarrow> site list" where
  "selected gs ps = map snd (filter (\<lambda>e. fst e \<in> set gs) ps)"

definition with_group :: "(string \<Rightarrow> string) \<Rightarrow> site list \<Rightarrow> (string \<times> site) list" where
  "with_group group_of ps = map (\<lambda>e. (group_of (snd (snd (snd e))), e)) ps"

lemma set_selected: "set (selected gs ps) \<subseteq> snd ` set ps"
  by (auto simp: selected_def)

text \<open>Either loop is the plain loop over the selected sites, and counts the others.\<close>

lemma group_sites_eq:
  "group_sites gs off addr ps (b, d, s, n) =
   bind_e (patch_sites off addr (selected gs ps) (b, d, s))
     (\<lambda>(b', d', s'). Inr (b', d', s', n + (length ps - length (selected gs ps))))"
proof (induction ps arbitrary: b d s n)
  case Nil
  then show ?case by (simp add: selected_def)
next
  case (Cons e ps)
  obtain g v old new name where e: "e = (g, v, old, new, name)" by (cases e)
  have le: "length (selected gs ps) \<le> length ps" by (simp add: selected_def)
  show ?case
  proof (cases "g \<in> set gs")
    case True
    then have sel: "selected gs (e # ps) = (v, old, new, name) # selected gs ps"
      by (simp add: selected_def e)
    show ?thesis
      by (cases "patch_site (off + (v - addr)) old new name b") (auto simp: sel [unfolded e] e True Cons.IH)
  next
    case False
    then have sel: "selected gs (e # ps) = selected gs ps" by (simp add: selected_def e)
    show ?thesis using False le by (simp add: sel [unfolded e] e Cons.IH Suc_diff_le)
  qed
qed

lemma assert_group_sites_eq:
  "\<forall>e \<in> set ps. site_ok e \<Longrightarrow>
   assert_group_sites group_of gs off addr ps st = group_sites gs off addr (with_group group_of ps) st"
proof (induction ps arbitrary: st)
  case (Cons e ps)
  obtain v old new name where e: "e = (v, old, new, name)" by (cases e)
  obtain b d s n where st: "st = (b, d, s, n)" by (cases st)
  show ?case using Cons
    by (auto simp: e st with_group_def intro!: bind_e_cong)
qed (simp add: with_group_def)

end
