(* ===== verification/Stock_Image.thy ===== *)
theory Stock_Image
  imports Site_Tables
begin

text \<open>
  A concrete kernel image for the witnesses: a 32-bit big-endian ET_REL file with a null section,
  \<open>.text\<close> (address 0, file offset 192, 0xd7200 bytes), \<open>.shstrtab\<close> and \<open>.data\<close>, whose \<open>.text\<close> is zero
  except that it holds the old bytes of every site of a given table.
\<close>

definition text_bytes :: nat where
  "text_bytes = 881152"

definition text_zeros :: "byte list" where
  "text_zeros = replicate text_bytes 0"

definition be32 :: "int \<Rightarrow> byte list" where
  "be32 k = [word_of_int (k div 16777216), word_of_int (k div 65536), word_of_int (k div 256), word_of_int k]"

definition stock_hdr :: "byte list" where
  "stock_hdr =
     [0x7f, 0x45, 0x4c, 0x46, 1, 2, 1, 0, 0, 0, 0, 0, 0, 0, 0, 0,
      0, 1, 0, 4, 0, 0, 0, 1, 0, 0, 0, 0, 0, 0, 0, 0,
      0, 0, 0, 72, 0, 0, 0, 0, 0, 52, 0, 0, 0, 0, 0, 40, 0, 3, 0, 2,
      0, 0x2e, 0x74, 0x65, 0x78, 0x74, 0, 0x2e, 0x73, 0x68, 0x73, 0x74, 0x72, 0x74, 0x61, 0x62, 0, 0, 0, 0,
      0, 0, 0, 0, 0, 0, 0, 0, 0, 0, 0, 0, 0, 0, 0, 0, 0, 0, 0, 0,
      0, 0, 0, 0, 0, 0, 0, 0, 0, 0, 0, 0, 0, 0, 0, 0, 0, 0, 0, 0,
      0, 0, 0, 1, 0, 0, 0, 1, 0, 0, 0, 6, 0, 0, 0, 0, 0, 0, 0, 192,
      0, 0x0d, 0x72, 0, 0, 0, 0, 0, 0, 0, 0, 0, 0, 0, 0, 4, 0, 0, 0, 0,
      0, 0, 0, 7, 0, 0, 0, 3, 0, 0, 0, 0, 0, 0, 0, 0, 0, 0, 0, 52,
      0, 0, 0, 20, 0, 0, 0, 0, 0, 0, 0, 0, 0, 0, 0, 1, 0, 0, 0, 0]"

definition blank_image :: "byte list" where
  "blank_image = stock_hdr @ text_zeros"

definition revert :: "site list \<Rightarrow> site list" where
  "revert ps = map (\<lambda>(v, old, new, name). (v, new, old, name)) ps"

definition stock_image :: "site list \<Rightarrow> byte list" where
  "stock_image ps = apply_new 192 0 (revert ps) blank_image"

lemma length_stock_hdr: "length stock_hdr = 192"
  by (simp add: stock_hdr_def)

lemma length_blank: "length blank_image = 192 + text_bytes"
  by (simp add: blank_image_def length_stock_hdr text_zeros_def)

lemma slice_blank:
  assumes "0 \<le> i" "i \<le> j" "j \<le> 192"
  shows "slice blank_image i j = take (nat j - nat i) (drop (nat i) stock_hdr)"
proof -
  have "clip (length blank_image) i = nat i" "clip (length blank_image) j = nat j"
    using assms by (auto simp: length_blank intro!: clip_id)
  then show ?thesis using assms
    by (simp add: slice_def Let_def blank_image_def length_stock_hdr)
qed

lemma index_nul_blank:
  assumes "0 \<le> i" "i < 192" "k = length (takeWhile (\<lambda>x. x \<noteq> 0) (drop (nat i) stock_hdr))" "nat i + k < 192"
  shows "index_nul blank_image i = Inr (i + int k)"
proof -
  have c: "clip (length blank_image) i = nat i" using assms by (auto simp: length_blank intro!: clip_id)
  let ?d = "drop (nat i) stock_hdr"
  have "takeWhile (\<lambda>x. x \<noteq> 0) ?d \<noteq> ?d"
  proof
    assume "takeWhile (\<lambda>x. x \<noteq> 0) ?d = ?d"
    then have "k = length ?d" by (simp only: assms(3))
    then show False using assms by (simp add: length_stock_hdr)
  qed
  then obtain x where "x \<in> set ?d" "\<not> x \<noteq> 0" unfolding takeWhile_eq_all_conv by blast
  then have "takeWhile (\<lambda>x. x \<noteq> 0) (?d @ text_zeros) = takeWhile (\<lambda>x. x \<noteq> 0) ?d"
    by (rule takeWhile_append1)
  moreover have "drop (nat i) blank_image = ?d @ text_zeros"
    using assms by (simp add: blank_image_def length_stock_hdr)
  ultimately show ?thesis using assms
    by (simp add: index_nul_def c [unfolded length_blank] Let_def length_blank)
qed

lemma py_range_3: "py_range 3 = [0, 1, 2]"
  by (simp add: py_range_def upto.simps)

lemmas blank_eval = u32_def u16_def slice_blank index_nul_blank stock_hdr_def unpack_I_def
  unpack_H_def py_range_3 ascii_def

lemma text_sec_blank: "text_sec blank_image = Inr (0, 192)"
  by (simp add: text_sec_def blank_eval)

lemma sections_blank: "sections blank_image =
    Inr [([], 0, 0, 0), (''.text'', 1, 0, 192), (''.shstrtab'', 2, 0, 52)]"
  by (simp add: sections_def blank_eval decode_utf8_def byte_char_def char_of_def bit_0)

lemma hdr_clear_blank: "hdr_clear blank_image 192 (192 + text_bytes)"
  by (simp add: hdr_clear_def name_clear_def outside_def blank_eval)

subsection \<open>The image that holds the old bytes of a table\<close>

fun swap_site :: "site \<Rightarrow> site" where
  "swap_site (v, old, new, name) = (v, new, old, name)"

lemma revert_swap: "revert ps = map swap_site ps"
  unfolding revert_def by (rule map_cong) auto

lemma site_ok_swap [simp]: "site_ok (swap_site e) \<longleftrightarrow> site_ok e"
  by (cases e) auto

lemma compat_swap: "site_ok e \<Longrightarrow> site_ok f \<Longrightarrow> compat e f \<Longrightarrow> compat (swap_site e) (swap_site f)"
  by (cases e; cases f) (auto simp: compat_def)

lemma consistent_revert: "consistent ps \<Longrightarrow> consistent (revert ps)"
  unfolding consistent_def revert_swap by (auto intro: compat_swap)

lemma room_revert: "\<forall>e \<in> set ps. site_ok e \<Longrightarrow> room off addr lo hi (revert ps) \<longleftrightarrow> room off addr lo hi ps"
  by (induction ps) (auto simp: revert_def)

lemma all_old_revert:
  "\<forall>e \<in> set ps. site_ok e \<Longrightarrow> all_new off addr (revert ps) b \<longleftrightarrow> all_old off addr ps b"
  by (induction ps) (auto simp: all_new_def all_old_def revert_def site_read_def)

lemma stock_image_facts:
  assumes "consistent ps" "room 192 0 192 (192 + text_bytes) ps"
  shows "length (stock_image ps) = 192 + text_bytes"
    and "text_sec (stock_image ps) = Inr (0, 192)"
    and "sections (stock_image ps) = Inr [([], 0, 0, 0), (''.text'', 1, 0, 192), (''.shstrtab'', 2, 0, 52)]"
    and "agree 192 (192 + text_bytes) blank_image (stock_image ps)"
    and "all_old 192 0 ps (stock_image ps)"
    and "hdr_clear (stock_image ps) 192 (192 + text_bytes)"
proof -
  have ok: "\<forall>e \<in> set ps. site_ok e" using assms(1) by (simp add: consistent_def)
  have r: "room 192 0 192 (192 + text_bytes) (revert ps)"
    using assms(2) room_revert [OF ok] by blast
  then show a: "agree 192 (192 + text_bytes) blank_image (stock_image ps)"
    unfolding stock_image_def by (rule agree_apply_new) (simp add: length_blank)
  then show "length (stock_image ps) = 192 + text_bytes" by (simp add: agree_def length_blank)
  show "text_sec (stock_image ps) = Inr (0, 192)"
    using text_sec_frame [OF a hdr_clear_blank] text_sec_blank by simp
  show "sections (stock_image ps) = Inr [([], 0, 0, 0), (''.text'', 1, 0, 192), (''.shstrtab'', 2, 0, 52)]"
    using sections_frame [OF a hdr_clear_blank] sections_blank by simp
  show "hdr_clear (stock_image ps) 192 (192 + text_bytes)"
    by (rule hdr_clear_frame [OF a hdr_clear_blank])
  have "room 192 0 0 (length blank_image) (revert ps)"
    using r by (rule room_mono) (auto simp: length_blank)
  from all_new_apply_new [OF consistent_revert [OF assms(1)] this]
  show "all_old 192 0 ps (stock_image ps)" using all_old_revert [OF ok] by (simp add: stock_image_def)
qed

end
