(* ===== verification/Text_Patcher.thy ===== *)
theory Text_Patcher
  imports Stock_Image
begin

text \<open>
  The contract of a patcher script that edits one table of \<open>.text\<close> sites.  The client sees a
  script that finds \<open>.text\<close> (\<open>locate\<close>), may assert some bytes first (\<open>pre\<close>), runs the loop over a
  consistent table, may assert some bytes of the result (\<open>post\<close>) and writes the file only at the
  end.  From that contract follow, once for all patchers: a failing run leaves the file alone, a
  successful run computes the byte-by-byte specification, success is decided by the bytes at the
  sites, and a second run changes nothing.
\<close>

definition text_of_sections :: "byte list \<Rightarrow> exn + int \<times> int" where
  "text_of_sections b = bind_e (sections b) (\<lambda>secs.
     bind_e (dict_get ''.text'' secs) (\<lambda>(tidx, taddr, toff). Inr (taddr, toff)))"

definition no_check :: "int \<Rightarrow> int \<Rightarrow> byte list \<Rightarrow> exn + unit" where
  "no_check off addr b = Inr ()"

lemma no_check_simp [simp]: "no_check off addr b = Inr ()"
  by (simp add: no_check_def)

lemma text_of_sections_frame:
  "agree lo hi b b' \<Longrightarrow> hdr_clear b lo hi \<Longrightarrow> text_of_sections b' = text_of_sections b"
  by (simp add: text_of_sections_def sections_frame)

lemma check_canaries_ok_iff:
  "check_canaries off addr cs b = Inr () \<longleftrightarrow>
   (\<forall>(vaddr, want, what) \<in> set cs.
      slice b (off + (vaddr - addr)) (off + (vaddr - addr) + int (length want)) = want)"
  by (induction off addr cs b rule: check_canaries.induct) (auto simp: Let_def)

text \<open>How the pieces can fail: finding \<open>.text\<close> never calls \<open>sys.exit\<close>.\<close>

definition no_exit :: "exn \<Rightarrow> bool" where
  "no_exit e \<longleftrightarrow> (case e of SystemExit _ \<Rightarrow> False | _ \<Rightarrow> True)"

lemma no_exit_reads:
  "u32 b i = Inl e \<Longrightarrow> no_exit e" "u16 b i = Inl e \<Longrightarrow> no_exit e" "index_nul b i = Inl e \<Longrightarrow> no_exit e"
  "decode_utf8 s = Inl e \<Longrightarrow> no_exit e" "dict_get k d = Inl e \<Longrightarrow> no_exit e"
  by (auto simp: no_exit_def u32_def u16_def unpack_I_def unpack_H_def index_nul_def decode_utf8_def
      dict_get_def Let_def split: list.splits if_splits option.splits)

lemma sections_loop_no_exit: "sections_loop b sh ent so is out = Inl e \<Longrightarrow> no_exit e"
  by (induction b sh ent so "is" out rule: sections_loop.induct)
    (auto simp: Let_def bind_e_Inl_iff dest: no_exit_reads)

lemma text_of_sections_no_exit: "text_of_sections b = Inl e \<Longrightarrow> no_exit e"
  by (auto simp: text_of_sections_def sections_def bind_e_Inl_iff dest: no_exit_reads sections_loop_no_exit)

lemma patch_sites_Inl: "patch_sites off addr ps st = Inl e \<Longrightarrow> \<exists>name. e = SystemExit (''ABORT '' @ name)"
  by (induction ps st rule: patch_sites.induct)
    (auto simp: bind_e_Inl_iff patch_site_def Let_def split: if_splits)

lemma check_canaries_Inl: "check_canaries off addr cs b = Inl e \<Longrightarrow> \<exists>what. e = SystemExit (''ABORT canary '' @ what)"
  by (induction off addr cs b rule: check_canaries.induct) (auto simp: Let_def split: if_splits)

text \<open>A canary that no site of the table touches is left as it was.\<close>

definition canary_apart :: "canary \<Rightarrow> site \<Rightarrow> bool" where
  "canary_apart c e \<longleftrightarrow> (case (c, e) of ((v, want, _), (v', old', new', _)) \<Rightarrow>
     v + int (length want) \<le> v' \<or> v' + int (length new') \<le> v)"

definition canaries_room :: "int \<Rightarrow> int \<Rightarrow> nat \<Rightarrow> canary list \<Rightarrow> bool" where
  "canaries_room off addr n cs \<longleftrightarrow> (\<forall>(v, want, _) \<in> set cs.
     0 \<le> off + (v - addr) \<and> off + (v - addr) + int (length want) \<le> int n)"

lemma check_canaries_write:
  assumes r: "room off addr 0 (length b) [e]" and c: "\<forall>c \<in> set cs. canary_apart c e"
    and cr: "canaries_room off addr (length b) cs"
  shows "check_canaries off addr cs (write_site off addr e b) = check_canaries off addr cs b"
  using c cr
proof (induction cs)
  case (Cons c cs)
  obtain v want what where cc: "c = (v, want, what)" by (cases c)
  obtain v' old new name where e: "e = (v', old, new, name)" by (cases e)
  let ?fo = "off + (v - addr)"
  have fo: "0 \<le> ?fo" "?fo + int (length want) \<le> int (length b)"
    using Cons.prems(2) by (auto simp: cc canaries_room_def)
  have sl: "slice b'' ?fo (?fo + int (length want)) = sub (nat ?fo) (length want) b''"
    if "length b'' = length b" for b'' :: "byte list"
    using fo that by (intro slice_eq_sub) auto
  have "sub (nat ?fo) (length want) (write_site off addr e b) = sub (nat ?fo) (length want) b"
    using Cons.prems(1) fo r site_fits [of off addr b v' old new name] unfolding e
    by (subst write_site_eq) (auto simp: cc canary_apart_def intro!: sub_overwrite_disjoint)
  then have "slice (write_site off addr e b) ?fo (?fo + int (length want)) = slice b ?fo (?fo + int (length want))"
    using r by (simp add: sl)
  moreover have "check_canaries off addr cs (write_site off addr e b) = check_canaries off addr cs b"
    using Cons by (auto simp: canaries_room_def)
  ultimately show ?case by (simp add: cc Let_def)
qed simp

lemma check_canaries_apply:
  assumes "room off addr 0 (length b) ps" "\<forall>c \<in> set cs. \<forall>e \<in> set ps. canary_apart c e"
    "canaries_room off addr (length b) cs"
  shows "check_canaries off addr cs (apply_new off addr ps b) = check_canaries off addr cs b"
  using assms
proof (induction ps arbitrary: b)
  case (Cons e ps)
  have "room off addr 0 (length b) [e]" "room off addr 0 (length b) ps"
    using Cons.prems(1) by (cases e; simp)+
  then show ?case using Cons check_canaries_write [of off addr b e cs] by simp
qed simp

subsection \<open>The checks on the counters\<close>

text \<open>
  \<open>if done and done != len(TEXT) and skip == 0: raise SystemExit("ABORT: partial ...")\<close>, which most
  groups run after their loop, and \<open>if done + skip != len(TEXT): sys.exit(1)\<close>, which some run after
  the file has been written.  Neither can fire: the loop has counted every site exactly once.
\<close>

definition partial_group :: "nat \<Rightarrow> nat \<Rightarrow> nat \<Rightarrow> bool" where
  "partial_group n done skip \<longleftrightarrow> done \<noteq> 0 \<and> done \<noteq> n \<and> skip = 0"

definition write_counted ::
  "nat \<Rightarrow> byte list \<Rightarrow> exn + byte list \<times> nat \<times> nat \<Rightarrow> byte list \<times> (exn + nat \<times> nat)" where
  "write_counted n b r = (case r of
     Inl e \<Rightarrow> (b, Inl e)
   | Inr (buf, done, skip) \<Rightarrow>
       (buf, if done + skip \<noteq> n then Inl (SystemExit ''1'') else Inr (done, skip)))"

definition write_counted_groups ::
  "nat \<Rightarrow> byte list \<Rightarrow> exn + byte list \<times> nat \<times> nat \<times> nat \<Rightarrow> byte list \<times> (exn + nat \<times> nat \<times> nat)" where
  "write_counted_groups n b r = (case r of
     Inl e \<Rightarrow> (b, Inl e)
   | Inr (buf, done, skip, noff) \<Rightarrow>
       (buf, if done + skip \<noteq> n then Inl (SystemExit ''1'') else Inr (done, skip, noff)))"

lemma write_back_cong:
  "m = m' \<Longrightarrow> write_back b m = write_back b m'" by simp

context site_table
begin

lemma partial_dead:
  "patch_sites off addr tbl (b, 0, 0) = Inr (buf, d, s) \<Longrightarrow> \<not> partial_group (length tbl) d s"
  by (drule run_result(3)) (auto simp: partial_group_def)

lemma bind_partial:
  "bind_e (patch_sites off addr tbl (b, 0, 0))
     (\<lambda>(buf, d, s). if partial_group (length tbl) d s then Inl e else f buf d s) =
   bind_e (patch_sites off addr tbl (b, 0, 0)) (\<lambda>(buf, d, s). f buf d s)"
  by (rule bind_e_cong) (auto dest: partial_dead)

lemma bind_counted:
  "bind_e (patch_sites off addr tbl (b, 0, 0))
     (\<lambda>(buf, d, s). if 0 < d \<and> d + s \<noteq> length tbl then Inl e else f buf d s) =
   bind_e (patch_sites off addr tbl (b, 0, 0)) (\<lambda>(buf, d, s). f buf d s)"
  by (rule bind_e_cong) (auto dest: run_result(3))

lemma write_counted_eq:
  "write_counted (length tbl) b (bind_e loc (\<lambda>(addr, off). bind_e (pre off addr b) (\<lambda>_.
     bind_e (patch_sites off addr tbl (b, 0, 0)) (\<lambda>(buf, d, s).
     bind_e (post off addr buf) (\<lambda>_. Inr (buf, d, s)))))) =
   write_back b (bind_e loc (\<lambda>(addr, off). bind_e (pre off addr b) (\<lambda>_.
     bind_e (patch_sites off addr tbl (b, 0, 0)) (\<lambda>(buf, d, s).
     bind_e (post off addr buf) (\<lambda>_. Inr (buf, (d, s)))))))"
  by (auto simp: write_counted_def write_back_def dest: run_result(3) split: sum.split)

lemma write_counted_groups_eq:
  "write_counted_groups (length tbl) b (bind_e loc (\<lambda>(addr, off). bind_e (pre off addr b) (\<lambda>_.
     bind_e (patch_sites off addr tbl (b, 0, 0)) (\<lambda>(buf, d, s).
     bind_e (post off addr buf) (\<lambda>_. Inr (buf, d, s, n)))))) =
   write_back b (bind_e loc (\<lambda>(addr, off). bind_e (pre off addr b) (\<lambda>_.
     bind_e (patch_sites off addr tbl (b, 0, 0)) (\<lambda>(buf, d, s).
     bind_e (post off addr buf) (\<lambda>_. Inr (buf, (d, s, n)))))))"
  by (auto simp: write_counted_groups_def write_back_def dest: run_result(3) split: sum.split)

end

subsection \<open>The contract\<close>

locale text_patcher = site_table tbl for tbl :: "site list" +
  fixes main :: "'r script"
    and locate :: "byte list \<Rightarrow> exn + int \<times> int"
    and pre post :: "int \<Rightarrow> int \<Rightarrow> byte list \<Rightarrow> exn + unit"
    and report :: "nat \<Rightarrow> nat \<Rightarrow> 'r"
  assumes main_steps: "main b = write_back b
      (bind_e (locate b) (\<lambda>(addr, off).
       bind_e (pre off addr b) (\<lambda>_.
       bind_e (patch_sites off addr tbl (b, 0, 0)) (\<lambda>(buf, d, s).
       bind_e (post off addr buf) (\<lambda>_. Inr (buf, report d s))))))"
    and locate_frame: "agree lo hi b b' \<Longrightarrow> hdr_clear b lo hi \<Longrightarrow> locate b' = locate b"
begin

lemma fail_closed: "main b = (b', Inl e) \<Longrightarrow> b' = b"
  by (auto simp: main_steps write_back_def split: sum.splits)

lemma pre_fails: "locate b = Inr (addr, off) \<Longrightarrow> pre off addr b = Inl e \<Longrightarrow> main b = (b, Inl e)"
  by (simp add: main_steps)

lemma fails_with:
  assumes "snd (main b) = Inl e"
  obtains "locate b = Inl e"
    | addr off where "pre off addr b = Inl e"
    | name where "e = SystemExit (''ABORT '' @ name)"
    | addr off buf where "post off addr buf = Inl e"
  using assms
  by (auto simp: main_steps write_back_def bind_e_Inl_iff dest!: patch_sites_Inl split: sum.splits prod.splits)

lemma ok_result:
  assumes "main b = (b', Inr r)"
  obtains addr off d s where "locate b = Inr (addr, off)" "pre off addr b = Inr ()"
    "patch_sites off addr tbl (b, 0, 0) = Inr (b', d, s)" "post off addr b' = Inr ()" "r = report d s"
  using assms by (auto simp: main_steps write_back_def split: sum.splits prod.splits)

lemma outcome:
  "case main b of
     (b', Inl e) \<Rightarrow> b' = b
   | (b', Inr r) \<Rightarrow> length b' = length b \<and> (\<exists>addr off d s.
       locate b = Inr (addr, off) \<and> b' = apply_new off addr tbl b \<and> d + s = length tbl \<and> r = report d s)"
proof (cases "main b")
  case (Pair b' o')
  show ?thesis
  proof (cases o')
    case (Inl e)
    then show ?thesis using Pair fail_closed [of b b' e] by simp
  next
    case (Inr r)
    with Pair have "main b = (b', Inr r)" by simp
    then obtain addr off d s where o: "locate b = Inr (addr, off)"
      "patch_sites off addr tbl (b, 0, 0) = Inr (b', d, s)" "r = report d s"
      by (rule ok_result)
    note res = run_result [OF o(2)]
    show ?thesis unfolding Pair Inr prod.case sum.case
      by (intro conjI exI [of _ addr] exI [of _ off] exI [of _ d] exI [of _ s])
        (rule res(2), rule o(1), rule res(1), rule res(3), rule o(3))
  qed
qed

lemma bytes:
  assumes "main b = (b', Inr r)" "locate b = Inr (addr, off)" "room off addr 0 (length b) tbl" "i < length b"
  shows "b' ! i = (case site_byte tbl (int i - off + addr) of Some x \<Rightarrow> x | None \<Rightarrow> b ! i)"
proof -
  obtain d s where "patch_sites off addr tbl (b, 0, 0) = Inr (b', d, s)"
    using assms(2) by (auto intro: ok_result [OF assms(1)])
  from run_bytes [OF this assms(3,4)] show ?thesis .
qed

lemma accepts_iff:
  assumes "locate b = Inr (addr, off)" "room off addr 0 (length b) tbl" "pre off addr b = Inr ()"
    "post off addr (apply_new off addr tbl b) = Inr ()"
  shows "(\<exists>r. snd (main b) = Inr r) \<longleftrightarrow> all_known off addr tbl b"
proof -
  have "post off addr buf = Inr ()" if "patch_sites off addr tbl (b, 0, 0) = Inr (buf, d, s)" for buf d s
    using run_result(1) [OF that] assms(4) by simp
  then have "(\<exists>r. snd (main b) = Inr r) \<longleftrightarrow> (\<exists>r. patch_sites off addr tbl (b, 0, 0) = Inr r)"
    using assms(1,3) by (auto simp: main_steps write_back_def split: sum.splits)
  then show ?thesis using run_ok_iff [OF assms(2)] by simp
qed

lemma step:
  assumes "locate b = Inr (addr, off)" "room off addr 0 (length b) tbl" "all_known off addr tbl b"
    "pre off addr b = Inr ()" "post off addr (apply_new off addr tbl b) = Inr ()"
  shows "\<exists>r. main b = (apply_new off addr tbl b, Inr r)"
proof -
  obtain b' d s where run: "patch_sites off addr tbl (b, 0, 0) = Inr (b', d, s)"
    using run_ok_iff [OF assms(2)] assms(3) by fastforce
  then show ?thesis using run_result(1) [OF run] assms by (simp add: main_steps)
qed

lemma idempotent:
  assumes m: "main b = (b', Inr r)" and loc: "locate b = Inr (addr, off)"
    and h: "hdr_clear b lo hi" "room off addr lo hi tbl" "hi \<le> length b"
    and p: "pre off addr b' = Inr ()"
  shows "main b' = (b', Inr (report 0 (length tbl)))"
proof -
  have r: "room off addr 0 (length b) tbl" using h by (auto intro: room_mono)
  obtain d s where run: "patch_sites off addr tbl (b, 0, 0) = Inr (b', d, s)" "post off addr b' = Inr ()"
    using loc by (auto intro: ok_result [OF m])
  have b': "b' = apply_new off addr tbl b" "length b' = length b" using run_result [OF run(1)] by auto
  have "agree lo hi b b'" using agree_apply_new [OF h(2,3)] b' by simp
  then have "locate b' = Inr (addr, off)" using locate_frame h(1) loc by simp
  moreover have "patch_sites off addr tbl (b', 0, 0) = Inr (b', 0, length tbl)"
    using rerun run_all_new [OF run(1) r] r b' by simp
  ultimately show ?thesis using p run(2) by (simp add: main_steps)
qed

lemma stock:
  assumes "locate b = Inr (addr, off)" "room off addr 0 (length b) tbl" "all_old off addr tbl b"
    "pre off addr b = Inr ()" "post off addr (apply_new off addr tbl b) = Inr ()"
  shows "main b = (apply_new off addr tbl b, Inr (report (n_edits tbl) (length tbl - n_edits tbl)))"
  using assms run_stock [OF assms(3,2)] by (simp add: main_steps)

end

subsection \<open>Scripts run one after the other\<close>

text \<open>
  The shell runs the scripts under \<open>set -e\<close>: a step is a script whose result is not used, and the
  first step that fails ends the run.
\<close>

type_synonym step = "byte list \<Rightarrow> byte list \<times> (exn + unit)"

definition step_of :: "'r script \<Rightarrow> step" where
  "step_of m b = (case m b of (b', r) \<Rightarrow> (b', map_sum id (\<lambda>_. ()) r))"

fun run_steps :: "step list \<Rightarrow> step" where
  "run_steps [] b = (b, Inr ())"
| "run_steps (m # ms) b = (case m b of (b', Inl e) \<Rightarrow> (b', Inl e) | (b', Inr _) \<Rightarrow> run_steps ms b')"

lemma step_of_simps [simp]:
  "m b = (b', Inr r) \<Longrightarrow> step_of m b = (b', Inr ())"
  "m b = (b', Inl e) \<Longrightarrow> step_of m b = (b', Inl e)"
  by (simp_all add: step_of_def)

end
