(* ===== verification/Kernel_Index.thy ===== *)
theory Kernel_Index
  imports Site_Tables
begin

text \<open>
  The index of every edit the modelled byte patchers make to \<open>.text\<close>, as a balanced tree sorted
  by address.  It is no part of the model: it is the certificate by which the tables of the
  patchers, which list their sites function by function, are checked to be consistent with
  themselves and with each other.  The subtrees are constants of their own, so that a lookup
  unfolds only the one it descends into.
\<close>

definition ix0 :: site_tree where
  "ix0 = (Bin (Bin (Bin (Bin (Bin Tip 0x38 [0xf0, 0x00, 0x24, 0x00] [0xf5, 0x18, 0x4e, 0x71]
     Tip) 0xb2 [0xf0, 0x00, 0x24, 0x00] [0xf5, 0x18, 0x4e, 0x71]
     Tip) 0x3ac [0xf0, 0x10, 0x9e, 0x11, 0xf0, 0x2f, 0x62, 0x00, 0x00, 0x04] [0x3f, 0x7c, 0x04, 0x00, 0x00, 0x04, 0x4e, 0x71, 0x4e, 0x71]
     (Bin Tip 0x3c4 [0xf0, 0x10, 0x82, 0x11, 0xf0, 0x2f, 0x62, 0x00, 0x00, 0x04] [0x4e, 0x71, 0x4e, 0x71, 0x4e, 0x71, 0x4e, 0x71, 0x4e, 0x71]
     Tip)) 0x8384 [0x78, 0x0b, 0xe8, 0xa8] [0x78, 0x0c, 0xe8, 0xa8]
     (Bin (Bin (Bin Tip 0xe0d2 [0x72, 0x0b, 0xe2, 0xa8] [0x72, 0x0c, 0xe2, 0xa8]
     Tip) 0x13cac [0x74, 0x0b, 0xe4, 0xa8] [0x74, 0x0c, 0xe4, 0xa8]
     Tip) 0x18ed8 [0xf0, 0x10, 0x40, 0x00] [0x4e, 0x71, 0x4e, 0x71]
     (Bin Tip 0x18ee2 [0xf0, 0x10, 0x4c, 0x00] [0x4e, 0x71, 0x4e, 0x71]
     Tip))) 0x18ee6 [0xf0, 0x10, 0x48, 0x00] [0x4e, 0x71, 0x4e, 0x71]
     (Bin (Bin (Bin (Bin Tip 0x20688 [0x06, 0x80, 0x00, 0x00, 0x07, 0xff] [0x06, 0x80, 0x00, 0x00, 0x00, 0x00]
     Tip) 0x2068e [0x72, 0x0b] [0x72, 0x0c]
     Tip) 0x20e1c [0x02, 0x80, 0x00, 0x00, 0x07, 0xff] [0x02, 0x80, 0x00, 0x00, 0x0f, 0xff]
     (Bin Tip 0x20e22 [0x04, 0x80, 0x00, 0x00, 0x08, 0x00] [0x04, 0x80, 0x00, 0x00, 0x10, 0x00]
     Tip)) 0x20e3c [0x02, 0x80, 0x00, 0x00, 0x07, 0xff] [0x02, 0x80, 0x00, 0x00, 0x0f, 0xff]
     (Bin (Bin Tip 0x20e42 [0x04, 0x80, 0x00, 0x00, 0x08, 0x00] [0x04, 0x80, 0x00, 0x00, 0x10, 0x00]
     Tip) 0x20e4e [0x0c, 0x80, 0x00, 0x00, 0x07, 0xff] [0x0c, 0x80, 0x00, 0x00, 0x0f, 0xff]
     (Bin Tip 0x20e92 [0x0c, 0x82, 0x00, 0x00, 0x07, 0xff] [0x0c, 0x82, 0x00, 0x00, 0x0f, 0xff]
     Tip))))"

definition ix1 :: site_tree where
  "ix1 = (Bin (Bin (Bin (Bin (Bin Tip 0x3d1b8 [0x02, 0x80, 0x00, 0x00, 0x07, 0xff] [0x02, 0x80, 0x00, 0x00, 0x0f, 0xff]
     Tip) 0x3d1be [0x22, 0x3c, 0x00, 0x00, 0x08, 0x00] [0x22, 0x3c, 0x00, 0x00, 0x10, 0x00]
     Tip) 0x3d1da [0x0c, 0x82, 0x00, 0x00, 0x07, 0xff] [0x0c, 0x82, 0x00, 0x00, 0x0f, 0xff]
     (Bin Tip 0x3d994 [0x0c, 0xaa, 0x00, 0x00, 0x08, 0x00] [0x0c, 0xaa, 0x00, 0x00, 0x10, 0x00]
     Tip)) 0x3d9c0 [0x7a, 0x0b] [0x7a, 0x0c]
     (Bin (Bin Tip 0x3d9e6 [0x76, 0x04] [0x76, 0x08]
     Tip) 0x3d9ec [0x7a, 0x0b] [0x7a, 0x0c]
     (Bin Tip 0x3d9f4 [0x02, 0x80, 0x00, 0x00, 0x07, 0xff] [0x02, 0x80, 0x00, 0x00, 0x0f, 0xff]
     Tip))) 0x3da30 [0x02, 0x80, 0x00, 0x00, 0x07, 0xff] [0x02, 0x80, 0x00, 0x00, 0x0f, 0xff]
     (Bin (Bin (Bin (Bin Tip 0x3da40 [0x22, 0x3c, 0x00, 0x00, 0x08, 0x00] [0x22, 0x3c, 0x00, 0x00, 0x10, 0x00]
     Tip) 0x3dae6 [0x7a, 0x0b] [0x7a, 0x0c]
     Tip) 0x3fa90 [0x06, 0x83, 0x00, 0x00, 0x07, 0xff] [0x06, 0x83, 0x00, 0x00, 0x0f, 0xff]
     (Bin Tip 0x3fa96 [0x02, 0x43, 0xf8, 0x00] [0x02, 0x43, 0xf0, 0x00]
     Tip)) 0x41bac [0x55, 0x80] [0x53, 0x80]
     (Bin (Bin Tip 0x41bc0 [0x55, 0x80] [0x53, 0x80]
     Tip) 0x41bca [0x55, 0xb9] [0x53, 0xb9]
     (Bin Tip 0x41bd0 [0x55, 0xb9] [0x53, 0xb9]
     Tip))))"

definition ix2 :: site_tree where
  "ix2 = (Bin (Bin (Bin (Bin (Bin Tip 0x41bf8 [0x54, 0xb9] [0x52, 0xb9]
     Tip) 0x41bfe [0x54, 0xb9] [0x52, 0xb9]
     Tip) 0x41c20 [0x54, 0xb9] [0x52, 0xb9]
     (Bin Tip 0x41dc8 [0x51, 0x80] [0x59, 0x80]
     Tip)) 0x41ddc [0x51, 0x80] [0x59, 0x80]
     (Bin (Bin Tip 0x41de6 [0x51, 0xb9] [0x59, 0xb9]
     Tip) 0x41dec [0x51, 0xb9] [0x59, 0xb9]
     (Bin Tip 0x41dfe [0x48, 0x78, 0x00, 0x08] [0x48, 0x78, 0x00, 0x04]
     Tip))) 0x41e4a [0x48, 0x78, 0x00, 0x08] [0x48, 0x78, 0x00, 0x04]
     (Bin (Bin (Bin (Bin Tip 0x41e56 [0x50, 0xb9] [0x58, 0xb9]
     Tip) 0x41e5c [0x50, 0xb9] [0x58, 0xb9]
     Tip) 0x41e7e [0x50, 0xb9] [0x58, 0xb9]
     (Bin Tip 0x41ffc [0x06, 0x82, 0x00, 0x00, 0x07, 0xff] [0x06, 0x82, 0x00, 0x00, 0x0f, 0xff]
     Tip)) 0x42002 [0x72, 0x0b] [0x72, 0x0c]
     (Bin (Bin Tip 0x420b6 [0x72, 0x0b] [0x72, 0x0c]
     Tip) 0x42464 [0x06, 0x82, 0x00, 0x00, 0x07, 0xff] [0x06, 0x82, 0x00, 0x00, 0x0f, 0xff]
     (Bin Tip 0x4246a [0x7c, 0x0b] [0x7c, 0x0c]
     Tip))))"

definition ix3 :: site_tree where
  "ix3 = (Bin (Bin (Bin (Bin (Bin Tip 0x42c84 [0x50, 0xb9] [0x58, 0xb9]
     Tip) 0x42c8a [0x50, 0xb9] [0x58, 0xb9]
     Tip) 0x42c90 [0x51, 0xb9] [0x59, 0xb9]
     (Bin Tip 0x42cca [0x74, 0x02] [0x74, 0x01]
     Tip)) 0x42cda [0x54, 0xb9] [0x52, 0xb9]
     (Bin (Bin Tip 0x42ce0 [0x54, 0xb9] [0x52, 0xb9]
     Tip) 0x42ce6 [0x55, 0xb9] [0x53, 0xb9]
     (Bin Tip 0x42d7a [0x74, 0x0b] [0x74, 0x0c]
     Tip))) 0x431f4 [0x02, 0x80, 0x00, 0x00, 0x07, 0xff] [0x02, 0x80, 0x00, 0x00, 0x0f, 0xff]
     (Bin (Bin (Bin (Bin Tip 0x4331c [0x02, 0x46, 0xf8, 0x00] [0x02, 0x46, 0xf0, 0x00]
     Tip) 0x43328 [0x06, 0x80, 0x00, 0x00, 0x07, 0xff] [0x06, 0x80, 0x00, 0x00, 0x0f, 0xff]
     Tip) 0x4332e [0x02, 0x40, 0xf8, 0x00] [0x02, 0x40, 0xf0, 0x00]
     (Bin Tip 0x43348 [0x02, 0x46, 0xf8, 0x00] [0x02, 0x46, 0xf0, 0x00]
     Tip)) 0x43352 [0x06, 0x80, 0x00, 0x00, 0x07, 0xff] [0x06, 0x80, 0x00, 0x00, 0x0f, 0xff]
     (Bin (Bin Tip 0x43358 [0x02, 0x40, 0xf8, 0x00] [0x02, 0x40, 0xf0, 0x00]
     Tip) 0x4338e [0xd8, 0xfc, 0x07, 0xff] [0xd8, 0xfc, 0x0f, 0xff]
     (Bin Tip 0x43394 [0x72, 0x0b] [0x72, 0x0c]
     Tip))))"

definition ix4 :: site_tree where
  "ix4 = (Bin (Bin (Bin (Bin (Bin Tip 0x43428 [0x06, 0x80, 0x00, 0x00, 0x07, 0xff] [0x06, 0x80, 0x00, 0x00, 0x0f, 0xff]
     Tip) 0x4342e [0x72, 0x0b] [0x72, 0x0c]
     Tip) 0x43450 [0x06, 0x80, 0x00, 0x00, 0x07, 0xff] [0x06, 0x80, 0x00, 0x00, 0x0f, 0xff]
     (Bin Tip 0x43456 [0x72, 0x0b] [0x72, 0x0c]
     Tip)) 0x43472 [0x06, 0x80, 0x00, 0x00, 0x07, 0xff] [0x06, 0x80, 0x00, 0x00, 0x0f, 0xff]
     (Bin (Bin (Bin Tip 0x43478 [0x72, 0x0b] [0x72, 0x0c]
     Tip) 0x434ee [0x7e, 0x0b] [0x7e, 0x0c]
     Tip) 0x48af4 [0x76, 0x0b] [0x76, 0x0c]
     (Bin Tip 0x48b1a [0x06, 0x80, 0x00, 0x00, 0x07, 0xff] [0x06, 0x80, 0x00, 0x00, 0x0f, 0xff]
     Tip))) 0x48b20 [0x76, 0x0b] [0x76, 0x0c]
     (Bin (Bin (Bin (Bin Tip 0x48b5e [0x76, 0x0b] [0x76, 0x0c]
     Tip) 0x48b64 [0x48, 0x78, 0x08, 0x00] [0x48, 0x78, 0x04, 0x00]
     Tip) 0x48d28 [0x7c, 0x0b] [0x7c, 0x0c]
     (Bin Tip 0x48d54 [0x7c, 0x0b] [0x7c, 0x0c]
     Tip)) 0x48d66 [0x06, 0x85, 0x00, 0x00, 0x07, 0xff] [0x06, 0x85, 0x00, 0x00, 0x0f, 0xff]
     (Bin (Bin Tip 0x48ddc [0x7c, 0x0b] [0x7c, 0x0c]
     Tip) 0x48e08 [0x7c, 0x0b] [0x7c, 0x0c]
     (Bin Tip 0x48e1a [0x06, 0x85, 0x00, 0x00, 0x07, 0xff] [0x06, 0x85, 0x00, 0x00, 0x0f, 0xff]
     Tip))))"

definition ix5 :: site_tree where
  "ix5 = (Bin (Bin (Bin (Bin (Bin Tip 0x48e6a [0x7c, 0x0b] [0x7c, 0x0c]
     Tip) 0x48ee6 [0x7c, 0x11] [0x7c, 0x12]
     Tip) 0x48f58 [0x7c, 0x11] [0x7c, 0x12]
     (Bin Tip 0x49120 [0x20, 0x80] [0x4e, 0x71]
     Tip)) 0x51aba [0xe3, 0x80] [0x4e, 0x71]
     (Bin (Bin Tip 0x51ad0 [0xe3, 0x80] [0x4e, 0x71]
     Tip) 0x51b10 [0xe3, 0x80] [0x4e, 0x71]
     (Bin Tip 0x51b26 [0xe3, 0x80] [0x4e, 0x71]
     Tip))) 0x51dcc [0x23, 0xfc, 0x00, 0x00, 0x00, 0x80] [0x23, 0xfc, 0x00, 0x00, 0x00, 0x40]
     (Bin (Bin (Bin (Bin Tip 0x51e24 [0x74, 0x32] [0x74, 0x19]
     Tip) 0x51e7e [0x74, 0x10] [0x74, 0x08]
     Tip) 0x51eee [0x74, 0x0b] [0x74, 0x0c]
     (Bin Tip 0x51f6a [0x74, 0x0b] [0x74, 0x0c]
     Tip)) 0x5204c [0x06, 0x80, 0x00, 0x00, 0x07, 0xff] [0x06, 0x80, 0x00, 0x00, 0x0f, 0xff]
     (Bin (Bin Tip 0x52052 [0x72, 0x0b] [0x72, 0x0c]
     Tip) 0x52238 [0x48, 0x78, 0x08, 0x00] [0x48, 0x78, 0x10, 0x00]
     (Bin Tip 0x5538a [0x02, 0x6e, 0xf8, 0x00, 0xff, 0xde] [0x02, 0x6e, 0xf0, 0x00, 0xff, 0xde]
     Tip))))"

definition ix6 :: site_tree where
  "ix6 = (Bin (Bin (Bin (Bin (Bin Tip 0x559be [0x06, 0x83, 0x00, 0x00, 0x07, 0xff] [0x06, 0x83, 0x00, 0x00, 0x0f, 0xff]
     Tip) 0x559c4 [0x78, 0x0b] [0x78, 0x0c]
     Tip) 0x55a38 [0x78, 0x0b] [0x78, 0x0c]
     (Bin Tip 0x55e92 [0x72, 0x0b] [0x72, 0x0c]
     Tip)) 0x56096 [0x72, 0x0b] [0x72, 0x0c]
     (Bin (Bin Tip 0x561e8 [0x72, 0x0b] [0x72, 0x0c]
     Tip) 0x56786 [0x02, 0x41, 0xf8, 0x00] [0x02, 0x41, 0xf0, 0x00]
     (Bin Tip 0x567b4 [0x06, 0x80, 0x00, 0x00, 0x07, 0xff] [0x06, 0x80, 0x00, 0x00, 0x0f, 0xff]
     Tip))) 0x567bc [0x02, 0x41, 0xf8, 0x00] [0x02, 0x41, 0xf0, 0x00]
     (Bin (Bin (Bin (Bin Tip 0x569d6 [0x02, 0x41, 0xf8, 0x00] [0x02, 0x41, 0xf0, 0x00]
     Tip) 0x569e2 [0x06, 0x80, 0x00, 0x00, 0x07, 0xff] [0x06, 0x80, 0x00, 0x00, 0x0f, 0xff]
     Tip) 0x569ea [0x02, 0x41, 0xf8, 0x00] [0x02, 0x41, 0xf0, 0x00]
     (Bin Tip 0x56e26 [0x02, 0x41, 0xf8, 0x00] [0x02, 0x41, 0xf0, 0x00]
     Tip)) 0x56e42 [0x06, 0x82, 0x00, 0x00, 0x07, 0xff] [0x06, 0x82, 0x00, 0x00, 0x0f, 0xff]
     (Bin (Bin Tip 0x56e48 [0x02, 0x42, 0xf8, 0x00] [0x02, 0x42, 0xf0, 0x00]
     Tip) 0x56f64 [0x06, 0x82, 0x00, 0x00, 0x07, 0xff] [0x06, 0x82, 0x00, 0x00, 0x0f, 0xff]
     (Bin Tip 0x56f6a [0x02, 0x42, 0xf8, 0x00] [0x02, 0x42, 0xf0, 0x00]
     Tip))))"

definition ix7 :: site_tree where
  "ix7 = (Bin (Bin (Bin (Bin (Bin Tip 0x57a72 [0x02, 0x81, 0x00, 0x00, 0x07, 0xff] [0x02, 0x81, 0x00, 0x00, 0x0f, 0xff]
     Tip) 0x57a9a [0x02, 0x6e, 0xf8, 0x00, 0x00, 0x0e] [0x02, 0x6e, 0xf0, 0x00, 0x00, 0x0e]
     Tip) 0x57ac0 [0x02, 0x6e, 0xf8, 0x00, 0x00, 0x1a] [0x02, 0x6e, 0xf0, 0x00, 0x00, 0x1a]
     (Bin Tip 0x57b24 [0x06, 0x80, 0x00, 0x00, 0x07, 0xff] [0x06, 0x80, 0x00, 0x00, 0x0f, 0xff]
     Tip)) 0x57b2a [0x74, 0x0b] [0x74, 0x0c]
     (Bin (Bin Tip 0x57c1c [0x06, 0x80, 0x00, 0x00, 0x07, 0xff] [0x06, 0x80, 0x00, 0x00, 0x0f, 0xff]
     Tip) 0x57c22 [0x74, 0x0b] [0x74, 0x0c]
     (Bin Tip 0x58130 [0x06, 0x82, 0x00, 0x00, 0x07, 0xff] [0x06, 0x82, 0x00, 0x00, 0x0f, 0xff]
     Tip))) 0x58136 [0x72, 0x0b] [0x72, 0x0c]
     (Bin (Bin (Bin (Bin Tip 0x58144 [0x06, 0x83, 0x00, 0x00, 0x07, 0xff] [0x06, 0x83, 0x00, 0x00, 0x0f, 0xff]
     Tip) 0x58222 [0x06, 0x83, 0x00, 0x00, 0x07, 0xff] [0x06, 0x83, 0x00, 0x00, 0x0f, 0xff]
     Tip) 0x58228 [0x72, 0x0b] [0x72, 0x0c]
     (Bin Tip 0x58234 [0x06, 0x82, 0x00, 0x00, 0x07, 0xff] [0x06, 0x82, 0x00, 0x00, 0x0f, 0xff]
     Tip)) 0x58270 [0x72, 0x0b] [0x72, 0x0c]
     (Bin (Bin Tip 0x582ba [0x72, 0x0b] [0x72, 0x0c]
     Tip) 0x5830c [0x72, 0x0b] [0x72, 0x0c]
     (Bin Tip 0x58328 [0x72, 0x0b] [0x72, 0x0c]
     Tip))))"

definition ix8 :: site_tree where
  "ix8 = (Bin (Bin (Bin (Bin (Bin Tip 0x58670 [0x06, 0x80, 0x00, 0x00, 0x07, 0xff] [0x06, 0x80, 0x00, 0x00, 0x0f, 0xff]
     Tip) 0x58678 [0x72, 0x0b] [0x72, 0x0c]
     Tip) 0x587d0 [0x06, 0x80, 0x00, 0x00, 0x07, 0xff] [0x06, 0x80, 0x00, 0x00, 0x0f, 0xff]
     (Bin Tip 0x587d8 [0x72, 0x0b] [0x72, 0x0c]
     Tip)) 0x59388 [0x02, 0x82, 0x00, 0x00, 0x07, 0xff] [0x02, 0x82, 0x00, 0x00, 0x0f, 0xff]
     (Bin (Bin (Bin Tip 0x5939a [0x06, 0x80, 0x00, 0x00, 0x07, 0xff] [0x06, 0x80, 0x00, 0x00, 0x0f, 0xff]
     Tip) 0x593a2 [0x74, 0x0b] [0x74, 0x0c]
     Tip) 0x59402 [0x74, 0x0b] [0x74, 0x0c]
     (Bin Tip 0x59478 [0x02, 0x80, 0x00, 0x00, 0x07, 0xff] [0x02, 0x80, 0x00, 0x00, 0x0f, 0xff]
     Tip))) 0x59484 [0x06, 0x82, 0x00, 0x00, 0x07, 0xff] [0x06, 0x82, 0x00, 0x00, 0x0f, 0xff]
     (Bin (Bin (Bin (Bin Tip 0x5948a [0x72, 0x0b] [0x72, 0x0c]
     Tip) 0x59494 [0x02, 0x40, 0xf8, 0x00] [0x02, 0x40, 0xf0, 0x00]
     Tip) 0x594c8 [0x72, 0x0b] [0x72, 0x0c]
     (Bin Tip 0x594e8 [0x06, 0xae, 0x00, 0x00, 0x08, 0x00] [0x06, 0xae, 0x00, 0x00, 0x10, 0x00]
     Tip)) 0x594fe [0x72, 0x0b] [0x72, 0x0c]
     (Bin (Bin Tip 0x59518 [0x02, 0xaa, 0x00, 0x00, 0x07, 0xff] [0x02, 0xaa, 0x00, 0x00, 0x0f, 0xff]
     Tip) 0x59890 [0x72, 0x0b] [0x72, 0x0c]
     (Bin Tip 0x598ac [0x72, 0x0b] [0x72, 0x0c]
     Tip))))"

definition ix9 :: site_tree where
  "ix9 = (Bin (Bin (Bin (Bin (Bin Tip 0x5b054 [0x20, 0x28, 0x00, 0x48, 0x02, 0x80, 0x00, 0x00, 0x01, 0x40, 0x0c, 0x80, 0x00, 0x00, 0x01, 0x00, 0x66, 0x00, 0x00, 0x8c] [0x70, 0x01, 0xc0, 0x28, 0x00, 0x4c, 0x66, 0x00, 0x00, 0x96, 0x4e, 0x71, 0x4e, 0x71, 0x4e, 0x71, 0x4e, 0x71, 0x4e, 0x71]
     Tip) 0x5b072 [0x26, 0x48, 0x20, 0x2e, 0xff, 0xdc, 0x72, 0x0b, 0xe2, 0xa8, 0x72, 0x3f, 0xc0, 0x81, 0xe5, 0x80, 0x24, 0x40, 0xd5, 0xeb, 0x00, 0x04] [0x24, 0x48, 0x4e, 0x71, 0x4e, 0x71, 0x4e, 0x71, 0x4e, 0x71, 0x4e, 0x71, 0x4e, 0x71, 0x4e, 0x71, 0x4e, 0x71, 0x4e, 0x71, 0x4e, 0x71]
     Tip) 0x5b0fc [0x26, 0x48, 0x20, 0x2e, 0xff, 0xdc, 0x72, 0x0b, 0xe2, 0xa8, 0x72, 0x3f, 0xc0, 0x81, 0xe5, 0x80, 0x24, 0x40, 0xd5, 0xeb, 0x00, 0x04] [0x24, 0x48, 0x4e, 0x71, 0x4e, 0x71, 0x4e, 0x71, 0x4e, 0x71, 0x4e, 0x71, 0x4e, 0x71, 0x4e, 0x71, 0x4e, 0x71, 0x4e, 0x71, 0x4e, 0x71]
     (Bin Tip 0x5b3cc [0x02, 0x40, 0xf8, 0x00] [0x02, 0x40, 0xf0, 0x00]
     Tip)) 0x5b3d4 [0x02, 0x81, 0x00, 0x00, 0x07, 0xff] [0x02, 0x81, 0x00, 0x00, 0x0f, 0xff]
     (Bin (Bin Tip 0x5c1e2 [0x48, 0x78, 0x08, 0x00] [0x48, 0x78, 0x10, 0x00]
     Tip) 0x635a0 [0x72, 0x0b] [0x72, 0x0c]
     (Bin Tip 0x635c0 [0x72, 0x0b] [0x72, 0x0c]
     Tip))) 0x635e2 [0x72, 0x0b] [0x72, 0x0c]
     (Bin (Bin (Bin (Bin Tip 0x63694 [0x72, 0x0b] [0x72, 0x0c]
     Tip) 0x636b4 [0x72, 0x0b] [0x72, 0x0c]
     Tip) 0x636d6 [0x72, 0x0b] [0x72, 0x0c]
     (Bin Tip 0x636f6 [0x72, 0x0b] [0x72, 0x0c]
     Tip)) 0x63718 [0x72, 0x0b] [0x72, 0x0c]
     (Bin (Bin Tip 0x63738 [0x72, 0x0b] [0x72, 0x0c]
     Tip) 0x6375a [0x72, 0x0b] [0x72, 0x0c]
     (Bin Tip 0x6377a [0x72, 0x0b] [0x72, 0x0c]
     Tip))))"

definition ix10 :: site_tree where
  "ix10 = (Bin (Bin (Bin (Bin (Bin Tip 0x64586 [0x06, 0x81, 0x00, 0x00, 0x08, 0x00] [0x06, 0x81, 0x00, 0x00, 0x10, 0x00]
     Tip) 0x645d8 [0x48, 0x78, 0x08, 0x00] [0x48, 0x78, 0x10, 0x00]
     Tip) 0x6467a [0x48, 0x78, 0x08, 0x00] [0x48, 0x78, 0x10, 0x00]
     (Bin Tip 0x6666c [0x06, 0x80, 0x00, 0x00, 0x07, 0xff] [0x06, 0x80, 0x00, 0x00, 0x0f, 0xff]
     Tip)) 0x66672 [0x02, 0x40, 0xf8, 0x00] [0x02, 0x40, 0xf0, 0x00]
     (Bin (Bin Tip 0x66688 [0x06, 0x80, 0x00, 0x00, 0x07, 0xff] [0x06, 0x80, 0x00, 0x00, 0x0f, 0xff]
     Tip) 0x6668e [0x02, 0x40, 0xf8, 0x00] [0x02, 0x40, 0xf0, 0x00]
     (Bin Tip 0x66cb6 [0x24, 0x3c, 0x00, 0x00, 0x08, 0x00] [0x24, 0x3c, 0x00, 0x00, 0x10, 0x00]
     Tip))) 0x66cf6 [0x20, 0x3c, 0x00, 0x00, 0x08, 0x00] [0x20, 0x3c, 0x00, 0x00, 0x10, 0x00]
     (Bin (Bin (Bin (Bin Tip 0x66d9e [0x06, 0x80, 0xff, 0xff, 0xf8, 0x00] [0x06, 0x80, 0xff, 0xff, 0xf0, 0x00]
     Tip) 0x66df0 [0x02, 0x80, 0x00, 0x00, 0x07, 0xff] [0x02, 0x80, 0x00, 0x00, 0x0f, 0xff]
     Tip) 0x66dfe [0x2c, 0x3c, 0x00, 0x00, 0x08, 0x00] [0x2c, 0x3c, 0x00, 0x00, 0x10, 0x00]
     (Bin Tip 0x66e48 [0x06, 0x80, 0x00, 0x00, 0x07, 0xff] [0x06, 0x80, 0x00, 0x00, 0x0f, 0xff]
     Tip)) 0x66e4e [0x7c, 0x0b] [0x7c, 0x0c]
     (Bin (Bin Tip 0x66f3c [0x02, 0x80, 0x00, 0x00, 0x07, 0xff] [0x02, 0x80, 0x00, 0x00, 0x0f, 0xff]
     Tip) 0x66f4a [0x2c, 0x3c, 0x00, 0x00, 0x08, 0x00] [0x2c, 0x3c, 0x00, 0x00, 0x10, 0x00]
     (Bin Tip 0x66f92 [0x06, 0x80, 0x00, 0x00, 0x07, 0xff] [0x06, 0x80, 0x00, 0x00, 0x0f, 0xff]
     Tip))))"

definition ix11 :: site_tree where
  "ix11 = (Bin (Bin (Bin (Bin (Bin Tip 0x67046 [0x06, 0x85, 0x00, 0x00, 0x08, 0x00] [0x06, 0x85, 0x00, 0x00, 0x10, 0x00]
     Tip) 0x6711a [0x06, 0x81, 0x00, 0x00, 0x07, 0xff] [0x06, 0x81, 0x00, 0x00, 0x0f, 0xff]
     Tip) 0x67186 [0x0c, 0x82, 0x00, 0x00, 0x08, 0x00] [0x0c, 0x82, 0x00, 0x00, 0x10, 0x00]
     (Bin Tip 0x67330 [0x2d, 0x7c, 0x00, 0x00, 0x08, 0x00] [0x2d, 0x7c, 0x00, 0x00, 0x10, 0x00]
     Tip)) 0x6741e [0x06, 0x80, 0x00, 0x00, 0x07, 0xff] [0x06, 0x80, 0x00, 0x00, 0x0f, 0xff]
     (Bin (Bin Tip 0x67424 [0x02, 0x40, 0xf8, 0x00] [0x02, 0x40, 0xf0, 0x00]
     Tip) 0x67486 [0x26, 0x3c, 0x00, 0x00, 0x08, 0x00] [0x26, 0x3c, 0x00, 0x00, 0x10, 0x00]
     (Bin Tip 0x741b4 [0x0c, 0x85, 0x00, 0x00, 0x07, 0xff] [0x0c, 0x85, 0x00, 0x00, 0x0f, 0xff]
     Tip))) 0x741c0 [0x00, 0x00, 0x08, 0x00] [0x00, 0x00, 0x10, 0x00]
     (Bin (Bin (Bin (Bin Tip 0x743f8 [0x06, 0x80, 0x00, 0x00, 0x07, 0xff] [0x06, 0x80, 0x00, 0x00, 0x0f, 0xff]
     Tip) 0x74402 [0x06, 0x80, 0x00, 0x00, 0x07, 0xff] [0x06, 0x80, 0x00, 0x00, 0x0f, 0xff]
     Tip) 0x74408 [0x02, 0x40, 0xf8, 0x00] [0x02, 0x40, 0xf0, 0x00]
     (Bin Tip 0x7441c [0x06, 0x80, 0x00, 0x00, 0x07, 0xff] [0x06, 0x80, 0x00, 0x00, 0x0f, 0xff]
     Tip)) 0x74426 [0x06, 0x80, 0x00, 0x00, 0x07, 0xff] [0x06, 0x80, 0x00, 0x00, 0x0f, 0xff]
     (Bin (Bin Tip 0x7442c [0x02, 0x40, 0xf8, 0x00] [0x02, 0x40, 0xf0, 0x00]
     Tip) 0x74494 [0x48, 0x78, 0x08, 0x00] [0x48, 0x78, 0x10, 0x00]
     (Bin Tip 0x744f0 [0x48, 0x78, 0x08, 0x00] [0x48, 0x78, 0x10, 0x00]
     Tip))))"

definition ix12 :: site_tree where
  "ix12 = (Bin (Bin (Bin (Bin (Bin Tip 0x7461e [0x06, 0x80, 0xff, 0xff, 0xf8, 0x00] [0x06, 0x80, 0xff, 0xff, 0xf0, 0x00]
     Tip) 0x746aa [0x02, 0x80, 0x00, 0x00, 0x07, 0xff] [0x02, 0x80, 0x00, 0x00, 0x0f, 0xff]
     Tip) 0x746b8 [0x22, 0x3c, 0x00, 0x00, 0x08, 0x00] [0x22, 0x3c, 0x00, 0x00, 0x10, 0x00]
     (Bin Tip 0x74712 [0x06, 0x80, 0x00, 0x00, 0x07, 0xff] [0x06, 0x80, 0x00, 0x00, 0x0f, 0xff]
     Tip)) 0x74718 [0x72, 0x0b] [0x72, 0x0c]
     (Bin (Bin Tip 0x747e4 [0x02, 0x80, 0x00, 0x00, 0x07, 0xff] [0x02, 0x80, 0x00, 0x00, 0x0f, 0xff]
     Tip) 0x747f2 [0x22, 0x3c, 0x00, 0x00, 0x08, 0x00] [0x22, 0x3c, 0x00, 0x00, 0x10, 0x00]
     (Bin Tip 0x74824 [0x06, 0x80, 0x00, 0x00, 0x07, 0xff] [0x06, 0x80, 0x00, 0x00, 0x0f, 0xff]
     Tip))) 0x7482a [0x72, 0x0b] [0x72, 0x0c]
     (Bin (Bin (Bin (Bin Tip 0x74914 [0x02, 0x80, 0x00, 0x00, 0x07, 0xff] [0x02, 0x80, 0x00, 0x00, 0x0f, 0xff]
     Tip) 0x74922 [0x22, 0x3c, 0x00, 0x00, 0x08, 0x00] [0x22, 0x3c, 0x00, 0x00, 0x10, 0x00]
     Tip) 0x74966 [0x06, 0x80, 0x00, 0x00, 0x07, 0xff] [0x06, 0x80, 0x00, 0x00, 0x0f, 0xff]
     (Bin Tip 0x7496c [0x72, 0x0b] [0x72, 0x0c]
     Tip)) 0x74a72 [0x06, 0x81, 0x00, 0x00, 0x08, 0x00] [0x06, 0x81, 0x00, 0x00, 0x10, 0x00]
     (Bin (Bin Tip 0x79d74 [0x0c, 0x83, 0x00, 0x00, 0x08, 0x00] [0x0c, 0x83, 0x00, 0x00, 0x10, 0x00]
     Tip) 0x79d7e [0x24, 0x3c, 0x00, 0x00, 0x08, 0x00] [0x24, 0x3c, 0x00, 0x00, 0x10, 0x00]
     (Bin Tip 0x79d96 [0x0c, 0x83, 0x00, 0x00, 0x07, 0xff] [0x0c, 0x83, 0x00, 0x00, 0x0f, 0xff]
     Tip))))"

definition ix13 :: site_tree where
  "ix13 = (Bin (Bin (Bin (Bin (Bin Tip 0x79daa [0x7e, 0x0b] [0x7e, 0x0c]
     Tip) 0x7a494 [0x06, 0x80, 0x00, 0x00, 0x07, 0xff] [0x06, 0x80, 0x00, 0x00, 0x0f, 0xff]
     Tip) 0x7a49e [0x06, 0x80, 0x00, 0x00, 0x07, 0xff] [0x06, 0x80, 0x00, 0x00, 0x0f, 0xff]
     (Bin Tip 0x7a4a4 [0x02, 0x40, 0xf8, 0x00] [0x02, 0x40, 0xf0, 0x00]
     Tip)) 0x7a520 [0x06, 0x80, 0x00, 0x00, 0x07, 0xff] [0x06, 0x80, 0x00, 0x00, 0x0f, 0xff]
     (Bin (Bin Tip 0x7a52a [0x06, 0x80, 0x00, 0x00, 0x07, 0xff] [0x06, 0x80, 0x00, 0x00, 0x0f, 0xff]
     Tip) 0x7a530 [0x02, 0x40, 0xf8, 0x00] [0x02, 0x40, 0xf0, 0x00]
     (Bin Tip 0x7e67e [0x0c, 0xaa, 0x00, 0x00, 0x03, 0xff] [0x0c, 0xaa, 0x00, 0x00, 0x07, 0xff]
     Tip))) 0x7f9b6 [0x06, 0x80, 0x00, 0x00, 0x07, 0xff] [0x06, 0x80, 0x00, 0x00, 0x0f, 0xff]
     (Bin (Bin (Bin (Bin Tip 0x7f9bc [0x02, 0x40, 0xf8, 0x00] [0x02, 0x40, 0xf0, 0x00]
     Tip) 0x7f9d6 [0x06, 0x80, 0x00, 0x00, 0x07, 0xff] [0x06, 0x80, 0x00, 0x00, 0x0f, 0xff]
     Tip) 0x7f9e0 [0x06, 0x80, 0x00, 0x00, 0x07, 0xff] [0x06, 0x80, 0x00, 0x00, 0x0f, 0xff]
     (Bin Tip 0x7f9e6 [0x02, 0x40, 0xf8, 0x00] [0x02, 0x40, 0xf0, 0x00]
     Tip)) 0x81dde [0x0c, 0xae, 0x00, 0x00, 0x07, 0xff] [0x0c, 0xae, 0x00, 0x00, 0x0f, 0xff]
     (Bin (Bin Tip 0x81eb4 [0x06, 0x80, 0x00, 0x00, 0x07, 0xff] [0x06, 0x80, 0x00, 0x00, 0x0f, 0xff]
     Tip) 0x81ebe [0x06, 0x80, 0x00, 0x00, 0x07, 0xff] [0x06, 0x80, 0x00, 0x00, 0x0f, 0xff]
     (Bin Tip 0x81ec4 [0x02, 0x40, 0xf8, 0x00] [0x02, 0x40, 0xf0, 0x00]
     Tip))))"

definition ix14 :: site_tree where
  "ix14 = (Bin (Bin (Bin (Bin (Bin Tip 0x81ee4 [0x06, 0x80, 0x00, 0x00, 0x07, 0xff] [0x06, 0x80, 0x00, 0x00, 0x0f, 0xff]
     Tip) 0x81eea [0x02, 0x40, 0xf8, 0x00] [0x02, 0x40, 0xf0, 0x00]
     Tip) 0x81f1a [0x48, 0x78, 0x08, 0x00] [0x48, 0x78, 0x10, 0x00]
     (Bin Tip 0x81f50 [0x48, 0x78, 0x08, 0x00] [0x48, 0x78, 0x10, 0x00]
     Tip)) 0x82038 [0x06, 0x80, 0xff, 0xff, 0xf8, 0x00] [0x06, 0x80, 0xff, 0xff, 0xf0, 0x00]
     (Bin (Bin Tip 0x820b2 [0x02, 0x80, 0x00, 0x00, 0x07, 0xff] [0x02, 0x80, 0x00, 0x00, 0x0f, 0xff]
     Tip) 0x820c0 [0x22, 0x3c, 0x00, 0x00, 0x08, 0x00] [0x22, 0x3c, 0x00, 0x00, 0x10, 0x00]
     (Bin Tip 0x82114 [0x06, 0x80, 0x00, 0x00, 0x07, 0xff] [0x06, 0x80, 0x00, 0x00, 0x0f, 0xff]
     Tip))) 0x8211a [0x72, 0x0b] [0x72, 0x0c]
     (Bin (Bin (Bin (Bin Tip 0x82194 [0x06, 0x80, 0x00, 0x00, 0x07, 0xff] [0x06, 0x80, 0x00, 0x00, 0x0f, 0xff]
     Tip) 0x8219e [0x06, 0x80, 0x00, 0x00, 0x07, 0xff] [0x06, 0x80, 0x00, 0x00, 0x0f, 0xff]
     Tip) 0x821a4 [0x02, 0x40, 0xf8, 0x00] [0x02, 0x40, 0xf0, 0x00]
     (Bin Tip 0x821ba [0x06, 0x80, 0x00, 0x00, 0x07, 0xff] [0x06, 0x80, 0x00, 0x00, 0x0f, 0xff]
     Tip)) 0x821c4 [0x06, 0x80, 0x00, 0x00, 0x07, 0xff] [0x06, 0x80, 0x00, 0x00, 0x0f, 0xff]
     (Bin (Bin Tip 0x821ca [0x02, 0x40, 0xf8, 0x00] [0x02, 0x40, 0xf0, 0x00]
     Tip) 0x82342 [0x02, 0x80, 0x00, 0x00, 0x07, 0xff] [0x02, 0x80, 0x00, 0x00, 0x0f, 0xff]
     (Bin Tip 0x82350 [0x22, 0x3c, 0x00, 0x00, 0x08, 0x00] [0x22, 0x3c, 0x00, 0x00, 0x10, 0x00]
     Tip))))"

definition ix15 :: site_tree where
  "ix15 = (Bin (Bin (Bin (Bin (Bin Tip 0x8239c [0x72, 0x0b] [0x72, 0x0c]
     Tip) 0x824b4 [0x06, 0x87, 0x00, 0x00, 0x08, 0x00] [0x06, 0x87, 0x00, 0x00, 0x10, 0x00]
     Tip) 0x82600 [0x06, 0x81, 0x00, 0x00, 0x07, 0xff] [0x06, 0x81, 0x00, 0x00, 0x0f, 0xff]
     (Bin Tip 0x8268c [0x0c, 0x84, 0x00, 0x00, 0x08, 0x00] [0x0c, 0x84, 0x00, 0x00, 0x10, 0x00]
     Tip)) 0x82c56 [0x24, 0x3c, 0x00, 0x00, 0x08, 0x00] [0x24, 0x3c, 0x00, 0x00, 0x10, 0x00]
     (Bin (Bin Tip 0x82cac [0x06, 0x82, 0x00, 0x00, 0x08, 0x00] [0x06, 0x82, 0x00, 0x00, 0x10, 0x00]
     Tip) 0x82cd6 [0x0c, 0xac, 0x00, 0x00, 0x07, 0xff] [0x0c, 0xac, 0x00, 0x00, 0x0f, 0xff]
     (Bin Tip 0x82ce2 [0x20, 0x3c, 0x00, 0x00, 0x08, 0x00] [0x20, 0x3c, 0x00, 0x00, 0x10, 0x00]
     Tip))) 0x82d2a [0x0c, 0xac, 0x00, 0x00, 0x07, 0xff] [0x0c, 0xac, 0x00, 0x00, 0x0f, 0xff]
     (Bin (Bin (Bin (Bin Tip 0x88fba [0x06, 0x80, 0x00, 0x00, 0x07, 0xff] [0x06, 0x80, 0x00, 0x00, 0x0f, 0xff]
     Tip) 0x88fc0 [0x02, 0x40, 0xf8, 0x00] [0x02, 0x40, 0xf0, 0x00]
     Tip) 0x88fd4 [0x06, 0x80, 0x00, 0x00, 0x07, 0xff] [0x06, 0x80, 0x00, 0x00, 0x0f, 0xff]
     (Bin Tip 0x88fde [0x06, 0x80, 0x00, 0x00, 0x07, 0xff] [0x06, 0x80, 0x00, 0x00, 0x0f, 0xff]
     Tip)) 0x88fe4 [0x02, 0x40, 0xf8, 0x00] [0x02, 0x40, 0xf0, 0x00]
     (Bin (Bin Tip 0xa12e2 [0x48, 0x78, 0x08, 0x00] [0x48, 0x78, 0x10, 0x00]
     Tip) 0xa1cc0 [0x48, 0x78, 0x08, 0x00] [0x48, 0x78, 0x10, 0x00]
     (Bin Tip 0xa838a [0x06, 0x80, 0x00, 0x00, 0x07, 0xff] [0x06, 0x80, 0x00, 0x00, 0x0f, 0xff]
     Tip))))"

definition ix16 :: site_tree where
  "ix16 = (Bin (Bin (Bin (Bin (Bin Tip 0xa839e [0x06, 0x80, 0xff, 0xff, 0xf8, 0x00] [0x06, 0x80, 0xff, 0xff, 0xf0, 0x00]
     Tip) 0xa83a4 [0x06, 0x81, 0x00, 0x00, 0x08, 0x00] [0x06, 0x81, 0x00, 0x00, 0x10, 0x00]
     Tip) 0xa8550 [0x72, 0x0b] [0x72, 0x0c]
     (Bin Tip 0xa859c [0x06, 0x82, 0x00, 0x00, 0x08, 0x00] [0x06, 0x82, 0x00, 0x00, 0x10, 0x00]
     Tip)) 0xa85d4 [0x7a, 0x0b] [0x7a, 0x0c]
     (Bin (Bin (Bin Tip 0xa85fa [0x7a, 0x0b] [0x7a, 0x0c]
     Tip) 0xa8716 [0x76, 0x0b] [0x76, 0x0c]
     Tip) 0xa8742 [0xef, 0xee, 0x00, 0x15, 0xff, 0xf8] [0xef, 0xee, 0x00, 0x14, 0xff, 0xf8]
     (Bin Tip 0xa8764 [0x06, 0x82, 0x00, 0x00, 0x08, 0x00] [0x06, 0x82, 0x00, 0x00, 0x10, 0x00]
     Tip))) 0xa87e8 [0x72, 0x0b] [0x72, 0x0c]
     (Bin (Bin (Bin (Bin Tip 0xa8814 [0xe9, 0xee, 0x10, 0x15] [0xe9, 0xee, 0x10, 0x14]
     Tip) 0xa888a [0x06, 0x82, 0xff, 0xff, 0xf8, 0x00] [0x06, 0x82, 0xff, 0xff, 0xf0, 0x00]
     Tip) 0xa8898 [0x06, 0x80, 0x00, 0x00, 0x07, 0xff] [0x06, 0x80, 0x00, 0x00, 0x0f, 0xff]
     (Bin Tip 0xa889e [0x72, 0x0b] [0x72, 0x0c]
     Tip)) 0xa892e [0x7c, 0x0b] [0x7c, 0x0c]
     (Bin (Bin Tip 0xa898a [0xe9, 0xee, 0x60, 0x15, 0xff, 0xf8] [0xe9, 0xee, 0x60, 0x14, 0xff, 0xf8]
     Tip) 0xa89b0 [0xe9, 0xd3, 0x60, 0x15] [0xe9, 0xd3, 0x60, 0x14]
     (Bin Tip 0xa89bc [0x02, 0x40, 0xf8, 0x01] [0x02, 0x40, 0xf0, 0x01]
     Tip))))"

definition ix17 :: site_tree where
  "ix17 = (Bin (Bin (Bin (Bin (Bin Tip 0xa8a3c [0xe9, 0xee, 0x00, 0x15, 0xff, 0xf8] [0xe9, 0xee, 0x00, 0x14, 0xff, 0xf8]
     Tip) 0xa8a44 [0xef, 0xee, 0x00, 0x15, 0xff, 0xf8] [0xef, 0xee, 0x00, 0x14, 0xff, 0xf8]
     Tip) 0xa8a4e [0x06, 0x82, 0x00, 0x00, 0x08, 0x00] [0x06, 0x82, 0x00, 0x00, 0x10, 0x00]
     (Bin Tip 0xa8a54 [0x06, 0x83, 0xff, 0xff, 0xf8, 0x00] [0x06, 0x83, 0xff, 0xff, 0xf0, 0x00]
     Tip)) 0xa8b06 [0x72, 0x0b] [0x72, 0x0c]
     (Bin (Bin Tip 0xa8b26 [0xe9, 0xd3, 0x10, 0x15] [0xe9, 0xd3, 0x10, 0x14]
     Tip) 0xa8b88 [0x06, 0x82, 0xff, 0xff, 0xf8, 0x00] [0x06, 0x82, 0xff, 0xff, 0xf0, 0x00]
     (Bin Tip 0xa8b96 [0x06, 0x80, 0x00, 0x00, 0x07, 0xff] [0x06, 0x80, 0x00, 0x00, 0x0f, 0xff]
     Tip))) 0xa8b9c [0x72, 0x0b] [0x72, 0x0c]
     (Bin (Bin (Bin (Bin Tip 0xa8bfa [0x72, 0x0b] [0x72, 0x0c]
     Tip) 0xa8c3e [0x72, 0x0b] [0x72, 0x0c]
     Tip) 0xa8c7e [0x06, 0x82, 0x00, 0x00, 0x07, 0xff] [0x06, 0x82, 0x00, 0x00, 0x0f, 0xff]
     (Bin Tip 0xa8c84 [0x78, 0x0b] [0x78, 0x0c]
     Tip)) 0xa8cbe [0x78, 0x0b] [0x78, 0x0c]
     (Bin (Bin Tip 0xa8db6 [0x72, 0x0b] [0x72, 0x0c]
     Tip) 0xa8dea [0x72, 0x0b] [0x72, 0x0c]
     (Bin Tip 0xa8e0a [0x72, 0x0b] [0x72, 0x0c]
     Tip))))"

definition ix18 :: site_tree where
  "ix18 = (Bin (Bin (Bin (Bin (Bin Tip 0xa8e58 [0x70, 0x0b] [0x70, 0x0c]
     Tip) 0xa90f4 [0x06, 0x82, 0x00, 0x00, 0x08, 0x00] [0x06, 0x82, 0x00, 0x00, 0x10, 0x00]
     Tip) 0xa90fa [0x06, 0x83, 0x00, 0x00, 0x08, 0x00] [0x06, 0x83, 0x00, 0x00, 0x10, 0x00]
     (Bin Tip 0xa9742 [0x02, 0x42, 0xf8, 0x00] [0x02, 0x42, 0xf0, 0x00]
     Tip)) 0xa97a0 [0x48, 0x78, 0x08, 0x00] [0x48, 0x78, 0x10, 0x00]
     (Bin (Bin Tip 0xa9892 [0x06, 0x82, 0x00, 0x00, 0x08, 0x00] [0x06, 0x82, 0x00, 0x00, 0x10, 0x00]
     Tip) 0xa9898 [0x06, 0x84, 0x00, 0x00, 0x08, 0x00] [0x06, 0x84, 0x00, 0x00, 0x10, 0x00]
     (Bin Tip 0xaa386 [0x74, 0x0b] [0x74, 0x0c]
     Tip))) 0xaa69c [0x06, 0x83, 0x00, 0x00, 0x08, 0x00] [0x06, 0x83, 0x00, 0x00, 0x10, 0x00]
     (Bin (Bin (Bin (Bin Tip 0xaa6a2 [0x7a, 0x03] [0x7a, 0x01]
     Tip) 0xaa884 [0x02, 0x42, 0xf8, 0x00] [0x02, 0x42, 0xf0, 0x00]
     Tip) 0xaa88c [0x06, 0x80, 0x00, 0x00, 0x07, 0xff] [0x06, 0x80, 0x00, 0x00, 0x0f, 0xff]
     (Bin Tip 0xaa892 [0x02, 0x40, 0xf8, 0x00] [0x02, 0x40, 0xf0, 0x00]
     Tip)) 0xaa8f4 [0x06, 0x80, 0x00, 0x00, 0x07, 0xff] [0x06, 0x80, 0x00, 0x00, 0x0f, 0xff]
     (Bin (Bin Tip 0xaa8fa [0x7a, 0x0b] [0x7a, 0x0c]
     Tip) 0xaa91e [0xe9, 0xd3, 0x00, 0x15] [0xe9, 0xd3, 0x00, 0x14]
     (Bin Tip 0xaa940 [0xe9, 0xd3, 0x00, 0x15] [0xe9, 0xd3, 0x00, 0x14]
     Tip))))"

definition ix19 :: site_tree where
  "ix19 = (Bin (Bin (Bin (Bin (Bin Tip 0xaa9c2 [0x06, 0x82, 0x00, 0x00, 0x08, 0x00] [0x06, 0x82, 0x00, 0x00, 0x10, 0x00]
     Tip) 0xaaa12 [0x02, 0x42, 0xf8, 0x00] [0x02, 0x42, 0xf0, 0x00]
     Tip) 0xaaa1c [0x06, 0x80, 0x00, 0x00, 0x07, 0xff] [0x06, 0x80, 0x00, 0x00, 0x0f, 0xff]
     (Bin Tip 0xaaa22 [0x02, 0x40, 0xf8, 0x00] [0x02, 0x40, 0xf0, 0x00]
     Tip)) 0xaaa3e [0x06, 0x84, 0x00, 0x00, 0x07, 0xff] [0x06, 0x84, 0x00, 0x00, 0x0f, 0xff]
     (Bin (Bin Tip 0xaaa44 [0x72, 0x0b] [0x72, 0x0c]
     Tip) 0xaaaa4 [0x48, 0x78, 0x08, 0x00] [0x48, 0x78, 0x10, 0x00]
     (Bin Tip 0xaaaae [0x48, 0x78, 0x08, 0x00] [0x48, 0x78, 0x10, 0x00]
     Tip))) 0xaab80 [0x06, 0x82, 0x00, 0x00, 0x08, 0x00] [0x06, 0x82, 0x00, 0x00, 0x10, 0x00]
     (Bin (Bin (Bin (Bin Tip 0xaacb8 [0x02, 0x41, 0xf8, 0x00] [0x02, 0x41, 0xf0, 0x00]
     Tip) 0xaad34 [0x02, 0x41, 0xf8, 0x00] [0x02, 0x41, 0xf0, 0x00]
     Tip) 0xaae8e [0x02, 0x41, 0xf8, 0x00] [0x02, 0x41, 0xf0, 0x00]
     (Bin Tip 0xaaf1c [0x06, 0x86, 0x00, 0x00, 0x07, 0xff] [0x06, 0x86, 0x00, 0x00, 0x0f, 0xff]
     Tip)) 0xaaf22 [0x72, 0x0b] [0x72, 0x0c]
     (Bin (Bin Tip 0xaafc4 [0x06, 0x82, 0x00, 0x00, 0x08, 0x00] [0x06, 0x82, 0x00, 0x00, 0x10, 0x00]
     Tip) 0xab10c [0x02, 0x41, 0xf8, 0x00] [0x02, 0x41, 0xf0, 0x00]
     (Bin Tip 0xab146 [0x78, 0x0b] [0x78, 0x0c]
     Tip))))"

definition ix20 :: site_tree where
  "ix20 = (Bin (Bin (Bin (Bin (Bin Tip 0xab1c8 [0x78, 0x0b] [0x78, 0x0c]
     Tip) 0xab1e0 [0x06, 0x80, 0x00, 0x00, 0x07, 0xff] [0x06, 0x80, 0x00, 0x00, 0x0f, 0xff]
     Tip) 0xab26c [0x02, 0x40, 0xf8, 0x00] [0x02, 0x40, 0xf0, 0x00]
     (Bin Tip 0xab2a0 [0x76, 0x0b] [0x76, 0x0c]
     Tip)) 0xab2ee [0x06, 0x80, 0x00, 0x00, 0x07, 0xff] [0x06, 0x80, 0x00, 0x00, 0x0f, 0xff]
     (Bin (Bin Tip 0xab340 [0x06, 0x80, 0x00, 0x00, 0x07, 0xff] [0x06, 0x80, 0x00, 0x00, 0x0f, 0xff]
     Tip) 0xab346 [0x76, 0x0b] [0x76, 0x0c]
     (Bin Tip 0xab366 [0x06, 0x80, 0x00, 0x00, 0x07, 0xff] [0x06, 0x80, 0x00, 0x00, 0x0f, 0xff]
     Tip))) 0xab3e6 [0x06, 0x80, 0x00, 0x00, 0x07, 0xff] [0x06, 0x80, 0x00, 0x00, 0x0f, 0xff]
     (Bin (Bin (Bin (Bin Tip 0xab3ec [0x72, 0x0b] [0x72, 0x0c]
     Tip) 0xab430 [0x06, 0x82, 0x00, 0x00, 0x07, 0xff] [0x06, 0x82, 0x00, 0x00, 0x0f, 0xff]
     Tip) 0xab436 [0x72, 0x0b] [0x72, 0x0c]
     (Bin Tip 0xab670 [0x02, 0x80, 0x00, 0x00, 0x07, 0xff] [0x02, 0x80, 0x00, 0x00, 0x0f, 0xff]
     Tip)) 0xab67c [0x02, 0x80, 0x00, 0x00, 0x07, 0xff] [0x02, 0x80, 0x00, 0x00, 0x0f, 0xff]
     (Bin (Bin Tip 0xab754 [0x06, 0x85, 0x00, 0x00, 0x07, 0xff] [0x06, 0x85, 0x00, 0x00, 0x0f, 0xff]
     Tip) 0xab75a [0x72, 0x0b] [0x72, 0x0c]
     (Bin Tip 0xaba08 [0x06, 0x84, 0x00, 0x00, 0x07, 0xff] [0x06, 0x84, 0x00, 0x00, 0x0f, 0xff]
     Tip))))"

definition ix21 :: site_tree where
  "ix21 = (Bin (Bin (Bin (Bin (Bin Tip 0xaba3a [0x06, 0x84, 0x00, 0x00, 0x07, 0xff] [0x06, 0x84, 0x00, 0x00, 0x0f, 0xff]
     Tip) 0xaba40 [0x72, 0x0b] [0x72, 0x0c]
     Tip) 0xaba9c [0x72, 0x0b] [0x72, 0x0c]
     (Bin Tip 0xabb8e [0x06, 0x82, 0x00, 0x00, 0x07, 0xff] [0x06, 0x82, 0x00, 0x00, 0x0f, 0xff]
     Tip)) 0xabb94 [0x72, 0x0b] [0x72, 0x0c]
     (Bin (Bin Tip 0xabc3e [0x72, 0x0b] [0x72, 0x0c]
     Tip) 0xabd2e [0x7c, 0x0b] [0x7c, 0x0c]
     (Bin Tip 0xabd56 [0x7c, 0x0b] [0x7c, 0x0c]
     Tip))) 0xabee0 [0x06, 0x82, 0x00, 0x00, 0x08, 0x00] [0x06, 0x82, 0x00, 0x00, 0x10, 0x00]
     (Bin (Bin (Bin (Bin Tip 0xabf2e [0x06, 0x80, 0x00, 0x00, 0x08, 0x00] [0x06, 0x80, 0x00, 0x00, 0x10, 0x00]
     Tip) 0xabf4e [0x06, 0x80, 0x00, 0x00, 0x08, 0x00] [0x06, 0x80, 0x00, 0x00, 0x10, 0x00]
     Tip) 0xac13e [0x48, 0x78, 0x08, 0x00] [0x48, 0x78, 0x10, 0x00]
     (Bin Tip 0xac4fe [0x06, 0x80, 0x00, 0x00, 0x07, 0xff] [0x06, 0x80, 0x00, 0x00, 0x0f, 0xff]
     Tip)) 0xac504 [0x76, 0x0b] [0x76, 0x0c]
     (Bin (Bin Tip 0xac52e [0x76, 0x0b] [0x76, 0x0c]
     Tip) 0xac59a [0x76, 0x0b] [0x76, 0x0c]
     (Bin Tip 0xac5d4 [0x0c, 0xae, 0x00, 0x00, 0x08, 0x00] [0x0c, 0xae, 0x00, 0x00, 0x10, 0x00]
     Tip))))"

definition ix22 :: site_tree where
  "ix22 = (Bin (Bin (Bin (Bin (Bin Tip 0xac72c [0x06, 0x85, 0x00, 0x00, 0x08, 0x00] [0x06, 0x85, 0x00, 0x00, 0x10, 0x00]
     Tip) 0xac778 [0x76, 0x0b] [0x76, 0x0c]
     Tip) 0xac868 [0x74, 0x0b] [0x74, 0x0c]
     (Bin Tip 0xac8c2 [0x48, 0x78, 0x08, 0x00] [0x48, 0x78, 0x10, 0x00]
     Tip)) 0xac922 [0x7a, 0x0b] [0x7a, 0x0c]
     (Bin (Bin Tip 0xaca92 [0x7c, 0x0b] [0x7c, 0x0c]
     Tip) 0xacab6 [0x7c, 0x0b] [0x7c, 0x0c]
     (Bin Tip 0xacb5e [0x06, 0x85, 0x00, 0x00, 0x08, 0x00] [0x06, 0x85, 0x00, 0x00, 0x10, 0x00]
     Tip))) 0xacb84 [0x7c, 0x0b] [0x7c, 0x0c]
     (Bin (Bin (Bin (Bin Tip 0xacc2e [0x78, 0x0b] [0x78, 0x0c]
     Tip) 0xacc9a [0x76, 0x0b] [0x76, 0x0c]
     Tip) 0xaccd2 [0x76, 0x0b] [0x76, 0x0c]
     (Bin Tip 0xacd80 [0x06, 0x81, 0x00, 0x00, 0x07, 0xff] [0x06, 0x81, 0x00, 0x00, 0x0f, 0xff]
     Tip)) 0xacd86 [0x78, 0x0b] [0x78, 0x0c]
     (Bin (Bin Tip 0xace4c [0x72, 0x0b] [0x72, 0x0c]
     Tip) 0xace98 [0x72, 0x0b] [0x72, 0x0c]
     (Bin Tip 0xacf36 [0x48, 0x78, 0x08, 0x00] [0x48, 0x78, 0x10, 0x00]
     Tip))))"

definition ix23 :: site_tree where
  "ix23 = (Bin (Bin (Bin (Bin (Bin Tip 0xad034 [0x72, 0x0b] [0x72, 0x0c]
     Tip) 0xad096 [0x72, 0x0b] [0x72, 0x0c]
     Tip) 0xad0dc [0x06, 0x84, 0x00, 0x00, 0x08, 0x00] [0x06, 0x84, 0x00, 0x00, 0x10, 0x00]
     (Bin Tip 0xad148 [0x48, 0x78, 0x08, 0x00] [0x48, 0x78, 0x10, 0x00]
     Tip)) 0xad162 [0x06, 0x82, 0x00, 0x00, 0x08, 0x00] [0x06, 0x82, 0x00, 0x00, 0x10, 0x00]
     (Bin (Bin Tip 0xad1aa [0x06, 0x80, 0x00, 0x00, 0x07, 0xff] [0x06, 0x80, 0x00, 0x00, 0x0f, 0xff]
     Tip) 0xad1b0 [0x7c, 0x0b] [0x7c, 0x0c]
     (Bin Tip 0xad1c8 [0x7c, 0x0b] [0x7c, 0x0c]
     Tip))) 0xad2c0 [0x06, 0x84, 0x00, 0x00, 0x08, 0x00] [0x06, 0x84, 0x00, 0x00, 0x10, 0x00]
     (Bin (Bin (Bin (Bin Tip 0xad3b6 [0x06, 0x80, 0x00, 0x00, 0x07, 0xff] [0x06, 0x80, 0x00, 0x00, 0x0f, 0xff]
     Tip) 0xad3bc [0x7c, 0x0b] [0x7c, 0x0c]
     Tip) 0xad3f4 [0x7c, 0x0b] [0x7c, 0x0c]
     (Bin Tip 0xad41e [0x7c, 0x0b] [0x7c, 0x0c]
     Tip)) 0xad596 [0x06, 0x84, 0x00, 0x00, 0x08, 0x00] [0x06, 0x84, 0x00, 0x00, 0x10, 0x00]
     (Bin (Bin Tip 0xad59c [0x06, 0xae, 0x00, 0x00, 0x08, 0x00] [0x06, 0xae, 0x00, 0x00, 0x10, 0x00]
     Tip) 0xad5ea [0x06, 0x80, 0x00, 0x00, 0x07, 0xff] [0x06, 0x80, 0x00, 0x00, 0x0f, 0xff]
     (Bin Tip 0xad5f0 [0x74, 0x0b] [0x74, 0x0c]
     Tip))))"

definition ix24 :: site_tree where
  "ix24 = (Bin (Bin (Bin (Bin (Bin Tip 0xad6a8 [0x06, 0x81, 0x00, 0x00, 0x07, 0xff] [0x06, 0x81, 0x00, 0x00, 0x0f, 0xff]
     Tip) 0xad6ae [0x74, 0x0b] [0x74, 0x0c]
     Tip) 0xad736 [0x06, 0x80, 0x00, 0x00, 0x07, 0xff] [0x06, 0x80, 0x00, 0x00, 0x0f, 0xff]
     (Bin Tip 0xad73c [0x72, 0x0b] [0x72, 0x0c]
     Tip)) 0xad810 [0x06, 0x81, 0x00, 0x00, 0x07, 0xff] [0x06, 0x81, 0x00, 0x00, 0x0f, 0xff]
     (Bin (Bin (Bin Tip 0xad816 [0x74, 0x0b] [0x74, 0x0c]
     Tip) 0xad852 [0x06, 0x82, 0x00, 0x00, 0x07, 0xff] [0x06, 0x82, 0x00, 0x00, 0x0f, 0xff]
     Tip) 0xad858 [0x72, 0x0b] [0x72, 0x0c]
     (Bin Tip 0xad9a6 [0x48, 0x78, 0x08, 0x00] [0x48, 0x78, 0x10, 0x00]
     Tip))) 0xadb64 [0x48, 0x78, 0x08, 0x00] [0x48, 0x78, 0x10, 0x00]
     (Bin (Bin (Bin (Bin Tip 0xadd62 [0x48, 0x78, 0x08, 0x00] [0x48, 0x78, 0x10, 0x00]
     Tip) 0xaddfa [0x48, 0x78, 0x08, 0x00] [0x48, 0x78, 0x10, 0x00]
     Tip) 0xae156 [0x02, 0x43, 0xf8, 0x00] [0x02, 0x43, 0xf0, 0x00]
     (Bin Tip 0xae15e [0x06, 0x80, 0x00, 0x00, 0x07, 0xff] [0x06, 0x80, 0x00, 0x00, 0x0f, 0xff]
     Tip)) 0xae164 [0x02, 0x40, 0xf8, 0x00] [0x02, 0x40, 0xf0, 0x00]
     (Bin (Bin Tip 0xae26a [0x02, 0x42, 0xf8, 0x00] [0x02, 0x42, 0xf0, 0x00]
     Tip) 0xae272 [0x06, 0x80, 0x00, 0x00, 0x07, 0xff] [0x06, 0x80, 0x00, 0x00, 0x0f, 0xff]
     (Bin Tip 0xae278 [0x02, 0x40, 0xf8, 0x00] [0x02, 0x40, 0xf0, 0x00]
     Tip))))"

definition ix25 :: site_tree where
  "ix25 = (Bin (Bin (Bin (Bin (Bin Tip 0xae2d2 [0x06, 0x83, 0xff, 0xff, 0xf8, 0x00] [0x06, 0x83, 0xff, 0xff, 0xf0, 0x00]
     Tip) 0xae2fc [0x02, 0x43, 0xf8, 0x00] [0x02, 0x43, 0xf0, 0x00]
     Tip) 0xae304 [0x06, 0x80, 0x00, 0x00, 0x07, 0xff] [0x06, 0x80, 0x00, 0x00, 0x0f, 0xff]
     (Bin Tip 0xae30a [0x02, 0x40, 0xf8, 0x00] [0x02, 0x40, 0xf0, 0x00]
     Tip)) 0xae3a8 [0x02, 0x43, 0xf8, 0x00] [0x02, 0x43, 0xf0, 0x00]
     (Bin (Bin Tip 0xae3b0 [0x06, 0x80, 0x00, 0x00, 0x07, 0xff] [0x06, 0x80, 0x00, 0x00, 0x0f, 0xff]
     Tip) 0xae3b6 [0x02, 0x40, 0xf8, 0x00] [0x02, 0x40, 0xf0, 0x00]
     (Bin Tip 0xae456 [0x02, 0x43, 0xf8, 0x00] [0x02, 0x43, 0xf0, 0x00]
     Tip))) 0xae460 [0x06, 0x84, 0x00, 0x00, 0x07, 0xff] [0x06, 0x84, 0x00, 0x00, 0x0f, 0xff]
     (Bin (Bin (Bin (Bin Tip 0xae466 [0x02, 0x44, 0xf8, 0x00] [0x02, 0x44, 0xf0, 0x00]
     Tip) 0xae50e [0x02, 0x40, 0xf8, 0x00] [0x02, 0x40, 0xf0, 0x00]
     Tip) 0xae516 [0x06, 0x81, 0x00, 0x00, 0x07, 0xff] [0x06, 0x81, 0x00, 0x00, 0x0f, 0xff]
     (Bin Tip 0xae51c [0x02, 0x41, 0xf8, 0x00] [0x02, 0x41, 0xf0, 0x00]
     Tip)) 0xaea34 [0x02, 0x43, 0xf8, 0x00] [0x02, 0x43, 0xf0, 0x00]
     (Bin (Bin Tip 0xaea3c [0x06, 0x80, 0x00, 0x00, 0x07, 0xff] [0x06, 0x80, 0x00, 0x00, 0x0f, 0xff]
     Tip) 0xaea42 [0x02, 0x40, 0xf8, 0x00] [0x02, 0x40, 0xf0, 0x00]
     (Bin Tip 0xaeac0 [0x06, 0x80, 0x00, 0x00, 0x07, 0xff] [0x06, 0x80, 0x00, 0x00, 0x0f, 0xff]
     Tip))))"

definition ix26 :: site_tree where
  "ix26 = (Bin (Bin (Bin (Bin (Bin Tip 0xaeb78 [0x06, 0x80, 0x00, 0x00, 0x07, 0xff] [0x06, 0x80, 0x00, 0x00, 0x0f, 0xff]
     Tip) 0xaeb7e [0x72, 0x0b] [0x72, 0x0c]
     Tip) 0xaebe0 [0x02, 0x42, 0xf8, 0x00] [0x02, 0x42, 0xf0, 0x00]
     (Bin Tip 0xaebe8 [0x06, 0x80, 0x00, 0x00, 0x07, 0xff] [0x06, 0x80, 0x00, 0x00, 0x0f, 0xff]
     Tip)) 0xaebee [0x02, 0x40, 0xf8, 0x00] [0x02, 0x40, 0xf0, 0x00]
     (Bin (Bin Tip 0xaee6a [0x02, 0x80, 0x00, 0x00, 0x07, 0xff] [0x02, 0x80, 0x00, 0x00, 0x0f, 0xff]
     Tip) 0xaeeba [0x02, 0x46, 0xf8, 0x00] [0x02, 0x46, 0xf0, 0x00]
     (Bin Tip 0xaeece [0x02, 0x42, 0xf8, 0x00] [0x02, 0x42, 0xf0, 0x00]
     Tip))) 0xaeed6 [0x02, 0x80, 0x00, 0x00, 0x07, 0xff] [0x02, 0x80, 0x00, 0x00, 0x0f, 0xff]
     (Bin (Bin (Bin (Bin Tip 0xaeedc [0x26, 0x3c, 0x00, 0x00, 0x08, 0x00] [0x26, 0x3c, 0x00, 0x00, 0x10, 0x00]
     Tip) 0xaef02 [0x06, 0x80, 0x00, 0x00, 0x08, 0x00] [0x06, 0x80, 0x00, 0x00, 0x10, 0x00]
     Tip) 0xaef10 [0x06, 0x80, 0xff, 0xff, 0xf8, 0x00] [0x06, 0x80, 0xff, 0xff, 0xf0, 0x00]
     (Bin Tip 0xaefdc [0x48, 0x78, 0x08, 0x00] [0x48, 0x78, 0x10, 0x00]
     Tip)) 0xaefe4 [0x48, 0x78, 0x08, 0x00] [0x48, 0x78, 0x10, 0x00]
     (Bin (Bin Tip 0xaf000 [0x26, 0x3c, 0x00, 0x00, 0x08, 0x00] [0x26, 0x3c, 0x00, 0x00, 0x10, 0x00]
     Tip) 0xaf006 [0x06, 0x82, 0x00, 0x00, 0x08, 0x00] [0x06, 0x82, 0x00, 0x00, 0x10, 0x00]
     (Bin Tip 0xaf01c [0x02, 0x80, 0x00, 0x00, 0x07, 0xff] [0x02, 0x80, 0x00, 0x00, 0x0f, 0xff]
     Tip))))"

definition ix27 :: site_tree where
  "ix27 = (Bin (Bin (Bin (Bin (Bin Tip 0xaf0f6 [0x02, 0x40, 0xf8, 0x00] [0x02, 0x40, 0xf0, 0x00]
     Tip) 0xaf11e [0xd2, 0xfc, 0x08, 0x00] [0xd2, 0xfc, 0x10, 0x00]
     Tip) 0xaf230 [0x48, 0x78, 0x08, 0x00] [0x48, 0x78, 0x10, 0x00]
     (Bin Tip 0xaf234 [0x74, 0x0b] [0x74, 0x0c]
     Tip)) 0xaf268 [0x48, 0x78, 0x08, 0x00] [0x48, 0x78, 0x10, 0x00]
     (Bin (Bin Tip 0xaf26c [0x72, 0x0b] [0x72, 0x0c]
     Tip) 0xaf29c [0x72, 0x0b] [0x72, 0x0c]
     (Bin Tip 0xaf2ca [0x06, 0x87, 0x00, 0x00, 0x08, 0x00] [0x06, 0x87, 0x00, 0x00, 0x10, 0x00]
     Tip))) 0xaf310 [0x28, 0x3c, 0xbf, 0xff, 0xf8, 0x00] [0x28, 0x3c, 0xbf, 0xff, 0xf0, 0x00]
     (Bin (Bin (Bin (Bin Tip 0xaf320 [0x28, 0x3c, 0xff, 0xff, 0xf8, 0x00] [0x28, 0x3c, 0xff, 0xff, 0xf0, 0x00]
     Tip) 0xaf37a [0x06, 0x82, 0x00, 0x00, 0x08, 0x00] [0x06, 0x82, 0x00, 0x00, 0x10, 0x00]
     Tip) 0xaf3a4 [0x06, 0x83, 0x00, 0x00, 0x08, 0x00] [0x06, 0x83, 0x00, 0x00, 0x10, 0x00]
     (Bin Tip 0xaffb8 [0x06, 0x82, 0x00, 0x00, 0x07, 0xff] [0x06, 0x82, 0x00, 0x00, 0x0f, 0xff]
     Tip)) 0xaffbe [0x72, 0x0b] [0x72, 0x0c]
     (Bin (Bin Tip 0xb1124 [0x48, 0x78, 0x08, 0x00] [0x48, 0x78, 0x10, 0x00]
     Tip) 0xb1822 [0x72, 0x0b] [0x72, 0x0c]
     (Bin Tip 0xb183a [0x20, 0x3c, 0x00, 0x00, 0x08, 0x00] [0x20, 0x3c, 0x00, 0x00, 0x10, 0x00]
     Tip))))"

definition ix28 :: site_tree where
  "ix28 = (Bin (Bin (Bin (Bin (Bin Tip 0xb1886 [0x0c, 0x84, 0x00, 0x00, 0x07, 0xff] [0x0c, 0x84, 0x00, 0x00, 0x0f, 0xff]
     Tip) 0xb1896 [0x20, 0x3c, 0x00, 0x00, 0x08, 0x00] [0x20, 0x3c, 0x00, 0x00, 0x10, 0x00]
     Tip) 0xb18a2 [0x24, 0x3c, 0x00, 0x00, 0x08, 0x00] [0x24, 0x3c, 0x00, 0x00, 0x10, 0x00]
     (Bin Tip 0xb18dc [0x06, 0x82, 0x00, 0x00, 0x08, 0x00] [0x06, 0x82, 0x00, 0x00, 0x10, 0x00]
     Tip)) 0xb18f8 [0x48, 0x68, 0xf8, 0x00] [0x48, 0x68, 0xf0, 0x00]
     (Bin (Bin Tip 0xb1912 [0x06, 0x83, 0xff, 0xff, 0xf8, 0x00] [0x06, 0x83, 0xff, 0xff, 0xf0, 0x00]
     Tip) 0xb195c [0x06, 0x82, 0x00, 0x00, 0x07, 0xff] [0x06, 0x82, 0x00, 0x00, 0x0f, 0xff]
     (Bin Tip 0xb1966 [0x06, 0x82, 0x00, 0x00, 0x07, 0xff] [0x06, 0x82, 0x00, 0x00, 0x0f, 0xff]
     Tip))) 0xb1970 [0x02, 0x42, 0xf8, 0x00] [0x02, 0x42, 0xf0, 0x00]
     (Bin (Bin (Bin (Bin Tip 0xb19b2 [0xd6, 0xfc, 0x08, 0x00] [0xd6, 0xfc, 0x10, 0x00]
     Tip) 0xb1a28 [0x06, 0x82, 0x00, 0x00, 0x08, 0x00] [0x06, 0x82, 0x00, 0x00, 0x10, 0x00]
     Tip) 0xb1d60 [0x06, 0x84, 0x00, 0x00, 0x08, 0x00] [0x06, 0x84, 0x00, 0x00, 0x10, 0x00]
     (Bin Tip 0xb2266 [0x02, 0x44, 0xf8, 0x00] [0x02, 0x44, 0xf0, 0x00]
     Tip)) 0xb226a [0x06, 0x83, 0x00, 0x00, 0x07, 0xff] [0x06, 0x83, 0x00, 0x00, 0x0f, 0xff]
     (Bin (Bin Tip 0xb2270 [0x02, 0x43, 0xf8, 0x00] [0x02, 0x43, 0xf0, 0x00]
     Tip) 0xb22b4 [0x06, 0x82, 0x00, 0x00, 0x08, 0x00] [0x06, 0x82, 0x00, 0x00, 0x10, 0x00]
     (Bin Tip 0xb2302 [0x06, 0x82, 0xff, 0xff, 0xf8, 0x00] [0x06, 0x82, 0xff, 0xff, 0xf0, 0x00]
     Tip))))"

definition ix29 :: site_tree where
  "ix29 = (Bin (Bin (Bin (Bin (Bin Tip 0xb248c [0x02, 0x80, 0x00, 0x00, 0x07, 0xff] [0x02, 0x80, 0x00, 0x00, 0x0f, 0xff]
     Tip) 0xb2492 [0x04, 0x80, 0x00, 0x00, 0x08, 0x00] [0x04, 0x80, 0x00, 0x00, 0x10, 0x00]
     Tip) 0xb25f8 [0x2a, 0x3c, 0x00, 0x00, 0x08, 0x00] [0x2a, 0x3c, 0x00, 0x00, 0x10, 0x00]
     (Bin Tip 0xb260e [0x06, 0x80, 0x00, 0x00, 0x08, 0x00] [0x06, 0x80, 0x00, 0x00, 0x10, 0x00]
     Tip)) 0xb26c6 [0x06, 0x82, 0x00, 0x00, 0x08, 0x00] [0x06, 0x82, 0x00, 0x00, 0x10, 0x00]
     (Bin (Bin Tip 0xb26cc [0x06, 0x83, 0x00, 0x00, 0x08, 0x00] [0x06, 0x83, 0x00, 0x00, 0x10, 0x00]
     Tip) 0xb2832 [0x02, 0x41, 0xf8, 0x00] [0x02, 0x41, 0xf0, 0x00]
     (Bin Tip 0xb283e [0x06, 0x80, 0x00, 0x00, 0x07, 0xff] [0x06, 0x80, 0x00, 0x00, 0x0f, 0xff]
     Tip))) 0xb2844 [0x02, 0x40, 0xf8, 0x00] [0x02, 0x40, 0xf0, 0x00]
     (Bin (Bin (Bin (Bin Tip 0xb2b28 [0x72, 0x0b] [0x72, 0x0c]
     Tip) 0xb2b98 [0x74, 0x0b] [0x74, 0x0c]
     Tip) 0xb2d60 [0x06, 0x82, 0x00, 0x00, 0x07, 0xff] [0x06, 0x82, 0x00, 0x00, 0x0f, 0xff]
     (Bin Tip 0xb2d66 [0x02, 0x42, 0xf8, 0x00] [0x02, 0x42, 0xf0, 0x00]
     Tip)) 0xb321e [0x06, 0x83, 0x00, 0x00, 0x07, 0xff] [0x06, 0x83, 0x00, 0x00, 0x0f, 0xff]
     (Bin (Bin Tip 0xb3224 [0x02, 0x43, 0xf8, 0x00] [0x02, 0x43, 0xf0, 0x00]
     Tip) 0xb3228 [0x02, 0x44, 0xf8, 0x00] [0x02, 0x44, 0xf0, 0x00]
     (Bin Tip 0xb323c [0x06, 0x85, 0x00, 0x00, 0x07, 0xff] [0x06, 0x85, 0x00, 0x00, 0x0f, 0xff]
     Tip))))"

definition ix30 :: site_tree where
  "ix30 = (Bin (Bin (Bin (Bin (Bin Tip 0xb349c [0x06, 0x80, 0x00, 0x00, 0x07, 0xff] [0x06, 0x80, 0x00, 0x00, 0x0f, 0xff]
     Tip) 0xb34a2 [0x02, 0x40, 0xf8, 0x00] [0x02, 0x40, 0xf0, 0x00]
     Tip) 0xb369c [0x06, 0x80, 0x00, 0x00, 0x07, 0xff] [0x06, 0x80, 0x00, 0x00, 0x0f, 0xff]
     (Bin Tip 0xb36a2 [0x72, 0x0b] [0x72, 0x0c]
     Tip)) 0xb3d70 [0x06, 0x82, 0x00, 0x00, 0x08, 0x00] [0x06, 0x82, 0x00, 0x00, 0x10, 0x00]
     (Bin (Bin Tip 0xb58c6 [0xf0, 0x11, 0x4c, 0x00] [0x4e, 0x7b, 0x88, 0x06]
     Tip) 0xb58ca [0xf0, 0x00, 0x24, 0x00] [0xf5, 0x18, 0x4e, 0x71]
     (Bin Tip 0xb58d2 [0x67, 0x00, 0x00, 0x12] [0x60, 0x00, 0x00, 0x12]
     Tip))) 0xb5e1c [0x78, 0x0b] [0x78, 0x0c]
     (Bin (Bin (Bin (Bin Tip 0xb63d6 [0x7a, 0x0b] [0x7a, 0x0c]
     Tip) 0xb6484 [0x7a, 0x0b] [0x7a, 0x0c]
     Tip) 0xb6524 [0x7a, 0x0b] [0x7a, 0x0c]
     (Bin Tip 0xb65e4 [0x72, 0x0b] [0x72, 0x0c]
     Tip)) 0xb6610 [0x72, 0x0b] [0x72, 0x0c]
     (Bin (Bin Tip 0xb68a2 [0x67, 0x00, 0x00, 0x78] [0x60, 0x00, 0x00, 0x78]
     Tip) 0xb6904 [0x48, 0x78, 0x01, 0x00] [0x48, 0x78, 0x10, 0x00]
     (Bin Tip 0xb6974 [0x48, 0x78, 0x08, 0x00] [0x48, 0x78, 0x10, 0x00]
     Tip))))"

definition ix31 :: site_tree where
  "ix31 = (Bin (Bin (Bin (Bin (Bin Tip 0xb6d00 [0x72, 0x0b] [0x72, 0x0c]
     Tip) 0xb6d2c [0x72, 0x0b] [0x72, 0x0c]
     Tip) 0xb70ea [0xf0, 0x11, 0x4c, 0x00] [0x4e, 0x7b, 0x88, 0x06]
     (Bin Tip 0xb70ee [0xf0, 0x00, 0x24, 0x00] [0xf5, 0x18, 0x4e, 0x71]
     Tip)) 0xb7472 [0xf0, 0x11, 0x4c, 0x00] [0x4e, 0x7b, 0x88, 0x06]
     (Bin (Bin Tip 0xb7476 [0xf0, 0x00, 0x24, 0x00] [0xf5, 0x18, 0x4e, 0x71]
     Tip) 0xb77c0 [0x02, 0x40, 0xf8, 0x00] [0x02, 0x40, 0xf0, 0x00]
     (Bin Tip 0xb77c8 [0x02, 0x81, 0x00, 0x00, 0x07, 0xff] [0x02, 0x81, 0x00, 0x00, 0x0f, 0xff]
     Tip))) 0xb78d0 [0xf0, 0x00, 0x24, 0x00] [0xf5, 0x18, 0x4e, 0x71]
     (Bin (Bin (Bin (Bin Tip 0xb842c [0x24, 0xfc, 0x00, 0x00, 0x08, 0x00] [0x24, 0xfc, 0x00, 0x00, 0x10, 0x00]
     Tip) 0xb8440 [0x06, 0x80, 0x00, 0x00, 0x07, 0xff] [0x06, 0x80, 0x00, 0x00, 0x0f, 0xff]
     Tip) 0xb8446 [0x78, 0x0b] [0x78, 0x0c]
     (Bin Tip 0xb86fe [0x06, 0x80, 0x00, 0x00, 0x07, 0xff] [0x06, 0x80, 0x00, 0x00, 0x0f, 0xff]
     Tip)) 0xb8704 [0x7e, 0x0b] [0x7e, 0x0c]
     (Bin (Bin Tip 0xb923c [0xf0, 0x11, 0x4c, 0x00] [0x4e, 0x7b, 0x08, 0x06]
     Tip) 0xb9240 [0xf0, 0x00, 0x24, 0x00] [0xf5, 0x18, 0x4e, 0x71]
     (Bin Tip 0xd7186 [0x72, 0x0b] [0x72, 0x0c]
     Tip))))"

definition kernel_index :: site_tree where
  "kernel_index = (Bin (Bin (Bin (Bin (Bin ix0 0x20ea2 [0x20, 0x3c, 0x00, 0x00, 0x08, 0x00] [0x20, 0x3c, 0x00, 0x00, 0x10, 0x00]
     ix1) 0x41be4 [0x48, 0x78, 0x00, 0x02] [0x48, 0x78, 0x00, 0x01]
     (Bin ix2 0x42c74 [0x74, 0x08] [0x74, 0x04]
     ix3)) 0x43420 [0x02, 0x46, 0xf8, 0x00] [0x02, 0x46, 0xf0, 0x00]
     (Bin (Bin ix4 0x48e64 [0x06, 0x83, 0x00, 0x00, 0x07, 0xff] [0x06, 0x83, 0x00, 0x00, 0x0f, 0xff]
     ix5) 0x553a0 [0x02, 0x80, 0x00, 0x00, 0x07, 0xff] [0x02, 0x80, 0x00, 0x00, 0x0f, 0xff]
     (Bin ix6 0x57a68 [0x02, 0x80, 0x00, 0x00, 0x07, 0xff] [0x02, 0x80, 0x00, 0x00, 0x0f, 0xff]
     ix7))) 0x585e2 [0x02, 0x80, 0x00, 0x00, 0x07, 0xff] [0x02, 0x80, 0x00, 0x00, 0x0f, 0xff]
     (Bin (Bin (Bin ix8 0x5af14 [0x70, 0x40, 0xc0, 0xa8, 0x00, 0x48] [0x70, 0x01, 0xc0, 0x28, 0x00, 0x4c]
     ix9) 0x64580 [0x02, 0x45, 0xf8, 0x00] [0x02, 0x45, 0xf0, 0x00]
     (Bin ix10 0x66f98 [0x7c, 0x0b] [0x7c, 0x0c]
     ix11)) 0x7459a [0x0c, 0x85, 0x00, 0x00, 0x07, 0xff] [0x0c, 0x85, 0x00, 0x00, 0x0f, 0xff]
     (Bin (Bin ix12 0x79da4 [0x06, 0x80, 0x00, 0x00, 0x07, 0xff] [0x06, 0x80, 0x00, 0x00, 0x0f, 0xff]
     ix13) 0x81eda [0x06, 0x80, 0x00, 0x00, 0x07, 0xff] [0x06, 0x80, 0x00, 0x00, 0x0f, 0xff]
     (Bin ix14 0x82396 [0x06, 0x80, 0x00, 0x00, 0x07, 0xff] [0x06, 0x80, 0x00, 0x00, 0x0f, 0xff]
     ix15)))) 0xa8390 [0x02, 0x40, 0xf8, 0x00] [0x02, 0x40, 0xf0, 0x00]
     (Bin (Bin (Bin (Bin ix16 0xa89c4 [0x02, 0x41, 0xf8, 0x01] [0x02, 0x41, 0xf0, 0x01]
     ix17) 0xa8e34 [0x70, 0x0b] [0x70, 0x0c]
     (Bin ix18 0xaa9ae [0x48, 0x78, 0x08, 0x00] [0x48, 0x78, 0x10, 0x00]
     ix19)) 0xab1c2 [0x06, 0x80, 0x00, 0x00, 0x07, 0xff] [0x06, 0x80, 0x00, 0x00, 0x0f, 0xff]
     (Bin (Bin ix20 0xaba0e [0x72, 0x0b] [0x72, 0x0c]
     ix21) 0xac726 [0x06, 0x82, 0x00, 0x00, 0x08, 0x00] [0x06, 0x82, 0x00, 0x00, 0x10, 0x00]
     (Bin ix22 0xacf7a [0x72, 0x0b] [0x72, 0x0c]
     ix23))) 0xad672 [0x72, 0x0b] [0x72, 0x0c]
     (Bin (Bin (Bin ix24 0xae2cc [0x06, 0x82, 0x00, 0x00, 0x08, 0x00] [0x06, 0x82, 0x00, 0x00, 0x10, 0x00]
     ix25) 0xaeac6 [0x7c, 0x0b] [0x7c, 0x0c]
     (Bin ix26 0xaf0f0 [0x06, 0x80, 0x00, 0x00, 0x07, 0xff] [0x06, 0x80, 0x00, 0x00, 0x0f, 0xff]
     ix27)) 0xb186c [0x0c, 0x84, 0x00, 0x00, 0x08, 0x00] [0x0c, 0x84, 0x00, 0x00, 0x10, 0x00]
     (Bin (Bin ix28 0xb2340 [0x06, 0x82, 0x00, 0x00, 0x08, 0x00] [0x06, 0x82, 0x00, 0x00, 0x10, 0x00]
     ix29) 0xb3242 [0x72, 0x0b] [0x72, 0x0c]
     (Bin ix30 0xb6a74 [0x76, 0x0b] [0x76, 0x0c]
     ix31)))))"

lemmas ix_defs = ix0_def ix1_def ix2_def ix3_def ix4_def ix5_def ix6_def ix7_def ix8_def ix9_def ix10_def ix11_def ix12_def ix13_def ix14_def ix15_def ix16_def ix17_def ix18_def ix19_def ix20_def ix21_def ix22_def ix23_def ix24_def ix25_def ix26_def ix27_def ix28_def ix29_def ix30_def ix31_def

lemma kernel_index_chain: "chain (walk kernel_index)"
  by (simp add: kernel_index_def ix_defs)

lemmas index_eval = kernel_index_def ix_defs [THEN arg_cong [where f = indexed]]
lemmas gap_eval = kernel_index_def ix_defs [THEN arg_cong [where f = gap]]

end
