(* ===== verification/Modelb_Sites.thy ===== *)
theory Modelb_Sites
  imports Text_Patcher Kernel_Index
begin

text \<open>
  \<open>src/src/patch_modelb.py\<close>: the 2 KiB to 4 KiB page conversion of the kernel's MMU-facing page
  machinery.  The table \<open>P\<close> is transcribed row by row; its five parts follow the file.
\<close>

definition modelb_P1 :: "site list" where
  "modelb_P1 = [
    (0xb6904, [0x48, 0x78, 0x01, 0x00], [0x48, 0x78, 0x10, 0x00], ''hat_ptalloc:bzero leaf table 256->4096 (full-page, recycled-page band-aid)''),
    (0x48af4, [0x76, 0x0b], [0x76, 0x0c], ''mlset:VSIZOFMEM>>11 (memsize clicks)''),
    (0x48b1a, [0x06, 0x80, 0x00, 0x00, 0x07, 0xff], [0x06, 0x80, 0x00, 0x00, 0x0f, 0xff], ''mlset:maxclick round +2047''),
    (0x48b20, [0x76, 0x0b], [0x76, 0x0c], ''mlset:maxclick >>11/<<11''),
    (0x48b5e, [0x76, 0x0b], [0x76, 0x0c], ''mlset:sptmap base syssegs>>11''),
    (0x48b64, [0x48, 0x78, 0x08, 0x00], [0x48, 0x78, 0x04, 0x00], ''mlset:sptmap size 2048->1024 clicks''),
    (0x49120, [0x20, 0x80], [0x4e, 0x71], ''p0init:neuter STORE B inert-030-tree PTE write (ISSUE-8 PROBE)''),
    (0x48e64, [0x06, 0x83, 0x00, 0x00, 0x07, 0xff], [0x06, 0x83, 0x00, 0x00, 0x0f, 0xff], ''kvm:page_hash round +2047''),
    (0x48e6a, [0x7c, 0x0b], [0x7c, 0x0c], ''kvm:page_hash region >>11''),
    (0x48d28, [0x7c, 0x0b], [0x7c, 0x0c], ''kvm:ISSUE-8 kvsegmap ptptr=ctob(nextfree) <<11->12''),
    (0x48d54, [0x7c, 0x0b], [0x7c, 0x0c], ''kvm:ISSUE-8 kvsegmap ksegmappt=ctob + nextfree=btoc (shared) <<11->12''),
    (0x48d66, [0x06, 0x85, 0x00, 0x00, 0x07, 0xff], [0x06, 0x85, 0x00, 0x00, 0x0f, 0xff], ''kvm:ISSUE-8 kvsegmap btoc round +2047->+4095''),
    (0x48ddc, [0x7c, 0x0b], [0x7c, 0x0c], ''kvm:ISSUE-8 kvsegu ptptr=ctob(nextfree) <<11->12''),
    (0x48e08, [0x7c, 0x0b], [0x7c, 0x0c], ''kvm:ISSUE-8 kvsegu ksegupt=ctob + nextfree=btoc (shared) <<11->12''),
    (0x48e1a, [0x06, 0x85, 0x00, 0x00, 0x07, 0xff], [0x06, 0x85, 0x00, 0x00, 0x0f, 0xff], ''kvm:ISSUE-8 kvsegu btoc round +2047->+4095''),
    (0xa8716, [0x76, 0x0b], [0x76, 0x0c], ''ska:leaf index >>11''),
    (0xa8742, [0xef, 0xee, 0x00, 0x15, 0xff, 0xf8], [0xef, 0xee, 0x00, 0x14, 0xff, 0xf8], ''ska:PTE pfn bfins {0:21}->{0:20}''),
    (0xa8764, [0x06, 0x82, 0x00, 0x00, 0x08, 0x00], [0x06, 0x82, 0x00, 0x00, 0x10, 0x00], ''ska:addr step #2048->#4096''),
    (0xa892e, [0x7c, 0x0b], [0x7c, 0x0c], ''skm:leaf index >>11''),
    (0xa898a, [0xe9, 0xee, 0x60, 0x15, 0xff, 0xf8], [0xe9, 0xee, 0x60, 0x14, 0xff, 0xf8], ''skm:pfn bfextu {0:21}->{0:20}''),
    (0xa89b0, [0xe9, 0xd3, 0x60, 0x15], [0xe9, 0xd3, 0x60, 0x14], ''skm:old-pfn bfextu {0:21}->{0:20}''),
    (0xa89bc, [0x02, 0x40, 0xf8, 0x01], [0x02, 0x40, 0xf0, 0x01], ''skm:page mask -2047->-4095''),
    (0xa89c4, [0x02, 0x41, 0xf8, 0x01], [0x02, 0x41, 0xf0, 0x01], ''skm:page mask -2047->-4095''),
    (0xa8a3c, [0xe9, 0xee, 0x00, 0x15, 0xff, 0xf8], [0xe9, 0xee, 0x00, 0x14, 0xff, 0xf8], ''skm:adv bfextu {0:21}->{0:20}''),
    (0xa8a44, [0xef, 0xee, 0x00, 0x15, 0xff, 0xf8], [0xef, 0xee, 0x00, 0x14, 0xff, 0xf8], ''skm:adv bfins {0:21}->{0:20}''),
    (0xa8a4e, [0x06, 0x82, 0x00, 0x00, 0x08, 0x00], [0x06, 0x82, 0x00, 0x00, 0x10, 0x00], ''skm:addr step #2048->#4096''),
    (0xa8a54, [0x06, 0x83, 0xff, 0xff, 0xf8, 0x00], [0x06, 0x83, 0xff, 0xff, 0xf0, 0x00], ''skm:len step #-2048->#-4096''),
    (0xa8bfa, [0x72, 0x0b], [0x72, 0x0c], ''spt:click<<11 (alloc branch)''),
    (0xa8c3e, [0x72, 0x0b], [0x72, 0x0c], ''spt:click<<11 (mapin branch)''),
    (0xb2832, [0x02, 0x41, 0xf8, 0x00], [0x02, 0x41, 0xf0, 0x00], ''seg_alloc:base &-2048->-4096''),
    (0xb283e, [0x06, 0x80, 0x00, 0x00, 0x07, 0xff], [0x06, 0x80, 0x00, 0x00, 0x0f, 0xff], ''seg_alloc:size round +2047''),
    (0xb2844, [0x02, 0x40, 0xf8, 0x00], [0x02, 0x40, 0xf0, 0x00], ''seg_alloc:size &-2048->-4096''),
    (0x48ee6, [0x7c, 0x11], [0x7c, 0x12], ''kvm:kvsegmap size <<17->18''),
    (0x48f58, [0x7c, 0x11], [0x7c, 0x12], ''kvm:kvsegu size <<17->18''),
    (0xb77c0, [0x02, 0x40, 0xf8, 0x00], [0x02, 0x40, 0xf0, 0x00], ''svp:PTE page mask &-2048->-4096''),
    (0xb77c8, [0x02, 0x81, 0x00, 0x00, 0x07, 0xff], [0x02, 0x81, 0x00, 0x00, 0x0f, 0xff], ''svp:va off &2047->4095''),
    (0xb6a74, [0x76, 0x0b], [0x76, 0x0c], ''hat_ptalloc:pfn<<11 (phys page base)''),
    (0xb63d6, [0x7a, 0x0b], [0x7a, 0x0c], ''hat_sdtalloc:pfn<<11 (free-list node)''),
    (0xb6484, [0x7a, 0x0b], [0x7a, 0x0c], ''hat_sdtalloc:page_get size d3<<11''),
    (0xb6524, [0x7a, 0x0b], [0x7a, 0x0c], ''hat_sdtalloc:pfn<<11 (new node base)''),
    (0xb5e1c, [0x78, 0x0b], [0x78, 0x0c], ''hat_pt2ptdat:pt>>11 (page-frame index)''),
    (0xb65e4, [0x72, 0x0b], [0x72, 0x0c], ''hat_sdtfree:pfn>>11 (pages bounds chk, d1 reused for both lower+upper)''),
    (0xb6610, [0x72, 0x0b], [0x72, 0x0c], ''hat_sdtfree:pfn>>11 (pages[] index)''),
    (0xb6d00, [0x72, 0x0b], [0x72, 0x0c], ''hat_ptfree:pfn>>11 (pages bounds chk)''),
    (0xb6d2c, [0x72, 0x0b], [0x72, 0x0c], ''hat_ptfree:pfn>>11 (pages[] index)''),
    (0xad6a8, [0x06, 0x81, 0x00, 0x00, 0x07, 0xff], [0x06, 0x81, 0x00, 0x00, 0x0f, 0xff], ''anon_resv:size round +2047->+4095''),
    (0xad6ae, [0x74, 0x0b], [0x74, 0x0c], ''anon_resv:size>>11 shift count (#11->#12)''),
    (0xad736, [0x06, 0x80, 0x00, 0x00, 0x07, 0xff], [0x06, 0x80, 0x00, 0x00, 0x0f, 0xff], ''anon_unresv:size round +2047->+4095''),
    (0xad73c, [0x72, 0x0b], [0x72, 0x0c], ''anon_unresv:size>>11 shift count (#11->#12)''),
    (0xb2b28, [0x72, 0x0b], [0x72, 0x0c], ''swap_xlate:slot-index<<11 -> <<12 (4KB swap offset)''),
    (0xb2b98, [0x74, 0x0b], [0x74, 0x0c], ''swap_anon:swap-offset>>11 -> >>12 (4KB slot index)''),
    (0x57c1c, [0x06, 0x80, 0x00, 0x00, 0x07, 0xff], [0x06, 0x80, 0x00, 0x00, 0x0f, 0xff], ''execmap:bss-start round +2047->+4095''),
    (0x57c22, [0x74, 0x0b], [0x74, 0x0c], ''execmap:bss-start >>11/<<11 (#11->#12, 2KB->4KB page)'')]"

definition modelb_P2 :: "site list" where
  "modelb_P2 = [
    (0xb842c, [0x24, 0xfc, 0x00, 0x00, 0x08, 0x00], [0x24, 0xfc, 0x00, 0x00, 0x10, 0x00], ''elfexec:AT_PAGESZ 2048->4096''),
    (0x58130, [0x06, 0x82, 0x00, 0x00, 0x07, 0xff], [0x06, 0x82, 0x00, 0x00, 0x0f, 0xff], ''brk:nva round +2047->+4095''),
    (0x58136, [0x72, 0x0b], [0x72, 0x0c], ''brk:nva/ova >>11<<11 shift count (#11->#12, all 4 shifts)''),
    (0x58144, [0x06, 0x83, 0x00, 0x00, 0x07, 0xff], [0x06, 0x83, 0x00, 0x00, 0x0f, 0xff], ''brk:ova round +2047->+4095''),
    (0x58222, [0x06, 0x83, 0x00, 0x00, 0x07, 0xff], [0x06, 0x83, 0x00, 0x00, 0x0f, 0xff], ''grow:stksize round +2047->+4095''),
    (0x58228, [0x72, 0x0b], [0x72, 0x0c], ''grow:stksize/growth >>11 shift count (#11->#12, both)''),
    (0x58234, [0x06, 0x82, 0x00, 0x00, 0x07, 0xff], [0x06, 0x82, 0x00, 0x00, 0x0f, 0xff], ''grow:growth round +2047->+4095''),
    (0x58270, [0x72, 0x0b], [0x72, 0x0c], ''grow:total clicks<<11 (stack rlimit compare, #11->#12)''),
    (0x582ba, [0x72, 0x0b], [0x72, 0x0c], ''grow:as_map addr/size clicks<<11 (#11->#12, both shifts)''),
    (0x5830c, [0x72, 0x0b], [0x72, 0x0c], ''grow:shrink as_unmap size d2<<11 (#11->#12)''),
    (0x58328, [0x72, 0x0b], [0x72, 0x0c], ''grow:success tail p_stksize+=/p_stkbase-= d2<<11 (#11->#12, one moveq drives both)''),
    (0xaacb8, [0x02, 0x41, 0xf8, 0x00], [0x02, 0x41, 0xf0, 0x00], ''segvn_create:offset mask &-2048''),
    (0xaad34, [0x02, 0x41, 0xf8, 0x00], [0x02, 0x41, 0xf0, 0x00], ''segvn_create:offset mask &-2048''),
    (0xaae8e, [0x02, 0x41, 0xf8, 0x00], [0x02, 0x41, 0xf0, 0x00], ''segvn_create:offset mask &-2048''),
    (0xaaf1c, [0x06, 0x86, 0x00, 0x00, 0x07, 0xff], [0x06, 0x86, 0x00, 0x00, 0x0f, 0xff], ''segvn_create:npages round +2047''),
    (0xaaf22, [0x72, 0x0b], [0x72, 0x0c], ''segvn_create:npages >>11''),
    (0xaafc4, [0x06, 0x82, 0x00, 0x00, 0x08, 0x00], [0x06, 0x82, 0x00, 0x00, 0x10, 0x00], ''segvn_create:vpage-loop va step''),
    (0xab10c, [0x02, 0x41, 0xf8, 0x00], [0x02, 0x41, 0xf0, 0x00], ''segvn_extend_prev:offset mask''),
    (0xab146, [0x78, 0x0b], [0x78, 0x0c], ''segvn_extend_prev:pages<<11''),
    (0xab1c2, [0x06, 0x80, 0x00, 0x00, 0x07, 0xff], [0x06, 0x80, 0x00, 0x00, 0x0f, 0xff], ''segvn_extend_prev:npages round''),
    (0xab1c8, [0x78, 0x0b], [0x78, 0x0c], ''segvn_extend_prev:npages >>11''),
    (0xab1e0, [0x06, 0x80, 0x00, 0x00, 0x07, 0xff], [0x06, 0x80, 0x00, 0x00, 0x0f, 0xff], ''segvn_extend_prev:npages round''),
    (0xab26c, [0x02, 0x40, 0xf8, 0x00], [0x02, 0x40, 0xf0, 0x00], ''segvn_extend_next:offset mask''),
    (0xab2a0, [0x76, 0x0b], [0x76, 0x0c], ''segvn_extend_next:pages<<11''),
    (0xab2ee, [0x06, 0x80, 0x00, 0x00, 0x07, 0xff], [0x06, 0x80, 0x00, 0x00, 0x0f, 0xff], ''segvn_extend_next:npages round''),
    (0xab340, [0x06, 0x80, 0x00, 0x00, 0x07, 0xff], [0x06, 0x80, 0x00, 0x00, 0x0f, 0xff], ''segvn_extend_next:npages round''),
    (0xab346, [0x76, 0x0b], [0x76, 0x0c], ''segvn_extend_next:npages >>11''),
    (0xab366, [0x06, 0x80, 0x00, 0x00, 0x07, 0xff], [0x06, 0x80, 0x00, 0x00, 0x0f, 0xff], ''segvn_extend_next:npages round''),
    (0xab3e6, [0x06, 0x80, 0x00, 0x00, 0x07, 0xff], [0x06, 0x80, 0x00, 0x00, 0x0f, 0xff], ''anonmap_alloc:anon slots round +2047''),
    (0xab3ec, [0x72, 0x0b], [0x72, 0x0c], ''anonmap_alloc:anon slots >>11''),
    (0xab430, [0x06, 0x82, 0x00, 0x00, 0x07, 0xff], [0x06, 0x82, 0x00, 0x00, 0x0f, 0xff], ''segvn_dup:npages round (vpage copy)''),
    (0xab436, [0x72, 0x0b], [0x72, 0x0c], ''segvn_dup:npages >>11''),
    (0xab670, [0x02, 0x80, 0x00, 0x00, 0x07, 0xff], [0x02, 0x80, 0x00, 0x00, 0x0f, 0xff], ''segvn_unmap:addr pageoff &2047''),
    (0xab67c, [0x02, 0x80, 0x00, 0x00, 0x07, 0xff], [0x02, 0x80, 0x00, 0x00, 0x0f, 0xff], ''segvn_unmap:len pageoff &2047''),
    (0xab754, [0x06, 0x85, 0x00, 0x00, 0x07, 0xff], [0x06, 0x85, 0x00, 0x00, 0x0f, 0xff], ''segvn_unmap:anon_free npages round''),
    (0xab75a, [0x72, 0x0b], [0x72, 0x0c], ''segvn_unmap:anon_free npages >>11''),
    (0xaba08, [0x06, 0x84, 0x00, 0x00, 0x07, 0xff], [0x06, 0x84, 0x00, 0x00, 0x0f, 0xff], ''segvn_unmap:split anon_index round''),
    (0xaba0e, [0x72, 0x0b], [0x72, 0x0c], ''segvn_unmap:split anon_index >>11''),
    (0xaba3a, [0x06, 0x84, 0x00, 0x00, 0x07, 0xff], [0x06, 0x84, 0x00, 0x00, 0x0f, 0xff], ''segvn_unmap:split vpage idx round''),
    (0xaba40, [0x72, 0x0b], [0x72, 0x0c], ''segvn_unmap:split vpage idx >>11''),
    (0xaba9c, [0x72, 0x0b], [0x72, 0x0c], ''segvn_unmap:split idx >>11''),
    (0xabb8e, [0x06, 0x82, 0x00, 0x00, 0x07, 0xff], [0x06, 0x82, 0x00, 0x00, 0x0f, 0xff], ''segvn_free:anon array npages round''),
    (0xabb94, [0x72, 0x0b], [0x72, 0x0c], ''segvn_free:anon array npages >>11''),
    (0xabd2e, [0x7c, 0x0b], [0x7c, 0x0c], ''segvn_softunlock:page idx >>11''),
    (0xabd56, [0x7c, 0x0b], [0x7c, 0x0c], ''segvn_softunlock:page idx >>11''),
    (0xabee0, [0x06, 0x82, 0x00, 0x00, 0x08, 0x00], [0x06, 0x82, 0x00, 0x00, 0x10, 0x00], ''segvn_softunlock:loop bound step''),
    (0xabf2e, [0x06, 0x80, 0x00, 0x00, 0x08, 0x00], [0x06, 0x80, 0x00, 0x00, 0x10, 0x00], ''non_anon:next-page step''),
    (0xabf4e, [0x06, 0x80, 0x00, 0x00, 0x08, 0x00], [0x06, 0x80, 0x00, 0x00, 0x10, 0x00], ''non_anon:next-page step''),
    (0xac868, [0x74, 0x0b], [0x74, 0x0c], ''segvn_faulta:page idx >>11''),
    (0xac922, [0x7a, 0x0b], [0x7a, 0x0c], ''segvn_unload:page idx >>11''),
    (0xaca92, [0x7c, 0x0b], [0x7c, 0x0c], ''segvn_setprot:page idx >>11''),
    (0xacab6, [0x7c, 0x0b], [0x7c, 0x0c], ''segvn_setprot:page idx >>11''),
    (0xacb5e, [0x06, 0x85, 0x00, 0x00, 0x08, 0x00], [0x06, 0x85, 0x00, 0x00, 0x10, 0x00], ''segvn_setprot:va loop step''),
    (0xacb84, [0x7c, 0x0b], [0x7c, 0x0c], ''segvn_setprot:page idx >>11''),
    (0xacc2e, [0x78, 0x0b], [0x78, 0x0c], ''segvn_checkprot:page idx >>11''),
    (0xacc9a, [0x76, 0x0b], [0x76, 0x0c], ''segvn_getprot:page idx >>11''),
    (0xaccd2, [0x76, 0x0b], [0x76, 0x0c], ''segvn_getprot:page idx >>11''),
    (0xacd80, [0x06, 0x81, 0x00, 0x00, 0x07, 0xff], [0x06, 0x81, 0x00, 0x00, 0x0f, 0xff], ''segvn_kluster:idx round''),
    (0xacd86, [0x78, 0x0b], [0x78, 0x0c], ''segvn_kluster:idx >>11''),
    (0xace4c, [0x72, 0x0b], [0x72, 0x0c], ''segvn_swapout:npages >>11''),
    (0xace98, [0x72, 0x0b], [0x72, 0x0c], ''segvn_swapout:page<<11''),
    (0xacf7a, [0x72, 0x0b], [0x72, 0x0c], ''segvn_swapout:page<<11''),
    (0xad034, [0x72, 0x0b], [0x72, 0x0c], ''segvn_sync:page idx >>11''),
    (0xad096, [0x72, 0x0b], [0x72, 0x0c], ''segvn_sync:page idx >>11''),
    (0xad0dc, [0x06, 0x84, 0x00, 0x00, 0x08, 0x00], [0x06, 0x84, 0x00, 0x00, 0x10, 0x00], ''segvn_sync:va loop step''),
    (0xad162, [0x06, 0x82, 0x00, 0x00, 0x08, 0x00], [0x06, 0x82, 0x00, 0x00, 0x10, 0x00], ''segvn_sync:va loop step''),
    (0xad1aa, [0x06, 0x80, 0x00, 0x00, 0x07, 0xff], [0x06, 0x80, 0x00, 0x00, 0x0f, 0xff], ''segvn_incore:npages round''),
    (0xad1b0, [0x7c, 0x0b], [0x7c, 0x0c], ''segvn_incore:npages >>11''),
    (0xad1c8, [0x7c, 0x0b], [0x7c, 0x0c], ''segvn_incore:page idx >>11''),
    (0xad2c0, [0x06, 0x84, 0x00, 0x00, 0x08, 0x00], [0x06, 0x84, 0x00, 0x00, 0x10, 0x00], ''segvn_incore:va loop step''),
    (0xad3b6, [0x06, 0x80, 0x00, 0x00, 0x07, 0xff], [0x06, 0x80, 0x00, 0x00, 0x0f, 0xff], ''segvn_lockop:npages round''),
    (0xad3bc, [0x7c, 0x0b], [0x7c, 0x0c], ''segvn_lockop:npages >>11''),
    (0xad3f4, [0x7c, 0x0b], [0x7c, 0x0c], ''segvn_lockop:page idx >>11''),
    (0xad41e, [0x7c, 0x0b], [0x7c, 0x0c], ''segvn_lockop:page idx >>11''),
    (0xad596, [0x06, 0x84, 0x00, 0x00, 0x08, 0x00], [0x06, 0x84, 0x00, 0x00, 0x10, 0x00], ''segvn_lockop:va loop step''),
    (0xad59c, [0x06, 0xae, 0x00, 0x00, 0x08, 0x00], [0x06, 0xae, 0x00, 0x00, 0x10, 0x00], ''segvn_lockop:va loop step (fp-var)''),
    (0xad5ea, [0x06, 0x80, 0x00, 0x00, 0x07, 0xff], [0x06, 0x80, 0x00, 0x00, 0x0f, 0xff], ''segvn_vpage:npages round''),
    (0xad5f0, [0x74, 0x0b], [0x74, 0x0c], ''segvn_vpage:npages >>11''),
    (0xad672, [0x72, 0x0b], [0x72, 0x0c], ''segvn_isanon:page idx >>11''),
    (0xae26a, [0x02, 0x42, 0xf8, 0x00], [0x02, 0x42, 0xf0, 0x00], ''as_faulta:addr mask &-2048''),
    (0xae272, [0x06, 0x80, 0x00, 0x00, 0x07, 0xff], [0x06, 0x80, 0x00, 0x00, 0x0f, 0xff], ''as_faulta:size round +2047''),
    (0xae278, [0x02, 0x40, 0xf8, 0x00], [0x02, 0x40, 0xf0, 0x00], ''as_faulta:size mask &-2048''),
    (0xae2cc, [0x06, 0x82, 0x00, 0x00, 0x08, 0x00], [0x06, 0x82, 0x00, 0x00, 0x10, 0x00], ''as_faulta:addr step''),
    (0xae2d2, [0x06, 0x83, 0xff, 0xff, 0xf8, 0x00], [0x06, 0x83, 0xff, 0xff, 0xf0, 0x00], ''as_faulta:size step -2048''),
    (0xae2fc, [0x02, 0x43, 0xf8, 0x00], [0x02, 0x43, 0xf0, 0x00], ''as_setprot:addr mask''),
    (0xae304, [0x06, 0x80, 0x00, 0x00, 0x07, 0xff], [0x06, 0x80, 0x00, 0x00, 0x0f, 0xff], ''as_setprot:size round''),
    (0xae30a, [0x02, 0x40, 0xf8, 0x00], [0x02, 0x40, 0xf0, 0x00], ''as_setprot:size mask''),
    (0xae3a8, [0x02, 0x43, 0xf8, 0x00], [0x02, 0x43, 0xf0, 0x00], ''as_checkprot:addr mask''),
    (0xae3b0, [0x06, 0x80, 0x00, 0x00, 0x07, 0xff], [0x06, 0x80, 0x00, 0x00, 0x0f, 0xff], ''as_checkprot:size round''),
    (0xae3b6, [0x02, 0x40, 0xf8, 0x00], [0x02, 0x40, 0xf0, 0x00], ''as_checkprot:size mask''),
    (0xae456, [0x02, 0x43, 0xf8, 0x00], [0x02, 0x43, 0xf0, 0x00], ''as_unmap:addr mask''),
    (0xae460, [0x06, 0x84, 0x00, 0x00, 0x07, 0xff], [0x06, 0x84, 0x00, 0x00, 0x0f, 0xff], ''as_unmap:size round''),
    (0xae466, [0x02, 0x44, 0xf8, 0x00], [0x02, 0x44, 0xf0, 0x00], ''as_unmap:size mask''),
    (0xae50e, [0x02, 0x40, 0xf8, 0x00], [0x02, 0x40, 0xf0, 0x00], ''as_map:addr mask''),
    (0xae516, [0x06, 0x81, 0x00, 0x00, 0x07, 0xff], [0x06, 0x81, 0x00, 0x00, 0x0f, 0xff], ''as_map:size round''),
    (0xae51c, [0x02, 0x41, 0xf8, 0x00], [0x02, 0x41, 0xf0, 0x00], ''as_map:size mask''),
    (0xaea34, [0x02, 0x43, 0xf8, 0x00], [0x02, 0x43, 0xf0, 0x00], ''as_incore:addr mask''),
    (0xaea3c, [0x06, 0x80, 0x00, 0x00, 0x07, 0xff], [0x06, 0x80, 0x00, 0x00, 0x0f, 0xff], ''as_incore:size round''),
    (0xaea42, [0x02, 0x40, 0xf8, 0x00], [0x02, 0x40, 0xf0, 0x00], ''as_incore:size mask'')]"

definition modelb_P3 :: "site list" where
  "modelb_P3 = [
    (0xaeac0, [0x06, 0x80, 0x00, 0x00, 0x07, 0xff], [0x06, 0x80, 0x00, 0x00, 0x0f, 0xff], ''as_incore:npages round''),
    (0xaeac6, [0x7c, 0x0b], [0x7c, 0x0c], ''as_incore:npages >>11''),
    (0xaeb78, [0x06, 0x80, 0x00, 0x00, 0x07, 0xff], [0x06, 0x80, 0x00, 0x00, 0x0f, 0xff], ''as_ctl:npages round''),
    (0xaeb7e, [0x72, 0x0b], [0x72, 0x0c], ''as_ctl:npages >>11''),
    (0xaebe0, [0x02, 0x42, 0xf8, 0x00], [0x02, 0x42, 0xf0, 0x00], ''as_ctl:addr mask''),
    (0xaebe8, [0x06, 0x80, 0x00, 0x00, 0x07, 0xff], [0x06, 0x80, 0x00, 0x00, 0x0f, 0xff], ''as_ctl:size round''),
    (0xaebee, [0x02, 0x40, 0xf8, 0x00], [0x02, 0x40, 0xf0, 0x00], ''as_ctl:size mask''),
    (0xaf0f0, [0x06, 0x80, 0x00, 0x00, 0x07, 0xff], [0x06, 0x80, 0x00, 0x00, 0x0f, 0xff], ''map_addr:addr round''),
    (0xaf0f6, [0x02, 0x40, 0xf8, 0x00], [0x02, 0x40, 0xf0, 0x00], ''map_addr:addr mask''),
    (0xaf11e, [0xd2, 0xfc, 0x08, 0x00], [0xd2, 0xfc, 0x10, 0x00], ''map_addr:addr += pagesize''),
    (0xaa386, [0x74, 0x0b], [0x74, 0x0c], ''segu_getprot:page idx >>11''),
    (0xaa884, [0x02, 0x42, 0xf8, 0x00], [0x02, 0x42, 0xf0, 0x00], ''segu_softunload:addr mask &-2048''),
    (0xaa88c, [0x06, 0x80, 0x00, 0x00, 0x07, 0xff], [0x06, 0x80, 0x00, 0x00, 0x0f, 0xff], ''segu_softunload:size round +2047''),
    (0xaa892, [0x02, 0x40, 0xf8, 0x00], [0x02, 0x40, 0xf0, 0x00], ''segu_softunload:size mask &-2048''),
    (0xaa8f4, [0x06, 0x80, 0x00, 0x00, 0x07, 0xff], [0x06, 0x80, 0x00, 0x00, 0x0f, 0xff], ''segu_softunload:PTE idx round +2047''),
    (0xaa8fa, [0x7a, 0x0b], [0x7a, 0x0c], ''segu_softunload:PTE idx >>11''),
    (0xaa91e, [0xe9, 0xd3, 0x00, 0x15], [0xe9, 0xd3, 0x00, 0x14], ''segu_softunload:pfn bfextu {0:21}->{0:20}''),
    (0xaa940, [0xe9, 0xd3, 0x00, 0x15], [0xe9, 0xd3, 0x00, 0x14], ''segu_softunload:pfn bfextu {0:21}->{0:20} (pages[] idx)''),
    (0xaa9c2, [0x06, 0x82, 0x00, 0x00, 0x08, 0x00], [0x06, 0x82, 0x00, 0x00, 0x10, 0x00], ''segu_softunload:va loop step''),
    (0xaaaa4, [0x48, 0x78, 0x08, 0x00], [0x48, 0x78, 0x10, 0x00], ''segu_softload:VOP_GETPAGE plsz 0x800->0x1000''),
    (0xaaaae, [0x48, 0x78, 0x08, 0x00], [0x48, 0x78, 0x10, 0x00], ''segu_softload:VOP_GETPAGE len 0x800->0x1000''),
    (0xaa9ae, [0x48, 0x78, 0x08, 0x00], [0x48, 0x78, 0x10, 0x00], ''segu_softunload:VOP_PUTPAGE len 0x800->0x1000''),
    (0xae156, [0x02, 0x43, 0xf8, 0x00], [0x02, 0x43, 0xf0, 0x00], ''as_fault:round start -2048->-4096''),
    (0xae15e, [0x06, 0x80, 0x00, 0x00, 0x07, 0xff], [0x06, 0x80, 0x00, 0x00, 0x0f, 0xff], ''as_fault:round end +2047->+4095''),
    (0xae164, [0x02, 0x40, 0xf8, 0x00], [0x02, 0x40, 0xf0, 0x00], ''as_fault:round end -2048->-4096''),
    (0xac4fe, [0x06, 0x80, 0x00, 0x00, 0x07, 0xff], [0x06, 0x80, 0x00, 0x00, 0x0f, 0xff], ''segvn_fault:anon array (size+2047)>>11 -> +4095>>12''),
    (0xac504, [0x76, 0x0b], [0x76, 0x0c], ''segvn_fault:anon array alloc shift >>11->>>12''),
    (0xac52e, [0x76, 0x0b], [0x76, 0x0c], ''segvn_fault:fault-page anon index (addr-base)>>11->>>12''),
    (0xac59a, [0x76, 0x0b], [0x76, 0x0c], ''segvn_fault:plist array (len>>11)+1 -> (len>>12)+1''),
    (0xac5d4, [0x0c, 0xae, 0x00, 0x00, 0x08, 0x00], [0x0c, 0xae, 0x00, 0x00, 0x10, 0x00], ''segvn_fault:single-page test len<=2048 -> <=4096''),
    (0xac726, [0x06, 0x82, 0x00, 0x00, 0x08, 0x00], [0x06, 0x82, 0x00, 0x00, 0x10, 0x00], ''segvn_fault:loop addr stride +2048->+4096''),
    (0xac72c, [0x06, 0x85, 0x00, 0x00, 0x08, 0x00], [0x06, 0x85, 0x00, 0x00, 0x10, 0x00], ''segvn_fault:loop file-offset stride +2048->+4096''),
    (0xac778, [0x76, 0x0b], [0x76, 0x0c], ''segvn_fault:in-memory fast-path page index >>11->>>12''),
    (0xad852, [0x06, 0x82, 0x00, 0x00, 0x07, 0xff], [0x06, 0x82, 0x00, 0x00, 0x0f, 0xff], ''anon_free:(size+2047)>>11 slot count -> +4095>>12''),
    (0xad858, [0x72, 0x0b], [0x72, 0x0c], ''anon_free:slot-count shift >>11->>>12''),
    (0xad810, [0x06, 0x81, 0x00, 0x00, 0x07, 0xff], [0x06, 0x81, 0x00, 0x00, 0x0f, 0xff], ''anon_dup:(size+2047)>>11 slot count -> +4095>>12 (fork)''),
    (0xad816, [0x74, 0x0b], [0x74, 0x0c], ''anon_dup:slot-count shift >>11->>>12 (fork)''),
    (0xabc3e, [0x72, 0x0b], [0x72, 0x0c], ''segvn_free:anon array kmem_free size (size>>11)*4 -> >>12 (match 4KB alloc)''),
    (0xaf230, [0x48, 0x78, 0x08, 0x00], [0x48, 0x78, 0x10, 0x00], ''ppcopy:copy size 2048->4096''),
    (0xaf234, [0x74, 0x0b], [0x74, 0x0c], ''ppcopy:pfn->phys shift <<11->>><12 (both from+to)''),
    (0xaf268, [0x48, 0x78, 0x08, 0x00], [0x48, 0x78, 0x10, 0x00], ''pagecopy:copy size 2048->4096''),
    (0xaf26c, [0x72, 0x0b], [0x72, 0x0c], ''pagecopy:pfn->phys shift <<11->>><12''),
    (0xaf29c, [0x72, 0x0b], [0x72, 0x0c], ''pagezero:pfn->phys shift <<11->>><12''),
    (0xb68a2, [0x67, 0x00, 0x00, 0x78], [0x60, 0x00, 0x00, 0x78], ''hat_ptalloc:force page_get (skip free_pts reuse)'')]"

definition modelb_P4 :: "site list" where
  "modelb_P4 = [
    (0x5af14, [0x70, 0x40, 0xc0, 0xa8, 0x00, 0x48], [0x70, 0x01, 0xc0, 0x28, 0x00, 0x4c], ''usrxmemflt:040 SSW rw bit (frame+72 030 -> frame+76 bit8 040)''),
    (0x5b054, [0x20, 0x28, 0x00, 0x48, 0x02, 0x80, 0x00, 0x00, 0x01, 0x40, 0x0c, 0x80, 0x00, 0x00, 0x01, 0x00, 0x66, 0x00, 0x00, 0x8c], [0x70, 0x01, 0xc0, 0x28, 0x00, 0x4c, 0x66, 0x00, 0x00, 0x96, 0x4e, 0x71, 0x4e, 0x71, 0x4e, 0x71, 0x4e, 0x71, 0x4e, 0x71], ''usrxmemflt:040 SSW 2nd read on COW path (frame+72 030 -> frame+76 bit8 040)''),
    (0x5b072, [0x26, 0x48, 0x20, 0x2e, 0xff, 0xdc, 0x72, 0x0b, 0xe2, 0xa8, 0x72, 0x3f, 0xc0, 0x81, 0xe5, 0x80, 0x24, 0x40, 0xd5, 0xeb, 0x00, 0x04], [0x24, 0x48, 0x4e, 0x71, 0x4e, 0x71, 0x4e, 0x71, 0x4e, 0x71, 0x4e, 0x71, 0x4e, 0x71, 0x4e, 0x71, 0x4e, 0x71, 0x4e, 0x71, 0x4e, 0x71], ''usrxmemflt:inline 030 leaf -> moveal a0,a2 (uvatosde040 returns &PTE) site1 F_PROT/COW''),
    (0x5b0fc, [0x26, 0x48, 0x20, 0x2e, 0xff, 0xdc, 0x72, 0x0b, 0xe2, 0xa8, 0x72, 0x3f, 0xc0, 0x81, 0xe5, 0x80, 0x24, 0x40, 0xd5, 0xeb, 0x00, 0x04], [0x24, 0x48, 0x4e, 0x71, 0x4e, 0x71, 0x4e, 0x71, 0x4e, 0x71, 0x4e, 0x71, 0x4e, 0x71, 0x4e, 0x71, 0x4e, 0x71, 0x4e, 0x71, 0x4e, 0x71], ''usrxmemflt:inline 030 leaf -> moveal a0,a2 (uvatosde040 returns &PTE) site2 hardbus''),
    (0x59890, [0x72, 0x0b], [0x72, 0x0c], ''main:banner real-mem physmem<<11 -> <<12''),
    (0x598ac, [0x72, 0x0b], [0x72, 0x0c], ''main:banner avail-mem freemem<<11 -> <<12''),
    (0xaf2ca, [0x06, 0x87, 0x00, 0x00, 0x08, 0x00], [0x06, 0x87, 0x00, 0x00, 0x10, 0x00], ''execstk_addr:size+2048 headroom -> +4096''),
    (0xaf310, [0x28, 0x3c, 0xbf, 0xff, 0xf8, 0x00], [0x28, 0x3c, 0xbf, 0xff, 0xf0, 0x00], ''execstk_addr:region2 end 0xC0000000-NBPC (2KB->4KB)''),
    (0xaf320, [0x28, 0x3c, 0xff, 0xff, 0xf8, 0x00], [0x28, 0x3c, 0xff, 0xff, 0xf0, 0x00], ''execstk_addr:region3 end -NBPC (2KB->4KB)''),
    (0xaf37a, [0x06, 0x82, 0x00, 0x00, 0x08, 0x00], [0x06, 0x82, 0x00, 0x00, 0x10, 0x00], ''execstk_addr:hole-scan +NBPC compensation 1 (2KB->4KB)''),
    (0xaf3a4, [0x06, 0x83, 0x00, 0x00, 0x08, 0x00], [0x06, 0x83, 0x00, 0x00, 0x10, 0x00], ''execstk_addr:hole-scan +NBPC compensation 2 (2KB->4KB)''),
    (0xaddfa, [0x48, 0x78, 0x08, 0x00], [0x48, 0x78, 0x10, 0x00], ''anon_zero:pagezero len 2048->4096 (ZFOD half-zero = THE rtld killer)''),
    (0x744f0, [0x48, 0x78, 0x08, 0x00], [0x48, 0x78, 0x10, 0x00], ''s5getapage:pagezero len (file-page tail zero)''),
    (0x81f50, [0x48, 0x78, 0x08, 0x00], [0x48, 0x78, 0x10, 0x00], ''ufs_getapage:pagezero len (file-page tail zero)''),
    (0x74494, [0x48, 0x78, 0x08, 0x00], [0x48, 0x78, 0x10, 0x00], ''s5getapage:page_get size''),
    (0x81f1a, [0x48, 0x78, 0x08, 0x00], [0x48, 0x78, 0x10, 0x00], ''ufs_getapage:page_get size''),
    (0xa12e2, [0x48, 0x78, 0x08, 0x00], [0x48, 0x78, 0x10, 0x00], ''rfc_writefill:page_get size''),
    (0xa1cc0, [0x48, 0x78, 0x08, 0x00], [0x48, 0x78, 0x10, 0x00], ''rfc_pageget:page_get size''),
    (0xa97a0, [0x48, 0x78, 0x08, 0x00], [0x48, 0x78, 0x10, 0x00], ''segmap_pagecreate:page_get size''),
    (0xadb64, [0x48, 0x78, 0x08, 0x00], [0x48, 0x78, 0x10, 0x00], ''anon_private:page_get size (COW new page)''),
    (0xadd62, [0x48, 0x78, 0x08, 0x00], [0x48, 0x78, 0x10, 0x00], ''anon_zero:page_get size''),
    (0xb1124, [0x48, 0x78, 0x08, 0x00], [0x48, 0x78, 0x10, 0x00], ''page_delmem:page_get size''),
    (0xb6974, [0x48, 0x78, 0x08, 0x00], [0x48, 0x78, 0x10, 0x00], ''hat_ptalloc:page_get size (hat040 leaf/ptr tables)''),
    (0x5b3cc, [0x02, 0x40, 0xf8, 0x00], [0x02, 0x40, 0xf0, 0x00], ''hardbus:PTE->phys mask ~0x7FF -> ~0xFFF''),
    (0x5b3d4, [0x02, 0x81, 0x00, 0x00, 0x07, 0xff], [0x02, 0x81, 0x00, 0x00, 0x0f, 0xff], ''hardbus:page offset mask 0x7FF -> 0xFFF''),
    (0x41ffc, [0x06, 0x82, 0x00, 0x00, 0x07, 0xff], [0x06, 0x82, 0x00, 0x00, 0x0f, 0xff], ''kmem_alloc:oversize btoc round +2047''),
    (0x42002, [0x72, 0x0b], [0x72, 0x0c], ''kmem_alloc:oversize btoc >>11 (clicks; also availrmem units)''),
    (0x420b6, [0x72, 0x0b], [0x72, 0x0c], ''kmem_alloc:oversize kmeminfo bytes clicks<<11''),
    (0x42464, [0x06, 0x82, 0x00, 0x00, 0x07, 0xff], [0x06, 0x82, 0x00, 0x00, 0x0f, 0xff], ''kmem_free:oversize btoc round +2047'')]"

definition modelb_P5 :: "site list" where
  "modelb_P5 = [
    (0x4246a, [0x7c, 0x0b], [0x7c, 0x0c], ''kmem_free:oversize shift (one moveq feeds >>11 clicks AND <<11 kmeminfo)''),
    (0xa8c7e, [0x06, 0x82, 0x00, 0x00, 0x07, 0xff], [0x06, 0x82, 0x00, 0x00, 0x0f, 0xff], ''sptfree:va->slot round +2047''),
    (0xa8c84, [0x78, 0x0b], [0x78, 0x0c], ''sptfree:shift (va>>11 rmfree slot + clicks<<11 mapout bytes)''),
    (0xa8cbe, [0x78, 0x0b], [0x78, 0x0c], ''sptfree:flag=0 kptbl path click<</>> (dead path, kept consistent)''),
    (0xa8b06, [0x72, 0x0b], [0x72, 0x0c], ''segkmem_mapout:leaf index (va-s_base)>>11 -> >>12''),
    (0xa8b26, [0xe9, 0xd3, 0x10, 0x15], [0xe9, 0xd3, 0x10, 0x14], ''segkmem_mapout:pfn bfextu {0:21}->{0:20}''),
    (0xa8b88, [0x06, 0x82, 0xff, 0xff, 0xf8, 0x00], [0x06, 0x82, 0xff, 0xff, 0xf0, 0x00], ''segkmem_mapout:loop step -2048 -> -4096''),
    (0xa8b96, [0x06, 0x80, 0x00, 0x00, 0x07, 0xff], [0x06, 0x80, 0x00, 0x00, 0x0f, 0xff], ''segkmem_mapout:flushmmu pages round''),
    (0xa8b9c, [0x72, 0x0b], [0x72, 0x0c], ''segkmem_mapout:flushmmu pages >>11''),
    (0xa87e8, [0x72, 0x0b], [0x72, 0x0c], ''segkmem_free:leaf index (va-s_base)>>11 -> >>12''),
    (0xa8814, [0xe9, 0xee, 0x10, 0x15], [0xe9, 0xee, 0x10, 0x14], ''segkmem_free:pfn bfextu {0:21}->{0:20}''),
    (0xa888a, [0x06, 0x82, 0xff, 0xff, 0xf8, 0x00], [0x06, 0x82, 0xff, 0xff, 0xf0, 0x00], ''segkmem_free:loop step -2048 -> -4096''),
    (0xa8898, [0x06, 0x80, 0x00, 0x00, 0x07, 0xff], [0x06, 0x80, 0x00, 0x00, 0x0f, 0xff], ''segkmem_free:flushmmu pages round''),
    (0xa889e, [0x72, 0x0b], [0x72, 0x0c], ''segkmem_free:flushmmu pages >>11''),
    (0xa8db6, [0x72, 0x0b], [0x72, 0x0c], ''kseg:segkmem_alloc va/len clicks<<11 (one moveq, both args)''),
    (0xa8dea, [0x72, 0x0b], [0x72, 0x0c], ''kseg:va = click<<11 -> <<12 (ksegtbl key + bzero + return)''),
    (0xa8e0a, [0x72, 0x0b], [0x72, 0x0c], ''kseg:bzero len clicks<<11''),
    (0xa8e34, [0x70, 0x0b], [0x70, 0x0c], ''unkseg:rmfree slot va>>11 -> >>12''),
    (0xa8e58, [0x70, 0x0b], [0x70, 0x0c], ''unkseg:segkmem_free len clicks<<11''),
    (0xac13e, [0x48, 0x78, 0x08, 0x00], [0x48, 0x78, 0x10, 0x00], ''segvn_faultpage:anon_getpage plsz 0x800''),
    (0xac4fe, [0x06, 0x80, 0x00, 0x00, 0x07, 0xff], [0x06, 0x80, 0x00, 0x00, 0x0f, 0xff], ''segvn_fault:vpage-array npages round''),
    (0xac504, [0x76, 0x0b], [0x76, 0x0c], ''segvn_fault:vpage-array npages >>11''),
    (0xac52e, [0x76, 0x0b], [0x76, 0x0c], ''segvn_fault:(addr-s_base)>>11 anon/vpage idx''),
    (0xac59a, [0x76, 0x0b], [0x76, 0x0c], ''segvn_fault:pl[] count len>>11''),
    (0xac5d4, [0x0c, 0xae, 0x00, 0x00, 0x08, 0x00], [0x0c, 0xae, 0x00, 0x00, 0x10, 0x00], ''segvn_fault:single-vs-cluster len<=2048 gate''),
    (0xac726, [0x06, 0x82, 0x00, 0x00, 0x08, 0x00], [0x06, 0x82, 0x00, 0x00, 0x10, 0x00], ''segvn_fault:loop addr += 0x800''),
    (0xac72c, [0x06, 0x85, 0x00, 0x00, 0x08, 0x00], [0x06, 0x85, 0x00, 0x00, 0x10, 0x00], ''segvn_fault:loop off += 0x800''),
    (0xac778, [0x76, 0x0b], [0x76, 0x0c], ''segvn_fault:cluster (p_offset-off)>>11 vpage idx''),
    (0xac868, [0x74, 0x0b], [0x74, 0x0c], ''segvn_faulta:(addr-s_base)>>11 anon idx''),
    (0xac8c2, [0x48, 0x78, 0x08, 0x00], [0x48, 0x78, 0x10, 0x00], ''segvn_faulta:VOP_GETPAGE len 0x800''),
    (0x559be, [0x06, 0x83, 0x00, 0x00, 0x07, 0xff], [0x06, 0x83, 0x00, 0x00, 0x0f, 0xff], ''shmget:ISSUE-62 anon_map round +2047->+4095 (1/6)''),
    (0x559c4, [0x78, 0x0b], [0x78, 0x0c], ''shmget:ISSUE-62 bytes->pointer count >>11->>>12 (2/6)''),
    (0x55a38, [0x78, 0x0b], [0x78, 0x0c], ''shmget:ISSUE-62 count->amp->size <<11-><<12 (3/6)''),
    (0x55e92, [0x72, 0x0b], [0x72, 0x0c], ''shm_lock:ISSUE-62 amp->size->lock/vpage count >>11->>>12 (4/6)''),
    (0x56096, [0x72, 0x0b], [0x72, 0x0c], ''shm_unlock:ISSUE-62 amp->size->anon traversal >>11->>>12 (5/6)''),
    (0x561e8, [0x72, 0x0b], [0x72, 0x0c], ''shm_rm_amp:ISSUE-62 amp->size->kmem_free size >>11->>>12 (6/6)''),
    (0x5538a, [0x02, 0x6e, 0xf8, 0x00, 0xff, 0xde], [0x02, 0x6e, 0xf0, 0x00, 0xff, 0xde], ''shmat:ISSUE-66 SHM_RND round-down -2048->-4096 (1/2)''),
    (0x553a0, [0x02, 0x80, 0x00, 0x00, 0x07, 0xff], [0x02, 0x80, 0x00, 0x00, 0x0f, 0xff], ''shmat:ISSUE-66 PAGEOFFSET alignment check 2047->4095 (2/2)'')]"

definition modelb_P :: "site list" where
  "modelb_P = modelb_P1 @ modelb_P2 @ modelb_P3 @ modelb_P4 @ modelb_P5"

lemmas modelb_P_defs = modelb_P_def modelb_P1_def modelb_P2_def modelb_P3_def modelb_P4_def modelb_P5_def

definition modelb_main :: "(nat \<times> nat) script" where
  "modelb_main b = write_back b
     (bind_e (text_sec b) (\<lambda>(sa, so).
      bind_e (assert_patch_sites so sa modelb_P (b, 0, 0)) (\<lambda>(buf, done, skip).
      Inr (buf, (done, skip)))))"

subsection \<open>The table\<close>

lemma modelb_indexed: "list_all (indexed kernel_index) modelb_P"
  by (simp add: modelb_P_defs index_eval)

lemma modelb_length: "length modelb_P = 263"
  by (simp add: modelb_P_defs)

lemma modelb_room: "room 192 0 192 (192 + text_bytes) modelb_P"
  by (simp add: modelb_P_defs text_bytes_def)

interpretation modelb_table: site_table modelb_P
  by (rule indexed_site_table [OF kernel_index_chain modelb_indexed])

interpretation modelb: text_patcher modelb_P modelb_main text_sec no_check no_check Pair
  by unfold_locales (simp_all add: modelb_main_def modelb_table.asserts_hold text_sec_frame)

lemma modelb_edits: "n_edits modelb_P = 254"
  unfolding n_edits_addr [OF modelb_table.consistent] by (simp add: modelb_P_defs)

lemmas modelb_stock_facts = stock_image_facts [OF modelb_table.consistent modelb_room]

lemma modelb_stock_room: "room 192 0 0 (length (stock_image modelb_P)) modelb_P"
  using modelb_room by (rule room_mono) (simp_all add: modelb_stock_facts(1))

subsection \<open>Properties\<close>

text \<open>
  A run of \<open>patch_modelb.py\<close> either fails and leaves the file as it was, or it has written the
  new bytes of every one of the 263 rows at the place \<open>.text\<close> gives them, changed no length, and its
  two counters add up to 263.
\<close>

theorem modelb_outcome:
  "case modelb_main b of
     (b', Inl e) \<Rightarrow> b' = b
   | (b', Inr (d, s)) \<Rightarrow> length b' = length b \<and> d + s = 263
       \<and> (\<exists>addr off. text_sec b = Inr (addr, off) \<and> b' = apply_new off addr modelb_P b)"
  using modelb.outcome [of b] by (auto simp: modelb_length split: prod.splits sum.splits)

text \<open>
  Byte by byte, what \<open>patch_modelb.py\<close> leaves behind is the table where the table speaks and the
  input everywhere else.
\<close>

theorem modelb_bytes:
  assumes "modelb_main b = (b', Inr r)" "text_sec b = Inr (addr, off)" "room off addr 0 (length b) modelb_P"
    "i < length b"
  shows "b' ! i = (case site_byte modelb_P (int i - off + addr) of Some x \<Rightarrow> x | None \<Rightarrow> b ! i)"
  by (rule modelb.bytes [OF assms])

text \<open>
  C4: \<open>patch_modelb.py\<close> accepts an image exactly when every row finds its old or its new bytes, in
  any mixture; one foreign byte at one row makes the whole run fail.
\<close>

theorem modelb_accepts:
  assumes "text_sec b = Inr (addr, off)" "room off addr 0 (length b) modelb_P"
  shows "(\<exists>r. snd (modelb_main b) = Inr r) \<longleftrightarrow> all_known off addr modelb_P b"
  by (rule modelb.accepts_iff [OF assms]) simp_all

text \<open>
  On an unpatched image the script reports 254 sites done and 9 skipped, not 263 and 0: nine of
  its rows repeat earlier rows of the same table.
\<close>

theorem modelb_counts:
  assumes "text_sec b = Inr (addr, off)" "room off addr 0 (length b) modelb_P" "all_old off addr modelb_P b"
  shows "modelb_main b = (apply_new off addr modelb_P b, Inr (254, 9))"
  using modelb.stock [OF assms] by (simp add: modelb_edits modelb_length)

text \<open>
  Running \<open>patch_modelb.py\<close> a second time finds the same \<open>.text\<close>, changes nothing and reports
  0 done and 263 skipped, provided the ELF headers lie outside the patched range.
\<close>

theorem modelb_idempotent:
  assumes "modelb_main b = (b', Inr r)" "text_sec b = Inr (addr, off)" "hdr_clear b lo hi"
    "room off addr lo hi modelb_P" "hi \<le> length b"
  shows "modelb_main b' = (b', Inr (0, 263))"
  using modelb.idempotent [OF assms] by (simp add: modelb_length)

subsection \<open>Witnesses\<close>

lemma modelb_stock_run:
  "modelb_main (stock_image modelb_P) = (apply_new 192 0 modelb_P (stock_image modelb_P), Inr (254, 9))"
  using modelb.stock [OF modelb_stock_facts(2) modelb_stock_room modelb_stock_facts(5)]
  by (simp add: modelb_edits modelb_length)

lemma modelb_site_byte: "site_byte modelb_P 0xb6905 = Some 0x78"
  by (simp add: modelb_P_def modelb_P1_def)

lemma modelb_bytes_witness:
  "apply_new 192 0 modelb_P (stock_image modelb_P) ! 747973 = 0x78"
  using modelb_bytes [OF modelb_stock_run modelb_stock_facts(2) modelb_stock_room, of 747973] modelb_site_byte
  by (simp add: modelb_stock_facts(1) text_bytes_def)

lemma modelb_accepts_witness: "\<exists>r. snd (modelb_main (stock_image modelb_P)) = Inr r"
  using modelb_accepts [OF modelb_stock_facts(2) modelb_stock_room] all_old_known [OF modelb_stock_facts(5)]
  by blast

lemma modelb_counts_witness:
  "modelb_main (stock_image modelb_P) = (apply_new 192 0 modelb_P (stock_image modelb_P), Inr (254, 9))"
  by (rule modelb_counts [OF modelb_stock_facts(2) modelb_stock_room modelb_stock_facts(5)])

lemma modelb_idempotent_witness:
  "modelb_main (apply_new 192 0 modelb_P (stock_image modelb_P)) =
    (apply_new 192 0 modelb_P (stock_image modelb_P), Inr (0, 263))"
  using modelb_idempotent [OF modelb_stock_run modelb_stock_facts(2) modelb_stock_facts(6) modelb_room]
  by (simp add: modelb_stock_facts(1))

end
