(* ===== verification/Pager_Sites.thy ===== *)
theory Pager_Sites
  imports Text_Patcher Kernel_Index
begin

text \<open>
  \<open>src/src/patch_modelb_pager.py\<close> (the page-in chain: getpage, kluster, segmap, segu) and
  \<open>src/src/patch_writeback.py\<close> (putpage and its callers).  Both run one table whose sites belong to
  groups that an environment variable can select; the group of a site is read off its name.
\<close>

subsection \<open>patch_modelb_pager.py\<close>

definition pager_group_of :: "string \<Rightarrow> string" where
  "pager_group_of name =
     (if startswith name ''page_get'' then ''pgget''
      else if startswith name ''s5getapage'' then ''s5gp''
      else if startswith name ''spec_getapage'' then ''specgp''
      else if startswith name ''ufs_get'' then ''ufs''
      else if startswith name ''pvn_getpages'' then ''pvngp''
      else if startswith name ''pvn_kluster'' then ''pvnk''
      else if startswith name ''pvn_done'' then ''pvnk''
      else if startswith name ''segmap'' then ''segmap''
      else if startswith name ''bp_map'' then ''buf''
      else if startswith name ''gen_strategy'' then ''genst''
      else if startswith name ''buf_breakup'' then ''bufbk''
      else if startswith name ''dma_pageio'' then ''dmapio''
      else if startswith name ''segu_'' then ''segu''
      else ''ufs'')"

definition pager_default :: string where
  "pager_default = ''ufs,pvngp,pvnk,pgget,segmap,buf,genst,bufbk,dmapio,segu,s5gp,specgp''"

definition pager_groups :: "string option \<Rightarrow> string list" where
  "pager_groups env = env_groups env pager_default"

definition pager_P1 :: "site list" where
  "pager_P1 = [
    (0x741b4, [0x0c, 0x85] @ A47, [0x0c, 0x85] @ A95, ''s5getapage:cmpil #2047 d5 (bsize<page?)''),
    (0x741be + 2, A48, A96, ''s5getapage:movel #2048 fp@(-148) (PAGESIZE local)''),
    (0x743f8, [0x06, 0x80] @ A47, [0x06, 0x80] @ A95, ''s5getapage:addil #2047 d0 (a)''),
    (0x74402, [0x06, 0x80] @ A47, [0x06, 0x80] @ A95, ''s5getapage:addil #2047 d0 (b)''),
    (0x74408, [0x02, 0x40, 0xf8, 0x00], [0x02, 0x40, 0xf0, 0x00], ''s5getapage:andiw #-2048 d0 (a)''),
    (0x7441c, [0x06, 0x80] @ A47, [0x06, 0x80] @ A95, ''s5getapage:addil #2047 d0 (c)''),
    (0x74426, [0x06, 0x80] @ A47, [0x06, 0x80] @ A95, ''s5getapage:addil #2047 d0 (d)''),
    (0x7442c, [0x02, 0x40, 0xf8, 0x00], [0x02, 0x40, 0xf0, 0x00], ''s5getapage:andiw #-2048 d0 (b)''),
    (0x7459a, [0x0c, 0x85] @ A47, [0x0c, 0x85] @ A95, ''s5getapage:cmpil #2047 d5 (b)''),
    (0x7461e, [0x06, 0x80, 0xff, 0xff, 0xf8, 0x00], [0x06, 0x80, 0xff, 0xff, 0xf0, 0x00], ''s5getapage:addil #-2048 d0''),
    (0x746aa, [0x02, 0x80] @ A47, [0x02, 0x80] @ A95, ''s5getapage:andil #2047 d0 (pagezero off a)''),
    (0x746b8, [0x22, 0x3c] @ A48, [0x22, 0x3c] @ A96, ''s5getapage:movel #2048 d1 (pagezero len a)''),
    (0x74712, [0x06, 0x80] @ A47, [0x06, 0x80] @ A95, ''s5getapage:addil #2047 d0 (e)''),
    (0x74718, [0x72, 0x0b], [0x72, 0x0c], ''s5getapage:PAGESHIFT >>11 (a)''),
    (0x747e4, [0x02, 0x80] @ A47, [0x02, 0x80] @ A95, ''s5getapage:andil #2047 d0 (pagezero off b)''),
    (0x747f2, [0x22, 0x3c] @ A48, [0x22, 0x3c] @ A96, ''s5getapage:movel #2048 d1 (pagezero len b)''),
    (0x74824, [0x06, 0x80] @ A47, [0x06, 0x80] @ A95, ''s5getapage:addil #2047 d0 (f)''),
    (0x7482a, [0x72, 0x0b], [0x72, 0x0c], ''s5getapage:PAGESHIFT >>11 (b)''),
    (0x74914, [0x02, 0x80] @ A47, [0x02, 0x80] @ A95, ''s5getapage:andil #2047 d0 (pagezero off c)''),
    (0x74922, [0x22, 0x3c] @ A48, [0x22, 0x3c] @ A96, ''s5getapage:movel #2048 d1 (pagezero len c)''),
    (0x74966, [0x06, 0x80] @ A47, [0x06, 0x80] @ A95, ''s5getapage:addil #2047 d0 (g)''),
    (0x7496c, [0x72, 0x0b], [0x72, 0x0c], ''s5getapage:PAGESHIFT >>11 (c)''),
    (0x74a72, [0x06, 0x81] @ A48, [0x06, 0x81] @ A96, ''s5getapage:addil #2048 d1 (next page)''),
    (0x66cb6, [0x24, 0x3c] @ A48, [0x24, 0x3c] @ A96, ''spec_getapage:movel #2048 d2 (klust default)''),
    (0x66cf6, [0x20, 0x3c] @ A48, [0x20, 0x3c] @ A96, ''spec_getapage:movel #2048 d0 (size unknown -> 1 pg)''),
    (0x66d9e, [0x06, 0x80, 0xff, 0xff, 0xf8, 0x00], [0x06, 0x80, 0xff, 0xff, 0xf0, 0x00], ''spec_getapage:addil #-2048 d0''),
    (0x66df0, [0x02, 0x80] @ A47, [0x02, 0x80] @ A95, ''spec_getapage:andil #2047 d0 (pagezero off a)''),
    (0x66dfe, [0x2c, 0x3c] @ A48, [0x2c, 0x3c] @ A96, ''spec_getapage:movel #2048 d6 (pagezero len a)''),
    (0x66e48, [0x06, 0x80] @ A47, [0x06, 0x80] @ A95, ''spec_getapage:addil #2047 d0 (a)''),
    (0x66e4e, [0x7c, 0x0b], [0x7c, 0x0c], ''spec_getapage:PAGESHIFT >>11 (a)''),
    (0x66f3c, [0x02, 0x80] @ A47, [0x02, 0x80] @ A95, ''spec_getapage:andil #2047 d0 (pagezero off b)''),
    (0x66f4a, [0x2c, 0x3c] @ A48, [0x2c, 0x3c] @ A96, ''spec_getapage:movel #2048 d6 (pagezero len b)''),
    (0x66f92, [0x06, 0x80] @ A47, [0x06, 0x80] @ A95, ''spec_getapage:addil #2047 d0 (b)''),
    (0x66f98, [0x7c, 0x0b], [0x7c, 0x0c], ''spec_getapage:PAGESHIFT >>11 (b)''),
    (0x67046, [0x06, 0x85] @ A48, [0x06, 0x85] @ A96, ''spec_getapage:addil #2048 d5 (next page)''),
    (0x81dde, [0x0c, 0xae] @ A47, [0x0c, 0xae] @ A95, ''ufs_getapage:cmpil #2047 fp@(-44)''),
    (0x81eb4, [0x06, 0x80] @ A47, [0x06, 0x80] @ A95, ''ufs_getapage:addil #2047 d0 (a)''),
    (0x81ebe, [0x06, 0x80] @ A47, [0x06, 0x80] @ A95, ''ufs_getapage:addil #2047 d0 (b)''),
    (0x81ec4, [0x02, 0x40, 0xf8, 0x00], [0x02, 0x40, 0xf0, 0x00], ''ufs_getapage:andiw #-2048 d0 (a)''),
    (0x81eda, [0x06, 0x80] @ A47, [0x06, 0x80] @ A95, ''ufs_getapage:addil #2047 d0 (c)''),
    (0x81ee4, [0x06, 0x80] @ A47, [0x06, 0x80] @ A95, ''ufs_getapage:addil #2047 d0 (d)''),
    (0x81eea, [0x02, 0x40, 0xf8, 0x00], [0x02, 0x40, 0xf0, 0x00], ''ufs_getapage:andiw #-2048 d0 (b)''),
    (0x82038, [0x06, 0x80, 0xff, 0xff, 0xf8, 0x00], [0x06, 0x80, 0xff, 0xff, 0xf0, 0x00], ''ufs_getapage:addil #-2048 d0''),
    (0x820b2, [0x02, 0x80] @ A47, [0x02, 0x80] @ A95, ''ufs_getapage:andil #2047 d0''),
    (0x820c0, [0x22, 0x3c] @ A48, [0x22, 0x3c] @ A96, ''ufs_getapage:movel #2048 d1''),
    (0x82114, [0x06, 0x80] @ A47, [0x06, 0x80] @ A95, ''ufs_getapage:addil #2047 d0 (e)''),
    (0x8211a, [0x72, 0x0b], [0x72, 0x0c], ''ufs_getapage:PAGESHIFT >>11 (a, lsrl)''),
    (0x82194, [0x06, 0x80] @ A47, [0x06, 0x80] @ A95, ''ufs_getapage:addil #2047 d0 (f)''),
    (0x8219e, [0x06, 0x80] @ A47, [0x06, 0x80] @ A95, ''ufs_getapage:addil #2047 d0 (g)''),
    (0x821a4, [0x02, 0x40, 0xf8, 0x00], [0x02, 0x40, 0xf0, 0x00], ''ufs_getapage:andiw #-2048 d0 (c)''),
    (0x821ba, [0x06, 0x80] @ A47, [0x06, 0x80] @ A95, ''ufs_getapage:addil #2047 d0 (h)''),
    (0x821c4, [0x06, 0x80] @ A47, [0x06, 0x80] @ A95, ''ufs_getapage:addil #2047 d0 (i)''),
    (0x821ca, [0x02, 0x40, 0xf8, 0x00], [0x02, 0x40, 0xf0, 0x00], ''ufs_getapage:andiw #-2048 d0 (d)''),
    (0x82342, [0x02, 0x80] @ A47, [0x02, 0x80] @ A95, ''ufs_getapage:andil #2047 d0 (b)''),
    (0x82350, [0x22, 0x3c] @ A48, [0x22, 0x3c] @ A96, ''ufs_getapage:movel #2048 d1 (b)''),
    (0x82396, [0x06, 0x80] @ A47, [0x06, 0x80] @ A95, ''ufs_getapage:addil #2047 d0 (j)''),
    (0x8239c, [0x72, 0x0b], [0x72, 0x0c], ''ufs_getapage:PAGESHIFT >>11 (b, lsrl)''),
    (0x824b4, [0x06, 0x87] @ A48, [0x06, 0x87] @ A96, ''ufs_getapage:addil #2048 d7''),
    (0x82600, [0x06, 0x81] @ A47, [0x06, 0x81] @ A95, ''ufs_getpage:addil #2047 d1''),
    (0x8268c, [0x0c, 0x84] @ A48, [0x0c, 0x84] @ A96, ''ufs_getpage:cmpil #2048 d4''),
    (0xb25f8, [0x2a, 0x3c] @ A48, [0x2a, 0x3c] @ A96, ''pvn_getpages:movel #2048 d5''),
    (0xb260e, [0x06, 0x80] @ A48, [0x06, 0x80] @ A96, ''pvn_getpages:addil #2048 d0''),
    (0xb26c6, [0x06, 0x82] @ A48, [0x06, 0x82] @ A96, ''pvn_getpages:addil #2048 d2''),
    (0xb26cc, [0x06, 0x83] @ A48, [0x06, 0x83] @ A96, ''pvn_getpages:addil #2048 d3''),
    (0xaffb8, [0x06, 0x82] @ A47, [0x06, 0x82] @ A95, ''page_get:size round +2047->+4095''),
    (0xaffbe, [0x72, 0x0b], [0x72, 0x0c], ''page_get:size>>11 shift count (moveq #11->#12 d1)''),
    (0xb1822, [0x72, 0x0b], [0x72, 0x0c], ''pvn_kluster:PAGESHIFT <<11 (asll)''),
    (0xb183a, [0x20, 0x3c] @ A48, [0x20, 0x3c] @ A96, ''pvn_kluster:movel #2048 d0 (a)''),
    (0xb186c, [0x0c, 0x84] @ A48, [0x0c, 0x84] @ A96, ''pvn_kluster:cmpil #2048 d4''),
    (0xb1886, [0x0c, 0x84] @ A47, [0x0c, 0x84] @ A95, ''pvn_kluster:cmpil #2047 d4''),
    (0xb1896, [0x20, 0x3c] @ A48, [0x20, 0x3c] @ A96, ''pvn_kluster:movel #2048 d0 (b)''),
    (0xb18a2, [0x24, 0x3c] @ A48, [0x24, 0x3c] @ A96, ''pvn_kluster:movel #2048 d2''),
    (0xb18dc, [0x06, 0x82] @ A48, [0x06, 0x82] @ A96, ''pvn_kluster:addil #2048 d2''),
    (0xb18f8, [0x48, 0x68, 0xf8, 0x00], [0x48, 0x68, 0xf0, 0x00], ''pvn_kluster:pea -2048(a0) backward step''),
    (0xb1912, [0x06, 0x83, 0xff, 0xff, 0xf8, 0x00], [0x06, 0x83, 0xff, 0xff, 0xf0, 0x00], ''pvn_kluster:addil #-2048 d3''),
    (0xb195c, [0x06, 0x82] @ A47, [0x06, 0x82] @ A95, ''pvn_kluster:addil #2047 d2 (a)''),
    (0xb1966, [0x06, 0x82] @ A47, [0x06, 0x82] @ A95, ''pvn_kluster:addil #2047 d2 (b)''),
    (0xb1970, [0x02, 0x42, 0xf8, 0x00], [0x02, 0x42, 0xf0, 0x00], ''pvn_kluster:andiw #-2048 d2''),
    (0xb19b2, [0xd6, 0xfc, 0x08, 0x00], [0xd6, 0xfc, 0x10, 0x00], ''pvn_kluster:addaw #2048 a3''),
    (0xb1d60, [0x06, 0x84] @ A48, [0x06, 0x84] @ A96, ''pvn_done:page-walk step d4 #2048''),
    (0xa9742, [0x02, 0x42, 0xf8, 0x00], [0x02, 0x42, 0xf0, 0x00], ''segmap_pagecreate:andiw #-2048 d2''),
    (0xa9892, [0x06, 0x82] @ A48, [0x06, 0x82] @ A96, ''segmap_pagecreate:addil #2048 d2''),
    (0xa9898, [0x06, 0x84] @ A48, [0x06, 0x84] @ A96, ''segmap_pagecreate:addil #2048 d4''),
    (0xa90f4, [0x06, 0x82] @ A48, [0x06, 0x82] @ A96, ''segmap_unlock:addil #2048 d2''),
    (0xa90fa, [0x06, 0x83] @ A48, [0x06, 0x83] @ A96, ''segmap_unlock:addil #2048 d3''),
    (0x59388, [0x02, 0x82] @ A47, [0x02, 0x82] @ A95, ''bp_mapin:andil #2047 d2''),
    (0x5939a, [0x06, 0x80] @ A47, [0x06, 0x80] @ A95, ''bp_mapin:addil #2047 d0''),
    (0x593a2, [0x74, 0x0b], [0x74, 0x0c], ''bp_mapin:PAGESHIFT >>11 d2 (lsrl)''),
    (0x59402, [0x74, 0x0b], [0x74, 0x0c], ''bp_mapin:PAGESHIFT <<11 d2 (asll)''),
    (0x59478, [0x02, 0x80] @ A47, [0x02, 0x80] @ A95, ''bp_mapout:andil #2047 d0''),
    (0x59484, [0x06, 0x82] @ A47, [0x06, 0x82] @ A95, ''bp_mapout:addil #2047 d2''),
    (0x5948a, [0x72, 0x0b], [0x72, 0x0c], ''bp_mapout:PAGESHIFT >>11 d1 (lsrl)''),
    (0x59494, [0x02, 0x40, 0xf8, 0x00], [0x02, 0x40, 0xf0, 0x00], ''bp_mapout:andiw #-2048 d0''),
    (0x594c8, [0x72, 0x0b], [0x72, 0x0c], ''bp_mapout:PAGESHIFT >>11 d1 (lsrl b)''),
    (0x594e8, [0x06, 0xae] @ A48, [0x06, 0xae] @ A96, ''bp_mapout:addil #2048 fp@(-4)''),
    (0x594fe, [0x72, 0x0b], [0x72, 0x0c], ''bp_mapout:PAGESHIFT >>11 d1 (lsrl c)''),
    (0x59518, [0x02, 0xaa] @ A47, [0x02, 0xaa] @ A95, ''bp_mapout:andil #2047 a2@(36)''),
    (0x3d994, [0x0c, 0xaa] @ A48, [0x0c, 0xaa] @ A96, ''gen_strategy:cmpil #2048 a2@(32) single-page thresh''),
    (0x3d9c0, [0x7a, 0x0b], [0x7a, 0x0c], ''gen_strategy:PFN<<11 phys (single-page) [THE BUG]'')]"

definition pager_P2 :: "site list" where
  "pager_P2 = [
    (0x3d9e6, [0x76, 0x04], [0x76, 0x08], ''gen_strategy:disk sectors-per-page d3 #4->#8 (2KB->4KB) [THE multi-page deposit BUG]''),
    (0x3d9ec, [0x7a, 0x0b], [0x7a, 0x0c], ''gen_strategy:bcount>>11 npages''),
    (0x3d9f4, [0x02, 0x80] @ A47, [0x02, 0x80] @ A95, ''gen_strategy:andil #2047 bcount remainder''),
    (0x3da30, [0x02, 0x80] @ A47, [0x02, 0x80] @ A95, ''gen_strategy:andil #2047 last-chunk''),
    (0x3da40, [0x22, 0x3c] @ A48, [0x22, 0x3c] @ A96, ''gen_strategy:movel #2048 chunk = full page''),
    (0x3dae6, [0x7a, 0x0b], [0x7a, 0x0c], ''gen_strategy:PFN<<11 phys (breakup) [THE BUG]''),
    (0x3d1b8, [0x02, 0x80] @ A47, [0x02, 0x80] @ A95, ''buf_breakup:andil #2047 addr page-offset''),
    (0x3d1be, [0x22, 0x3c] @ A48, [0x22, 0x3c] @ A96, ''buf_breakup:movel #2048 (bytes to page bound)''),
    (0x3d1da, [0x0c, 0x82] @ A47, [0x0c, 0x82] @ A95, ''buf_breakup:cmpil #2047 chunk full-page?''),
    (0x20e1c, [0x02, 0x80] @ A47, [0x02, 0x80] @ A95, ''dma_pageio:andil #2047 addr page-offset (a)''),
    (0x20e22, [0x04, 0x80] @ A48, [0x04, 0x80] @ A96, ''dma_pageio:subil #2048 (bytes to page bound a)''),
    (0x20e3c, [0x02, 0x80] @ A47, [0x02, 0x80] @ A95, ''dma_pageio:andil #2047 addr page-offset (b)''),
    (0x20e42, [0x04, 0x80] @ A48, [0x04, 0x80] @ A96, ''dma_pageio:subil #2048 (bytes to page bound b)''),
    (0x20e4e, [0x0c, 0x80] @ A47, [0x0c, 0x80] @ A95, ''dma_pageio:cmpil #2047 chunk full-page? (a)''),
    (0x20e92, [0x0c, 0x82] @ A47, [0x0c, 0x82] @ A95, ''dma_pageio:cmpil #2047 remaining vs page''),
    (0x20ea2, [0x20, 0x3c] @ A48, [0x20, 0x3c] @ A96, ''dma_pageio:movel #2048 chunk = full page''),
    (0xaa69c, [0x06, 0x83] @ A48, [0x06, 0x83] @ A96, ''segu_get:va step #2048 (map loop)''),
    (0xaa6a2, [0x7a, 0x03], [0x7a, 0x01], ''segu_get:loop bound moveq #3->#1 (4->2 pages)''),
    (0xaaa12, [0x02, 0x42, 0xf8, 0x00], [0x02, 0x42, 0xf0, 0x00], ''segu_softload:va align &-2048''),
    (0xaaa1c, [0x06, 0x80] @ A47, [0x06, 0x80] @ A95, ''segu_softload:len round +2047''),
    (0xaaa22, [0x02, 0x40, 0xf8, 0x00], [0x02, 0x40, 0xf0, 0x00], ''segu_softload:len round &-2048''),
    (0xaaa3e, [0x06, 0x84] @ A47, [0x06, 0x84] @ A95, ''segu_softload:index round +2047''),
    (0xaaa44, [0x72, 0x0b], [0x72, 0x0c], ''segu_softload:array index >>11 (page idx)''),
    (0xaab80, [0x06, 0x82] @ A48, [0x06, 0x82] @ A96, ''segu_softload:va step #2048 (map loop)'')]"

definition pager_P :: "site list" where
  "pager_P = pager_P1 @ pager_P2"

lemmas pager_P_defs = pager_P_def pager_P1_def pager_P2_def

definition pager_main :: "string option \<Rightarrow> (nat \<times> nat \<times> nat) script" where
  "pager_main env b = write_back b
     (bind_e (text_sec b) (\<lambda>(sa, so).
      bind_e (assert_group_sites pager_group_of (pager_groups env) so sa pager_P (b, 0, 0, 0))
        (\<lambda>(buf, done, skip, off). Inr (buf, (done, skip, off)))))"

subsection \<open>patch_writeback.py\<close>

definition writeback_group_of :: "string \<Rightarrow> string" where
  "writeback_group_of name =
     (if startswith name ''spec_putpage'' then ''spec''
      else if startswith name ''pvn_range_dirty'' then ''pvn''
      else if startswith name ''ufs_putpage'' then ''ufs''
      else if startswith name ''mountfs'' then ''ufs''
      else if startswith name ''setupclock'' then ''pageoutd''
      else if startswith name ''pageout'' then ''pageoutd''
      else ''callers'')"

definition writeback_groups :: "string option \<Rightarrow> string list" where
  "writeback_groups env = env_groups env ''spec,pvn,ufs,callers,pageoutd''"

definition writeback_P :: "site list" where
  "writeback_P = [
    (0x67330, [0x2d, 0x7c] @ A48, [0x2d, 0x7c] @ A96, ''spec_putpage:movel #2048 fp@(-12) (UNKNOWN_SIZE 1-pg cluster)''),
    (0x6741e, [0x06, 0x80] @ A47, [0x06, 0x80] @ A95, ''spec_putpage:addil #2047 d0 (bounded fsize round)''),
    (0x67424, [0x02, 0x40, 0xf8, 0x00], [0x02, 0x40, 0xf0, 0x00], ''spec_putpage:andiw #-2048 d0 (bounded fsize mask)''),
    (0x67486, [0x26, 0x3c] @ A48, [0x26, 0x3c] @ A96, ''spec_putpage:movel #2048 d3 (dirty-page io_len)''),
    (0xb2266, [0x02, 0x44, 0xf8, 0x00], [0x02, 0x44, 0xf0, 0x00], ''pvn_range_dirty:andiw #-2048 d4 (off page-align)''),
    (0xb226a, [0x06, 0x83] @ A47, [0x06, 0x83] @ A95, ''pvn_range_dirty:addil #2047 d3 (eoff round)''),
    (0xb2270, [0x02, 0x43, 0xf8, 0x00], [0x02, 0x43, 0xf0, 0x00], ''pvn_range_dirty:andiw #-2048 d3 (eoff mask)''),
    (0xb22b4, [0x06, 0x82] @ A48, [0x06, 0x82] @ A96, ''pvn_range_dirty:addil #2048 d2 (main range walk)''),
    (0xb2302, [0x06, 0x82, 0xff, 0xff, 0xf8, 0x00], [0x06, 0x82, 0xff, 0xff, 0xf0, 0x00], ''pvn_range_dirty:addil #-2048 d2 (backward cluster)''),
    (0xb2340, [0x06, 0x82] @ A48, [0x06, 0x82] @ A96, ''pvn_range_dirty:addil #2048 d2 (forward cluster)''),
    (0x82c56, [0x24, 0x3c] @ A48, [0x24, 0x3c] @ A96, ''ufs_putpage:movel #2048 d2 (initial io_len)''),
    (0x82cac, [0x06, 0x82] @ A48, [0x06, 0x82] @ A96, ''ufs_putpage:addil #2048 d2 (contig-page io_len growth)''),
    (0x82cd6, [0x0c, 0xac] @ A47, [0x0c, 0xac] @ A95, ''ufs_putpage:cmpil #2047 a4@(48) (fs_bsize<PAGESIZE gate)''),
    (0x82ce2, [0x20, 0x3c] @ A48, [0x20, 0x3c] @ A96, ''ufs_putpage:movel #2048 d0 (p_nio numerator)''),
    (0x82d2a, [0x0c, 0xac] @ A47, [0x0c, 0xac] @ A95, ''ufs_putpage:cmpil #2047 a4@(48) (2nd-write gate)''),
    (0x7e67e, [0x0c, 0xaa, 0x00, 0x00, 0x03, 0xff], [0x0c, 0xaa] @ A47, ''mountfs:cmpil #1023 -> #2047 a2@(48) (reject fs_bsize<2048)''),
    (0x51eee, [0x74, 0x0b], [0x74, 0x0c], ''setupclock:handspread ptob moveq #11->#12 (feeds 2 asll)''),
    (0x5204c, [0x06, 0x80] @ A47, [0x06, 0x80] @ A95, ''pageout:btop(handspread) round +2047''),
    (0x52052, [0x72, 0x0b], [0x72, 0x0c], ''pageout:btop(handspread) shift moveq #11->#12''),
    (0x52238, [0x48, 0x78, 0x08, 0x00], [0x48, 0x78, 0x10, 0x00], ''checkpage:pea 2048 (pageout B_ASYNC|B_FREE len)''),
    (0x5c1e2, [0x48, 0x78, 0x08, 0x00], [0x48, 0x78, 0x10, 0x00], ''fsflush:pea 2048 (async clean len)''),
    (0xacf36, [0x48, 0x78, 0x08, 0x00], [0x48, 0x78, 0x10, 0x00], ''segvn_swapout:pea 2048 (per-page len)''),
    (0xad148, [0x48, 0x78, 0x08, 0x00], [0x48, 0x78, 0x10, 0x00], ''segvn_sync:pea 2048 (per-page len)'')]"

definition writeback_main :: "string option \<Rightarrow> (nat \<times> nat \<times> nat) script" where
  "writeback_main env b = write_back b
     (bind_e (text_sec b) (\<lambda>(sa, so).
      bind_e (assert_group_sites writeback_group_of (writeback_groups env) so sa writeback_P (b, 0, 0, 0))
        (\<lambda>(buf, done, skip, off). Inr (buf, (done, skip, off)))))"

subsection \<open>The tables\<close>

lemma pager_indexed: "list_all (indexed kernel_index) pager_P"
  by (simp add: pager_P_defs index_eval byte_consts)

lemma pager_length: "length pager_P = 123"
  by (simp add: pager_P_defs)

lemma pager_room: "room 192 0 192 (192 + text_bytes) pager_P"
  by (simp add: pager_P_defs text_bytes_def byte_consts)

interpretation pager_table: site_table pager_P
  by (rule indexed_site_table [OF kernel_index_chain pager_indexed])

lemma writeback_indexed: "list_all (indexed kernel_index) writeback_P"
  by (simp add: writeback_P_def index_eval byte_consts)

lemma writeback_length: "length writeback_P = 23"
  by (simp add: writeback_P_def)

lemma writeback_room: "room 192 0 192 (192 + text_bytes) writeback_P"
  by (simp add: writeback_P_def text_bytes_def byte_consts)

interpretation writeback_table: site_table writeback_P
  by (rule indexed_site_table [OF kernel_index_chain writeback_indexed])

lemma pager_default_groups:
  "pager_groups None = [''ufs'', ''pvngp'', ''pvnk'', ''pgget'', ''segmap'', ''buf'', ''genst'', ''bufbk'',
     ''dmapio'', ''segu'', ''s5gp'', ''specgp'']"
  by (simp add: pager_groups_def env_groups_def pager_default_def)

lemma writeback_default_groups:
  "writeback_groups None = [''spec'', ''pvn'', ''ufs'', ''callers'', ''pageoutd'']"
  by (simp add: writeback_groups_def env_groups_def)

text \<open>The default groups are all the groups a site can belong to, so the default run selects all.\<close>

lemma selected_all: "\<forall>e \<in> set ps. group_of (snd (snd (snd e))) \<in> set gs \<Longrightarrow>
    selected gs (with_group group_of ps) = ps"
  by (induction ps) (auto simp: selected_def with_group_def)

lemma pager_selected_default: "selected (pager_groups None) (with_group pager_group_of pager_P) = pager_P"
  by (rule selected_all) (simp add: pager_group_of_def pager_default_groups)

lemma writeback_selected_default:
  "selected (writeback_groups None) (with_group writeback_group_of writeback_P) = writeback_P"
  by (rule selected_all) (simp add: writeback_group_of_def writeback_default_groups)

lemma selected_with_group: "set (selected gs (with_group group_of ps)) \<subseteq> set ps"
  by (auto simp: selected_def with_group_def)

definition pager_sel :: "string option \<Rightarrow> site list" where
  "pager_sel env = selected (pager_groups env) (with_group pager_group_of pager_P)"

definition writeback_sel :: "string option \<Rightarrow> site list" where
  "writeback_sel env = selected (writeback_groups env) (with_group writeback_group_of writeback_P)"

interpretation pager: text_patcher "pager_sel env" "pager_main env" text_sec no_check no_check
  "\<lambda>d s. (d, s, 123 - length (pager_sel env))"
proof unfold_locales
  show "consistent (pager_sel env)"
    using pager_table.consistent selected_with_group unfolding pager_sel_def by (rule consistent_subset)
  show "pager_main env b = write_back b (bind_e (text_sec b) (\<lambda>(addr, off). bind_e (no_check off addr b)
      (\<lambda>_. bind_e (patch_sites off addr (pager_sel env) (b, 0, 0)) (\<lambda>(buf, d, s).
      bind_e (no_check off addr buf) (\<lambda>_. Inr (buf, d, s, 123 - length (pager_sel env)))))))" for b
    unfolding pager_main_def assert_group_sites_eq [OF pager_table.sites_ok] group_sites_eq
    by (auto simp: pager_sel_def with_group_def pager_length intro!: write_back_cong bind_e_cong)
qed (rule text_sec_frame)

interpretation writeback: text_patcher "writeback_sel env" "writeback_main env" text_sec no_check no_check
  "\<lambda>d s. (d, s, 23 - length (writeback_sel env))"
proof unfold_locales
  show "consistent (writeback_sel env)"
    using writeback_table.consistent selected_with_group unfolding writeback_sel_def by (rule consistent_subset)
  show "writeback_main env b = write_back b (bind_e (text_sec b) (\<lambda>(addr, off). bind_e (no_check off addr b)
      (\<lambda>_. bind_e (patch_sites off addr (writeback_sel env) (b, 0, 0)) (\<lambda>(buf, d, s).
      bind_e (no_check off addr buf) (\<lambda>_. Inr (buf, d, s, 23 - length (writeback_sel env)))))))" for b
    unfolding writeback_main_def assert_group_sites_eq [OF writeback_table.sites_ok] group_sites_eq
    by (auto simp: writeback_sel_def with_group_def writeback_length intro!: write_back_cong bind_e_cong)
qed (rule text_sec_frame)

end
