(* ===== verification/Mmu_Sites.thy ===== *)
theory Mmu_Sites
  imports Text_Patcher Kernel_Index
begin

text \<open>
  The three oldest patchers: \<open>src/src/patch_pflusha_040.py\<close> (the 68030 \<open>pflusha\<close> becomes the 68040
  one), \<open>src/src/patch_pmmu_040.py\<close> (the other 68030 MMU instructions become stubs or \<open>movec\<close>) and
  \<open>src/src/patch_devmmap_pfn.py\<close> (the page-frame shift of the device mmap routines).  Each finds
  \<open>.text\<close> in a way of its own.
\<close>

subsection \<open>patch_pflusha_040.py\<close>

definition pflusha_OLD :: "byte list" where "pflusha_OLD = [0xf0, 0x00, 0x24, 0x00]"
definition pflusha_NEW :: "byte list" where "pflusha_NEW = [0xf5, 0x18, 0x4e, 0x71]"

definition pflusha_SITES :: "(int \<times> string) list" where
  "pflusha_SITES = [
    (0x38, ''_start''),
    (0xb2, ''resume''),
    (0x58ca + 0xb0000, ''hat_map''),
    (0x70ee + 0xb0000, ''hat_exec''),
    (0x7476 + 0xb0000, ''hat_asload''),
    (0x78d0 + 0xb0000, ''flushmmu''),
    (0x9240 + 0xb0000, ''swtch'')]"

fun text_section_loop ::
  "byte list \<Rightarrow> int \<Rightarrow> int \<Rightarrow> int \<Rightarrow> int list \<Rightarrow> exn + int \<times> int" where
  "text_section_loop buf e_shoff e_shentsize shstr_off [] = Inl (SystemExit ''no .text section'')"
| "text_section_loop buf e_shoff e_shentsize shstr_off (i # is) =
     (let b = e_shoff + i * e_shentsize in
      bind_e (u32 buf b) (\<lambda>name_off.
      bind_e (index_nul buf (shstr_off + name_off)) (\<lambda>end'.
      let name = decode_latin1 (slice buf (shstr_off + name_off) end') in
      if name = ''.text''
      then bind_e (u32 buf (b + 12)) (\<lambda>addr. bind_e (u32 buf (b + 16)) (\<lambda>off. Inr (addr, off)))
      else text_section_loop buf e_shoff e_shentsize shstr_off is)))"

definition text_section :: "byte list \<Rightarrow> exn + int \<times> int" where
  "text_section buf =
     bind_e (u32 buf 32) (\<lambda>e_shoff. bind_e (u16 buf 46) (\<lambda>e_shentsize.
     bind_e (u16 buf 48) (\<lambda>e_shnum. bind_e (u16 buf 50) (\<lambda>e_shstrndx.
     bind_e (u32 buf (e_shoff + e_shstrndx * e_shentsize + 16)) (\<lambda>shstr_off.
     text_section_loop buf e_shoff e_shentsize shstr_off (py_range e_shnum))))))"

fun pflusha_loop ::
  "int \<Rightarrow> int \<Rightarrow> (int \<times> string) list \<Rightarrow> byte list \<times> nat \<times> nat \<Rightarrow> exn + byte list \<times> nat \<times> nat" where
  "pflusha_loop sh_addr sh_off [] st = Inr st"
| "pflusha_loop sh_addr sh_off ((vaddr, fn) # ps) (buf, patched, skipped) =
     (let fo = sh_off + (vaddr - sh_addr); cur = slice buf fo (fo + 4) in
      if cur = pflusha_NEW then pflusha_loop sh_addr sh_off ps (buf, patched, Suc skipped)
      else if cur = pflusha_OLD
      then pflusha_loop sh_addr sh_off ps (splice buf fo (fo + 4) pflusha_NEW, Suc patched, skipped)
      else Inl (SystemExit (''ABORT '' @ fn)))"

definition pflusha_main :: "(nat \<times> nat) script" where
  "pflusha_main b = write_back b
     (bind_e (text_section b) (\<lambda>(sh_addr, sh_off).
      bind_e (pflusha_loop sh_addr sh_off pflusha_SITES (b, 0, 0)) (\<lambda>(buf, patched, skipped).
      Inr (buf, (patched, skipped)))))"

subsection \<open>patch_pmmu_040.py\<close>

definition pmmu_PATCHES :: "site list" where
  "pmmu_PATCHES = [
    (0x3ac, [0xf0, 0x10, 0x9e, 0x11, 0xf0, 0x2f, 0x62, 0x00, 0x00, 0x04], [0x3f, 0x7c, 0x04, 0x00, 0x00, 0x04] @ NOP @ NOP, ''ptest''),
    (0x3c4, [0xf0, 0x10, 0x82, 0x11, 0xf0, 0x2f, 0x62, 0x00, 0x00, 0x04], concat (replicate 5 NOP), ''ptest0''),
    (0x18ed8, [0xf0, 0x10, 0x40, 0x00], NOP @ NOP, ''nomsg:pmove tc''),
    (0x18ee2, [0xf0, 0x10, 0x4c, 0x00], NOP @ NOP, ''nomsg:pmove crp''),
    (0x18ee6, [0xf0, 0x10, 0x48, 0x00], NOP @ NOP, ''nomsg:pmove srp''),
    (0xb923c, [0xf0, 0x11, 0x4c, 0x00], [0x4e, 0x7b, 0x08, 0x06], ''swtch:pmove crp -> movec d0,urp''),
    (0xb58c6, [0xf0, 0x11, 0x4c, 0x00], [0x4e, 0x7b, 0x88, 0x06], ''hat_map:pmove crp -> movec a0,urp''),
    (0xb58d2, [0x67, 0x00, 0x00, 0x12], [0x60, 0x00, 0x00, 0x12], ''hat_map:disable phantom preload (beqw->braw)''),
    (0xb70ea, [0xf0, 0x11, 0x4c, 0x00], [0x4e, 0x7b, 0x88, 0x06], ''hat_exec:pmove crp -> movec a0,urp''),
    (0xb7472, [0xf0, 0x11, 0x4c, 0x00], [0x4e, 0x7b, 0x88, 0x06], ''hat_asload:pmove crp -> movec a0,urp'')]"

definition pmmu_main :: "(nat \<times> nat) script" where
  "pmmu_main b = write_back b
     (bind_e (text_sec b) (\<lambda>(sa, so).
      bind_e (assert_patch_sites so sa pmmu_PATCHES (b, 0, 0)) (\<lambda>(buf, done, skip).
      Inr (buf, (done, skip)))))"

subsection \<open>patch_devmmap_pfn.py\<close>

text \<open>Its \<open>sections\<close> keeps only address and offset of a section.\<close>

fun sections_ao_loop ::
  "byte list \<Rightarrow> int \<Rightarrow> int \<Rightarrow> int \<Rightarrow> int list \<Rightarrow> (string \<times> int \<times> int) list
   \<Rightarrow> exn + (string \<times> int \<times> int) list" where
  "sections_ao_loop b sh ent so [] out = Inr out"
| "sections_ao_loop b sh ent so (i # is) out =
     (let o' = sh + i * ent in
      bind_e (u32 b o') (\<lambda>nm.
      bind_e (index_nul b (so + nm)) (\<lambda>e.
      bind_e (decode_utf8 (slice b (so + nm) e)) (\<lambda>name.
      bind_e (u32 b (o' + 12)) (\<lambda>addr.
      bind_e (u32 b (o' + 16)) (\<lambda>off.
      sections_ao_loop b sh ent so is (AList.update name (addr, off) out)))))))"

definition sections_ao :: "byte list \<Rightarrow> exn + (string \<times> int \<times> int) list" where
  "sections_ao b =
     bind_e (u32 b 32) (\<lambda>sh. bind_e (u16 b 46) (\<lambda>ent.
     bind_e (u16 b 48) (\<lambda>n. bind_e (u16 b 50) (\<lambda>st.
     bind_e (u32 b (sh + st * ent + 16)) (\<lambda>so.
     sections_ao_loop b sh ent so (py_range n) [])))))"

definition devmmap_SITES :: "site list" where
  "devmmap_SITES = [
    (0x8384, [0x78, 0x0b, 0xe8, 0xa8], [0x78, 0x0c, 0xe8, 0xa8], ''scrmmap (/dev/screen framebuffer)''),
    (0xe0d2, [0x72, 0x0b, 0xe2, 0xa8], [0x72, 0x0c, 0xe2, 0xa8], ''ammmap (/dev/amiga chip/HW aperture)''),
    (0x13cac, [0x74, 0x0b, 0xe4, 0xa8], [0x74, 0x0c, 0xe4, 0xa8], ''timmap (TIGA graphics board framebuffer)'')]"

definition devmmap_locate :: "byte list \<Rightarrow> exn + int \<times> int" where
  "devmmap_locate b = bind_e (sections_ao b) (dict_get ''.text'')"

definition devmmap_main :: "(nat \<times> nat) script" where
  "devmmap_main b = write_back b
     (bind_e (devmmap_locate b) (\<lambda>(taddr, toff).
      bind_e (patch_sites toff taddr devmmap_SITES (b, 0, 0)) (\<lambda>(buf, done, skip).
      Inr (buf, (done, skip)))))"

subsection \<open>The three ways to find .text agree\<close>

lemma text_section_loop_ok:
  "text_section_loop b sh ent so is = Inr r \<longleftrightarrow> text_sec_loop b sh ent so is = Inr r"
proof (induction "is")
  case (Cons i "is")
  show ?case
  proof (cases "u32 b (sh + i * ent)")
    case (Inr nm)
    then show ?thesis using Cons
      by (cases "index_nul b (so + nm)") (simp_all add: Let_def decode_latin1_iff)
  qed simp
qed simp

theorem text_section_ok: "text_section b = Inr r \<longleftrightarrow> text_sec b = Inr r"
  by (simp add: text_section_def text_sec_def text_section_loop_ok)

lemma text_section_loop_frame:
  assumes a: "agree lo hi b b'" and r: "\<forall>i \<in> set is. row_clear b lo hi so (sh + i * ent)"
  shows "text_section_loop b' sh ent so is = text_section_loop b sh ent so is"
  using r
proof (induction "is")
  case (Cons i "is")
  then obtain nm e where
    "u32 b (sh + i * ent) = Inr nm" "u32 b' (sh + i * ent) = Inr nm"
    "index_nul b (so + nm) = Inr e" "index_nul b' (so + nm) = Inr e"
    "slice b' (so + nm) e = slice b (so + nm) e"
    "u32 b' (sh + i * ent + 12) = u32 b (sh + i * ent + 12)"
    "u32 b' (sh + i * ent + 16) = u32 b (sh + i * ent + 16)"
    by (auto elim: row_clear_reads [OF a])
  then show ?case using Cons by (simp add: Let_def)
qed simp

lemma text_section_frame:
  assumes "agree lo hi b b'" "hdr_clear b lo hi"
  shows "text_section b' = text_section b"
  by (rule hdr_clear_reads [OF assms]) (simp add: text_section_def text_section_loop_frame [OF assms(1)])

definition drop_index :: "section_map \<Rightarrow> (string \<times> int \<times> int) list" where
  "drop_index secs = map (\<lambda>(k, i, ao). (k, ao)) secs"

lemma drop_index_update: "drop_index (AList.update k (i, ao) secs) = AList.update k ao (drop_index secs)"
  by (induction secs) (auto simp: drop_index_def)

lemma sections_ao_loop_eq:
  "sections_ao_loop b sh ent so is (drop_index out) =
   bind_e (sections_loop b sh ent so is out) (\<lambda>secs. Inr (drop_index secs))"
proof (induction "is" arbitrary: out)
  case (Cons i "is")
  show ?case
    by (cases "u32 b (sh + i * ent)"; simp add: Let_def)
      (auto simp: bind_e_assoc Cons.IH drop_index_update [symmetric, where i = i] intro!: bind_e_cong)
qed simp

theorem sections_ao_eq: "sections_ao b = bind_e (sections b) (\<lambda>secs. Inr (drop_index secs))"
  using sections_ao_loop_eq [where out = "[]"]
  by (auto simp: sections_ao_def sections_def bind_e_assoc drop_index_def intro!: bind_e_cong)

lemma drop_index_get:
  "dict_get k (drop_index secs) = bind_e (dict_get k secs) (\<lambda>(i, ao). Inr ao)"
  by (induction secs) (auto simp: dict_get_def drop_index_def)

theorem devmmap_locate_eq: "devmmap_locate b = text_of_sections b"
  by (auto simp: devmmap_locate_def text_of_sections_def sections_ao_eq bind_e_assoc drop_index_get
      intro!: bind_e_cong)

subsection \<open>The tables\<close>

definition pflusha_table :: "site list" where
  "pflusha_table = map (\<lambda>(vaddr, fn). (vaddr, pflusha_OLD, pflusha_NEW, fn)) pflusha_SITES"

lemma replicate_5: "replicate 5 x = [x, x, x, x, x]"
  by (simp add: numeral_eq_Suc)

lemmas pflusha_eval = pflusha_table_def pflusha_SITES_def pflusha_OLD_def pflusha_NEW_def

lemma pflusha_loop_eq:
  "pflusha_loop addr off ps st =
   patch_sites off addr (map (\<lambda>(vaddr, fn). (vaddr, pflusha_OLD, pflusha_NEW, fn)) ps) st"
proof (induction ps arbitrary: st)
  case (Cons p ps)
  have "length pflusha_OLD = 4" "length pflusha_NEW = 4" by (simp_all add: pflusha_eval)
  then show ?case by (cases p; cases st) (auto simp: patch_site_def Let_def Cons.IH)
qed simp

lemma pflusha_indexed: "list_all (indexed kernel_index) pflusha_table"
  by (simp add: pflusha_eval index_eval)

lemma pflusha_length: "length pflusha_table = 7"
  by (simp add: pflusha_eval)

lemma pflusha_room: "room 192 0 192 (192 + text_bytes) pflusha_table"
  by (simp add: pflusha_eval text_bytes_def byte_consts)

interpretation pflusha_table: site_table pflusha_table
  by (rule indexed_site_table [OF kernel_index_chain pflusha_indexed])

lemma pmmu_indexed: "list_all (indexed kernel_index) pmmu_PATCHES"
  by (simp add: pmmu_PATCHES_def index_eval byte_consts replicate_5)

lemma pmmu_length: "length pmmu_PATCHES = 10"
  by (simp add: pmmu_PATCHES_def)

lemma pmmu_room: "room 192 0 192 (192 + text_bytes) pmmu_PATCHES"
  by (simp add: pmmu_PATCHES_def text_bytes_def byte_consts replicate_5)

interpretation pmmu_table: site_table pmmu_PATCHES
  by (rule indexed_site_table [OF kernel_index_chain pmmu_indexed])

lemma devmmap_indexed: "list_all (indexed kernel_index) devmmap_SITES"
  by (simp add: devmmap_SITES_def index_eval byte_consts)

lemma devmmap_length: "length devmmap_SITES = 3"
  by (simp add: devmmap_SITES_def)

lemma devmmap_room: "room 192 0 192 (192 + text_bytes) devmmap_SITES"
  by (simp add: devmmap_SITES_def text_bytes_def byte_consts)

interpretation devmmap_table: site_table devmmap_SITES
  by (rule indexed_site_table [OF kernel_index_chain devmmap_indexed])

interpretation pflusha: text_patcher pflusha_table pflusha_main text_section no_check no_check Pair
  by unfold_locales (simp_all add: pflusha_main_def pflusha_loop_eq pflusha_table_def text_section_frame)

interpretation pmmu: text_patcher pmmu_PATCHES pmmu_main text_sec no_check no_check Pair
  by unfold_locales (simp_all add: pmmu_main_def pmmu_table.asserts_hold text_sec_frame)

interpretation devmmap: text_patcher devmmap_SITES devmmap_main devmmap_locate no_check no_check Pair
  by unfold_locales (simp_all add: devmmap_main_def devmmap_locate_eq text_of_sections_frame)

lemma mmu_edits: "n_edits pflusha_table = 7" "n_edits pmmu_PATCHES = 10" "n_edits devmmap_SITES = 3"
  unfolding n_edits_addr [OF pflusha_table.consistent] n_edits_addr [OF pmmu_table.consistent]
    n_edits_addr [OF devmmap_table.consistent]
  by (simp_all add: pflusha_eval pmmu_PATCHES_def devmmap_SITES_def)

end
