(* ===== verification/Group_Sites.thy ===== *)
theory Group_Sites
  imports Text_Patcher Kernel_Index
begin

text \<open>
  The patchers of one group of sites each: \<open>src/src/patch_swapgeom.py\<close>, \<open>patch_mincore.py\<close>,
  \<open>patch_kmapools.py\<close>, \<open>patch_procio.py\<close>, \<open>patch_pageoutdefs.py\<close>, \<open>patch_memcntl.py\<close> (with canaries after the loop) and \<open>patch_segkmem.py\<close>
  (with canaries before it).
\<close>

subsection \<open>patch_swapgeom.py\<close>

definition swapgeom_TEXT :: "site list" where
  "swapgeom_TEXT = [
    (0xb2d60, [0x06, 0x82, 0x00, 0x00, 0x07, 0xff], [0x06, 0x82, 0x00, 0x00, 0x0f, 0xff], ''swapdel_byname:addil #2047 d2 (round lowblk<<9 up)''),
    (0xb2d66, [0x02, 0x42, 0xf8, 0x00], [0x02, 0x42, 0xf0, 0x00], ''swapdel_byname:andiw #0xf800 d2 (align start down)''),
    (0xb321e, [0x06, 0x83, 0x00, 0x00, 0x07, 0xff], [0x06, 0x83, 0x00, 0x00, 0x0f, 0xff], ''swapadd:addil #2047 d3 (round start up)''),
    (0xb3224, [0x02, 0x43, 0xf8, 0x00], [0x02, 0x43, 0xf0, 0x00], ''swapadd:andiw #0xf800 d3 (align start)''),
    (0xb3228, [0x02, 0x44, 0xf8, 0x00], [0x02, 0x44, 0xf0, 0x00], ''swapadd:andiw #0xf800 d4 (align end)''),
    (0xb323c, [0x06, 0x85, 0x00, 0x00, 0x07, 0xff], [0x06, 0x85, 0x00, 0x00, 0x0f, 0xff], ''swapadd:addil #2047 d5 (round byte span before page count)''),
    (0xb3242, [0x72, 0x0b], [0x72, 0x0c], ''swapadd:moveq #11 d1 (bytes to pages shift)''),
    (0xb349c, [0x06, 0x80, 0x00, 0x00, 0x07, 0xff], [0x06, 0x80, 0x00, 0x00, 0x0f, 0xff], ''swapdel:addil #2047 d0 (round lowblk<<9 up)''),
    (0xb34a2, [0x02, 0x40, 0xf8, 0x00], [0x02, 0x40, 0xf0, 0x00], ''swapdel:andiw #0xf800 d0 (align start)''),
    (0xb369c, [0x06, 0x80, 0x00, 0x00, 0x07, 0xff], [0x06, 0x80, 0x00, 0x00, 0x0f, 0xff], ''swapinfo_free:addil #2047 d0 (recompute table page count)''),
    (0xb36a2, [0x72, 0x0b], [0x72, 0x0c], ''swapinfo_free:moveq #11 d1 (bytes to pages before *16)''),
    (0xb3d70, [0x06, 0x82, 0x00, 0x00, 0x08, 0x00], [0x06, 0x82, 0x00, 0x00, 0x10, 0x00], ''undelswap:addil #2048 d2 (advance backing offset per slot)'')]"

definition swapgeom_main :: "(nat \<times> nat) script" where
  "swapgeom_main b = write_back b
     (bind_e (text_of_sections b) (\<lambda>(taddr, toff).
      bind_e (patch_sites toff taddr swapgeom_TEXT (b, 0, 0)) (\<lambda>(buf, done, skip).
      if partial_group (length swapgeom_TEXT) done skip then Inl (SystemExit ''ABORT: partial swap geometry patch'') else
      Inr (buf, (done, skip)))))"

lemma swapgeom_indexed: "list_all (indexed kernel_index) swapgeom_TEXT"
  by (simp add: swapgeom_TEXT_def index_eval byte_consts)

lemma swapgeom_length: "length swapgeom_TEXT = 12"
  by (simp add: swapgeom_TEXT_def)

lemma swapgeom_room: "room 192 0 192 (192 + text_bytes) swapgeom_TEXT"
  by (simp add: swapgeom_TEXT_def text_bytes_def byte_consts)

interpretation swapgeom_table: site_table swapgeom_TEXT
  by (rule indexed_site_table [OF kernel_index_chain swapgeom_indexed])

interpretation swapgeom: text_patcher swapgeom_TEXT swapgeom_main text_of_sections no_check no_check Pair
  by unfold_locales (simp_all add: swapgeom_main_def swapgeom_table.bind_partial text_of_sections_frame)

lemma swapgeom_edits: "n_edits swapgeom_TEXT = 12"
  unfolding n_edits_addr [OF swapgeom_table.consistent] by (simp add: swapgeom_TEXT_def)

subsection \<open>patch_mincore.py\<close>

definition mincore_TEXT :: "site list" where
  "mincore_TEXT = [
    (0x585e2, [0x02, 0x80, 0x00, 0x00, 0x07, 0xff], [0x02, 0x80, 0x00, 0x00, 0x0f, 0xff], ''mincore:andil #2047 d0 (EINVAL page-alignment gate on addr)''),
    (0x58670, [0x06, 0x80, 0x00, 0x00, 0x07, 0xff], [0x06, 0x80, 0x00, 0x00, 0x0f, 0xff], ''mincore:addil #2047 d0 (btoc round-up of as_incore bytes)''),
    (0x58678, [0x72, 0x0b], [0x72, 0x0c], ''mincore:moveq #11 d1 (btoc shift: bytes -> vec bytes, 1/page)'')]"

definition mincore_main :: "(nat \<times> nat) script" where
  "mincore_main b = write_back b
     (bind_e (text_of_sections b) (\<lambda>(taddr, toff).
      bind_e (patch_sites toff taddr mincore_TEXT (b, 0, 0)) (\<lambda>(buf, done, skip).
      Inr (buf, (done, skip)))))"

lemma mincore_indexed: "list_all (indexed kernel_index) mincore_TEXT"
  by (simp add: mincore_TEXT_def index_eval byte_consts)

lemma mincore_length: "length mincore_TEXT = 3"
  by (simp add: mincore_TEXT_def)

lemma mincore_room: "room 192 0 192 (192 + text_bytes) mincore_TEXT"
  by (simp add: mincore_TEXT_def text_bytes_def byte_consts)

interpretation mincore_table: site_table mincore_TEXT
  by (rule indexed_site_table [OF kernel_index_chain mincore_indexed])

interpretation mincore: text_patcher mincore_TEXT mincore_main text_of_sections no_check no_check Pair
  by unfold_locales (simp_all add: mincore_main_def mincore_table.bind_partial text_of_sections_frame)

lemma mincore_edits: "n_edits mincore_TEXT = 3"
  unfolding n_edits_addr [OF mincore_table.consistent] by (simp add: mincore_TEXT_def)

subsection \<open>patch_kmapools.py\<close>

definition kmapools_TEXT :: "site list" where
  "kmapools_TEXT = [
    (0x41bac, [0x55, 0x80], [0x53, 0x80], ''allocspool:subql #2,d0 (availrmem headroom test)''),
    (0x41bc0, [0x55, 0x80], [0x53, 0x80], ''allocspool:subql #2,d0 (availsmem headroom test)''),
    (0x41bca, [0x55, 0xb9], [0x53, 0xb9], ''allocspool:subql #2,availrmem''),
    (0x41bd0, [0x55, 0xb9], [0x53, 0xb9], ''allocspool:subql #2,availsmem''),
    (0x41be4, [0x48, 0x78, 0x00, 0x02], [0x48, 0x78, 0x00, 0x01], ''allocspool:pea SMALLCLICKS (sptalloc arg1)''),
    (0x41bf8, [0x54, 0xb9], [0x52, 0xb9], ''allocspool:addql #2,availrmem (sptalloc-fail unwind)''),
    (0x41bfe, [0x54, 0xb9], [0x52, 0xb9], ''allocspool:addql #2,availsmem (sptalloc-fail unwind)''),
    (0x41c20, [0x54, 0xb9], [0x52, 0xb9], ''allocspool:addql #2,pages_pp_kernel''),
    (0x41dc8, [0x51, 0x80], [0x59, 0x80], ''allocbpool:subql #8,d0 (availrmem headroom test)''),
    (0x41ddc, [0x51, 0x80], [0x59, 0x80], ''allocbpool:subql #8,d0 (availsmem headroom test)''),
    (0x41de6, [0x51, 0xb9], [0x59, 0xb9], ''allocbpool:subql #8,availrmem''),
    (0x41dec, [0x51, 0xb9], [0x59, 0xb9], ''allocbpool:subql #8,availsmem''),
    (0x41dfe, [0x48, 0x78, 0x00, 0x08], [0x48, 0x78, 0x00, 0x04], ''allocbpool:pea BIGCLICKS (sptalloc arg1)''),
    (0x41e4a, [0x48, 0x78, 0x00, 0x08], [0x48, 0x78, 0x00, 0x04], ''allocbpool:pea BIGCLICKS (sptfree arg2, kmem_alloc-fail)''),
    (0x41e56, [0x50, 0xb9], [0x58, 0xb9], ''allocbpool:addql #8,availrmem (fail unwind)''),
    (0x41e5c, [0x50, 0xb9], [0x58, 0xb9], ''allocbpool:addql #8,availsmem (fail unwind)''),
    (0x41e7e, [0x50, 0xb9], [0x58, 0xb9], ''allocbpool:addql #8,pages_pp_kernel''),
    (0x42c74, [0x74, 0x08], [0x74, 0x04], ''freepool:moveq #8,d2 (BIGCLICKS -> sptfree npages)''),
    (0x42c84, [0x50, 0xb9], [0x58, 0xb9], ''freepool:addql #8,availrmem (big)''),
    (0x42c8a, [0x50, 0xb9], [0x58, 0xb9], ''freepool:addql #8,availsmem (big)''),
    (0x42c90, [0x51, 0xb9], [0x59, 0xb9], ''freepool:subql #8,pages_pp_kernel (big)''),
    (0x42cca, [0x74, 0x02], [0x74, 0x01], ''freepool:moveq #2,d2 (SMALLCLICKS -> sptfree npages)''),
    (0x42cda, [0x54, 0xb9], [0x52, 0xb9], ''freepool:addql #2,availrmem (small)''),
    (0x42ce0, [0x54, 0xb9], [0x52, 0xb9], ''freepool:addql #2,availsmem (small)''),
    (0x42ce6, [0x55, 0xb9], [0x53, 0xb9], ''freepool:subql #2,pages_pp_kernel (small)''),
    (0x42d7a, [0x74, 0x0b], [0x74, 0x0c], ''kmem_avail:moveq #11,d2 (ptob(availrmem-minarmem) <<11 -> <<12)'')]"

definition kmapools_main :: "(nat \<times> nat) script" where
  "kmapools_main b = write_counted (length kmapools_TEXT) b
     (bind_e (text_of_sections b) (\<lambda>(taddr, toff).
      bind_e (patch_sites toff taddr kmapools_TEXT (b, 0, 0)) (\<lambda>(buf, done, skip).
      if partial_group (length kmapools_TEXT) done skip then Inl (SystemExit ''ABORT: partial KMA pool patch'') else
      Inr (buf, done, skip))))"

lemma kmapools_indexed: "list_all (indexed kernel_index) kmapools_TEXT"
  by (simp add: kmapools_TEXT_def index_eval byte_consts)

lemma kmapools_length: "length kmapools_TEXT = 26"
  by (simp add: kmapools_TEXT_def)

lemma kmapools_room: "room 192 0 192 (192 + text_bytes) kmapools_TEXT"
  by (simp add: kmapools_TEXT_def text_bytes_def byte_consts)

interpretation kmapools_table: site_table kmapools_TEXT
  by (rule indexed_site_table [OF kernel_index_chain kmapools_indexed])

interpretation kmapools: text_patcher kmapools_TEXT kmapools_main text_of_sections no_check no_check Pair
proof unfold_locales
  show "kmapools_main b = write_back b (bind_e (text_of_sections b) (\<lambda>(addr, off). bind_e (no_check off addr b) (\<lambda>_.
      bind_e (patch_sites off addr kmapools_TEXT (b, 0, 0)) (\<lambda>(buf, d, s). bind_e (no_check off addr buf)
      (\<lambda>_. Inr (buf, d, s))))))" for b
    using kmapools_table.write_counted_eq [of b "text_of_sections b" no_check no_check]
    by (simp add: kmapools_main_def kmapools_table.bind_partial)
qed (rule text_of_sections_frame)

lemma kmapools_edits: "n_edits kmapools_TEXT = 26"
  unfolding n_edits_addr [OF kmapools_table.consistent] by (simp add: kmapools_TEXT_def)

subsection \<open>patch_procio.py\<close>

definition procio_TEXT :: "site list" where
  "procio_TEXT = [
    (0x635a0, [0x72, 0x0b], [0x72, 0x0c], ''prfastmapout:phys>>11 -> >>12 (site 1/11)''),
    (0x635c0, [0x72, 0x0b], [0x72, 0x0c], ''prfastmapout:phys>>11 -> >>12 (site 2/11)''),
    (0x635e2, [0x72, 0x0b], [0x72, 0x0c], ''prfastmapout:phys>>11 -> >>12 (site 3/11)''),
    (0x63694, [0x72, 0x0b], [0x72, 0x0c], ''prfastmapout:phys>>11 -> >>12 (site 4/11)''),
    (0x636b4, [0x72, 0x0b], [0x72, 0x0c], ''prfastmapout:phys>>11 -> >>12 (site 5/11)''),
    (0x636d6, [0x72, 0x0b], [0x72, 0x0c], ''prfastmapout:phys>>11 -> >>12 (site 6/11)''),
    (0x636f6, [0x72, 0x0b], [0x72, 0x0c], ''prfastmapout:phys>>11 -> >>12 (site 7/11)''),
    (0x63718, [0x72, 0x0b], [0x72, 0x0c], ''prfastmapout:phys>>11 -> >>12 (site 8/11)''),
    (0x63738, [0x72, 0x0b], [0x72, 0x0c], ''prfastmapout:phys>>11 -> >>12 (site 9/11)''),
    (0x6375a, [0x72, 0x0b], [0x72, 0x0c], ''prfastmapout:phys>>11 -> >>12 (site 10/11)''),
    (0x6377a, [0x72, 0x0b], [0x72, 0x0c], ''prfastmapout:phys>>11 -> >>12 (site 11/11)''),
    (0x64580, [0x02, 0x45, 0xf8, 0x00], [0x02, 0x45, 0xf0, 0x00], ''prusrio:andiw #-2048,d5 (page = a & PAGEMASK)''),
    (0x64586, [0x06, 0x81, 0x00, 0x00, 0x08, 0x00], [0x06, 0x81, 0x00, 0x00, 0x10, 0x00], ''prusrio:addil #2048,d1 (nextpage = page + PAGESIZE)''),
    (0x645d8, [0x48, 0x78, 0x08, 0x00], [0x48, 0x78, 0x10, 0x00], ''prusrio:pea 0x800 (as_fault F_SOFTLOCK len)''),
    (0x6467a, [0x48, 0x78, 0x08, 0x00], [0x48, 0x78, 0x10, 0x00], ''prusrio:pea 0x800 (as_fault F_SOFTUNLOCK len)'')]"

definition procio_main :: "(nat \<times> nat) script" where
  "procio_main b = write_counted (length procio_TEXT) b
     (bind_e (text_of_sections b) (\<lambda>(taddr, toff).
      bind_e (patch_sites toff taddr procio_TEXT (b, 0, 0)) (\<lambda>(buf, done, skip).
      if partial_group (length procio_TEXT) done skip then Inl (SystemExit ''ABORT: partial procfs I/O patch'') else
      Inr (buf, (done, skip)))))"

lemma procio_indexed: "list_all (indexed kernel_index) procio_TEXT"
  by (simp add: procio_TEXT_def index_eval byte_consts)

lemma procio_length: "length procio_TEXT = 15"
  by (simp add: procio_TEXT_def)

lemma procio_room: "room 192 0 192 (192 + text_bytes) procio_TEXT"
  by (simp add: procio_TEXT_def text_bytes_def byte_consts)

interpretation procio_table: site_table procio_TEXT
  by (rule indexed_site_table [OF kernel_index_chain procio_indexed])

interpretation procio: text_patcher procio_TEXT procio_main text_of_sections no_check no_check Pair
proof unfold_locales
  show "procio_main b = write_back b (bind_e (text_of_sections b) (\<lambda>(addr, off). bind_e (no_check off addr b) (\<lambda>_.
      bind_e (patch_sites off addr procio_TEXT (b, 0, 0)) (\<lambda>(buf, d, s). bind_e (no_check off addr buf)
      (\<lambda>_. Inr (buf, d, s))))))" for b
    using procio_table.write_counted_eq [of b "text_of_sections b" no_check no_check]
    by (simp add: procio_main_def procio_table.bind_partial)
qed (rule text_of_sections_frame)

lemma procio_edits: "n_edits procio_TEXT = 15"
  unfolding n_edits_addr [OF procio_table.consistent] by (simp add: procio_TEXT_def)

subsection \<open>patch_pageoutdefs.py\<close>

definition pageoutdefs_TEXT :: "site list" where
  "pageoutdefs_TEXT = [
    (0x51dcc, [0x23, 0xfc, 0x00, 0x00, 0x00, 0x80], [0x23, 0xfc, 0x00, 0x00, 0x00, 0x40], ''setupclock:movel #128 lotsfree (256KB default)''),
    (0x51e24, [0x74, 0x32], [0x74, 0x19], ''setupclock:moveq #50 desfree (100KB default)''),
    (0x51e7e, [0x74, 0x10], [0x74, 0x08], ''setupclock:moveq #16 minfree (32KB default)''),
    (0x51f6a, [0x74, 0x0b], [0x74, 0x0c], ''setupclock:moveq #11 (fastscan * PAGESIZE minimum)''),
    (0x51aba, [0xe3, 0x80], [0x4e, 0x71], ''vmmeter:asll #1 maxpgio -> nop (UPIO fold, eval 1)''),
    (0x51ad0, [0xe3, 0x80], [0x4e, 0x71], ''vmmeter:asll #1 maxpgio -> nop (UPIO fold, eval 2)''),
    (0x51b10, [0xe3, 0x80], [0x4e, 0x71], ''vmmeter:asll #1 maxpgio -> nop (UPIO fold, eval 3)''),
    (0x51b26, [0xe3, 0x80], [0x4e, 0x71], ''vmmeter:asll #1 maxpgio -> nop (UPIO fold, eval 4)'')]"

definition pageoutdefs_main :: "(nat \<times> nat) script" where
  "pageoutdefs_main b = write_back b
     (bind_e (text_of_sections b) (\<lambda>(taddr, toff).
      bind_e (patch_sites toff taddr pageoutdefs_TEXT (b, 0, 0)) (\<lambda>(buf, done, skip).
      Inr (buf, (done, skip)))))"

lemma pageoutdefs_indexed: "list_all (indexed kernel_index) pageoutdefs_TEXT"
  by (simp add: pageoutdefs_TEXT_def index_eval byte_consts)

lemma pageoutdefs_length: "length pageoutdefs_TEXT = 8"
  by (simp add: pageoutdefs_TEXT_def)

lemma pageoutdefs_room: "room 192 0 192 (192 + text_bytes) pageoutdefs_TEXT"
  by (simp add: pageoutdefs_TEXT_def text_bytes_def byte_consts)

interpretation pageoutdefs_table: site_table pageoutdefs_TEXT
  by (rule indexed_site_table [OF kernel_index_chain pageoutdefs_indexed])

interpretation pageoutdefs: text_patcher pageoutdefs_TEXT pageoutdefs_main text_of_sections no_check no_check Pair
  by unfold_locales (simp_all add: pageoutdefs_main_def pageoutdefs_table.bind_partial text_of_sections_frame)

lemma pageoutdefs_edits: "n_edits pageoutdefs_TEXT = 8"
  unfolding n_edits_addr [OF pageoutdefs_table.consistent] by (simp add: pageoutdefs_TEXT_def)

subsection \<open>patch_memcntl.py\<close>

definition memcntl_TEXT :: "site list" where
  "memcntl_TEXT = [
    (0x431f4, [0x02, 0x80, 0x00, 0x00, 0x07, 0xff], [0x02, 0x80, 0x00, 0x00, 0x0f, 0xff], ''memcntl:(int)addr & PAGEOFFSET (EINVAL alignment gate)''),
    (0x4331c, [0x02, 0x46, 0xf8, 0x00], [0x02, 0x46, 0xf0, 0x00], ''memcntl:MC_LOCKAS raddr = seg->s_base & PAGEMASK''),
    (0x43328, [0x06, 0x80, 0x00, 0x00, 0x07, 0xff], [0x06, 0x80, 0x00, 0x00, 0x0f, 0xff], ''memcntl:MC_LOCKAS (s_base+s_size)+PAGEOFFSET''),
    (0x4332e, [0x02, 0x40, 0xf8, 0x00], [0x02, 0x40, 0xf0, 0x00], ''memcntl:MC_LOCKAS ... & PAGEMASK''),
    (0x43348, [0x02, 0x46, 0xf8, 0x00], [0x02, 0x46, 0xf0, 0x00], ''memcntl:MC_LOCK raddr = addr & PAGEMASK''),
    (0x43352, [0x06, 0x80, 0x00, 0x00, 0x07, 0xff], [0x06, 0x80, 0x00, 0x00, 0x0f, 0xff], ''memcntl:MC_LOCK (addr+len)+PAGEOFFSET''),
    (0x43358, [0x02, 0x40, 0xf8, 0x00], [0x02, 0x40, 0xf0, 0x00], ''memcntl:MC_LOCK ... & PAGEMASK''),
    (0x4338e, [0xd8, 0xfc, 0x07, 0xff], [0xd8, 0xfc, 0x0f, 0xff], ''memcntl:btoc(rlen) round (addaw #2047 -> #4095)''),
    (0x43394, [0x72, 0x0b], [0x72, 0x0c], ''memcntl:btoc(rlen) shift >>11 -> >>12''),
    (0x43420, [0x02, 0x46, 0xf8, 0x00], [0x02, 0x46, 0xf0, 0x00], ''memcntl:err path raddr = seg->s_base & PAGEMASK''),
    (0x43428, [0x06, 0x80, 0x00, 0x00, 0x07, 0xff], [0x06, 0x80, 0x00, 0x00, 0x0f, 0xff], ''memcntl:err path btoc(s_size) round (npages, inlined seg_pages)''),
    (0x4342e, [0x72, 0x0b], [0x72, 0x0c], ''memcntl:err path btoc(s_size) shift (npages)''),
    (0x43450, [0x06, 0x80, 0x00, 0x00, 0x07, 0xff], [0x06, 0x80, 0x00, 0x00, 0x0f, 0xff], ''memcntl:err path btoc(s_size) round (inx, inlined seg_pages)''),
    (0x43456, [0x72, 0x0b], [0x72, 0x0c], ''memcntl:err path btoc(s_size) shift (inx)''),
    (0x43472, [0x06, 0x80, 0x00, 0x00, 0x07, 0xff], [0x06, 0x80, 0x00, 0x00, 0x0f, 0xff], ''memcntl:MC_LOCK err btoc(rlen) round''),
    (0x43478, [0x72, 0x0b], [0x72, 0x0c], ''memcntl:MC_LOCK err btoc(rlen) shift''),
    (0x434ee, [0x7e, 0x0b], [0x7e, 0x0c], ''mem_unlock:ctob() shift -- ONE moveq feeds BOTH lsll (offset + length)'')]"

definition memcntl_CANARY :: "canary list" where
  "memcntl_CANARY = [
    (0x42f58, [0x70, 0x0b], ''textlock return EAGAIN''),
    (0x42fde, [0x70, 0x0b], ''datalock return EAGAIN''),
    (0x43080, [0x70, 0x0b], ''ublock return EAGAIN''),
    (0x43212, [0x70, 0x0c], ''memcntl return ENOMEM''),
    (0xad54e, [0x70, 0x0b], ''segvn_lockop return EAGAIN'')]"

definition check_memcntl :: "int \<Rightarrow> int \<Rightarrow> byte list \<Rightarrow> exn + unit" where
  "check_memcntl off addr buf = check_canaries off addr memcntl_CANARY buf"

definition memcntl_main :: "(nat \<times> nat) script" where
  "memcntl_main b = write_counted (length memcntl_TEXT) b
     (bind_e (text_of_sections b) (\<lambda>(taddr, toff).
      bind_e (patch_sites toff taddr memcntl_TEXT (b, 0, 0)) (\<lambda>(buf, done, skip).
      if partial_group (length memcntl_TEXT) done skip then Inl (SystemExit ''ABORT: partial memcntl patch'') else
      bind_e (check_memcntl toff taddr buf) (\<lambda>_.
      Inr (buf, done, skip)))))"

lemma memcntl_indexed: "list_all (indexed kernel_index) memcntl_TEXT"
  by (simp add: memcntl_TEXT_def index_eval byte_consts)

lemma memcntl_length: "length memcntl_TEXT = 17"
  by (simp add: memcntl_TEXT_def)

lemma memcntl_room: "room 192 0 192 (192 + text_bytes) memcntl_TEXT"
  by (simp add: memcntl_TEXT_def text_bytes_def byte_consts)

interpretation memcntl_table: site_table memcntl_TEXT
  by (rule indexed_site_table [OF kernel_index_chain memcntl_indexed])

interpretation memcntl: text_patcher memcntl_TEXT memcntl_main text_of_sections no_check check_memcntl Pair
proof unfold_locales
  show "memcntl_main b = write_back b (bind_e (text_of_sections b) (\<lambda>(addr, off). bind_e (no_check off addr b) (\<lambda>_.
      bind_e (patch_sites off addr memcntl_TEXT (b, 0, 0)) (\<lambda>(buf, d, s). bind_e (check_memcntl off addr buf)
      (\<lambda>_. Inr (buf, d, s))))))" for b
    using memcntl_table.write_counted_eq [of b "text_of_sections b" no_check check_memcntl]
    by (simp add: memcntl_main_def memcntl_table.bind_partial)
qed (rule text_of_sections_frame)

lemma memcntl_apart: "\<forall>c \<in> set memcntl_CANARY. \<forall>e \<in> set memcntl_TEXT. canary_apart c e"
  by (simp add: memcntl_CANARY_def memcntl_TEXT_def canary_apart_def byte_consts)

lemma memcntl_canaries_room: "canaries_room 192 0 (192 + text_bytes) memcntl_CANARY"
  by (simp add: memcntl_CANARY_def canaries_room_def text_bytes_def)

lemma check_memcntl_apply:
  "room off addr 0 (length b) memcntl_TEXT \<Longrightarrow> canaries_room off addr (length b) memcntl_CANARY \<Longrightarrow>
   check_memcntl off addr (apply_new off addr memcntl_TEXT b) = check_memcntl off addr b"
  by (simp add: check_memcntl_def check_canaries_apply memcntl_apart)

lemma memcntl_edits: "n_edits memcntl_TEXT = 17"
  unfolding n_edits_addr [OF memcntl_table.consistent] by (simp add: memcntl_TEXT_def)

subsection \<open>patch_segkmem.py\<close>

definition segkmem_TEXT :: "site list" where
  "segkmem_TEXT = [
    (0xa8550, [0x72, 0x0b], [0x72, 0x0c], ''segkmem_checkprot:moveq #11 d1 (PTE index shift 2K->4K)''),
    (0xa859c, [0x06, 0x82, 0x00, 0x00, 0x08, 0x00], [0x06, 0x82, 0x00, 0x00, 0x10, 0x00], ''segkmem_checkprot:addil #0x800 d2 (page step 2K->4K)''),
    (0xa85d4, [0x7a, 0x0b], [0x7a, 0x0c], ''segkmem_getprot:moveq #11 d5 (page-count shift, feeds both asrl)''),
    (0xa85fa, [0x7a, 0x0b], [0x7a, 0x0c], ''segkmem_getprot:moveq #11 d5 (PTE index shift 2K->4K)'')]"

definition segkmem_CANARY :: "canary list" where
  "segkmem_CANARY = [
    (0xa8474, [0x72, 0x0b], ''stock segkmem_setprot moveq #11 (overridden)''),
    (0xa84a6, [0x42, 0x9a], ''stock segkmem_setprot clrl a2@+ (overridden)''),
    (0xa84ac, [0xef, 0xea, 0x41, 0x41, 0x00, 0x03], ''stock segkmem_setprot bfins W-bit (overridden)''),
    (0xa84b2, [0x06, 0x82, 0x00, 0x00, 0x08, 0x00], ''stock segkmem_setprot addil #0x800 (overridden)''),
    (0xa8cd0, [0x42, 0xb0, 0x0c, 0x00], ''stock sptfree flag=0 direct clear (overridden)''),
    (0xb78d0, [0xf5, 0x18], ''stock flushmmu pflusha-only body (overridden)'')]"

definition check_segkmem :: "int \<Rightarrow> int \<Rightarrow> byte list \<Rightarrow> exn + unit" where
  "check_segkmem off addr buf = check_canaries off addr segkmem_CANARY buf"

definition segkmem_main :: "(nat \<times> nat) script" where
  "segkmem_main b = write_back b
     (bind_e (text_of_sections b) (\<lambda>(taddr, toff).
      bind_e (check_segkmem toff taddr b) (\<lambda>_.
      bind_e (patch_sites toff taddr segkmem_TEXT (b, 0, 0)) (\<lambda>(buf, done, skip).
      if partial_group (length segkmem_TEXT) done skip then Inl (SystemExit ''ABORT: partial segkmem reader patch'') else
      Inr (buf, (done, skip))))))"

lemma segkmem_indexed: "list_all (indexed kernel_index) segkmem_TEXT"
  by (simp add: segkmem_TEXT_def index_eval byte_consts)

lemma segkmem_length: "length segkmem_TEXT = 4"
  by (simp add: segkmem_TEXT_def)

lemma segkmem_room: "room 192 0 192 (192 + text_bytes) segkmem_TEXT"
  by (simp add: segkmem_TEXT_def text_bytes_def byte_consts)

interpretation segkmem_table: site_table segkmem_TEXT
  by (rule indexed_site_table [OF kernel_index_chain segkmem_indexed])

interpretation segkmem: text_patcher segkmem_TEXT segkmem_main text_of_sections check_segkmem no_check Pair
  by unfold_locales (simp_all add: segkmem_main_def segkmem_table.bind_partial text_of_sections_frame)

lemma segkmem_apart: "\<forall>c \<in> set segkmem_CANARY. \<forall>e \<in> set segkmem_TEXT. canary_apart c e"
  by (simp add: segkmem_CANARY_def segkmem_TEXT_def canary_apart_def byte_consts)

lemma segkmem_canaries_room: "canaries_room 192 0 (192 + text_bytes) segkmem_CANARY"
  by (simp add: segkmem_CANARY_def canaries_room_def text_bytes_def)

lemma check_segkmem_apply:
  "room off addr 0 (length b) segkmem_TEXT \<Longrightarrow> canaries_room off addr (length b) segkmem_CANARY \<Longrightarrow>
   check_segkmem off addr (apply_new off addr segkmem_TEXT b) = check_segkmem off addr b"
  by (simp add: check_segkmem_def check_canaries_apply segkmem_apart)

lemma segkmem_edits: "n_edits segkmem_TEXT = 4"
  unfolding n_edits_addr [OF segkmem_table.consistent] by (simp add: segkmem_TEXT_def)

end
