(* ===== verification/Vm_Sites.thy ===== *)
theory Vm_Sites
  imports Text_Patcher Kernel_Index
begin

text \<open>
  The patchers of the file-system and mapping paths: \<open>src/src/patch_pvntrunc.py\<close>,
  \<open>patch_ufsbmap.py\<close>, and the ones whose groups an environment variable selects,
  \<open>patch_pagecreate.py\<close>, \<open>patch_execboundary.py\<close> and \<open>patch_devmmap2.py\<close>.  Their canaries tie
  them to the patchers that must have run before.
\<close>

subsection \<open>patch_pvntrunc.py\<close>

definition pvntrunc_TEXT :: "site list" where
  "pvntrunc_TEXT = [
    (0xb248c, [0x02, 0x80, 0x00, 0x00, 0x07, 0xff], [0x02, 0x80, 0x00, 0x00, 0x0f, 0xff], ''pvn_vptrunc:vplen & PAGEOFFSET''),
    (0xb2492, [0x04, 0x80, 0x00, 0x00, 0x08, 0x00], [0x04, 0x80, 0x00, 0x00, 0x10, 0x00], ''pvn_vptrunc:PAGESIZE - (vplen & PAGEOFFSET)'')]"

definition pvntrunc_CANARY :: "canary list" where
  "pvntrunc_CANARY = [
    (0xb2474, [0x02, 0x41, 0xe0, 0x00], ''vplen & MAXBMASK (8 KiB segmap slot)''),
    (0xb24aa, [0x02, 0x80, 0x00, 0x00, 0x1f, 0xff], ''vplen & MAXBOFFSET (8 KiB slot offset)'')]"

definition check_pvntrunc :: "int \<Rightarrow> int \<Rightarrow> byte list \<Rightarrow> exn + unit" where
  "check_pvntrunc off addr buf = check_canaries off addr pvntrunc_CANARY buf"

definition pvntrunc_main :: "(nat \<times> nat) script" where
  "pvntrunc_main b = write_counted (length pvntrunc_TEXT) b
     (bind_e (text_of_sections b) (\<lambda>(taddr, toff).
      bind_e (check_pvntrunc toff taddr b) (\<lambda>_.
      bind_e (patch_sites toff taddr pvntrunc_TEXT (b, 0, 0)) (\<lambda>(buf, done, skip).
      if partial_group (length pvntrunc_TEXT) done skip then Inl (SystemExit ''ABORT: partial pvn_vptrunc patch'') else
      Inr (buf, done, skip)))))"

lemma pvntrunc_indexed: "list_all (indexed kernel_index) pvntrunc_TEXT"
  by (simp add: pvntrunc_TEXT_def index_eval byte_consts)

lemma pvntrunc_length: "length pvntrunc_TEXT = 2"
  by (simp add: pvntrunc_TEXT_def)

lemma pvntrunc_room: "room 192 0 192 (192 + text_bytes) pvntrunc_TEXT"
  by (simp add: pvntrunc_TEXT_def text_bytes_def byte_consts)

interpretation pvntrunc_table: site_table pvntrunc_TEXT
  by (rule indexed_site_table [OF kernel_index_chain pvntrunc_indexed])

interpretation pvntrunc: text_patcher pvntrunc_TEXT pvntrunc_main text_of_sections check_pvntrunc no_check Pair
proof unfold_locales
  show "pvntrunc_main b = write_back b (bind_e (text_of_sections b) (\<lambda>(addr, off). bind_e (check_pvntrunc off addr b) (\<lambda>_.
      bind_e (patch_sites off addr pvntrunc_TEXT (b, 0, 0)) (\<lambda>(buf, d, s). bind_e (no_check off addr buf)
      (\<lambda>_. Inr (buf, d, s))))))" for b
    using pvntrunc_table.write_counted_eq [of b "text_of_sections b" check_pvntrunc no_check]
    by (simp add: pvntrunc_main_def pvntrunc_table.bind_partial)
qed (rule text_of_sections_frame)

lemma pvntrunc_apart: "\<forall>c \<in> set pvntrunc_CANARY. \<forall>e \<in> set pvntrunc_TEXT. canary_apart c e"
  by (simp add: pvntrunc_CANARY_def pvntrunc_TEXT_def canary_apart_def byte_consts)

lemma pvntrunc_canaries_room: "canaries_room 192 0 (192 + text_bytes) pvntrunc_CANARY"
  by (simp add: pvntrunc_CANARY_def canaries_room_def text_bytes_def)

lemma check_pvntrunc_apply:
  "room off addr 0 (length b) pvntrunc_TEXT \<Longrightarrow> canaries_room off addr (length b) pvntrunc_CANARY \<Longrightarrow>
   check_pvntrunc off addr (apply_new off addr pvntrunc_TEXT b) = check_pvntrunc off addr b"
  by (simp add: check_pvntrunc_def check_canaries_apply pvntrunc_apart)

lemma pvntrunc_edits: "n_edits pvntrunc_TEXT = 2"
  unfolding n_edits_addr [OF pvntrunc_table.consistent] by (simp add: pvntrunc_TEXT_def)

subsection \<open>patch_ufsbmap.py\<close>

definition ufsbmap_TEXT :: "site list" where
  "ufsbmap_TEXT = [
    (0x79d74, [0x0c, 0x83] @ A48, [0x0c, 0x83] @ A96, ''ufs_bmap:blkpp PAGESIZE >= bsize''),
    (0x79d7e, [0x24, 0x3c] @ A48, [0x24, 0x3c] @ A96, ''ufs_bmap:blkpp PAGESIZE numerator''),
    (0x79d96, [0x0c, 0x83] @ R47, [0x0c, 0x83] @ R95, ''ufs_bmap:nblks gate PAGESIZE > bsize''),
    (0x79da4, [0x06, 0x80] @ R47, [0x06, 0x80] @ R95, ''ufs_bmap:nblks i_size + PAGEOFFSET''),
    (0x79daa, [0x7e, 0x0b], [0x7e, 0x0c], ''ufs_bmap:nblks >> PAGESHIFT''),
    (0x7a494, [0x06, 0x80] @ R47, [0x06, 0x80] @ R95, ''ufs_bmap:indirect roundup(size,PAGESIZE)''),
    (0x7a49e, [0x06, 0x80] @ R47, [0x06, 0x80] @ R95, ''ufs_bmap:indirect roundup sign correction''),
    (0x7a4a4, [0x02, 0x40, 0xf8, 0x00], [0x02, 0x40, 0xf0, 0x00], ''ufs_bmap:indirect roundup mask''),
    (0x7a520, [0x06, 0x80] @ R47, [0x06, 0x80] @ R95, ''ufs_bmap:syncwrite roundup(size,PAGESIZE)''),
    (0x7a52a, [0x06, 0x80] @ R47, [0x06, 0x80] @ R95, ''ufs_bmap:syncwrite roundup sign correction''),
    (0x7a530, [0x02, 0x40, 0xf8, 0x00], [0x02, 0x40, 0xf0, 0x00], ''ufs_bmap:syncwrite roundup mask'')]"

definition ufsbmap_CANARY :: "canary list" where
  "ufsbmap_CANARY = [
    (0x79ec0, [0x7e, 0x0b], ''NDADDR-1 direct-block threshold''),
    (0x79ee2, [0x7e, 0x0b], ''NDADDR-1 direct-block threshold''),
    (0x7a030, [0x7e, 0x0b], ''NDADDR-1 direct-block threshold'')]"

text \<open>The precondition after the canaries: \<open>as_iolock\<close> has been converted already.\<close>

definition check_ufsbmap :: "int \<Rightarrow> int \<Rightarrow> byte list \<Rightarrow> exn + unit" where
  "check_ufsbmap off addr buf = bind_e (check_canaries off addr ufsbmap_CANARY buf) (\<lambda>_.
     let fo = off + (0xaeeba - addr) in
     if slice buf fo (fo + 4) \<noteq> [0x02, 0x46, 0xf0, 0x00]
     then Inl (SystemExit ''ABORT: as_iolock is not 4 KiB'') else Inr ())"

definition ufsbmap_canaries :: "canary list" where
  "ufsbmap_canaries = ufsbmap_CANARY @ [(0xaeeba, [0x02, 0x46, 0xf0, 0x00], ''as_iolock'')]"

definition ufsbmap_main :: "(nat \<times> nat) script" where
  "ufsbmap_main b = write_counted (length ufsbmap_TEXT) b
     (bind_e (text_of_sections b) (\<lambda>(taddr, toff).
      bind_e (check_ufsbmap toff taddr b) (\<lambda>_.
      bind_e (patch_sites toff taddr ufsbmap_TEXT (b, 0, 0)) (\<lambda>(buf, done, skip).
      if partial_group (length ufsbmap_TEXT) done skip then Inl (SystemExit ''ABORT: partial ufs_bmap conversion'') else
      Inr (buf, done, skip)))))"

lemma ufsbmap_indexed: "list_all (indexed kernel_index) ufsbmap_TEXT"
  by (simp add: ufsbmap_TEXT_def index_eval byte_consts)

lemma ufsbmap_length: "length ufsbmap_TEXT = 11"
  by (simp add: ufsbmap_TEXT_def)

lemma ufsbmap_room: "room 192 0 192 (192 + text_bytes) ufsbmap_TEXT"
  by (simp add: ufsbmap_TEXT_def text_bytes_def byte_consts)

interpretation ufsbmap_table: site_table ufsbmap_TEXT
  by (rule indexed_site_table [OF kernel_index_chain ufsbmap_indexed])

interpretation ufsbmap: text_patcher ufsbmap_TEXT ufsbmap_main text_of_sections check_ufsbmap no_check Pair
proof unfold_locales
  show "ufsbmap_main b = write_back b (bind_e (text_of_sections b) (\<lambda>(addr, off). bind_e (check_ufsbmap off addr b) (\<lambda>_.
      bind_e (patch_sites off addr ufsbmap_TEXT (b, 0, 0)) (\<lambda>(buf, d, s). bind_e (no_check off addr buf)
      (\<lambda>_. Inr (buf, d, s))))))" for b
    using ufsbmap_table.write_counted_eq [of b "text_of_sections b" check_ufsbmap no_check]
    by (simp add: ufsbmap_main_def ufsbmap_table.bind_partial)
qed (rule text_of_sections_frame)

lemma check_ufsbmap_iff: "check_ufsbmap off addr b = Inr () \<longleftrightarrow> check_canaries off addr ufsbmap_canaries b = Inr ()"
  by (auto simp: check_ufsbmap_def check_canaries_ok_iff ufsbmap_canaries_def Let_def)

lemma ufsbmap_apart: "\<forall>c \<in> set ufsbmap_canaries. \<forall>e \<in> set ufsbmap_TEXT. canary_apart c e"
  by (simp add: ufsbmap_canaries_def ufsbmap_CANARY_def ufsbmap_TEXT_def canary_apart_def byte_consts)

lemma ufsbmap_canaries_room: "canaries_room 192 0 (192 + text_bytes) ufsbmap_canaries"
  by (simp add: ufsbmap_canaries_def ufsbmap_CANARY_def canaries_room_def text_bytes_def)

lemma check_ufsbmap_apply:
  "room off addr 0 (length b) ufsbmap_TEXT \<Longrightarrow> canaries_room off addr (length b) ufsbmap_canaries \<Longrightarrow>
   check_ufsbmap off addr (apply_new off addr ufsbmap_TEXT b) = Inr () \<longleftrightarrow> check_ufsbmap off addr b = Inr ()"
  by (simp add: check_ufsbmap_iff check_canaries_apply ufsbmap_apart)

lemma ufsbmap_edits: "n_edits ufsbmap_TEXT = 11"
  unfolding n_edits_addr [OF ufsbmap_table.consistent] by (simp add: ufsbmap_TEXT_def)

subsection \<open>patch_pagecreate.py\<close>

definition pagecreate_TEXT :: "(string \<times> site) list" where
  "pagecreate_TEXT = [
    (''live'', 0xaee6a, [0x02, 0x80] @ R47, [0x02, 0x80] @ R95, ''as_iolock:input offset page-alignment test''),
    (''live'', 0xaeeba, [0x02, 0x46, 0xf8, 0x00], [0x02, 0x46, 0xf0, 0x00], ''as_iolock:below-EOF trim (n &= PAGEMASK)''),
    (''live'', 0xaeece, [0x02, 0x42, 0xf8, 0x00], [0x02, 0x42, 0xf0, 0x00], ''as_iolock:source VA page base''),
    (''live'', 0xaeed6, [0x02, 0x80] @ R47, [0x02, 0x80] @ R95, ''as_iolock:source-page offset''),
    (''live'', 0xaeedc, [0x26, 0x3c] @ A48, [0x26, 0x3c] @ A96, ''as_iolock:first-page copy length''),
    (''live'', 0xaef02, [0x06, 0x80] @ A48, [0x06, 0x80] @ A96, ''as_iolock:page-end test''),
    (''live'', 0xaef10, [0x06, 0x80, 0xff, 0xff, 0xf8, 0x00], [0x06, 0x80, 0xff, 0xff, 0xf0, 0x00], ''as_iolock:last-page length correction''),
    (''live'', 0xaefdc, [0x48, 0x78, 0x08, 0x00], [0x48, 0x78, 0x10, 0x00], ''as_iolock:VOP_GETPAGE plsz''),
    (''live'', 0xaefe4, [0x48, 0x78, 0x08, 0x00], [0x48, 0x78, 0x10, 0x00], ''as_iolock:VOP_GETPAGE len''),
    (''live'', 0xaf000, [0x26, 0x3c] @ A48, [0x26, 0x3c] @ A96, ''as_iolock:loop copy length''),
    (''live'', 0xaf006, [0x06, 0x82] @ A48, [0x06, 0x82] @ A96, ''as_iolock:loop source VA''),
    (''live'', 0xaf01c, [0x02, 0x80] @ R47, [0x02, 0x80] @ R95, ''as_iolock:final pagecreate decision''),
    (''live'', 0x7f9b6, [0x06, 0x80] @ R47, [0x06, 0x80] @ R95, ''rwip:roundup(off+on+n, PAGESIZE)''),
    (''live'', 0x7f9bc, [0x02, 0x40, 0xf8, 0x00], [0x02, 0x40, 0xf0, 0x00], ''rwip:roundup mask''),
    (''live'', 0x7f9d6, [0x06, 0x80] @ R47, [0x06, 0x80] @ R95, ''rwip:kzero length round (n+PAGEOFFSET)''),
    (''live'', 0x7f9e0, [0x06, 0x80] @ R47, [0x06, 0x80] @ R95, ''rwip:kzero length round (negative correction)''),
    (''live'', 0x7f9e6, [0x02, 0x40, 0xf8, 0x00], [0x02, 0x40, 0xf0, 0x00], ''rwip:kzero length mask''),
    (''live'', 0x88fba, [0x06, 0x80] @ R47, [0x06, 0x80] @ R95, ''rwvp:roundup(off+on+n, PAGESIZE)''),
    (''live'', 0x88fc0, [0x02, 0x40, 0xf8, 0x00], [0x02, 0x40, 0xf0, 0x00], ''rwvp:roundup mask''),
    (''live'', 0x88fd4, [0x06, 0x80] @ R47, [0x06, 0x80] @ R95, ''rwvp:kzero length round''),
    (''live'', 0x88fde, [0x06, 0x80] @ R47, [0x06, 0x80] @ R95, ''rwvp:kzero length round (negative correction)''),
    (''live'', 0x88fe4, [0x02, 0x40, 0xf8, 0x00], [0x02, 0x40, 0xf0, 0x00], ''rwvp:kzero length mask''),
    (''fbzero'', 0x3fa90, [0x06, 0x83] @ R47, [0x06, 0x83] @ R95, ''fbzero:roundup''),
    (''fbzero'', 0x3fa96, [0x02, 0x43, 0xf8, 0x00], [0x02, 0x43, 0xf0, 0x00], ''fbzero:roundup mask''),
    (''spec'', 0x6666c, [0x06, 0x80] @ R47, [0x06, 0x80] @ R95, ''spec_write:roundup''),
    (''spec'', 0x66672, [0x02, 0x40, 0xf8, 0x00], [0x02, 0x40, 0xf0, 0x00], ''spec_write:roundup mask''),
    (''spec'', 0x66688, [0x06, 0x80] @ R47, [0x06, 0x80] @ R95, ''spec_write:kzero length round''),
    (''spec'', 0x6668e, [0x02, 0x40, 0xf8, 0x00], [0x02, 0x40, 0xf0, 0x00], ''spec_write:kzero length mask'')]"

definition pagecreate_PRODUCER :: "canary list" where
  "pagecreate_PRODUCER = [
    (0xa9742, [0x02, 0x42, 0xf0, 0x00], ''segmap_pagecreate:align start &-4096''),
    (0xa97a0, [0x48, 0x78, 0x10, 0x00], ''segmap_pagecreate:page_get(4096)''),
    (0xa9892, [0x06, 0x82, 0x00, 0x00, 0x10, 0x00], ''segmap_pagecreate:next VA +4096''),
    (0xa9898, [0x06, 0x84, 0x00, 0x00, 0x10, 0x00], ''segmap_pagecreate:next offset +4096'')]"

definition pagecreate_groups :: "string option \<Rightarrow> string list" where
  "pagecreate_groups env = env_groups env ''live,fbzero,spec''"

definition pagecreate_sel :: "string option \<Rightarrow> site list" where
  "pagecreate_sel env = selected (pagecreate_groups env) pagecreate_TEXT"

definition check_pagecreate :: "int \<Rightarrow> int \<Rightarrow> byte list \<Rightarrow> exn + unit" where
  "check_pagecreate off addr buf = check_canaries off addr (pagecreate_PRODUCER) buf"

definition pagecreate_main :: "string option \<Rightarrow> (nat \<times> nat \<times> nat) script" where
  "pagecreate_main env b = write_counted_groups (length (selected (pagecreate_groups env) pagecreate_TEXT)) b
     (bind_e (text_of_sections b) (\<lambda>(taddr, toff).
      bind_e (check_pagecreate toff taddr b) (\<lambda>_.
      bind_e (group_sites (pagecreate_groups env) toff taddr pagecreate_TEXT (b, 0, 0, 0)) (\<lambda>(buf, done, skip, off).
      if ''live'' \<in> set (pagecreate_groups env) \<and> 0 < done \<and> done + skip \<noteq> length (selected (pagecreate_groups env) pagecreate_TEXT) then Inl (SystemExit ''ABORT: partial conversion'') else
      Inr (buf, done, skip, off)))))"

definition pagecreate_all :: "site list" where
  "pagecreate_all = map snd pagecreate_TEXT"

lemmas pagecreate_eval = pagecreate_all_def pagecreate_TEXT_def

lemma pagecreate_indexed: "list_all (indexed kernel_index) pagecreate_all"
  by (simp add: pagecreate_eval index_eval byte_consts)

lemma pagecreate_length: "length pagecreate_all = 28"
  by (simp add: pagecreate_eval)

lemma pagecreate_room: "room 192 0 192 (192 + text_bytes) pagecreate_all"
  by (simp add: pagecreate_eval text_bytes_def byte_consts)

interpretation pagecreate_table: site_table pagecreate_all
  by (rule indexed_site_table [OF kernel_index_chain pagecreate_indexed])

lemma pagecreate_sel_subset: "set (pagecreate_sel env) \<subseteq> set pagecreate_all"
  by (auto simp: pagecreate_sel_def pagecreate_all_def selected_def)

interpretation pagecreate_seltab: site_table "pagecreate_sel env"
  by unfold_locales (rule consistent_subset [OF pagecreate_table.consistent pagecreate_sel_subset])

lemma pagecreate_sel_default: "pagecreate_sel None = pagecreate_all"
  by (simp add: pagecreate_sel_def pagecreate_eval pagecreate_groups_def env_groups_def selected_def)

lemma pagecreate_apart: "\<forall>c \<in> set (pagecreate_PRODUCER). \<forall>e \<in> set pagecreate_all. canary_apart c e"
  by (simp add: pagecreate_PRODUCER_def pagecreate_eval canary_apart_def byte_consts)

lemma pagecreate_canaries_room: "canaries_room 192 0 (192 + text_bytes) (pagecreate_PRODUCER)"
  by (simp add: pagecreate_PRODUCER_def canaries_room_def text_bytes_def)

lemma pagecreate_edits: "n_edits pagecreate_all = 28"
  unfolding n_edits_addr [OF pagecreate_table.consistent] by (simp add: pagecreate_eval)

interpretation pagecreate: text_patcher "pagecreate_sel env" "pagecreate_main env" text_of_sections check_pagecreate no_check
  "\<lambda>d s. (d, s, 28 - length (pagecreate_sel env))"
proof unfold_locales
  show "pagecreate_main env b = write_back b (bind_e (text_of_sections b) (\<lambda>(addr, off). bind_e (check_pagecreate off addr b) (\<lambda>_.
      bind_e (patch_sites off addr (pagecreate_sel env) (b, 0, 0)) (\<lambda>(buf, d, s). bind_e (no_check off addr buf)
      (\<lambda>_. Inr (buf, (d, s, 28 - length (pagecreate_sel env))))))))" for b
  proof -
    have "pagecreate_main env b = write_counted_groups (length (pagecreate_sel env)) b (bind_e (text_of_sections b)
        (\<lambda>(addr, off). bind_e (check_pagecreate off addr b) (\<lambda>_. bind_e (patch_sites off addr (pagecreate_sel env) (b, 0, 0))
        (\<lambda>(buf, d, s). bind_e (no_check off addr buf) (\<lambda>_. Inr (buf, d, s, 28 - length (pagecreate_sel env)))))))"
      unfolding pagecreate_main_def group_sites_eq pagecreate_sel_def [symmetric]
      using pagecreate_length
      by (auto simp: pagecreate_all_def bind_e_assoc dest: pagecreate_seltab.run_result(3) intro!: arg_cong2 [where f = "write_counted_groups n" for n] bind_e_cong)
    then show ?thesis using pagecreate_seltab.write_counted_groups_eq [of env b "text_of_sections b" check_pagecreate no_check] by simp
  qed
qed (rule text_of_sections_frame)

subsection \<open>patch_execboundary.py\<close>

definition execboundary_TEXT :: "(string \<times> site) list" where
  "execboundary_TEXT = [
    (''exhd'', 0x56786, [0x02, 0x41, 0xf8, 0x00], [0x02, 0x41, 0xf0, 0x00], ''exhd_getfbuf:bpoff = off & PAGEMASK''),
    (''exhd'', 0x567b4, [0x06, 0x80] @ R47, [0x06, 0x80] @ R95, ''exhd_getfbuf:eoff + PAGESIZE-1''),
    (''exhd'', 0x567bc, [0x02, 0x41, 0xf8, 0x00], [0x02, 0x41, 0xf0, 0x00], ''exhd_getfbuf:epoff & PAGEMASK''),
    (''exhd'', 0x569d6, [0x02, 0x41, 0xf8, 0x00], [0x02, 0x41, 0xf0, 0x00], ''exhd_nomap:poff & PAGEMASK''),
    (''exhd'', 0x569e2, [0x06, 0x80] @ R47, [0x06, 0x80] @ R95, ''exhd_nomap:epoff + PAGESIZE-1''),
    (''exhd'', 0x569ea, [0x02, 0x41, 0xf8, 0x00], [0x02, 0x41, 0xf0, 0x00], ''exhd_nomap:epoff & PAGEMASK''),
    (''exhd'', 0x56e26, [0x02, 0x41, 0xf8, 0x00], [0x02, 0x41, 0xf0, 0x00], ''exhd_nomap:split poff & PAGEMASK''),
    (''exhd'', 0x56e42, [0x06, 0x82] @ R47, [0x06, 0x82] @ R95, ''exhd_nomap:split epoff + PAGESIZE-1''),
    (''exhd'', 0x56e48, [0x02, 0x42, 0xf8, 0x00], [0x02, 0x42, 0xf0, 0x00], ''exhd_nomap:split epoff & PAGEMASK''),
    (''exhd'', 0x56f64, [0x06, 0x82] @ R47, [0x06, 0x82] @ R95, ''exhd_nomap:tail epoff + PAGESIZE-1''),
    (''exhd'', 0x56f6a, [0x02, 0x42, 0xf8, 0x00], [0x02, 0x42, 0xf0, 0x00], ''exhd_nomap:tail epoff & PAGEMASK''),
    (''execmap'', 0x57a68, [0x02, 0x80] @ R47, [0x02, 0x80] @ R95, ''execmap:offset & PAGEOFFSET (VOP_MAP test)''),
    (''execmap'', 0x57a72, [0x02, 0x81] @ R47, [0x02, 0x81] @ R95, ''execmap:addr & PAGEOFFSET (VOP_MAP test)''),
    (''execmap'', 0x57a9a, [0x02, 0x6e, 0xf8, 0x00, 0x00, 0x0e], [0x02, 0x6e, 0xf0, 0x00, 0x00, 0x0e], ''execmap:offset &= PAGEMASK''),
    (''execmap'', 0x57ac0, [0x02, 0x6e, 0xf8, 0x00, 0x00, 0x1a], [0x02, 0x6e, 0xf0, 0x00, 0x00, 0x1a], ''execmap:2nd mapping input &= PAGEMASK''),
    (''execmap'', 0x57b24, [0x06, 0x80] @ R47, [0x06, 0x80] @ R95, ''execmap:len + PAGESIZE-1''),
    (''execmap'', 0x57b2a, [0x74, 0x0b], [0x74, 0x0c], ''execmap:len >> PAGESHIFT''),
    (''elfsz'', 0xb86fe, [0x06, 0x80] @ R47, [0x06, 0x80] @ R95, ''mapelfexec:*execsz += btoc(p_memsz) round''),
    (''elfsz'', 0xb8704, [0x7e, 0x0b], [0x7e, 0x0c], ''mapelfexec:*execsz += btoc(p_memsz) shift''),
    (''elfsz'', 0xb8440, [0x06, 0x80] @ R47, [0x06, 0x80] @ R95, ''elfexec:btopr(u+0x7d4) limit round''),
    (''elfsz'', 0xb8446, [0x78, 0x0b], [0x78, 0x0c], ''elfexec:btopr(u+0x7d4) limit shift'')]"

definition execboundary_CANARY :: "canary list" where
  "execboundary_CANARY = [
    (0x5677a, [0x02, 0x41, 0xe0, 0x00], ''exhd_getfbuf boff & MAXBMASK -- 8 KiB fbuf window''),
    (0x57c1c, [0x06, 0x80, 0x00, 0x00, 0x0f, 0xff], ''execmap BSS tail +4095 -- already converted''),
    (0x57c22, [0x74, 0x0c], ''execmap BSS tail >>12 -- already converted''),
    (0xb842c, [0x24, 0xfc, 0x00, 0x00, 0x10, 0x00], ''elfexec AT_PAGESZ = 4096''),
    (0xb8406, [0x02, 0x44, 0xe0, 0x00], ''elfexec & MAXBMASK -- 8 KiB aux-vector window'')]"

definition execboundary_groups :: "string option \<Rightarrow> string list" where
  "execboundary_groups env = env_groups env ''exhd,execmap,elfsz''"

definition execboundary_sel :: "string option \<Rightarrow> site list" where
  "execboundary_sel env = selected (execboundary_groups env) execboundary_TEXT"

text \<open>After the loop every selected group is checked to be fully converted.\<close>

fun recheck_groups ::
  "string list \<Rightarrow> int \<Rightarrow> int \<Rightarrow> byte list \<Rightarrow> string list \<Rightarrow> exn + unit" where
  "recheck_groups sel off addr buf [] = Inr ()"
| "recheck_groups sel off addr buf (g # gs) =
     (if g \<notin> set sel then recheck_groups sel off addr buf gs
      else
        let n = length (filter (\<lambda>t. fst t = g) execboundary_TEXT);
            gd = length (filter (\<lambda>(g', vaddr, old, new, name).
              g' = g \<and> slice buf (off + (vaddr - addr)) (off + (vaddr - addr) + int (length new)) = new)
              execboundary_TEXT)
        in if gd \<noteq> n then Inl (SystemExit (''ABORT: group partially converted '' @ g))
           else recheck_groups sel off addr buf gs)"

definition recheck_execboundary :: "string option \<Rightarrow> int \<Rightarrow> int \<Rightarrow> byte list \<Rightarrow> exn + unit" where
  "recheck_execboundary env off addr buf =
     recheck_groups (execboundary_groups env) off addr buf [''exhd'', ''execmap'', ''elfsz'']"

definition check_execboundary :: "int \<Rightarrow> int \<Rightarrow> byte list \<Rightarrow> exn + unit" where
  "check_execboundary off addr buf = check_canaries off addr (execboundary_CANARY) buf"

definition execboundary_main :: "string option \<Rightarrow> (nat \<times> nat \<times> nat) script" where
  "execboundary_main env b = write_counted_groups (length (selected (execboundary_groups env) execboundary_TEXT)) b
     (bind_e (text_of_sections b) (\<lambda>(taddr, toff).
      bind_e (check_execboundary toff taddr b) (\<lambda>_.
      bind_e (group_sites (execboundary_groups env) toff taddr execboundary_TEXT (b, 0, 0, 0)) (\<lambda>(buf, done, skip, off).
      bind_e (recheck_execboundary env toff taddr buf) (\<lambda>_.
      Inr (buf, done, skip, off))))))"

definition execboundary_all :: "site list" where
  "execboundary_all = map snd execboundary_TEXT"

lemmas execboundary_eval = execboundary_all_def execboundary_TEXT_def

lemma execboundary_indexed: "list_all (indexed kernel_index) execboundary_all"
  by (simp add: execboundary_eval index_eval byte_consts)

lemma execboundary_length: "length execboundary_all = 21"
  by (simp add: execboundary_eval)

lemma execboundary_room: "room 192 0 192 (192 + text_bytes) execboundary_all"
  by (simp add: execboundary_eval text_bytes_def byte_consts)

interpretation execboundary_table: site_table execboundary_all
  by (rule indexed_site_table [OF kernel_index_chain execboundary_indexed])

lemma execboundary_sel_subset: "set (execboundary_sel env) \<subseteq> set execboundary_all"
  by (auto simp: execboundary_sel_def execboundary_all_def selected_def)

interpretation execboundary_seltab: site_table "execboundary_sel env"
  by unfold_locales (rule consistent_subset [OF execboundary_table.consistent execboundary_sel_subset])

lemma execboundary_sel_default: "execboundary_sel None = execboundary_all"
  by (simp add: execboundary_sel_def execboundary_eval execboundary_groups_def env_groups_def selected_def)

lemma execboundary_apart: "\<forall>c \<in> set (execboundary_CANARY). \<forall>e \<in> set execboundary_all. canary_apart c e"
  by (simp add: execboundary_CANARY_def execboundary_eval canary_apart_def byte_consts)

lemma execboundary_canaries_room: "canaries_room 192 0 (192 + text_bytes) (execboundary_CANARY)"
  by (simp add: execboundary_CANARY_def canaries_room_def text_bytes_def)

lemma execboundary_edits: "n_edits execboundary_all = 21"
  unfolding n_edits_addr [OF execboundary_table.consistent] by (simp add: execboundary_eval)

interpretation execboundary: text_patcher "execboundary_sel env" "execboundary_main env" text_of_sections check_execboundary "recheck_execboundary env"
  "\<lambda>d s. (d, s, 21 - length (execboundary_sel env))"
proof unfold_locales
  show "execboundary_main env b = write_back b (bind_e (text_of_sections b) (\<lambda>(addr, off). bind_e (check_execboundary off addr b) (\<lambda>_.
      bind_e (patch_sites off addr (execboundary_sel env) (b, 0, 0)) (\<lambda>(buf, d, s). bind_e (recheck_execboundary env off addr buf)
      (\<lambda>_. Inr (buf, (d, s, 21 - length (execboundary_sel env))))))))" for b
  proof -
    have "execboundary_main env b = write_counted_groups (length (execboundary_sel env)) b (bind_e (text_of_sections b)
        (\<lambda>(addr, off). bind_e (check_execboundary off addr b) (\<lambda>_. bind_e (patch_sites off addr (execboundary_sel env) (b, 0, 0))
        (\<lambda>(buf, d, s). bind_e (recheck_execboundary env off addr buf) (\<lambda>_. Inr (buf, d, s, 21 - length (execboundary_sel env)))))))"
      unfolding execboundary_main_def group_sites_eq execboundary_sel_def [symmetric]
      using execboundary_length
      by (auto simp: execboundary_all_def bind_e_assoc dest: execboundary_seltab.run_result(3) intro!: arg_cong2 [where f = "write_counted_groups n" for n] bind_e_cong)
    then show ?thesis using execboundary_seltab.write_counted_groups_eq [of env b "text_of_sections b" check_execboundary "recheck_execboundary env"] by simp
  qed
qed (rule text_of_sections_frame)

subsection \<open>patch_devmmap2.py\<close>

definition devmmap2_TEXT :: "(string \<times> site) list" where
  "devmmap2_TEXT = [
    (''pfn'', 0x20688, [0x06, 0x80, 0x00, 0x00, 0x07, 0xff], [0x06, 0x80, 0x00, 0x00, 0x00, 0x00], ''mmmmap:btop round-up REMOVED (ISSUE-46) -- /dev/mem PFN truncates''),
    (''pfn'', 0x2068e, [0x72, 0x0b], [0x72, 0x0c], ''mmmmap:btop shift -- /dev/mem PFN''),
    (''pfn'', 0xd7186, [0x72, 0x0b], [0x72, 0x0c], ''resmmap:btop(boards[minor]+off) shift''),
    (''incore'', 0xa838a, [0x06, 0x80, 0x00, 0x00, 0x07, 0xff], [0x06, 0x80, 0x00, 0x00, 0x0f, 0xff], ''segdev_incore:roundup(len, PAGESIZE)''),
    (''incore'', 0xa8390, [0x02, 0x40, 0xf8, 0x00], [0x02, 0x40, 0xf0, 0x00], ''segdev_incore:roundup mask''),
    (''incore'', 0xa839e, [0x06, 0x80, 0xff, 0xff, 0xf8, 0x00], [0x06, 0x80, 0xff, 0xff, 0xf0, 0x00], ''segdev_incore:len -= PAGESIZE per vector byte''),
    (''incore'', 0xa83a4, [0x06, 0x81, 0x00, 0x00, 0x08, 0x00], [0x06, 0x81, 0x00, 0x00, 0x10, 0x00], ''segdev_incore:covered += PAGESIZE per vector byte'')]"

definition devmmap2_CANARY_NEW :: "canary list" where
  "devmmap2_CANARY_NEW = [
    (0x8384, [0x78, 0x0c, 0xe8, 0xa8], ''scrmmap PFN shift (patch_devmmap_pfn.py)''),
    (0xe0d2, [0x72, 0x0c, 0xe2, 0xa8], ''ammmap PFN shift (patch_devmmap_pfn.py)''),
    (0x13cac, [0x74, 0x0c, 0xe4, 0xa8], ''timmap PFN shift (patch_devmmap_pfn.py)''),
    (0x58678, [0x72, 0x0c], ''public mincore page shift (patch_mincore.py)'')]"

definition devmmap2_CANARY_OLD :: "canary list" where
  "devmmap2_CANARY_OLD = [
    (0xa7fe4, [0x7e, 0x0b], ''segdev_fault seg_page() -- family kept at 2 KiB on purpose''),
    (0xa82a6, [0x76, 0x0b], ''segdev_getprot seg_page() -- family kept at 2 KiB on purpose'')]"

definition devmmap2_groups :: "string option \<Rightarrow> string list" where
  "devmmap2_groups env = env_groups env ''pfn,incore''"

definition devmmap2_sel :: "string option \<Rightarrow> site list" where
  "devmmap2_sel env = selected (devmmap2_groups env) devmmap2_TEXT"

definition check_devmmap2 :: "int \<Rightarrow> int \<Rightarrow> byte list \<Rightarrow> exn + unit" where
  "check_devmmap2 off addr buf = check_canaries off addr (devmmap2_CANARY_NEW @ devmmap2_CANARY_OLD) buf"

definition devmmap2_main :: "string option \<Rightarrow> (nat \<times> nat \<times> nat) script" where
  "devmmap2_main env b = write_counted_groups (length (selected (devmmap2_groups env) devmmap2_TEXT)) b
     (bind_e (text_of_sections b) (\<lambda>(taddr, toff).
      bind_e (check_devmmap2 toff taddr b) (\<lambda>_.
      bind_e (group_sites (devmmap2_groups env) toff taddr devmmap2_TEXT (b, 0, 0, 0)) (\<lambda>(buf, done, skip, off).
      Inr (buf, done, skip, off)))))"

definition devmmap2_all :: "site list" where
  "devmmap2_all = map snd devmmap2_TEXT"

lemmas devmmap2_eval = devmmap2_all_def devmmap2_TEXT_def

lemma devmmap2_indexed: "list_all (indexed kernel_index) devmmap2_all"
  by (simp add: devmmap2_eval index_eval byte_consts)

lemma devmmap2_length: "length devmmap2_all = 7"
  by (simp add: devmmap2_eval)

lemma devmmap2_room: "room 192 0 192 (192 + text_bytes) devmmap2_all"
  by (simp add: devmmap2_eval text_bytes_def byte_consts)

interpretation devmmap2_table: site_table devmmap2_all
  by (rule indexed_site_table [OF kernel_index_chain devmmap2_indexed])

lemma devmmap2_sel_subset: "set (devmmap2_sel env) \<subseteq> set devmmap2_all"
  by (auto simp: devmmap2_sel_def devmmap2_all_def selected_def)

interpretation devmmap2_seltab: site_table "devmmap2_sel env"
  by unfold_locales (rule consistent_subset [OF devmmap2_table.consistent devmmap2_sel_subset])

lemma devmmap2_sel_default: "devmmap2_sel None = devmmap2_all"
  by (simp add: devmmap2_sel_def devmmap2_eval devmmap2_groups_def env_groups_def selected_def)

lemma devmmap2_apart: "\<forall>c \<in> set (devmmap2_CANARY_NEW @ devmmap2_CANARY_OLD). \<forall>e \<in> set devmmap2_all. canary_apart c e"
  by (simp add: devmmap2_CANARY_NEW_def devmmap2_CANARY_OLD_def devmmap2_eval canary_apart_def byte_consts)

lemma devmmap2_canaries_room: "canaries_room 192 0 (192 + text_bytes) (devmmap2_CANARY_NEW @ devmmap2_CANARY_OLD)"
  by (simp add: devmmap2_CANARY_NEW_def devmmap2_CANARY_OLD_def canaries_room_def text_bytes_def)

lemma devmmap2_edits: "n_edits devmmap2_all = 7"
  unfolding n_edits_addr [OF devmmap2_table.consistent] by (simp add: devmmap2_eval)

interpretation devmmap2: text_patcher "devmmap2_sel env" "devmmap2_main env" text_of_sections check_devmmap2 no_check
  "\<lambda>d s. (d, s, 7 - length (devmmap2_sel env))"
proof unfold_locales
  show "devmmap2_main env b = write_back b (bind_e (text_of_sections b) (\<lambda>(addr, off). bind_e (check_devmmap2 off addr b) (\<lambda>_.
      bind_e (patch_sites off addr (devmmap2_sel env) (b, 0, 0)) (\<lambda>(buf, d, s). bind_e (no_check off addr buf)
      (\<lambda>_. Inr (buf, (d, s, 7 - length (devmmap2_sel env))))))))" for b
  proof -
    have "devmmap2_main env b = write_counted_groups (length (devmmap2_sel env)) b (bind_e (text_of_sections b)
        (\<lambda>(addr, off). bind_e (check_devmmap2 off addr b) (\<lambda>_. bind_e (patch_sites off addr (devmmap2_sel env) (b, 0, 0))
        (\<lambda>(buf, d, s). bind_e (no_check off addr buf) (\<lambda>_. Inr (buf, d, s, 7 - length (devmmap2_sel env)))))))"
      unfolding devmmap2_main_def group_sites_eq devmmap2_sel_def [symmetric]
      using devmmap2_length
      by (auto simp: devmmap2_all_def bind_e_assoc dest: devmmap2_seltab.run_result(3) intro!: arg_cong2 [where f = "write_counted_groups n" for n] bind_e_cong)
    then show ?thesis using devmmap2_seltab.write_counted_groups_eq [of env b "text_of_sections b" check_devmmap2 no_check] by simp
  qed
qed (rule text_of_sections_frame)

text \<open>
  On an image whose sites lie inside the file, the check after the loop of \<open>patch_execboundary.py\<close>
  always passes: the loop has converted every selected site.
\<close>

lemma recheck_groups_ok:
  assumes "\<And>g v old new name. (g, v, old, new, name) \<in> set execboundary_TEXT \<Longrightarrow> g \<in> set sel \<Longrightarrow>
     slice buf (off + (v - addr)) (off + (v - addr) + int (length new)) = new"
  shows "recheck_groups sel off addr buf gs = Inr ()"
proof (induction gs)
  case (Cons g gs)
  have "filter (\<lambda>(g', vaddr, old, new, name).
      g' = g \<and> slice buf (off + (vaddr - addr)) (off + (vaddr - addr) + int (length new)) = new) execboundary_TEXT
    = filter (\<lambda>t. fst t = g) execboundary_TEXT" if "g \<in> set sel"
    using assms that by (intro filter_cong) auto
  then show ?case using Cons by (simp add: Let_def)
qed simp

lemma recheck_execboundary_ok:
  assumes "all_new off addr (execboundary_sel env) buf" "room off addr 0 (length buf) (execboundary_sel env)"
  shows "recheck_execboundary env off addr buf = Inr ()"
  unfolding recheck_execboundary_def
proof (rule recheck_groups_ok)
  fix g v old new name
  assume "(g, v, old, new, name) \<in> set execboundary_TEXT" "g \<in> set (execboundary_groups env)"
  then have e: "(v, old, new, name) \<in> set (execboundary_sel env)"
    by (force simp: execboundary_sel_def selected_def)
  then have "site_read off addr buf (v, old, new, name) = new" using assms(1) by (auto simp: all_new_def)
  moreover have "0 \<le> off + (v - addr)" "off + (v - addr) + int (length new) \<le> int (length buf)"
    using assms(2) e by (auto simp: room_def)
  ultimately show "slice buf (off + (v - addr)) (off + (v - addr) + int (length new)) = new"
    by (simp add: slice_eq_sub site_read_def)
qed

end
