(* ===== verification/Execstk.thy ===== *)
theory Execstk
  imports Text_Patcher Kernel_Index
begin

text \<open>
  \<open>src/src/patch_execstk.py\<close>: two \<open>.text\<close> sites, then the initial value of \<open>exec_initialstk\<close>, which
  is found through the symbol table and lies in whatever section the symbol names.
\<close>

subsection \<open>The symbol lookup\<close>

fun find_sym_rows ::
  "byte list \<Rightarrow> int \<Rightarrow> int \<Rightarrow> string \<Rightarrow> int list \<Rightarrow> exn + (int \<times> int) option" where
  "find_sym_rows b soff stro name [] = Inr None"
| "find_sym_rows b soff stro name (j # js) =
     (let so = soff + j * 16 in
      bind_e (u32 b so) (\<lambda>nm.
      bind_e (index_nul b (stro + nm)) (\<lambda>e.
      bind_e (decode_utf8 (slice b (stro + nm) e)) (\<lambda>s.
      if s = name
      then bind_e (u16 b (so + 14)) (\<lambda>shndx. bind_e (u32 b (so + 4)) (\<lambda>val. Inr (Some (shndx, val))))
      else find_sym_rows b soff stro name js))))"

fun find_sym_loop :: "byte list \<Rightarrow> int \<Rightarrow> int \<Rightarrow> string \<Rightarrow> int list \<Rightarrow> exn + int \<times> int" where
  "find_sym_loop b sh ent name [] = Inl (SystemExit ''symbol not found'')"
| "find_sym_loop b sh ent name (i # is) =
     (let o' = sh + i * ent in
      bind_e (u32 b (o' + 4)) (\<lambda>ty.
      if ty = 2 then
        bind_e (u32 b (o' + 16)) (\<lambda>soff. bind_e (u32 b (o' + 20)) (\<lambda>ssize.
        bind_e (u32 b (o' + 24)) (\<lambda>slink. bind_e (u32 b (sh + slink * ent + 16)) (\<lambda>stro.
        bind_e (find_sym_rows b soff stro name (py_range (ssize div 16))) (\<lambda>r.
        case r of Some x \<Rightarrow> Inr x | None \<Rightarrow> find_sym_loop b sh ent name is)))))
      else find_sym_loop b sh ent name is))"

text \<open>\<open>(section_index, st_value)\<close> of the first symbol of that name.\<close>

definition find_sym :: "byte list \<Rightarrow> string \<Rightarrow> exn + int \<times> int" where
  "find_sym b name =
     bind_e (u32 b 32) (\<lambda>sh. bind_e (u16 b 46) (\<lambda>ent. bind_e (u16 b 48) (\<lambda>n.
     find_sym_loop b sh ent name (py_range n))))"

fun section_of_index :: "section_map \<Rightarrow> int \<Rightarrow> exn + string \<times> int" where
  "section_of_index [] shndx = Inl (SystemExit ''exec_initialstk section index not found'')"
| "section_of_index ((nm, i, a, o') # secs) shndx =
     (if i = shndx then Inr (nm, o') else section_of_index secs shndx)"

lemma section_of_index_Inr:
  "section_of_index secs shndx = Inr (nm, o') \<Longrightarrow> \<exists>a. (nm, shndx, a, o') \<in> set secs"
  by (induction secs shndx rule: section_of_index.induct) (auto split: if_splits)

subsection \<open>The script\<close>

definition execstk_TEXT :: "site list" where
  "execstk_TEXT = [
    (0x587d0, [0x06, 0x80, 0x00, 0x00, 0x07, 0xff], [0x06, 0x80, 0x00, 0x00, 0x0f, 0xff], ''extractarg:addil #2047 d0 (btoc round-up of bsize)''),
    (0x587d8, [0x72, 0x0b], [0x72, 0x0c], ''extractarg:moveq #11 d1 (shared shift: btoc/ctob/64-page-group)'')]"

definition execstk_old :: "byte list" where "execstk_old = [0x00, 0x00, 0x08, 0x00]"
definition execstk_new :: "byte list" where "execstk_new = [0x00, 0x00, 0x10, 0x00]"

text \<open>The body of this script and of \<open>patch_swapin.py\<close>: a table of sites, then the word of a symbol.\<close>

definition sites_and_word :: "site list \<Rightarrow> string \<Rightarrow> string \<Rightarrow> (nat \<times> nat) script" where
  "sites_and_word tbl sy wname b = write_back b
     (bind_e (sections b) (\<lambda>secs.
      bind_e (dict_get ''.text'' secs) (\<lambda>(tidx, taddr, toff).
      bind_e (patch_sites toff taddr tbl (b, 0, 0)) (\<lambda>(buf, done, skip).
      bind_e (find_sym buf sy) (\<lambda>(shndx, val).
      bind_e (section_of_index secs shndx) (\<lambda>(dsec, doff).
      bind_e (patch_site (doff + val) execstk_old execstk_new wname buf) (\<lambda>(buf', wrote).
      Inr (buf', (if wrote then Suc done else done, if wrote then skip else Suc skip)))))))))"

definition execstk_main :: "(nat \<times> nat) script" where
  "execstk_main b = sites_and_word execstk_TEXT ''exec_initialstk''
     ''exec_initialstk DATA initializer 0x800 -> 0x1000'' b"

subsection \<open>patch_swapin.py\<close>

definition swapin_TEXT :: "site list" where
  "swapin_TEXT = [
    (0x6711a, [0x06, 0x81, 0x00, 0x00, 0x07, 0xff], [0x06, 0x81, 0x00, 0x00, 0x0f, 0xff], ''spec_getpage:addil #2047 d1 (EOF allowance s_size+PAGEOFFSET)''),
    (0x67186, [0x0c, 0x82, 0x00, 0x00, 0x08, 0x00], [0x0c, 0x82, 0x00, 0x00, 0x10, 0x00], ''spec_getpage:cmpil #2048 d2 (len<=PAGESIZE direct-provider gate)''),
    (0xad9a6, [0x48, 0x78, 0x08, 0x00], [0x48, 0x78, 0x10, 0x00], ''anon_getpage:pea 2048 (VOP_GETPAGE len = one full page)''),
    (0xb1a28, [0x06, 0x82, 0x00, 0x00, 0x08, 0x00], [0x06, 0x82, 0x00, 0x00, 0x10, 0x00], ''pvn_fail:addil #2048 d2 (failed-I/O bytes per page-list node)'')]"

definition swapin_main :: "(nat \<times> nat) script" where
  "swapin_main b = sites_and_word swapin_TEXT ''klustsize'' ''klustsize DATA initializer 0x800 -> 0x1000'' b"

lemma swapin_indexed: "list_all (indexed kernel_index) swapin_TEXT"
  by (simp add: swapin_TEXT_def index_eval byte_consts)

lemma swapin_length: "length swapin_TEXT = 4"
  by (simp add: swapin_TEXT_def)

interpretation swapin_table: site_table swapin_TEXT
  by (rule indexed_site_table [OF kernel_index_chain swapin_indexed])

subsection \<open>What a run leaves\<close>

lemma execstk_indexed: "list_all (indexed kernel_index) execstk_TEXT"
  by (simp add: execstk_TEXT_def index_eval byte_consts)

lemma execstk_length: "length execstk_TEXT = 2"
  by (simp add: execstk_TEXT_def)

lemma execstk_room: "room 192 0 192 (192 + text_bytes) execstk_TEXT"
  by (simp add: execstk_TEXT_def text_bytes_def byte_consts)

interpretation execstk_table: site_table execstk_TEXT
  by (rule indexed_site_table [OF kernel_index_chain execstk_indexed])

text \<open>
  A run that ends well has converted the sites of the table, then the four bytes of the symbol, and has
  counted every place; a run that fails leaves the file alone.
\<close>

lemma sites_and_word_result:
  assumes "sites_and_word tbl sy wname b = (b', Inr (d, s))" and tbl: "site_table tbl"
  obtains secs taddr toff tidx shndx val dsec a doff where
    "sections b = Inr secs" "dict_get ''.text'' secs = Inr (tidx, taddr, toff)"
    "find_sym (apply_new toff taddr tbl b) sy = Inr (shndx, val)"
    "(dsec, shndx, a, doff) \<in> set secs"
    "b' = overwrite (clip (length b) (doff + val)) execstk_new (apply_new toff taddr tbl b)"
    "d + s = Suc (length tbl)" "length b' = length b"
proof -
  obtain secs tidx taddr toff buf d1 s1 shndx val dsec doff wrote where r:
    "sections b = Inr secs" "dict_get ''.text'' secs = Inr (tidx, taddr, toff)"
    "patch_sites toff taddr tbl (b, 0, 0) = Inr (buf, d1, s1)"
    "find_sym buf sy = Inr (shndx, val)"
    "section_of_index secs shndx = Inr (dsec, doff)"
    "patch_site (doff + val) execstk_old execstk_new wname buf = Inr (b', wrote)"
    "d = (if wrote then Suc d1 else d1)" "s = (if wrote then s1 else Suc s1)"
    using assms(1) by (auto simp: sites_and_word_def write_back_def split: sum.splits prod.splits)
  note t = site_table.run_result [OF tbl r(3)]
  have l: "length execstk_old = length execstk_new" "execstk_old \<noteq> []"
    by (simp_all add: execstk_old_def execstk_new_def)
  note p = patch_site_Inr [OF r(6) l]
  obtain a where "(dsec, shndx, a, doff) \<in> set secs" using section_of_index_Inr [OF r(5)] by blast
  moreover have "d + s = Suc (length tbl)" using t(3) r(7,8) by (auto split: if_splits)
  moreover have "length b' = length b" using p t(2) by simp
  moreover have "b' = overwrite (clip (length b) (doff + val)) execstk_new (apply_new toff taddr tbl b)"
    using p(2) t(1,2) by simp
  ultimately show thesis using that r(1,2,4) t(1) by simp
qed

lemma sites_and_word_fail: "sites_and_word tbl sy wname b = (b', Inl e) \<Longrightarrow> b' = b"
  by (auto simp: sites_and_word_def write_back_def split: sum.splits)

text \<open>The outcome of such a script: the file alone, or the sites and the word, all counted.\<close>

definition word_run :: "site list \<Rightarrow> string \<Rightarrow> byte list \<Rightarrow> byte list \<times> (exn + nat \<times> nat) \<Rightarrow> bool" where
  "word_run tbl sy b r \<longleftrightarrow> (case r of
     (b', Inl e) \<Rightarrow> b' = b
   | (b', Inr (d, s)) \<Rightarrow> d + s = Suc (length tbl) \<and> length b' = length b \<and>
       (\<exists>secs taddr toff tidx shndx val dsec a doff. sections b = Inr secs
          \<and> dict_get ''.text'' secs = Inr (tidx, taddr, toff)
          \<and> find_sym (apply_new toff taddr tbl b) sy = Inr (shndx, val) \<and> (dsec, shndx, a, doff) \<in> set secs
          \<and> b' = overwrite (clip (length b) (doff + val)) execstk_new (apply_new toff taddr tbl b)))"

lemma sites_and_word_run:
  assumes "site_table tbl" shows "word_run tbl sy b (sites_and_word tbl sy wname b)"
proof (cases "sites_and_word tbl sy wname b")
  case (Pair b' r)
  show ?thesis
  proof (cases r)
    case (Inl e)
    then show ?thesis using Pair sites_and_word_fail [of tbl sy wname b b' e] by (simp add: word_run_def)
  next
    case (Inr ds)
    obtain d s where ds: "ds = (d, s)" by (cases ds)
    have "sites_and_word tbl sy wname b = (b', Inr (d, s))" using Pair Inr ds by simp
    from sites_and_word_result [OF this assms] show ?thesis
      by (simp add: Pair Inr ds word_run_def) metis
  qed
qed

end
