(* ===== verification/Pipeline.thy ===== *)
theory Pipeline
  imports Modelb_Sites Pager_Sites Mmu_Sites Group_Sites Vm_Sites Execstk
begin

text \<open>
  The patchers in the order \<open>src/relink-040.sh\<close> runs them.  The script stops at the first step
  that fails (\<open>set -e\<close>).  Every step finds \<open>.text\<close> anew and edits the image the steps before it
  left, and the canaries of some steps demand that others have run.
\<close>

subsection \<open>The steps\<close>

definition relink_steps :: "step list" where
  "relink_steps =
     [step_of pflusha_main, step_of pmmu_main, step_of modelb_main, step_of (pager_main None),
      step_of (writeback_main None), step_of swapgeom_main, step_of pageoutdefs_main,
      step_of mincore_main, step_of devmmap_main, step_of segkmem_main, step_of kmapools_main,
      step_of procio_main, step_of memcntl_main,
      step_of (pagecreate_main None), step_of pvntrunc_main, step_of ufsbmap_main,
      step_of (execboundary_main None), step_of (devmmap2_main None)]"

definition relink_sites :: "site list" where
  "relink_sites = pflusha_table @ pmmu_PATCHES @ modelb_P @ pager_P @ writeback_P @ swapgeom_TEXT
     @ pageoutdefs_TEXT @ mincore_TEXT @ devmmap_SITES @ segkmem_TEXT @ kmapools_TEXT @ procio_TEXT @ memcntl_TEXT @ pagecreate_all
     @ pvntrunc_TEXT @ ufsbmap_TEXT @ execboundary_all @ devmmap2_all"

text \<open>The canaries that no patcher of the sequence touches.\<close>

definition stock_canaries :: "canary list" where
  "stock_canaries = filter (\<lambda>(v, want, what). gap kernel_index v (v + int (length want)))
     (segkmem_CANARY @ memcntl_CANARY @ pvntrunc_CANARY @ ufsbmap_CANARY @ execboundary_CANARY
      @ devmmap2_CANARY_OLD)"

subsection \<open>The whole table\<close>

lemmas relink_indexed = pflusha_indexed pmmu_indexed modelb_indexed pager_indexed writeback_indexed
  swapgeom_indexed pageoutdefs_indexed mincore_indexed devmmap_indexed segkmem_indexed kmapools_indexed
  procio_indexed memcntl_indexed
  pagecreate_indexed pvntrunc_indexed ufsbmap_indexed execboundary_indexed devmmap2_indexed

lemma relink_sites_indexed: "list_all (indexed kernel_index) relink_sites"
  by (simp only: relink_sites_def list_all_append relink_indexed simp_thms)

lemma relink_consistent: "consistent relink_sites"
  using indexed_consistent [OF kernel_index_chain] relink_sites_indexed by (simp add: list_all_iff)

lemma relink_room: "room 192 0 192 (192 + text_bytes) relink_sites"
  by (simp only: relink_sites_def room_append pflusha_room pmmu_room modelb_room pager_room
      writeback_room swapgeom_room pageoutdefs_room mincore_room devmmap_room segkmem_room kmapools_room
      procio_room memcntl_room
      pagecreate_room pvntrunc_room ufsbmap_room execboundary_room devmmap2_room simp_thms)

lemma gap_apart:
  assumes "gap kernel_index v (v + int (length want))" "e \<in> set relink_sites"
  shows "canary_apart (v, want, what) e"
proof -
  have "indexed kernel_index e" using relink_sites_indexed assms(2) by (simp add: list_all_iff)
  then have "edit_of e \<in> set (walk kernel_index)" by (rule indexed_walk)
  then show ?thesis using gap_walk [OF kernel_index_chain assms(1)]
    by (cases e) (auto simp: canary_apart_def)
qed

lemma stock_apart: "\<forall>c \<in> set stock_canaries. \<forall>e \<in> set relink_sites. canary_apart c e"
  using gap_apart unfolding stock_canaries_def by auto

subsection \<open>Canaries in the course of the sequence\<close>

text \<open>A canary holds once its bytes have been written, or if nothing written so far touches it.\<close>

definition canary_from :: "site list \<Rightarrow> canary \<Rightarrow> bool" where
  "canary_from ps c \<longleftrightarrow> (case c of (v, want, what) \<Rightarrow>
     \<exists>e \<in> set ps. fst e = v \<and> take (length want) (new_of e) = want)"

lemma canary_from_append [simp]: "canary_from (ps @ qs) c \<longleftrightarrow> canary_from ps c \<or> canary_from qs c"
  unfolding canary_from_def by (cases c) auto

lemma check_canaries_single: "check_canaries off addr cs b = Inr () \<longleftrightarrow>
    (\<forall>c \<in> set cs. check_canaries off addr [c] b = Inr ())"
  by (auto simp: check_canaries_ok_iff)

lemma canary_from_holds:
  assumes "consistent ps" "room off addr 0 (length b) ps" "canary_from ps c"
  shows "check_canaries off addr [c] (apply_new off addr ps b) = Inr ()"
proof -
  obtain v want what where c: "c = (v, want, what)" by (cases c)
  obtain old new name where e: "(v, old, new, name) \<in> set ps" "take (length want) new = want"
    using assms(3) by (fastforce simp: canary_from_def c)
  let ?b = "apply_new off addr ps b" and ?fo = "off + (v - addr)"
  have "site_read off addr ?b (v, old, new, name) = new"
    using all_new_apply_new [OF assms(1,2)] e(1) by (auto simp: all_new_def)
  then have "sub (nat ?fo) (length new) ?b = new" by (simp add: site_read_def)
  then have "take (length want) (sub (nat ?fo) (length new) ?b) = want" using e(2) by simp
  moreover have le: "length want \<le> length new" using e(2) by (metis length_take min.cobounded2 min.commute)
  ultimately have "sub (nat ?fo) (length want) ?b = want" by (simp add: sub_def min_absorb1)
  moreover have r: "0 \<le> ?fo" "?fo + int (length new) \<le> int (length b)"
    using assms(2) e(1) by (auto simp: room_def)
  moreover have "length ?b = length b" using assms(2) by simp
  ultimately show ?thesis using le by (simp add: c Let_def slice_eq_sub)
qed

lemma canaries_after:
  assumes "consistent ps" "room off addr 0 (length b) ps"
    and "check_canaries off addr st b = Inr ()" "\<forall>c \<in> set st. \<forall>e \<in> set ps. canary_apart c e"
      "canaries_room off addr (length b) st"
    and cs: "\<forall>c \<in> set cs. c \<in> set st \<or> canary_from ps c"
  shows "check_canaries off addr cs (apply_new off addr ps b) = Inr ()"
  unfolding check_canaries_single [of off addr cs]
proof
  fix c assume "c \<in> set cs"
  then consider "c \<in> set st" | "canary_from ps c" using cs by blast
  then show "check_canaries off addr [c] (apply_new off addr ps b) = Inr ()"
  proof cases
    case 1
    have "check_canaries off addr st (apply_new off addr ps b) = Inr ()"
      using check_canaries_apply [OF assms(2,4,5)] assms(3) by simp
    then show ?thesis using 1 check_canaries_single by blast
  next
    case 2
    then show ?thesis by (rule canary_from_holds [OF assms(1,2)])
  qed
qed


subsection \<open>The run\<close>

text \<open>
  \<open>ready\<close> is what a step needs of the image, \<open>rest\<close> being the sites still to come: \<open>.text\<close> is
  where the headers say, the headers are not in it, and every site of the rest holds its old or its
  new bytes.
\<close>

definition ready :: "int \<Rightarrow> int \<Rightarrow> nat \<Rightarrow> nat \<Rightarrow> site list \<Rightarrow> byte list \<Rightarrow> bool" where
  "ready off addr lo hi rest b \<longleftrightarrow> hdr_clear b lo hi \<and> hi \<le> length b \<and> text_sec b = Inr (addr, off)
     \<and> text_of_sections b = Inr (addr, off) \<and> room off addr lo hi rest \<and> all_known off addr rest b"

lemma all_known_append [simp]:
  "all_known off addr (ps @ qs) b \<longleftrightarrow> all_known off addr ps b \<and> all_known off addr qs b"
  by (auto simp: all_known_def)

lemma ready_step:
  assumes c: "consistent (ps @ qs)" and r: "ready off addr lo hi (ps @ qs) b"
  shows "ready off addr lo hi qs (apply_new off addr ps b)"
proof -
  let ?b = "apply_new off addr ps b"
  have room: "room off addr lo hi (ps @ qs)" "hi \<le> length b" "hdr_clear b lo hi"
    using r by (auto simp: ready_def)
  then have room0: "room off addr 0 (length b) (ps @ qs)" by (auto intro: room_mono)
  have a: "agree lo hi b ?b" using room by (intro agree_apply_new) auto
  then have "hdr_clear ?b lo hi" "text_sec ?b = text_sec b" "text_of_sections ?b = text_of_sections b"
    using room(3) by (auto intro: hdr_clear_frame text_sec_frame text_of_sections_frame)
  moreover have "all_known off addr qs ?b"
    using all_known_apply_new [OF c room0] r by (simp add: ready_def)
  moreover have "length ?b = length b" using a by (rule agree_length)
  ultimately show ?thesis using r room by (auto simp: ready_def)
qed

lemma ready_room: "ready off addr lo hi ps b \<Longrightarrow> room off addr 0 (length b) ps"
  by (auto simp: ready_def intro: room_mono)

lemma ready_text_section: "ready off addr lo hi ps b \<Longrightarrow> text_section b = Inr (addr, off)"
  by (simp add: ready_def text_section_ok)

lemma ready_devmmap: "ready off addr lo hi ps b \<Longrightarrow> devmmap_locate b = Inr (addr, off)"
  by (simp add: ready_def devmmap_locate_eq)

lemma ready_sections: "ready off addr lo hi ps b \<Longrightarrow> text_of_sections b = Inr (addr, off)"
  "ready off addr lo hi ps b \<Longrightarrow> text_sec b = Inr (addr, off)"
  by (simp_all add: ready_def)

lemma ready_prefix: "ready off addr lo hi (ps @ qs) b \<Longrightarrow> room off addr 0 (length b) ps"
  "ready off addr lo hi (ps @ qs) b \<Longrightarrow> all_known off addr ps b"
  by (auto simp: ready_def intro: room_mono)

text \<open>
  \<open>runs m ps\<close>: on an image the step accepts, it writes exactly the table \<open>ps\<close>.  The image a step
  meets is the start image with the tables of the steps before it applied.
\<close>

definition runs :: "int \<Rightarrow> int \<Rightarrow> nat \<Rightarrow> nat \<Rightarrow> byte list \<Rightarrow> site list \<Rightarrow> step \<Rightarrow> site list \<Rightarrow> bool" where
  "runs off addr lo hi b before m ps \<longleftrightarrow>
     (ready off addr lo hi ps (apply_new off addr before b) \<longrightarrow>
      m (apply_new off addr before b) = (apply_new off addr ps (apply_new off addr before b), Inr ()))"

fun all_run :: "int \<Rightarrow> int \<Rightarrow> nat \<Rightarrow> nat \<Rightarrow> byte list \<Rightarrow> site list \<Rightarrow> (step \<times> site list) list \<Rightarrow> bool" where
  "all_run off addr lo hi b before [] = True"
| "all_run off addr lo hi b before ((m, ps) # ms) =
     (runs off addr lo hi b before m ps \<and> all_run off addr lo hi b (before @ ps) ms)"

lemma run_steps_chain:
  assumes "consistent (before @ concat (map snd ms))" "ready off addr lo hi (concat (map snd ms)) (apply_new off addr before b)"
    and "all_run off addr lo hi b before ms"
  shows "run_steps (map fst ms) (apply_new off addr before b) =
    (apply_new off addr (before @ concat (map snd ms)) b, Inr ())"
  using assms
proof (induction ms arbitrary: before)
  case (Cons x ms)
  obtain m ps where x: "x = (m, ps)" by (cases x)
  let ?b1 = "apply_new off addr before b" and ?rest = "concat (map snd ms)"
  have r: "ready off addr lo hi (ps @ ?rest) ?b1" using Cons.prems(2) by (simp add: x)
  then have "ready off addr lo hi ps ?b1" by (auto simp: ready_def)
  then have m: "m ?b1 = (apply_new off addr (before @ ps) b, Inr ())"
    using Cons.prems(3) by (simp add: x runs_def apply_new_append)
  have "consistent (ps @ ?rest)" using Cons.prems(1) by (rule consistent_subset) (auto simp: x)
  from ready_step [OF this r] have "ready off addr lo hi ?rest (apply_new off addr (before @ ps) b)"
    by (simp add: apply_new_append)
  then have "run_steps (map fst ms) (apply_new off addr (before @ ps) b) =
      (apply_new off addr ((before @ ps) @ ?rest) b, Inr ())"
    using Cons.prems by (intro Cons.IH) (simp_all add: x)
  then show ?case using m by (simp add: x)
qed simp

text \<open>Each patcher with the table it writes, in order.\<close>

definition relink_tables :: "(step \<times> site list) list" where
  "relink_tables =
     [(step_of pflusha_main, pflusha_table), (step_of pmmu_main, pmmu_PATCHES),
      (step_of modelb_main, modelb_P), (step_of (pager_main None), pager_P),
      (step_of (writeback_main None), writeback_P), (step_of swapgeom_main, swapgeom_TEXT),
      (step_of pageoutdefs_main, pageoutdefs_TEXT), (step_of mincore_main, mincore_TEXT), (step_of devmmap_main, devmmap_SITES),
      (step_of segkmem_main, segkmem_TEXT), (step_of kmapools_main, kmapools_TEXT),
      (step_of procio_main, procio_TEXT), (step_of memcntl_main, memcntl_TEXT), (step_of (pagecreate_main None), pagecreate_all),
      (step_of pvntrunc_main, pvntrunc_TEXT), (step_of ufsbmap_main, ufsbmap_TEXT),
      (step_of (execboundary_main None), execboundary_all), (step_of (devmmap2_main None), devmmap2_all)]"

lemma relink_tables_fst: "map fst relink_tables = relink_steps"
  by (simp add: relink_tables_def relink_steps_def)

lemma relink_tables_snd: "concat (map snd relink_tables) = relink_sites"
  by (simp add: relink_tables_def relink_sites_def)

lemma runsI:
  assumes "\<And>b1. b1 = apply_new off addr before b \<Longrightarrow> ready off addr lo hi ps b1 \<Longrightarrow>
    \<exists>r. m b1 = (apply_new off addr ps b1, Inr r)"
  shows "runs off addr lo hi b before (step_of m) ps"
  using assms by (fastforce simp: runs_def)

lemma ready_known: "ready off addr lo hi ps b \<Longrightarrow> all_known off addr ps b"
  by (simp add: ready_def)

lemmas ready_facts = ready_sections ready_text_section ready_devmmap ready_room ready_known

lemma pager_sel_None: "pager_sel None = pager_P"
  by (simp add: pager_sel_def pager_selected_default)

lemma writeback_sel_None: "writeback_sel None = writeback_P"
  by (simp add: writeback_sel_def writeback_selected_default)

lemma runs_plain:
  "runs off addr lo hi b before (step_of pflusha_main) pflusha_table"
  "runs off addr lo hi b before (step_of pmmu_main) pmmu_PATCHES"
  "runs off addr lo hi b before (step_of modelb_main) modelb_P"
  "runs off addr lo hi b before (step_of (pager_main None)) pager_P"
  "runs off addr lo hi b before (step_of (writeback_main None)) writeback_P"
  "runs off addr lo hi b before (step_of swapgeom_main) swapgeom_TEXT"
  "runs off addr lo hi b before (step_of mincore_main) mincore_TEXT"
  "runs off addr lo hi b before (step_of devmmap_main) devmmap_SITES"
  "runs off addr lo hi b before (step_of kmapools_main) kmapools_TEXT"
  "runs off addr lo hi b before (step_of pageoutdefs_main) pageoutdefs_TEXT"
  "runs off addr lo hi b before (step_of procio_main) procio_TEXT"
  by (rule runsI; rule pflusha.step pmmu.step modelb.step pager.step [where env = None, unfolded pager_sel_None]
      writeback.step [where env = None, unfolded writeback_sel_None] swapgeom.step mincore.step devmmap.step
      kmapools.step pageoutdefs.step procio.step; (erule ready_facts | simp)+)+

text \<open>The steps with canaries need to know what has run before.\<close>

definition canaries_ready :: "int \<Rightarrow> int \<Rightarrow> byte list \<Rightarrow> bool" where
  "canaries_ready off addr b \<longleftrightarrow>
     check_canaries off addr stock_canaries b = Inr () \<and> canaries_room off addr (length b) stock_canaries"

lemma before_canaries:
  assumes "set before \<subseteq> set relink_sites" "room off addr 0 (length b) before" "canaries_ready off addr b"
    "list_all (\<lambda>c. c \<in> set stock_canaries \<or> canary_from before c) cs"
  shows "check_canaries off addr cs (apply_new off addr before b) = Inr ()"
  using assms stock_apart consistent_subset [OF relink_consistent assms(1)]
  by (intro canaries_after [where st = stock_canaries]) (auto simp: canaries_ready_def list_all_iff)

lemma set_stock_canaries [simp]:
  "c \<in> set stock_canaries \<longleftrightarrow> (case c of (v, want, what) \<Rightarrow> gap kernel_index v (v + int (length want))) \<and>
     c \<in> set (segkmem_CANARY @ memcntl_CANARY @ pvntrunc_CANARY @ ufsbmap_CANARY @ execboundary_CANARY
      @ devmmap2_CANARY_OLD)"
  by (auto simp: stock_canaries_def)

fun canary_in :: "site list \<Rightarrow> int \<Rightarrow> byte list \<Rightarrow> bool" where
  "canary_in [] v want = False"
| "canary_in ((v', old, new, name) # ps) v want =
     (if v' = v then take (length want) new = want \<or> canary_in ps v want else canary_in ps v want)"

lemma canary_in_append [simp]: "canary_in (ps @ qs) v want \<longleftrightarrow> canary_in ps v want \<or> canary_in qs v want"
  by (induction ps v want rule: canary_in.induct) auto

text \<open>The search unfolds one row at a time: the congruence rule keeps the rest of the table unevaluated.\<close>

lemma canary_in_cong [cong]: "v = v' \<Longrightarrow> want = want' \<Longrightarrow> canary_in ps v want = canary_in ps v' want'"
  by simp

lemmas modelb_search = modelb_P_defs [THEN arg_cong [where f = "\<lambda>ps. canary_in ps v want" for v want]]
lemmas pager_search = pager_P_defs [THEN arg_cong [where f = "\<lambda>ps. canary_in ps v want" for v want]]

lemma canary_in_from: "canary_in ps v want \<Longrightarrow> canary_from ps (v, want, what)"
  by (induction ps v want rule: canary_in.induct) (auto simp: canary_from_def split: if_splits)

lemma canaries_in_from:
  "list_all (\<lambda>(v, want, what). canary_in ps v want) cs \<Longrightarrow> list_all (canary_from ps) cs"
  by (auto simp: list_all_iff canary_in_from)

lemma pagecreate_canary_sources:
  "list_all (\<lambda>(v, want, what). canary_in modelb_P v want \<or> canary_in pager_P v want) pagecreate_PRODUCER"
  by (simp add: pagecreate_PRODUCER_def modelb_search pager_search byte_consts)

lemma ufsbmap_canary_sources: "canary_in pagecreate_all 0xaeeba [0x02, 0x46, 0xf0, 0x00]"
  unfolding pagecreate_eval list.map snd_conv by (simp add: byte_consts)

lemma segkmem_canary_sources: "canary_in pflusha_table 0xb78d0 [0xf5, 0x18]"
  unfolding pflusha_eval list.map prod.case by simp

lemma execboundary_canary_sources:
  "canary_in modelb_P 0x57c1c [0x06, 0x80, 0x00, 0x00, 0x0f, 0xff]"
  "canary_in modelb_P 0x57c22 [0x74, 0x0c]"
  "canary_in modelb_P 0xb842c [0x24, 0xfc, 0x00, 0x00, 0x10, 0x00]"
  by (simp_all add: modelb_search)

lemma devmmap2_canary_sources:
  "list_all (\<lambda>(v, want, what). canary_in mincore_TEXT v want \<or> canary_in devmmap_SITES v want) devmmap2_CANARY_NEW"
  unfolding mincore_TEXT_def devmmap_SITES_def by (simp add: devmmap2_CANARY_NEW_def)

text \<open>The tables before a step, in the order they were applied, and the room they take.\<close>

lemma before_canaries_append:
  assumes "list_all (\<lambda>(v, want, what). (gap kernel_index v (v + int (length want))
      \<and> (v, want, what) \<in> set (segkmem_CANARY @ memcntl_CANARY @ pvntrunc_CANARY @ ufsbmap_CANARY
           @ execboundary_CANARY @ devmmap2_CANARY_OLD)) \<or> canary_from before (v, want, what)) cs"
  shows "list_all (\<lambda>c. c \<in> set stock_canaries \<or> canary_from before c) cs"
  using assms by (auto simp: list_all_iff)

lemma segkmem_sources: "list_all (\<lambda>c. c \<in> set stock_canaries \<or> canary_from pflusha_table c) segkmem_CANARY"
  using canary_in_from [OF segkmem_canary_sources]
  by (simp add: segkmem_CANARY_def gap_eval)

lemma memcntl_sources: "list_all (\<lambda>c. c \<in> set stock_canaries) memcntl_CANARY"
  by (simp add: memcntl_CANARY_def gap_eval)

lemma pvntrunc_sources: "list_all (\<lambda>c. c \<in> set stock_canaries) pvntrunc_CANARY"
  by (simp add: pvntrunc_CANARY_def gap_eval)

lemma ufsbmap_sources:
  "list_all (\<lambda>c. c \<in> set stock_canaries \<or> canary_from pagecreate_all c) ufsbmap_canaries"
  using canary_in_from [OF ufsbmap_canary_sources]
  by (simp add: ufsbmap_canaries_def ufsbmap_CANARY_def gap_eval)

lemma execboundary_sources:
  "list_all (\<lambda>c. c \<in> set stock_canaries \<or> canary_from modelb_P c) execboundary_CANARY"
  using execboundary_canary_sources [THEN canary_in_from]
  by (simp add: execboundary_CANARY_def gap_eval)

lemma devmmap2_sources:
  "list_all (\<lambda>c. c \<in> set stock_canaries \<or> canary_from (mincore_TEXT @ devmmap_SITES) c)
     (devmmap2_CANARY_NEW @ devmmap2_CANARY_OLD)"
  using devmmap2_canary_sources
  by (auto simp: list_all_iff canary_in_from devmmap2_CANARY_OLD_def gap_eval)

lemma pagecreate_sources:
  "list_all (canary_from (modelb_P @ pager_P)) pagecreate_PRODUCER"
  using pagecreate_canary_sources by (auto simp: list_all_iff canary_in_from)

lemma canary_from_mono: "canary_from ps c \<Longrightarrow> set ps \<subseteq> set qs \<Longrightarrow> canary_from qs c"
  by (cases c) (auto simp: canary_from_def)

definition reached :: "int \<Rightarrow> int \<Rightarrow> byte list \<Rightarrow> site list \<Rightarrow> bool" where
  "reached off addr b before \<longleftrightarrow> set before \<subseteq> set relink_sites
     \<and> room off addr 0 (length b) relink_sites \<and> canaries_ready off addr b"

lemma room_subset: "room off addr lo hi qs \<Longrightarrow> set ps \<subseteq> set qs \<Longrightarrow> room off addr lo hi ps"
  unfolding room_def by blast

lemma reached_canaries:
  assumes "reached off addr b before" "list_all (\<lambda>c. c \<in> set stock_canaries \<or> canary_from ps c) cs"
    "set ps \<subseteq> set before"
  shows "check_canaries off addr cs (apply_new off addr before b) = Inr ()"
  using assms(1,2) canary_from_mono [OF _ assms(3)]
  by (intro before_canaries) (auto simp del: set_stock_canaries simp: reached_def list_all_iff intro: room_subset)

lemma runs_segkmem:
  "reached off addr b before \<Longrightarrow> set pflusha_table \<subseteq> set before \<Longrightarrow>
   runs off addr lo hi b before (step_of segkmem_main) segkmem_TEXT"
  by (rule runsI; rule segkmem.step)
    ((erule ready_facts | simp add: check_segkmem_def reached_canaries [OF _ segkmem_sources])+)

lemma runs_pagecreate:
  assumes "reached off addr b before" "set (modelb_P @ pager_P) \<subseteq> set before"
  shows "runs off addr lo hi b before (step_of (pagecreate_main None)) pagecreate_all"
proof (rule runsI, rule pagecreate.step [where env = None, unfolded pagecreate_sel_default])
  have "list_all (\<lambda>c. c \<in> set stock_canaries \<or> canary_from (modelb_P @ pager_P) c) pagecreate_PRODUCER"
    using pagecreate_sources by (simp add: list_all_iff del: set_stock_canaries)
  then show "check_pagecreate off addr b1 = Inr ()" if "b1 = apply_new off addr before b" for b1
    using reached_canaries [OF assms(1) _ assms(2)] that by (simp add: check_pagecreate_def)
qed ((erule ready_facts | simp)+)

lemma runs_pvntrunc:
  "reached off addr b before \<Longrightarrow> runs off addr lo hi b before (step_of pvntrunc_main) pvntrunc_TEXT"
  using reached_canaries [of off addr b before "[]" pvntrunc_CANARY] pvntrunc_sources
  by (intro runsI pvntrunc.step) 
    ((erule ready_facts | simp add: check_pvntrunc_def list_all_iff del: set_stock_canaries)+)

lemma runs_ufsbmap:
  "reached off addr b before \<Longrightarrow> set pagecreate_all \<subseteq> set before \<Longrightarrow>
   runs off addr lo hi b before (step_of ufsbmap_main) ufsbmap_TEXT"
  by (rule runsI; rule ufsbmap.step)
    ((erule ready_facts | simp add: check_ufsbmap_iff reached_canaries [OF _ ufsbmap_sources])+)

lemma runs_memcntl:
  assumes r: "reached off addr b before" and s: "set (before @ memcntl_TEXT) \<subseteq> set relink_sites"
  shows "runs off addr lo hi b before (step_of memcntl_main) memcntl_TEXT"
proof (rule runsI, rule memcntl.step)
  fix b1 assume "b1 = apply_new off addr before b"
  moreover have "reached off addr b (before @ memcntl_TEXT)" using r s by (simp add: reached_def)
  then have "check_canaries off addr memcntl_CANARY (apply_new off addr (before @ memcntl_TEXT) b) = Inr ()"
    using memcntl_sources by (intro reached_canaries [where ps = "[]"]) (simp_all add: list_all_iff del: set_stock_canaries)
  ultimately show "check_memcntl off addr (apply_new off addr memcntl_TEXT b1) = Inr ()"
    by (simp add: check_memcntl_def apply_new_append)
qed ((erule ready_facts | simp)+)

lemma runs_devmmap2:
  "reached off addr b before \<Longrightarrow> set (mincore_TEXT @ devmmap_SITES) \<subseteq> set before \<Longrightarrow>
   runs off addr lo hi b before (step_of (devmmap2_main None)) devmmap2_all"
  by (rule runsI; rule devmmap2.step [where env = None, unfolded devmmap2_sel_default])
    ((erule ready_facts | simp add: check_devmmap2_def reached_canaries [OF _ devmmap2_sources])+)

lemma runs_execboundary:
  assumes r: "reached off addr b before" and s: "set modelb_P \<subseteq> set before"
  shows "runs off addr lo hi b before (step_of (execboundary_main None)) execboundary_all"
proof (rule runsI, rule execboundary.step [where env = None, unfolded execboundary_sel_default])
  fix b1 assume b1: "b1 = apply_new off addr before b" and rd: "ready off addr lo hi execboundary_all b1"
  show "check_execboundary off addr b1 = Inr ()"
    using reached_canaries [OF r execboundary_sources s] b1 by (simp add: check_execboundary_def)
  have room: "room off addr 0 (length b1) execboundary_all" using rd by (rule ready_room)
  show "recheck_execboundary None off addr (apply_new off addr execboundary_all b1) = Inr ()"
    using all_new_apply_new [OF execboundary_table.consistent room] room
    by (intro recheck_execboundary_ok) (simp_all add: execboundary_sel_default)
qed ((erule ready_facts | simp)+)

subsection \<open>The sequence\<close>

lemma relink_all_run:
  assumes "room off addr 0 (length b) relink_sites" "canaries_ready off addr b"
  shows "all_run off addr lo hi b [] relink_tables"
proof -
  have r: "reached off addr b before" if "set before \<subseteq> set relink_sites" for before
    using that assms by (simp add: reached_def)
  show ?thesis unfolding relink_tables_def all_run.simps
    by (intro conjI TrueI runs_plain runs_segkmem runs_memcntl runs_pagecreate runs_pvntrunc
        runs_ufsbmap runs_execboundary runs_devmmap2 r)
      (simp_all only: relink_sites_def set_append list.set Un_subset_iff, blast+)
qed

theorem relink_run:
  assumes "ready off addr lo hi relink_sites b" "canaries_ready off addr b"
  shows "run_steps relink_steps b = (apply_new off addr relink_sites b, Inr ())"
proof -
  have "all_run off addr lo hi b [] relink_tables"
    using relink_all_run ready_room [OF assms(1)] assms(2) by blast
  then show ?thesis
    using run_steps_chain [where before = "[]" and ms = relink_tables] relink_consistent assms(1)
    by (simp add: relink_tables_fst relink_tables_snd)
qed

subsection \<open>The order is enforced\<close>

lemma canary_fails:
  assumes "(v, want, what) \<in> set cs" "(v, old, want, name) \<in> set ps" "all_old off addr ps b" "consistent ps"
    "room off addr 0 (length b) ps"
  shows "\<exists>e. check_canaries off addr cs b = Inl e"
proof -
  have e: "length old = length want" "old \<noteq> want" using assms(2,4) by (auto simp: consistent_def)
  have r: "0 \<le> off + (v - addr)" "off + (v - addr) + int (length want) \<le> int (length b)"
    using assms(2,5) by (auto simp: room_def)
  have "site_read off addr b (v, old, want, name) = old" using assms(2,3) by (auto simp: all_old_def)
  then have "slice b (off + (v - addr)) (off + (v - addr) + int (length want)) = old"
    using r by (simp add: slice_eq_sub site_read_def)
  then have "check_canaries off addr cs b \<noteq> Inr ()"
    using e(2) assms(1) unfolding check_canaries_ok_iff by blast
  then show ?thesis by (cases "check_canaries off addr cs b") auto
qed

lemma as_iolock_site:
  "(0xaeeba, [0x02, 0x46, 0xf8, 0x00], [0x02, 0x46, 0xf0, 0x00], ''as_iolock:below-EOF trim (n &= PAGEMASK)'')
     \<in> set pagecreate_all"
  unfolding pagecreate_eval by simp

lemma ufsbmap_needs_pagecreate:
  assumes "text_of_sections b = Inr (addr, off)" "room off addr 0 (length b) pagecreate_all"
    "all_old off addr pagecreate_all b"
  shows "\<exists>e. ufsbmap_main b = (b, Inl e)"
proof -
  have "\<exists>e. check_canaries off addr ufsbmap_canaries b = Inl e"
    by (rule canary_fails [OF _ as_iolock_site assms(3) pagecreate_table.consistent assms(2),
        where what = "''as_iolock''"]) (simp add: ufsbmap_canaries_def)
  then have "check_ufsbmap off addr b \<noteq> Inr ()" using check_ufsbmap_iff [of off addr b] by auto
  then obtain e where "check_ufsbmap off addr b = Inl e" by (cases "check_ufsbmap off addr b") auto
  then show ?thesis using ufsbmap.pre_fails assms(1) by blast
qed

lemma segmap_site:
  "(0xa9742, [0x02, 0x42, 0xf8, 0x00], [0x02, 0x42, 0xf0, 0x00], ''segmap_pagecreate:andiw #-2048 d2'') \<in> set pager_P"
  by (simp add: pager_P_def) (simp add: pager_P1_def)

lemma pagecreate_needs_pager:
  assumes "text_of_sections b = Inr (addr, off)" "room off addr 0 (length b) pager_P" "all_old off addr pager_P b"
  shows "\<exists>e. pagecreate_main env b = (b, Inl e)"
proof -
  have "\<exists>e. check_pagecreate off addr b = Inl e" unfolding check_pagecreate_def
    by (rule canary_fails [OF _ segmap_site assms(3) pager_table.consistent assms(2)])
      (simp add: pagecreate_PRODUCER_def)
  then show ?thesis using pagecreate.pre_fails assms(1) by blast
qed

lemma at_pagesz_site:
  "(0xb842c, [0x24, 0xfc, 0x00, 0x00, 0x08, 0x00], [0x24, 0xfc, 0x00, 0x00, 0x10, 0x00],
    ''elfexec:AT_PAGESZ 2048->4096'') \<in> set modelb_P"
  by (simp add: modelb_P_def) (simp add: modelb_P1_def modelb_P2_def)

lemma execboundary_needs_modelb:
  assumes "text_of_sections b = Inr (addr, off)" "room off addr 0 (length b) modelb_P" "all_old off addr modelb_P b"
  shows "\<exists>e. execboundary_main env b = (b, Inl e)"
proof -
  have "\<exists>e. check_execboundary off addr b = Inl e" unfolding check_execboundary_def
    by (rule canary_fails [OF _ at_pagesz_site assms(3) modelb_table.consistent assms(2)])
      (simp add: execboundary_CANARY_def)
  then show ?thesis using execboundary.pre_fails assms(1) by blast
qed

lemma devmmap2_needs_devmmap:
  assumes "text_of_sections b = Inr (addr, off)" "room off addr 0 (length b) devmmap_SITES"
    "all_old off addr devmmap_SITES b"
  shows "\<exists>e. devmmap2_main env b = (b, Inl e)"
proof -
  have m: "(0x8384, [0x78, 0x0b, 0xe8, 0xa8], [0x78, 0x0c, 0xe8, 0xa8], ''scrmmap (/dev/screen framebuffer)'')
      \<in> set devmmap_SITES" by (simp add: devmmap_SITES_def)
  have "\<exists>e. check_devmmap2 off addr b = Inl e" unfolding check_devmmap2_def
    by (rule canary_fails [OF _ m assms(3) devmmap_table.consistent assms(2),
        where what = "''scrmmap PFN shift (patch_devmmap_pfn.py)''"])
      (simp add: devmmap2_CANARY_NEW_def)
  then show ?thesis using devmmap2.pre_fails assms(1) by blast
qed

subsection \<open>The sequence over a stock image\<close>

text \<open>
  The stock image for the whole sequence also holds the bytes of the canaries that nothing touches:
  they are entered as sites whose new bytes are the complement of the wanted ones.
\<close>

definition canary_sites :: "canary list \<Rightarrow> site list" where
  "canary_sites cs = map (\<lambda>(v, want, what). (v, want, map (\<lambda>w. not w) want, what)) cs"

definition relink_stock :: "byte list" where
  "relink_stock = stock_image (relink_sites @ canary_sites stock_canaries)"

lemma stock_canaries_eq: "stock_canaries = [
    (0xa8474, [0x72, 0x0b], ''stock segkmem_setprot moveq #11 (overridden)''),
    (0xa84a6, [0x42, 0x9a], ''stock segkmem_setprot clrl a2@+ (overridden)''),
    (0xa84ac, [0xef, 0xea, 0x41, 0x41, 0x00, 0x03], ''stock segkmem_setprot bfins W-bit (overridden)''),
    (0xa84b2, [0x06, 0x82, 0x00, 0x00, 0x08, 0x00], ''stock segkmem_setprot addil #0x800 (overridden)''),
    (0xa8cd0, [0x42, 0xb0, 0x0c, 0x00], ''stock sptfree flag=0 direct clear (overridden)''),
    (0x42f58, [0x70, 0x0b], ''textlock return EAGAIN''),
    (0x42fde, [0x70, 0x0b], ''datalock return EAGAIN''),
    (0x43080, [0x70, 0x0b], ''ublock return EAGAIN''),
    (0x43212, [0x70, 0x0c], ''memcntl return ENOMEM''),
    (0xad54e, [0x70, 0x0b], ''segvn_lockop return EAGAIN''),
    (0xb2474, [0x02, 0x41, 0xe0, 0x00], ''vplen & MAXBMASK (8 KiB segmap slot)''),
    (0xb24aa, [0x02, 0x80, 0x00, 0x00, 0x1f, 0xff], ''vplen & MAXBOFFSET (8 KiB slot offset)''),
    (0x79ec0, [0x7e, 0x0b], ''NDADDR-1 direct-block threshold''),
    (0x79ee2, [0x7e, 0x0b], ''NDADDR-1 direct-block threshold''),
    (0x7a030, [0x7e, 0x0b], ''NDADDR-1 direct-block threshold''),
    (0x5677a, [0x02, 0x41, 0xe0, 0x00], ''exhd_getfbuf boff & MAXBMASK -- 8 KiB fbuf window''),
    (0xb8406, [0x02, 0x44, 0xe0, 0x00], ''elfexec & MAXBMASK -- 8 KiB aux-vector window''),
    (0xa7fe4, [0x7e, 0x0b], ''segdev_fault seg_page() -- family kept at 2 KiB on purpose''),
    (0xa82a6, [0x76, 0x0b], ''segdev_getprot seg_page() -- family kept at 2 KiB on purpose'')]"
  by (simp add: stock_canaries_def segkmem_CANARY_def memcntl_CANARY_def pvntrunc_CANARY_def ufsbmap_CANARY_def
      execboundary_CANARY_def devmmap2_CANARY_OLD_def gap_eval)

lemma canary_sites_consistent: "consistent (canary_sites stock_canaries)"
  by (simp add: consistent_def compat_def canary_sites_def stock_canaries_eq)

lemma consistent_apart:
  assumes "consistent ps" "consistent (canary_sites cs)" "\<forall>c \<in> set cs. \<forall>e \<in> set ps. canary_apart c e"
  shows "consistent (ps @ canary_sites cs)"
proof -
  have "compat e f \<and> compat f e" if m: "e \<in> set (canary_sites cs)" "f \<in> set ps" for e f
  proof -
    obtain v want what where c: "(v, want, what) \<in> set cs" "e = (v, want, map (\<lambda>w. not w) want, what)"
      using m(1) by (auto simp: canary_sites_def)
    then have "canary_apart (v, want, what) f" using assms(3) m(2) by blast
    then show ?thesis by (cases f) (auto simp: c canary_apart_def compat_def)
  qed
  then show ?thesis using assms(1,2) by (auto simp: consistent_def)
qed

lemma relink_stock_consistent: "consistent (relink_sites @ canary_sites stock_canaries)"
  by (rule consistent_apart [OF relink_consistent canary_sites_consistent stock_apart])

lemma canary_sites_room: "room 192 0 192 (192 + text_bytes) (canary_sites stock_canaries)"
  by (simp add: canary_sites_def stock_canaries_eq text_bytes_def)

lemma relink_stock_room: "room 192 0 192 (192 + text_bytes) (relink_sites @ canary_sites stock_canaries)"
  using relink_room canary_sites_room by simp

lemmas relink_stock_facts =
  stock_image_facts [OF relink_stock_consistent relink_stock_room, folded relink_stock_def]

lemma stock_canaries_room: "canaries_room 192 0 (192 + text_bytes) stock_canaries"
  by (simp add: canaries_room_def stock_canaries_eq text_bytes_def)

lemma relink_stock_ready: "ready 192 0 192 (192 + text_bytes) relink_sites relink_stock"
proof -
  have "all_old 192 0 relink_sites relink_stock" using relink_stock_facts(5) by (simp add: all_old_def)
  then show ?thesis using relink_stock_facts(1,2,3,6) relink_room
    by (simp add: ready_def all_old_known text_of_sections_def dict_get_def)
qed

lemma canaries_from_old:
  assumes "all_old off addr (canary_sites cs) b" "canaries_room off addr (length b) cs"
  shows "check_canaries off addr cs b = Inr ()"
  unfolding check_canaries_ok_iff
proof (intro ballI, clarify)
  fix v want what assume c: "(v, want, what) \<in> set cs"
  then have "(v, want, map (\<lambda>w. not w) want, what) \<in> set (canary_sites cs)" by (force simp: canary_sites_def)
  then have "site_read off addr b (v, want, map (\<lambda>w. not w) want, what) = want"
    using assms(1) by (auto simp: all_old_def)
  moreover have "0 \<le> off + (v - addr)" "off + (v - addr) + int (length want) \<le> int (length b)"
    using assms(2) c by (auto simp: canaries_room_def)
  ultimately show "slice b (off + (v - addr)) (off + (v - addr) + int (length want)) = want"
    by (simp add: slice_eq_sub site_read_def)
qed

lemma relink_stock_canaries: "canaries_ready 192 0 relink_stock"
proof -
  have "all_old 192 0 (canary_sites stock_canaries) relink_stock"
    using relink_stock_facts(5) by (simp add: all_old_def)
  moreover have "canaries_room 192 0 (length relink_stock) stock_canaries"
    using stock_canaries_room relink_stock_facts(1) by simp
  ultimately show ?thesis using canaries_from_old by (simp add: canaries_ready_def)
qed

text \<open>Running the whole sequence again finds every site converted and every canary in place.\<close>

lemma relink_again:
  assumes "ready off addr lo hi relink_sites b" "canaries_ready off addr b"
  shows "run_steps relink_steps (apply_new off addr relink_sites b) = (apply_new off addr relink_sites b, Inr ())"
proof -
  let ?b = "apply_new off addr relink_sites b"
  have room: "room off addr 0 (length b) relink_sites" by (rule ready_room [OF assms(1)])
  have new: "all_new off addr relink_sites ?b" by (rule all_new_apply_new [OF relink_consistent room])
  have "ready off addr lo hi relink_sites ?b"
    using ready_step [of relink_sites "[]", simplified, OF relink_consistent assms(1)] new assms(1)
    by (auto simp: ready_def all_new_known)
  moreover have "canaries_ready off addr ?b"
    using assms(2) room check_canaries_apply [OF room stock_apart] by (simp add: canaries_ready_def)
  moreover have "apply_new off addr relink_sites ?b = ?b"
    using apply_new_all_new [OF relink_consistent _ new] room by simp
  ultimately show ?thesis using relink_run by metis
qed

subsection \<open>Every step is fail-closed\<close>

definition fail_closed :: "step \<Rightarrow> bool" where
  "fail_closed m \<longleftrightarrow> (\<forall>b. case m b of (b', Inl e) \<Rightarrow> b' = b | (b', Inr _) \<Rightarrow> length b' = length b)"

lemma fail_closedI:
  assumes "\<And>b. case m b of (b', Inl e) \<Rightarrow> b' = b
    | (b', Inr r) \<Rightarrow> length b' = length b \<and> Q b b' r"
  shows "fail_closed (step_of m)"
  unfolding fail_closed_def
proof
  fix b show "case step_of m b of (b', Inl e) \<Rightarrow> b' = b | (b', Inr _) \<Rightarrow> length b' = length b"
    using assms [of b] by (cases "m b"; cases "snd (m b)") (auto simp: step_of_def)
qed

lemmas outcomes = pflusha.outcome pmmu.outcome modelb.outcome pager.outcome writeback.outcome
  swapgeom.outcome pageoutdefs.outcome mincore.outcome devmmap.outcome segkmem.outcome kmapools.outcome
  procio.outcome memcntl.outcome
  pagecreate.outcome pvntrunc.outcome ufsbmap.outcome execboundary.outcome devmmap2.outcome

lemma relink_fail_closed: "list_all fail_closed relink_steps"
  unfolding relink_steps_def list.pred_inject
  by (intro conjI list.pred_inject(1); rule fail_closedI; rule outcomes)

subsection \<open>Aborts that cannot happen\<close>

lemma dead_abort:
  assumes "take 6 msg \<noteq> ''ABORT ''" "take 6 msg = ''ABORT:'' \<or> msg = ''1''"
  shows "msg \<noteq> ''ABORT '' @ name" "text_of_sections b \<noteq> Inl (SystemExit msg)"
    "check_canaries off addr cs b \<noteq> Inl (SystemExit msg)"
proof -
  show "msg \<noteq> ''ABORT '' @ name" using assms(1) by auto
  show "text_of_sections b \<noteq> Inl (SystemExit msg)" by (auto simp: no_exit_def dest: text_of_sections_no_exit)
  show "check_canaries off addr cs b \<noteq> Inl (SystemExit msg)"
    using assms(1) by (auto dest: check_canaries_Inl)
qed

lemmas dead_partial = dead_abort [where msg = "''ABORT: partial '' @ what" for what, simplified]
lemmas dead_exit = dead_abort [where msg = "''1''", simplified]

lemma swapgeom_never: "snd (swapgeom_main b) \<noteq> Inl (SystemExit (''ABORT: partial '' @ what))"
  by (rule notI, erule swapgeom.fails_with) (simp_all add: dead_partial)

lemma kmapools_never:
  "snd (kmapools_main b) \<noteq> Inl (SystemExit (''ABORT: partial '' @ what))"
  "snd (kmapools_main b) \<noteq> Inl (SystemExit ''1'')"
  by (rule notI, erule kmapools.fails_with; simp add: dead_partial dead_exit)+

lemma procio_never:
  "snd (procio_main b) \<noteq> Inl (SystemExit (''ABORT: partial '' @ what))"
  "snd (procio_main b) \<noteq> Inl (SystemExit ''1'')"
  by (rule notI, erule procio.fails_with; simp add: dead_partial dead_exit)+

lemma memcntl_never:
  "snd (memcntl_main b) \<noteq> Inl (SystemExit (''ABORT: partial '' @ what))"
  "snd (memcntl_main b) \<noteq> Inl (SystemExit ''1'')"
  by (rule notI, erule memcntl.fails_with; simp add: dead_partial dead_exit check_memcntl_def)+

lemma segkmem_never: "snd (segkmem_main b) \<noteq> Inl (SystemExit (''ABORT: partial '' @ what))"
  by (rule notI, erule segkmem.fails_with; simp add: dead_partial check_segkmem_def)

lemma pvntrunc_never:
  "snd (pvntrunc_main b) \<noteq> Inl (SystemExit (''ABORT: partial '' @ what))"
  "snd (pvntrunc_main b) \<noteq> Inl (SystemExit ''1'')"
  by (rule notI, erule pvntrunc.fails_with; simp add: dead_partial dead_exit check_pvntrunc_def)+

lemma ufsbmap_never:
  "snd (ufsbmap_main b) \<noteq> Inl (SystemExit (''ABORT: partial '' @ what))"
  "snd (ufsbmap_main b) \<noteq> Inl (SystemExit ''1'')"
  by (rule notI, erule ufsbmap.fails_with;
      auto simp: dead_partial dead_exit check_ufsbmap_def bind_e_Inl_iff Let_def split: if_splits)+

lemma pagecreate_never:
  "snd (pagecreate_main env b) \<noteq> Inl (SystemExit (''ABORT: partial '' @ what))"
  "snd (pagecreate_main env b) \<noteq> Inl (SystemExit ''1'')"
  by (rule notI, erule pagecreate.fails_with; simp add: dead_partial dead_exit check_pagecreate_def)+

lemma execboundary_exit: "snd (execboundary_main env b) \<noteq> Inl (SystemExit ''1'')"
proof
  assume "snd (execboundary_main env b) = Inl (SystemExit ''1'')"
  then show False
  proof (rule execboundary.fails_with)
    fix addr off buf assume "recheck_execboundary env off addr buf = Inl (SystemExit ''1'')"
    then show False by (simp add: recheck_execboundary_def Let_def split: if_splits)
  qed (simp_all add: dead_exit check_execboundary_def)
qed

lemma devmmap2_exit: "snd (devmmap2_main env b) \<noteq> Inl (SystemExit ''1'')"
  by (rule notI, erule devmmap2.fails_with; simp add: dead_exit check_devmmap2_def)

end
