(* ===== verification/Prof_Scan.thy ===== *)
theory Prof_Scan
  imports Py_Base "HOL-Library.Monad_Syntax"
begin

text \<open>
  The line grammar of \<open>src/tools/prof-symbolize.py\<close>: the regular expressions of its capture parser
  as scanners.  A scanner consumes a prefix of the line and returns what it read and the rest.  All
  the expressions are deterministic: adjacent pieces never compete for a character, so matching
  greedily from the left is what Python's matcher does.  A line is a list of characters with codes
  below 256.
\<close>

subsection \<open>Character classes\<close>

definition ord_c :: "char \<Rightarrow> nat" where "ord_c c = of_char c"

definition is_digit :: "char \<Rightarrow> bool" where
  "is_digit c \<longleftrightarrow> 48 \<le> ord_c c \<and> ord_c c \<le> 57"

definition is_lower_hex :: "char \<Rightarrow> bool" where
  "is_lower_hex c \<longleftrightarrow> is_digit c \<or> (97 \<le> ord_c c \<and> ord_c c \<le> 102)"

definition is_hex :: "char \<Rightarrow> bool" where
  "is_hex c \<longleftrightarrow> is_lower_hex c \<or> (65 \<le> ord_c c \<and> ord_c c \<le> 70)"

definition is_upper :: "char \<Rightarrow> bool" where
  "is_upper c \<longleftrightarrow> 65 \<le> ord_c c \<and> ord_c c \<le> 90"

definition is_alpha :: "char \<Rightarrow> bool" where
  "is_alpha c \<longleftrightarrow> is_upper c \<or> (97 \<le> ord_c c \<and> ord_c c \<le> 122)"

text \<open>Python's \<open>\s\<close> and \<open>\w\<close> on a \<open>str\<close>, for the codes below 256.\<close>

definition is_space :: "char \<Rightarrow> bool" where
  "is_space c \<longleftrightarrow> (9 \<le> ord_c c \<and> ord_c c \<le> 13) \<or> (28 \<le> ord_c c \<and> ord_c c \<le> 32)
     \<or> ord_c c = 133 \<or> ord_c c = 160"

definition is_word :: "char \<Rightarrow> bool" where
  "is_word c \<longleftrightarrow> is_alpha c \<or> is_digit c \<or> ord_c c = 95 \<or> ord_c c \<in> {170, 178, 179, 181, 185, 186, 188, 189, 190}
     \<or> (192 \<le> ord_c c \<and> ord_c c \<noteq> 215 \<and> ord_c c \<noteq> 247)"

definition hex_val :: "char \<Rightarrow> int" where
  "hex_val c = (if is_digit c then int (ord_c c) - 48
     else if 97 \<le> ord_c c then int (ord_c c) - 87 else int (ord_c c) - 55)"

definition dec :: "string \<Rightarrow> int" where
  "dec s = foldl (\<lambda>n c. 10 * n + (int (ord_c c) - 48)) 0 s"

definition hex :: "string \<Rightarrow> int" where
  "hex s = foldl (\<lambda>n c. 16 * n + hex_val c) 0 s"

subsection \<open>Scanners\<close>

fun lit :: "string \<Rightarrow> string \<Rightarrow> string option" where
  "lit [] s = Some s"
| "lit (p # ps) [] = None"
| "lit (p # ps) (c # s) = (if p = c then lit ps s else None)"

text \<open>\<open>run1 P\<close> is \<open>[P]+\<close>, \<open>count P n\<close> is \<open>[P]{n}\<close>, \<open>upto P n\<close> is \<open>[P]{1,n}\<close>.\<close>

definition run1 :: "(char \<Rightarrow> bool) \<Rightarrow> string \<Rightarrow> (string \<times> string) option" where
  "run1 P s = (let t = takeWhile P s in if t = [] then None else Some (t, dropWhile P s))"

definition count :: "(char \<Rightarrow> bool) \<Rightarrow> nat \<Rightarrow> string \<Rightarrow> (string \<times> string) option" where
  "count P n s = (if length s < n \<or> \<not> list_all P (take n s) then None else Some (take n s, drop n s))"

definition upto1 :: "(char \<Rightarrow> bool) \<Rightarrow> nat \<Rightarrow> string \<Rightarrow> (string \<times> string) option" where
  "upto1 P n s = (let t = takeWhile P (take n s) in if t = [] then None else Some (t, drop (length t) s))"

definition digits :: "string \<Rightarrow> (int \<times> string) option" where
  "digits s = map_option (\<lambda>(t, r). (dec t, r)) (run1 is_digit s)"

definition signed :: "string \<Rightarrow> (int \<times> string) option" where
  "signed s = (case lit ''-'' s of
     Some r \<Rightarrow> map_option (\<lambda>(n, r'). (- n, r')) (digits r)
   | None \<Rightarrow> digits s)"

definition spaces1 :: "string \<Rightarrow> string option" where
  "spaces1 s = map_option snd (run1 is_space s)"

definition word1 :: "string \<Rightarrow> (string \<times> string) option" where
  "word1 s = run1 is_word s"

definition nonspace1 :: "string \<Rightarrow> (string \<times> string) option" where
  "nonspace1 s = run1 (\<lambda>c. \<not> is_space c) s"

text \<open>\<open>\s*$\<close>, and the fraction \<open>\d+\.\d+\<close>, which is matched and not used.\<close>

definition eol :: "string \<Rightarrow> unit option" where
  "eol s = (if list_all is_space s then Some () else None)"

definition fraction :: "string \<Rightarrow> string option" where
  "fraction s = do { (a, s) \<leftarrow> digits s; s \<leftarrow> lit ''.'' s; (b, s) \<leftarrow> digits s; Some s }"

definition opt :: "(string \<Rightarrow> string option) \<Rightarrow> string \<Rightarrow> string" where
  "opt p s = (case p s of Some r \<Rightarrow> r | None \<Rightarrow> s)"

subsection \<open>The lines of a capture\<close>

text \<open>\<open>cpu_hz\<close>, cycles per pair, ring entries, record size.\<close>

definition re_boot_v1 :: "string \<Rightarrow> (int \<times> int \<times> int \<times> int) option" where
  "re_boot_v1 s = do {
     s \<leftarrow> lit ''[PROF] profiling build: ARM clock '' s; (hz, s) \<leftarrow> digits s;
     s \<leftarrow> lit '' Hz (measured), enter/exit pair '' s; (p, s) \<leftarrow> signed s;
     s \<leftarrow> lit '' cyc, ring '' s; (n, s) \<leftarrow> digits s; s \<leftarrow> lit '' x '' s; (sz, s) \<leftarrow> digits s;
     s \<leftarrow> lit '' B'' s; eol s; Some (hz, p, n, sz) }"

text \<open>Version, \<open>cpu_hz\<close>, clock source, cycles per transition, ring entries, record size.\<close>

definition re_boot_v2 :: "string \<Rightarrow> (int \<times> int \<times> string \<times> int \<times> int \<times> int) option" where
  "re_boot_v2 s = do {
     s \<leftarrow> lit ''[PROF] profiling build v'' s; (v, s) \<leftarrow> digits s;
     s \<leftarrow> lit '': ARM clock '' s; (hz, s) \<leftarrow> digits s; s \<leftarrow> lit '' Hz (clk='' s; (clk, s) \<leftarrow> word1 s;
     s \<leftarrow> lit '', PMU:wall '' s; s \<leftarrow> fraction s; s \<leftarrow> lit ''), probe '' s; (p, s) \<leftarrow> signed s;
     s \<leftarrow> lit '' cyc/transition ('' s; (q, s) \<leftarrow> signed s; s \<leftarrow> lit '' cyc/pair), ring '' s;
     (n, s) \<leftarrow> digits s; s \<leftarrow> lit '' x '' s; (sz, s) \<leftarrow> digits s; s \<leftarrow> lit '' B'' s; eol s;
     Some (v, hz, clk, p, n, sz) }"

definition re_probe_cal_3 :: "string \<Rightarrow> (int \<times> int \<times> int \<times> int \<times> int \<times> int) option" where
  "re_probe_cal_3 s = do {
     s \<leftarrow> lit ''[PROF] probe calibration: armed '' s; (a, s) \<leftarrow> digits s;
     s \<leftarrow> lit '' cyc, unarmed '' s; (u, s) \<leftarrow> digits s; s \<leftarrow> lit '' cyc, empty '' s; (e, s) \<leftarrow> digits s;
     s \<leftarrow> lit '' cyc, '' s; (n, s) \<leftarrow> digits s; s \<leftarrow> lit '' pairs -> '' s; (m, s) \<leftarrow> signed s;
     s \<leftarrow> lit '' cyc/transition marginal, '' s; (b, s) \<leftarrow> signed s; s \<leftarrow> lit '' in-bucket'' s; eol s;
     Some (a, u, e, n, m, b) }"

definition re_probe_cal_2 :: "string \<Rightarrow> (int \<times> int \<times> int \<times> int) option" where
  "re_probe_cal_2 s = do {
     s \<leftarrow> lit ''[PROF] probe calibration: armed '' s; (a, s) \<leftarrow> digits s;
     s \<leftarrow> lit '' cyc, unarmed '' s; (u, s) \<leftarrow> digits s; s \<leftarrow> lit '' cyc, '' s; (n, s) \<leftarrow> digits s;
     s \<leftarrow> lit '' pairs -> '' s; (m, s) \<leftarrow> signed s; s \<leftarrow> lit '' cyc/transition marginal'' s; eol s;
     Some (a, u, n, m) }"

definition re_price_bracket :: "string \<Rightarrow> (int \<times> int) option" where
  "re_price_bracket s = do {
     s \<leftarrow> lit ''[PROF] price bracket: '' s; (lo, s) \<leftarrow> signed s;
     s \<leftarrow> lit '' (bodies only, what PROFB gates) .. '' s; (hi, s) \<leftarrow> signed s;
     s \<leftarrow> lit '' (bodies + the call scaffolding'' s;
     let s = dropWhile (\<lambda>c. c \<noteq> CHR '')'') s;
     s \<leftarrow> lit '') cyc/transition -- sweep it, do not pick'' s; eol s; Some (lo, hi) }"

definition re_hdr :: "string \<Rightarrow> string option" where
  "re_hdr s = lit ''[PROF] ring hdr '' s"

definition re_begin :: "string \<Rightarrow> bool" where
  "re_begin s \<longleftrightarrow> do { s \<leftarrow> lit ''[PROF] ring begin'' s; eol s } \<noteq> None"

definition re_end :: "string \<Rightarrow> int option" where
  "re_end s = do { s \<leftarrow> lit ''[PROF] ring end n='' s; (n, s) \<leftarrow> digits s; eol s; Some n }"

definition re_sample :: "string \<Rightarrow> (int \<times> int \<times> int) option" where
  "re_sample s = do {
     s \<leftarrow> lit ''S '' s; (pc, s) \<leftarrow> count is_lower_hex 8 s; s \<leftarrow> lit '' '' s; (op, s) \<leftarrow> count is_lower_hex 4 s;
     s \<leftarrow> lit '' '' s; (fl, s) \<leftarrow> count is_lower_hex 4 s; eol s; Some (hex pc, hex op, hex fl) }"

definition re_stats_top :: "string \<Rightarrow> bool" where
  "re_stats_top s \<longleftrightarrow> do { s \<leftarrow> lit ''[PROF] === stage attribution ==='' s; eol s } \<noteq> None"

definition re_stats_end :: "string \<Rightarrow> bool" where
  "re_stats_end s \<longleftrightarrow> do { s \<leftarrow> lit ''[PROF] === end ==='' s; eol s } \<noteq> None"

text \<open>Version, build flags, \<open>cpu_hz\<close>, \<open>hz\<close>, \<open>period_cyc\<close>, \<open>probe_cyc\<close>; version 2 has the clock source.\<close>

definition re_ver_v1 :: "string \<Rightarrow> (int \<times> int \<times> int \<times> int \<times> int \<times> int) option" where
  "re_ver_v1 s = do {
     s \<leftarrow> lit ''[PROF] ver='' s; (v, s) \<leftarrow> digits s; s \<leftarrow> lit '' build=0x'' s; (b, s) \<leftarrow> run1 is_hex s;
     s \<leftarrow> lit '' cpu_hz='' s; (c, s) \<leftarrow> digits s; s \<leftarrow> lit '' hz='' s; (h, s) \<leftarrow> digits s;
     s \<leftarrow> lit '' period_cyc='' s; (p, s) \<leftarrow> digits s; s \<leftarrow> lit '' probe_cyc='' s; (q, s) \<leftarrow> signed s; eol s;
     Some (v, hex b, c, h, p, q) }"

definition re_ver_v2 :: "string \<Rightarrow> (int \<times> int \<times> int \<times> string \<times> int \<times> int \<times> int) option" where
  "re_ver_v2 s = do {
     s \<leftarrow> lit ''[PROF] ver='' s; (v, s) \<leftarrow> digits s; s \<leftarrow> lit '' build=0x'' s; (b, s) \<leftarrow> run1 is_hex s;
     s \<leftarrow> lit '' cpu_hz='' s; (c, s) \<leftarrow> digits s; s \<leftarrow> lit '' clk='' s; (clk, s) \<leftarrow> word1 s;
     s \<leftarrow> lit '' hz='' s; (h, s) \<leftarrow> digits s; s \<leftarrow> lit '' period_cyc='' s; (p, s) \<leftarrow> digits s;
     s \<leftarrow> lit '' probe_cyc_per_transition='' s; (q, s) \<leftarrow> signed s; eol s;
     Some (v, hex b, c, clk, h, p, q) }"

definition re_total :: "string \<Rightarrow> (int \<times> int \<times> int) option" where
  "re_total s = do {
     s \<leftarrow> lit ''[PROF] total_cyc='' s; (t, s) \<leftarrow> digits s; s \<leftarrow> lit '' wall_ticks='' s; (w, s) \<leftarrow> digits s;
     s \<leftarrow> lit '' wall_hz='' s; (h, s) \<leftarrow> digits s; eol s; Some (t, w, h) }"

definition re_bucket :: "string \<Rightarrow> (int \<times> string \<times> int) option" where
  "re_bucket s = do {
     s \<leftarrow> lit ''[PROF] b '' s; (i, s) \<leftarrow> digits s; s \<leftarrow> spaces1 s; (n, s) \<leftarrow> nonspace1 s; s \<leftarrow> spaces1 s;
     s \<leftarrow> lit ''cyc='' s; (c, s) \<leftarrow> digits s; s \<leftarrow> spaces1 s; s \<leftarrow> fraction s; s \<leftarrow> lit ''%'' s; eol s;
     Some (i, n, c) }"

definition re_counter :: "string \<Rightarrow> (int \<times> string \<times> int) option" where
  "re_counter s = do {
     s \<leftarrow> lit ''[PROF] c '' s; (i, s) \<leftarrow> digits s; s \<leftarrow> spaces1 s; (n, s) \<leftarrow> nonspace1 s; s \<leftarrow> spaces1 s;
     (v, s) \<leftarrow> digits s; eol s; Some (i, n, v) }"

definition is_plus_upper :: "char \<Rightarrow> bool" where
  "is_plus_upper c \<longleftrightarrow> is_upper c \<or> c = CHR ''+''"

definition re_tail :: "string \<Rightarrow> (string \<times> int) option" where
  "re_tail s = do {
     s \<leftarrow> lit ''[PROF] t whole tail ('' s; (n, s) \<leftarrow> run1 is_plus_upper s; s \<leftarrow> lit '') cyc='' s;
     (c, s) \<leftarrow> digits s; s \<leftarrow> spaces1 s; s \<leftarrow> fraction s; s \<leftarrow> lit ''%'' s; Some (n, c) }"

definition re_loop :: "string \<Rightarrow> (string \<times> int) option" where
  "re_loop s = do {
     s \<leftarrow> lit ''[PROF] l whole loop ('' s; (n, s) \<leftarrow> run1 is_plus_upper s; s \<leftarrow> lit '') cyc='' s;
     (c, s) \<leftarrow> digits s; s \<leftarrow> spaces1 s; s \<leftarrow> fraction s; s \<leftarrow> lit ''%'' s; Some (n, c) }"

definition re_loop_split :: "string \<Rightarrow> (int \<times> int) option" where
  "re_loop_split s = do {
     s \<leftarrow> lit ''[PROF] l split cost: '' s; (t, s) \<leftarrow> digits s; s \<leftarrow> lit '' transitions ('' s;
     s \<leftarrow> fraction s; s \<leftarrow> lit ''% of '' s; (n, s) \<leftarrow> digits s; s \<leftarrow> lit '')'' s; Some (t, n) }"

definition rstrip :: "string \<Rightarrow> string" where
  "rstrip s = rev (dropWhile is_space (rev s))"

definition re_loop_says :: "string \<Rightarrow> (string \<times> string) option" where
  "re_loop_says s = do {
     s \<leftarrow> lit ''[PROF] l '' s;
     (case lit ''WARNING'' s of
        Some r \<Rightarrow> map_option (\<lambda>r. (''WARNING'', rstrip r)) (lit '': '' r)
      | None \<Rightarrow> (case lit ''note'' s of
          Some r \<Rightarrow> map_option (\<lambda>r. (''note'', rstrip r)) (lit '': '' r)
        | None \<Rightarrow> None)) }"

definition re_span :: "string \<Rightarrow> (int \<times> string \<times> int \<times> int) option" where
  "re_span s = do {
     s \<leftarrow> lit ''[PROF] s '' s; (i, s) \<leftarrow> digits s; s \<leftarrow> spaces1 s; (n, s) \<leftarrow> nonspace1 s; s \<leftarrow> spaces1 s;
     s \<leftarrow> lit ''spans='' s; (k, s) \<leftarrow> digits s; s \<leftarrow> spaces1 s; s \<leftarrow> lit ''corrected_cyc='' s; (c, s) \<leftarrow> digits s;
     s \<leftarrow> spaces1 s; s \<leftarrow> fraction s; s \<leftarrow> lit ''%'' s; eol s; Some (i, n, k, c) }"

definition re_span_total :: "string \<Rightarrow> (int \<times> int \<times> int) option" where
  "re_span_total s = do {
     s \<leftarrow> lit ''[PROF] s -- corrected_total='' s; (t, s) \<leftarrow> digits s; s \<leftarrow> spaces1 s; s \<leftarrow> lit ''spans='' s;
     (k, s) \<leftarrow> digits s; s \<leftarrow> spaces1 s; s \<leftarrow> lit ''(must equal TRANSITIONS '' s; (n, s) \<leftarrow> digits s;
     Some (t, k, n) }"

definition re_span_hdr :: "string \<Rightarrow> int option" where
  "re_span_hdr s = do {
     s \<leftarrow> lit ''[PROF] === per-bucket spans and the corrected shares (price '' s; (p, s) \<leftarrow> signed s;
     s \<leftarrow> lit '' cyc/span'' s; Some p }"

subsection \<open>Key-value pairs, and the two repairs of dirty lines\<close>

definition is_key :: "char \<Rightarrow> bool" where
  "is_key c \<longleftrightarrow> is_alpha c \<or> c = CHR ''_''"

lemma lit_length: "lit p s = Some r \<Longrightarrow> length s = length p + length r"
  by (induction p s rule: lit.induct) (auto split: if_splits)

lemma run1_length: "run1 P s = Some (t, r) \<Longrightarrow> length s = length t + length r \<and> t \<noteq> []"
  unfolding run1_def Let_def
  by (metis length_append option.discI option.inject prod.inject takeWhile_dropWhile_id)

lemma kv_rest:
  assumes "lit ''='' (dropWhile is_key s) = Some v"
  shows "nonspace1 v = Some (w, r) \<Longrightarrow> length r < Suc (length s)"
proof -
  assume "nonspace1 v = Some (w, r)"
  then have "length r \<le> length v" using run1_length [of _ v w r] by (simp add: nonspace1_def)
  moreover have "length v < length (dropWhile is_key s)" using lit_length [OF assms] by simp
  moreover have "length (dropWhile is_key s) \<le> length s" by (rule length_dropWhile_le)
  ultimately show ?thesis by linarith
qed

text \<open>\<open>RE_KV.findall\<close>: a key run that is not followed by \<open>=\<close> and a value is passed over.\<close>

function re_kv :: "string \<Rightarrow> (string \<times> string) list" where
  "re_kv [] = []"
| "re_kv (c # s) =
     (if \<not> is_key c then re_kv s
      else let k = c # takeWhile is_key s; r = dropWhile is_key s in
        case lit ''='' r of
          Some v \<Rightarrow> (case nonspace1 v of
              Some (w, r') \<Rightarrow> (k, w) # re_kv r'
            | None \<Rightarrow> re_kv r)
        | None \<Rightarrow> re_kv r)"
  by pat_completeness auto
termination
  by (relation "measure length") (auto intro: kv_rest le_imp_less_Suc [OF length_dropWhile_le])

definition kv_dict :: "string \<Rightarrow> (string \<times> string) list" where
  "kv_dict s = fold (\<lambda>(k, v). AList.update k v) (re_kv s) []"

definition HDR_LINE1_KEYS :: "string list" where
  "HDR_LINE1_KEYS = [''magic'', ''version'', ''rec_size'', ''rec_count'', ''ring_entries'', ''hz'',
     ''period_cyc'', ''cpu_hz'']"

definition HDR_LINE2_COMMON :: "string list" where
  "HDR_LINE2_COMMON = [''samples'', ''drops'', ''cyc_span'', ''wall_ticks'', ''wall_hz'']"

definition HDR_KEYS :: "string list list" where
  "HDR_KEYS = [HDR_LINE1_KEYS, HDR_LINE2_COMMON @ [''build''],
     HDR_LINE2_COMMON @ [''build'', ''probe_cyc'', ''clk'']]"

definition HDR_REQUIRED_COMMON :: "string list" where
  "HDR_REQUIRED_COMMON = HDR_LINE1_KEYS @ HDR_LINE2_COMMON"

text \<open>\<open>RE_LOG_PREFIX\<close>: a timestamp, optionally with a date and in brackets, and blanks.\<close>

definition log_date :: "string \<Rightarrow> string option" where
  "log_date s = do {
     (a, s) \<leftarrow> count is_digit 4 s; s \<leftarrow> lit ''-'' s; (b, s) \<leftarrow> count is_digit 2 s; s \<leftarrow> lit ''-'' s;
     (c, s) \<leftarrow> count is_digit 2 s;
     (case s of x # r \<Rightarrow> if x = CHR ''T'' \<or> x = CHR '' '' then Some r else None | [] \<Rightarrow> None) }"

definition log_subsec :: "string \<Rightarrow> string option" where
  "log_subsec s = (case s of
     x # r \<Rightarrow> if x = CHR ''.'' \<or> x = CHR '','' then map_option snd (upto1 is_digit 6 r) else None
   | [] \<Rightarrow> None)"

definition is_blank :: "char \<Rightarrow> bool" where
  "is_blank c \<longleftrightarrow> c = CHR '' '' \<or> ord_c c = 9"

definition re_log_prefix :: "string \<Rightarrow> string option" where
  "re_log_prefix s = do {
     let s = opt log_date (opt (lit ''['') s);
     (a, s) \<leftarrow> upto1 is_digit 2 s; s \<leftarrow> lit '':'' s; (b, s) \<leftarrow> count is_digit 2 s; s \<leftarrow> lit '':'' s;
     (c, s) \<leftarrow> count is_digit 2 s;
     let s = opt (lit '']'') (opt log_subsec s);
     map_option snd (run1 is_blank s) }"

definition contains :: "string \<Rightarrow> string \<Rightarrow> bool" where
  "contains p s \<longleftrightarrow> list_ex (\<lambda>i. lit p (drop i s) \<noteq> None) [0..<Suc (length s)]"

definition begins :: "string \<Rightarrow> string \<Rightarrow> bool" where
  "begins p s \<longleftrightarrow> lit p s \<noteq> None"

definition sample_like :: "string \<Rightarrow> bool" where
  "sample_like s \<longleftrightarrow> begins ''S '' s
     \<or> (case s of a # b # _ \<Rightarrow> a = CHR ''S'' \<and> (is_lower_hex b \<or> b = CHR '' '') | _ \<Rightarrow> False)"

text \<open>\<open>_strip_log_prefix\<close>: the payload, and whether a prefix was removed.\<close>

definition strip_log_prefix :: "string \<Rightarrow> string \<times> bool" where
  "strip_log_prefix line = (case re_log_prefix line of
     None \<Rightarrow> (line, False)
   | Some rest \<Rightarrow>
       if begins ''[PROF]'' rest \<or> sample_like rest \<or> contains ''ring hdr '' rest then (rest, True)
       else (line, False))"

text \<open>\<open>RE_HDR_SALVAGE\<close>: the payload after \<open>ring hdr \<close>, tokens \<open>key=value\<close> separated by one blank.\<close>

fun split_blank :: "string \<Rightarrow> string \<Rightarrow> string list" where
  "split_blank cur [] = [rev cur]"
| "split_blank cur (c # s) = (if c = CHR '' '' then rev cur # split_blank [] s else split_blank (c # cur) s)"

definition kv_token :: "string \<Rightarrow> bool" where
  "kv_token t \<longleftrightarrow> list_all (\<lambda>c. \<not> is_space c) t
     \<and> list_ex (\<lambda>i. t ! i = CHR ''='') [1..<length t - 1]"

definition salvage_at :: "string \<Rightarrow> string option" where
  "salvage_at s = do {
     s \<leftarrow> lit ''ring hdr '' s;
     let p = rstrip s;
     if list_all kv_token (split_blank [] p) then Some p else None }"

fun re_hdr_salvage :: "string \<Rightarrow> string option" where
  "re_hdr_salvage [] = None"
| "re_hdr_salvage (c # s) = (case salvage_at (c # s) of Some p \<Rightarrow> Some p | None \<Rightarrow> re_hdr_salvage s)"

definition same_keys :: "string list \<Rightarrow> (string \<times> string) list \<Rightarrow> bool" where
  "same_keys ks d \<longleftrightarrow> list_all (\<lambda>k. k \<in> set (map fst d)) ks \<and> list_all (\<lambda>k. k \<in> set ks) (map fst d)"

definition salvage_hdr :: "string \<Rightarrow> string option" where
  "salvage_hdr line = (case re_hdr_salvage line of
     None \<Rightarrow> None
   | Some payload \<Rightarrow> if list_ex (\<lambda>ks. same_keys ks (kv_dict payload)) HDR_KEYS then Some payload else None)"

end
