(* ===== verification/Prof_Wire.thy ===== *)
theory Prof_Wire
  imports Py_Base
begin

text \<open>
  The wire contract of the profiler captures, from the head of \<open>src/tools/prof-symbolize.py\<close>: the
  ids of buckets and counters, their names per version, the two shapes of version 2, and the table
  \<open>WIRE_VERSIONS\<close> with the refusal of any other version.
\<close>

subsection \<open>Constants\<close>

definition REC_SIZE :: int where "REC_SIZE = 8"
definition VERSION_ASSUMED :: int where "VERSION_ASSUMED = 1"
definition F_SUPER :: int where "F_SUPER = 0x0001"
definition F_MMU :: int where "F_MMU = 0x0002"
definition F_AMIX :: int where "F_AMIX = 0x0004"
definition F_CPU040 :: int where "F_CPU040 = 0x0008"
definition F_RSVD_MASK :: int where "F_RSVD_MASK = 0x00F0"
definition F_WEIGHT_SH :: nat where "F_WEIGHT_SH = 8"
definition F_WEIGHT_MAX :: int where "F_WEIGHT_MAX = 255"
definition COUNTER_APPEND_BASE :: int where "COUNTER_APPEND_BASE = 20"
definition N_BUCKETS :: int where "N_BUCKETS = 17"

definition MAGICS :: "(int \<times> string) list" where
  "MAGICS = [(1, ''Z3P1''), (2, ''Z3P2'')]"

subsection \<open>Bucket ids and names\<close>

abbreviation B_LOOP :: int where "B_LOOP \<equiv> 0"
abbreviation B_FETCHOP :: int where "B_FETCHOP \<equiv> 1"
abbreviation B_FETCHEX :: int where "B_FETCHEX \<equiv> 2"
abbreviation B_READ :: int where "B_READ \<equiv> 3"
abbreviation B_WRITE :: int where "B_WRITE \<equiv> 4"
abbreviation B_XLATE :: int where "B_XLATE \<equiv> 5"
abbreviation B_WALK :: int where "B_WALK \<equiv> 6"
abbreviation B_HANDLER :: int where "B_HANDLER \<equiv> 7"
abbreviation B_TAIL :: int where "B_TAIL \<equiv> 8"
abbreviation B_FAULT :: int where "B_FAULT \<equiv> 9"
abbreviation B_PROF :: int where "B_PROF \<equiv> 10"
abbreviation B_TAILSAMP :: int where "B_TAILSAMP \<equiv> 11"
abbreviation B_TAILPOLL :: int where "B_TAILPOLL \<equiv> 12"
abbreviation B_TAILSPEC :: int where "B_TAILSPEC \<equiv> 13"
abbreviation B_DOPCFIND :: int where "B_DOPCFIND \<equiv> 14"
abbreviation B_DOPCFILL :: int where "B_DOPCFILL \<equiv> 15"
abbreviation B_BLKREC :: int where "B_BLKREC \<equiv> 16"

definition BUCKET_NAMES_V1 :: "string list" where
  "BUCKET_NAMES_V1 =
    [''LOOP'', ''FETCHOP'', ''FETCHEX'', ''READ'', ''WRITE'', ''XLATE'', ''WALK'', ''HANDLER'',
     ''TAIL'', ''FAULT'', ''PROF'']"

definition BUCKET_NAMES_V2 :: "string list" where
  "BUCKET_NAMES_V2 =
    [''LOOP'', ''FETCHOP'', ''FETCHEX'', ''READ'', ''WRITE'', ''XLATE'', ''WALK'', ''HANDLER'',
     ''TAILADV'', ''FAULT'', ''PROF'', ''TAILSAMP'', ''TAILPOLL'', ''TAILSPEC'']"

definition BUCKET_NAMES_V2_1D :: "string list" where
  "BUCKET_NAMES_V2_1D =
    [''LOOPRES'', ''FETCHOP'', ''FETCHEX'', ''READ'', ''WRITE'', ''XLATE'', ''WALK'', ''HANDLER'',
     ''TAILADV'', ''FAULT'', ''PROF'', ''TAILSAMP'', ''TAILPOLL'', ''TAILSPEC'', ''DOPCFIND'', ''DOPCFILL'',
     ''BLKREC'']"


definition LOOP_IDS_1D :: "int list" where
  "LOOP_IDS_1D = [B_LOOP, B_DOPCFIND, B_DOPCFILL, B_BLKREC]"

definition SPLIT_IDS :: "int list" where
  "SPLIT_IDS = [B_DOPCFIND, B_DOPCFILL, B_BLKREC]"

text \<open>A shape: its label, its bucket names, and the ids whose sum is the whole dispatch loop.\<close>

type_synonym shape = "string \<times> string list \<times> int list"

definition BUCKET_SHAPES_V1 :: "(string \<times> shape) list" where
  "BUCKET_SHAPES_V1 = [(''LOOP'', ''version 1'', BUCKET_NAMES_V1, [B_LOOP])]"

definition BUCKET_SHAPES_V2 :: "(string \<times> shape) list" where
  "BUCKET_SHAPES_V2 =
     [(''LOOP'', ''pre-rung-1d'', BUCKET_NAMES_V2, [B_LOOP]),
      (''LOOPRES'', ''rung 1d'', BUCKET_NAMES_V2_1D, LOOP_IDS_1D)]"

subsection \<open>Counter ids and names\<close>

abbreviation C_INSNS :: int where "C_INSNS \<equiv> 0"
abbreviation C_INSNS_SUPER :: int where "C_INSNS_SUPER \<equiv> 1"
abbreviation C_FETCH :: int where "C_FETCH \<equiv> 2"
abbreviation C_READ :: int where "C_READ \<equiv> 3"
abbreviation C_WRITE :: int where "C_WRITE \<equiv> 4"
abbreviation C_IPAGE_HIT :: int where "C_IPAGE_HIT \<equiv> 5"
abbreviation C_IPAGE_MISS :: int where "C_IPAGE_MISS \<equiv> 6"
abbreviation C_DPAGE_RHIT :: int where "C_DPAGE_RHIT \<equiv> 7"
abbreviation C_DPAGE_RMISS :: int where "C_DPAGE_RMISS \<equiv> 8"
abbreviation C_DPAGE_WHIT :: int where "C_DPAGE_WHIT \<equiv> 9"
abbreviation C_DPAGE_WMISS :: int where "C_DPAGE_WMISS \<equiv> 10"
abbreviation C_XLATE :: int where "C_XLATE \<equiv> 11"
abbreviation C_XLATE_OK :: int where "C_XLATE_OK \<equiv> 12"
abbreviation C_ATC_MISS :: int where "C_ATC_MISS \<equiv> 13"
abbreviation C_MISALIGN_R :: int where "C_MISALIGN_R \<equiv> 14"
abbreviation C_MISALIGN_W :: int where "C_MISALIGN_W \<equiv> 15"
abbreviation C_FAULTS :: int where "C_FAULTS \<equiv> 16"
abbreviation C_TRANSITIONS :: int where "C_TRANSITIONS \<equiv> 17"
abbreviation C_STACK_OVF :: int where "C_STACK_OVF \<equiv> 18"
abbreviation C_ATC_HIT :: int where "C_ATC_HIT \<equiv> 19"
abbreviation C_IFETCH_CALLS :: int where "C_IFETCH_CALLS \<equiv> 20"
abbreviation C_BLK_HIT :: int where "C_BLK_HIT \<equiv> 21"
abbreviation C_BLK_INSNS :: int where "C_BLK_INSNS \<equiv> 22"
abbreviation C_BLK_BYTES :: int where "C_BLK_BYTES \<equiv> 23"
abbreviation C_DOPC_HIT :: int where "C_DOPC_HIT \<equiv> 24"
abbreviation C_DOPC_MISS :: int where "C_DOPC_MISS \<equiv> 25"
abbreviation C_DOPC_EXT :: int where "C_DOPC_EXT \<equiv> 26"
abbreviation C_DOPC_INVAL :: int where "C_DOPC_INVAL \<equiv> 27"
abbreviation C_IV_FLUSH :: int where "C_IV_FLUSH \<equiv> 28"
abbreviation C_IV_ROOT :: int where "C_IV_ROOT \<equiv> 29"
abbreviation C_IV_DMA :: int where "C_IV_DMA \<equiv> 30"
abbreviation C_IV_TABLE :: int where "C_IV_TABLE \<equiv> 31"
abbreviation C_IV_KNOB :: int where "C_IV_KNOB \<equiv> 32"
abbreviation C_IV_WRAP :: int where "C_IV_WRAP \<equiv> 33"
abbreviation C_IV_MAP :: int where "C_IV_MAP \<equiv> 34"
abbreviation C_IV_PFLUSH :: int where "C_IV_PFLUSH \<equiv> 35"
abbreviation C_IV_PFLUSHA :: int where "C_IV_PFLUSHA \<equiv> 36"
abbreviation C_IV_CACR :: int where "C_IV_CACR \<equiv> 37"
abbreviation C_IV_CACR_SKIP :: int where "C_IV_CACR_SKIP \<equiv> 38"
abbreviation C_DOPC_WAY0 :: int where "C_DOPC_WAY0 \<equiv> 39"
abbreviation C_DOPC_WAY1 :: int where "C_DOPC_WAY1 \<equiv> 40"
abbreviation C_DOPC_WAY2 :: int where "C_DOPC_WAY2 \<equiv> 41"
abbreviation C_DOPC_WAY3 :: int where "C_DOPC_WAY3 \<equiv> 42"
abbreviation C_MISALIGN_I :: int where "C_MISALIGN_I \<equiv> 43"
abbreviation C_DFAST_HIT :: int where "C_DFAST_HIT \<equiv> 44"
abbreviation C_DFAST_XPAR :: int where "C_DFAST_XPAR \<equiv> 45"
abbreviation C_RETIRED_46 :: int where "C_RETIRED_46 \<equiv> 46"
abbreviation C_WARP_ENTER :: int where "C_WARP_ENTER \<equiv> 47"
abbreviation C_WARP_BLK :: int where "C_WARP_BLK \<equiv> 48"
abbreviation C_WARP_INSNS :: int where "C_WARP_INSNS \<equiv> 49"
abbreviation C_WARP_BAIL :: int where "C_WARP_BAIL \<equiv> 50"
abbreviation C_WARP_BAIL_ST :: int where "C_WARP_BAIL_ST \<equiv> 51"
abbreviation C_WARP_COMPILE :: int where "C_WARP_COMPILE \<equiv> 52"
abbreviation C_WARP_CINSNS :: int where "C_WARP_CINSNS \<equiv> 53"
abbreviation C_WARP_CBYTES :: int where "C_WARP_CBYTES \<equiv> 54"
abbreviation C_WARP_CFETCH :: int where "C_WARP_CFETCH \<equiv> 55"
abbreviation C_WARP_DISC :: int where "C_WARP_DISC \<equiv> 56"
abbreviation C_WARP_DISC_ROOT :: int where "C_WARP_DISC_ROOT \<equiv> 57"
abbreviation C_WARP_FLUSH :: int where "C_WARP_FLUSH \<equiv> 58"
abbreviation C_WARP_DECLINE :: int where "C_WARP_DECLINE \<equiv> 59"
abbreviation C_WARP_EVICT :: int where "C_WARP_EVICT \<equiv> 60"

definition COUNTER_NAMES_V1 :: "string list" where
  "COUNTER_NAMES_V1 =
    [''INSNS'', ''INSNS_SUPER'', ''FETCH'', ''READ'', ''WRITE'', ''IPAGE_HIT'', ''IPAGE_MISS'', ''DPAGE_RHIT'',
     ''DPAGE_RMISS'', ''DPAGE_WHIT'', ''DPAGE_WMISS'', ''XLATE'', ''ATC_HIT'', ''ATC_MISS'', ''MISALIGN_R'', ''MISALIGN_W'',
     ''FAULTS'', ''TRANSITIONS'', ''STACK_OVF'']"

definition COUNTER_NAMES_V2 :: "string list" where
  "COUNTER_NAMES_V2 =
    [''INSNS'', ''INSNS_SUPER'', ''FETCH'', ''READ'', ''WRITE'', ''IPAGE_HIT'', ''IPAGE_MISS'', ''DPAGE_RHIT'',
     ''DPAGE_RMISS'', ''DPAGE_WHIT'', ''DPAGE_WMISS'', ''XLATE'', ''XLATE_OK'', ''ATC_MISS'', ''MISALIGN_R'', ''MISALIGN_W'',
     ''FAULTS'', ''TRANSITIONS'', ''STACK_OVF'', ''ATC_HIT'', ''IFETCH_CALLS'', ''BLK_HIT'', ''BLK_INSNS'', ''BLK_BYTES'',
     ''DOPC_HIT'', ''DOPC_MISS'', ''DOPC_EXT'', ''DOPC_INVAL'', ''IV_FLUSH'', ''IV_ROOT'', ''IV_DMA'', ''IV_TABLE'',
     ''IV_KNOB'', ''IV_WRAP'', ''IV_MAP'', ''IV_PFLUSH'', ''IV_PFLUSHA'', ''IV_CACR'', ''IV_CACR_SKIP'', ''DOPC_WAY0'',
     ''DOPC_WAY1'', ''DOPC_WAY2'', ''DOPC_WAY3'', ''MISALIGN_I'', ''DFAST_HIT'', ''DFAST_XPAR'', ''(retired)'', ''WARP_ENTER'',
     ''WARP_BLK'', ''WARP_INSNS'', ''WARP_BAIL'', ''WARP_BAIL_ST'', ''WARP_COMPILE'', ''WARP_CINSNS'', ''WARP_CBYTES'', ''WARP_CFETCH'',
     ''WARP_DISC'', ''WARP_DISC_ROOT'', ''WARP_FLUSH'', ''WARP_DECLINE'', ''WARP_EVICT'']"


definition IV_CAUSE_IDS :: "int list" where
  "IV_CAUSE_IDS = [C_IV_FLUSH..C_IV_CACR]"

subsection \<open>The version seam\<close>

record semantics =
  probe_unit :: string
  probe_unit_short :: string
  transitions_per_probe_unit :: int
  probe_exceeds_total_is_fatal :: bool
  bucket_names :: "string list"
  counter_names :: "string list"
  hdr_extra_keys :: "string list"
  has_clk :: bool
  tail_ids :: "int list"
  loop_ids :: "int list"
  bucket_shapes :: "(string \<times> shape) list"
  tail_instrument_id :: "int option"
  atc_hit_id :: "int option"
  id12_name :: string
  atc_hit_means :: string
  atc_hit_identity :: string
  tier0_identity :: string
  atc_sum_identity :: "string option"
  counter_append_base :: "int option"

definition WIRE_V1 :: semantics where
  "WIRE_V1 = \<lparr> probe_unit = ''enter/exit pair'', probe_unit_short = ''pair'',
     transitions_per_probe_unit = 2, probe_exceeds_total_is_fatal = False,
     bucket_names = BUCKET_NAMES_V1, counter_names = COUNTER_NAMES_V1, hdr_extra_keys = [],
     has_clk = False, tail_ids = [B_TAIL], loop_ids = [B_LOOP], bucket_shapes = BUCKET_SHAPES_V1,
     tail_instrument_id = None, atc_hit_id = None, id12_name = ''ATC_HIT'',
     atc_hit_means = ''translates that SUCCEEDED, not ATC lookups that hit'',
     atc_hit_identity = ''ATC_HIT + FAULTS == XLATE'',
     tier0_identity = ''IPAGE_MISS + DPAGE_RMISS + DPAGE_WMISS == XLATE'', atc_sum_identity = None,
     counter_append_base = None \<rparr>"

definition WIRE_V2 :: semantics where
  "WIRE_V2 = \<lparr> probe_unit = ''phase transition'', probe_unit_short = ''transition'',
     transitions_per_probe_unit = 1, probe_exceeds_total_is_fatal = True,
     bucket_names = BUCKET_NAMES_V2, counter_names = COUNTER_NAMES_V2,
     hdr_extra_keys = [''probe_cyc'', ''clk''], has_clk = True,
     tail_ids = [B_TAIL, B_TAILSAMP, B_TAILPOLL, B_TAILSPEC], loop_ids = [B_LOOP],
     bucket_shapes = BUCKET_SHAPES_V2, tail_instrument_id = Some B_TAILSAMP,
     atc_hit_id = Some C_ATC_HIT, id12_name = ''XLATE_OK'',
     atc_hit_means = ''translates that RETURNED AN ADDRESS'',
     atc_hit_identity = ''XLATE_OK + FAULTS == XLATE'',
     tier0_identity = ''IPAGE_MISS + DPAGE_RMISS + DPAGE_WMISS == XLATE'',
     atc_sum_identity = Some ''ATC_HIT + ATC_MISS == XLATE (when no translate faulted)'',
     counter_append_base = Some COUNTER_APPEND_BASE \<rparr>"

definition WIRE_VERSIONS :: "(int \<times> semantics) list" where
  "WIRE_VERSIONS = [(1, WIRE_V1), (2, WIRE_V2)]"

definition WIRE_VERSIONS_PENDING :: "(int \<times> string) list" where
  "WIRE_VERSIONS_PENDING = []"

definition wire_semantics :: "int \<Rightarrow> exn + semantics" where
  "wire_semantics version = (case map_of WIRE_VERSIONS version of
     Some sem \<Rightarrow> Inr sem
   | None \<Rightarrow> (case map_of WIRE_VERSIONS_PENDING version of
       Some pending \<Rightarrow> Inl (CaptureError ''version pending'')
     | None \<Rightarrow> Inl (CaptureError ''version not implemented'')))"

definition version_grammar_mismatch :: "exn + 'a" where
  "version_grammar_mismatch = Inl (CaptureError ''version and grammar disagree'')"

lemma wire_semantics_Inr: "wire_semantics v = Inr sem \<longleftrightarrow> v = 1 \<and> sem = WIRE_V1 \<or> v = 2 \<and> sem = WIRE_V2"
  by (auto simp: wire_semantics_def WIRE_VERSIONS_def WIRE_VERSIONS_PENDING_def)

lemma wire_semantics_Inl: "wire_semantics v = Inl e \<Longrightarrow> \<exists>m. e = CaptureError m"
  by (auto simp: wire_semantics_def split: option.splits)

lemma names_lengths:
  "length BUCKET_NAMES_V1 = 11" "length BUCKET_NAMES_V2 = 14" "length BUCKET_NAMES_V2_1D = 17"
  "length COUNTER_NAMES_V1 = 19" "length COUNTER_NAMES_V2 = 61"
  by (simp_all add: BUCKET_NAMES_V1_def BUCKET_NAMES_V2_def BUCKET_NAMES_V2_1D_def COUNTER_NAMES_V1_def
      COUNTER_NAMES_V2_def)

subsection \<open>Properties\<close>

text \<open>
  The ids are append-only: version 2 keeps every bucket and counter id of version 1 where it was,
  and what it renames is exactly bucket 8 and counter 12; rung 1d renames only bucket 0 and appends
  three.  No table names two ids alike, so a name determines its id.
\<close>

theorem ids_append_only:
  "take 19 COUNTER_NAMES_V2 = COUNTER_NAMES_V1[12 := ''XLATE_OK'']
   \<and> take 11 BUCKET_NAMES_V2 = BUCKET_NAMES_V1[8 := ''TAILADV'']
   \<and> take 14 BUCKET_NAMES_V2_1D = BUCKET_NAMES_V2[0 := ''LOOPRES'']
   \<and> map (\<lambda>i. BUCKET_NAMES_V2_1D ! nat i) SPLIT_IDS = [''DOPCFIND'', ''DOPCFILL'', ''BLKREC'']
   \<and> distinct COUNTER_NAMES_V2 \<and> distinct BUCKET_NAMES_V2_1D"
  by (simp add: COUNTER_NAMES_V1_def COUNTER_NAMES_V2_def BUCKET_NAMES_V1_def BUCKET_NAMES_V2_def
      BUCKET_NAMES_V2_1D_def SPLIT_IDS_def)

end
