(* ===== verification/Prof_Capture.thy ===== *)
theory Prof_Capture
  imports Prof_Scan Prof_Wire
begin

text \<open>
  The capture parser of \<open>src/tools/prof-symbolize.py\<close> (\<open>parse_capture\<close> and what it calls): one step
  per line over an explicit parser state, with every refusal as a value.  The file is given as its
  lines; warnings keep what identifies them and not their wording.
\<close>

subsection \<open>State\<close>

datatype warning =
    Header_repaired nat string
  | Opener_missing nat
  | Shape_conflict nat string string int
  | Beyond_table nat string int nat int string
  | Name_drift nat string int string string int
  | Interleaved nat nat nat string
  | Unclosed_stats nat
  | Log_prefix nat nat
  | Calibration_only int

type_synonym sample = "int \<times> int \<times> int"

record ring =
  r_hdr :: "(string \<times> string) list"
  r_samples :: "sample list"
  r_first_line :: nat
  r_last_line :: nat
  r_noise_lines :: "(nat \<times> string) list"
  r_sem :: "semantics option"

record stats =
  s_first_line :: nat
  s_last_line :: nat
  s_ver :: "int option"
  s_sem :: "semantics option"
  s_build :: int
  s_cpu_hz :: int
  s_hz :: int
  s_period_cyc :: int
  s_probe_cyc :: int
  s_clk :: "string option"
  s_total_cyc :: int
  s_wall_ticks :: int
  s_wall_hz :: int
  s_buckets :: "(int \<times> int) list"
  s_counters :: "(int \<times> int) list"
  s_tail_cyc :: "int option"
  s_tail_line :: nat
  s_bshape :: "string option"
  s_bnames :: "string list option"
  s_loop_ids :: "int list option"
  s_shape_conflict :: "nat option"
  s_loop_cyc :: "int option"
  s_loop_names :: "string option"
  s_loop_line :: nat
  s_split_trans :: "int option"
  s_split_of :: "int option"
  s_split_line :: nat
  s_loop_says :: "(string \<times> string \<times> nat) list"
  s_spans :: "(int \<times> int) list"
  s_span_corrected :: "(int \<times> int) list"
  s_span_price :: "int option"
  s_span_total :: "int option"
  s_span_sum :: "int option"
  s_span_trans :: "int option"
  s_span_line :: nat

text \<open>The calibration dictionary: an absent key and a \<open>None\<close> value are both \<open>None\<close>.\<close>

record calib =
  c_armed :: "int option"
  c_unarmed :: "int option"
  c_empty :: "int option"
  c_pairs :: "int option"
  c_marginal :: "int option"
  c_in_bucket :: "int option"
  c_passes :: "int option"
  c_cal_line :: "int option"
  c_bracket_lo :: "int option"
  c_bracket_hi :: "int option"
  c_bracket_line :: "int option"

record boot =
  b_version :: int
  b_cpu_hz :: int
  b_clk :: "string option"
  b_probe_cyc :: int
  b_ring_entries :: int
  b_rec_size :: int
  b_line :: int
  b_cal_only :: bool
  b_cal :: "calib option"

record parser =
  warnings :: "warning list"
  boot_line :: "boot option"
  cal :: "calib option"
  rings :: "ring list"
  dumps :: "stats list"
  cur_ring :: "ring option"
  cur_stats :: "stats option"
  pending_hdr :: "(string \<times> string) list"
  pending_hdr_line :: nat
  prefixed :: nat
  first_prefix_line :: nat

definition new_ring :: ring where
  "new_ring = \<lparr> r_hdr = [], r_samples = [], r_first_line = 0, r_last_line = 0, r_noise_lines = [], r_sem = None \<rparr>"

definition new_stats :: stats where
  "new_stats = \<lparr> s_first_line = 0, s_last_line = 0, s_ver = None, s_sem = None, s_build = 0, s_cpu_hz = 0,
     s_hz = 0, s_period_cyc = 0, s_probe_cyc = 0, s_clk = None, s_total_cyc = 0, s_wall_ticks = 0,
     s_wall_hz = 0, s_buckets = [], s_counters = [], s_tail_cyc = None, s_tail_line = 0,
     s_bshape = None, s_bnames = None, s_loop_ids = None, s_shape_conflict = None, s_loop_cyc = None,
     s_loop_names = None, s_loop_line = 0, s_split_trans = None, s_split_of = None, s_split_line = 0,
     s_loop_says = [], s_spans = [], s_span_corrected = [], s_span_price = None, s_span_total = None,
     s_span_sum = None, s_span_trans = None, s_span_line = 0 \<rparr>"

definition new_calib :: calib where
  "new_calib = \<lparr> c_armed = None, c_unarmed = None, c_empty = None, c_pairs = None, c_marginal = None,
     c_in_bucket = None, c_passes = None, c_cal_line = None, c_bracket_lo = None, c_bracket_hi = None,
     c_bracket_line = None \<rparr>"

definition new_parser :: parser where
  "new_parser = \<lparr> warnings = [], boot_line = None, cal = None, rings = [], dumps = [], cur_ring = None,
     cur_stats = None, pending_hdr = [], pending_hdr_line = 0, prefixed = 0, first_prefix_line = 0 \<rparr>"

definition warn :: "warning \<Rightarrow> parser \<Rightarrow> parser" where
  "warn w ps = ps\<lparr>warnings := warnings ps @ [w]\<rparr>"

definition the_calib :: "parser \<Rightarrow> calib" where
  "the_calib ps = (case cal ps of Some c \<Rightarrow> c | None \<Rightarrow> new_calib)"

subsection \<open>Headers and terminators of a ring\<close>

text \<open>
  \<open>int(s)\<close> on a token without blanks: a sign, digits, and single underscores between digits.
\<close>

fun int_body :: "string \<Rightarrow> bool" where
  "int_body [] = False"
| "int_body [c] = is_digit c"
| "int_body (c # d # s) = (is_digit c \<and> (if d = CHR ''_'' then int_body s else int_body (d # s)))"

definition py_int :: "string \<Rightarrow> exn + int" where
  "py_int s = (let (neg, t) = (case s of
       c # r \<Rightarrow> if c = CHR ''-'' then (True, r) else if c = CHR ''+'' then (False, r) else (False, s)
     | [] \<Rightarrow> (False, s)) in
     if int_body t
     then Inr (let n = dec (filter is_digit t) in if neg then - n else n)
     else Inl ValueError)"

definition missing :: "(string \<times> string) list \<Rightarrow> string list \<Rightarrow> string \<Rightarrow> exn + unit" where
  "missing h required what =
     (if list_all (\<lambda>k. map_of h k \<noteq> None) required then Inr ()
      else Inl (CaptureError (what @ '' is missing keys'')))"

definition check_ring_header :: "ring \<Rightarrow> exn + ring" where
  "check_ring_header ring =
     (let h = r_hdr ring in
      bind_e (missing h HDR_REQUIRED_COMMON ''ring header'') (\<lambda>_.
      bind_e (case map_of h ''version'' of Some v \<Rightarrow> py_int v | None \<Rightarrow> Inr (- 1)) (\<lambda>version.
      bind_e (wire_semantics version) (\<lambda>sem.
      let magic = map_of h ''magic'' in
      bind_e (case map_of MAGICS version of Some m \<Rightarrow> Inr m | None \<Rightarrow> Inl (KeyError ''MAGICS'')) (\<lambda>want.
      if magic \<noteq> Some want then
        (if magic \<in> Some ` snd ` set MAGICS then Inl (CaptureError ''ring header magic of another version'')
         else Inl (CaptureError ''ring header magic unknown''))
      else
        bind_e (if hdr_extra_keys sem \<noteq> [] then missing h (hdr_extra_keys sem) ''version ring header'' else Inr ()) (\<lambda>_.
        bind_e (case map_of h ''rec_size'' of Some v \<Rightarrow> py_int v | None \<Rightarrow> Inr (- 1)) (\<lambda>rs.
        if rs \<noteq> REC_SIZE then Inl (CaptureError ''rec_size'')
        else Inr (ring\<lparr>r_sem := Some sem\<rparr>))))))))"

definition close_ring :: "ring \<Rightarrow> int \<Rightarrow> parser \<Rightarrow> exn + parser" where
  "close_ring ring promised ps =
     bind_e (case map_of (r_hdr ring) ''rec_count'' of Some v \<Rightarrow> py_int v | None \<Rightarrow> Inl (KeyError ''rec_count'')) (\<lambda>rec_count.
     let got = int (length (r_samples ring)) in
     if promised \<noteq> rec_count then Inl (CaptureError ''header and terminator disagree'')
     else if got \<noteq> promised then Inl (CaptureError ''sample lines lost'')
     else Inr (case r_noise_lines ring of
         [] \<Rightarrow> ps
       | (n, l) # _ \<Rightarrow> warn (Interleaved (r_first_line ring) (length (r_noise_lines ring)) n l) ps))"

subsection \<open>Names and shapes of a stats dump\<close>

definition bucket_names_of :: "stats \<Rightarrow> semantics \<Rightarrow> string list" where
  "bucket_names_of st sem = (case s_bnames st of Some ns \<Rightarrow> ns | None \<Rightarrow> bucket_names sem)"

definition loop_ids_of :: "stats \<Rightarrow> semantics \<Rightarrow> int list" where
  "loop_ids_of st sem = (case s_loop_ids st of Some ids \<Rightarrow> ids | None \<Rightarrow> loop_ids sem)"

definition resolve_shape ::
  "semantics \<Rightarrow> int \<Rightarrow> string \<Rightarrow> nat \<Rightarrow> stats \<times> parser \<Rightarrow> stats \<times> parser" where
  "resolve_shape sem bid name no = (\<lambda>(st, ps).
     if bid = 0 then
       (case map_of (bucket_shapes sem) name of
          Some (label, names, ids) \<Rightarrow>
            if s_bshape st = None
            then (st\<lparr>s_bshape := Some label, s_bnames := Some names, s_loop_ids := Some ids\<rparr>, ps)
            else (st, ps)
        | None \<Rightarrow> (st, ps))
     else (case s_bnames st of
         Some names \<Rightarrow>
           if bid \<in> set SPLIT_IDS \<and> int (length names) \<le> bid \<and> name = BUCKET_NAMES_V2_1D ! nat bid
              \<and> s_shape_conflict st = None
           then (st\<lparr>s_shape_conflict := Some no\<rparr>, warn (Shape_conflict no (names ! 0) name bid) ps)
           else (st, ps)
       | None \<Rightarrow> (st, ps)))"

definition check_name ::
  "int \<Rightarrow> string \<Rightarrow> string list \<Rightarrow> string \<Rightarrow> nat \<Rightarrow> int \<Rightarrow> parser \<Rightarrow> parser" where
  "check_name idx name table what no ver ps =
     (if int (length table) \<le> idx then warn (Beyond_table no what idx (length table) ver name) ps
      else if table ! nat idx \<noteq> name then warn (Name_drift no what idx name (table ! nat idx) ver) ps
      else ps)"

subsection \<open>One line\<close>

text \<open>Between \<open>ring begin\<close> and \<open>ring end\<close>.\<close>

definition ring_step :: "nat \<Rightarrow> string \<Rightarrow> ring \<Rightarrow> parser \<Rightarrow> exn + parser" where
  "ring_step no line ring ps = (case re_sample line of
     Some x \<Rightarrow> Inr (ps\<lparr>cur_ring := Some (ring\<lparr>r_samples := r_samples ring @ [x]\<rparr>)\<rparr>)
   | None \<Rightarrow> (case re_end line of
       Some promised \<Rightarrow>
         (let ring' = ring\<lparr>r_last_line := no\<rparr> in
          bind_e (close_ring ring' promised ps) (\<lambda>ps'. Inr (ps'\<lparr>rings := rings ps' @ [ring'], cur_ring := None\<rparr>)))
     | None \<Rightarrow>
         if sample_like line then Inl (CaptureError ''malformed sample line'')
         else if list_all is_space line then Inr ps
         else Inr (ps\<lparr>cur_ring := Some (ring\<lparr>r_noise_lines := r_noise_lines ring @ [(no, line)]\<rparr>)\<rparr>)))"

text \<open>The rows of a stats dump, tried in the order of the code; an unknown line is passed over.\<close>

definition put :: "stats \<Rightarrow> parser \<Rightarrow> exn + parser" where
  "put st ps = Inr (ps\<lparr>cur_stats := Some st\<rparr>)"

definition stats_rows :: "nat \<Rightarrow> string \<Rightarrow> stats \<Rightarrow> parser \<Rightarrow> exn + parser" where
  "stats_rows no line st ps =
     (let sem = (case s_sem st of Some sem \<Rightarrow> sem | None \<Rightarrow> the (map_of WIRE_VERSIONS VERSION_ASSUMED));
          sver = (case s_ver st of Some v \<Rightarrow> v | None \<Rightarrow> VERSION_ASSUMED) in
      case re_bucket line of Some (bid, name, cyc) \<Rightarrow>
        (let (st, ps) = resolve_shape sem bid name no (st, ps);
             ps = check_name bid name (bucket_names_of st sem) ''bucket'' no sver ps
         in put (st\<lparr>s_buckets := AList.update bid cyc (s_buckets st)\<rparr>) ps)
      | None \<Rightarrow>
      (case re_span line of Some (bid, name, k, c) \<Rightarrow>
        (let (st, ps) = resolve_shape sem bid name no (st, ps);
             ps = check_name bid name (bucket_names_of st sem) ''bucket'' no sver ps
         in put (st\<lparr>s_spans := AList.update bid k (s_spans st),
                    s_span_corrected := AList.update bid c (s_span_corrected st)\<rparr>) ps)
      | None \<Rightarrow>
      (case re_counter line of Some (cid, name, val) \<Rightarrow>
        (let ps = check_name cid name (counter_names sem) ''counter'' no sver ps
         in put (st\<lparr>s_counters := AList.update cid val (s_counters st)\<rparr>) ps)
      | None \<Rightarrow>
      if re_stats_end line
      then Inr (ps\<lparr>dumps := dumps ps @ [st\<lparr>s_last_line := no\<rparr>], cur_stats := None\<rparr>)
      else put st ps)))"

definition stats_step :: "nat \<Rightarrow> string \<Rightarrow> stats \<Rightarrow> parser \<Rightarrow> exn + parser" where
  "stats_step no line st ps =
     (case re_ver_v2 line of Some (v, build, cpu, clk, hz, per, probe) \<Rightarrow>
        if v \<noteq> 2 then version_grammar_mismatch
        else bind_e (wire_semantics v) (\<lambda>sem.
          put (st\<lparr>s_ver := Some v, s_build := build, s_cpu_hz := cpu, s_clk := Some clk, s_hz := hz,
                  s_period_cyc := per, s_probe_cyc := probe, s_sem := Some sem\<rparr>) ps)
      | None \<Rightarrow>
      (case re_ver_v1 line of Some (v, build, cpu, hz, per, probe) \<Rightarrow>
        if v \<noteq> 1 \<and> map_of WIRE_VERSIONS v \<noteq> None then version_grammar_mismatch
        else bind_e (wire_semantics v) (\<lambda>sem.
          put (st\<lparr>s_ver := Some v, s_build := build, s_cpu_hz := cpu, s_hz := hz, s_period_cyc := per,
                  s_probe_cyc := probe, s_sem := Some sem\<rparr>) ps)
      | None \<Rightarrow>
      (case re_tail line of Some (names, c) \<Rightarrow> put (st\<lparr>s_tail_cyc := Some c, s_tail_line := no\<rparr>) ps
      | None \<Rightarrow>
      (case re_loop line of Some (names, c) \<Rightarrow>
        put (st\<lparr>s_loop_names := Some names, s_loop_cyc := Some c, s_loop_line := no\<rparr>) ps
      | None \<Rightarrow>
      (case re_loop_split line of Some (t, n) \<Rightarrow>
        put (st\<lparr>s_split_trans := Some t, s_split_of := Some n, s_split_line := no\<rparr>) ps
      | None \<Rightarrow>
      (case re_loop_says line of Some (kind, text) \<Rightarrow>
        put (st\<lparr>s_loop_says := s_loop_says st @ [(kind, text, no)]\<rparr>) ps
      | None \<Rightarrow>
      (case re_span_hdr line of Some p \<Rightarrow> put (st\<lparr>s_span_price := Some p, s_span_line := no\<rparr>) ps
      | None \<Rightarrow>
      (case re_span_total line of Some (t, k, n) \<Rightarrow>
        put (st\<lparr>s_span_total := Some t, s_span_sum := Some k, s_span_trans := Some n\<rparr>) ps
      | None \<Rightarrow>
      (case re_total line of Some (t, w, h) \<Rightarrow>
        put (st\<lparr>s_total_cyc := t, s_wall_ticks := w, s_wall_hz := h\<rparr>) ps
      | None \<Rightarrow> stats_rows no line st ps)))))))))"

text \<open>
  Outside a ring: the boot and calibration lines, the ring header (repaired when only its prefix is
  lost), \<open>ring begin\<close>, and the stats dump, which a version line opens when its banner is lost.
\<close>

definition opens_stats :: "string \<Rightarrow> bool" where
  "opens_stats line \<longleftrightarrow> re_ver_v2 line \<noteq> None \<or> re_ver_v1 line \<noteq> None"

definition dump_step :: "nat \<Rightarrow> string \<Rightarrow> parser \<Rightarrow> exn + parser" where
  "dump_step no line ps =
     (if re_begin line then
        (if pending_hdr ps = [] then Inl (CaptureError ''ring begin without header'')
         else bind_e (check_ring_header (new_ring\<lparr>r_hdr := pending_hdr ps, r_first_line := pending_hdr_line ps\<rparr>))
           (\<lambda>ring. Inr (ps\<lparr>cur_ring := Some ring, pending_hdr := [], pending_hdr_line := 0\<rparr>)))
      else if re_stats_top line then Inr (ps\<lparr>cur_stats := Some (new_stats\<lparr>s_first_line := no\<rparr>)\<rparr>)
      else (case cur_stats ps of
          Some st \<Rightarrow> stats_step no line st ps
        | None \<Rightarrow>
            if opens_stats line
            then stats_step no line (new_stats\<lparr>s_first_line := no\<rparr>) (warn (Opener_missing no) ps)
            else Inr ps))"

definition header_step :: "nat \<Rightarrow> string \<Rightarrow> string \<Rightarrow> parser \<Rightarrow> exn + parser" where
  "header_step no raw line ps =
     (let (payload, ps) = (case re_hdr line of
          Some p \<Rightarrow> (Some p, ps)
        | None \<Rightarrow> (case salvage_hdr line of
            Some p \<Rightarrow> (Some p, warn (Header_repaired no (take 72 raw)) ps)
          | None \<Rightarrow> (None, ps))) in
      case payload of
        Some p \<Rightarrow> Inr (ps\<lparr>pending_hdr_line := if pending_hdr ps = [] then no else pending_hdr_line ps,
                         pending_hdr := fold (\<lambda>(k, v). AList.update k v) (kv_dict p) (pending_hdr ps)\<rparr>)
      | None \<Rightarrow> dump_step no line ps)"

definition outside_step :: "nat \<Rightarrow> string \<Rightarrow> string \<Rightarrow> parser \<Rightarrow> exn + parser" where
  "outside_step no raw line ps =
     (case re_boot_v2 line of Some (v, hz, clk, p, n, sz) \<Rightarrow>
        bind_e (wire_semantics v) (\<lambda>_. Inr (ps\<lparr>boot_line := Some
          \<lparr> b_version = v, b_cpu_hz = hz, b_clk = Some clk, b_probe_cyc = p, b_ring_entries = n,
            b_rec_size = sz, b_line = int no, b_cal_only = False, b_cal = None \<rparr>\<rparr>))
      | None \<Rightarrow>
      (case re_boot_v1 line of Some (hz, p, n, sz) \<Rightarrow>
        Inr (ps\<lparr>boot_line := Some
          \<lparr> b_version = 1, b_cpu_hz = hz, b_clk = None, b_probe_cyc = p, b_ring_entries = n,
            b_rec_size = sz, b_line = int no, b_cal_only = False, b_cal = None \<rparr>\<rparr>)
      | None \<Rightarrow>
      (case re_probe_cal_3 line of Some (a, u, e, n, m, b) \<Rightarrow>
        Inr (ps\<lparr>cal := Some ((the_calib ps)\<lparr>c_armed := Some a, c_unarmed := Some u, c_empty := Some e,
          c_pairs := Some n, c_marginal := Some m, c_in_bucket := Some b, c_passes := Some 3,
          c_cal_line := Some (int no)\<rparr>)\<rparr>)
      | None \<Rightarrow>
      (case re_probe_cal_2 line of Some (a, u, n, m) \<Rightarrow>
        Inr (ps\<lparr>cal := Some ((the_calib ps)\<lparr>c_armed := Some a, c_unarmed := Some u, c_empty := None,
          c_pairs := Some n, c_marginal := Some m, c_in_bucket := None, c_passes := Some 2,
          c_cal_line := Some (int no)\<rparr>)\<rparr>)
      | None \<Rightarrow>
      (case re_price_bracket line of Some (lo, hi) \<Rightarrow>
        Inr (ps\<lparr>cal := Some ((the_calib ps)\<lparr>c_bracket_lo := Some lo, c_bracket_hi := Some hi,
          c_bracket_line := Some (int no)\<rparr>)\<rparr>)
      | None \<Rightarrow> header_step no raw line ps)))))"

definition line_step :: "nat \<Rightarrow> string \<Rightarrow> parser \<Rightarrow> exn + parser" where
  "line_step no raw ps =
     (let (line, stripped) = strip_log_prefix raw;
          ps = (if stripped
                then ps\<lparr>prefixed := Suc (prefixed ps),
                        first_prefix_line := if prefixed ps = 0 then no else first_prefix_line ps\<rparr>
                else ps) in
      case cur_ring ps of
        Some ring \<Rightarrow> ring_step no line ring ps
      | None \<Rightarrow> outside_step no raw line ps)"

subsection \<open>A whole capture\<close>

fun parse_lines :: "nat \<Rightarrow> string list \<Rightarrow> parser \<Rightarrow> exn + parser" where
  "parse_lines no [] ps = Inr ps"
| "parse_lines no (raw # raws) ps = bind_e (line_step no raw ps) (parse_lines (Suc no) raws)"

definition finish_boot :: "parser \<Rightarrow> exn + parser" where
  "finish_boot ps = (case cal ps of
     None \<Rightarrow> Inr ps
   | Some c \<Rightarrow> (case boot_line ps of
       Some b \<Rightarrow> Inr (ps\<lparr>boot_line := Some (b\<lparr>b_cal := Some c\<rparr>)\<rparr>)
     | None \<Rightarrow> (case c_marginal c of
         None \<Rightarrow> Inl (KeyError ''marginal'')
       | Some m \<Rightarrow> (case c_cal_line c of
           None \<Rightarrow> Inl (KeyError ''cal_line'')
         | Some l \<Rightarrow> Inr (warn (Calibration_only l) (ps\<lparr>boot_line := Some
             \<lparr> b_version = 2, b_cpu_hz = 0, b_clk = None, b_probe_cyc = m, b_ring_entries = 0,
               b_rec_size = 0, b_line = l, b_cal_only = True, b_cal = Some c \<rparr>\<rparr>))))))"

definition finish_capture :: "parser \<Rightarrow> exn + parser" where
  "finish_capture ps =
     (if cur_ring ps \<noteq> None then Inl (CaptureError ''ring begin was never closed'')
      else
        (let ps = (case cur_stats ps of
             Some st \<Rightarrow> warn (Unclosed_stats (s_first_line st)) (ps\<lparr>dumps := dumps ps @ [st]\<rparr>)
           | None \<Rightarrow> ps) in
         if rings ps = [] \<and> dumps ps = [] then Inl (CaptureError ''no dump found'')
         else
           (let ps = (if prefixed ps \<noteq> 0 then warn (Log_prefix (prefixed ps) (first_prefix_line ps)) ps else ps)
            in finish_boot ps)))"

definition parse_capture :: "string list \<Rightarrow> exn + parser" where
  "parse_capture raws = bind_e (parse_lines 1 raws new_parser) finish_capture"


subsection \<open>What the steps keep\<close>

text \<open>The header of an accepted ring: what \<open>_check_ring_header\<close> has established.\<close>

definition header_ok :: "(string \<times> string) list \<Rightarrow> semantics \<Rightarrow> bool" where
  "header_ok h sem \<longleftrightarrow> list_all (\<lambda>k. map_of h k \<noteq> None) (HDR_REQUIRED_COMMON @ hdr_extra_keys sem) \<and>
     (\<exists>s v. map_of h ''version'' = Some s \<and> py_int s = Inr v \<and> wire_semantics v = Inr sem
        \<and> map_of h ''magic'' = map_of MAGICS v) \<and>
     (\<exists>s. map_of h ''rec_size'' = Some s \<and> py_int s = Inr REC_SIZE)"

definition sample_ok :: "sample \<Rightarrow> bool" where
  "sample_ok = (\<lambda>(pc, op, fl). 0 \<le> pc \<and> pc < 4294967296 \<and> 0 \<le> op \<and> op < 65536 \<and> 0 \<le> fl \<and> fl < 65536)"

definition ring_open :: "ring \<Rightarrow> bool" where
  "ring_open r \<longleftrightarrow> (\<exists>sem. r_sem r = Some sem \<and> header_ok (r_hdr r) sem) \<and> list_all sample_ok (r_samples r)"

definition ring_complete :: "ring \<Rightarrow> bool" where
  "ring_complete r \<longleftrightarrow> ring_open r \<and>
     (\<exists>s. map_of (r_hdr r) ''rec_count'' = Some s \<and> py_int s = Inr (int (length (r_samples r))))"

definition calib_ok :: "calib \<Rightarrow> bool" where
  "calib_ok c \<longleftrightarrow> (c_marginal c = None \<longleftrightarrow> c_cal_line c = None) \<and> (c_armed c = None \<longleftrightarrow> c_cal_line c = None)
     \<and> (c_unarmed c = None \<longleftrightarrow> c_cal_line c = None) \<and> (c_pairs c = None \<longleftrightarrow> c_cal_line c = None)
     \<and> (c_passes c = Some 3 \<longrightarrow> c_empty c \<noteq> None)"

definition boot_ok :: "parser \<Rightarrow> bool" where
  "boot_ok ps \<longleftrightarrow> (case boot_line ps of None \<Rightarrow> True | Some b \<Rightarrow>
     (case b_cal b of None \<Rightarrow> True | Some c \<Rightarrow> calib_ok c))"

lemma boot_ok_same: "boot_line ps' = boot_line ps \<Longrightarrow> boot_ok ps' = boot_ok ps"
  by (simp add: boot_ok_def)

lemma boot_ok_updates [simp]: "boot_ok (ps\<lparr>cal := c\<rparr>) = boot_ok ps" "boot_ok (ps\<lparr>prefixed := n\<rparr>) = boot_ok ps"
  "boot_ok (ps\<lparr>first_prefix_line := n\<rparr>) = boot_ok ps" "boot_ok (ps\<lparr>cur_ring := r\<rparr>) = boot_ok ps"
  "boot_ok (ps\<lparr>rings := rs\<rparr>) = boot_ok ps" "boot_ok (ps\<lparr>dumps := ds\<rparr>) = boot_ok ps"
  "boot_ok (warn w ps) = boot_ok ps" "boot_ok new_parser"
  by (simp_all add: boot_ok_def warn_def new_parser_def)

definition parser_ok :: "parser \<Rightarrow> bool" where
  "parser_ok ps \<longleftrightarrow> list_all ring_complete (rings ps) \<and> (case cur_ring ps of Some r \<Rightarrow> ring_open r | None \<Rightarrow> True)
     \<and> (case cal ps of Some c \<Rightarrow> calib_ok c | None \<Rightarrow> True) \<and> boot_ok ps"

lemma required_keys: "{''version'', ''magic'', ''rec_size'', ''rec_count''} \<subseteq> set HDR_REQUIRED_COMMON"
  by (simp add: HDR_REQUIRED_COMMON_def HDR_LINE1_KEYS_def)

lemma missing_Inr: "missing h ks what = Inr () \<longleftrightarrow> list_all (\<lambda>k. map_of h k \<noteq> None) ks"
  by (simp add: missing_def)

lemma MAGICS_known: "wire_semantics v = Inr sem \<Longrightarrow> \<exists>m. map_of MAGICS v = Some m"
  by (auto simp: wire_semantics_Inr MAGICS_def)

lemma check_ring_header_Inr:
  assumes "check_ring_header ring = Inr ring'"
  shows "\<exists>sem. ring' = ring\<lparr>r_sem := Some sem\<rparr> \<and> header_ok (r_hdr ring) sem"
proof -
  let ?h = "r_hdr ring"
  have req: "list_all (\<lambda>k. map_of ?h k \<noteq> None) HDR_REQUIRED_COMMON"
    using assms by (auto simp: check_ring_header_def Let_def missing_Inr)
  obtain sv sr where k: "map_of ?h ''version'' = Some sv" "map_of ?h ''rec_size'' = Some sr"
    using req required_keys by (fastforce simp: list_all_iff)
  show ?thesis using assms req k
    by (auto simp: check_ring_header_def header_ok_def Let_def missing_Inr split: option.splits if_splits)
qed

lemma hex_val_bounds: "is_lower_hex c \<Longrightarrow> 0 \<le> hex_val c \<and> hex_val c < 16"
  by (auto simp: is_lower_hex_def is_digit_def hex_val_def)

lemma hex_bounds: "list_all is_lower_hex s \<Longrightarrow> 0 \<le> hex s \<and> hex s < 16 ^ length s"
proof (induction s rule: rev_induct)
  case (snoc c s)
  then have "0 \<le> hex_val c" "hex_val c < 16" "0 \<le> hex s" "hex s < 16 ^ length s"
    using hex_val_bounds [of c] by auto
  then show ?case by (simp add: hex_def)
qed (simp add: hex_def)

lemma count_Some: "count P n s = Some (t, r) \<Longrightarrow> length t = n \<and> list_all P t"
  by (auto simp: count_def split: if_splits)

lemma re_sample_ok: "re_sample line = Some x \<Longrightarrow> sample_ok x"
  using hex_bounds
  by (fastforce simp: re_sample_def sample_ok_def Option.bind_eq_Some_conv dest!: count_Some)

lemma warn_keeps [simp]: "rings (warn w ps) = rings ps" "cur_ring (warn w ps) = cur_ring ps"
  "dumps (warn w ps) = dumps ps" "pending_hdr (warn w ps) = pending_hdr ps" "cal (warn w ps) = cal ps"
  "boot_line (warn w ps) = boot_line ps" "cur_stats (warn w ps) = cur_stats ps" "prefixed (warn w ps) = prefixed ps"
  by (simp_all add: warn_def)

lemma resolve_shape_keeps:
  assumes "resolve_shape sem bid name no (st, ps) = (st', ps')"
  shows "rings ps' = rings ps" "cur_ring ps' = cur_ring ps" "cal ps' = cal ps" "boot_line ps' = boot_line ps"
  using assms by (auto simp: resolve_shape_def split: if_splits option.splits prod.splits)

lemma check_name_keeps [simp]: "rings (check_name i n t w no v ps) = rings ps"
  "cur_ring (check_name i n t w no v ps) = cur_ring ps" "cal (check_name i n t w no v ps) = cal ps"
  "boot_line (check_name i n t w no v ps) = boot_line ps"
  by (simp_all add: check_name_def)

lemma put_keeps [simp]: "put st ps = Inr ps' \<longleftrightarrow> ps' = ps\<lparr>cur_stats := Some st\<rparr>"
  by (auto simp: put_def)

lemma stats_rows_keeps: "stats_rows no line st ps = Inr ps' \<Longrightarrow> rings ps' = rings ps \<and> cur_ring ps' = cur_ring ps \<and> cal ps' = cal ps
    \<and> boot_line ps' = boot_line ps"
  unfolding stats_rows_def Let_def
  by (auto split: option.splits prod.splits if_splits dest: resolve_shape_keeps)

lemma stats_step_keeps: "stats_step no line st ps = Inr ps' \<Longrightarrow> rings ps' = rings ps \<and> cur_ring ps' = cur_ring ps \<and> cal ps' = cal ps
    \<and> boot_line ps' = boot_line ps"
  unfolding stats_step_def
  by (auto simp: version_grammar_mismatch_def split: option.splits prod.splits if_splits dest: stats_rows_keeps)

lemma dump_step_keeps:
  assumes "dump_step no line ps = Inr ps'" "cur_ring ps = None"
  shows "rings ps' = rings ps \<and> (case cur_ring ps' of Some r \<Rightarrow> ring_open r \<and> r_samples r = [] | None \<Rightarrow> True)
    \<and> cal ps' = cal ps \<and> boot_line ps' = boot_line ps"
  using assms
  by (auto simp: dump_step_def new_ring_def ring_open_def split: if_splits option.splits
      dest!: stats_step_keeps check_ring_header_Inr)

lemma header_step_keeps:
  assumes "header_step no raw line ps = Inr ps'" "cur_ring ps = None"
  shows "rings ps' = rings ps \<and> (case cur_ring ps' of Some r \<Rightarrow> ring_open r \<and> r_samples r = [] | None \<Rightarrow> True)
    \<and> cal ps' = cal ps \<and> boot_line ps' = boot_line ps"
  using assms
  by (auto simp: header_step_def split: option.splits prod.splits dest: dump_step_keeps)

lemma outside_step_keeps:
  assumes "outside_step no raw line ps = Inr ps'" "cur_ring ps = None"
  shows "rings ps' = rings ps \<and> (case cur_ring ps' of Some r \<Rightarrow> ring_open r \<and> r_samples r = [] | None \<Rightarrow> True)
    \<and> (cal ps' = cal ps \<or> (\<exists>c. cal ps' = Some c \<and> (calib_ok (the_calib ps) \<longrightarrow> calib_ok c)))
    \<and> (boot_ok ps \<longrightarrow> boot_ok ps')"
proof -
  have h: "header_step no raw line ps = Inr ps' \<Longrightarrow> boot_ok ps \<Longrightarrow> boot_ok ps'"
    using header_step_keeps [of no raw line ps ps'] assms(2) boot_ok_same by blast
  have b: "boot_ok (ps\<lparr>boot_line := Some x\<rparr>)" if "b_cal x = None" for x using that by (simp add: boot_ok_def)
  show ?thesis using assms h unfolding outside_step_def
    by (auto simp: calib_ok_def b split: option.splits prod.splits dest: header_step_keeps)
qed

lemma close_ring_Inr:
  assumes "close_ring ring promised ps = Inr ps'"
  shows "rings ps' = rings ps \<and> cur_ring ps' = cur_ring ps \<and> cal ps' = cal ps \<and> boot_line ps' = boot_line ps
    \<and> (\<exists>s. map_of (r_hdr ring) ''rec_count'' = Some s \<and> py_int s = Inr (int (length (r_samples ring))))
    \<and> promised = int (length (r_samples ring))"
  using assms by (auto simp: close_ring_def Let_def split: option.splits if_splits list.splits)

lemma ring_step_ok:
  assumes "ring_step no line ring ps = Inr ps'" "parser_ok ps" "cur_ring ps = Some ring"
  shows "parser_ok ps'"
  using assms
  by (auto simp: ring_step_def parser_ok_def ring_open_def ring_complete_def re_sample_ok Let_def
      split: option.splits if_splits dest!: close_ring_Inr intro: boot_ok_same [THEN iffD2])

lemma outside_step_ok:
  assumes o: "outside_step no raw line ps = Inr ps'" and n: "cur_ring ps = None" and ok: "parser_ok ps"
  shows "parser_ok ps'"
proof -
  have "calib_ok (the_calib ps)" using ok
    by (auto simp: parser_ok_def the_calib_def new_calib_def calib_ok_def split: option.splits)
  then show ?thesis using outside_step_keeps [OF o n] ok
    by (auto simp: parser_ok_def split: option.splits)
qed

lemma line_step_ok:
  assumes "line_step no raw ps = Inr ps'" "parser_ok ps" shows "parser_ok ps'"
proof -
  obtain line stripped where l: "strip_log_prefix raw = (line, stripped)" by (cases "strip_log_prefix raw")
  let ?ps = "if stripped then ps\<lparr>prefixed := Suc (prefixed ps),
      first_prefix_line := if prefixed ps = 0 then no else first_prefix_line ps\<rparr> else ps"
  have "parser_ok ?ps" using assms(2) by (simp add: parser_ok_def)
  then show ?thesis using assms(1) l
    by (auto simp: line_step_def Let_def split: option.splits if_splits
        intro: outside_step_ok ring_step_ok)
qed

lemma parse_lines_ok: "parse_lines no raws ps = Inr ps' \<Longrightarrow> parser_ok ps \<Longrightarrow> parser_ok ps'"
  by (induction no raws ps rule: parse_lines.induct) (auto dest: line_step_ok)

lemma finish_boot_keeps: "finish_boot ps = Inr ps' \<Longrightarrow> rings ps' = rings ps \<and> dumps ps' = dumps ps"
  by (auto simp: finish_boot_def split: option.splits)

lemma finish_capture_keeps: "finish_capture ps = Inr ps' \<Longrightarrow> rings ps' = rings ps"
  by (auto simp: finish_capture_def Let_def split: option.splits if_splits dest!: finish_boot_keeps)

subsection \<open>How a capture can be refused\<close>

definition refusal :: "exn \<Rightarrow> bool" where
  "refusal e \<longleftrightarrow> (\<exists>m. e = CaptureError m) \<or> e = ValueError"

lemma py_int_Inl: "py_int s = Inl e \<Longrightarrow> e = ValueError"
  by (auto simp: py_int_def Let_def split: if_splits list.splits prod.splits)

lemma missing_Inl: "missing h ks what = Inl e \<Longrightarrow> refusal e"
  by (auto simp: missing_def refusal_def split: if_splits)

text \<open>\<open>errs P m\<close>: if \<open>m\<close> raises, then an exception that satisfies \<open>P\<close>.\<close>

definition errs :: "('e \<Rightarrow> bool) \<Rightarrow> 'e + 'a \<Rightarrow> bool" where
  "errs P m \<longleftrightarrow> (\<forall>e. m = Inl e \<longrightarrow> P e)"

lemma errs_simps [simp]: "errs P (Inr x)" "errs P (Inl e) \<longleftrightarrow> P e"
  by (simp_all add: errs_def)

lemma errs_bind: "errs P m \<Longrightarrow> (\<And>x. m = Inr x \<Longrightarrow> errs P (f x)) \<Longrightarrow> errs P (bind_e m f)"
  by (cases m) (simp_all add: errs_def)

lemma errs_option: "errs P a \<Longrightarrow> (\<And>y. errs P (f y)) \<Longrightarrow> errs P (case x of None \<Rightarrow> a | Some y \<Rightarrow> f y)"
  by (cases x) simp_all

lemma errs_prod: "(\<And>a b. errs P (f a b)) \<Longrightarrow> errs P (case x of (a, b) \<Rightarrow> f a b)"
  by (cases x) simp

lemma errs_if: "errs P a \<Longrightarrow> errs P b \<Longrightarrow> errs P (if c then a else b)"
  by simp

lemmas errs_rules = errs_bind errs_option errs_prod errs_if

lemma refusal_capture [simp]: "refusal (CaptureError m)" "refusal ValueError"
  by (simp_all add: refusal_def)

lemma errs_leaf:
  "errs refusal (py_int s)" "errs refusal (missing h ks what)" "errs refusal (wire_semantics v)"
  using py_int_Inl missing_Inl wire_semantics_Inl by (fastforce simp: errs_def refusal_def)+

lemma errs_check_ring_header: "errs refusal (check_ring_header ring)"
  unfolding check_ring_header_def Let_def
  by (auto intro!: errs_bind errs_leaf split: option.splits dest: MAGICS_known)

lemma errs_close_ring: "map_of (r_hdr ring) ''rec_count'' \<noteq> None \<Longrightarrow> errs refusal (close_ring ring promised ps)"
  unfolding close_ring_def Let_def by (auto intro!: errs_bind errs_leaf split: option.splits)

lemma ring_open_rec_count: "ring_open r \<Longrightarrow> map_of (r_hdr r) ''rec_count'' \<noteq> None"
  using required_keys by (auto simp: ring_open_def header_ok_def list_all_iff)

lemma errs_put [simp]: "errs P (put st ps)"
  by (simp add: put_def)

lemma errs_stats_rows: "errs P (stats_rows no line st ps)"
  unfolding stats_rows_def Let_def by (intro errs_rules errs_put errs_simps)

lemma errs_stats_step: "errs refusal (stats_step no line st ps)"
  unfolding stats_step_def version_grammar_mismatch_def
  by (intro errs_rules errs_put errs_stats_rows errs_leaf) simp_all

lemma errs_outside_step: "errs refusal (outside_step no raw line ps)"
  unfolding outside_step_def header_step_def dump_step_def Let_def
  by (intro errs_rules errs_simps errs_leaf errs_stats_step errs_check_ring_header) simp_all

lemma errs_ring_step: "ring_open ring \<Longrightarrow> errs refusal (ring_step no line ring ps)"
  unfolding ring_step_def Let_def
  using ring_open_rec_count [of ring]
  by (auto intro!: errs_bind errs_close_ring split: option.splits)

lemma errs_line_step: "parser_ok ps \<Longrightarrow> errs refusal (line_step no raw ps)"
  unfolding line_step_def Let_def
  by (auto intro!: errs_outside_step errs_ring_step simp: parser_ok_def split: prod.splits option.splits)

lemma errs_parse_lines: "parser_ok ps \<Longrightarrow> errs refusal (parse_lines no raws ps)"
proof (induction no raws ps rule: parse_lines.induct)
  case (2 no raw raws ps)
  then show ?case by (auto intro!: errs_bind errs_line_step dest: line_step_ok)
qed simp

lemma new_parser_ok: "parser_ok new_parser"
  using boot_ok_updates(8) by (simp add: parser_ok_def new_parser_def)

lemma finish_boot_Inl: "finish_boot ps = Inl e \<Longrightarrow> parser_ok ps \<Longrightarrow> e = KeyError ''marginal''"
  by (auto simp: finish_boot_def parser_ok_def calib_ok_def split: option.splits)

lemma finish_capture_Inl: "finish_capture ps = Inl e \<Longrightarrow> parser_ok ps \<Longrightarrow> refusal e \<or> e = KeyError ''marginal''"
  unfolding finish_capture_def Let_def
  by (auto split: option.splits if_splits dest!: finish_boot_Inl simp: parser_ok_def)

text \<open>The calibration that reaches the report is well-formed.\<close>

lemma finish_boot_ok: "finish_boot ps = Inr ps' \<Longrightarrow> parser_ok ps \<Longrightarrow> boot_ok ps'"
  by (auto simp: finish_boot_def parser_ok_def split: option.splits) (simp_all add: boot_ok_def)

lemma finish_capture_ok: "finish_capture ps = Inr ps' \<Longrightarrow> parser_ok ps \<Longrightarrow> boot_ok ps'"
  unfolding finish_capture_def Let_def
  by (auto split: option.splits if_splits dest!: finish_boot_ok simp: parser_ok_def)

lemma parse_capture_boot: "parse_capture lines = Inr ps \<Longrightarrow> boot_ok ps"
  using parse_lines_ok [OF _ new_parser_ok] finish_capture_ok by (fastforce simp: parse_capture_def)

end
