(* ===== verification/Prof_Ring.thy ===== *)
theory Prof_Ring
  imports Prof_Capture
begin

text \<open>
  What \<open>parse_capture\<close> of \<open>src/tools/prof-symbolize.py\<close> promises: the ring body is read back exactly as
  it was printed or refused, a capture is either refused by one of the tool's own errors or delivers
  only complete rings, and the cases in which the tool falls outside that contract.
\<close>

subsection \<open>Printing a ring body and reading it back\<close>

text \<open>The firmware's sample line \<open>S %08lx %04x %04x\<close> and terminator, as the line grammar reads them.\<close>

definition hex_char :: "int \<Rightarrow> char" where
  "hex_char d = ''0123456789abcdef'' ! nat d"

fun hex_pad :: "nat \<Rightarrow> int \<Rightarrow> string" where
  "hex_pad 0 v = []"
| "hex_pad (Suc n) v = hex_pad n (v div 16) @ [hex_char (v mod 16)]"

definition render_sample :: "sample \<Rightarrow> string" where
  "render_sample = (\<lambda>(pc, op, fl). ''S '' @ hex_pad 8 pc @ '' '' @ hex_pad 4 op @ '' '' @ hex_pad 4 fl)"

definition render_end :: "string \<Rightarrow> string" where
  "render_end d = ''[PROF] ring end n='' @ d"

lemma hex_char_val: 
  assumes "0 \<le> d" "d < 16" shows "hex_val (hex_char d) = d \<and> is_lower_hex (hex_char d)"
proof -
  have "list_all (\<lambda>n. hex_val (hex_char (int n)) = int n \<and> is_lower_hex (hex_char (int n))) [0..<16]"
    by (simp add: hex_char_def hex_val_def is_lower_hex_def is_digit_def ord_c_def upt_conv_Cons)
  then show ?thesis using assms by (auto simp: list_all_iff dest: bspec [of _ _ "nat d"])
qed

lemma length_hex_pad [simp]: "length (hex_pad n v) = n"
  by (induction n arbitrary: v) simp_all

lemma hex_pad_lower: "list_all is_lower_hex (hex_pad n v)"
proof (induction n arbitrary: v)
  case (Suc n)
  then show ?case using hex_char_val [of "v mod 16"] by simp
qed simp

lemma hex_hex_pad: "0 \<le> v \<Longrightarrow> v < 16 ^ n \<Longrightarrow> hex (hex_pad n v) = v"
proof (induction n arbitrary: v)
  case (Suc n)
  have "v div 16 < 16 ^ n" 
  proof -
    have "16 * (v div 16) + v mod 16 = v" "0 \<le> v mod 16" by simp_all
    then show ?thesis using Suc.prems unfolding power_Suc by linarith
  qed
  then have "hex (hex_pad n (v div 16)) = v div 16" using Suc by simp
  moreover have "hex_val (hex_char (v mod 16)) = v mod 16" using hex_char_val [of "v mod 16"] by simp
  ultimately show ?case by (simp add: hex_def)
qed (simp add: hex_def)

lemma count_append: "length t = n \<Longrightarrow> list_all P t \<Longrightarrow> count P n (t @ r) = Some (t, r)"
  by (simp add: count_def)

lemma lit_append [simp]: "lit p (p @ r) = Some r"
  by (induction p) simp_all

lemma eol_Nil [simp]: "eol [] = Some ()"
  by (simp add: eol_def)

lemma re_sample_render: "sample_ok x \<Longrightarrow> re_sample (render_sample x) = Some x"
proof (cases x)
  case (fields pc op fl)
  assume ok: "sample_ok x"
  have c: "count is_lower_hex 4 (hex_pad 4 fl) = Some (hex_pad 4 fl, [])"
    using count_append [of "hex_pad 4 fl" 4 is_lower_hex "[]"] by (simp add: hex_pad_lower)
  show ?thesis using ok fields
    by (simp add: render_sample_def re_sample_def sample_ok_def count_append hex_pad_lower c hex_hex_pad)
qed

text \<open>Neither a sample nor a terminator begins like a logger's timestamp.\<close>

lemma no_log_prefix: "c \<noteq> CHR ''['' \<Longrightarrow> \<not> is_digit c \<Longrightarrow> strip_log_prefix (c # s) = (c # s, False)"
  by (simp add: strip_log_prefix_def re_log_prefix_def opt_def log_date_def count_def upto1_def Let_def)

lemma no_log_prefix_bracket: "\<not> is_digit c \<Longrightarrow> strip_log_prefix (CHR ''['' # c # s) = (CHR ''['' # c # s, False)"
  by (simp add: strip_log_prefix_def re_log_prefix_def opt_def log_date_def count_def upto1_def Let_def)

lemma strip_sample: "strip_log_prefix (render_sample x) = (render_sample x, False)"
  by (cases x) (simp add: render_sample_def no_log_prefix is_digit_def ord_c_def)

lemma strip_end: "strip_log_prefix (render_end d) = (render_end d, False)"
  by (simp add: render_end_def no_log_prefix_bracket is_digit_def ord_c_def)

lemma re_sample_end: "re_sample (render_end d) = None"
  by (simp add: render_end_def re_sample_def)

lemma re_end_render: "list_all is_digit d \<Longrightarrow> d \<noteq> [] \<Longrightarrow> re_end (render_end d) = Some (dec d)"
  by (simp add: render_end_def re_end_def digits_def run1_def Let_def list_all_iff takeWhile_eq_all_conv [THEN iffD2]
      dropWhile_eq_Nil_conv [THEN iffD2])

lemma line_step_sample:
  assumes "cur_ring ps = Some r" "sample_ok x"
  shows "line_step no (render_sample x) ps = Inr (ps\<lparr>cur_ring := Some (r\<lparr>r_samples := r_samples r @ [x]\<rparr>)\<rparr>)"
  using assms by (simp add: line_step_def strip_sample ring_step_def re_sample_render)

lemma parse_lines_append:
  "parse_lines no (xs @ ys) ps = bind_e (parse_lines no xs ps) (parse_lines (no + length xs) ys)"
proof (induction no xs ps rule: parse_lines.induct)
  case (2 no raw raws ps)
  then show ?case by (cases "line_step no raw ps") simp_all
qed simp

lemma parse_samples:
  "cur_ring ps = Some r \<Longrightarrow> list_all sample_ok xs \<Longrightarrow>
     parse_lines no (map render_sample xs) ps = Inr (ps\<lparr>cur_ring := Some (r\<lparr>r_samples := r_samples r @ xs\<rparr>)\<rparr>)"
proof (induction xs arbitrary: no ps r)
  case (Cons x xs)
  then show ?case by (simp add: line_step_sample)
qed simp


text \<open>
  C24: the body of a ring, printed as the firmware prints it, is read back sample for sample when the
  header, the terminator and the number of lines agree, and is refused, with the check that failed, when
  they do not: a dump that lost or gained lines never becomes a ring.
\<close>

theorem ring_body_roundtrip:
  assumes "cur_ring ps = Some r" "r_samples r = []" "r_noise_lines r = []"
    and "map_of (r_hdr r) ''rec_count'' = Some c" "py_int c = Inr k"
    and "list_all sample_ok xs" "list_all is_digit d" "d \<noteq> []"
  shows "parse_lines no (map render_sample xs @ [render_end d]) ps =
    (if dec d \<noteq> k then Inl (CaptureError ''header and terminator disagree'')
     else if int (length xs) \<noteq> k then Inl (CaptureError ''sample lines lost'')
     else Inr (ps\<lparr>rings := rings ps @ [r\<lparr>r_samples := xs, r_last_line := no + length xs\<rparr>], cur_ring := None\<rparr>))"
  using assms
  by (simp add: parse_lines_append parse_samples line_step_def strip_end ring_step_def re_sample_end
      re_end_render close_ring_def Let_def)

definition demo_ring :: ring where
  "demo_ring = new_ring\<lparr>r_hdr := [(''rec_count'', ''2'')], r_first_line := 3\<rparr>"

lemma ring_body_roundtrip_witness:
  "parse_lines 5 [''S 0800abcd 4e75 0003'', ''S ffffffff 0000 8000'', ''[PROF] ring end n=2'']
     (new_parser\<lparr>cur_ring := Some demo_ring\<rparr>) =
   Inr (new_parser\<lparr>rings := [demo_ring\<lparr>r_samples := [(134261709, 20085, 3), (4294967295, 0, 32768)], r_last_line := 7\<rparr>]\<rparr>)"
proof -
  have k: "py_int ''2'' = Inr 2" "dec ''2'' = 2" "list_all is_digit ''2''"
    by (simp_all add: py_int_def is_digit_def ord_c_def dec_def)
  have s: "render_sample (134261709, 20085, 3) = ''S 0800abcd 4e75 0003''"
    "render_sample (4294967295, 0, 32768) = ''S ffffffff 0000 8000''" "render_end ''2'' = ''[PROF] ring end n=2''"
    by (simp_all add: render_sample_def hex_char_def render_end_def eval_nat_numeral)
  show ?thesis
    using ring_body_roundtrip [of "new_parser\<lparr>cur_ring := Some demo_ring\<rparr>" demo_ring "''2''" 2
        "[(134261709, 20085, 3), (4294967295, 0, 32768)]" "''2''" 5] k s
    by (simp add: demo_ring_def new_ring_def new_parser_def sample_ok_def)
qed

subsection \<open>A whole capture\<close>

lemma finish_boot_all:
  "finish_boot ps = Inr ps' \<Longrightarrow> rings ps' = rings ps \<and> dumps ps' = dumps ps \<and> cur_ring ps' = cur_ring ps"
  by (auto simp: finish_boot_def split: option.splits)

lemma finish_capture_Inr:
  assumes "finish_capture ps = Inr ps'"
  shows "cur_ring ps' = None \<and> rings ps' = rings ps \<and> (rings ps' \<noteq> [] \<or> dumps ps' \<noteq> [])"
  using assms
  by (auto simp: finish_capture_def Let_def split: option.splits if_splits
      dest!: finish_boot_all)

text \<open>
  C23: every capture, whatever its bytes, is either refused or delivered whole.  Delivered, all its rings
  were closed by a terminator that agrees with the header and with the samples that arrived, under a header
  of a known version and the right magic and record size, and it holds at least one dump.  Refused, the
  error is the tool's own \<open>CaptureError\<close>, or one of two escapes: \<open>ValueError\<close> from a header number that
  is not one, and \<open>KeyError\<close> from a price bracket without a calibration line.
\<close>

theorem capture_fail_closed:
  "case parse_capture raws of
     Inl e \<Rightarrow> (\<exists>m. e = CaptureError m) \<or> e = ValueError \<or> e = KeyError ''marginal''
   | Inr ps \<Rightarrow> list_all ring_complete (rings ps) \<and> cur_ring ps = None \<and> 0 < length (rings ps) + length (dumps ps)"
proof (cases "parse_lines 1 raws new_parser")
  case (Inl e)
  then show ?thesis using errs_parse_lines [OF new_parser_ok, of 1 raws]
    by (auto simp: parse_capture_def errs_def refusal_def)
next
  case (Inr ps)
  then have ok: "parser_ok ps" using parse_lines_ok new_parser_ok by blast
  show ?thesis using Inr ok finish_capture_Inr [of ps] finish_capture_Inl [of ps]
    by (auto simp: parse_capture_def refusal_def parser_ok_def split: sum.splits)
qed


subsection \<open>Outside the contract\<close>

text \<open>
  a header number that is not a number escapes as a plain \<open>ValueError\<close>, which the tool's \<open>main\<close> does not
  catch: with every required key present and a version that \<open>int\<close> refuses, no \<open>CaptureError\<close> is raised.
\<close>

theorem bad_version_escapes:
  assumes "list_all (\<lambda>k. map_of (r_hdr ring) k \<noteq> None) HDR_REQUIRED_COMMON"
    and "map_of (r_hdr ring) ''version'' = Some v" "py_int v = Inl e"
  shows "check_ring_header ring = Inl ValueError"
  using assms py_int_Inl [of v e] by (simp add: check_ring_header_def Let_def missing_def)

definition abc_ring :: ring where
  "abc_ring = new_ring\<lparr>r_hdr := map (\<lambda>k. (k, if k = ''version'' then ''abc'' else ''1'')) HDR_REQUIRED_COMMON\<rparr>"

lemma bad_version_witness: "check_ring_header abc_ring = Inl ValueError"
  by (rule bad_version_escapes [of _ "''abc''" ValueError])
     (simp_all add: abc_ring_def new_ring_def HDR_REQUIRED_COMMON_def HDR_LINE1_KEYS_def HDR_LINE2_COMMON_def
       py_int_def is_digit_def ord_c_def)

definition BRACKET_LINE :: string where
  "BRACKET_LINE = ''[PROF] price bracket: 12 (bodies only, what PROFB gates) .. 31 (bodies + the call scaffolding) cyc/transition -- sweep it, do not pick''"


lemma bracket_strip: "strip_log_prefix BRACKET_LINE = (BRACKET_LINE, False)"
  by (simp add: BRACKET_LINE_def no_log_prefix_bracket is_digit_def ord_c_def)

lemma bracket_first: "re_boot_v2 BRACKET_LINE = None" "re_boot_v1 BRACKET_LINE = None"
  "re_probe_cal_3 BRACKET_LINE = None" "re_probe_cal_2 BRACKET_LINE = None"
  by (simp_all add: BRACKET_LINE_def re_boot_v2_def re_boot_v1_def re_probe_cal_3_def re_probe_cal_2_def)

lemma bracket_read: "re_price_bracket BRACKET_LINE = Some (12, 31)"
  by (simp add: BRACKET_LINE_def re_price_bracket_def signed_def digits_def run1_def Let_def is_digit_def ord_c_def
      dec_def eol_def)

lemma line_step_bracket:
  "cur_ring ps = None \<Longrightarrow> line_step no BRACKET_LINE ps = Inr (ps\<lparr>cal := Some ((the_calib ps)\<lparr>c_bracket_lo := Some 12,
     c_bracket_hi := Some 31, c_bracket_line := Some (int no)\<rparr>)\<rparr>)"
  by (simp add: line_step_def bracket_strip outside_step_def bracket_first bracket_read)

lemma parse_lines_snoc:
  "parse_lines no raws ps = Inr ps' \<Longrightarrow> parse_lines no (raws @ [l]) ps = line_step (no + length raws) l ps'"
  by (simp add: parse_lines_append) (cases "line_step (no + length raws) l ps'"; simp)

lemma finish_no_cal: "cal ps = None \<Longrightarrow> finish_boot ps = Inr ps"
  by (simp add: finish_boot_def)

text \<open>
  a price bracket whose boot and calibration lines were lost, which the code means to keep (``a price
  bracket without a boot line is still a price bracket''), destroys the capture instead: any capture that is
  read without a calibration or boot line is refused with \<open>KeyError ''marginal''\<close> once the bracket line is
  added.
\<close>

theorem lone_bracket_crashes:
  assumes p: "parse_lines 1 raws new_parser = Inr ps" and r: "cur_ring ps = None"
    and d: "rings ps \<noteq> [] \<or> dumps ps \<noteq> [] \<or> cur_stats ps \<noteq> None"
    and b: "boot_line ps = None" "cal ps = None"
  shows "(\<exists>ps'. parse_capture raws = Inr ps' \<and> rings ps' = rings ps) \<and>
    parse_capture (raws @ [BRACKET_LINE]) = Inl (KeyError ''marginal'')"
proof (intro conjI)
  show "\<exists>ps'. parse_capture raws = Inr ps' \<and> rings ps' = rings ps"
    using p r d b by (auto simp: parse_capture_def finish_capture_def Let_def finish_no_cal split: option.splits)
  show "parse_capture (raws @ [BRACKET_LINE]) = Inl (KeyError ''marginal'')"
    using r d b parse_lines_snoc [OF p, of BRACKET_LINE]
    by (auto simp: parse_capture_def line_step_bracket finish_capture_def Let_def finish_boot_def the_calib_def
        new_calib_def split: option.splits)
qed

definition BANNER :: string where "BANNER = ''[PROF] === stage attribution ===''"

lemma banner_strip: "strip_log_prefix BANNER = (BANNER, False)"
  by (simp add: BANNER_def no_log_prefix_bracket is_digit_def ord_c_def)

lemma banner_first: "re_boot_v2 BANNER = None" "re_boot_v1 BANNER = None"
  "re_probe_cal_3 BANNER = None" "re_probe_cal_2 BANNER = None" "re_price_bracket BANNER = None"
  "re_hdr BANNER = None" "salvage_hdr BANNER = None" "re_begin BANNER = False" "re_stats_top BANNER = True"
  by (simp_all add: BANNER_def re_boot_v2_def re_boot_v1_def re_probe_cal_3_def re_probe_cal_2_def
      re_price_bracket_def re_hdr_def salvage_hdr_def salvage_at_def re_begin_def re_stats_top_def eol_def)

lemma line_step_banner:
  "cur_ring ps = None \<Longrightarrow> line_step no BANNER ps = Inr (ps\<lparr>cur_stats := Some (new_stats\<lparr>s_first_line := no\<rparr>)\<rparr>)"
  by (simp add: line_step_def banner_strip outside_step_def banner_first header_step_def dump_step_def)

text \<open>
  a stats dump that is cut off is kept, with a warning, when the capture ends there; but when another
  dump's banner follows, the cut-off dump is dropped without a word: it is in no result and no warning names
  it.
\<close>

theorem reopened_dump_lost:
  assumes p: "parse_lines 1 raws new_parser = Inr ps" and r: "cur_ring ps = None"
    and s: "cur_stats ps = Some st" and b: "cal ps = None" "prefixed ps = 0"
  shows "\<exists>ps1 ps2. parse_capture raws = Inr ps1 \<and> dumps ps1 = dumps ps @ [st]
      \<and> warnings ps1 = warnings ps @ [Unclosed_stats (s_first_line st)]
    \<and> parse_capture (raws @ [BANNER]) = Inr ps2
      \<and> dumps ps2 = dumps ps @ [new_stats\<lparr>s_first_line := Suc (length raws)\<rparr>]
      \<and> warnings ps2 = warnings ps @ [Unclosed_stats (Suc (length raws))]"
  using r s b p parse_lines_snoc [OF p, of BANNER]
  by (simp add: parse_capture_def line_step_banner finish_capture_def Let_def finish_no_cal warn_def new_stats_def)

lemma lone_bracket_witness:
  "parse_capture [BANNER, BRACKET_LINE] = Inl (KeyError ''marginal'')"
  using lone_bracket_crashes [of "[BANNER]" "new_parser\<lparr>cur_stats := Some (new_stats\<lparr>s_first_line := 1\<rparr>)\<rparr>"]
  by (simp add: line_step_banner new_parser_def)

lemma reopened_dump_witness:
  "\<exists>ps2. parse_capture [BANNER, BANNER] = Inr ps2 \<and> dumps ps2 = [new_stats\<lparr>s_first_line := 2\<rparr>]
     \<and> warnings ps2 = [Unclosed_stats 2]"
  using reopened_dump_lost [of "[BANNER]" "new_parser\<lparr>cur_stats := Some (new_stats\<lparr>s_first_line := 1\<rparr>)\<rparr>"
      "new_stats\<lparr>s_first_line := 1\<rparr>"]
  by (auto simp: line_step_banner new_parser_def eval_nat_numeral)

end
