(* ===== verification/Prof_Probe.thy ===== *)
theory Prof_Probe
  imports Prof_Capture
begin

text \<open>
  The probe accounting of \<open>src/tools/prof-symbolize.py\<close>: the modelled number of entries of every bucket
  (\<open>bucket_entries\<close>), where the cost of a probe lands (\<open>probe_landing\<close>), the measured alternative (the
  \<open>s\<close> block, \<open>_spans_usable\<close> and \<open>span_probe\<close>), the price range (\<open>probe_bracket\<close>) and the subtraction of
  \<open>report_stats\<close>.  The one comparison of percentages is written without floating point: it is the same
  for counts below \<open>2^46\<close>.
\<close>

subsection \<open>The model of the entries\<close>

type_synonym counts = "(int \<times> int) list"

definition count_of :: "counts \<Rightarrow> int \<Rightarrow> int" where
  "count_of c i = (case map_of c i of Some v \<Rightarrow> v | None \<Rightarrow> 0)"

definition BUCKET_PARENT :: "int \<Rightarrow> int option" where
  "BUCKET_PARENT b =
     (if b \<in> set [B_FETCHOP, B_FETCHEX, B_READ, B_WRITE, B_HANDLER, B_TAIL, B_PROF, B_FAULT] then Some B_LOOP
      else if b = B_WALK then Some B_XLATE
      else if b \<in> set [B_TAILSAMP, B_TAILPOLL, B_TAILSPEC] then Some B_TAIL
      else if b \<in> set [B_DOPCFIND, B_DOPCFILL, B_BLKREC] then Some B_LOOP
      else None)"

definition XLATE_CALLERS :: "int list" where
  "XLATE_CALLERS = [B_FETCHOP, B_FETCHEX, B_READ, B_WRITE]"

definition base_entries :: "counts \<Rightarrow> counts" where
  "base_entries c =
     (let insns = count_of c C_INSNS; fetch = count_of c C_FETCH in
      [(B_LOOP, 0), (B_FETCHOP, insns), (B_FETCHEX, max (fetch - insns) 0), (B_READ, count_of c C_READ),
       (B_WRITE, count_of c C_WRITE), (B_XLATE, count_of c C_XLATE), (B_WALK, count_of c C_ATC_MISS),
       (B_HANDLER, insns), (B_TAIL, insns), (B_FAULT, count_of c C_FAULTS), (B_PROF, 0)])"

definition tail_entries :: "counts \<Rightarrow> string list \<Rightarrow> counts" where
  "tail_entries c names =
     (if B_TAILSAMP < int (length names)
      then [(B_TAILSAMP, count_of c C_INSNS), (B_TAILPOLL, count_of c C_INSNS), (B_TAILSPEC, 0)] else [])"

definition loop_entries :: "counts \<Rightarrow> string list \<Rightarrow> counts" where
  "loop_entries c names =
     (if B_DOPCFIND < int (length names)
      then (let disp = count_of c C_DOPC_HIT + count_of c C_DOPC_MISS in
            if disp \<noteq> 0 then [(B_DOPCFIND, disp), (B_DOPCFILL, count_of c C_DOPC_MISS), (B_BLKREC, 0)]
            else (let disp = count_of c C_INSNS + count_of c C_FAULTS in
                  [(B_DOPCFIND, disp), (B_DOPCFILL, disp), (B_BLKREC, 0)]))
      else [])"

definition bucket_entries :: "counts \<Rightarrow> string list \<Rightarrow> counts" where
  "bucket_entries c names = base_entries c @ tail_entries c names @ loop_entries c names"

subsection \<open>Where the probes land\<close>

text \<open>\<open>land[b] += n\<close>, which raises when the bucket is not one of the \<open>N_BUCKETS\<close>.\<close>

definition bump :: "int \<Rightarrow> int \<Rightarrow> counts \<Rightarrow> exn + counts" where
  "bump b n land = (case map_of land b of
     None \<Rightarrow> Inl (KeyError ''land'') | Some v \<Rightarrow> Inr (AList.update b (v + n) land))"

definition entry :: "counts \<Rightarrow> int \<Rightarrow> exn + int" where
  "entry e b = (case map_of e b of None \<Rightarrow> Inl (KeyError ''entries'') | Some v \<Rightarrow> Inr v)"

fun own_enters :: "counts \<Rightarrow> counts \<Rightarrow> exn + counts" where
  "own_enters [] land = Inr land"
| "own_enters ((b, n) # e) land = bind_e (bump b n land) (own_enters e)"

fun parent_exits :: "counts \<Rightarrow> counts \<Rightarrow> exn + counts" where
  "parent_exits [] land = Inr land"
| "parent_exits ((b, n) # e) land = (case BUCKET_PARENT b of
     Some p \<Rightarrow> bind_e (bump p n land) (parent_exits e)
   | None \<Rightarrow> parent_exits e land)"

text \<open>The exits of \<open>XLATE\<close>, shared among its callers; the last caller takes the rest.\<close>

fun share_exits :: "counts \<Rightarrow> int \<Rightarrow> int \<Rightarrow> int list \<Rightarrow> int \<Rightarrow> counts \<Rightarrow> exn + counts" where
  "share_exits e x callers [] rem land = Inr land"
| "share_exits e x callers [b] rem land = bump b rem land"
| "share_exits e x callers (b # bs) rem land =
     bind_e (entry e b) (\<lambda>n. let share = x * n div callers in
     bind_e (bump b share land) (share_exits e x callers bs (rem - share)))"

definition probe_landing :: "counts \<Rightarrow> exn + counts" where
  "probe_landing entries =
     (let land = map (\<lambda>b. (b, 0)) [0..N_BUCKETS - 1] in
      bind_e (own_enters entries land) (\<lambda>land.
      bind_e (parent_exits entries land) (\<lambda>land.
      bind_e (map_e (entry entries) XLATE_CALLERS) (\<lambda>ns.
      let callers = sum_list ns in
      bind_e (entry entries B_XLATE) (\<lambda>x.
      if callers \<noteq> 0 \<and> x \<noteq> 0 then share_exits entries x callers XLATE_CALLERS x land
      else if x \<noteq> 0 then bump B_LOOP x land
      else Inr land)))))"

subsection \<open>The measured spans\<close>

datatype span_warning = Pair_priced | Lost_rows int int | Foreign_state int int

definition spans_usable :: "stats \<Rightarrow> int \<Rightarrow> int \<Rightarrow> bool \<times> span_warning list" where
  "spans_usable st transitions per_unit =
     (if s_spans st = [] then (False, [])
      else if per_unit \<noteq> 1 then (False, [Pair_priced])
      else (let got = sum_list (map snd (s_spans st)) in
        case s_span_sum st of
          Some s \<Rightarrow>
            if s \<noteq> got then (False, [Lost_rows s got])
            else if transitions \<noteq> 0 \<and> got \<noteq> transitions then (False, [Foreign_state got transitions])
            else (True, [])
        | None \<Rightarrow>
            if transitions \<noteq> 0 \<and> got \<noteq> transitions then (False, [Foreign_state got transitions])
            else (True, [])))"

definition span_probe :: "stats \<Rightarrow> int \<Rightarrow> counts" where
  "span_probe st price = map (\<lambda>b. (b, count_of (s_spans st) b * price)) [0..N_BUCKETS - 1]"

subsection \<open>The price range\<close>

definition or_else :: "'a option \<Rightarrow> 'a option \<Rightarrow> 'a option" where
  "or_else a b = (case a of Some x \<Rightarrow> Some x | None \<Rightarrow> b)"

datatype price_source = From_option | From_calibration int

definition probe_bracket :: "boot option \<Rightarrow> int \<Rightarrow> string \<Rightarrow> int \<Rightarrow> int \<times> int \<times> price_source option" where
  "probe_bracket boot probe_cyc probe_src sver =
     (if probe_src = ''--probe-cost'' then (probe_cyc, probe_cyc, Some From_option)
      else case boot of
        None \<Rightarrow> (probe_cyc, probe_cyc, None)
      | Some b \<Rightarrow> (case b_cal b of
          None \<Rightarrow> (probe_cyc, probe_cyc, None)
        | Some c \<Rightarrow>
            if b_version b \<noteq> sver then (probe_cyc, probe_cyc, None)
            else (case (or_else (c_bracket_lo c) (c_marginal c), or_else (c_bracket_hi c) (c_in_bucket c)) of
                (Some lo, Some hi) \<Rightarrow>
                  if hi \<le> lo then (probe_cyc, probe_cyc, None)
                  else (lo, hi, Some (From_calibration
                    (case or_else (c_bracket_line c) (c_cal_line c) of Some l \<Rightarrow> l | None \<Rightarrow> 0)))
              | _ \<Rightarrow> (probe_cyc, probe_cyc, None))))"

subsection \<open>The subtraction\<close>

record accounting =
  a_trans :: int
  a_modelled :: int
  a_probe_units :: int
  a_probe_total :: int
  a_probe_over :: bool
  a_fatal_over :: bool
  a_model_usable :: bool
  a_usable :: bool
  a_adj :: counts
  a_clamped :: int
  a_clamped_cyc :: int

text \<open>\<open>abs(pct(resid, transitions)) <= 25.0\<close>; without transitions the residual is 100 percent.\<close>

definition resid_ok :: "int \<Rightarrow> int \<Rightarrow> bool" where
  "resid_ok resid transitions \<longleftrightarrow> transitions \<noteq> 0 \<and> 100 * \<bar>resid\<bar> \<le> 25 * \<bar>transitions\<bar>"

definition probe_of :: "stats \<Rightarrow> bool \<Rightarrow> bool \<Rightarrow> int \<Rightarrow> int \<Rightarrow> int \<Rightarrow> counts \<Rightarrow> int \<Rightarrow> int" where
  "probe_of st spans_ok model_usable probe_cyc probe_total modelled land b =
     (if spans_ok then count_of (span_probe st probe_cyc) b
      else if \<not> model_usable then 0
      else probe_total * count_of land b div modelled)"

text \<open>One row of the table: the adjusted cycles, and what is clamped at zero.\<close>

fun subtract_rows :: "stats \<Rightarrow> (int \<Rightarrow> int) \<Rightarrow> int list \<Rightarrow> counts \<times> int \<times> int \<Rightarrow> counts \<times> int \<times> int" where
  "subtract_rows st p [] acc = acc"
| "subtract_rows st p (b # bs) (adj, clamped, clamped_cyc) =
     (let raw = count_of (s_buckets st) b in
      subtract_rows st p bs
        (adj @ [(b, max (raw - p b) 0)],
         if raw < p b then clamped + 1 else clamped,
         if raw < p b then clamped_cyc + (p b - raw) else clamped_cyc))"

text \<open>The prices, and the decision between the measured spans, the model and no subtraction.\<close>

definition transitions_of :: "stats \<Rightarrow> int" where
  "transitions_of st = count_of (s_counters st) C_TRANSITIONS"

definition spans_ok_of :: "stats \<Rightarrow> semantics \<Rightarrow> bool" where
  "spans_ok_of st sem = fst (spans_usable st (transitions_of st) (transitions_per_probe_unit sem))"

definition probe_total_of :: "stats \<Rightarrow> semantics \<Rightarrow> int \<Rightarrow> int" where
  "probe_total_of st sem probe_cyc = transitions_of st * probe_cyc div transitions_per_probe_unit sem"

definition probe_over_of :: "stats \<Rightarrow> semantics \<Rightarrow> int \<Rightarrow> bool" where
  "probe_over_of st sem probe_cyc =
     (let total = sum_list (map snd (s_buckets st)) in
      0 < probe_cyc \<and> 0 < total \<and> total < probe_total_of st sem probe_cyc)"

definition fatal_over_of :: "stats \<Rightarrow> semantics \<Rightarrow> int \<Rightarrow> bool" where
  "fatal_over_of st sem probe_cyc = (probe_over_of st sem probe_cyc \<and> probe_exceeds_total_is_fatal sem)"

definition model_usable_of :: "stats \<Rightarrow> semantics \<Rightarrow> int \<Rightarrow> int \<Rightarrow> bool" where
  "model_usable_of st sem probe_cyc modelled =
     (0 < transitions_of st \<and> 0 < probe_cyc \<and> 0 < modelled
      \<and> resid_ok (transitions_of st - modelled) (transitions_of st) \<and> \<not> fatal_over_of st sem probe_cyc)"

definition usable_of :: "stats \<Rightarrow> semantics \<Rightarrow> int \<Rightarrow> int \<Rightarrow> bool" where
  "usable_of st sem probe_cyc modelled =
     ((spans_ok_of st sem \<and> 0 < probe_cyc \<and> \<not> fatal_over_of st sem probe_cyc)
      \<or> model_usable_of st sem probe_cyc modelled)"

definition stage_accounting :: "stats \<Rightarrow> semantics \<Rightarrow> int \<Rightarrow> exn + accounting" where
  "stage_accounting st sem probe_cyc =
     (let names = bucket_names_of st sem in
      bind_e (probe_landing (bucket_entries (s_counters st) names)) (\<lambda>land.
      let modelled = sum_list (map snd land);
          rows = (if usable_of st sem probe_cyc modelled
            then subtract_rows st
              (probe_of st (spans_ok_of st sem) (model_usable_of st sem probe_cyc modelled) probe_cyc
                 (probe_total_of st sem probe_cyc) modelled land)
              [0..int (length names) - 1] ([], 0, 0)
            else ([], 0, 0)) in
      Inr \<lparr> a_trans = transitions_of st, a_modelled = modelled,
            a_probe_units = transitions_of st div transitions_per_probe_unit sem,
            a_probe_total = probe_total_of st sem probe_cyc,
            a_probe_over = probe_over_of st sem probe_cyc, a_fatal_over = fatal_over_of st sem probe_cyc,
            a_model_usable = model_usable_of st sem probe_cyc modelled,
            a_usable = usable_of st sem probe_cyc modelled,
            a_adj = fst rows, a_clamped = fst (snd rows), a_clamped_cyc = snd (snd rows) \<rparr>))"

text \<open>A dump whose buckets are all zero was never armed and has no attribution.\<close>

definition stage_buckets :: "stats \<Rightarrow> semantics \<Rightarrow> int \<Rightarrow> exn + accounting option" where
  "stage_buckets st sem probe_cyc =
     (if sum_list (map snd (s_buckets st)) = 0 then Inr None
      else bind_e (stage_accounting st sem probe_cyc) (\<lambda>a. Inr (Some a)))"

subsection \<open>Sums over a bump\<close>

definition total_of :: "counts \<Rightarrow> int" where
  "total_of c = sum_list (map snd c)"

lemma total_simps [simp]: "total_of [] = 0" "total_of (x # c) = snd x + total_of c"
  "total_of (c @ d) = total_of c + total_of d"
  by (simp_all add: total_of_def)

lemma total_update: "map_of land b = Some v \<Longrightarrow> distinct (map fst land) \<Longrightarrow>
   total_of (AList.update b w land) = total_of land - v + w"
  by (induction land) (auto split: if_splits)

text \<open>The dictionary \<open>land\<close>: its keys stay the bucket ids, and no bump makes a count negative.\<close>

definition land_ok :: "counts \<Rightarrow> bool" where
  "land_ok land \<longleftrightarrow> map fst land = [0..N_BUCKETS - 1] \<and> list_all (\<lambda>x. 0 \<le> snd x) land"

lemma distinct_upto_int [simp]: "distinct [i..j :: int]"
  by (induction i j rule: upto.induct) (subst upto.simps, simp)

lemma land_ok_key: "land_ok land \<Longrightarrow> 0 \<le> b \<Longrightarrow> b < N_BUCKETS \<Longrightarrow> \<exists>v\<ge>0. map_of land b = Some v"
proof -
  assume ok: "land_ok land" and b: "0 \<le> b" "b < N_BUCKETS"
  then have "b \<in> set (map fst land)" by (simp add: land_ok_def)
  then have "map_of land b \<noteq> None" by (simp only: map_of_eq_None_iff set_map not_not)
  then obtain v where v: "map_of land b = Some v" by blast
  then have "0 \<le> v" using ok map_of_SomeD [OF v] by (auto simp: land_ok_def list_all_iff)
  then show ?thesis using v by blast
qed

lemma update_nonneg: "list_all (\<lambda>x :: int \<times> int. 0 \<le> snd x) land \<Longrightarrow> 0 \<le> w \<Longrightarrow> list_all (\<lambda>x. 0 \<le> snd x) (AList.update b w land)"
  by (induction land) auto

lemma keys_update: "b \<in> set (map fst land) \<Longrightarrow> map fst (AList.update b w land) = map fst land"
  by (simp add: update_keys)

lemma bump_ok:
  assumes "land_ok land" "0 \<le> b" "b < N_BUCKETS" "0 \<le> n"
  shows "\<exists>land'. bump b n land = Inr land' \<and> land_ok land' \<and> total_of land' = total_of land + n"
proof -
  obtain v where v: "map_of land b = Some v" "0 \<le> v" using land_ok_key [OF assms(1-3)] by blast
  have "b \<in> set (map fst land)" using assms(1-3) by (simp add: land_ok_def)
  from keys_update [OF this] have "map fst (AList.update b (v + n) land) = [0..N_BUCKETS - 1]"
    using assms(1) by (simp add: land_ok_def)
  moreover have "list_all (\<lambda>x. 0 \<le> snd x) (AList.update b (v + n) land)"
    using assms(1,4) v(2) update_nonneg by (simp add: land_ok_def)
  moreover have "distinct (map fst land)" using assms(1) by (simp add: land_ok_def)
  ultimately show ?thesis using v total_update [of land b v "v + n"] by (simp add: bump_def land_ok_def)
qed

text \<open>The entries: buckets only, none negative.\<close>

definition entries_ok :: "counts \<Rightarrow> bool" where
  "entries_ok e \<longleftrightarrow> list_all (\<lambda>(b, n). 0 \<le> b \<and> b < N_BUCKETS \<and> 0 \<le> n) e"

lemma entries_ok_simps [simp]: "entries_ok []"
  "entries_ok ((b, n) # e) \<longleftrightarrow> 0 \<le> b \<and> b < N_BUCKETS \<and> 0 \<le> n \<and> entries_ok e"
  "entries_ok (e @ e') \<longleftrightarrow> entries_ok e \<and> entries_ok e'"
  by (auto simp: entries_ok_def)

lemma parent_bucket: "BUCKET_PARENT b = Some p \<Longrightarrow> 0 \<le> p \<and> p < N_BUCKETS"
  by (auto simp: BUCKET_PARENT_def N_BUCKETS_def split: if_splits)

lemma own_enters_ok:
  "entries_ok e \<Longrightarrow> land_ok land \<Longrightarrow>
     \<exists>land'. own_enters e land = Inr land' \<and> land_ok land' \<and> total_of land' = total_of land + total_of e"
proof (induction e arbitrary: land)
  case (Cons x e)
  obtain b n where x: "x = (b, n)" by (cases x)
  obtain l1 where l1: "bump b n land = Inr l1" "land_ok l1" "total_of l1 = total_of land + n"
    using bump_ok [of land b n] Cons.prems by (auto simp: x)
  show ?case using Cons.IH [OF _ l1(2)] Cons.prems l1 by (auto simp: x)
qed simp

definition housed :: "counts \<Rightarrow> int" where
  "housed e = total_of (filter (\<lambda>(b, n). BUCKET_PARENT b \<noteq> None) e)"

lemma parent_exits_ok:
  "entries_ok e \<Longrightarrow> land_ok land \<Longrightarrow>
     \<exists>land'. parent_exits e land = Inr land' \<and> land_ok land' \<and> total_of land' = total_of land + housed e"
proof (induction e arbitrary: land)
  case (Cons x e)
  obtain b n where x: "x = (b, n)" by (cases x)
  show ?case
  proof (cases "BUCKET_PARENT b")
    case None
    then show ?thesis using Cons.IH [OF _ Cons.prems(2)] Cons.prems(1) by (simp add: x housed_def)
  next
    case (Some p)
    obtain l1 where l1: "bump p n land = Inr l1" "land_ok l1" "total_of l1 = total_of land + n"
      using bump_ok [of land p n] Cons.prems parent_bucket [OF Some] by (auto simp: x)
    then show ?thesis using Cons.IH [OF _ l1(2)] Cons.prems Some by (auto simp: x housed_def)
  qed
qed (simp add: housed_def)

text \<open>The shares of the callers are parts of \<open>x\<close>, so what is left for the last one is not negative.\<close>

lemma share_sum: "0 \<le> x \<Longrightarrow> 0 < k \<Longrightarrow> list_all (\<lambda>n. 0 \<le> n) ns \<Longrightarrow> sum_list ns \<le> k \<Longrightarrow>
    sum_list (map (\<lambda>n. x * n div k) ns) \<le> (x :: int)"
proof -
  assume a: "0 \<le> x" "0 < k" "list_all (\<lambda>n. 0 \<le> n) ns" "sum_list ns \<le> k"
  have "sum_list (map (\<lambda>n. x * n div k) ns) * k \<le> x * sum_list ns"
  proof (induction ns)
    case (Cons n ns)
    have "x * n div k * k \<le> x * n" using a(2) by (metis div_mult_mod_eq le_add_same_cancel1 pos_mod_sign)
    then show ?case using Cons by (simp add: algebra_simps)
  qed simp
  also have "\<dots> \<le> x * k" using a(1,4) by (simp add: mult_left_mono)
  finally show ?thesis using a(2) by simp
qed

lemma share_exits_ok:
  assumes "bs \<noteq> []" "land_ok land" "0 < k" "0 \<le> x"
    and "map_e (entry e) bs = Inr ns" "list_all (\<lambda>n. 0 \<le> n) ns" "list_all (\<lambda>b. 0 \<le> b \<and> b < N_BUCKETS) bs"
    and "sum_list (map (\<lambda>n. x * n div k) ns) \<le> rem"
  shows "\<exists>land'. share_exits e x k bs rem land = Inr land' \<and> land_ok land' \<and> total_of land' = total_of land + rem"
  using assms
proof (induction e x k bs rem land arbitrary: ns rule: share_exits.induct)
  case (2 e x k b rem land)
  then obtain n where "ns = [n]" by auto
  then have "0 \<le> rem" using 2 by (simp add: pos_imp_zdiv_nonneg_iff order_trans [rotated])
  then show ?case using bump_ok [of land b rem] 2 by simp
next
  case (3 e x k b b' bs rem land)
  obtain n ns' where n: "entry e b = Inr n" "map_e (entry e) (b' # bs) = Inr ns'" "ns = n # ns'"
    using 3(6) by auto
  have nn: "0 \<le> x * n div k" using 3(4,5,7) n by (simp add: pos_imp_zdiv_nonneg_iff)
  obtain l1 where l1: "bump b (x * n div k) land = Inr l1" "land_ok l1" "total_of l1 = total_of land + x * n div k"
    using bump_ok [OF 3(3) _ _ nn, of b] 3(8) by auto
  have "\<exists>land'. share_exits e x k (b' # bs) (rem - x * n div k) l1 = Inr land' \<and> land_ok land'
      \<and> total_of land' = total_of l1 + (rem - x * n div k)"
    by (rule 3(1) [OF n(1) refl l1(1) _ l1(2) 3(4,5) n(2)]) (use 3(7-9) n(3) in auto)
  then show ?case using n(1) l1 by (simp add: Let_def)
qed simp


subsection \<open>Properties\<close>

text \<open>
  What \<open>probe_landing\<close> needs of its argument, and what it returns: every enter once, every exit once,
  except the exits of the buckets that no bucket houses and that are not \<open>XLATE\<close>.
\<close>

lemma probe_landing_total:
  assumes e: "entries_ok e" and n: "map_e (entry e) XLATE_CALLERS = Inr ns" and x: "entry e B_XLATE = Inr x"
    and nonneg: "list_all (\<lambda>n. 0 \<le> n) ns" "0 \<le> x"
  shows "\<exists>land. probe_landing e = Inr land \<and> land_ok land \<and> total_of land = total_of e + housed e + x"
proof -
  let ?z = "map (\<lambda>b. (b, 0 :: int)) [0..N_BUCKETS - 1]"
  have z: "land_ok ?z" "total_of ?z = 0"
    by (simp_all add: land_ok_def list_all_iff total_of_def comp_def)
  obtain l1 where l1: "own_enters e ?z = Inr l1" "land_ok l1" "total_of l1 = total_of e"
    using own_enters_ok [OF e z(1)] z(2) by auto
  obtain l2 where l2: "parent_exits e l1 = Inr l2" "land_ok l2" "total_of l2 = total_of e + housed e"
    using parent_exits_ok [OF e l1(2)] l1(3) by auto
  have k: "0 \<le> sum_list ns" using nonneg(1) by (simp add: sum_list_nonneg list_all_iff)
  have l3: "\<exists>land. share_exits e x (sum_list ns) XLATE_CALLERS x l2 = Inr land \<and> land_ok land
      \<and> total_of land = total_of l2 + x" if "sum_list ns \<noteq> 0"
    by (rule share_exits_ok [OF _ l2(2) _ nonneg(2) n nonneg(1)])
      (use k that nonneg share_sum [of x "sum_list ns" ns] in \<open>auto simp: XLATE_CALLERS_def N_BUCKETS_def\<close>)
  have l4: "\<exists>land. bump B_LOOP x l2 = Inr land \<and> land_ok land \<and> total_of land = total_of l2 + x"
    using bump_ok [OF l2(2) _ _ nonneg(2), of B_LOOP] by (simp add: N_BUCKETS_def)
  show ?thesis
    using l1(1) l2 l3 l4 n x by (auto simp: probe_landing_def Let_def)
qed

lemma landing_twice:
  assumes "list_all (\<lambda>(i, n). 0 \<le> n) c"
  shows "\<exists>land. probe_landing (bucket_entries c names) = Inr land
    \<and> map fst land = [0..N_BUCKETS - 1] \<and> list_all (\<lambda>(b, n). 0 \<le> n) land
    \<and> sum_list (map snd land) = 2 * sum_list (map snd (bucket_entries c names))"
proof -
  let ?e = "bucket_entries c names"
  have nn: "0 \<le> count_of c i" for i
    using assms by (auto simp: count_of_def list_all_iff dest: map_of_SomeD split: option.splits)
  have e: "entries_ok ?e"
    using nn by (simp add: bucket_entries_def base_entries_def tail_entries_def loop_entries_def Let_def N_BUCKETS_def)
  have x: "entry ?e B_XLATE = Inr (count_of c C_XLATE)"
    by (simp add: entry_def bucket_entries_def base_entries_def Let_def)
  obtain ns where n: "map_e (entry ?e) XLATE_CALLERS = Inr ns" "list_all (\<lambda>n. 0 \<le> n) ns"
    using nn by (simp add: entry_def bucket_entries_def base_entries_def Let_def XLATE_CALLERS_def)
  have h: "housed ?e + count_of c C_XLATE = total_of ?e"
    by (simp add: housed_def bucket_entries_def base_entries_def tail_entries_def loop_entries_def Let_def
        BUCKET_PARENT_def)
  obtain land where "probe_landing ?e = Inr land" "land_ok land" "total_of land = total_of ?e + housed ?e + count_of c C_XLATE"
    using probe_landing_total [OF e n(1) x n(2) nn] by blast
  then show ?thesis using h by (auto simp: land_ok_def total_of_def case_prod_unfold)
qed

text \<open>
  C27: for the counters of any dump of either version the landing is defined, lands on the known buckets
  only, never on one a negative number, and its total is exactly twice the modelled number of entries: each
  visit of a bucket is charged one enter and one exit, however the exits of \<open>XLATE\<close> divide among its
  callers.
\<close>

theorem landing_twice_entries:
  assumes "list_all (\<lambda>(i, n). 0 \<le> n) c"
  shows "\<exists>land. probe_landing (bucket_entries c names) = Inr land
    \<and> map fst land = [0..N_BUCKETS - 1] \<and> list_all (\<lambda>(b, n). 0 \<le> n) land
    \<and> sum_list (map snd land) = 2 * sum_list (map snd (bucket_entries c names))"
  by (rule landing_twice [OF assms])

lemma landing_witness:
  "\<exists>land. probe_landing (bucket_entries [(0, 10), (2, 14), (3, 3), (11, 5), (13, 2)] BUCKET_NAMES_V1) = Inr land
    \<and> sum_list (map snd land) = 88"
  using landing_twice_entries [of "[(0, 10), (2, 14), (3, 3), (11, 5), (13, 2)]" BUCKET_NAMES_V1]
  by (auto simp: bucket_entries_def base_entries_def tail_entries_def loop_entries_def Let_def count_of_def names_lengths)

lemma sum_counts:
  "distinct (map fst c) \<Longrightarrow> list_all (\<lambda>(b, n). 0 \<le> b \<and> b < k) c \<Longrightarrow>
     sum_list (map (count_of c) [0..k - 1]) = total_of c"
proof (induction c)
  case Nil
  have "count_of [] = (\<lambda>b. 0)" by (simp add: fun_eq_iff count_of_def)
  then show ?case by simp
next
  case (Cons x c)
  obtain a n where x: "x = (a, n)" by (cases x)
  have "map_of c a = None" using Cons.prems(1) by (simp add: x map_of_eq_None_iff)
  then have z: "count_of c a = 0" by (simp add: count_of_def)
  have a: "a \<in> set [0..k - 1]" using Cons.prems(2) by (simp add: x)
  have "count_of (x # c) = (\<lambda>b. count_of c b + (if b = a then n else 0))"
    using z by (auto simp: fun_eq_iff count_of_def x)
  then have "sum_list (map (count_of (x # c)) [0..k - 1]) = sum_list (map (count_of c) [0..k - 1]) + n"
    using a by (simp add: sum_list_addf sum_list_distinct_conv_sum_set)
  then show ?case using Cons by (simp add: x)
qed

lemma spans_sum:
  "fst (spans_usable st transitions per_unit) \<Longrightarrow> transitions \<noteq> 0 \<Longrightarrow> total_of (s_spans st) = transitions"
  by (auto simp: spans_usable_def total_of_def Let_def split: if_splits option.splits)

lemma count_span_probe: "0 \<le> b \<Longrightarrow> b < N_BUCKETS \<Longrightarrow> count_of (span_probe st price) b = count_of (s_spans st) b * price"
  by (simp add: span_probe_def count_of_def [of "map _ _"] map_of_map_restrict restrict_map_def)

text \<open>
  what the gates of the measured spans buy.  When \<open>_spans_usable\<close> accepts them against a transition
  counter, and the rows are of known buckets, the corrections of the buckets at any price add up to the
  global correction, the number of transitions times the price, with nothing lost.
\<close>

theorem spans_decompose:
  assumes "fst (spans_usable st transitions per_unit)" "transitions \<noteq> 0"
    and "distinct (map fst (s_spans st))" "list_all (\<lambda>(b, n). 0 \<le> b \<and> b < N_BUCKETS) (s_spans st)"
  shows "sum_list (map snd (span_probe st price)) = transitions * price"
  using sum_counts [OF assms(3,4)] spans_sum [OF assms(1,2)]
  by (simp add: span_probe_def comp_def sum_list_mult_const total_of_def)

definition demo_spans :: stats where
  "demo_spans = new_stats\<lparr>s_spans := [(0, 7), (3, 5)], s_span_sum := Some 12, s_counters := [(C_TRANSITIONS, 12)],
     s_buckets := [(0, 100), (3, 8)], s_ver := Some 2, s_sem := Some WIRE_V2\<rparr>"

lemma spans_decompose_witness: "sum_list (map snd (span_probe demo_spans 2)) = 24"
  using spans_decompose [of demo_spans 12 1 2]
  by (simp add: demo_spans_def new_stats_def spans_usable_def N_BUCKETS_def)

text \<open>
  the completeness gate has a hole.  When both the block's total line and the transition counter were
  lost with the rows, any part of the block that is not empty is accepted, without a warning: the missing
  rows then read as buckets that pay no probe, which is what the gate is there to prevent.
\<close>

theorem lost_rows_accepted:
  assumes "s_span_sum st = None" "filter keep (s_spans st) \<noteq> []"
  shows "spans_usable (st\<lparr>s_spans := filter keep (s_spans st)\<rparr>) 0 1 = (True, [])"
  using assms by (simp add: spans_usable_def)

lemma lost_rows_witness:
  "spans_usable (demo_spans\<lparr>s_span_sum := None, s_spans := [(3, 5)]\<rparr>) 0 1 = (True, [])"
  using lost_rows_accepted [of "demo_spans\<lparr>s_span_sum := None\<rparr>" "\<lambda>(b, n). b = 3"]
  by (simp add: demo_spans_def new_stats_def)

subsection \<open>The balance of the subtraction\<close>

lemma subtract_rows_total:
  "subtract_rows st p bs (adj, k, z) = (adj', k', z') \<Longrightarrow>
     total_of adj' = total_of adj + sum_list (map (count_of (s_buckets st)) bs) - sum_list (map p bs) + (z' - z)
     \<and> k \<le> k' \<and> z \<le> z' \<and> (k' = k \<longrightarrow> z' = z)
     \<and> (list_all (\<lambda>x. 0 \<le> snd x) adj \<longrightarrow> list_all (\<lambda>x. 0 \<le> snd x) adj')"
proof (induction bs arbitrary: adj k z)
  case (Cons b bs)
  let ?raw = "count_of (s_buckets st) b"
  have r: "subtract_rows st p bs (adj @ [(b, max (?raw - p b) 0)], if ?raw < p b then k + 1 else k,
      if ?raw < p b then z + (p b - ?raw) else z) = (adj', k', z')" using Cons.prems by (simp add: Let_def)
  show ?case using Cons.IH [OF r] by (auto split: if_splits)
qed simp

lemma accounting_fields:
  assumes "stage_accounting st sem probe_cyc = Inr a" "a_usable a"
  shows "\<exists>mu modelled land. subtract_rows st
      (probe_of st (spans_ok_of st sem) mu probe_cyc (probe_total_of st sem probe_cyc) modelled land)
      [0..int (length (bucket_names_of st sem)) - 1] ([], 0, 0) = (a_adj a, a_clamped a, a_clamped_cyc a)"
    and "a_probe_total a = probe_total_of st sem probe_cyc"
  using assms by (simp_all add: stage_accounting_def Let_def) (fastforce, fastforce)


lemma demo_spans_eval: "s_buckets demo_spans = [(0, 100), (3, 8)]" "s_spans demo_spans = [(0, 7), (3, 5)]"
  "bucket_names_of demo_spans WIRE_V2 = BUCKET_NAMES_V2" "transitions_of demo_spans = 12" "spans_ok_of demo_spans WIRE_V2"
  "probe_total_of demo_spans WIRE_V2 2 = 24" "s_counters demo_spans = [(C_TRANSITIONS, 12)]"
  by (simp_all add: demo_spans_def new_stats_def bucket_names_of_def WIRE_V2_def transitions_of_def count_of_def
      spans_ok_of_def spans_usable_def probe_total_of_def)


end
