(* ===== verification/Prof_Symbols.thy ===== *)
theory Prof_Symbols
  imports Prof_Scan "HOL-Library.Char_ord" "HOL-Library.List_Lexorder" "HOL-Library.Product_Lexorder"
    "HOL-Library.Multiset"
begin

text \<open>
  The symbol tables of \<open>src/tools/prof-symbolize.py\<close>: the class \<open>SymbolTable\<close>, its two loaders (an ELF
  image of either byte order, and an \<open>nm\<close> listing) and the lookup of a sampled PC.  The notes the
  loaders print are not modelled; the order on names is the order of the code points.
\<close>

subsection \<open>The table\<close>

text \<open>A symbol before \<open>_finish\<close>: runtime address, name, global or not, function or not.\<close>

type_synonym symbol = "int \<times> string \<times> bool \<times> bool"

record symtab =
  st_label :: string
  st_text :: "(int \<times> string) list"
  st_text_lo :: int
  st_text_hi :: int
  st_data_lo :: int
  st_data_hi :: int
  st_filtered :: nat

datatype kind = Text_kind | Data_kind

definition is_asm_local :: "string \<Rightarrow> bool \<Rightarrow> bool" where
  "is_asm_local name is_global \<longleftrightarrow> \<not> is_global \<and> (CHR ''%'' \<in> set name \<or> begins ''.L'' name)"

text \<open>The choice among the symbols of one address: smallest key wins.\<close>

type_synonym sym_key = "nat \<times> nat \<times> nat \<times> string"

definition key_of :: "symbol \<Rightarrow> sym_key" where
  "key_of = (\<lambda>(addr, name, is_global, is_func).
     (if is_func then 0 else 1, if is_global then 0 else 1, length name, name))"

definition best_step ::
  "symbol \<Rightarrow> (int \<times> sym_key \<times> string) list \<Rightarrow> (int \<times> sym_key \<times> string) list" where
  "best_step s best = (case map_of best (fst s) of
     None \<Rightarrow> AList.update (fst s) (key_of s, fst (snd s)) best
   | Some (k, _) \<Rightarrow> if key_of s < k then AList.update (fst s) (key_of s, fst (snd s)) best else best)"

definition kept :: "bool \<Rightarrow> symbol list \<Rightarrow> symbol list" where
  "kept keep_all syms = (if keep_all then syms else filter (\<lambda>(a, n, g, f). \<not> is_asm_local n g) syms)"

definition finish :: "bool \<Rightarrow> symbol list \<Rightarrow> symtab \<Rightarrow> symtab" where
  "finish keep_all syms st =
     (let ks = kept keep_all syms in
      st\<lparr>st_filtered := (if keep_all then st_filtered st else length syms - length ks),
         st_text := sort (map (\<lambda>(a, k, n). (a, n)) (fold best_step ks []))\<rparr>)"

text \<open>\<open>bisect.bisect_right\<close>: the position after the last element that is not above \<open>x\<close>.\<close>

function bisect_loop :: "int list \<Rightarrow> int \<Rightarrow> nat \<Rightarrow> nat \<Rightarrow> nat" where
  "bisect_loop a x lo hi =
     (if lo < hi
      then (let mid = (lo + hi) div 2 in
            if x < a ! mid then bisect_loop a x lo mid else bisect_loop a x (Suc mid) hi)
      else lo)"
  by pat_completeness auto
termination
  by (relation "measure (\<lambda>(a, x, lo, hi). hi - lo)") auto

declare bisect_loop.simps [simp del]

definition bisect_right :: "int list \<Rightarrow> int \<Rightarrow> nat" where
  "bisect_right a x = bisect_loop a x 0 (length a)"

definition lookup :: "symtab \<Rightarrow> int \<Rightarrow> (string \<times> int \<times> kind) option" where
  "lookup st pc =
     (if st_text_lo st \<le> pc \<and> pc < st_text_hi st then
        (let i = bisect_right (map fst (st_text st)) pc in
         if 0 < i then (case st_text st ! (i - 1) of (addr, name) \<Rightarrow> Some (name, pc - addr, Text_kind))
         else Some (st_label st @ ''+'', pc - st_text_lo st, Text_kind))
      else if st_data_lo st \<le> pc \<and> pc < st_data_hi st
      then Some (st_label st @ '' .data/.bss'', pc - st_data_lo st, Data_kind)
      else None)"

subsection \<open>Reading an ELF image\<close>

definition STT_FUNC :: int where "STT_FUNC = 2"
definition STT_NOTYPE :: int where "STT_NOTYPE = 0"
definition ET_REL :: int where "ET_REL = 1"

record elf_section =
  e_nm :: string
  e_name :: int
  e_sht :: int
  e_addr :: int
  e_off :: int
  e_size :: int
  e_link :: int
  e_entsize :: int

text \<open>Name, value, binding, type, section index.\<close>

type_synonym elf_symbol = "string \<times> int \<times> int \<times> int \<times> int"

definition u16_end :: "bool \<Rightarrow> byte list \<Rightarrow> int \<Rightarrow> exn + int" where
  "u16_end big f i = (if big then u16 f i else unpack_H (rev (slice f i (i + 2))))"

definition u32_end :: "bool \<Rightarrow> byte list \<Rightarrow> int \<Rightarrow> exn + int" where
  "u32_end big f i = (if big then u32 f i else unpack_I (rev (slice f i (i + 4))))"

definition item :: "'a list \<Rightarrow> int \<Rightarrow> exn + 'a" where
  "item xs i = (let j = (if i < 0 then i + int (length xs) else i) in
     if 0 \<le> j \<and> j < int (length xs) then Inr (xs ! nat j) else Inl IndexError)"

definition latin1_at :: "byte list \<Rightarrow> int \<Rightarrow> exn + string" where
  "latin1_at f i = bind_e (cstr f i) (\<lambda>s. Inr (decode_latin1 s))"

definition elf_section_at :: "bool \<Rightarrow> byte list \<Rightarrow> int \<Rightarrow> exn + elf_section" where
  "elf_section_at big f b =
     bind_e (u32_end big f b) (\<lambda>name. bind_e (u32_end big f (b + 4)) (\<lambda>type.
     bind_e (u32_end big f (b + 12)) (\<lambda>addr. bind_e (u32_end big f (b + 16)) (\<lambda>off.
     bind_e (u32_end big f (b + 20)) (\<lambda>size. bind_e (u32_end big f (b + 24)) (\<lambda>link.
     bind_e (u32_end big f (b + 36)) (\<lambda>entsize.
     Inr \<lparr> e_nm = [], e_name = name, e_sht = type, e_addr = addr, e_off = off, e_size = size,
           e_link = link, e_entsize = entsize \<rparr>)))))))"

definition elf_symbol_at :: "bool \<Rightarrow> byte list \<Rightarrow> int \<Rightarrow> int \<Rightarrow> exn + elf_symbol list" where
  "elf_symbol_at big f strtab b =
     bind_e (u32_end big f b) (\<lambda>st_name. bind_e (u32_end big f (b + 4)) (\<lambda>st_value.
     bind_e (item f (b + 12)) (\<lambda>st_info. bind_e (u16_end big f (b + 14)) (\<lambda>st_shndx.
     if st_name = 0 \<or> st_shndx = 0 \<or> 0xFF00 \<le> st_shndx then Inr []
     else bind_e (latin1_at f (strtab + st_name)) (\<lambda>name.
       Inr [(name, st_value, uint st_info div 16, uint st_info mod 16, st_shndx)])))))"

definition elf_symbols_of :: "bool \<Rightarrow> byte list \<Rightarrow> elf_section list \<Rightarrow> elf_section \<Rightarrow> exn + elf_symbol list" where
  "elf_symbols_of big f secs s =
     (if e_sht s \<noteq> 2 then Inr []
      else bind_e (item secs (e_link s)) (\<lambda>str.
        let n = e_size s div (if e_entsize s = 0 then 16 else e_entsize s) in
        bind_e (map_e (\<lambda>i. elf_symbol_at big f (e_off str) (e_off s + int i * 16)) [0..<nat n])
          (\<lambda>yss. Inr (concat yss))))"

definition elf_sections_and_syms ::
  "byte list \<Rightarrow> exn + (int \<times> elf_section list \<times> elf_symbol list)" where
  "elf_sections_and_syms f =
     (if length f < 52 \<or> take 4 f \<noteq> [0x7f, 0x45, 0x4c, 0x46] then Inl (CaptureError ''not an ELF file'')
      else if f ! 4 \<noteq> 1 then Inl (CaptureError ''ELFCLASS64'')
      else
        (let big = (f ! 5 = 2) in
         bind_e (u16_end big f 16) (\<lambda>e_type. bind_e (u32_end big f 32) (\<lambda>e_shoff.
         bind_e (u16_end big f 46) (\<lambda>e_shentsize. bind_e (u16_end big f 48) (\<lambda>e_shnum.
         bind_e (u16_end big f 50) (\<lambda>e_shstrndx.
         bind_e (map_e (\<lambda>i. elf_section_at big f (e_shoff + int i * e_shentsize)) [0..<nat e_shnum]) (\<lambda>secs.
         bind_e (item secs e_shstrndx) (\<lambda>str.
         bind_e (map_e (\<lambda>s. bind_e (latin1_at f (e_off str + e_name s)) (\<lambda>nm. Inr (s\<lparr>e_nm := nm\<rparr>))) secs) (\<lambda>secs.
         bind_e (map_e (elf_symbols_of big f secs) secs) (\<lambda>symss.
         Inr (e_type, secs, concat symss))))))))))))"

definition new_symtab :: "string \<Rightarrow> symtab" where
  "new_symtab label = \<lparr> st_label = label, st_text = [], st_text_lo = 0, st_text_hi = 0, st_data_lo = 0,
     st_data_hi = 0, st_filtered = 0 \<rparr>"

text \<open>The loop over the symbols is the same in the two arms of the code.\<close>

definition text_symbols :: "int \<Rightarrow> elf_section list \<Rightarrow> elf_symbol list \<Rightarrow> symbol list" where
  "text_symbols base secs syms =
     map (\<lambda>(name, val, bnd, typ, shndx). (base + val, name, bnd = 1, typ = STT_FUNC))
       (filter (\<lambda>(name, val, bnd, typ, shndx).
          0 \<le> shndx \<and> shndx < int (length secs) \<and> e_nm (secs ! nat shndx) = ''.text''
          \<and> (typ = STT_FUNC \<or> typ = STT_NOTYPE)) syms)"

definition load_elf_symbols :: "byte list \<Rightarrow> int \<Rightarrow> string \<Rightarrow> bool \<Rightarrow> exn + symtab" where
  "load_elf_symbols f base label keep_all =
     bind_e (elf_sections_and_syms f) (\<lambda>(e_type, secs, syms).
       case find (\<lambda>s. e_nm s = ''.text'') secs of
         None \<Rightarrow> Inl (CaptureError ''no .text section'')
       | Some text \<Rightarrow>
           (let tsize = e_size text;
                dsize = sum_list (map e_size (filter (\<lambda>s. e_nm s = ''.data'' \<or> e_nm s = ''.bss'') secs));
                lo = (if e_type = ET_REL then base else base + e_addr text);
                st = finish keep_all (text_symbols base secs syms)
                  ((new_symtab label)\<lparr>st_text_lo := lo, st_text_hi := lo + tsize,
                     st_data_lo := lo + tsize, st_data_hi := lo + tsize + dsize\<rparr>) in
            if st_text st = [] then Inl (CaptureError ''no .text symbols'') else Inr st))"

subsection \<open>Reading an \<open>nm\<close> listing\<close>

definition NM_RE :: "string \<Rightarrow> (int \<times> char \<times> string) option" where
  "NM_RE s = do {
     (val, s) \<leftarrow> run1 is_hex (dropWhile is_space s); s \<leftarrow> spaces1 s; (k, s) \<leftarrow> Prof_Scan.count is_alpha 1 s;
     s \<leftarrow> spaces1 s; (name, s) \<leftarrow> nonspace1 s; eol s; Some (hex val, hd k, name) }"

definition nm_symbol :: "int \<Rightarrow> string \<Rightarrow> symbol list" where
  "nm_symbol base line = (case NM_RE line of
     Some (val, k, name) \<Rightarrow>
       if k = CHR ''T'' \<or> k = CHR ''t'' then [(base + val, name, k = CHR ''T'', False)] else []
   | None \<Rightarrow> [])"

definition load_nm_symbols :: "string list \<Rightarrow> int \<Rightarrow> int \<Rightarrow> string \<Rightarrow> bool \<Rightarrow> exn + symtab" where
  "load_nm_symbols lines base text_size label keep_all =
     (let syms = concat (map (nm_symbol base) lines) in
      if syms = [] then Inl (CaptureError ''no T/t symbols'')
      else Inr (finish keep_all syms ((new_symtab label)\<lparr>st_text_lo := base, st_text_hi := base + text_size,
             st_data_lo := base + text_size, st_data_hi := base + text_size\<rparr>)))"


subsection \<open>The binary search\<close>

lemma bisect_loop_spec:
  assumes "sorted a" "lo \<le> hi" "hi \<le> length a"
    and "\<forall>i<lo. a ! i \<le> x" "\<forall>i. hi \<le> i \<and> i < length a \<longrightarrow> x < a ! i"
  shows "bisect_loop a x lo hi \<le> length a \<and> (\<forall>i<bisect_loop a x lo hi. a ! i \<le> x)
    \<and> (\<forall>i. bisect_loop a x lo hi \<le> i \<and> i < length a \<longrightarrow> x < a ! i)"
  using assms
proof (induction a x lo hi rule: bisect_loop.induct)
  case (1 a x lo hi)
  show ?case
  proof (cases "lo < hi")
    case True
    define mid where "mid = (lo + hi) div 2"
    have m: "lo \<le> mid" "mid < hi" using True by (auto simp: mid_def)
    then have len: "mid < length a" using 1(5) by (meson less_le_trans)
    show ?thesis
    proof (cases "x < a ! mid")
      case x: True
      have "\<forall>i. mid \<le> i \<and> i < length a \<longrightarrow> x < a ! i"
        using x sorted_nth_mono [OF 1(3)] by (meson less_le_trans)
      moreover have eq: "bisect_loop a x lo hi = bisect_loop a x lo mid"
        using True x by (subst bisect_loop.simps) (simp add: mid_def Let_def)
      ultimately show ?thesis unfolding eq
        by (intro 1(1) [OF True mid_def x 1(3) m(1) less_imp_le [OF len] 1(6)])
    next
      case x: False
      have "\<forall>i<Suc mid. a ! i \<le> x"
        using x sorted_nth_mono [OF 1(3) _ len] by (meson less_Suc_eq_le linorder_not_less order_trans)
      moreover have eq: "bisect_loop a x lo hi = bisect_loop a x (Suc mid) hi"
        using True x by (subst bisect_loop.simps) (simp add: mid_def Let_def)
      ultimately show ?thesis unfolding eq
        by (intro 1(2) [OF True mid_def x 1(3) Suc_leI [OF m(2)] 1(5) _ 1(7)])
    qed
  next
    case False
    then have "lo = hi" using 1(4) by simp
    moreover have "bisect_loop a x lo hi = lo" using False by (subst bisect_loop.simps) simp
    ultimately show ?thesis using 1(5-7) by simp
  qed
qed

lemma bisect_right_spec:
  assumes "sorted a"
  shows "bisect_right a x \<le> length a" "i < bisect_right a x \<Longrightarrow> a ! i \<le> x"
    "bisect_right a x \<le> i \<Longrightarrow> i < length a \<Longrightarrow> x < a ! i"
  using bisect_loop_spec [OF assms, of 0 "length a" x] by (auto simp: bisect_right_def)

subsection \<open>What the table holds\<close>

text \<open>The dictionary as a function of the set of symbols: the least key of each address.\<close>

definition best_of :: "symbol set \<Rightarrow> int \<Rightarrow> (sym_key \<times> string) option" where
  "best_of S a = (if \<exists>s\<in>S. fst s = a
     then Some (let k = Min (key_of ` {s \<in> S. fst s = a}) in (k, snd (snd (snd k)))) else None)"

lemma key_of_name: "snd (snd (snd (key_of s))) = fst (snd s)"
  by (cases s) (simp add: key_of_def)

lemma best_of_insert:
  assumes "finite S"
  shows "best_of (insert s S) = (best_of S)(fst s := (case best_of S (fst s) of
      None \<Rightarrow> Some (key_of s, fst (snd s))
    | Some (k, n) \<Rightarrow> if key_of s < k then Some (key_of s, fst (snd s)) else Some (k, n)))"
proof
  fix a
  show "best_of (insert s S) a = ((best_of S)(fst s := (case best_of S (fst s) of
      None \<Rightarrow> Some (key_of s, fst (snd s))
    | Some (k, n) \<Rightarrow> if key_of s < k then Some (key_of s, fst (snd s)) else Some (k, n)))) a"
  proof (cases "a = fst s")
    case True
    have i: "{t. (t = s \<or> t \<in> S) \<and> fst t = fst s} = insert s {t \<in> S. fst t = fst s}" by auto
    show ?thesis
    proof (cases "\<exists>t\<in>S. fst t = fst s")
      case ex: True
      let ?K = "key_of ` {t \<in> S. fst t = fst s}"
      have f: "finite ?K" using assms by simp
      have ne: "?K \<noteq> {}" using ex by blast
      have "best_of (insert s S) a = Some (let k = Min (insert (key_of s) ?K) in (k, snd (snd (snd k))))"
        unfolding best_of_def insert_iff True i using ex by simp
      moreover have "best_of S (fst s) = Some (let k = Min ?K in (k, snd (snd (snd k))))"
        unfolding best_of_def using ex by simp
      moreover obtain m where m: "Min ?K = m" by simp
      moreover have "Min (insert (key_of s) ?K) = min (key_of s) m" unfolding m [symmetric] by (rule Min_insert [OF f ne])
      moreover have "key_of s = m \<Longrightarrow> fst (snd s) = snd (snd (snd m))" using key_of_name [of s] by simp
      ultimately show ?thesis using True by (simp add: key_of_name min_def Let_def) auto
    next
      case False
      then have "{t \<in> insert s S. fst t = fst s} = {s}" using False by auto
      then have "best_of (insert s S) (fst s) = Some (key_of s, fst (snd s))"
        by (simp add: best_of_def Let_def key_of_name)
      moreover have "best_of S (fst s) = None" using False by (simp add: best_of_def)
      ultimately show ?thesis using True by simp
    qed
  next
    case False
    then have "{t \<in> insert s S. fst t = a} = {t \<in> S. fst t = a}" by auto
    then show ?thesis using False by (auto simp: best_of_def)
  qed
qed

lemma fold_best:
  "finite S \<Longrightarrow> map_of best = best_of S \<Longrightarrow> distinct (map fst best) \<Longrightarrow>
   map_of (fold best_step ks best) = best_of (set ks \<union> S) \<and> distinct (map fst (fold best_step ks best))"
proof (induction ks arbitrary: best S)
  case (Cons s ks)
  have "map_of (best_step s best) = best_of (insert s S)"
    using Cons.prems by (auto simp: best_of_insert best_step_def update_conv' split: option.splits)
  moreover have "distinct (map fst (best_step s best))"
    using Cons.prems(3) by (auto simp: best_step_def distinct_update split: option.splits)
  ultimately show ?case using Cons.IH [of "insert s S"] Cons.prems(1) by simp
qed simp

lemma best_table:
  "map_of (fold best_step ks []) = best_of (set ks)" "distinct (map fst (fold best_step ks []))"
proof -
  have "map_of [] = best_of {}" by (simp add: best_of_def fun_eq_iff)
  then show "map_of (fold best_step ks []) = best_of (set ks)" "distinct (map fst (fold best_step ks []))"
    using fold_best [of "{}" "[]" ks] by simp_all
qed

definition table_of :: "symbol list \<Rightarrow> (int \<times> string) list" where
  "table_of ks = sort (map (\<lambda>(a, k, n). (a, n)) (fold best_step ks []))"

lemma finish_simps [simp]:
  "st_text (finish keep_all syms st) = table_of (kept keep_all syms)"
  "st_text_lo (finish keep_all syms st) = st_text_lo st" "st_text_hi (finish keep_all syms st) = st_text_hi st"
  "st_data_lo (finish keep_all syms st) = st_data_lo st" "st_data_hi (finish keep_all syms st) = st_data_hi st"
  "st_label (finish keep_all syms st) = st_label st"
  by (simp_all add: finish_def table_of_def Let_def)

lemma pair_image: "(a, n) \<in> (\<lambda>(a, k, n). (a, n)) ` A \<longleftrightarrow> (\<exists>k. (a, k, n) \<in> A)"
  by force

lemma table_distinct: "distinct (map fst (table_of ks))"
proof -
  let ?f = "fold best_step ks []"
  have "fst \<circ> (\<lambda>(a, k :: sym_key, n :: string). (a :: int, n)) = fst" by (simp add: fun_eq_iff)
  then have "distinct (map fst (map (\<lambda>(a, k, n). (a, n)) ?f))" 
    using best_table(2) [of ks] by (simp only: map_map)
  moreover have "mset (map fst (sort (map (\<lambda>(a, k, n). (a, n)) ?f))) = mset (map fst (map (\<lambda>(a, k, n). (a, n)) ?f))"
    by (simp only: mset_map mset_sort)
  ultimately show ?thesis unfolding table_of_def using mset_eq_imp_distinct_iff by blast
qed

lemma table_sorted: "sorted (map fst (table_of ks))"
proof -
  have "sorted (table_of ks)" by (simp add: table_of_def)
  then show ?thesis
    by (auto simp: sorted_iff_nth_mono less_eq_prod_def intro: order_less_imp_le)
qed

lemma set_table: "(a, n) \<in> set (table_of ks) \<longleftrightarrow> (\<exists>k. best_of (set ks) a = Some (k, n))"
proof -
  have "(a, v) \<in> set (fold best_step ks []) \<longleftrightarrow> best_of (set ks) a = Some v" for v
    using map_of_eq_Some_iff [OF best_table(2)] best_table(1) by simp
  then show ?thesis by (simp add: table_of_def pair_image)
qed

text \<open>An entry of the table: a kept symbol, and none at its address has a smaller key.\<close>

lemma best_of_Some:
  assumes "finite S" "best_of S a = Some (k, n)"
  shows "\<exists>s\<in>S. fst s = a \<and> fst (snd s) = n \<and> key_of s = k \<and> (\<forall>t\<in>S. fst t = a \<longrightarrow> key_of s \<le> key_of t)"
proof -
  let ?K = "key_of ` {s \<in> S. fst s = a}"
  have ex: "\<exists>s\<in>S. fst s = a" using assms(2) by (simp add: best_of_def split: if_splits)
  have f: "finite ?K" using assms(1) by simp
  have ne: "?K \<noteq> {}" using ex by blast
  have kn: "k = Min ?K" "n = snd (snd (snd k))" using assms(2) ex by (auto simp add: best_of_def Let_def)
  obtain s where s: "s \<in> S" "fst s = a" "key_of s = k" using Min_in [OF f ne] kn(1) by (auto simp: image_iff)
  moreover have "\<forall>t\<in>S. fst t = a \<longrightarrow> k \<le> key_of t" using Min_le [OF f] kn(1) by blast
  ultimately show ?thesis using kn(2) key_of_name [of s] by auto
qed

lemma table_set_only: "set ks = set ks' \<Longrightarrow> table_of ks = table_of ks'"
proof -
  assume "set ks = set ks'"
  then have "set (table_of ks) = set (table_of ks')" by (intro set_eqI) (auto simp: set_table)
  moreover have "sorted (table_of l)" "distinct (table_of l)" for l
    using table_distinct [of l] by (simp_all add: table_of_def distinct_map)
  ultimately show ?thesis using sorted_distinct_set_unique by blast
qed


subsection \<open>The lookup\<close>

text \<open>
  The binary search of the library, as the lookup uses it, is the count of the addresses that are not above
  the PC: it terminates on every list and on a sorted one it is the linear scan.
\<close>

lemma bisect_is_scan:
  assumes "sorted a" shows "bisect_right a x = length (takeWhile (\<lambda>y. y \<le> x) a)"
proof -
  have "takeWhile (\<lambda>y. y \<le> x) a = take (bisect_right a x) a"
    by (rule takeWhile_eq_take_P_nth) (use bisect_right_spec [OF assms] in \<open>force+\<close>)
  then show ?thesis using bisect_right_spec(1) [OF assms, of x] by simp
qed

lemma bisect_witness: "bisect_right [3, 7, 7, 12] 7 = 3"
  by (simp add: bisect_is_scan)

lemma table_has: "t \<in> set ks \<Longrightarrow> fst t \<in> set (map fst (table_of ks))"
proof -
  assume t: "t \<in> set ks"
  have "best_of (set ks) (fst t) \<noteq> None" unfolding best_of_def using t by (simp only: split: if_split) blast
  then obtain k n where "best_of (set ks) (fst t) = Some (k, n)" by (metis option.exhaust prod.exhaust)
  then have "(fst t, n) \<in> set (table_of ks)" using set_table by blast
  then show ?thesis by force
qed

lemma table_entry:
  assumes "(a, n) \<in> set (table_of ks)"
  shows "\<exists>s\<in>set ks. fst s = a \<and> fst (snd s) = n \<and> (\<forall>t\<in>set ks. fst t = a \<longrightarrow> key_of s \<le> key_of t)"
proof -
  obtain k where "best_of (set ks) a = Some (k, n)" using assms set_table by blast
  then show ?thesis using best_of_Some [of "set ks" a k n] by auto
qed

text \<open>The search splits the symbols at the PC.\<close>

lemma table_split:
  defines "i \<equiv> \<lambda>ks pc. bisect_right (map fst (table_of ks)) pc"
  assumes "t \<in> set ks"
  shows "i ks pc = 0 \<Longrightarrow> pc < fst t"
    and "0 < i ks pc \<Longrightarrow> fst t \<le> pc \<Longrightarrow> fst t \<le> fst (table_of ks ! (i ks pc - 1))"
proof -
  let ?A = "map fst (table_of ks)"
  note sp = bisect_right_spec [OF table_sorted [of ks], where x = pc]
  obtain j where j: "j < length ?A" "?A ! j = fst t" using table_has [OF assms(2)] by (metis in_set_conv_nth)
  show "i ks pc = 0 \<Longrightarrow> pc < fst t" using sp(3) [of j] j by (simp add: i_def)
  assume p: "0 < i ks pc" "fst t \<le> pc"
  have l: "i ks pc - 1 < length ?A" using sp(1) p(1) by (simp add: i_def less_le_trans)
  have "j < i ks pc" using sp(3) [of j] j p(2) unfolding i_def by linarith
  then have "?A ! j \<le> ?A ! (i ks pc - 1)" using l by (intro sorted_nth_mono [OF table_sorted]) auto
  then show "fst t \<le> fst (table_of ks ! (i ks pc - 1))" using j l by simp
qed

text \<open>
  C25: a PC inside \<open>.text\<close> is given to a kept symbol at the greatest address that is not above it, and among
  the symbols of that address to one with the least key (a function first, then a global, then the shorter
  name, then the smaller); only a PC below every kept symbol is given to the image itself.
\<close>

theorem lookup_nearest:
  assumes "st_text_lo st \<le> pc" "pc < st_text_hi st"
  shows "case lookup (finish keep_all syms st) pc of
      None \<Rightarrow> False
    | Some (name, off, k) \<Rightarrow> k = Text_kind \<and>
        (if \<forall>s \<in> set (kept keep_all syms). pc < fst s
         then name = st_label st @ ''+'' \<and> off = pc - st_text_lo st
         else 0 \<le> off \<and> (\<exists>s \<in> set (kept keep_all syms). fst s = pc - off \<and> fst (snd s) = name \<and>
           (\<forall>t \<in> set (kept keep_all syms). fst t \<le> pc \<longrightarrow>
              fst t < fst s \<or> fst t = fst s \<and> key_of s \<le> key_of t)))"
proof (cases "0 < bisect_right (map fst (table_of (kept keep_all syms))) pc")
  case True
  let ?K = "kept keep_all syms"
  let ?i = "bisect_right (map fst (table_of ?K)) pc"
  note sp = bisect_right_spec [OF table_sorted [of ?K], where x = pc]
  have i: "?i - 1 < length (table_of ?K)" using sp(1) True by (simp add: less_le_trans)
  obtain a n where an: "table_of ?K ! (?i - 1) = (a, n)" by (cases "table_of ?K ! (?i - 1)")
  then obtain s where s: "s \<in> set ?K" "fst s = a" "fst (snd s) = n" "\<forall>t\<in>set ?K. fst t = a \<longrightarrow> key_of s \<le> key_of t"
    using table_entry [of a n ?K] i nth_mem by metis
  have le: "a \<le> pc" using sp(2) [of "?i - 1"] True an i by simp
  have best: "\<forall>t\<in>set ?K. fst t \<le> pc \<longrightarrow> fst t < fst s \<or> fst t = fst s \<and> key_of s \<le> key_of t"
  proof (intro ballI impI)
    fix t assume t: "t \<in> set ?K" "fst t \<le> pc"
    show "fst t < fst s \<or> fst t = fst s \<and> key_of s \<le> key_of t"
      using table_split(2) [OF t(1) True t(2)] an s(2,4) t(1) by (cases "fst t = a") auto
  qed
  have "\<not> pc < fst s" using s(2) le by simp
  then have some: "\<not> (\<forall>t\<in>set ?K. pc < fst t)" using s(1) by blast
  have l: "lookup (finish keep_all syms st) pc = Some (n, pc - a, Text_kind)"
    using assms True an by (simp add: lookup_def Let_def)
  have "\<exists>s\<in>set ?K. fst s = pc - (pc - a) \<and> fst (snd s) = n \<and>
      (\<forall>t\<in>set ?K. fst t \<le> pc \<longrightarrow> fst t < fst s \<or> fst t = fst s \<and> key_of s \<le> key_of t)"
    using s(2,3) best by (intro bexI [OF _ s(1)]) simp
  then show ?thesis unfolding l using some le by (simp only: option.case prod.case if_False) simp
next
  case False
  then have "\<forall>t\<in>set (kept keep_all syms). pc < fst t" using table_split(1) by auto
  then show ?thesis using assms False by (simp add: lookup_def Let_def)
qed

text \<open>
  the table does not depend on the order in which the file lists its symbols, so two runs over one
  capture name every PC alike.
\<close>

theorem finish_deterministic:
  assumes "mset syms = mset syms'"
  shows "finish keep_all syms st = finish keep_all syms' st"
proof -
  have m: "mset (kept keep_all syms) = mset (kept keep_all syms')" using assms by (simp add: kept_def)
  have "table_of (kept keep_all syms) = table_of (kept keep_all syms')"
    by (rule table_set_only [OF mset_eq_setD [OF m]])
  moreover have "length (kept keep_all syms) = length (kept keep_all syms')" "length syms = length syms'"
    by (rule mset_eq_length [OF m], rule mset_eq_length [OF assms])
  ultimately show ?thesis unfolding finish_def Let_def table_of_def by (simp only:)
qed

definition demo_syms :: "symbol list" where
  "demo_syms = [(16, ''main'', True, True), (16, ''main_alias'', True, True), (20, ''L%done'', False, False),
     (32, ''intr'', False, True)]"

definition demo_image :: symtab where
  "demo_image = (new_symtab ''kernel'')\<lparr>st_text_lo := 16, st_text_hi := 64, st_data_lo := 64, st_data_hi := 80\<rparr>"

lemma demo_kept: "kept False demo_syms = [(16, ''main'', True, True), (16, ''main_alias'', True, True), (32, ''intr'', False, True)]"
  by (simp add: kept_def demo_syms_def is_asm_local_def begins_def)

lemma lookup_nearest_witness: "lookup (finish False demo_syms demo_image) 24 = Some (''main'', 8, Text_kind)"
  using lookup_nearest [of demo_image 24 False demo_syms]
  by (auto simp: demo_kept demo_image_def new_symtab_def key_of_def split: option.splits prod.splits if_splits)

lemma finish_deterministic_witness:
  "finish False (rev demo_syms) demo_image = finish False demo_syms demo_image"
  by (rule finish_deterministic) simp

end
