(* ===== verification/Prof_Types.thy ===== *)
theory Prof_Types
  imports Prof_Capture
begin

text \<open>
  What the capture parser of \<open>src/tools/prof-symbolize.py\<close> guarantees of a stats dump: one value per id,
  no negative id and no negative count, in every dump it delivers.
\<close>

definition counts_ok :: "(int \<times> int) list \<Rightarrow> bool" where
  "counts_ok c \<longleftrightarrow> distinct (map fst c) \<and> list_all (\<lambda>(i, n). 0 \<le> i \<and> 0 \<le> n) c"

definition stats_ok :: "stats \<Rightarrow> bool" where
  "stats_ok st \<longleftrightarrow> counts_ok (s_buckets st) \<and> counts_ok (s_counters st) \<and> counts_ok (s_spans st)
     \<and> counts_ok (s_span_corrected st)"

definition dumps_ok :: "parser \<Rightarrow> bool" where
  "dumps_ok ps \<longleftrightarrow> list_all stats_ok (dumps ps) \<and> (case cur_stats ps of Some st \<Rightarrow> stats_ok st | None \<Rightarrow> True)"

lemma counts_ok_update: "counts_ok c \<Longrightarrow> 0 \<le> i \<Longrightarrow> 0 \<le> n \<Longrightarrow> counts_ok (AList.update i n c)"
proof -
  assume c: "counts_ok c" and i: "0 \<le> i" "0 \<le> n"
  have "list_all (\<lambda>(i, n). 0 \<le> i \<and> 0 \<le> n) (AList.update i n d)"
    if "list_all (\<lambda>(i, n). 0 \<le> i \<and> 0 \<le> n) d" for d using that i by (induction d) auto
  then show ?thesis using c by (simp add: counts_ok_def distinct_update)
qed

subsection \<open>Numbers are not negative\<close>

lemma dec_nonneg: "list_all is_digit s \<Longrightarrow> 0 \<le> dec s"
proof (induction s rule: rev_induct)
  case (snoc c s)
  then show ?case by (simp add: dec_def is_digit_def)
qed (simp add: dec_def)

lemma digits_nonneg: "digits s = Some (n, r) \<Longrightarrow> 0 \<le> n"
  using dec_nonneg [of "takeWhile is_digit s"]
  by (auto simp: digits_def run1_def Let_def list_all_iff dest: set_takeWhileD split: if_splits)

lemma re_bucket_nonneg: "re_bucket line = Some (bid, name, cyc) \<Longrightarrow> 0 \<le> bid \<and> 0 \<le> cyc"
  by (auto simp: re_bucket_def Option.bind_eq_Some_conv dest!: digits_nonneg)

lemma re_counter_nonneg: "re_counter line = Some (cid, name, val) \<Longrightarrow> 0 \<le> cid \<and> 0 \<le> val"
  by (auto simp: re_counter_def Option.bind_eq_Some_conv dest!: digits_nonneg)

lemma re_span_nonneg: "re_span line = Some (bid, name, k, c) \<Longrightarrow> 0 \<le> bid \<and> 0 \<le> k \<and> 0 \<le> c"
  by (auto simp: re_span_def Option.bind_eq_Some_conv dest!: digits_nonneg)

subsection \<open>The steps keep the dumps well-formed\<close>

lemma warn_dumps [simp]: "dumps_ok (warn w ps) = dumps_ok ps"
  by (simp add: dumps_ok_def)

lemma resolve_shape_stats:
  assumes "resolve_shape sem bid name no (st, ps) = (st', ps')"
  shows "s_buckets st' = s_buckets st" "s_counters st' = s_counters st" "s_spans st' = s_spans st"
    "s_span_corrected st' = s_span_corrected st" "dumps ps' = dumps ps"
  using assms by (auto simp: resolve_shape_def split: if_splits option.splits prod.splits)

lemma check_name_dumps [simp]: "dumps (check_name i n t w no v ps) = dumps ps"
  by (simp add: check_name_def)

lemma stats_rows_types:
  assumes r: "stats_rows no line st ps = Inr ps'" and ok: "stats_ok st" "list_all stats_ok (dumps ps)"
  shows "dumps_ok ps'"
  using assms unfolding stats_rows_def Let_def
  by (auto simp: dumps_ok_def stats_ok_def counts_ok_update re_bucket_nonneg re_span_nonneg re_counter_nonneg
      resolve_shape_stats split: option.splits prod.splits if_splits)

lemma stats_step_types:
  assumes r: "stats_step no line st ps = Inr ps'" and ok: "stats_ok st" "list_all stats_ok (dumps ps)"
  shows "dumps_ok ps'"
  using r stats_rows_types [OF _ ok, of no line ps'] ok unfolding stats_step_def version_grammar_mismatch_def
  by (auto simp: dumps_ok_def stats_ok_def split: option.splits prod.splits if_splits)

lemma new_stats_ok: "stats_ok (new_stats\<lparr>s_first_line := no\<rparr>)"
  by (simp add: stats_ok_def new_stats_def counts_ok_def)

lemma dump_step_types:
  assumes "dump_step no line ps = Inr ps'" "dumps_ok ps" shows "dumps_ok ps'"
proof -
  have w: "list_all stats_ok (dumps (warn w ps))" "list_all stats_ok (dumps ps)" for w
    using assms(2) by (simp_all add: dumps_ok_def)
  have k: "dumps_ok (ps\<lparr>cur_ring := r, pending_hdr := h, pending_hdr_line := l\<rparr>)"
    "dumps_ok (ps\<lparr>cur_stats := Some (new_stats\<lparr>s_first_line := no\<rparr>)\<rparr>)" for r h l
    using assms(2) new_stats_ok by (simp_all add: dumps_ok_def)
  have o: "cur_stats ps = Some st \<Longrightarrow> stats_ok st" for st using assms(2) by (simp add: dumps_ok_def)
  show ?thesis using assms k
    by (auto simp: dump_step_def split: if_splits option.splits
        dest: stats_step_types [OF _ new_stats_ok w(1)] stats_step_types [OF _ o w(2)])
qed

lemma header_step_types:
  assumes "header_step no raw line ps = Inr ps'" "dumps_ok ps" shows "dumps_ok ps'"
proof -
  have k: "dumps_ok (p\<lparr>pending_hdr_line := n, pending_hdr := h\<rparr>) = dumps_ok p" for p n h by (simp add: dumps_ok_def)
  show ?thesis using assms dump_step_types [of no line _ ps']
    by (auto simp: header_step_def k split: option.splits prod.splits)
qed

lemma outside_step_types:
  assumes "outside_step no raw line ps = Inr ps'" "dumps_ok ps" shows "dumps_ok ps'"
proof -
  have k: "dumps_ok (ps\<lparr>boot_line := b\<rparr>)" "dumps_ok (ps\<lparr>cal := c\<rparr>)" for b c using assms(2) by (simp_all add: dumps_ok_def)
  show ?thesis using assms(1) header_step_types [OF _ assms(2)] unfolding outside_step_def
    by (auto simp: k split: option.splits prod.splits)
qed

lemma close_ring_dumps: "close_ring ring promised ps = Inr ps' \<Longrightarrow> dumps ps' = dumps ps \<and> cur_stats ps' = cur_stats ps"
  by (auto simp: close_ring_def Let_def split: option.splits if_splits list.splits)

lemma ring_step_types: "ring_step no line ring ps = Inr ps' \<Longrightarrow> dumps_ok ps \<Longrightarrow> dumps_ok ps'"
  by (auto simp: ring_step_def dumps_ok_def Let_def split: option.splits if_splits dest!: close_ring_dumps)

lemma line_step_types:
  assumes "line_step no raw ps = Inr ps'" "dumps_ok ps" shows "dumps_ok ps'"
proof -
  have k: "dumps_ok (ps\<lparr>prefixed := a, first_prefix_line := b\<rparr>)" "dumps_ok (ps\<lparr>prefixed := a\<rparr>)" for a b
    using assms(2) by (simp_all add: dumps_ok_def)
  show ?thesis using assms k
    by (auto simp: line_step_def Let_def dest: outside_step_types ring_step_types split: option.splits if_splits prod.splits)
qed

lemma parse_lines_types: "parse_lines no raws ps = Inr ps' \<Longrightarrow> dumps_ok ps \<Longrightarrow> dumps_ok ps'"
  by (induction no raws ps rule: parse_lines.induct) (auto dest: line_step_types)

lemma parse_capture_types:
  assumes "parse_capture raws = Inr ps" shows "list_all stats_ok (dumps ps)"
proof -
  obtain ps1 where p: "parse_lines 1 raws new_parser = Inr ps1" "finish_capture ps1 = Inr ps"
    using assms by (auto simp: parse_capture_def)
  have "dumps_ok ps1" by (rule parse_lines_types [OF p(1)]) (simp add: dumps_ok_def new_parser_def)
  then show ?thesis using p(2)
    by (auto simp: finish_capture_def Let_def dumps_ok_def split: option.splits if_splits dest!: finish_boot_keeps)
qed

end
