(* ===== verification/Py_Strings.thy ===== *)
theory Py_Strings
  imports Prof_Types
begin

text \<open>
  Strings as the smaller tools use them: \<open>strip\<close>, \<open>split\<close>, \<open>lower\<close>, the printing of numbers, and that a printed
  number is read back.
\<close>

subsection \<open>Strings\<close>

definition strip_of :: "(char \<Rightarrow> bool) \<Rightarrow> string \<Rightarrow> string" where
  "strip_of P s = rev (dropWhile P (rev (dropWhile P s)))"

definition py_strip :: "string \<Rightarrow> string" where
  "py_strip = strip_of is_space"

text \<open>\<open>s.split()\<close>\<close>

function split_ws :: "string \<Rightarrow> string list" where
  "split_ws s = (let t = dropWhile is_space s in
     if t = [] then [] else takeWhile (\<lambda>c. \<not> is_space c) t # split_ws (dropWhile (\<lambda>c. \<not> is_space c) t))"
  by auto

lemma split_ws_shorter:
  assumes "dropWhile is_space s \<noteq> []"
  shows "length (dropWhile (\<lambda>c. \<not> is_space c) (dropWhile is_space s)) < length s"
proof -
  obtain c t where t: "dropWhile is_space s = c # t" using assms by (cases "dropWhile is_space s") auto
  then have "\<not> is_space c" by (metis hd_dropWhile list.distinct(1) list.sel(1))
  then have "length (dropWhile (\<lambda>c. \<not> is_space c) (c # t)) \<le> length t"
    using length_dropWhile_le [of "\<lambda>c. \<not> is_space c" t] by simp
  also have "length t < length s" using length_dropWhile_le [of is_space s] t by simp
  finally show ?thesis using t by simp
qed

termination split_ws
  by (relation "measure length") (auto simp: split_ws_shorter)

declare split_ws.simps [simp del]

text \<open>\<open>s.split(c)\<close>\<close>

fun split_on :: "char \<Rightarrow> string \<Rightarrow> string list" where
  "split_on c [] = [[]]"
| "split_on c (x # xs) = (if x = c then [] # split_on c xs
     else case split_on c xs of y # ys \<Rightarrow> (x # y) # ys | [] \<Rightarrow> [[x]])"

text \<open>\<open>s.lower()\<close> for the codes below 256.\<close>

definition lower_c :: "char \<Rightarrow> char" where
  "lower_c c = (if is_upper c \<or> (192 \<le> ord_c c \<and> ord_c c \<le> 222 \<and> ord_c c \<noteq> 215) then char_of (ord_c c + 32) else c)"

definition py_lower :: "string \<Rightarrow> string" where
  "py_lower = map lower_c"

text \<open>\<open>str(n)\<close> and the format \<open>{n:02d}\<close>\<close>

fun nat_str :: "nat \<Rightarrow> string" where
  "nat_str n = (if n < 10 then [''0123456789'' ! n] else nat_str (n div 10) @ [''0123456789'' ! (n mod 10)])"

declare nat_str.simps [simp del]

definition int_str :: "int \<Rightarrow> string" where
  "int_str n = (if n < 0 then ''-'' @ nat_str (nat (- n)) else nat_str (nat n))"

definition fmt_02d :: "int \<Rightarrow> string" where
  "fmt_02d n = (if 0 \<le> n \<and> n < 10 then ''0'' @ int_str n else int_str n)"

subsection \<open>Numbers are read back as they were printed\<close>

lemma digit_char:
  assumes "n < 10"
  shows "is_digit (''0123456789'' ! n)" "ord_c (''0123456789'' ! n) = 48 + n"
proof -
  have "list_all (\<lambda>n. is_digit (''0123456789'' ! n) \<and> ord_c (''0123456789'' ! n) = 48 + n) [0..<10]"
    by (simp add: is_digit_def ord_c_def upt_conv_Cons)
  then show "is_digit (''0123456789'' ! n)" "ord_c (''0123456789'' ! n) = 48 + n"
    using assms by (auto simp: list_all_iff)
qed

lemma dec_snoc: "dec (s @ [c]) = 10 * dec s + (int (ord_c c) - 48)"
  by (simp add: dec_def)

lemma nat_str_digits: "list_all is_digit (nat_str n) \<and> nat_str n \<noteq> [] \<and> dec (nat_str n) = int n"
proof (induction n rule: nat_str.induct)
  case (1 n)
  show ?case
  proof (cases "n < 10")
    case True
    then show ?thesis using digit_char [of n] by (simp add: nat_str.simps [of n] dec_def)
  next
    case False
    have "int n = 10 * int (n div 10) + int (n mod 10)" by (simp add: zdiv_int zmod_int)
    then show ?thesis using 1 False digit_char [of "n mod 10"]
      by (subst (1 2 3) nat_str.simps) (simp add: dec_snoc)
  qed
qed

lemma int_body_digits: "list_all is_digit s \<Longrightarrow> s \<noteq> [] \<Longrightarrow> int_body s"
proof (induction s rule: int_body.induct)
  case (3 c d s)
  have "d \<noteq> CHR ''_''" using "3.prems"(1) by (auto simp: is_digit_def ord_c_def)
  then show ?case using 3 by simp
qed simp_all

lemma py_int_digits:
  assumes "list_all is_digit s" "s \<noteq> []" shows "py_int s = Inr (dec s)"
proof -
  obtain c r where c: "s = c # r" using assms(2) by (cases s) auto
  then have "c \<noteq> CHR ''-''" "c \<noteq> CHR ''+''" using assms(1) by (auto simp: is_digit_def ord_c_def)
  moreover have "filter is_digit s = s" using assms(1) by (simp add: filter_id_conv list_all_iff)
  ultimately show ?thesis using int_body_digits [OF assms] by (simp add: py_int_def c Let_def)
qed

lemma int_str_digits: "0 \<le> n \<Longrightarrow> list_all is_digit (int_str n) \<and> int_str n \<noteq> [] \<and> dec (int_str n) = n"
  using nat_str_digits [of "nat n"] by (simp add: int_str_def)

lemma py_int_int_str: "0 \<le> n \<Longrightarrow> py_int (int_str n) = Inr n"
  using int_str_digits [of n] py_int_digits by simp

definition solid :: "string \<Rightarrow> bool" where
  "solid s \<longleftrightarrow> s \<noteq> [] \<and> list_all (\<lambda>c. \<not> is_space c) s"

lemma digits_solid: "list_all is_digit s \<Longrightarrow> s \<noteq> [] \<Longrightarrow> solid s"
  by (auto simp: solid_def list_all_iff is_digit_def is_space_def)

lemma int_str_solid: "0 \<le> n \<Longrightarrow> solid (int_str n)"
  using int_str_digits digits_solid by blast

lemma drop_solid: "solid s \<Longrightarrow> dropWhile is_space (s @ t) = s @ t"
  by (cases s) (auto simp: solid_def)

lemma split_ws_solid:
  assumes "solid s" "is_space c"
  shows "split_ws (s @ c # t) = s # split_ws t"
proof -
  have "dropWhile is_space (s @ c # t) = s @ c # t" "s @ c # t \<noteq> []" using drop_solid [OF assms(1)] by simp_all
  moreover have "takeWhile (\<lambda>c. \<not> is_space c) (s @ c # t) = s" "dropWhile (\<lambda>c. \<not> is_space c) (s @ c # t) = c # t"
    using assms by (auto simp: solid_def list_all_iff takeWhile_append dropWhile_append)
  moreover have "split_ws (c # t) = split_ws t"
    using assms(2) by (subst (1 2) split_ws.simps) simp
  ultimately show ?thesis by (subst split_ws.simps) (simp add: Let_def)
qed

lemma split_ws_Nil [simp]: "split_ws [] = []"
  by (subst split_ws.simps) simp

lemma split_ws_last: "solid s \<Longrightarrow> split_ws s = [s]"
proof -
  assume s: "solid s"
  have "takeWhile (\<lambda>c. \<not> is_space c) s = s" and d: "dropWhile (\<lambda>c. \<not> is_space c) s = []"
    using s by (auto simp: solid_def list_all_iff takeWhile_eq_all_conv)
  then show ?thesis using drop_solid [OF s, of "[]"] s
    by (subst split_ws.simps) (simp add: Let_def solid_def d)
qed

lemma space_chars [simp]: "is_space (CHR '' '')" "is_space (char_of (10 :: nat))"
  by (simp_all add: is_space_def ord_c_def)

end
