(* ===== verification/Prof_Checks.thy ===== *)
theory Prof_Checks
  imports Prof_Probe Prof_Symbols Prof_Types Py_Strings
begin

text \<open>
  The sections of a stats dump after the subtraction, from \<open>report_stats\<close> of \<open>src/tools/prof-symbolize.py\<close>
  and the functions it calls: the provenance of the clock, the tail and loop rollups, the swept spans, the
  counters, the rates, and the identities an intact dump satisfies.  A section is the list of its rows, each
  with the numbers it prints, and the list of its warnings; a percentage is the pair it is computed from.  The
  wording of the rows is not modelled.
\<close>

unbundle bit_operations_syntax

subsection \<open>Sections\<close>

datatype identity_status = Holds | Violated | Not_applicable

datatype row =
    Identity string identity_status "int list"
  | Figure string "int list"
  | Bucket_row int string "int list"
  | Says string nat "string list"
  | Remark string

datatype stats_warning =
    Diagnostic_loop int
  | Not_profiling int
  | Version_taken
  | Clock_unknown string
  | Clock_compiled string
  | Never_armed
  | Spans_refused span_warning
  | Unpriceable int int
  | Probe_exceeds int int bool
  | Clamped_rows int int
  | Subtraction_withheld int int
  | Tail_differs nat int int
  | Loop_differs nat int int
  | Loop_names_differ string string
  | Split_cost_differs int int
  | Split_base_differs nat int int
  | Find_not_lookups int int
  | Find_not_dispatches int int
  | Fill_not_misses int int
  | Rec_exceeds_find int int
  | Board_warning nat string
  | Corrected_differs int int int
  | Retired_counter int int
  | Counters_lost "int list"
  | Stack_overflowed int
  | Tier0_differs int int
  | Success_differs int int
  | Atc_falls_short int int int
  | Atc_exceeds int int
  | Fetch_calls_differ int int
  | Short_chunks int int
  | Dispatches_differ int int
  | Unattributed_invalidations int int
  | Calibration_differs string int int
  | Bracket_differs

type_synonym section_of = "row list \<times> stats_warning list"

definition joined :: "section_of list \<Rightarrow> section_of" where
  "joined ss = (concat (map fst ss), concat (map snd ss))"

lemma joined_simps [simp]: "snd (joined ss) = concat (map snd ss)" "fst (joined ss) = concat (map fst ss)"
  by (simp_all add: joined_def)

definition of_row :: "row \<Rightarrow> section_of" where
  "of_row r = ([r], [])"

text \<open>The row of an identity that is checked, with a warning when it fails.\<close>

definition checked :: "string \<Rightarrow> bool \<Rightarrow> int list \<Rightarrow> stats_warning \<Rightarrow> section_of" where
  "checked label ok ns w = ([Identity label (if ok then Holds else Violated) ns], if ok then [] else [w])"

lemma checked_warns [simp]: "snd (checked label ok ns w) = (if ok then [] else [w])"
  by (simp add: checked_def)

lemma of_row_warns [simp]: "snd (of_row r) = []"
  by (simp add: of_row_def)

definition sum_of :: "counts \<Rightarrow> int list \<Rightarrow> int" where
  "sum_of c ids = sum_list (map (count_of c) ids)"

definition bucket_total :: "stats \<Rightarrow> int" where
  "bucket_total st = sum_list (map snd (s_buckets st))"

definition span_count :: "stats \<Rightarrow> int" where
  "span_count st = sum_list (map snd (s_spans st))"

subsection \<open>Text of the board\<close>

text \<open>\<open>_wrap\<close>: break at blanks, keep every word.\<close>

fun wrap_words :: "nat \<Rightarrow> string list \<Rightarrow> string \<Rightarrow> string list" where
  "wrap_words width [] cur = (if cur = [] then [] else [cur])"
| "wrap_words width (w # ws) cur = (if cur \<noteq> [] \<and> width < length cur + 1 + length w
     then cur # wrap_words width ws w
     else wrap_words width ws (if cur = [] then w else cur @ '' '' @ w))"

definition wrap_text :: "string \<Rightarrow> nat \<Rightarrow> string list" where
  "wrap_text s width = (case wrap_words width (split_ws s) [] of [] \<Rightarrow> [''''] | ls \<Rightarrow> ls)"

subsection \<open>Build, version and clock\<close>

definition BUILD_PROF :: int where "BUILD_PROF = 4"

definition build_note :: "stats \<Rightarrow> section_of" where
  "build_note st = (let bf = s_build st in
     ([Figure ''build'' [bf]],
      if bf = BUILD_PROF then [] else if bf AND BUILD_PROF \<noteq> 0 then [Diagnostic_loop bf] else [Not_profiling bf]))"

definition version_of :: "stats \<Rightarrow> int" where
  "version_of st = (case s_ver st of Some v \<Rightarrow> v | None \<Rightarrow> VERSION_ASSUMED)"

definition sem_of :: "stats \<Rightarrow> semantics" where
  "sem_of st = (case s_sem st of Some sem \<Rightarrow> sem | None \<Rightarrow> the (map_of WIRE_VERSIONS VERSION_ASSUMED))"

definition version_note :: "stats \<Rightarrow> semantics \<Rightarrow> section_of" where
  "version_note st sem =
     ([Figure ''wire version'' [version_of st, int (length (bucket_names_of st sem)), int (length (counter_names sem)),
         int (length (s_counters st))]]
      @ (if B_DOPCFIND < int (length (bucket_names_of st sem)) then [Remark ''id 0 is the residue of the loop''] else [])
      @ [Figure ''cpu_hz'' [s_cpu_hz st]],
      if s_ver st = None then [Version_taken] else [])"

definition CLK_BSP :: string where "CLK_BSP = ''bsp''"
definition CLK_CFG :: string where "CLK_CFG = ''cfg''"

definition clk_note :: "string option \<Rightarrow> section_of" where
  "clk_note clk = (case clk of None \<Rightarrow> ([], [])
   | Some c \<Rightarrow>
       if c = CLK_CFG then ([Remark ''clk=cfg''], [])
       else if c = CLK_BSP then ([Remark ''clk=bsp''], [Clock_compiled c])
       else ([Remark ''clk unrecognised''], [Clock_unknown c, Clock_compiled c]))"

subsection \<open>The rollup of the tail\<close>

text \<open>The names are looked up by position; an id past the names raises.\<close>

definition bucket_rows :: "stats \<Rightarrow> string list \<Rightarrow> int list \<Rightarrow> (int \<Rightarrow> int list) \<Rightarrow> exn + row list" where
  "bucket_rows st names ids f = map_e (\<lambda>b. bind_e (item names b) (\<lambda>n.
     Inr (Bucket_row b n (count_of (s_buckets st) b # f b)))) ids"

definition tail_cross :: "stats \<Rightarrow> int list \<Rightarrow> int \<Rightarrow> section_of" where
  "tail_cross st ids tail = (case s_tail_cyc st of
     Some t \<Rightarrow> checked ''[PROF] t == the tail rows'' (t = tail) [t, tail] (Tail_differs (s_tail_line st) t tail)
   | None \<Rightarrow> (if 1 < length ids then [Remark ''no [PROF] t line''] else [], []))"

definition tail_instrument :: "stats \<Rightarrow> int list \<Rightarrow> int \<Rightarrow> int \<Rightarrow> bool \<Rightarrow> (int \<Rightarrow> int) \<Rightarrow> int \<Rightarrow> row list" where
  "tail_instrument st ids tail tot usable probe i = (let inst = count_of (s_buckets st) i in
     Figure ''tail without the instrument'' [tail - inst, tot]
     # (if usable then let p = sum_list (map probe ids) in
          [Figure ''tail without instrument and probe'' [max (tail - inst - p) 0, tot, p]] else []))"

definition report_tail :: "stats \<Rightarrow> semantics \<Rightarrow> int \<Rightarrow> bool \<Rightarrow> (int \<Rightarrow> int) \<Rightarrow> exn + section_of" where
  "report_tail st sem tot usable probe =
     (let ids = tail_ids sem; names = bucket_names_of st sem; tail = sum_of (s_buckets st) ids in
      bind_e (bucket_rows st names ids (\<lambda>b. [tot, tail])) (\<lambda>rows.
      bind_e (case tail_instrument_id sem of None \<Rightarrow> Inr [] | Some i \<Rightarrow> bind_e (item names i) (\<lambda>n.
        Inr (tail_instrument st ids tail tot usable probe i))) (\<lambda>inst.
      Inr (joined [(if length ids = 1 then [Remark ''no tail split''] else [], []), (rows, []),
        of_row (Figure ''TAIL'' [tail, tot]), (inst, []), tail_cross st ids tail]))))"

subsection \<open>The rollup of the dispatch loop\<close>

definition plus_joined :: "string list \<Rightarrow> string" where
  "plus_joined ns = concat (case ns of [] \<Rightarrow> [] | n # r \<Rightarrow> n # map (\<lambda>m. CHR ''+'' # m) r)"

definition loop_cross :: "stats \<Rightarrow> int list \<Rightarrow> string list \<Rightarrow> int \<Rightarrow> section_of" where
  "loop_cross st ids names loop = (case s_loop_cyc st of
     Some t \<Rightarrow> joined [checked ''[PROF] l == the loop rows'' (t = loop) [t, loop] (Loop_differs (s_loop_line st) t loop),
       (let want = plus_joined names; given = (case s_loop_names st of None \<Rightarrow> [] | Some s \<Rightarrow> s) in
        ([], if given \<noteq> [] \<and> given \<noteq> want then [Loop_names_differ given want] else []))]
   | None \<Rightarrow> (if 1 < length ids then [Remark ''no [PROF] l line''] else [], []))"

text \<open>What the split itself cost, as the board says and as the spans of the three buckets give it.\<close>

definition report_loop_cost :: "stats \<Rightarrow> bool \<Rightarrow> int \<Rightarrow> section_of" where
  "report_loop_cost st spans_ok probe_cyc =
     (let transitions = transitions_of st;
          mine = (if spans_ok then Some (2 * sum_of (s_spans st) SPLIT_IDS) else None) in
      case or_else (s_split_trans st) mine of
        None \<Rightarrow> ([], [])
      | Some cost \<Rightarrow> joined
          [of_row (Figure ''added transitions'' [cost, transitions]),
           (if spans_ok then [Figure ''spans of the split'' (map (count_of (s_spans st)) SPLIT_IDS)] else [], []),
           (case (s_split_trans st, mine) of
              (Some a, Some m) \<Rightarrow> ([], if a \<noteq> m then [Split_cost_differs a m] else []) | _ \<Rightarrow> ([], [])),
           (case s_split_of st of
              Some n \<Rightarrow> ([], if transitions \<noteq> 0 \<and> n \<noteq> transitions then [Split_base_differs (s_split_line st) n transitions] else [])
            | None \<Rightarrow> ([], [])),
           (if transitions \<noteq> 0 \<and> cost \<le> transitions
            then Figure ''re-priced without the split'' [transitions - cost]
              # (if 0 < probe_cyc then [Figure ''probe re-priced'' [transitions * probe_cyc, (transitions - cost) * probe_cyc]] else [])
            else [], [])])"

text \<open>The counters of the decoded-op cache, and whether it was on.\<close>

definition dopc_known :: "counts \<Rightarrow> bool" where
  "dopc_known c \<longleftrightarrow> map_of c C_DOPC_HIT \<noteq> None \<and> map_of c C_DOPC_MISS \<noteq> None"

definition dispatches :: "counts \<Rightarrow> int" where
  "dispatches c = count_of c C_DOPC_HIT + count_of c C_DOPC_MISS"

definition cache_on :: "counts \<Rightarrow> bool" where
  "cache_on c \<longleftrightarrow> dopc_known c \<and> 0 < dispatches c"

definition dopc_identity :: "counts \<Rightarrow> string \<Rightarrow> int \<Rightarrow> section_of \<Rightarrow> section_of" where
  "dopc_identity c label spans on = (if \<not> dopc_known c then of_row (Identity label Not_applicable [])
     else if \<not> cache_on c then of_row (Identity label Not_applicable [spans]) else on)"

definition report_loop_identities :: "stats \<Rightarrow> bool \<Rightarrow> section_of" where
  "report_loop_identities st spans_ok =
     (if \<not> spans_ok then of_row (Remark ''identities unavailable'')
      else (let c = s_counters st;
          find = count_of (s_spans st) B_DOPCFIND; fill = count_of (s_spans st) B_DOPCFILL;
          brec = count_of (s_spans st) B_BLKREC;
          hit = count_of c C_DOPC_HIT; miss = count_of c C_DOPC_MISS;
          insns = count_of c C_INSNS; fa = count_of c C_FAULTS; blk = count_of c C_BLK_HIT in joined
        [dopc_identity c ''tcnt[DOPCFIND] == DOPC_HIT + DOPC_MISS'' find
           (checked ''tcnt[DOPCFIND] == DOPC_HIT + DOPC_MISS'' (find = dispatches c) [find, hit, miss]
             (Find_not_lookups find (dispatches c))),
         checked ''tcnt[DOPCFIND] == INSNS + FAULTS'' (find = insns + fa) [find, insns, fa]
           (Find_not_dispatches find (insns + fa)),
         dopc_identity c ''tcnt[DOPCFILL] == DOPC_MISS'' fill
           (checked ''tcnt[DOPCFILL] == DOPC_MISS'' (fill = miss) [fill, miss] (Fill_not_misses fill miss)),
         ([Identity ''tcnt[BLKREC] <= tcnt[DOPCFIND]'' (if brec \<le> find then Holds else Violated) [brec, find]],
           if \<not> brec \<le> find \<and> blk = 0 then [Rec_exceeds_find brec find] else []),
         (if blk \<noteq> 0 then [Remark ''the recognizer fired'']
          else if brec \<le> find \<and> map_of c C_BLK_HIT = None then [] else [Remark ''the recognizer never fired''], []),
         (if dopc_known c \<and> \<not> cache_on c then [Remark ''the cache was off''] else [], [])]))"

definition report_loop_says :: "stats \<Rightarrow> section_of" where
  "report_loop_says st = joined (map (\<lambda>(kind, s, no).
     ([Says kind no (wrap_text s 74)], if kind = ''WARNING'' then [Board_warning no s] else [])) (s_loop_says st))"

definition report_loop :: "stats \<Rightarrow> semantics \<Rightarrow> int \<Rightarrow> bool \<Rightarrow> int \<Rightarrow> (int \<Rightarrow> int) \<Rightarrow> exn + section_of" where
  "report_loop st sem tot spans_ok probe_cyc probe =
     (let ids = loop_ids_of st sem; names = bucket_names_of st sem; loop = sum_of (s_buckets st) ids;
          split = 1 < length ids; p = sum_list (map probe ids) in
      bind_e (if split then Inr [] else bind_e (item names B_LOOP) (\<lambda>n.
        Inr [Remark n, Remark (if version_of st < 2 then ''with the sampler'' else ''comparable'')])) (\<lambda>whole.
      bind_e (bucket_rows st names ids (\<lambda>b. [tot, loop])) (\<lambda>rows.
      bind_e (if s_loop_cyc st = None then Inr [] else map_e (item names) ids) (\<lambda>want.
      Inr (joined [(whole, []), (rows, []),
        (if split then [Figure ''LOOP'' [loop, tot], Figure ''residue'' [count_of (s_buckets st) B_LOOP, tot]] else [], []),
        loop_cross st ids want loop,
        (if split \<and> spans_ok then [Figure ''loop without the probe'' [max (loop - p) 0, tot, p]] else [], []),
        (if split then joined [report_loop_cost st spans_ok probe_cyc, report_loop_identities st spans_ok] else ([], [])),
        report_loop_says st])))))"

subsection \<open>The swept spans\<close>

definition corrected :: "stats \<Rightarrow> nat \<Rightarrow> int \<Rightarrow> counts" where
  "corrected st n price = map (\<lambda>b. (b, max (count_of (s_buckets st) b - count_of (s_spans st) b * price) 0)) [0..int n - 1]"

definition corrected_total :: "stats \<Rightarrow> nat \<Rightarrow> int \<Rightarrow> int" where
  "corrected_total st n price = sum_list (map snd (corrected st n price))"

definition span_row :: "stats \<Rightarrow> nat \<Rightarrow> int \<Rightarrow> int \<Rightarrow> bool \<Rightarrow> int \<times> string \<Rightarrow> row" where
  "span_row st n lo hi swept = (\<lambda>(b, name). Bucket_row b name
     ([count_of (s_buckets st) b, count_of (s_spans st) b, count_of (corrected st n lo) b, corrected_total st n lo]
      @ (if swept then [count_of (corrected st n hi) b, corrected_total st n hi] else [])))"

definition retired_estimate :: "stats \<Rightarrow> section_of" where
  "retired_estimate st = (let c = s_counters st; ifc = count_of c C_IFETCH_CALLS;
       meas = count_of (s_spans st) B_FETCHOP + count_of (s_spans st) B_FETCHEX in
     (if ifc = 0 then [] else
        Figure ''assumed 2 x IFETCH_CALLS'' [2 * ifc, transitions_of st]
        # Figure ''measured FETCHOP+FETCHEX spans'' [meas, transitions_of st]
        # (if meas = 0 then [] else [Figure ''over-charge'' [2 * ifc, meas]])
        @ (case map_of c C_DOPC_MISS of None \<Rightarrow> []
           | Some dm \<Rightarrow> [Figure ''FETCHOP spans against DOPC_MISS'' [count_of (s_spans st) B_FETCHOP, dm]]), []))"

definition report_spans :: "stats \<Rightarrow> semantics \<Rightarrow> int \<Rightarrow> int \<Rightarrow> int \<Rightarrow> int \<Rightarrow> section_of" where
  "report_spans st sem tot probe_cyc lo hi =
     (let names = bucket_names_of st sem; n = length names; swept = lo < hi;
          mytot = corrected_total st n probe_cyc in joined
      [(map (span_row st n lo hi swept) (zip [0..int n - 1] names), []),
       of_row (Figure ''TOTAL'' ([tot, span_count st, corrected_total st n lo] @ (if swept then [corrected_total st n hi] else []))),
       of_row (if swept then Figure ''price swept'' [lo, hi] else Figure ''one price'' [lo]),
       of_row (Identity ''sum(spans) == TRANSITIONS'' Holds [span_count st, transitions_of st]),
       (case s_span_total st of None \<Rightarrow> ([], [])
        | Some t \<Rightarrow> checked ''corrected_total of the board'' (mytot = t) [mytot, t] (Corrected_differs probe_cyc mytot t)),
       retired_estimate st])"

subsection \<open>The counters\<close>

definition C_RETIRED :: int where "C_RETIRED = C_RETIRED_46"

text \<open>An id that did not arrive was appended later, or was lost.\<close>

definition appended :: "semantics \<Rightarrow> int \<Rightarrow> bool" where
  "appended sem i \<longleftrightarrow> (case counter_append_base sem of None \<Rightarrow> False | Some base \<Rightarrow> base \<le> i)"

definition absent_ids :: "semantics \<Rightarrow> counts \<Rightarrow> int list" where
  "absent_ids sem c = filter (\<lambda>i. map_of c i = None) [0..int (length (counter_names sem)) - 1]"

definition counter_row :: "semantics \<Rightarrow> counts \<Rightarrow> int \<Rightarrow> section_of" where
  "counter_row sem c i = (let name = counter_names sem ! nat i in case map_of c i of
     None \<Rightarrow> of_row (Identity name Not_applicable [i])
   | Some v \<Rightarrow> if i = C_RETIRED then ([Bucket_row i ''(retired)'' []], if v \<noteq> 0 then [Retired_counter i v] else [])
       else ([Bucket_row i name (if count_of c C_INSNS = 0 then [v] else [v, count_of c C_INSNS])], []))"

definition counter_section :: "stats \<Rightarrow> semantics \<Rightarrow> section_of" where
  "counter_section st sem = (let c = s_counters st; absent = absent_ids sem c;
       later = filter (appended sem) absent; core = filter (\<lambda>i. \<not> appended sem i) absent; ovf = count_of c C_STACK_OVF in
     joined (map (counter_row sem c) [0..int (length (counter_names sem)) - 1] @
       [(if later = [] then [] else [Figure ''predates the counters'' [hd later, last later]], []),
        (if core = [] then ([], []) else ([Figure ''lost counters'' core], [Counters_lost core])),
        (if ovf = 0 then ([], []) else ([Figure ''STACK_OVF'' [ovf]], [Stack_overflowed ovf]))]))"

subsection \<open>Rates and identities\<close>

definition tier0 :: "string \<Rightarrow> int \<Rightarrow> int \<Rightarrow> row" where
  "tier0 label hit miss = (if hit + miss = 0 then Remark label else Figure label [hit, hit + miss])"

definition tier0_identity_row :: "semantics \<Rightarrow> counts \<Rightarrow> section_of" where
  "tier0_identity_row sem c =
     (let misses = sum_of c [C_IPAGE_MISS, C_DPAGE_RMISS, C_DPAGE_WMISS]; xl = count_of c C_XLATE in
      if sum_of c [C_IPAGE_HIT, C_IPAGE_MISS, C_DPAGE_RHIT, C_DPAGE_RMISS, C_DPAGE_WHIT, C_DPAGE_WMISS] = 0
      then of_row (Identity (tier0_identity sem) Not_applicable [])
      else checked (tier0_identity sem) (misses = xl) [misses, xl] (Tier0_differs misses xl))"

definition success_identity_row :: "semantics \<Rightarrow> counts \<Rightarrow> section_of" where
  "success_identity_row sem c =
     (let xo = count_of c C_XLATE_OK; fa = count_of c C_FAULTS; xl = count_of c C_XLATE in
      if xo = 0 \<and> atc_hit_id sem \<noteq> None then of_row (Identity (atc_hit_identity sem) Not_applicable [])
      else checked (atc_hit_identity sem) (xo + fa = xl) [xo + fa, xl] (Success_differs (xo + fa) xl))"

definition atc_identity_row :: "semantics \<Rightarrow> counts \<Rightarrow> section_of" where
  "atc_identity_row sem c = (case (atc_sum_identity sem, atc_hit_id sem) of
     (Some label, Some i) \<Rightarrow>
       (let ah = count_of c i; am = count_of c C_ATC_MISS; xl = count_of c C_XLATE; fa = count_of c C_FAULTS;
            short = xl - (ah + am) in
        if short = 0 \<or> (0 < short \<and> short \<le> fa) then of_row (Identity label Holds [ah + am, xl, short])
        else ([Identity label Violated [ah + am, xl, \<bar>short\<bar>]],
          [if fa < short then Atc_falls_short (ah + am) xl fa else Atc_exceeds (ah + am) xl]))
   | _ \<Rightarrow> ([], []))"

definition tier1_rows :: "semantics \<Rightarrow> counts \<Rightarrow> row list" where
  "tier1_rows sem c = (let xl = count_of c C_XLATE; am = count_of c C_ATC_MISS; xo = count_of c C_XLATE_OK in
     if xl = 0 then [Remark ''no translates recorded'']
     else (case atc_hit_id sem of
         None \<Rightarrow> [Figure ''ATC hit'' [xl - am, xl], Figure ''table walk rate'' [am, xl]]
       | Some i \<Rightarrow> [Figure ''ATC hit'' [count_of c i, xl], Figure ''table walk rate'' [am, xl],
           if xo \<noteq> 0 then Figure ''XLATE_OK'' [xo, xl] else Remark ''no XLATE_OK site'']))"

definition rate_section :: "stats \<Rightarrow> semantics \<Rightarrow> section_of" where
  "rate_section st sem = (let c = s_counters st; insns = count_of c C_INSNS in joined
     [([tier0 ''ipagecache hit'' (count_of c C_IPAGE_HIT) (count_of c C_IPAGE_MISS),
        tier0 ''dpagecache read hit'' (count_of c C_DPAGE_RHIT) (count_of c C_DPAGE_RMISS),
        tier0 ''dpagecache write hit'' (count_of c C_DPAGE_WHIT) (count_of c C_DPAGE_WMISS)], []),
      (tier1_rows sem c, []), tier0_identity_row sem c,
      (if count_of c C_XLATE = 0 then ([], []) else joined [success_identity_row sem c, atc_identity_row sem c]),
      of_row (Figure ''INSNS_SUPER / INSNS'' [count_of c C_INSNS_SUPER, insns]),
      (if insns = 0 then [] else [Figure ''misaligned accesses''
         [sum_of c [C_MISALIGN_R, C_MISALIGN_W], sum_of c [C_READ, C_WRITE]]], []),
      (if s_wall_hz st \<noteq> 0 \<and> s_wall_ticks st \<noteq> 0
       then [Figure ''run-loop residency'' [bucket_total st, s_wall_ticks st * s_cpu_hz st div s_wall_hz st]] else [], [])])"

subsection \<open>Fetches, block idioms and the decoded-op cache\<close>

definition report_ifetch :: "stats \<Rightarrow> section_of" where
  "report_ifetch st = (let c = s_counters st in case map_of c C_IFETCH_CALLS of
     None \<Rightarrow> ([], [])
   | Some ifc \<Rightarrow> (let f = count_of c C_FETCH in
       checked ''IFETCH_CALLS == FETCH'' (ifc = f) [ifc, f] (Fetch_calls_differ ifc f)))"

text \<open>The mean chunk length \<open>bi / hit\<close> is compared with 8.\<close>

definition report_blk :: "stats \<Rightarrow> section_of" where
  "report_blk st = (let c = s_counters st in case map_of c C_BLK_HIT of
     None \<Rightarrow> ([], [])
   | Some hit \<Rightarrow>
      (let bi = count_of c C_BLK_INSNS; bytes = count_of c C_BLK_BYTES; insns = count_of c C_INSNS;
           stream = (insns - hit) + bi; short = (if 0 < hit then bi < 8 * hit else 8 * hit < bi) in
       if hit = 0 then of_row (Figure ''the recognizer did not fire'' [bi, bytes])
       else ([Figure ''chunks serviced'' [hit], Figure ''guest instructions they retired'' [bi],
              Figure ''bytes zeroed / copied / flushed'' [bytes], Figure ''reconstructed stream'' [insns, hit, bi, stream],
              Figure ''fast-path share of the stream'' [bi, stream], Figure ''literal BLK_INSNS / INSNS'' [bi, insns],
              Figure ''mean chunk length'' [bi, hit], Figure ''mean bytes per chunk'' [bytes, hit]],
             if short then [Short_chunks bi hit] else [])))"

definition report_iv :: "counts \<Rightarrow> section_of" where
  "report_iv c =
     (let req = sum_of c IV_CAUSE_IDS; iv = count_of c C_DOPC_INVAL in
      if list_all (\<lambda>i. map_of c i = None) IV_CAUSE_IDS then ([], [])
      else if req = 0 then of_row (Remark ''no invalidation was requested'')
      else joined
        [(map (\<lambda>i. Bucket_row i (COUNTER_NAMES_V2 ! nat i) [count_of c i, req])
            (filter (\<lambda>i. count_of c i \<noteq> 0) IV_CAUSE_IDS), []),
         of_row (Figure ''sum(IV_*)'' [req]),
         (if req = iv then of_row (Identity ''sum(IV_*) == DOPC_INVAL'' Holds [req, iv])
          else checked ''sum(IV_*) >= DOPC_INVAL'' (iv < req) [req, iv] (Unattributed_invalidations req iv)),
         of_row (case map_of c C_IV_CACR_SKIP of
             None \<Rightarrow> Remark ''IV_CACR_SKIP is absent''
           | Some skip \<Rightarrow> Figure ''true request rate'' [req + skip, iv, skip])])"

definition dispatch_identity :: "counts \<Rightarrow> section_of" where
  "dispatch_identity c = (let disp = dispatches c; insns = count_of c C_INSNS; fa = count_of c C_FAULTS in
     if disp = insns + fa then of_row (Identity ''DOPC_HIT + DOPC_MISS == INSNS + FAULTS'' Holds [disp, insns, fa])
     else if disp = insns then of_row (Identity ''DOPC_HIT + DOPC_MISS == INSNS'' Holds [disp, insns, fa])
     else ([Identity ''DOPC_HIT + DOPC_MISS == INSNS + FAULTS'' Violated [disp, insns, fa]],
       [Dispatches_differ disp (insns + fa)]))"

definition report_dopc :: "stats \<Rightarrow> section_of" where
  "report_dopc st = (let c = s_counters st in case map_of c C_DOPC_HIT of
     None \<Rightarrow> ([], [])
   | Some hit \<Rightarrow>
      (let miss = count_of c C_DOPC_MISS; disp = hit + miss; ext = count_of c C_DOPC_EXT; f = count_of c C_FETCH;
           iv = count_of c C_DOPC_INVAL; blk = count_of c C_BLK_HIT in joined
       [if disp = 0 then of_row (Remark ''the cache was off'')
        else joined [([Figure ''hit rate'' [hit, miss, disp], Figure ''extension words'' [ext]]
               @ (if f = 0 then [] else [Figure ''share of fetch calls'' [ext, f]]), []),
             dispatch_identity c,
             (if blk = 0 then [] else [Figure ''a dispatch is not a guest instruction'' [count_of c C_BLK_INSNS, blk]], [])],
        (if iv = 0 then [] else [Figure ''DOPC_INVAL'' [iv], Figure ''misses / invalidation'' [miss, iv],
           Figure ''dispatches / invalidation'' [disp, iv]], []),
        report_iv c]))"

subsection \<open>The stage buckets\<close>

definition stage_rows :: "stats \<Rightarrow> semantics \<Rightarrow> int \<Rightarrow> accounting \<Rightarrow> (int \<Rightarrow> int) \<Rightarrow> row list" where
  "stage_rows st sem probe_cyc a probe =
     (let names = bucket_names_of st sem; tot = bucket_total st; adj_total = sum_list (map snd (a_adj a)) in
      map (\<lambda>(b, name). Bucket_row b name ([count_of (s_buckets st) b, tot]
          @ (if a_usable a then [probe b, count_of (a_adj a) b, adj_total] else []))) (zip [0..int (length names) - 1] names)
      @ [Figure ''TOTAL'' (if a_usable a then [tot, a_probe_total a, adj_total] else [tot])])"

definition price_section :: "stats \<Rightarrow> int \<Rightarrow> accounting \<Rightarrow> section_of" where
  "price_section st probe_cyc a = joined
     [(if probe_cyc \<le> 0 then ([Remark ''probe overhead unavailable''], [Unpriceable probe_cyc (a_trans a)])
       else of_row (Figure ''probe overhead'' [a_probe_total a, bucket_total st, a_trans a, a_probe_units a, probe_cyc])),
      (if a_probe_over a then ([Figure ''the probe exceeds the total'' [a_probe_total a, bucket_total st]],
         [Probe_exceeds (a_probe_total a) (bucket_total st) (a_fatal_over a)]) else ([], [])),
      (if a_usable a \<and> a_clamped a \<noteq> 0 then ([Figure ''clamped at zero'' [a_clamped a, a_clamped_cyc a]],
         [Clamped_rows (a_clamped a) (a_clamped_cyc a)]) else ([], []))]"

text \<open>Why the modelled subtraction is applied or not.\<close>

definition model_ok :: "accounting \<Rightarrow> bool" where
  "model_ok a \<longleftrightarrow> 0 < a_trans a \<and> 0 < a_modelled a \<and> resid_ok (a_trans a - a_modelled a) (a_trans a)"

definition model_remark :: "bool \<Rightarrow> int \<Rightarrow> accounting \<Rightarrow> string" where
  "model_remark spans_ok probe_cyc a =
     (if spans_ok then ''not used'' else if a_usable a then ''applied'' else if \<not> model_ok a then ''out of tolerance''
      else if probe_cyc \<le> 0 then ''no price'' else ''the probe exceeds the total'')"

definition model_section :: "stats \<Rightarrow> semantics \<Rightarrow> bool \<Rightarrow> int \<Rightarrow> accounting \<Rightarrow> section_of" where
  "model_section st sem spans_ok probe_cyc a = joined
     [([Figure (model_remark spans_ok probe_cyc a) [a_modelled a, a_trans a, a_trans a - a_modelled a]], []),
      (if B_DOPCFIND < int (length (bucket_names_of st sem))
       then [if s_spans st = [] then Remark ''BLKREC not measured''
             else Figure ''BLKREC spans'' [count_of (s_spans st) B_BLKREC, 2 * count_of (s_spans st) B_BLKREC, a_trans a]]
       else [], []),
      (if \<not> spans_ok \<and> s_spans st \<noteq> [] then [Remark ''spans not usable''] else [], []),
      (if spans_ok \<and> \<not> model_ok a then [Remark ''the residual is about the model''] else [], []),
      (if \<not> a_usable a \<and> \<not> model_ok a then ([Remark ''withheld''], [Subtraction_withheld (a_modelled a) (a_trans a)])
       else ([], []))]"

definition stage_section :: "stats \<Rightarrow> semantics \<Rightarrow> int \<Rightarrow> int \<Rightarrow> int \<Rightarrow> exn + section_of" where
  "stage_section st sem probe_cyc lo hi =
     (if bucket_total st = 0 then Inr ([Remark ''all buckets are zero''], [Never_armed])
      else bind_e (probe_landing (bucket_entries (s_counters st) (bucket_names_of st sem))) (\<lambda>land.
        bind_e (stage_accounting st sem probe_cyc) (\<lambda>a.
        let spans_ok = spans_ok_of st sem;
            probe = probe_of st spans_ok (a_model_usable a) probe_cyc (a_probe_total a) (a_modelled a) land in
        bind_e (report_tail st sem (bucket_total st) (a_usable a) probe) (\<lambda>tail.
        bind_e (report_loop st sem (bucket_total st) spans_ok probe_cyc probe) (\<lambda>loop. Inr (joined
          [([], map Spans_refused (snd (spans_usable st (transitions_of st) (transitions_per_probe_unit sem)))),
           (stage_rows st sem probe_cyc a probe, []), price_section st probe_cyc a,
           model_section st sem spans_ok probe_cyc a, tail, loop,
           (if spans_ok then report_spans st sem (bucket_total st) probe_cyc lo hi else ([], []))]))))))"

definition report_stats :: "stats \<Rightarrow> int \<Rightarrow> int \<Rightarrow> int \<Rightarrow> exn + section_of" where
  "report_stats st probe_cyc lo hi = (let sem = sem_of st in
     bind_e (stage_section st sem probe_cyc lo hi) (\<lambda>stage. Inr (joined
       [build_note st, version_note st sem, clk_note (s_clk st), of_row (Figure ''sampler'' [s_hz st, s_period_cyc st]),
        of_row (Figure ''probe cost'' [probe_cyc, transitions_per_probe_unit sem]), stage,
        counter_section st sem, rate_section st sem, report_ifetch st, report_blk st, report_dopc st])))"

subsection \<open>The calibration\<close>

text \<open>\<open>cal[key]\<close>\<close>

definition cal_get :: "string \<Rightarrow> int option \<Rightarrow> exn + int" where
  "cal_get key v = (case v of None \<Rightarrow> Inl (KeyError key) | Some x \<Rightarrow> Inr x)"

text \<open>A price is compared with the quotient of its own spans; nothing is compared without pairs.\<close>

definition cal_check :: "int \<Rightarrow> string \<Rightarrow> int option \<Rightarrow> int \<Rightarrow> section_of" where
  "cal_check n2 label want diff = (if n2 = 0 then ([], []) else case want of
     None \<Rightarrow> ([], [])
   | Some w \<Rightarrow> checked label (diff div n2 = w) [w, n2, diff div n2] (Calibration_differs label w (diff div n2)))"

definition in_bucket_check :: "calib \<Rightarrow> int \<Rightarrow> int \<Rightarrow> int \<Rightarrow> int \<Rightarrow> section_of" where
  "in_bucket_check c n2 armed unarmed emp = joined
     [(let raw = (armed - emp) div n2 in
       if n2 \<noteq> 0 \<and> c_in_bucket c \<noteq> None \<and> raw < (case c_marginal c of Some m \<Rightarrow> m | None \<Rightarrow> 0)
          \<and> c_in_bucket c = c_marginal c
       then of_row (Figure ''in-bucket clamped'' [the (c_in_bucket c), n2, raw])
       else cal_check n2 ''in-bucket'' (c_in_bucket c) (armed - emp)),
      of_row (Figure ''scaffolding'' [if n2 = 0 then 0 else (unarmed - emp) div n2, n2])]"

definition cal_bracket :: "calib \<Rightarrow> section_of" where
  "cal_bracket c = joined
     [of_row (case (or_else (c_bracket_lo c) (c_marginal c), or_else (c_bracket_hi c) (c_in_bucket c)) of
          (Some lo, Some hi) \<Rightarrow> if lo < hi then Figure ''price bracket'' [lo, hi] else Figure ''one price only'' [lo]
        | (Some lo, None) \<Rightarrow> Figure ''one price only'' [lo]
        | _ \<Rightarrow> Remark ''unmeasured''),
      (case (c_bracket_lo c, c_marginal c) of
         (Some lo, Some m) \<Rightarrow>
           if lo \<noteq> m \<or> (c_bracket_hi c \<noteq> None \<and> c_in_bucket c \<noteq> None \<and> c_bracket_hi c \<noteq> c_in_bucket c)
           then ([Remark ''the two lines disagree''], [Bracket_differs]) else ([], [])
       | _ \<Rightarrow> ([], []))]"

definition report_calibration :: "calib \<Rightarrow> exn + section_of" where
  "report_calibration c =
     bind_e (cal_get ''armed'' (c_armed c)) (\<lambda>armed. bind_e (cal_get ''unarmed'' (c_unarmed c)) (\<lambda>unarmed.
     bind_e (if c_passes c = Some 3 then bind_e (cal_get ''empty'' (c_empty c)) (\<lambda>e. Inr [Figure ''empty'' [e]])
             else Inr [Remark ''two passes'']) (\<lambda>e.
     bind_e (cal_get ''pairs'' (c_pairs c)) (\<lambda>pairs. let n2 = 2 * pairs in
     Inr (joined [([Figure ''armed / unarmed'' [armed, unarmed, pairs]], []), (e, []),
       cal_check n2 ''marginal'' (c_marginal c) (armed - unarmed),
       (case c_empty c of None \<Rightarrow> ([], []) | Some em \<Rightarrow> in_bucket_check c n2 armed unarmed em),
       cal_bracket c])))))"

end
