(* ===== verification/Prof_Verdicts.thy ===== *)
theory Prof_Verdicts
  imports Prof_Checks
begin

text \<open>
  What the sections of \<open>Prof_Checks\<close> guarantee: when the report is silent and when it warns, the range of the
  corrected shares, the words of the board, and two rows that say \<open>ok\<close> without having compared anything.
\<close>

subsection \<open>The only exception is a missing name\<close>

lemma errs_item: "errs (\<lambda>e. e = IndexError) (item xs i)"
  by (simp add: item_def Let_def)

lemma errs_each: "(\<And>x. errs P (f x)) \<Longrightarrow> errs P (map_e f xs)"
  by (induction xs) (auto intro!: errs_bind)

lemma errs_bucket_rows: "errs (\<lambda>e. e = IndexError) (bucket_rows st names ids f)"
  unfolding bucket_rows_def by (intro errs_each errs_bind errs_item errs_simps)

lemma errs_report_tail: "errs (\<lambda>e. e = IndexError) (report_tail st sem tot usable probe)"
  unfolding report_tail_def Let_def
  by (intro errs_bind errs_bucket_rows errs_option errs_item errs_simps)

lemma errs_report_loop: "errs (\<lambda>e. e = IndexError) (report_loop st sem tot ok price probe)"
  unfolding report_loop_def Let_def
  by (intro errs_bind errs_if errs_bucket_rows errs_each errs_item errs_simps)

lemma accounting_total:
  assumes "stats_ok st"
  shows "\<exists>land. probe_landing (bucket_entries (s_counters st) (bucket_names_of st sem)) = Inr land"
    "\<exists>a. stage_accounting st sem price = Inr a"
proof -
  have "list_all (\<lambda>(i, n). 0 \<le> n) (s_counters st)"
    using assms by (auto simp: stats_ok_def counts_ok_def list_all_iff)
  from landing_twice [OF this] obtain land where
    l: "probe_landing (bucket_entries (s_counters st) (bucket_names_of st sem)) = Inr land" by blast
  then show "\<exists>land. probe_landing (bucket_entries (s_counters st) (bucket_names_of st sem)) = Inr land" by blast
  from l show "\<exists>a. stage_accounting st sem price = Inr a" by (simp add: stage_accounting_def Let_def)
qed

lemma errs_report_stats:
  assumes "stats_ok st" shows "errs (\<lambda>e. e = IndexError) (report_stats st price lo hi)"
proof -
  let ?sem = "sem_of st"
  obtain land a where "probe_landing (bucket_entries (s_counters st) (bucket_names_of st ?sem)) = Inr land"
    "stage_accounting st ?sem price = Inr a"
    using accounting_total [OF assms] by blast
  then show ?thesis
    by (simp add: report_stats_def stage_section_def Let_def)
      (intro errs_bind errs_if errs_report_tail errs_report_loop errs_simps conjI impI)
qed

text \<open>A calibration has all its spans or none of them, so it can only miss the first.\<close>

lemma report_calibration_Inl: "report_calibration c = Inl e \<Longrightarrow> calib_ok c \<Longrightarrow> e = KeyError ''armed''"
  by (auto simp: report_calibration_def calib_ok_def cal_get_def Let_def split: option.splits if_splits)

subsection \<open>Silence and warnings\<close>

text \<open>
  a subtraction is never withheld in silence.  After the accounting of any dump, the price and model
  sections are silent exactly when the subtraction was applied, no bucket was clamped and the probe does not
  exceed the total.
\<close>

theorem withheld_is_said:
  "case stage_accounting st sem probe_cyc of
     Inl e \<Rightarrow> True
   | Inr a \<Rightarrow> (snd (price_section st probe_cyc a) = [] \<and> snd (model_section st sem (spans_ok_of st sem) probe_cyc a) = [])
       = (a_usable a \<and> a_clamped a = 0 \<and> \<not> a_probe_over a)"
proof (cases "stage_accounting st sem probe_cyc")
  case (Inr a)
  obtain land where l: "probe_landing (bucket_entries (s_counters st) (bucket_names_of st sem)) = Inr land"
    using Inr by (auto simp: stage_accounting_def Let_def)
  have pos: "a_usable a \<Longrightarrow> 0 < probe_cyc"
    using Inr l by (auto simp: stage_accounting_def Let_def usable_of_def model_usable_of_def)
  have said: "0 < probe_cyc \<and> \<not> a_probe_over a \<and> model_ok a \<longrightarrow> a_usable a"
    using Inr l by (auto simp: stage_accounting_def Let_def usable_of_def model_usable_of_def model_ok_def fatal_over_of_def)
  show ?thesis using pos said
    by (auto simp: Inr price_section_def model_section_def)
qed simp

definition quiet_loop :: "stats \<Rightarrow> bool" where
  "quiet_loop st = (let c = s_counters st; find = count_of (s_spans st) B_DOPCFIND in
     find = count_of c C_INSNS + count_of c C_FAULTS
     \<and> (if cache_on c then find = dispatches c \<and> count_of (s_spans st) B_DOPCFILL = count_of c C_DOPC_MISS else True)
     \<and> (if count_of c C_BLK_HIT = 0 then count_of (s_spans st) B_BLKREC \<le> find else True))"

lemma loop_identities_silent:
  "(snd (report_loop_identities st spans_ok) = []) = (if spans_ok then quiet_loop st else True)"
  by (auto simp: report_loop_identities_def Let_def quiet_loop_def dopc_identity_def cache_on_def)

definition quiet_counters :: "counts \<Rightarrow> bool" where
  "quiet_counters c \<longleftrightarrow>
     (if map_of c C_IFETCH_CALLS = None then True else count_of c C_IFETCH_CALLS = count_of c C_FETCH)
     \<and> (if map_of c C_DOPC_HIT = None then True else
          (dispatches c = 0 \<or> dispatches c = count_of c C_INSNS + count_of c C_FAULTS \<or> dispatches c = count_of c C_INSNS)
          \<and> (sum_of c IV_CAUSE_IDS = 0 \<or> count_of c C_DOPC_INVAL \<le> sum_of c IV_CAUSE_IDS))"

lemma count_of_Some [simp]: "map_of c i = Some v \<Longrightarrow> count_of c i = v"
  by (simp add: count_of_def)

lemma sum_of_absent: "list_all (\<lambda>i. map_of c i = None) is \<Longrightarrow> sum_of c is = 0"
proof -
  assume "list_all (\<lambda>i. map_of c i = None) is"
  then have "map (count_of c) is = map (\<lambda>i. 0) is"
    by (intro map_cong refl) (simp add: list_all_iff count_of_def)
  then show "sum_of c is = 0" by (simp only: sum_of_def sum_list_0)
qed

lemma report_iv_silent: "snd (report_iv c) = [] \<longleftrightarrow> sum_of c IV_CAUSE_IDS = 0 \<or> count_of c C_DOPC_INVAL \<le> sum_of c IV_CAUSE_IDS"
  using sum_of_absent [of c IV_CAUSE_IDS] by (auto simp: report_iv_def Let_def)

lemma dispatch_identity_silent:
  "snd (dispatch_identity c) = [] \<longleftrightarrow> dispatches c = count_of c C_INSNS + count_of c C_FAULTS \<or> dispatches c = count_of c C_INSNS"
  by (simp add: dispatch_identity_def Let_def)

lemma counter_identities_silent:
  "(snd (report_ifetch st) = [] \<and> snd (report_dopc st) = []) = quiet_counters (s_counters st)"
proof -
  let ?c = "s_counters st"
  have i: "snd (report_ifetch st) = [] \<longleftrightarrow>
      (if map_of ?c C_IFETCH_CALLS = None then True else count_of ?c C_IFETCH_CALLS = count_of ?c C_FETCH)"
    by (simp add: report_ifetch_def Let_def split: option.splits)
  have d: "map_of ?c C_DOPC_HIT = Some hit \<Longrightarrow> dispatches ?c = hit + count_of ?c C_DOPC_MISS" for hit
    by (simp add: dispatches_def)
  have "snd (report_dopc st) = [] \<longleftrightarrow> (if map_of ?c C_DOPC_HIT = None then True else
      (dispatches ?c = 0 \<or> dispatches ?c = count_of ?c C_INSNS + count_of ?c C_FAULTS \<or> dispatches ?c = count_of ?c C_INSNS)
      \<and> (sum_of ?c IV_CAUSE_IDS = 0 \<or> count_of ?c C_DOPC_INVAL \<le> sum_of ?c IV_CAUSE_IDS))"
  proof (cases "map_of ?c C_DOPC_HIT")
    case None
    then show ?thesis by (simp add: report_dopc_def)
  next
    case (Some hit)
    then show ?thesis using d [OF Some]
      by (simp add: report_dopc_def Let_def dispatch_identity_silent report_iv_silent)
  qed
  with i show ?thesis unfolding quiet_counters_def by simp
qed

definition atc_intact :: "semantics \<Rightarrow> counts \<Rightarrow> bool" where
  "atc_intact sem c = (case (atc_sum_identity sem, atc_hit_id sem) of
     (Some label, Some i) \<Rightarrow> (let short = count_of c C_XLATE - (count_of c i + count_of c C_ATC_MISS) in
       short = 0 \<or> 0 < short \<and> short \<le> count_of c C_FAULTS)
   | _ \<Rightarrow> True)"

definition quiet_rates :: "semantics \<Rightarrow> counts \<Rightarrow> bool" where
  "quiet_rates sem c = (let xl = count_of c C_XLATE; xo = count_of c C_XLATE_OK in
     (if sum_of c [C_IPAGE_HIT, C_IPAGE_MISS, C_DPAGE_RHIT, C_DPAGE_RMISS, C_DPAGE_WHIT, C_DPAGE_WMISS] = 0 then True
      else sum_of c [C_IPAGE_MISS, C_DPAGE_RMISS, C_DPAGE_WMISS] = xl)
     \<and> (if xl = 0 then True else
          (if xo = 0 \<and> atc_hit_id sem \<noteq> None then True else xo + count_of c C_FAULTS = xl) \<and> atc_intact sem c))"

lemma tier0_silent: "snd (tier0_identity_row sem c) = [] \<longleftrightarrow>
    (if sum_of c [C_IPAGE_HIT, C_IPAGE_MISS, C_DPAGE_RHIT, C_DPAGE_RMISS, C_DPAGE_WHIT, C_DPAGE_WMISS] = 0 then True
     else sum_of c [C_IPAGE_MISS, C_DPAGE_RMISS, C_DPAGE_WMISS] = count_of c C_XLATE)"
  by (simp add: tier0_identity_row_def Let_def)

lemma success_silent: "snd (success_identity_row sem c) = [] \<longleftrightarrow>
    (if count_of c C_XLATE_OK = 0 \<and> atc_hit_id sem \<noteq> None then True
     else count_of c C_XLATE_OK + count_of c C_FAULTS = count_of c C_XLATE)"
  by (simp add: success_identity_row_def Let_def)

lemma atc_silent: "snd (atc_identity_row sem c) = [] \<longleftrightarrow> atc_intact sem c"
  by (simp add: atc_identity_row_def atc_intact_def Let_def split: option.splits)

lemma rate_section_silent: "snd (rate_section st sem) = [] \<longleftrightarrow> quiet_rates sem (s_counters st)"
  by (simp add: rate_section_def quiet_rates_def Let_def tier0_silent success_silent atc_silent)

text \<open>
  The identities of a dump as the documents state them, each with two remarks: that it does not apply to the
  dump, because the version of the firmware or the switch of the cache takes its counters away or because no
  spans are usable, and that the report overlooks it although it applies.  First the translates: every miss of
  a page cache is one, every one succeeds or faults, every one hits, walks or is among the faults.
\<close>

type_synonym identity = "bool \<times> bool \<times> bool"

definition rate_identities :: "semantics \<Rightarrow> counts \<Rightarrow> identity list" where
  "rate_identities sem c = (let n = count_of c; xl = n C_XLATE in
     [(sum_of c [C_IPAGE_MISS, C_DPAGE_RMISS, C_DPAGE_WMISS] = xl,
       sum_of c [C_IPAGE_HIT, C_IPAGE_MISS, C_DPAGE_RHIT, C_DPAGE_RMISS, C_DPAGE_WHIT, C_DPAGE_WMISS] = 0, False),
      (n C_XLATE_OK + n C_FAULTS = xl, n C_XLATE_OK = 0 \<and> atc_hit_id sem \<noteq> None, xl = 0),
      (case atc_hit_id sem of None \<Rightarrow> True | Some i \<Rightarrow> (let short = xl - (n i + n C_ATC_MISS) in
         short = 0 \<or> 0 < short \<and> short \<le> n C_FAULTS), atc_hit_id sem = None \<or> atc_sum_identity sem = None, xl = 0)])"

text \<open>
  The dispatch loop: every dispatch enters the lookup and retires or faults; every lookup counts a hit or a
  miss; every miss fills; the recognizer is asked at most once per dispatch.
\<close>

definition loop_identities :: "bool \<Rightarrow> stats \<Rightarrow> identity list" where
  "loop_identities spans_ok st =
     (let c = s_counters st; n = count_of c; spans = count_of (s_spans st); find = spans B_DOPCFIND in
      [(find = n C_INSNS + n C_FAULTS, \<not> spans_ok, False),
       (find = n C_DOPC_HIT + n C_DOPC_MISS, \<not> spans_ok \<or> \<not> cache_on c, False),
       (spans B_DOPCFILL = n C_DOPC_MISS, \<not> spans_ok \<or> \<not> cache_on c, False),
       (spans B_BLKREC \<le> find, \<not> spans_ok \<or> n C_BLK_HIT \<noteq> 0, False)])"

text \<open>
  The other counters: every call of the instruction fetch is a fetch; every dispatch consults the cache, and
  retires or faults; every invalidation was requested by one of the causes.
\<close>

definition counter_identities :: "counts \<Rightarrow> identity list" where
  "counter_identities c = (let n = count_of c; requested = sum_of c IV_CAUSE_IDS in
     [(n C_IFETCH_CALLS = n C_FETCH, map_of c C_IFETCH_CALLS = None, False),
      (n C_DOPC_HIT + n C_DOPC_MISS = n C_INSNS + n C_FAULTS,
       map_of c C_DOPC_HIT = None \<or> n C_DOPC_HIT + n C_DOPC_MISS = 0, n C_DOPC_HIT + n C_DOPC_MISS = n C_INSNS),
      (n C_DOPC_INVAL \<le> requested,
       map_of c C_DOPC_HIT = None \<or> list_all (\<lambda>i. map_of c i = None) IV_CAUSE_IDS, requested = 0)])"

definition unheard :: "identity \<Rightarrow> bool" where
  "unheard r = (case r of (holds, inapplicable, overlooked) \<Rightarrow> holds \<or> inapplicable \<or> overlooked)"

lemma rates_unheard: "quiet_rates sem c = list_all unheard (rate_identities sem c)"
  by (cases "atc_hit_id sem"; cases "atc_sum_identity sem"; cases "count_of c C_XLATE = 0")
    (simp_all add: quiet_rates_def rate_identities_def unheard_def atc_intact_def Let_def)

lemma loop_unheard: "(if spans_ok then quiet_loop st else True) = list_all unheard (loop_identities spans_ok st)"
  by (cases spans_ok; cases "cache_on (s_counters st)")
    (simp_all add: quiet_loop_def loop_identities_def unheard_def dispatches_def Let_def)

lemma counters_unheard: "quiet_counters c = list_all unheard (counter_identities c)"
  using sum_of_absent [of c IV_CAUSE_IDS]
  by (cases "map_of c C_DOPC_HIT = None"; cases "map_of c C_IFETCH_CALLS = None")
    (auto simp: quiet_counters_def counter_identities_def unheard_def dispatches_def Let_def)


text \<open>
  C32: the row \<open>DOPC_HIT + DOPC_MISS == INSNS\<close> is never about an intact dump.  It is printed as \<open>ok\<close>, without
  a warning, only when instructions faulted, where the remark under it says that faults cannot be told; and the
  spans of the same dump then contradict it.
\<close>

definition plain_row :: "row \<Rightarrow> bool" where
  "plain_row r = (case r of Identity label v ns \<Rightarrow> label = ''DOPC_HIT + DOPC_MISS == INSNS'' \<and> v = Holds | _ \<Rightarrow> False)"

theorem plain_dispatch_row:
  assumes "list_ex plain_row (fst (dispatch_identity (s_counters st)))" "cache_on (s_counters st)"
  shows "count_of (s_counters st) C_FAULTS \<noteq> 0 \<and> snd (dispatch_identity (s_counters st)) = []
    \<and> snd (report_loop_identities st True) \<noteq> []"
  using assms by (auto simp: dispatch_identity_def Let_def plain_row_def of_row_def loop_identities_silent quiet_loop_def
      split: if_splits)

lemma plain_dispatch_row_witness:
  "let st = demo_spans\<lparr>s_counters := [(C_INSNS, 10), (C_FAULTS, 2), (C_DOPC_HIT, 7), (C_DOPC_MISS, 3)]\<rparr> in
     snd (report_loop_identities st True) \<noteq> []"
proof -
  let ?st = "demo_spans\<lparr>s_counters := [(C_INSNS, 10), (C_FAULTS, 2), (C_DOPC_HIT, 7), (C_DOPC_MISS, 3)]\<rparr>"
  have "list_ex plain_row (fst (dispatch_identity (s_counters ?st)))" "cache_on (s_counters ?st)"
    by (simp_all add: dispatch_identity_def Let_def plain_row_def of_row_def dispatches_def cache_on_def
        dopc_known_def count_of_def)
  from plain_dispatch_row [OF this] show ?thesis by (simp only: Let_def simp_thms)
qed

subsection \<open>The swept spans\<close>

text \<open>
  C33: the row \<open>sum(spans) == TRANSITIONS\<close> says \<open>ok\<close> without a comparison.  The gates before it leave one way
  for the two to differ, a dump without a transition count, and then it still says \<open>ok\<close> over two different
  numbers and no warning is given.
\<close>

theorem span_row_unchecked:
  assumes "spans_ok_of st sem" "span_count st \<noteq> transitions_of st"
  shows "transitions_of st = 0 \<and> s_spans st \<noteq> []
    \<and> Identity ''sum(spans) == TRANSITIONS'' Holds [span_count st, transitions_of st] \<in> set (fst (report_spans st sem tot price lo hi))
    \<and> snd (spans_usable st (transitions_of st) (transitions_per_probe_unit sem)) = []"
  using assms
  by (auto simp: spans_ok_of_def spans_usable_def span_count_def report_spans_def Let_def of_row_def split: if_splits option.splits)

lemma span_row_unchecked_witness:
  "Identity ''sum(spans) == TRANSITIONS'' Holds [12, 0]
     \<in> set (fst (report_spans (demo_spans\<lparr>s_counters := []\<rparr>) WIRE_V2 108 2 2 4))"
  using span_row_unchecked [of "demo_spans\<lparr>s_counters := []\<rparr>" WIRE_V2 108 2 2 4]
  by (simp add: demo_spans_eval spans_ok_of_def spans_usable_def transitions_of_def count_of_def span_count_def
      demo_spans_def new_stats_def WIRE_V2_def)

lemma count_nonneg: "counts_ok c \<Longrightarrow> 0 \<le> count_of c b"
  by (auto simp: counts_ok_def count_of_def list_all_iff split: option.splits dest: map_of_SomeD)

text \<open>
  C30: what a swept price brackets.  With counts that are not negative, a higher price never raises a corrected
  bucket, nor the corrected total, and at no price do they exceed what was measured; while the price still fits
  every bucket, the corrected total is the measured one less the spans times the price.
\<close>

theorem corrected_bracket:
  assumes "stats_ok st" "0 \<le> lo" "lo \<le> hi"
  shows "list_all2 (\<lambda>(b, x) (b', y). b = b' \<and> 0 \<le> y \<and> y \<le> x \<and> x \<le> count_of (s_buckets st) b)
      (corrected st n lo) (corrected st n hi)
    \<and> corrected_total st n hi \<le> corrected_total st n lo
    \<and> (if list_all (\<lambda>b. count_of (s_spans st) b * lo \<le> count_of (s_buckets st) b) [0..int n - 1]
       then corrected_total st n lo = sum_of (s_buckets st) [0..int n - 1] - lo * sum_of (s_spans st) [0..int n - 1] else True)"
proof -
  have nn: "0 \<le> count_of (s_spans st) b" "0 \<le> count_of (s_buckets st) b" for b
    using assms(1) by (simp_all add: stats_ok_def count_nonneg)
  have b: "0 \<le> max (count_of (s_buckets st) b - count_of (s_spans st) b * hi) 0
      \<and> max (count_of (s_buckets st) b - count_of (s_spans st) b * hi) 0 \<le> max (count_of (s_buckets st) b - count_of (s_spans st) b * lo) 0
      \<and> max (count_of (s_buckets st) b - count_of (s_spans st) b * lo) 0 \<le> count_of (s_buckets st) b" for b
    using mult_left_mono [OF assms(3) nn(1) [of b]] mult_nonneg_nonneg [OF nn(1) [of b] assms(2)] nn(2) [of b] by linarith
  have "list_all2 (\<lambda>(b, x) (b', y). b = b' \<and> 0 \<le> y \<and> y \<le> x \<and> x \<le> count_of (s_buckets st) b) (corrected st n lo) (corrected st n hi)"
    unfolding corrected_def list_all2_map1 list_all2_map2 using b by (intro list_all2_refl) auto
  moreover have "corrected_total st n hi \<le> corrected_total st n lo"
    unfolding corrected_total_def corrected_def map_map using b by (intro sum_list_mono) simp
  moreover have "corrected_total st n lo = sum_of (s_buckets st) [0..int n - 1] - lo * sum_of (s_spans st) [0..int n - 1]"
    if "list_all (\<lambda>b. count_of (s_spans st) b * lo \<le> count_of (s_buckets st) b) [0..int n - 1]"
  proof -
    have "map (\<lambda>b. max (count_of (s_buckets st) b - count_of (s_spans st) b * lo) 0) [0..int n - 1]
        = map (\<lambda>b. count_of (s_buckets st) b - lo * count_of (s_spans st) b) [0..int n - 1]"
      using that by (intro map_cong refl) (simp add: list_all_iff mult.commute)
    from arg_cong [OF this, of sum_list] show ?thesis
      by (simp add: corrected_total_def corrected_def comp_def sum_of_def sum_list_subtractf sum_list_const_mult)
  qed
  ultimately show ?thesis by simp
qed

lemma corrected_bracket_witness: "corrected_total demo_spans 14 5 \<le> corrected_total demo_spans 14 1"
proof -
  have "stats_ok demo_spans" by (simp add: demo_spans_def new_stats_def stats_ok_def counts_ok_def)
  from corrected_bracket [OF this, of 1 5 14] show ?thesis by simp
qed

subsection \<open>The words of the board\<close>

lemma solid_split: "list_all solid (split_ws s)"
proof (induction s rule: split_ws.induct)
  case (1 s)
  let ?t = "dropWhile is_space s"
  show ?case
  proof (cases "?t = []")
    case False
    then have "solid (takeWhile (\<lambda>c. \<not> is_space c) ?t)"
      using hd_dropWhile [OF False] by (cases ?t) (auto simp: solid_def list_all_iff dest: set_takeWhileD)
    then show ?thesis using 1 [OF refl False] False by (subst split_ws.simps) (simp add: Let_def)
  qed (subst split_ws.simps, simp)
qed

lemma split_ws_join: "list_all solid ws \<Longrightarrow> cur = concat (map (\<lambda>w. w @ '' '') ws) \<Longrightarrow> split_ws (cur @ t) = ws @ split_ws t"
  by (induction ws arbitrary: cur) (auto simp: split_ws_solid)

text \<open>A line in the making is some words with single blanks between them.\<close>

definition blank_joined :: "string list \<Rightarrow> string" where
  "blank_joined ws = (if ws = [] then [] else concat (map (\<lambda>w. w @ '' '') (butlast ws)) @ last ws)"

lemma split_blank_joined: "list_all solid ws \<Longrightarrow> split_ws (blank_joined ws) = ws"
proof (cases ws rule: rev_cases)
  case (snoc ys y)
  assume "list_all solid ws"
  then show ?thesis using split_ws_join [of ys _ y] snoc by (simp add: blank_joined_def split_ws_last)
qed (simp add: blank_joined_def)

lemma blank_joined_snoc: "ws \<noteq> [] \<Longrightarrow> blank_joined (ws @ [w]) = blank_joined ws @ '' '' @ w"
  by (cases ws rule: rev_cases) (simp_all add: blank_joined_def butlast_append)

lemma blank_joined_Nil: "list_all solid ws \<Longrightarrow> blank_joined ws = [] \<longleftrightarrow> ws = []"
  by (cases ws rule: rev_cases) (auto simp: blank_joined_def solid_def)

definition fits :: "nat \<Rightarrow> string \<Rightarrow> bool" where
  "fits width l \<longleftrightarrow> length l \<le> width \<or> length (split_ws l) = 1"

lemma wrap_words_keep:
  "list_all solid ws \<Longrightarrow> list_all solid done_ws \<Longrightarrow> cur = blank_joined done_ws \<Longrightarrow> cur = [] \<or> fits width cur \<Longrightarrow>
   concat (map split_ws (wrap_words width ws cur)) = done_ws @ ws \<and> list_all (fits width) (wrap_words width ws cur)"
proof (induction width ws cur arbitrary: done_ws rule: wrap_words.induct)
  case (1 width cur)
  then show ?case by (auto simp: split_blank_joined blank_joined_Nil)
next
  case (2 width w ws cur)
  have w: "solid w" "w \<noteq> []" "blank_joined [w] = w" "fits width w"
    using 2(3) by (auto simp: blank_joined_def fits_def split_ws_last solid_def)
  show ?case
  proof (cases "cur \<noteq> [] \<and> width < length cur + 1 + length w")
    case True
    then show ?thesis using 2(1) [OF True, of "[w]"] 2(3-) w by (auto simp: split_blank_joined)
  next
    case False
    let ?d = "done_ws @ [w]"
    have d: "(if cur = [] then w else cur @ '' '' @ w) = blank_joined ?d"
      using 2(4,5) w(3) blank_joined_snoc [of done_ws w] by (auto simp: blank_joined_Nil)
    have "fits width (blank_joined ?d)" unfolding d [symmetric]
      using False w by (cases "cur = []") (auto simp: fits_def)
    moreover have "wrap_words width (w # ws) cur = wrap_words width ws (blank_joined ?d)"
      unfolding wrap_words.simps if_not_P [OF False] d ..
    ultimately show ?thesis using 2(2) [OF False, of ?d, unfolded d] 2(3,4) w(1) by simp
  qed
qed

text \<open>
  wrapping the board's own words loses none and changes none: split at blanks again, the lines are the
  words of the text in their order, and every line is within the width or is a single word.
\<close>

theorem wrap_keeps_words:
  "concat (map split_ws (wrap_text s width)) = split_ws s \<and> list_all (fits width) (wrap_text s width)"
  using wrap_words_keep [OF solid_split, of "[]" "[]" width s]
  by (auto simp: wrap_text_def blank_joined_def fits_def split: list.splits)

subsection \<open>The calibration\<close>

text \<open>
  C31: the check of a calibration is exact.  It raises on a calibration without its spans, which a bracket line
  alone leaves; otherwise it is silent exactly when there are no pairs or the two prices are the quotients of
  the spans printed beside them, the second at least the first, and the bracket line, when there is one,
  repeats the two prices.
\<close>

definition price_agrees :: "int \<Rightarrow> int option \<Rightarrow> int \<Rightarrow> bool" where
  "price_agrees n2 want diff = (case want of None \<Rightarrow> True | Some w \<Rightarrow> n2 = 0 \<or> w = diff div n2)"

definition in_bucket_agrees :: "calib \<Rightarrow> int \<Rightarrow> int \<Rightarrow> bool" where
  "in_bucket_agrees c n2 diff = (case (c_in_bucket c, c_marginal c) of
     (Some w, Some m) \<Rightarrow> n2 = 0 \<or> w = diff div n2 \<or> w = m \<and> diff div n2 < m
   | (Some w, None) \<Rightarrow> n2 = 0 \<or> w = diff div n2
   | _ \<Rightarrow> True)"

definition bracket_agrees :: "calib \<Rightarrow> bool" where
  "bracket_agrees c = (case (c_bracket_lo c, c_marginal c) of
     (Some lo, Some m) \<Rightarrow> lo = m \<and> (case (c_bracket_hi c, c_in_bucket c) of (Some hi, Some w) \<Rightarrow> hi = w | _ \<Rightarrow> True)
   | _ \<Rightarrow> True)"

theorem calibration_exact:
  "case report_calibration c of
     Inl e \<Rightarrow> c_armed c = None \<or> c_unarmed c = None \<or> c_pairs c = None \<or> c_empty c = None
   | Inr s \<Rightarrow> (case (c_armed c, c_unarmed c, c_pairs c) of
       (Some armed, Some unarmed, Some pairs) \<Rightarrow>
         (snd s = []) = (price_agrees (2 * pairs) (c_marginal c) (armed - unarmed)
           \<and> (case c_empty c of None \<Rightarrow> True | Some e \<Rightarrow> in_bucket_agrees c (2 * pairs) (armed - e))
           \<and> bracket_agrees c)
     | _ \<Rightarrow> False)"
proof (cases "report_calibration c")
  case (Inr s)
  then obtain armed unarmed pairs where
    p: "c_armed c = Some armed" "c_unarmed c = Some unarmed" "c_pairs c = Some pairs"
    and s: "snd s = snd (cal_check (2 * pairs) ''marginal'' (c_marginal c) (armed - unarmed))
      @ snd (case c_empty c of None \<Rightarrow> ([], []) | Some em \<Rightarrow> in_bucket_check c (2 * pairs) armed unarmed em)
      @ snd (cal_bracket c)"
    by (auto simp: report_calibration_def cal_get_def Let_def split: option.splits if_splits)
  have m: "snd (cal_check n2 l want diff) = [] \<longleftrightarrow> price_agrees n2 want diff" for n2 l want diff
    by (auto simp: cal_check_def price_agrees_def split: option.splits)
  have b: "snd (in_bucket_check c n2 armed unarmed e) = [] \<longleftrightarrow> in_bucket_agrees c n2 (armed - e)" for n2 e
    by (auto simp: in_bucket_check_def in_bucket_agrees_def Let_def m price_agrees_def split: option.splits)
  have k: "snd (cal_bracket c) = [] \<longleftrightarrow> bracket_agrees c"
    by (auto simp: cal_bracket_def bracket_agrees_def split: option.splits)
  show ?thesis using s by (simp add: Inr p m k b split: option.splits)
qed (auto simp: report_calibration_def cal_get_def Let_def split: option.splits if_splits)

end
