(* ===== verification/Prof_Opcode.thy ===== *)
theory Prof_Opcode
  imports Py_Base
begin

unbundle bit_operations_syntax

text \<open>
  The opcode naming of \<open>src/tools/prof-symbolize.py\<close>: the table of \<open>(mask, match, name)\<close> rows, tried
  in order, and the fallback on the 68k line.  Opcodes are Python integers; the records that carry
  them hold 16 bits.
\<close>

subsection \<open>The tables\<close>

definition CC :: "string list" where
  "CC = [''T'', ''F'', ''HI'', ''LS'', ''CC'', ''CS'', ''NE'', ''EQ'', ''VC'', ''VS'', ''PL'', ''MI'', ''GE'', ''LT'', ''GT'', ''LE'']"

definition OPCODE_TABLE :: "(int \<times> int \<times> string) list" where
  "OPCODE_TABLE = [
    (0xFFFF, 0x4AFC, ''ILLEGAL''),
    (0xFFFF, 0x4E70, ''RESET''),
    (0xFFFF, 0x4E71, ''NOP''),
    (0xFFFF, 0x4E72, ''STOP''),
    (0xFFFF, 0x4E73, ''RTE''),
    (0xFFFF, 0x4E74, ''RTD''),
    (0xFFFF, 0x4E75, ''RTS''),
    (0xFFFF, 0x4E76, ''TRAPV''),
    (0xFFFF, 0x4E77, ''RTR''),
    (0xFFF8, 0x4840, ''SWAP''),
    (0xFFF8, 0x4808, ''LINK.L''),
    (0xFFF8, 0x4880, ''EXT.W''),
    (0xFFF8, 0x48C0, ''EXT.L''),
    (0xFFF8, 0x49C0, ''EXTB.L''),
    (0xFFF8, 0x4E50, ''LINK.W''),
    (0xFFF8, 0x4E58, ''UNLK''),
    (0xFFF8, 0x4E60, ''MOVE to USP''),
    (0xFFF8, 0x4E68, ''MOVE from USP''),
    (0xFFF0, 0x4E40, ''TRAP''),
    (0xFFC0, 0x4840, ''PEA''),
    (0xFFC0, 0x4AC0, ''TAS''),
    (0xFFC0, 0x4E80, ''JSR''),
    (0xFFC0, 0x4EC0, ''JMP''),
    (0xFB80, 0x4880, ''MOVEM''),
    (0xF1C0, 0x4100, ''CHK''),
    (0xF1C0, 0x41C0, ''LEA''),
    (0xFF00, 0x4000, ''NEGX''),
    (0xFF00, 0x4200, ''CLR''),
    (0xFF00, 0x4400, ''NEG''),
    (0xFF00, 0x4600, ''NOT''),
    (0xFF00, 0x4A00, ''TST''),
    (0xF138, 0x0108, ''MOVEP''),
    (0xFFC0, 0x0800, ''BTST #''),
    (0xFFC0, 0x0840, ''BCHG #''),
    (0xFFC0, 0x0880, ''BCLR #''),
    (0xFFC0, 0x08C0, ''BSET #''),
    (0xF1C0, 0x0100, ''BTST''),
    (0xF1C0, 0x0140, ''BCHG''),
    (0xF1C0, 0x0180, ''BCLR''),
    (0xF1C0, 0x01C0, ''BSET''),
    (0xFF00, 0x0000, ''ORI''),
    (0xFF00, 0x0200, ''ANDI''),
    (0xFF00, 0x0400, ''SUBI''),
    (0xFF00, 0x0600, ''ADDI''),
    (0xFF00, 0x0A00, ''EORI''),
    (0xFF00, 0x0C00, ''CMPI''),
    (0xF1C0, 0x2040, ''MOVEA.L''),
    (0xF1C0, 0x3040, ''MOVEA.W''),
    (0xF000, 0x1000, ''MOVE.B''),
    (0xF000, 0x2000, ''MOVE.L''),
    (0xF000, 0x3000, ''MOVE.W''),
    (0xF0F8, 0x50C8, ''DBcc''),
    (0xF0F8, 0x50FA, ''TRAPcc''),
    (0xF0C0, 0x50C0, ''Scc''),
    (0xF100, 0x5000, ''ADDQ''),
    (0xF100, 0x5100, ''SUBQ''),
    (0xFF00, 0x6000, ''BRA''),
    (0xFF00, 0x6100, ''BSR''),
    (0xF100, 0x7000, ''MOVEQ''),
    (0xF1F0, 0x8100, ''SBCD''),
    (0xF1C0, 0x80C0, ''DIVU''),
    (0xF1C0, 0x81C0, ''DIVS''),
    (0xF000, 0x8000, ''OR''),
    (0xF130, 0x9100, ''SUBX''),
    (0xF0C0, 0x90C0, ''SUBA''),
    (0xF000, 0x9000, ''SUB''),
    (0xF138, 0xB108, ''CMPM''),
    (0xF0C0, 0xB0C0, ''CMPA''),
    (0xF100, 0xB100, ''EOR''),
    (0xF000, 0xB000, ''CMP''),
    (0xF1F0, 0xC100, ''ABCD''),
    (0xF130, 0xC100, ''EXG''),
    (0xF1C0, 0xC0C0, ''MULU''),
    (0xF1C0, 0xC1C0, ''MULS''),
    (0xF000, 0xC000, ''AND''),
    (0xF130, 0xD100, ''ADDX''),
    (0xF0C0, 0xD0C0, ''ADDA''),
    (0xF000, 0xD000, ''ADD''),
    (0xF8C0, 0xE8C0, ''bitfield''),
    (0xF0C0, 0xE0C0, ''shift/rot mem''),
    (0xF000, 0xE000, ''shift/rot reg''),
    (0xFFE0, 0xF620, ''MOVE16''),
    (0xFF20, 0xF400, ''CINV''),
    (0xFF20, 0xF420, ''CPUSH''),
    (0xFFC0, 0xF500, ''PFLUSH (040)''),
    (0xFFD8, 0xF548, ''PTEST (040)''),
    (0xFFC0, 0xF000, ''PMMU (030)''),
    (0xFFC0, 0xF200, ''FPU general''),
    (0xFFC0, 0xF280, ''FBcc''),
    (0xFFC0, 0xF300, ''FSAVE''),
    (0xFFC0, 0xF340, ''FRESTORE'')]"

definition LINE_NAMES :: "string list" where
  "LINE_NAMES = [
    ''immediate / static bit'',
    ''MOVE.B'',
    ''MOVE.L / MOVEA.L'',
    ''MOVE.W / MOVEA.W'',
    ''misc (LEA/JSR/MOVEM/TST/CLR)'',
    ''ADDQ/SUBQ/Scc/DBcc'',
    ''Bcc/BSR/BRA'',
    ''MOVEQ'',
    ''OR/DIV/SBCD'',
    ''SUB/SUBA/SUBX'',
    ''line-A (unimplemented)'',
    ''CMP/CMPA/EOR/CMPM'',
    ''AND/MUL/ABCD/EXG'',
    ''ADD/ADDA/ADDX'',
    ''shift / rotate / bitfield'',
    ''line-F (FPU/MMU/cache)'']"

subsection \<open>Naming an opcode\<close>

definition hex_digit :: "int \<Rightarrow> string" where
  "hex_digit d = [''0123456789ABCDEF'' ! nat d]"

fun mnemonic_rows :: "int \<Rightarrow> (int \<times> int \<times> string) list \<Rightarrow> string" where
  "mnemonic_rows op [] =
     (let line = drop_bit 12 op AND 0xF in
      if line = 0x6 then ''B'' @ CC ! nat (drop_bit 8 op AND 0xF)
      else ''line-'' @ hex_digit line)"
| "mnemonic_rows op ((msk, match', name) # rows) =
     (if op AND msk = match' then
        (if name = ''BRA'' \<and> op AND 0x00FF = 0x00FF then ''BRA.L'' else name)
      else mnemonic_rows op rows)"

definition mnemonic :: "int \<Rightarrow> string" where
  "mnemonic op = mnemonic_rows op OPCODE_TABLE"

subsection \<open>Which row names an opcode\<close>

fun opcode_row :: "int \<Rightarrow> (int \<times> int \<times> string) list \<Rightarrow> (int \<times> int \<times> string) option" where
  "opcode_row op [] = None"
| "opcode_row op ((msk, match', name) # rows) =
     (if op AND msk = match' then Some (msk, match', name) else opcode_row op rows)"

lemma mnemonic_rows_cases:
  "mnemonic_rows op rows = (case opcode_row op rows of
     Some (msk, match', name) \<Rightarrow> if name = ''BRA'' \<and> op AND 0x00FF = 0x00FF then ''BRA.L'' else name
   | None \<Rightarrow> mnemonic_rows op [])"
  by (induction op rows rule: opcode_row.induct) auto

lemma opcode_row_Some:
  "opcode_row op rows = Some (msk, match', name) \<Longrightarrow> (msk, match', name) \<in> set rows \<and> op AND msk = match'"
  by (induction op rows rule: opcode_row.induct) (auto split: if_splits)

lemma masks_cover_line: "list_all (\<lambda>(msk, match', name). msk AND 0xF000 = 0xF000) OPCODE_TABLE"
  by (simp add: OPCODE_TABLE_def)

lemma row_line:
  assumes "(msk, match', name) \<in> set OPCODE_TABLE" "op AND msk = match'"
  shows "op AND 0xF000 = match' AND 0xF000"
proof -
  have "msk AND 0xF000 = 0xF000" using masks_cover_line assms(1) by (auto simp: list_all_iff)
  then have "(op AND msk) AND 0xF000 = op AND 0xF000" by (simp add: and.assoc)
  then show ?thesis using assms(2) by simp
qed

text \<open>So only the rows of the opcode's own line matter.\<close>

lemma mnemonic_own_line:
  assumes "list_all (\<lambda>(msk, match', name). msk AND 0xF000 = 0xF000) rows" "op AND 0xF000 = line"
  shows "mnemonic_rows op rows = mnemonic_rows op (filter (\<lambda>(msk, match', name). match' AND 0xF000 = line) rows)"
  using assms
proof (induction rows)
  case (Cons r rows)
  obtain msk match' name where r: "r = (msk, match', name)" by (cases r)
  have "op AND msk \<noteq> match'" if "match' AND 0xF000 \<noteq> line"
  proof
    assume "op AND msk = match'"
    moreover have "msk AND 0xF000 = 0xF000" using Cons.prems(1) by (simp add: r)
    then have "(op AND msk) AND 0xF000 = op AND 0xF000" by (simp add: and.assoc)
    ultimately show False using that Cons.prems(2) by simp
  qed
  then show ?case using Cons by (auto simp: r)
qed simp

subsection \<open>Properties\<close>

text \<open>
  A row never names an opcode of another 68k line: whenever a row of the table is used, its match
  and the opcode have the same top four bits, so every name is at least of the right instruction
  group.
\<close>

theorem opcode_row_line:
  assumes "opcode_row op OPCODE_TABLE = Some (msk, match', name)"
  shows "op AND 0xF000 = match' AND 0xF000"
  using opcode_row_Some [OF assms] row_line by blast

lemma and_narrow:
  fixes op :: int
  assumes "op AND m = k" "n AND m = n"
  shows "op AND n = k AND n"
proof -
  have "op AND n = op AND (n AND m)" using assms(2) by simp
  also have "\<dots> = (op AND m) AND n" by (simp add: ac_simps)
  finally show ?thesis using assms(1) by simp
qed

lemmas own_line = mnemonic_def mnemonic_own_line [OF masks_cover_line]

lemma line_5: "filter (\<lambda>(msk, match', name). match' AND 0xF000 = 0x5000) OPCODE_TABLE =
    [(0xF0F8, 0x50C8, ''DBcc''), (0xF0F8, 0x50FA, ''TRAPcc''), (0xF0C0, 0x50C0, ''Scc''),
     (0xF100, 0x5000, ''ADDQ''), (0xF100, 0x5100, ''SUBQ'')]"
  by (simp add: OPCODE_TABLE_def)

lemma line_9: "filter (\<lambda>(msk, match', name). match' AND 0xF000 = 0x9000) OPCODE_TABLE =
    [(0xF130, 0x9100, ''SUBX''), (0xF0C0, 0x90C0, ''SUBA''), (0xF000, 0x9000, ''SUB'')]"
  by (simp add: OPCODE_TABLE_def)

lemma line_B: "filter (\<lambda>(msk, match', name). match' AND 0xF000 = 0xB000) OPCODE_TABLE =
    [(0xF138, 0xB108, ''CMPM''), (0xF0C0, 0xB0C0, ''CMPA''), (0xF100, 0xB100, ''EOR''), (0xF000, 0xB000, ''CMP'')]"
  by (simp add: OPCODE_TABLE_def)

lemma line_C: "filter (\<lambda>(msk, match', name). match' AND 0xF000 = 0xC000) OPCODE_TABLE =
    [(0xF1F0, 0xC100, ''ABCD''), (0xF130, 0xC100, ''EXG''), (0xF1C0, 0xC0C0, ''MULU''),
     (0xF1C0, 0xC1C0, ''MULS''), (0xF000, 0xC000, ''AND'')]"
  by (simp add: OPCODE_TABLE_def)

lemma line_D: "filter (\<lambda>(msk, match', name). match' AND 0xF000 = 0xD000) OPCODE_TABLE =
    [(0xF130, 0xD100, ''ADDX''), (0xF0C0, 0xD0C0, ''ADDA''), (0xF000, 0xD000, ''ADD'')]"
  by (simp add: OPCODE_TABLE_def)

lemma no_trapcc: "op AND 0xF0F8 \<noteq> (0x50FA :: int)"
proof
  assume "op AND 0xF0F8 = (0x50FA :: int)"
  then have "(op AND 0xF0F8) AND 2 = 2" by simp
  moreover have "(op AND 0xF0F8) AND 2 = op AND (0xF0F8 AND 2)" by (rule and.assoc)
  ultimately show False by simp
qed

text \<open>
  The \<open>TRAPcc\<close> row is dead: its match has a bit outside its mask, so no opcode at all is ever
  named \<open>TRAPcc\<close>, and the \<open>TRAPcc\<close> encodings of every condition are reported as \<open>Scc\<close>.
\<close>

theorem trapcc_unreachable:
  assumes "op AND 0xF0F8 = 0x50F8"
  shows "mnemonic op = ''Scc'' \<and> mnemonic op' \<noteq> ''TRAPcc''"
proof
  have "op AND 0xF000 = 0x5000" "op AND 0xF0C0 = 0x50C0"
    using and_narrow [OF assms, of "0xF000"] and_narrow [OF assms, of "0xF0C0"] by simp_all
  then show "mnemonic op = ''Scc''" using assms by (simp add: own_line line_5)
  have "list_all (\<lambda>r. snd (snd r) = ''TRAPcc'' \<longrightarrow> fst r = 0xF0F8 \<and> fst (snd r) = 0x50FA) OPCODE_TABLE"
    by (simp add: OPCODE_TABLE_def)
  then have "\<not> (m, k, ''TRAPcc'') \<in> set OPCODE_TABLE \<or> op' AND m \<noteq> k" for m k
    using no_trapcc by (fastforce simp: list_all_iff)
  then have "opcode_row op' OPCODE_TABLE \<noteq> Some (m, k, ''TRAPcc'')" for m k
    using opcode_row_Some by blast
  moreover have "mnemonic_rows op' [] \<noteq> ''TRAPcc''" by (simp add: Let_def)
  ultimately show "mnemonic op' \<noteq> ''TRAPcc''"
    by (auto simp: mnemonic_def mnemonic_rows_cases [of op' OPCODE_TABLE] split: option.splits if_splits)
qed

text \<open>
  The table is not ordered most specific first: \<open>MULS.W\<close> with a register source is named \<open>EXG\<close>,
  \<open>ADDA.L\<close> and \<open>SUBA.L\<close> with a register source are named \<open>ADDX\<close> and \<open>SUBX\<close>, and \<open>CMPA.L\<close> with
  an address register source is named \<open>CMPM\<close>, for every choice of the registers.
\<close>

theorem shadowed_rows:
  assumes "muls AND 0xF1F0 = 0xC1C0" "adda AND 0xF1F0 = 0xD1C0" "suba AND 0xF1F0 = 0x91C0" "cmpa AND 0xF1F8 = 0xB1C8"
  shows "mnemonic muls = ''EXG'' \<and> mnemonic adda = ''ADDX'' \<and> mnemonic suba = ''SUBX'' \<and> mnemonic cmpa = ''CMPM''"
proof (intro conjI)
  show "mnemonic muls = ''EXG''"
    using assms(1) and_narrow [OF assms(1), of "0xF000"] and_narrow [OF assms(1), of "0xF130"]
    by (simp add: own_line line_C)
  show "mnemonic adda = ''ADDX''"
    using and_narrow [OF assms(2), of "0xF000"] and_narrow [OF assms(2), of "0xF130"] by (simp add: own_line line_D)
  show "mnemonic suba = ''SUBX''"
    using and_narrow [OF assms(3), of "0xF000"] and_narrow [OF assms(3), of "0xF130"] by (simp add: own_line line_9)
  show "mnemonic cmpa = ''CMPM''"
    using and_narrow [OF assms(4), of "0xF000"] and_narrow [OF assms(4), of "0xF138"] by (simp add: own_line line_B)
qed

subsection \<open>Witnesses\<close>

lemma opcode_row_line_witness: "(0x4E75 :: int) AND 0xF000 = 0x4E75 AND 0xF000"
  using opcode_row_line [of "0x4E75" "0xFFFF" "0x4E75" "''RTS''"] by (simp add: OPCODE_TABLE_def)

lemma trapcc_witness: "mnemonic 0x57FC = ''Scc'' \<and> mnemonic 0x50FA \<noteq> ''TRAPcc''"
  by (rule trapcc_unreachable) simp

lemma shadowed_witness:
  "mnemonic 0xC3C0 = ''EXG'' \<and> mnemonic 0xD1C8 = ''ADDX'' \<and> mnemonic 0x91C9 = ''SUBX'' \<and> mnemonic 0xB1C8 = ''CMPM''"
  by (rule shadowed_rows) simp_all

end
