(* ===== verification/Prof_Report.thy ===== *)
theory Prof_Report
  imports Prof_Capture Prof_Symbols Prof_Opcode
begin

text \<open>
  The profile of one ring, from \<open>report_ring\<close> of \<open>src/tools/prof-symbolize.py\<close> and the helpers it uses:
  what is computed and in which order it is shown, not the layout of the text.  Percentages are not
  computed; the two comparisons of the wrap check that the code makes in floating point are written over
  the integers, where they agree as long as the spans stay below \<open>2^46\<close> cycles.
\<close>

subsection \<open>Numbers of the header\<close>

fun hex_body :: "string \<Rightarrow> bool" where
  "hex_body [] = False"
| "hex_body [c] = is_hex c"
| "hex_body (c # d # s) = (is_hex c \<and> (if d = CHR ''_'' then hex_body s else hex_body (d # s)))"

text \<open>\<open>int(s, 16)\<close> on a token without blanks: a sign, the prefix \<open>0x\<close>, digits and single underscores.\<close>

definition hex_prefix :: "string \<Rightarrow> string" where
  "hex_prefix t = (case t of
     c # d # r \<Rightarrow> if c = CHR ''0'' \<and> (d = CHR ''x'' \<or> d = CHR ''X'')
       then (case r of e # r' \<Rightarrow> if e = CHR ''_'' then r' else r | [] \<Rightarrow> r) else t
   | _ \<Rightarrow> t)"

definition py_int16 :: "string \<Rightarrow> exn + int" where
  "py_int16 s = (let (neg, t) = (case s of
       c # r \<Rightarrow> if c = CHR ''-'' then (True, r) else if c = CHR ''+'' then (False, r) else (False, s)
     | [] \<Rightarrow> (False, s)); u = hex_prefix t in
     if hex_body u
     then Inr (let n = hex (filter is_hex u) in if neg then - n else n)
     else Inl ValueError)"

definition hdr_int :: "(string \<times> string) list \<Rightarrow> string \<Rightarrow> exn + int" where
  "hdr_int h k = bind_e (dict_get k h) py_int"

record ring_numbers =
  n_rec_count :: int
  n_samples :: int
  n_drops :: int
  n_cyc_span :: int
  n_wall_ticks :: int
  n_wall_hz :: int
  n_cpu_hz :: int
  n_hz :: int
  n_build :: int
  n_version :: int

definition ring_numbers_of :: "(string \<times> string) list \<Rightarrow> exn + ring_numbers" where
  "ring_numbers_of h =
     bind_e (hdr_int h ''rec_count'') (\<lambda>rec_count. bind_e (hdr_int h ''samples'') (\<lambda>samples.
     bind_e (hdr_int h ''drops'') (\<lambda>drops. bind_e (hdr_int h ''cyc_span'') (\<lambda>cyc_span.
     bind_e (hdr_int h ''wall_ticks'') (\<lambda>wall_ticks. bind_e (hdr_int h ''wall_hz'') (\<lambda>wall_hz.
     bind_e (hdr_int h ''cpu_hz'') (\<lambda>cpu_hz. bind_e (hdr_int h ''hz'') (\<lambda>hz.
     bind_e (py_int16 (case map_of h ''build'' of Some b \<Rightarrow> b | None \<Rightarrow> ''0x0'')) (\<lambda>build.
     bind_e (hdr_int h ''version'') (\<lambda>version.
     Inr \<lparr> n_rec_count = rec_count, n_samples = samples, n_drops = drops, n_cyc_span = cyc_span,
           n_wall_ticks = wall_ticks, n_wall_hz = wall_hz, n_cpu_hz = cpu_hz, n_hz = hz, n_build = build,
           n_version = version \<rparr>))))))))))"

subsection \<open>Coverage and the wrap check\<close>

datatype coverage = Wrapped int int | Partial int int | Complete

definition coverage_of :: "ring_numbers \<Rightarrow> coverage" where
  "coverage_of r =
     (let missing = n_samples r - n_rec_count r in
      if 0 < n_drops r then Wrapped (n_drops r) (n_rec_count r)
      else if 0 < missing then Partial missing (n_samples r)
      else Complete)"

definition TWO32 :: int where "TWO32 = 4294967296"

datatype wrap_verdict = No_base | Consistent | Missed_wraps int | Unexplained int

text \<open>\<open>round(short / 2^32)\<close>; a tie is never near an integer, so its direction does not matter.\<close>

definition nearest_wraps :: "int \<Rightarrow> int" where
  "nearest_wraps short = (2 * short + TWO32) div (2 * TWO32)"

definition wrap_check :: "ring_numbers \<Rightarrow> wrap_verdict" where
  "wrap_check r =
     (if n_wall_hz r = 0 \<or> n_wall_ticks r = 0 \<or> n_cyc_span r = 0 then No_base
      else
        (let expected = n_wall_ticks r * n_cpu_hz r div n_wall_hz r;
             short = expected - n_cyc_span r; k = nearest_wraps short in
         if expected = 0 \<or> 100 * \<bar>n_cyc_span r - expected\<bar> \<le> \<bar>expected\<bar> then Consistent
         else if 0 < short \<and> 1 \<le> k \<and> 10 * \<bar>short - k * TWO32\<bar> < TWO32 then Missed_wraps k
         else Unexplained short))"

subsection \<open>Samples\<close>

definition weight_byte :: "int \<Rightarrow> int" where
  "weight_byte fl = drop_bit F_WEIGHT_SH fl AND 0xFF"

definition weight :: "int \<Rightarrow> int" where
  "weight fl = (if weight_byte fl = 0 then 1 else weight_byte fl)"

definition flag :: "int \<Rightarrow> int \<Rightarrow> bool" where
  "flag fl m \<longleftrightarrow> fl AND m \<noteq> 0"

definition rsvd_seen :: "sample list \<Rightarrow> nat" where
  "rsvd_seen xs = length (filter (\<lambda>(pc, op, fl). flag fl F_RSVD_MASK) xs)"

definition total_weight :: "sample list \<Rightarrow> int" where
  "total_weight xs = sum_list (map (\<lambda>(pc, op, fl). weight fl) xs)"

definition WEIGHT_BINS :: "(int \<times> int) list" where
  "WEIGHT_BINS = [(1, 1), (2, 4), (5, 8), (9, 16), (17, 32), (33, 64), (65, 128), (129, 254), (255, 255)]"

definition weight_bin :: "sample list \<Rightarrow> int \<times> int \<Rightarrow> int \<times> int" where
  "weight_bin xs = (\<lambda>(lo, hi).
     let ws = filter (\<lambda>w. lo \<le> w \<and> w \<le> hi) (map (\<lambda>(pc, op, fl). weight fl) xs)
     in (int (length ws), sum_list ws))"

definition weight_histogram :: "sample list \<Rightarrow> ((int \<times> int) \<times> int \<times> int) list" where
  "weight_histogram xs = map (\<lambda>b. (b, weight_bin xs b)) WEIGHT_BINS"

definition above_one :: "sample list \<Rightarrow> int \<times> int" where
  "above_one xs = (let rows = filter (\<lambda>((lo, hi), ns, ws). 1 < lo) (weight_histogram xs)
     in (sum_list (map (\<lambda>(b, ns, ws). ns) rows), sum_list (map (\<lambda>(b, ns, ws). ws) rows)))"

definition saturated :: "sample list \<Rightarrow> nat" where
  "saturated xs = length (filter (\<lambda>(pc, op, fl). weight_byte fl = 255) xs)"

subsection \<open>Tables\<close>

text \<open>A dictionary from a key to \<open>(weight, samples)\<close>, and the loop that fills one.\<close>

type_synonym 'k tally = "('k \<times> int \<times> int) list"

definition charge :: "'k \<Rightarrow> int \<Rightarrow> 'k tally \<Rightarrow> 'k tally" where
  "charge k w t = (let (a, b) = (case map_of t k of Some ab \<Rightarrow> ab | None \<Rightarrow> (0, 0))
     in AList.update k (a + w, b + 1) t)"

fun tally_by :: "(sample \<Rightarrow> 'k option) \<Rightarrow> sample list \<Rightarrow> 'k tally \<Rightarrow> 'k tally" where
  "tally_by key [] t = t"
| "tally_by key ((pc, op, fl) # xs) t =
     tally_by key xs (case key (pc, op, fl) of Some k \<Rightarrow> charge k (weight fl) t | None \<Rightarrow> t)"

type_synonym mode = "bool \<times> bool \<times> bool \<times> bool"

definition mode_of :: "sample \<Rightarrow> mode" where
  "mode_of = (\<lambda>(pc, op, fl). (flag fl F_SUPER, flag fl F_MMU, flag fl F_AMIX, flag fl F_CPU040))"

definition modes_of :: "sample list \<Rightarrow> mode tally" where
  "modes_of xs = tally_by (\<lambda>s. Some (mode_of s)) xs []"

definition rank_modes :: "mode tally \<Rightarrow> mode list" where
  "rank_modes t = sort_key (\<lambda>k. (- fst (the (map_of t k)), k)) (map fst t)"

definition super_weight :: "sample list \<Rightarrow> int" where
  "super_weight xs = sum_list (map (\<lambda>(k, w, n). w) (filter (\<lambda>(k, w, n). fst k) (modes_of xs)))"

subsection \<open>Naming a PC\<close>

fun hex_nat :: "nat \<Rightarrow> string \<Rightarrow> string" where
  "hex_nat n acc = (if n < 16 then ''0123456789abcdef'' ! n # acc
     else hex_nat (n div 16) (''0123456789abcdef'' ! (n mod 16) # acc))"

declare hex_nat.simps [simp del]

definition fmt_x :: "int \<Rightarrow> string" where
  "fmt_x v = (if v < 0 then ''-'' @ hex_nat (nat (- v)) [] else hex_nat (nat v) [])"

definition fmt_08x :: "int \<Rightarrow> string" where
  "fmt_08x v = (let s = fmt_x v in
     if v < 0 then ''-'' @ replicate (8 - length s) (CHR ''0'') @ tl s else replicate (8 - length s) (CHR ''0'') @ s)"

definition page_mask_of :: "nat \<Rightarrow> int" where
  "page_mask_of page_bits = NOT (push_bit page_bits 1 - 1) AND 0xFFFFFFFF"

definition resolve :: "int \<Rightarrow> symtab option \<Rightarrow> int \<Rightarrow> string \<Rightarrow> string \<times> string" where
  "resolve pc syms page_mask space = (case syms of
     Some st \<Rightarrow> (case lookup st pc of
         Some (name, off, Data_kind) \<Rightarrow>
           (let lbl = ''!! EXECUTING IN '' @ name in (lbl, lbl @ ''+0x'' @ fmt_x off))
       | Some (name, off, Text_kind) \<Rightarrow> (name, if off \<noteq> 0 then name @ ''+0x'' @ fmt_x off else name)
       | None \<Rightarrow> (space @ ''?:'' @ fmt_08x (pc AND page_mask), space @ ''?:'' @ fmt_08x pc))
   | None \<Rightarrow> (space @ '':'' @ fmt_08x (pc AND page_mask), space @ '':'' @ fmt_08x pc))"

definition sym_super :: "int \<Rightarrow> int \<Rightarrow> symtab option \<Rightarrow> int \<Rightarrow> string \<times> string" where
  "sym_super pc fl ksyms page_mask =
     (if \<not> flag fl F_AMIX
      then (''rom/amigaos:'' @ fmt_08x (pc AND page_mask), ''rom/amigaos:'' @ fmt_08x pc)
      else resolve pc ksyms page_mask ''kernel'')"

definition sym_user :: "int \<Rightarrow> symtab option \<Rightarrow> int \<Rightarrow> string \<times> string" where
  "sym_user pc usyms page_mask = resolve pc usyms page_mask ''user''"

definition name_pc :: "symtab option \<Rightarrow> symtab option \<Rightarrow> int \<Rightarrow> sample \<Rightarrow> string \<times> string" where
  "name_pc ksyms usyms page_mask = (\<lambda>(pc, op, fl).
     if flag fl F_SUPER then sym_super pc fl ksyms page_mask else sym_user pc usyms page_mask)"

subsection \<open>The profiles\<close>

definition super_profile :: "symtab option \<Rightarrow> symtab option \<Rightarrow> int \<Rightarrow> sample list \<Rightarrow> string tally" where
  "super_profile ksyms usyms page_mask xs = tally_by (\<lambda>(pc, op, fl).
     if flag fl F_SUPER then Some (fst (name_pc ksyms usyms page_mask (pc, op, fl))) else None) xs []"

definition user_profile :: "symtab option \<Rightarrow> symtab option \<Rightarrow> int \<Rightarrow> sample list \<Rightarrow> string tally" where
  "user_profile ksyms usyms page_mask xs = tally_by (\<lambda>(pc, op, fl).
     if flag fl F_SUPER then None else Some (fst (name_pc ksyms usyms page_mask (pc, op, fl)))) xs []"

definition pc_profile :: "symtab option \<Rightarrow> symtab option \<Rightarrow> int \<Rightarrow> sample list \<Rightarrow> (int \<times> string) tally" where
  "pc_profile ksyms usyms page_mask xs =
     tally_by (\<lambda>(pc, op, fl). Some (pc, snd (name_pc ksyms usyms page_mask (pc, op, fl)))) xs []"

definition opcode_profile :: "sample list \<Rightarrow> int tally" where
  "opcode_profile xs = tally_by (\<lambda>(pc, op, fl). Some op) xs []"

definition op_line :: "int \<Rightarrow> int" where
  "op_line op = drop_bit 12 op AND 0xF"

definition line_profile :: "sample list \<Rightarrow> int tally" where
  "line_profile xs = tally_by (\<lambda>(pc, op, fl). Some (op_line op)) xs []"

text \<open>\<open>sorted(table.items(), key=lambda kv: (-kv[1][0], -kv[1][1], kv[0]))\<close>.\<close>

definition ranked :: "('k :: linorder) tally \<Rightarrow> 'k tally" where
  "ranked t = sort_key (\<lambda>(k, w, n). (- w, - n, k)) t"

definition rank_lines :: "int tally \<Rightarrow> int list" where
  "rank_lines t = sort_key (\<lambda>k. (- fst (the (map_of t k)), k)) (map fst t)"

text \<open>\<open>_flat\<close>: the rows that are shown, and what the row "more entries" stands for.\<close>

definition weight_sum :: "'k tally \<Rightarrow> int" where
  "weight_sum t = sum_list (map (\<lambda>(k, w, n). w) t)"

definition sample_sum :: "'k tally \<Rightarrow> int" where
  "sample_sum t = sum_list (map (\<lambda>(k, w, n). n) t)"

definition flat :: "nat \<Rightarrow> string tally \<Rightarrow> string tally \<times> (int \<times> int \<times> nat) option \<times> int \<times> int" where
  "flat n_top t = (let r = ranked t; shown = take n_top r in
     (shown,
      if n_top < length r
      then Some (weight_sum t - weight_sum shown, sample_sum t - sample_sum shown, length r - n_top) else None,
      weight_sum t, sample_sum t))"

text \<open>How concentrated the PCs are: the weight of the first 10, 50 and 200, until all are covered.\<close>

datatype concentration_row = All_pcs int int | Top_pcs int int int

fun concentration :: "(int \<times> string) tally \<Rightarrow> nat list \<Rightarrow> concentration_row list" where
  "concentration r [] = []"
| "concentration r (n # ns) =
     (if length r \<le> n then [All_pcs (int n) (int (length r))]
      else Top_pcs (int n) (int (length r)) (weight_sum (take n r)) # concentration r ns)"

definition opcode_name :: "int \<Rightarrow> string" where
  "opcode_name op = (if op = 0 then ''ORI / fetch faulted'' else mnemonic op)"


subsection \<open>The report\<close>

record ring_report =
  rr_numbers :: ring_numbers
  rr_coverage :: coverage
  rr_wrap :: wrap_verdict
  rr_rsvd :: nat
  rr_total_w :: int
  rr_histogram :: "((int \<times> int) \<times> int \<times> int) list"
  rr_above_one :: "int \<times> int"
  rr_saturated :: nat
  rr_modes :: "(mode \<times> int \<times> int) list"
  rr_super_weight :: int
  rr_super_flat :: "string tally \<times> (int \<times> int \<times> nat) option \<times> int \<times> int"
  rr_user_flat :: "string tally \<times> (int \<times> int \<times> nat) option \<times> int \<times> int"
  rr_concentration :: "concentration_row list"
  rr_pcs :: "(int \<times> string) tally"
  rr_opcodes :: "(int \<times> string \<times> int \<times> int) list"
  rr_lines :: "(int \<times> string \<times> int \<times> int) list"

definition report_ring ::
  "ring \<Rightarrow> symtab option \<Rightarrow> symtab option \<Rightarrow> nat \<Rightarrow> nat \<Rightarrow> nat \<Rightarrow> exn + ring_report" where
  "report_ring ring ksyms usyms page_bits n_top n_opcodes =
     bind_e (ring_numbers_of (r_hdr ring)) (\<lambda>r.
     let xs = r_samples ring; pm = page_mask_of page_bits; modes = modes_of xs;
         pcs = ranked (pc_profile ksyms usyms pm xs); lines = line_profile xs in
     Inr \<lparr> rr_numbers = r, rr_coverage = coverage_of r, rr_wrap = wrap_check r, rr_rsvd = rsvd_seen xs,
           rr_total_w = total_weight xs, rr_histogram = weight_histogram xs, rr_above_one = above_one xs,
           rr_saturated = saturated xs,
           rr_modes = map (\<lambda>k. (k, the (map_of modes k))) (rank_modes modes),
           rr_super_weight = super_weight xs,
           rr_super_flat = flat n_top (super_profile ksyms usyms pm xs),
           rr_user_flat = flat n_top (user_profile ksyms usyms pm xs),
           rr_concentration = concentration pcs [10, 50, 200],
           rr_pcs = take n_top pcs,
           rr_opcodes = map (\<lambda>(op, w, n). (op, opcode_name op, w, n)) (take n_opcodes (ranked (opcode_profile xs))),
           rr_lines = map (\<lambda>ln. (ln, LINE_NAMES ! nat ln, the (map_of lines ln))) (rank_lines lines) \<rparr>)"

subsection \<open>Filling a table keeps weight and count\<close>

lemma sums_simps [simp]: "weight_sum [] = 0" "sample_sum [] = 0"
  "weight_sum ((k, w, n) # t) = w + weight_sum t" "sample_sum ((k, w, n) # t) = n + sample_sum t"
  "weight_sum (t @ u) = weight_sum t + weight_sum u" "sample_sum (t @ u) = sample_sum t + sample_sum u"
  by (simp_all add: weight_sum_def sample_sum_def)

lemma sums_update: "distinct (map fst t) \<Longrightarrow> map_of t k = Some (a, b) \<Longrightarrow>
   weight_sum (AList.update k (w, n) t) = weight_sum t - a + w \<and>
   sample_sum (AList.update k (w, n) t) = sample_sum t - b + n"
  by (induction t) (auto split: if_splits)

lemma sums_insert: "map_of t k = None \<Longrightarrow>
   weight_sum (AList.update k (w, n) t) = weight_sum t + w \<and>
   sample_sum (AList.update k (w, n) t) = sample_sum t + n"
  by (induction t) (auto split: if_splits)

lemma charge_keeps:
  assumes "distinct (map fst t)"
  shows "distinct (map fst (charge k w t))" "weight_sum (charge k w t) = weight_sum t + w"
    "sample_sum (charge k w t) = sample_sum t + 1"
  using assms sums_update [OF assms, of k] sums_insert [of t k]
  by (auto simp: charge_def Let_def distinct_update split: option.splits prod.splits)

text \<open>The charged samples: those with a key.\<close>

definition charged :: "(sample \<Rightarrow> 'k option) \<Rightarrow> sample list \<Rightarrow> sample list" where
  "charged key xs = filter (\<lambda>s. key s \<noteq> None) xs"

lemma charged_simps [simp]: "charged key [] = []"
  "charged key (s # xs) = (if key s \<noteq> None then s # charged key xs else charged key xs)"
  by (simp_all add: charged_def)

lemma total_weight_simps [simp]: "total_weight [] = 0" "total_weight ((pc, op, fl) # xs) = weight fl + total_weight xs"
  by (simp_all add: total_weight_def)

lemma tally_keeps:
  "distinct (map fst t) \<Longrightarrow> distinct (map fst (tally_by key xs t))
     \<and> weight_sum (tally_by key xs t) = weight_sum t + total_weight (charged key xs)
     \<and> sample_sum (tally_by key xs t) = sample_sum t + int (length (charged key xs))"
  by (induction key xs t rule: tally_by.induct) (auto simp: charge_keeps split: option.splits)

lemma tally_sums:
  "distinct (map fst (tally_by key xs []))" "weight_sum (tally_by key xs []) = total_weight (charged key xs)"
  "sample_sum (tally_by key xs []) = int (length (charged key xs))"
  using tally_keeps [of "[]" key xs] by simp_all

lemma charged_all: "(\<And>s. key s \<noteq> None) \<Longrightarrow> charged key xs = xs"
  by (simp add: charged_def)

text \<open>
  C26: no time is lost and none is counted twice.  Whatever symbol tables are given, the supervisor and the
  user profile together carry the weight and the number of all samples, and so do, each alone, the mode
  split, the profile by PC, the opcodes and the line rollup.
\<close>

theorem profiles_conserve:
  "weight_sum (super_profile ksyms usyms pm xs) + weight_sum (user_profile ksyms usyms pm xs) = total_weight xs
   \<and> sample_sum (super_profile ksyms usyms pm xs) + sample_sum (user_profile ksyms usyms pm xs) = int (length xs)
   \<and> weight_sum (modes_of xs) = total_weight xs \<and> sample_sum (modes_of xs) = int (length xs)
   \<and> weight_sum (pc_profile ksyms usyms pm xs) = total_weight xs
   \<and> sample_sum (pc_profile ksyms usyms pm xs) = int (length xs)
   \<and> weight_sum (opcode_profile xs) = total_weight xs \<and> sample_sum (opcode_profile xs) = int (length xs)
   \<and> weight_sum (line_profile xs) = total_weight xs \<and> sample_sum (line_profile xs) = int (length xs)"
proof -
  let ?s = "\<lambda>(pc, op, fl). if flag fl F_SUPER then Some (fst (name_pc ksyms usyms pm (pc, op, fl))) else None"
  let ?u = "\<lambda>(pc, op, fl). if flag fl F_SUPER then None else Some (fst (name_pc ksyms usyms pm (pc, op, fl)))"
  have "total_weight (charged ?s ys) + total_weight (charged ?u ys) = total_weight ys
      \<and> length (charged ?s ys) + length (charged ?u ys) = length ys" for ys
    by (induction ys) (auto split: if_splits)
  then have "total_weight (charged ?s xs) + total_weight (charged ?u xs) = total_weight xs"
    and "int (length (charged ?s xs)) + int (length (charged ?u xs)) = int (length xs)"
    by (simp_all flip: of_nat_add)
  then show ?thesis
    by (simp add: super_profile_def user_profile_def modes_of_def pc_profile_def opcode_profile_def
        line_profile_def tally_sums charged_all case_prod_unfold)
qed


subsection \<open>The histogram\<close>

lemma weight_bounds: "1 \<le> weight fl \<and> weight fl \<le> 255"
proof -
  have "weight_byte fl = take_bit 8 (drop_bit F_WEIGHT_SH fl)"
    by (simp add: weight_byte_def take_bit_eq_mask mask_eq_exp_minus_1)
  then have "0 \<le> weight_byte fl \<and> weight_byte fl < 256" using take_bit_int_less_exp [of 8] by simp
  then show ?thesis by (auto simp: weight_def)
qed

text \<open>Every weight falls in exactly one bin.\<close>

definition in_bin :: "int \<Rightarrow> int \<times> int \<Rightarrow> bool" where
  "in_bin w = (\<lambda>(lo, hi). lo \<le> w \<and> w \<le> hi)"

lemma bins_partition: "1 \<le> w \<Longrightarrow> w \<le> 255 \<Longrightarrow> (\<Sum>b\<leftarrow>WEIGHT_BINS. if in_bin w b then x else 0) = (x :: int)"
  by (auto simp: WEIGHT_BINS_def in_bin_def)

lemma weight_bin_Cons: "weight_bin ((pc, op, fl) # xs) b =
    (fst (weight_bin xs b) + (if in_bin (weight fl) b then 1 else 0),
     snd (weight_bin xs b) + (if in_bin (weight fl) b then weight fl else 0))"
  by (cases b) (simp add: weight_bin_def in_bin_def Let_def)

text \<open>
  the weight histogram is a partition.  Its rows add up to the number of samples and to the total
  weight, whatever the flag words, and what it says about weights above one is everything but the first row.
\<close>

theorem histogram_partition:
  "sum_list (map (\<lambda>(b, ns, ws). ns) (weight_histogram xs)) = int (length xs)
   \<and> sum_list (map (\<lambda>(b, ns, ws). ws) (weight_histogram xs)) = total_weight xs
   \<and> fst (above_one xs) = int (length (filter (\<lambda>(pc, op, fl). weight fl \<noteq> 1) xs))"
proof (intro conjI)
  have b: "1 \<le> weight fl" "weight fl \<le> 255" for fl using weight_bounds by simp_all
  have "sum_list (map (\<lambda>b. fst (weight_bin ys b)) WEIGHT_BINS) = int (length ys)
    \<and> sum_list (map (\<lambda>b. snd (weight_bin ys b)) WEIGHT_BINS) = total_weight ys" for ys
  proof (induction ys)
    case (Cons s ys)
    then show ?case by (cases s) (simp add: weight_bin_Cons sum_list_addf bins_partition b)
  qed (simp add: weight_bin_def WEIGHT_BINS_def)
  then show "sum_list (map (\<lambda>(b, ns, ws). ns) (weight_histogram xs)) = int (length xs)"
    "sum_list (map (\<lambda>(b, ns, ws). ws) (weight_histogram xs)) = total_weight xs"
    by (simp_all add: weight_histogram_def case_prod_unfold comp_def)
  have "(\<Sum>b\<leftarrow>tl WEIGHT_BINS. fst (weight_bin ys b)) = int (length (filter (\<lambda>(pc, op, fl). weight fl \<noteq> 1) ys))" for ys
  proof (induction ys)
    case (Cons s ys)
    obtain pc op fl where s: "s = (pc, op, fl)" by (cases s)
    have "(\<Sum>b\<leftarrow>tl WEIGHT_BINS. if in_bin (weight fl) b then 1 else 0) = (if weight fl \<noteq> 1 then 1 else 0 :: int)"
      using b [of fl] by (auto simp: WEIGHT_BINS_def in_bin_def)
    then show ?case using Cons by (simp add: s weight_bin_Cons sum_list_addf)
  qed (simp add: weight_bin_def WEIGHT_BINS_def)
  moreover have "fst (above_one xs) = (\<Sum>b\<leftarrow>tl WEIGHT_BINS. fst (weight_bin xs b))"
    by (simp add: above_one_def weight_histogram_def WEIGHT_BINS_def case_prod_unfold)
  ultimately show "fst (above_one xs) = int (length (filter (\<lambda>(pc, op, fl). weight fl \<noteq> 1) xs))" by simp
qed

subsection \<open>Rankings\<close>

lemma ranked_mset: "mset (ranked t) = mset t"
  by (simp add: ranked_def)

lemma weight_sum_mset: "mset t = mset u \<Longrightarrow> weight_sum t = weight_sum u"
  and sample_sum_mset: "mset t = mset u \<Longrightarrow> sample_sum t = sample_sum u"
  unfolding weight_sum_def sample_sum_def by (metis mset_map sum_mset_sum_list)+

lemma ranked_weights: "i \<le> j \<Longrightarrow> j < length (ranked t) \<Longrightarrow> fst (snd (ranked t ! j)) \<le> fst (snd (ranked t ! i))"
proof -
  assume ij: "i \<le> j" "j < length (ranked t)"
  have "sorted (map (\<lambda>(k, w, n). (- w, - n, k)) (ranked t))" by (simp add: ranked_def)
  from sorted_nth_mono [OF this ij(1)] ij show ?thesis by (auto simp: case_prod_unfold less_eq_prod_def)
qed

text \<open>
  a flat profile hides nothing.  The shown rows are the heaviest, at most \<open>n_top\<close> of them; the row for
  the rest carries exactly what is not shown, and the totals are those of the whole table.
\<close>

theorem flat_accounts:
  assumes "flat n_top t = (shown, rest, w, n)"
  shows "length shown = min n_top (length t) \<and> w = weight_sum t \<and> n = sample_sum t
    \<and> (\<exists>hidden. mset (shown @ hidden) = mset t
        \<and> (case rest of None \<Rightarrow> hidden = []
           | Some (rw, rn, k) \<Rightarrow> rw = weight_sum hidden \<and> rn = sample_sum hidden \<and> k = length hidden)
        \<and> (\<forall>x\<in>set shown. \<forall>y\<in>set hidden. fst (snd y) \<le> fst (snd x)))"
proof -
  let ?r = "ranked t"
  have s: "shown = take n_top ?r" "w = weight_sum t" "n = sample_sum t"
    "rest = (if n_top < length ?r then Some (weight_sum t - weight_sum shown, sample_sum t - sample_sum shown,
       length ?r - n_top) else None)"
    using assms by (auto simp: flat_def Let_def)
  have m: "mset (shown @ drop n_top ?r) = mset t" using s(1) ranked_mset [of t] by simp
  then have sums: "weight_sum t = weight_sum shown + weight_sum (drop n_top ?r)"
    "sample_sum t = sample_sum shown + sample_sum (drop n_top ?r)"
    using weight_sum_mset [OF m] sample_sum_mset [OF m] by simp_all
  have "fst (snd y) \<le> fst (snd x)" if xy: "x \<in> set shown" "y \<in> set (drop n_top ?r)" for x y
  proof -
    obtain i where i: "i < length ?r" "i < n_top" "x = ?r ! i" using xy(1) s(1) by (auto simp: in_set_conv_nth)
    obtain j where j: "j < length ?r - n_top" "y = ?r ! (n_top + j)" using xy(2) by (auto simp: in_set_conv_nth)
    show ?thesis using ranked_weights [of i "n_top + j" t] i j by simp
  qed
  moreover have "length ?r = length t" using ranked_mset by (rule mset_eq_length)
  ultimately show ?thesis using s m sums by (intro conjI exI [of _ "drop n_top ?r"]) auto
qed

lemma flat_witness:
  "\<exists>hidden. mset (fst (flat 1 [(''a'', 1, 1), (''b'', 5, 2)]) @ hidden) = mset [(''a'', 1, 1), (''b'', 5, 2)]"
proof -
  obtain shown rest w n where f: "flat 1 [(''a'', 1, 1), (''b'', 5, 2)] = (shown, rest, w, n)"
    by (cases "flat 1 [(''a'', 1, 1), (''b'', 5, 2)]") auto
  show ?thesis using flat_accounts [OF f] f by auto
qed

subsection \<open>The wrap check\<close>

text \<open>
  a cycle counter that missed \<open>k\<close> wraps is diagnosed with exactly \<open>k\<close>.  When the span of the
  independent timer is the measured span plus \<open>k\<close> times \<open>2^32\<close>, up to an error below a tenth of a wrap, and
  the divergence is over one percent, the verdict is \<open>k\<close> missed wraps, and never any other number.
\<close>

theorem missed_wraps_counted:
  assumes "n_wall_hz r \<noteq> 0" "n_wall_ticks r \<noteq> 0" "n_cyc_span r \<noteq> 0"
    and e: "n_wall_ticks r * n_cpu_hz r div n_wall_hz r = n_cyc_span r + k * TWO32 + err"
    and k: "1 \<le> k" and err: "10 * \<bar>err\<bar> < TWO32"
    and over: "\<bar>n_cyc_span r + k * TWO32 + err\<bar> < 100 * \<bar>k * TWO32 + err\<bar>"
    and ne: "n_cyc_span r + k * TWO32 + err \<noteq> 0"
  shows "wrap_check r = Missed_wraps k"
proof -
  have n: "nearest_wraps (k * TWO32 + err) = k"
  proof -
    have "nearest_wraps (k * TWO32 + err) = (k * (2 * TWO32) + (2 * err + TWO32)) div (2 * TWO32)"
      by (simp add: nearest_wraps_def algebra_simps)
    also have "\<dots> = k + (2 * err + TWO32) div (2 * TWO32)" by (simp add: TWO32_def)
    also have "(2 * err + TWO32) div (2 * TWO32) = 0"
      using err by (intro div_pos_pos_trivial) (auto simp: TWO32_def abs_if split: if_splits)
    finally show ?thesis by simp
  qed
  have "0 < k * TWO32 + err" using k err by (auto simp: TWO32_def abs_if split: if_splits)
  then show ?thesis
    using assms(1-3) e n k err over ne by (simp add: wrap_check_def Let_def abs_minus_commute)
qed

definition demo_numbers :: ring_numbers where
  "demo_numbers = \<lparr> n_rec_count = 0, n_samples = 0, n_drops = 0, n_cyc_span = 1000, n_wall_ticks = 8589935592,
     n_wall_hz = 1, n_cpu_hz = 1, n_hz = 1, n_build = 0, n_version = 2 \<rparr>"

lemma missed_wraps_witness: "wrap_check demo_numbers = Missed_wraps 2"
  by (rule missed_wraps_counted [where err = 0]) (simp_all add: demo_numbers_def TWO32_def)

end
