(* ===== verification/Prof_Main.thy ===== *)
theory Prof_Main
  imports Prof_Verdicts Prof_Report
begin

text \<open>
  The top of \<open>src/tools/prof-symbolize.py\<close>: the choice of the probe price for each dump, the loading of
  the symbol tables and the run of the whole tool up to its exit status (\<open>main\<close>).  Files are given by their
  contents; an option is given by the value \<open>argparse\<close> leaves.
\<close>

subsection \<open>The price of a probe\<close>

datatype price_from = Given_price | Dump_price | Boot_price | No_price

text \<open>The price, where it comes from, and whether the boot line's price was declined with a warning.\<close>

definition choose_price :: "int option \<Rightarrow> stats \<Rightarrow> boot option \<Rightarrow> int \<times> price_from \<times> bool" where
  "choose_price probe_cost st boot = (case probe_cost of
     Some p \<Rightarrow> (p, Given_price, False)
   | None \<Rightarrow>
       if s_probe_cyc st \<noteq> 0 then (s_probe_cyc st, Dump_price, False)
       else (case boot of
           None \<Rightarrow> (0, No_price, False)
         | Some b \<Rightarrow>
             if b_probe_cyc b \<noteq> 0 \<and> b_version b = version_of st then (b_probe_cyc b, Boot_price, False)
             else if b_probe_cyc b \<noteq> 0 then (0, No_price, True)
             else (0, No_price, False)))"

definition price_name :: "price_from \<Rightarrow> string" where
  "price_name src = (case src of Given_price \<Rightarrow> ''--probe-cost'' | Dump_price \<Rightarrow> ''this dump's probe_cyc=''
     | Boot_price \<Rightarrow> ''boot line'' | No_price \<Rightarrow> ''unavailable'')"

record stats_report =
  sr_price :: int
  sr_from :: price_from
  sr_bracket :: "int \<times> int \<times> price_source option"
  sr_stages :: "accounting option"
  sr_sections :: section_of

definition report_dump :: "int option \<Rightarrow> boot option \<Rightarrow> stats \<Rightarrow> exn + stats_report" where
  "report_dump probe_cost boot st =
     (case choose_price probe_cost st boot of (price, src, declined) \<Rightarrow>
        (case probe_bracket boot price (price_name src) (version_of st) of (lo, hi, from) \<Rightarrow>
        bind_e (stage_buckets st (sem_of st) price) (\<lambda>stages.
        bind_e (report_stats st price lo hi) (\<lambda>sections.
        Inr \<lparr> sr_price = price, sr_from = src, sr_bracket = (lo, hi, from), sr_stages = stages,
              sr_sections = sections \<rparr>))))"

text \<open>The calibration of the boot line, when it has one.\<close>

definition report_boot :: "boot option \<Rightarrow> exn + section_of" where
  "report_boot boot = (case boot of None \<Rightarrow> Inr ([], []) | Some b \<Rightarrow>
     (case b_cal b of None \<Rightarrow> Inr ([], []) | Some c \<Rightarrow> report_calibration c))"

subsection \<open>The symbol tables\<close>

record options =
  o_kernel :: "byte list option"
  o_load_base :: int
  o_symbols :: "string list option"
  o_text_size :: "int option"
  o_user :: "byte list option"
  o_user_base :: int
  o_probe_cost :: "int option"
  o_top :: nat
  o_opcodes :: nat
  o_dump :: "int option"
  o_page_bits :: nat
  o_all_symbols :: bool

definition load_kernel :: "options \<Rightarrow> exn + symtab option" where
  "load_kernel opts = (case (o_kernel opts, o_symbols opts) of
     (Some f, Some ls) \<Rightarrow> Inl (CaptureError ''--kernel and --symbols are alternatives'')
   | (Some f, None) \<Rightarrow> bind_e (load_elf_symbols f (o_load_base opts) ''kernel'' (o_all_symbols opts)) (\<lambda>st. Inr (Some st))
   | (None, Some ls) \<Rightarrow> (case o_text_size opts of
         None \<Rightarrow> Inl (CaptureError ''--symbols needs --text-size'')
       | Some n \<Rightarrow> bind_e (load_nm_symbols ls (o_load_base opts) n ''kernel'' (o_all_symbols opts)) (\<lambda>st. Inr (Some st)))
   | (None, None) \<Rightarrow> Inr None)"

definition load_user :: "options \<Rightarrow> exn + symtab option" where
  "load_user opts = (case o_user opts of
     Some f \<Rightarrow> bind_e (load_elf_symbols f (o_user_base opts) ''user'' (o_all_symbols opts)) (\<lambda>st. Inr (Some st))
   | None \<Rightarrow> Inr None)"

subsection \<open>The run\<close>

text \<open>
  The first part runs under \<open>except CaptureError\<close>: such an error is printed and the status is 1.  Any other
  exception, and any exception of the reports, ends the tool with a traceback and no output.
\<close>

datatype 'r outcome = Done 'r | Refused string | Traceback exn

definition load_all :: "options \<Rightarrow> string list \<Rightarrow> exn + parser \<times> symtab option \<times> symtab option" where
  "load_all opts lines =
     bind_e (parse_capture lines) (\<lambda>ps. bind_e (load_kernel opts) (\<lambda>ksyms. bind_e (load_user opts) (\<lambda>usyms.
     Inr (ps, ksyms, usyms))))"

definition reports :: "options \<Rightarrow> parser \<times> symtab option \<times> symtab option \<Rightarrow> exn + stats_report list \<times> ring_report list" where
  "reports opts = (\<lambda>(ps, ksyms, usyms).
     bind_e (report_boot (boot_line ps)) (\<lambda>calibration.
     bind_e (map_e (report_dump (o_probe_cost opts) (boot_line ps)) (dumps ps)) (\<lambda>srs.
     bind_e (map_e (\<lambda>r. report_ring r ksyms usyms (o_page_bits opts) (o_top opts) (o_opcodes opts))
        (map snd (filter (\<lambda>(i, r). case o_dump opts of None \<Rightarrow> True | Some n \<Rightarrow> i = n)
           (zip [1..int (length (rings ps))] (rings ps))))) (\<lambda>rrs.
     Inr (srs, rrs)))))"

definition run_tool :: "options \<Rightarrow> string list \<Rightarrow> (stats_report list \<times> ring_report list) outcome" where
  "run_tool opts lines = (case load_all opts lines of
     Inl (CaptureError m) \<Rightarrow> Refused m
   | Inl e \<Rightarrow> Traceback e
   | Inr loaded \<Rightarrow> (case reports opts loaded of
       Inl e \<Rightarrow> Traceback e
     | Inr r \<Rightarrow> Done r))"

subsection \<open>Properties\<close>

text \<open>
  a price is never carried across wire versions.  A price that is not zero was given on the command line,
  or was measured by the dump itself, or comes from a boot line of the dump's own version; the boot line's
  price is declined exactly when it is the only one and of another version, and then nothing is priced.
\<close>

theorem price_same_version:
  "case choose_price probe_cost st boot of (price, src, declined) \<Rightarrow>
     (if src = Given_price then probe_cost = Some price
      else if src = Dump_price then price = s_probe_cyc st
      else if src = Boot_price then \<exists>b. boot = Some b \<and> b_probe_cyc b = price \<and> b_version b = version_of st
      else price = 0)
   \<and> (declined \<longleftrightarrow> probe_cost = None \<and> s_probe_cyc st = 0 \<and>
        (case boot of Some b \<Rightarrow> b_probe_cyc b \<noteq> 0 \<and> b_version b \<noteq> version_of st | None \<Rightarrow> False))"
  by (simp add: choose_price_def split: option.splits)


subsection \<open>How a run ends\<close>

text \<open>The exceptions of the image readers and of the numbers of a header.\<close>

definition reader_error :: "exn \<Rightarrow> bool" where
  "reader_error e \<longleftrightarrow> e = StructError \<or> e = IndexError \<or> e = ValueError \<or> (\<exists>m. e = CaptureError m)"

lemma reader_error_simps [simp]: "reader_error StructError" "reader_error IndexError" "reader_error ValueError"
  "reader_error (CaptureError m)"
  by (simp_all add: reader_error_def)

lemma errs_map_e: "(\<And>x. x \<in> set xs \<Longrightarrow> errs P (f x)) \<Longrightarrow> errs P (map_e f xs)"
  by (induction xs) (auto intro!: errs_bind)

lemma errs_list: "errs P (unpack_H s)" "errs P (unpack_I s)" if "P StructError"
  using that by (auto simp: unpack_H_def unpack_I_def errs_def split: list.splits)

lemma errs_readers: "errs reader_error (u16_end big f i)" "errs reader_error (u32_end big f i)"
  "errs reader_error (item xs i)" "errs reader_error (latin1_at f i)"
proof -
  show "errs reader_error (u16_end big f i)" "errs reader_error (u32_end big f i)"
    using errs_list [of reader_error] by (simp_all add: u16_end_def u32_end_def u16_def u32_def)
  show "errs reader_error (item xs i)" by (simp add: item_def Let_def)
  show "errs reader_error (latin1_at f i)"
    by (auto simp: latin1_at_def cstr_def index_nul_def Let_def intro!: errs_bind)
qed

lemma errs_load_elf: "errs reader_error (load_elf_symbols f base label keep_all)"
proof -
  have sec: "errs reader_error (elf_section_at big f b)" for big b
    unfolding elf_section_at_def by (intro errs_bind errs_readers errs_simps)
  have sym: "errs reader_error (elf_symbol_at big f strtab b)" for big strtab b
    unfolding elf_symbol_at_def by (intro errs_bind errs_if errs_readers errs_simps)
  have syms: "errs reader_error (elf_symbols_of big f secs s)" for big secs s
    unfolding elf_symbols_of_def Let_def by (intro errs_bind errs_if errs_map_e errs_readers errs_simps sym)
  have "errs reader_error (elf_sections_and_syms f)"
    unfolding elf_sections_and_syms_def Let_def
    by (intro errs_bind errs_if errs_map_e errs_readers errs_simps sec syms) simp_all
  then show ?thesis unfolding load_elf_symbols_def Let_def
    by (intro errs_bind errs_prod) (auto split: option.splits)
qed

lemma errs_load_kernel: "errs reader_error (load_kernel opts)"
  by (auto simp: load_kernel_def load_nm_symbols_def Let_def intro!: errs_bind errs_load_elf split: option.splits)

lemma errs_load_user: "errs reader_error (load_user opts)"
  by (auto simp: load_user_def intro!: errs_bind errs_load_elf split: option.splits)

text \<open>Of the reports only the numbers of a ring header can fail, and only as \<open>ValueError\<close>.\<close>

lemma errs_report_dump: "stats_ok st \<Longrightarrow> errs (\<lambda>e. e = IndexError) (report_dump probe_cost boot st)"
proof -
  assume ok: "stats_ok st"
  have "errs (\<lambda>e. e = IndexError) (stage_buckets st (sem_of st) price)" for price
    using accounting_total(2) [OF ok, of "sem_of st" price] by (auto simp: stage_buckets_def)
  then show ?thesis unfolding report_dump_def
    by (intro errs_prod errs_bind errs_report_stats [OF ok] errs_simps)
qed

lemma errs_report_boot: "boot_ok ps \<Longrightarrow> errs (\<lambda>e. e = KeyError ''armed'') (report_boot (boot_line ps))"
  using report_calibration_Inl by (auto simp: report_boot_def boot_ok_def errs_def split: option.splits)

lemma py_int16_Inl: "py_int16 s = Inl e \<Longrightarrow> e = ValueError"
  by (auto simp: py_int16_def Let_def split: if_splits list.splits prod.splits)

lemma errs_hdr_int: "map_of h k \<noteq> None \<Longrightarrow> errs (\<lambda>e. e = ValueError) (hdr_int h k)"
  using py_int_Inl by (auto simp: hdr_int_def dict_get_def errs_def split: option.splits)

lemma errs_ring_numbers:
  assumes "list_all (\<lambda>k. map_of h k \<noteq> None) HDR_REQUIRED_COMMON"
  shows "errs (\<lambda>e. e = ValueError) (ring_numbers_of h)"
proof -
  have k: "errs (\<lambda>e. e = ValueError) (hdr_int h k)" if "k \<in> set HDR_REQUIRED_COMMON" for k
    using that assms by (intro errs_hdr_int) (simp add: list_all_iff)
  have "errs (\<lambda>e. e = ValueError) (py_int16 s)" for s using py_int16_Inl by (auto simp: errs_def)
  then show ?thesis unfolding ring_numbers_of_def
    by (intro errs_bind k errs_simps) (simp_all add: HDR_REQUIRED_COMMON_def HDR_LINE1_KEYS_def HDR_LINE2_COMMON_def)
qed

lemma errs_report_ring:
  assumes "ring_complete r" shows "errs (\<lambda>e. e = ValueError) (report_ring r ksyms usyms pb a b)"
proof -
  have "list_all (\<lambda>k. map_of (r_hdr r) k \<noteq> None) HDR_REQUIRED_COMMON"
    using assms by (auto simp: ring_complete_def ring_open_def header_ok_def)
  then show ?thesis unfolding report_ring_def Let_def by (intro errs_bind errs_ring_numbers errs_simps)
qed


lemma map_e_total: "(\<And>x. x \<in> set xs \<Longrightarrow> \<exists>y. f x = Inr y) \<Longrightarrow> \<exists>ys. map_e f xs = Inr ys \<and> length ys = length xs"
  by (induction xs) fastforce+

lemma parse_capture_rings: "parse_capture lines = Inr ps \<Longrightarrow> list_all ring_complete (rings ps)"
proof -
  assume "parse_capture lines = Inr ps"
  then obtain ps1 where p: "parse_lines 1 lines new_parser = Inr ps1" "finish_capture ps1 = Inr ps"
    by (auto simp: parse_capture_def)
  then show ?thesis using parse_lines_ok [OF p(1) new_parser_ok] finish_capture_keeps [OF p(2)]
    by (simp add: parser_ok_def)
qed

lemma parse_capture_errs: "errs (\<lambda>e. refusal e \<or> e = KeyError ''marginal'') (parse_capture lines)"
proof (cases "parse_lines 1 lines new_parser")
  case (Inl e)
  then show ?thesis using errs_parse_lines [OF new_parser_ok, of 1 lines] by (simp add: parse_capture_def errs_def)
next
  case (Inr ps)
  then show ?thesis using parse_lines_ok [OF Inr new_parser_ok] finish_capture_Inl [of ps]
    by (auto simp: parse_capture_def errs_def)
qed

text \<open>The exceptions of the reports: a calibration without its spans, a name past the table, a bad number.\<close>

definition report_error :: "exn \<Rightarrow> bool" where
  "report_error e \<longleftrightarrow> e = KeyError ''armed'' \<or> e = IndexError \<or> e = ValueError"

lemma errs_weaken: "errs P m \<Longrightarrow> (\<And>e. P e \<Longrightarrow> Q e) \<Longrightarrow> errs Q m"
  by (auto simp: errs_def)

lemma reports_errs:
  assumes "list_all stats_ok (dumps ps)" "list_all ring_complete (rings ps)" "boot_ok ps"
  shows "errs report_error (reports opts (ps, ksyms, usyms))"
proof -
  have d: "errs report_error (report_dump pc (boot_line ps) st)" if "st \<in> set (dumps ps)" for pc st
    by (rule errs_weaken [OF errs_report_dump]) (use assms(1) that in \<open>auto simp: list_all_iff report_error_def\<close>)
  have r: "errs report_error (report_ring r ksyms usyms a b c)" if "r \<in> set (rings ps)" for r a b c
    by (rule errs_weaken [OF errs_report_ring]) (use assms(2) that in \<open>auto simp: list_all_iff report_error_def\<close>)
  have b: "errs report_error (report_boot (boot_line ps))"
    using errs_report_boot [OF assms(3)] by (rule errs_weaken) (simp add: report_error_def)
  show ?thesis unfolding reports_def prod.case
    by (intro errs_bind errs_map_e b d r errs_simps) (auto dest: set_zip_rightD)
qed

lemma reports_lengths:
  assumes "reports opts (ps, ksyms, usyms) = Inr (srs, rrs)"
  shows "length srs = length (dumps ps) \<and> length rrs \<le> length (rings ps)"
proof -
  let ?rs = "map snd (filter (\<lambda>(i, r). case o_dump opts of None \<Rightarrow> True | Some n \<Rightarrow> i = n)
      (zip [1..int (length (rings ps))] (rings ps)))"
  have "length srs = length (dumps ps)" "length rrs = length ?rs"
    using assms by (auto simp: reports_def dest: map_e_length)
  moreover have "length ?rs \<le> length (rings ps)"
    unfolding length_map by (rule order_trans [OF length_filter_le]) simp
  ultimately show ?thesis by simp
qed

text \<open>
  How a run of the model can end.  It delivers the figures of a report, with one section for each dump of the
  capture; or it refuses with the tool's own error; or a \<open>ValueError\<close>, \<open>KeyError\<close>, \<open>struct.error\<close> or \<open>IndexError\<close>
  escapes from the readers.  This is the model of the integers: the percentages of the printed report go
  through \<open>float\<close>, which raises on a number of some three hundred digits, \<open>int\<close> of recent Python versions refuses
  thousands of digits, and \<open>main\<close> parses two addresses and a size of the command line; none of these is here,
  so the list of exceptions is not that of the program.
\<close>

lemma run_outcome:
  "case run_tool opts lines of
     Done (srs, rrs) \<Rightarrow> (\<exists>ps. parse_capture lines = Inr ps \<and> length srs = length (dumps ps)
       \<and> length rrs \<le> length (rings ps))
   | Refused m \<Rightarrow> load_all opts lines = Inl (CaptureError m)
   | Traceback e \<Rightarrow> e \<in> {ValueError, KeyError ''marginal'', KeyError ''armed'', StructError, IndexError}"
proof (cases "load_all opts lines")
  case (Inl e)
  have "errs (\<lambda>e. reader_error e \<or> e = KeyError ''marginal'') (load_all opts lines)"
    unfolding load_all_def
  proof (intro errs_bind errs_simps)
    show "errs (\<lambda>e. reader_error e \<or> e = KeyError ''marginal'') (parse_capture lines)"
      using parse_capture_errs [of lines] by (auto simp: errs_def refusal_def)
    show "errs (\<lambda>e. reader_error e \<or> e = KeyError ''marginal'') (load_kernel opts)"
      using errs_load_kernel [of opts] by (auto simp: errs_def)
    show "errs (\<lambda>e. reader_error e \<or> e = KeyError ''marginal'') (load_user opts)"
      using errs_load_user [of opts] by (auto simp: errs_def)
  qed
  then show ?thesis using Inl by (auto simp: run_tool_def errs_def reader_error_def)
next
  case (Inr l)
  then obtain ps ksyms usyms where l: "l = (ps, ksyms, usyms)" "parse_capture lines = Inr ps"
    by (auto simp: load_all_def)
  have "errs report_error (reports opts l)"
    unfolding l(1) by (rule reports_errs [OF parse_capture_types parse_capture_rings parse_capture_boot]) (rule l(2))+
  then show ?thesis using Inr l reports_lengths [of opts ps ksyms usyms]
    by (auto simp: run_tool_def errs_def report_error_def split: sum.splits)
qed

end
