(* ===== verification/Reloc_Base.thy ===== *)
theory Reloc_Base
  imports Text_Patcher
begin

text \<open>
  What the patchers that edit relocations share: the section headers as a list of records, the
  dictionary of sections by name, the symbol table reached through a section header, and the rows of
  a \<open>.rela\<close> section.  The abstract view of an image is the list of its \<open>.rela.text\<close> entries (offset,
  symbol index, type) and the list of its symbol names; the frame lemmas say that writing the
  \<open>r_info\<close> word of one entry changes that entry of the view and nothing else.
\<close>

named_theorems frame "a read that stays off the written range is unchanged"

subsection \<open>Python lists, dictionaries and integers\<close>

definition py_nth :: "'a list \<Rightarrow> int \<Rightarrow> exn + 'a" where
  "py_nth xs i = (let j = (if i < 0 then i + int (length xs) else i) in
     if 0 \<le> j \<and> j < int (length xs) then Inr (xs ! nat j) else Inl IndexError)"

definition py_div :: "int \<Rightarrow> int \<Rightarrow> exn + int" where
  "py_div a d = (if d = 0 then Inl ZeroDivisionError else Inr (a div d))"

definition py_dict :: "('k \<times> 'v) list \<Rightarrow> ('k \<times> 'v) list" where
  "py_dict kvs = fold (\<lambda>(k, v). AList.update k v) kvs []"

lemma map_of_py_dict_fold:
  "map_of (fold (\<lambda>(k, v). AList.update k v) kvs d) x =
    (case map_of (rev kvs) x of None \<Rightarrow> map_of d x | Some v \<Rightarrow> Some v)"
  by (induction kvs arbitrary: d) (auto simp: update_conv' map_add_def split: option.splits)

lemma map_of_py_dict: "map_of (py_dict kvs) x = map_of (rev kvs) x"
  by (simp add: py_dict_def map_of_py_dict_fold split: option.splits)

text \<open>\<open>struct.pack_into(">I", buf, p, v)\<close>\<close>

definition pack_into_I :: "byte list \<Rightarrow> int \<Rightarrow> int \<Rightarrow> exn + byte list" where
  "pack_into_I buf p v = bind_e (pack_I v) (\<lambda>w.
     let q = (if p < 0 then p + int (length buf) else p) in
     if 0 \<le> q \<and> q + 4 \<le> int (length buf) then Inr (overwrite (nat q) w buf) else Inl StructError)"

subsection \<open>Section headers\<close>

record shdr =
  s_name :: int
  s_offset :: int
  s_size :: int
  s_link :: int
  s_entsize :: int

definition shdr_at :: "byte list \<Rightarrow> int \<Rightarrow> exn + shdr" where
  "shdr_at b o' =
     bind_e (u32 b o') (\<lambda>nm. bind_e (u32 b (o' + 16)) (\<lambda>off. bind_e (u32 b (o' + 20)) (\<lambda>size.
     bind_e (u32 b (o' + 24)) (\<lambda>link. bind_e (u32 b (o' + 36)) (\<lambda>ent.
     Inr \<lparr>s_name = nm, s_offset = off, s_size = size, s_link = link, s_entsize = ent\<rparr>)))))"

text \<open>\<open>(sh, shstr)\<close>: the section headers and the file offset of the section names.\<close>

definition section_table :: "byte list \<Rightarrow> exn + shdr list \<times> int" where
  "section_table b =
     bind_e (u32 b 32) (\<lambda>shoff. bind_e (u16 b 46) (\<lambda>ent. bind_e (u16 b 48) (\<lambda>n. bind_e (u16 b 50) (\<lambda>st.
     bind_e (map_e (\<lambda>i. shdr_at b (shoff + i * ent)) (py_range n)) (\<lambda>sh.
     bind_e (py_nth sh st) (\<lambda>s. Inr (sh, s_offset s)))))))"

definition utf8_at :: "byte list \<Rightarrow> int \<Rightarrow> exn + string" where
  "utf8_at b i = bind_e (cstr b i) decode_utf8"

definition sec_name :: "byte list \<Rightarrow> int \<Rightarrow> shdr \<Rightarrow> exn + string" where
  "sec_name b shstr s = utf8_at b (shstr + s_name s)"

definition sec_dict :: "byte list \<Rightarrow> int \<Rightarrow> shdr list \<Rightarrow> exn + (string \<times> shdr) list" where
  "sec_dict b shstr sh =
     bind_e (map_e (\<lambda>s. bind_e (sec_name b shstr s) (\<lambda>n. Inr (n, s))) sh) (\<lambda>kvs. Inr (py_dict kvs))"

subsection \<open>Symbols\<close>

text \<open>A symbol table is its section header and that of its strings.\<close>

record symtables =
  y_sym :: shdr
  y_str :: shdr

definition symname :: "byte list \<Rightarrow> symtables \<Rightarrow> int \<Rightarrow> exn + string" where
  "symname b t i = bind_e (u32 b (s_offset (y_sym t) + i * s_entsize (y_sym t)))
     (\<lambda>n. utf8_at b (s_offset (y_str t) + n))"

definition symvalue :: "byte list \<Rightarrow> symtables \<Rightarrow> int \<Rightarrow> exn + int" where
  "symvalue b t i = u32 b (s_offset (y_sym t) + i * s_entsize (y_sym t) + 4)"

definition symshndx :: "byte list \<Rightarrow> symtables \<Rightarrow> int \<Rightarrow> exn + int" where
  "symshndx b t i = u16 b (s_offset (y_sym t) + i * s_entsize (y_sym t) + 14)"

definition nsyms :: "symtables \<Rightarrow> exn + int" where
  "nsyms t = py_div (s_size (y_sym t)) (s_entsize (y_sym t))"

fun first_sym :: "byte list \<Rightarrow> symtables \<Rightarrow> string \<Rightarrow> int list \<Rightarrow> exn + int option" where
  "first_sym b t name [] = Inr None"
| "first_sym b t name (i # is) = bind_e (symname b t i) (\<lambda>s.
     if s = name then Inr (Some i) else first_sym b t name is)"

text \<open>\<open>sym_index\<close> answers \<open>None\<close>, or raises, when no symbol has the name; the callers differ.\<close>

definition sym_index :: "byte list \<Rightarrow> symtables \<Rightarrow> string \<Rightarrow> exn + int option" where
  "sym_index b t name = bind_e (nsyms t) (\<lambda>n. first_sym b t name (py_range n))"

definition sym_index_or :: "string \<Rightarrow> byte list \<Rightarrow> symtables \<Rightarrow> string \<Rightarrow> exn + int" where
  "sym_index_or msg b t name = bind_e (sym_index b t name) (\<lambda>r.
     case r of None \<Rightarrow> Inl (SystemExit msg) | Some i \<Rightarrow> Inr i)"

text \<open>The name of the section a symbol is in, \<open>(special)\<close> for an index past the sections.\<close>

definition home :: "string list \<Rightarrow> int \<Rightarrow> exn + string" where
  "home names shndx = (if shndx < int (length names) then py_nth names shndx else Inr ''(special)'')"

subsection \<open>Relocations\<close>

definition row_pos :: "shdr \<Rightarrow> int \<Rightarrow> int" where
  "row_pos rela i = s_offset rela + i * s_entsize rela"

definition rel_at :: "byte list \<Rightarrow> shdr \<Rightarrow> int \<Rightarrow> exn + int \<times> int \<times> int" where
  "rel_at b rela i = bind_e (u32 b (row_pos rela i)) (\<lambda>off. bind_e (u32 b (row_pos rela i + 4)) (\<lambda>info.
     Inr (off, info div 256, info mod 256)))"

definition nrels :: "shdr \<Rightarrow> exn + int" where
  "nrels rela = py_div (s_size rela) (s_entsize rela)"

text \<open>
  \<open>link_tables\<close> reaches the symbols through \<open>sh_link\<close> of \<open>.rela.text\<close>; \<open>name_tables\<close> looks up
  \<open>.symtab\<close> by name first.
\<close>

definition link_tables :: "byte list \<Rightarrow> exn + shdr list \<times> int \<times> shdr \<times> symtables" where
  "link_tables b = bind_e (section_table b) (\<lambda>(sh, shstr). bind_e (sec_dict b shstr sh) (\<lambda>d.
     bind_e (dict_get ''.rela.text'' d) (\<lambda>rela. bind_e (py_nth sh (s_link rela)) (\<lambda>sym.
     bind_e (py_nth sh (s_link sym)) (\<lambda>str. Inr (sh, shstr, rela, \<lparr>y_sym = sym, y_str = str\<rparr>))))))"

definition name_symtab :: "byte list \<Rightarrow> exn + shdr list \<times> int \<times> (string \<times> shdr) list \<times> symtables" where
  "name_symtab b = bind_e (section_table b) (\<lambda>(sh, shstr). bind_e (sec_dict b shstr sh) (\<lambda>d.
     bind_e (dict_get ''.symtab'' d) (\<lambda>sym. bind_e (py_nth sh (s_link sym)) (\<lambda>str.
     Inr (sh, shstr, d, \<lparr>y_sym = sym, y_str = str\<rparr>)))))"

definition name_tables :: "byte list \<Rightarrow> exn + shdr list \<times> int \<times> shdr \<times> symtables" where
  "name_tables b = bind_e (name_symtab b) (\<lambda>(sh, shstr, d, t).
     bind_e (dict_get ''.rela.text'' d) (\<lambda>rela. Inr (sh, shstr, rela, t)))"

subsection \<open>Reads that stay off a written range\<close>

lemma pack_into_I_Inr:
  "pack_into_I b p v = Inr b' \<Longrightarrow> 0 \<le> p \<Longrightarrow>
    \<exists>w. pack_I v = Inr w \<and> nat p + 4 \<le> length b \<and> b' = overwrite (nat p) w b"
  by (auto simp: pack_into_I_def Let_def split: if_splits)

lemma pack_into_I_agree:
  assumes "pack_into_I b p v = Inr b'" "0 \<le> p" "int lo \<le> p" "p + 4 \<le> int hi"
  shows "agree lo hi b b'"
  using pack_into_I_Inr [OF assms(1,2)] assms(3,4) by (auto dest!: pack_I_length intro!: agree_overwrite)

lemma u32_pack_into:
  assumes "pack_into_I b p v = Inr b'" "0 \<le> p" shows "u32 b' p = Inr v"
proof -
  obtain w where w: "pack_I v = Inr w" "nat p + 4 \<le> length b" "b' = overwrite (nat p) w b"
    using pack_into_I_Inr [OF assms] by blast
  have l: "length w = 4" using w(1) by (rule pack_I_length)
  have "slice b' p (p + int 4) = sub (nat p) 4 b'"
    using w l assms(2) by (intro slice_eq_sub) auto
  then have "slice b' p (p + 4) = w" using sub_overwrite_same [of "nat p" w b] w l by simp
  then show ?thesis using unpack_pack_I [OF w(1)] by (simp add: u32_def)
qed

lemma name_clear_utf8 [frame]:
  assumes "agree lo hi b b'" "name_clear b lo hi i" shows "utf8_at b' i = utf8_at b i"
proof -
  obtain e where "index_nul b i = Inr e" "index_nul b' i = Inr e" "slice b' i e = slice b i e"
    by (rule agree_name_clear [OF assms])
  then show ?thesis by (simp add: utf8_at_def cstr_def)
qed

lemma shdr_at_frame [frame]:
  assumes "agree lo hi b b'" "outside lo hi o' (o' + 40)" shows "shdr_at b' o' = shdr_at b o'"
proof -
  have "u32 b' (o' + k) = u32 b (o' + k)" if "0 \<le> k" "k \<le> 36" for k
    using assms(2) that by (auto simp: outside_def intro!: agree_u32 [OF assms(1)])
  from this [of 0] this [of 16] this [of 20] this [of 24] this [of 36] show ?thesis
    by (simp add: shdr_at_def)
qed

lemma map_e_cong_all: "(\<And>x. x \<in> set xs \<Longrightarrow> f x = g x) \<Longrightarrow> map_e f xs = map_e g xs"
  by (rule map_e_cong) simp_all

lemma section_table_frame [frame]:
  assumes "agree lo hi b b'" "hdr_clear b lo hi" shows "section_table b' = section_table b"
proof (rule hdr_clear_reads [OF assms])
  fix sh ent n st so
  assume h: "u32 b 32 = Inr sh" "u32 b' 32 = Inr sh" "u16 b 46 = Inr ent" "u16 b' 46 = Inr ent"
    "u16 b 48 = Inr n" "u16 b' 48 = Inr n" "u16 b 50 = Inr st" "u16 b' 50 = Inr st"
    and r: "\<forall>i \<in> set (py_range n). row_clear b lo hi so (sh + i * ent)"
  have "map_e (\<lambda>i. shdr_at b' (sh + i * ent)) (py_range n) = map_e (\<lambda>i. shdr_at b (sh + i * ent)) (py_range n)"
    using r by (intro map_e_cong_all shdr_at_frame [OF assms(1)]) (simp add: row_clear_def)
  then show ?thesis by (simp add: section_table_def h)
qed

lemma map_e_set: "map_e f xs = Inr ys \<Longrightarrow> y \<in> set ys \<Longrightarrow> \<exists>x \<in> set xs. f x = Inr y"
  by (induction xs arbitrary: ys) auto

lemma section_names_clear:
  assumes c: "hdr_clear b lo hi" and t: "section_table b = Inr (sh, shstr)" and s: "s \<in> set sh"
  shows "name_clear b lo hi (shstr + s_name s)"
proof (rule hdr_clear_reads [OF agree_refl c])
  fix sho ent n st so
  assume h: "u32 b 32 = Inr sho" "u16 b 46 = Inr ent" "u16 b 48 = Inr n" "u16 b 50 = Inr st"
    "u32 b (sho + st * ent + 16) = Inr so"
    and r: "\<forall>i \<in> set (py_range n). row_clear b lo hi so (sho + i * ent)"
  have m: "map_e (\<lambda>i. shdr_at b (sho + i * ent)) (py_range n) = Inr sh" and
    p: "\<exists>x. py_nth sh st = Inr x \<and> shstr = s_offset x"
    using t h by (auto simp: section_table_def)
  obtain i where i: "i \<in> set (py_range n)" "shdr_at b (sho + i * ent) = Inr s"
    using map_e_set [OF m s] by blast
  then have nm: "u32 b (sho + i * ent) = Inr (s_name s)" by (auto simp: shdr_at_def)
  have "0 \<le> st" using h(4) u16_bounds by blast
  then obtain x where x: "st < int (length sh)" "x = sh ! nat st" "shstr = s_offset x"
    using p by (auto simp: py_nth_def Let_def split: if_splits)
  have "length sh = length (py_range n)" by (rule map_e_length [OF m])
  then have "nat st < length (py_range n)" using x \<open>0 \<le> st\<close> by linarith
  moreover from this have "py_range n ! nat st = st" using \<open>0 \<le> st\<close> by (simp add: py_range_def)
  ultimately have "shdr_at b (sho + st * ent) = Inr x" using map_e_nth [OF m, of "nat st"] x(2) by simp
  then have "shstr = so" using h(5) x(3) by (auto simp: shdr_at_def)
  then show ?thesis using r i nm by (auto simp: row_clear_def split: sum.splits)
qed

lemma sec_name_frame [frame]:
  assumes "agree lo hi b b'" "hdr_clear b lo hi" "section_table b = Inr (sh, shstr)" "s \<in> set sh"
  shows "sec_name b' shstr s = sec_name b shstr s"
  using name_clear_utf8 [OF assms(1) section_names_clear [OF assms(2-4)]] by (simp add: sec_name_def)

lemma sec_dict_frame [frame]:
  assumes "agree lo hi b b'" "hdr_clear b lo hi" "section_table b = Inr (sh, shstr)"
  shows "sec_dict b' shstr sh = sec_dict b shstr sh"
proof -
  have "map_e (\<lambda>s. bind_e (sec_name b' shstr s) (\<lambda>n. Inr (n, s))) sh =
    map_e (\<lambda>s. bind_e (sec_name b shstr s) (\<lambda>n. Inr (n, s))) sh"
    using sec_name_frame [OF assms] by (intro map_e_cong_all) simp
  then show ?thesis by (simp add: sec_dict_def)
qed

lemma link_tables_frame [frame]:
  assumes "agree lo hi b b'" "hdr_clear b lo hi" shows "link_tables b' = link_tables b"
proof (cases "section_table b")
  case (Inr r)
  obtain sh shstr where "r = (sh, shstr)" by (cases r)
  then show ?thesis using sec_dict_frame [OF assms] section_table_frame [OF assms] Inr
    by (simp add: link_tables_def)
qed (simp add: link_tables_def section_table_frame [OF assms])

lemma name_symtab_frame [frame]:
  assumes "agree lo hi b b'" "hdr_clear b lo hi" shows "name_symtab b' = name_symtab b"
proof (cases "section_table b")
  case (Inr r)
  obtain sh shstr where "r = (sh, shstr)" by (cases r)
  then show ?thesis using sec_dict_frame [OF assms] section_table_frame [OF assms] Inr
    by (simp add: name_symtab_def)
qed (simp add: name_symtab_def section_table_frame [OF assms])

lemma name_tables_frame [frame]:
  assumes "agree lo hi b b'" "hdr_clear b lo hi" shows "name_tables b' = name_tables b"
  by (simp add: name_tables_def name_symtab_frame [OF assms])

subsection \<open>The abstract view of an image\<close>

text \<open>
  \<open>syms_clear b lo hi t n\<close>: the first \<open>n\<close> rows of the symbol table are readable, with their names, and
  lie outside \<open>[lo, hi)\<close>.
\<close>

definition sym_row :: "symtables \<Rightarrow> int \<Rightarrow> int" where
  "sym_row t i = s_offset (y_sym t) + i * s_entsize (y_sym t)"

definition syms_clear :: "byte list \<Rightarrow> nat \<Rightarrow> nat \<Rightarrow> symtables \<Rightarrow> int \<Rightarrow> bool" where
  "syms_clear b lo hi t n \<longleftrightarrow> (\<forall>i \<in> set (py_range n). outside lo hi (sym_row t i) (sym_row t i + 16)
     \<and> sym_row t i + 16 \<le> int (length b)
     \<and> (case u32 b (sym_row t i) of Inl _ \<Rightarrow> False
        | Inr nm \<Rightarrow> name_clear b lo hi (s_offset (y_str t) + nm))
     \<and> \<not> isl (symname b t i))"

lemma syms_clear_row:
  assumes "syms_clear b lo hi t n" "0 \<le> i" "i < n"
  obtains nm where "outside lo hi (sym_row t i) (sym_row t i + 16)" "u32 b (sym_row t i) = Inr nm"
    "name_clear b lo hi (s_offset (y_str t) + nm)" "\<not> isl (symname b t i)" "sym_row t i + 16 \<le> int (length b)"
proof -
  have "i \<in> set (py_range n)" using assms(2,3) by (simp add: py_range_def)
  with assms(1) have r: "outside lo hi (sym_row t i) (sym_row t i + 16)" "sym_row t i + 16 \<le> int (length b)"
    "case u32 b (sym_row t i) of Inl _ \<Rightarrow> False | Inr nm \<Rightarrow> name_clear b lo hi (s_offset (y_str t) + nm)"
    "\<not> isl (symname b t i)" unfolding syms_clear_def by blast+
  from r(3) obtain nm where "u32 b (sym_row t i) = Inr nm" "name_clear b lo hi (s_offset (y_str t) + nm)"
    by (cases "u32 b (sym_row t i)") auto
  then show thesis using r that by blast
qed

lemma symname_frame [frame]:
  assumes a: "agree lo hi b b'" and c: "syms_clear b lo hi t n" "0 \<le> i" "i < n"
  shows "symname b' t i = symname b t i"
proof -
  obtain nm where r: "outside lo hi (sym_row t i) (sym_row t i + 16)" "u32 b (sym_row t i) = Inr nm"
    "name_clear b lo hi (s_offset (y_str t) + nm)"
    by (rule syms_clear_row [OF c])
  have "u32 b' (sym_row t i) = u32 b (sym_row t i)"
    using r(1) by (auto simp: outside_def intro!: agree_u32 [OF a])
  then show ?thesis using r(2) name_clear_utf8 [OF a r(3)] by (simp add: symname_def sym_row_def)
qed

lemma symvalue_frame [frame]:
  assumes a: "agree lo hi b b'" and c: "syms_clear b lo hi t n" "0 \<le> i" "i < n"
  shows "symvalue b' t i = symvalue b t i" "symshndx b' t i = symshndx b t i"
proof -
  obtain nm where r: "outside lo hi (sym_row t i) (sym_row t i + 16)" by (rule syms_clear_row [OF c])
  show "symvalue b' t i = symvalue b t i" unfolding symvalue_def sym_row_def [symmetric]
    using r by (auto simp: outside_def intro!: agree_u32 [OF a])
  show "symshndx b' t i = symshndx b t i" unfolding symshndx_def sym_row_def [symmetric]
    using r by (auto simp: outside_def intro!: agree_u16 [OF a])
qed

lemma u32_frame_ok: "agree lo hi b b' \<Longrightarrow> outside lo hi i (i + 4) \<Longrightarrow> u32 b' i = u32 b i"
  by (auto simp: outside_def intro!: agree_u32)

lemma syms_clear_frame [frame]:
  assumes a: "agree lo hi b b'" and c: "syms_clear b lo hi t n"
  shows "syms_clear b' lo hi t n"
  unfolding syms_clear_def
proof
  fix i assume "i \<in> set (py_range n)"
  then have i: "0 \<le> i" "i < n" by (simp_all add: py_range_def)
  obtain nm where r: "outside lo hi (sym_row t i) (sym_row t i + 16)" "u32 b (sym_row t i) = Inr nm"
    "name_clear b lo hi (s_offset (y_str t) + nm)" "\<not> isl (symname b t i)" "sym_row t i + 16 \<le> int (length b)"
    by (rule syms_clear_row [OF c i])
  have "u32 b' (sym_row t i) = Inr nm"
    using r(1,2) u32_frame_ok [OF a, of "sym_row t i"] by (auto simp: outside_def)
  then show "outside lo hi (sym_row t i) (sym_row t i + 16) \<and> sym_row t i + 16 \<le> int (length b') \<and>
    (case u32 b' (sym_row t i) of Inl _ \<Rightarrow> False | Inr nm \<Rightarrow> name_clear b' lo hi (s_offset (y_str t) + nm)) \<and>
    \<not> isl (symname b' t i)"
    using r name_clear_frame [OF a] symname_frame [OF a c i] agree_length [OF a] by simp
qed

type_synonym rel = "int \<times> int \<times> int"

text \<open>
  The entries of \<open>.rela.text\<close>, the names of the symbols, and for each symbol its value, the
  index of its section and the name of that section.
\<close>

definition rels_of :: "byte list \<Rightarrow> shdr \<Rightarrow> exn + rel list" where
  "rels_of b rela = bind_e (nrels rela) (\<lambda>n. map_e (rel_at b rela) (py_range n))"

definition names_of :: "byte list \<Rightarrow> symtables \<Rightarrow> exn + string list" where
  "names_of b t = bind_e (nsyms t) (\<lambda>n. map_e (symname b t) (py_range n))"

type_synonym place = "int \<times> int \<times> string"

definition place_of :: "byte list \<Rightarrow> symtables \<Rightarrow> string list \<Rightarrow> int \<Rightarrow> exn + place" where
  "place_of b t secs i = bind_e (symvalue b t i) (\<lambda>v. bind_e (symshndx b t i) (\<lambda>k.
     bind_e (home secs k) (\<lambda>h. Inr (v, k, h))))"

definition homes_of :: "byte list \<Rightarrow> shdr list \<Rightarrow> int \<Rightarrow> symtables \<Rightarrow> exn + place list" where
  "homes_of b sh shstr t = bind_e (map_e (sec_name b shstr) sh) (\<lambda>secs. bind_e (nsyms t) (\<lambda>n.
     map_e (place_of b t secs) (py_range n)))"

type_synonym rview = "rel list \<times> string list \<times> place list"

definition rel_view :: "byte list \<Rightarrow> exn + rview" where
  "rel_view b = bind_e (link_tables b) (\<lambda>(sh, shstr, rela, t). bind_e (rels_of b rela) (\<lambda>rels.
     bind_e (names_of b t) (\<lambda>names. bind_e (homes_of b sh shstr t) (\<lambda>homes. Inr (rels, names, homes)))))"

text \<open>
  A well-formed relocatable image: entries of the ELF sizes, relocations inside the file and apart from
  the headers, the symbols and all names, both ways to the symbol table leading to the same one, at most
  \<open>2^24\<close> symbols (the width of the index in \<open>r_info\<close>), and every relocation naming one of them.
\<close>

definition wf_tables :: "byte list \<Rightarrow> shdr \<Rightarrow> symtables \<Rightarrow> bool" where
  "wf_tables b rela t \<longleftrightarrow> s_entsize rela = 12 \<and> s_entsize (y_sym t) = 16 \<and> 0 \<le> s_offset rela \<and> 0 \<le> s_size rela
     \<and> s_offset rela + s_size rela \<le> int (length b)
     \<and> hdr_clear b (nat (s_offset rela)) (nat (s_offset rela + s_size rela))
     \<and> syms_clear b (nat (s_offset rela)) (nat (s_offset rela + s_size rela)) t (s_size (y_sym t) div 16)
     \<and> 0 \<le> s_size (y_sym t) \<and> s_size (y_sym t) div 16 \<le> 16777216
     \<and> (case rels_of b rela of Inl _ \<Rightarrow> False
        | Inr rels \<Rightarrow> list_all (\<lambda>(off, s, ty). 0 \<le> s \<and> s < s_size (y_sym t) div 16) rels)"

definition wf_rel :: "byte list \<Rightarrow> bool" where
  "wf_rel b \<longleftrightarrow> name_tables b = link_tables b \<and>
     (case link_tables b of Inl _ \<Rightarrow> False | Inr (sh, shstr, rela, t) \<Rightarrow> wf_tables b rela t)"

lemma py_range_nth: "k < nat n \<Longrightarrow> py_range n ! k = int k"
  by (simp add: py_range_def)

lemma length_py_range [simp]: "length (py_range n) = nat n"
  by (simp add: py_range_def)

lemma set_py_range [simp]: "i \<in> set (py_range n) \<longleftrightarrow> 0 \<le> i \<and> i < n"
  by (auto simp: py_range_def)

text \<open>Position of the first element that satisfies a predicate.\<close>

fun first_pos :: "('a \<Rightarrow> bool) \<Rightarrow> 'a list \<Rightarrow> nat option" where
  "first_pos P [] = None"
| "first_pos P (x # xs) = (if P x then Some 0 else map_option Suc (first_pos P xs))"

lemma first_pos_Some: "first_pos P xs = Some k \<Longrightarrow> k < length xs \<and> P (xs ! k)"
  by (induction xs arbitrary: k) (auto split: if_splits)

lemma first_pos_before: "first_pos P xs = Some k \<Longrightarrow> j < k \<Longrightarrow> \<not> P (xs ! j)"
  by (induction xs arbitrary: k j) (auto simp: nth_Cons split: if_splits nat.splits)

lemma first_pos_None: "first_pos P xs = None \<longleftrightarrow> (\<forall>x \<in> set xs. \<not> P x)"
  by (induction xs) auto

lemma first_sym_names:
  "map_e (symname b t) is = Inr names \<Longrightarrow>
   first_sym b t name is = Inr (map_option (\<lambda>k. is ! k) (first_pos (\<lambda>s. s = name) names))"
proof (induction "is" arbitrary: names)
  case (Cons i "is")
  then obtain s ss where s: "symname b t i = Inr s" "map_e (symname b t) is = Inr ss" "names = s # ss"
    by auto
  then show ?case using Cons.IH [OF s(2)] by (simp add: option.map_comp comp_def)
qed simp

lemma sym_index_names:
  assumes "names_of b t = Inr names"
  shows "sym_index b t name = Inr (map_option int (first_pos (\<lambda>s. s = name) names))"
proof -
  obtain n where n: "nsyms t = Inr n" "map_e (symname b t) (py_range n) = Inr names"
    using assms by (auto simp: names_of_def)
  have l: "length names = nat n" using map_e_length [OF n(2)] by simp
  have "map_option (\<lambda>k. py_range n ! k) (first_pos (\<lambda>s. s = name) names) =
      map_option int (first_pos (\<lambda>s. s = name) names)"
    by (rule option.map_cong0) (auto simp: py_range_nth l dest!: first_pos_Some)
  then show ?thesis using n first_sym_names [OF n(2)] by (simp add: sym_index_def)
qed

lemma symname_names:
  assumes "names_of b t = Inr names" "0 \<le> i" "i < int (length names)"
  shows "symname b t i = Inr (names ! nat i)"
proof -
  obtain n where n: "nsyms t = Inr n" "map_e (symname b t) (py_range n) = Inr names"
    using assms by (auto simp: names_of_def)
  have "length names = nat n" using map_e_length [OF n(2)] by simp
  then show ?thesis using map_e_nth [OF n(2), of "nat i"] assms
    by (auto simp: py_range_nth split: if_splits)
qed

lemma map_e_Inr_iff:
  "map_e f xs = Inr ys \<longleftrightarrow> length ys = length xs \<and> (\<forall>i < length xs. f (xs ! i) = Inr (ys ! i))"
proof
  assume "map_e f xs = Inr ys"
  then show "length ys = length xs \<and> (\<forall>i < length xs. f (xs ! i) = Inr (ys ! i))"
    using map_e_length map_e_nth by blast
next
  show "length ys = length xs \<and> (\<forall>i < length xs. f (xs ! i) = Inr (ys ! i)) \<Longrightarrow> map_e f xs = Inr ys"
  proof (induction xs arbitrary: ys)
    case (Cons x xs)
    then obtain y ys' where y: "ys = y # ys'" by (cases ys) auto
    have "f x = Inr y" using Cons.prems by (auto simp: y)
    moreover have "map_e f xs = Inr ys'" using Cons.prems by (intro Cons.IH) (auto simp: y)
    ultimately show ?case by (simp add: y)
  qed simp
qed

lemma map_e_not_isl: "\<forall>x \<in> set xs. \<not> isl (f x) \<Longrightarrow> \<exists>ys. map_e f xs = Inr ys"
proof (induction xs)
  case (Cons x xs)
  then show ?case by (cases "f x") auto
qed simp

lemma u32_total: "0 \<le> i \<Longrightarrow> i + 4 \<le> int (length b) \<Longrightarrow> \<exists>u. u32 b i = Inr u"
proof -
  assume "0 \<le> i" "i + 4 \<le> int (length b)"
  then have "length (slice b i (i + int 4)) = 4" by (subst slice_eq_sub) (auto intro!: length_sub)
  then obtain p q r s where "slice b i (i + 4) = [p, q, r, s]"
    by (auto simp: length_Suc_conv eval_nat_numeral)
  then show ?thesis by (simp add: u32_def unpack_I_def)
qed

lemma u16_total: "0 \<le> i \<Longrightarrow> i + 2 \<le> int (length b) \<Longrightarrow> \<not> isl (u16 b i)"
proof -
  assume "0 \<le> i" "i + 2 \<le> int (length b)"
  then have "length (slice b i (i + int 2)) = 2" by (subst slice_eq_sub) (auto intro!: length_sub)
  then obtain x y where "slice b i (i + 2) = [x, y]" by (auto simp: length_Suc_conv numeral_2_eq_2)
  then show ?thesis by (simp add: u16_def unpack_H_def)
qed

lemma home_total: "0 \<le> k \<Longrightarrow> \<not> isl (home secs k)"
  by (simp add: home_def py_nth_def)

lemma homes_total:
  assumes c: "syms_clear b lo hi t n" "nsyms t = Inr n" and d: "sec_dict b shstr sh = Inr dct"
  shows "\<exists>homes. homes_of b sh shstr t = Inr homes"
proof -
  have one: "\<not> isl (sec_name b shstr s)" if s: "s \<in> set sh" for s
  proof -
    obtain kvs where "map_e (\<lambda>s. bind_e (sec_name b shstr s) (\<lambda>n. Inr (n, s))) sh = Inr kvs"
      using d by (auto simp: sec_dict_def)
    moreover obtain k where "k < length sh" "s = sh ! k" using s by (auto simp: in_set_conv_nth)
    ultimately have "bind_e (sec_name b shstr s) (\<lambda>n. Inr (n, s)) = Inr (kvs ! k)"
      by (simp add: map_e_Inr_iff)
    then show ?thesis by (cases "sec_name b shstr s") auto
  qed
  then obtain secs where secs: "map_e (sec_name b shstr) sh = Inr secs" using map_e_not_isl [of sh "sec_name b shstr"] one by auto
  have "\<not> isl (place_of b t secs i)" if "i \<in> set (py_range n)" for i
  proof -
    have r: "sym_row t i + 16 \<le> int (length b)" "outside lo hi (sym_row t i) (sym_row t i + 16)"
      using that c(1) by (auto simp: syms_clear_def)
    then have "\<not> isl (u16 b (sym_row t i + 14))" by (intro u16_total) (auto simp: outside_def)
    then obtain k where k: "symshndx b t i = Inr k"
      by (cases "symshndx b t i") (auto simp: symshndx_def sym_row_def)
    obtain v where v: "symvalue b t i = Inr v"
      using r u32_total [of "sym_row t i + 4" b] by (auto simp: symvalue_def sym_row_def outside_def)
    have "0 \<le> k" using k u16_bounds by (auto simp: symshndx_def)
    from home_total [OF this, of secs] k v show ?thesis by (cases "home secs k") (simp_all add: place_of_def)
  qed
  then show ?thesis using map_e_not_isl [of "py_range n" "place_of b t secs"] secs c(2)
    by (auto simp: homes_of_def)
qed

lemma homes_frame:
  assumes a: "agree lo hi b b'" and h: "hdr_clear b lo hi" "section_table b = Inr (sh, shstr)"
    and c: "syms_clear b lo hi t n" "nsyms t = Inr n"
  shows "homes_of b' sh shstr t = homes_of b sh shstr t"
proof -
  have s: "map_e (sec_name b' shstr) sh = map_e (sec_name b shstr) sh"
    by (intro map_e_cong_all sec_name_frame [OF a h])
  have "map_e (place_of b' t secs) (py_range n) = map_e (place_of b t secs) (py_range n)" for secs
    by (intro map_e_cong_all) (auto simp: place_of_def symvalue_frame [OF a c(1)])
  then show ?thesis by (simp add: homes_of_def s c(2))
qed

lemma link_tables_parts:
  "link_tables b = Inr (sh, shstr, rela, t) \<Longrightarrow>
    section_table b = Inr (sh, shstr) \<and> (\<exists>d. sec_dict b shstr sh = Inr d \<and> dict_get ''.rela.text'' d = Inr rela)"
  by (auto simp: link_tables_def)

lemma wf_relE:
  assumes "wf_rel b"
  obtains sh shstr rela t rels names homes where "link_tables b = Inr (sh, shstr, rela, t)"
    "name_tables b = Inr (sh, shstr, rela, t)" "wf_tables b rela t" "rels_of b rela = Inr rels"
    "names_of b t = Inr names" "nrels rela = Inr (int (length rels))" "nsyms t = Inr (int (length names))"
    "list_all (\<lambda>(off, s, ty). 0 \<le> s \<and> s < int (length names)) rels" "length names \<le> 16777216"
    "homes_of b sh shstr t = Inr homes" "length homes = length names" "rel_view b = Inr (rels, names, homes)"
proof -
  from assms have w: "name_tables b = link_tables b"
    "case link_tables b of Inl _ \<Rightarrow> False | Inr (sh, shstr, rela, t) \<Rightarrow> wf_tables b rela t"
    by (simp_all add: wf_rel_def)
  then obtain sh shstr rela t where l: "link_tables b = Inr (sh, shstr, rela, t)" "wf_tables b rela t"
    by (auto split: sum.splits)
  then obtain rels where r: "rels_of b rela = Inr rels"
    "list_all (\<lambda>(off, s, ty). 0 \<le> s \<and> s < s_size (y_sym t) div 16) rels"
    by (auto simp: wf_tables_def split: sum.splits)
  have e: "s_entsize rela = 12" "s_entsize (y_sym t) = 16" "0 \<le> s_size rela" "0 \<le> s_size (y_sym t)"
    "s_size (y_sym t) div 16 \<le> 16777216"
    and c: "syms_clear b (nat (s_offset rela)) (nat (s_offset rela + s_size rela)) t (s_size (y_sym t) div 16)"
    using l(2) by (simp_all add: wf_tables_def)
  have ns: "nsyms t = Inr (s_size (y_sym t) div 16)" "nrels rela = Inr (s_size rela div 12)"
    using e by (simp_all add: nsyms_def nrels_def py_div_def)
  obtain names where n: "map_e (symname b t) (py_range (s_size (y_sym t) div 16)) = Inr names"
    using map_e_not_isl [of "py_range (s_size (y_sym t) div 16)" "symname b t"] c by (auto simp: syms_clear_def)
  have ln: "int (length names) = s_size (y_sym t) div 16"
    using map_e_length [OF n] e by (simp add: pos_imp_zdiv_nonneg_iff)
  have "int (length rels) = s_size rela div 12"
    using r(1) e ns map_e_length by (fastforce simp: rels_of_def pos_imp_zdiv_nonneg_iff)
  moreover obtain homes where h: "homes_of b sh shstr t = Inr homes"
    using homes_total [OF c ns(1)] link_tables_parts [OF l(1)] by blast
  moreover have "length homes = length names"
    using h ns(1) map_e_length [OF n] by (auto simp: homes_of_def dest!: map_e_length)
  ultimately show thesis using that [OF l(1) _ l(2) r(1), of names homes] ns n r ln e w(1) l(1)
    by (simp add: names_of_def rel_view_def)
qed

lemma rels_entry:
  assumes "rels_of b rela = Inr rels" "k < length rels" "rels ! k = (off, s, ty)"
  shows "\<exists>info. u32 b (row_pos rela (int k) + 4) = Inr info \<and> s = info div 256 \<and> ty = info mod 256"
proof -
  obtain n where n: "nrels rela = Inr n" "map_e (rel_at b rela) (py_range n) = Inr rels"
    using assms(1) by (auto simp: rels_of_def)
  have l: "length rels = nat n" using map_e_length [OF n(2)] by simp
  then have "rel_at b rela (int k) = Inr (off, s, ty)"
    using map_e_nth [OF n(2), of k] assms(2,3) by (simp add: py_range_nth)
  then show ?thesis by (auto simp: rel_at_def)
qed

lemma wf_rel_entry:
  assumes w: "wf_rel b" and l: "link_tables b = Inr (sh, shstr, rela, t)"
    and v: "rels_of b rela = Inr rels" "names_of b t = Inr names"
    and k: "k < length rels" "rels ! k = (off, s, ty)"
  shows "0 \<le> s \<and> s < int (length names)"
proof (rule wf_relE [OF w])
  fix sh' shstr' rela' t' rels' names'
  assume "link_tables b = Inr (sh', shstr', rela', t')" "rels_of b rela' = Inr rels'" "names_of b t' = Inr names'"
    "list_all (\<lambda>(off, s, ty). 0 \<le> s \<and> s < int (length names')) rels'"
  then have "list_all (\<lambda>(off, s, ty). 0 \<le> s \<and> s < int (length names)) rels" using l v by simp
  then show ?thesis using k by (fastforce simp: list_all_length)
qed

lemma wf_sym_row:
  assumes w: "wf_rel b" and l: "link_tables b = Inr (sh, shstr, rela, t)" and v: "names_of b t = Inr names"
    and k: "k < length names"
  shows "0 \<le> sym_row t (int k) \<and> sym_row t (int k) + 16 \<le> int (length b)"
proof (rule wf_relE [OF w])
  fix sh' shstr' rela' t' names'
  assume "link_tables b = Inr (sh', shstr', rela', t')" "wf_tables b rela' t'" "names_of b t' = Inr names'"
    "nsyms t' = Inr (int (length names'))"
  then have "wf_tables b rela t" "nsyms t = Inr (int (length names))" using l v by simp_all
  then have "syms_clear b (nat (s_offset rela)) (nat (s_offset rela + s_size rela)) t (int (length names))"
    by (simp add: wf_tables_def nsyms_def py_div_def)
  then show ?thesis using k by (auto simp: syms_clear_def outside_def)
qed

lemma homes_nth:
  assumes w: "wf_rel b" and l: "link_tables b = Inr (sh, shstr, rela, t)"
    and v: "names_of b t = Inr names" "homes_of b sh shstr t = Inr homes"
    and secs: "map_e (sec_name b shstr) sh = Inr secs" and k: "k < length names"
  shows "place_of b t secs (int k) = Inr (homes ! k)"
proof -
  obtain n where n: "nsyms t = Inr n" "map_e (symname b t) (py_range n) = Inr names"
    using v(1) by (auto simp: names_of_def)
  have h: "map_e (place_of b t secs) (py_range n) = Inr homes"
    using v(2) secs n(1) by (simp add: homes_of_def)
  have "length names = nat n" using map_e_length [OF n(2)] by simp
  then show ?thesis using map_e_nth [OF h, of k] k by (simp add: py_range_nth)
qed

lemma row_apart:
  "s_entsize rela = 12 \<Longrightarrow> i \<noteq> k \<Longrightarrow> d \<le> 4 \<Longrightarrow> 0 \<le> d \<Longrightarrow>
   row_pos rela i + d + 4 \<le> row_pos rela k + 4 \<or> row_pos rela k + 8 \<le> row_pos rela i + d"
  by (auto simp: row_pos_def)

lemma rels_write:
  assumes b': "pack_into_I b (row_pos rela (int k) + 4) (int j * 256 + ty') = Inr b'"
    and e: "s_entsize rela = 12" "0 \<le> s_offset rela" and n: "nrels rela = Inr (int (length rels))"
    and v: "rels_of b rela = Inr rels" and k: "k < length rels" "rels ! k = (off, s, ty)"
    and ty': "0 \<le> ty'" "ty' < 256"
  shows "rels_of b' rela = Inr (rels[k := (off, int j, ty')])"
proof -
  let ?p = "row_pos rela (int k) + 4"
  have p: "0 \<le> ?p" using e by (simp add: row_pos_def)
  have ag: "agree (nat ?p) (nat ?p + 4) b b'" using p by (intro pack_into_I_agree [OF b']) auto
  have read: "u32 b' (row_pos rela i + d) = u32 b (row_pos rela i + d)"
    if "0 \<le> i" "0 \<le> d" "d \<le> 4" "i \<noteq> int k \<or> d = 0" for i d
  proof -
    have "row_pos rela i + d + 4 \<le> ?p \<or> ?p + 4 \<le> row_pos rela i + d"
      using row_apart [OF e(1), of i "int k" d] that by (cases "i = int k") auto
    then show ?thesis using that e p by (intro agree_u32 [OF ag]) (auto simp: row_pos_def)
  qed
  have info: "u32 b' ?p = Inr (int j * 256 + ty')" by (rule u32_pack_into [OF b' p])
  have rows: "map_e (rel_at b rela) (py_range (int (length rels))) = Inr rels"
    using v n by (simp add: rels_of_def)
  have "rel_at b' rela (int i) = Inr (rels[k := (off, int j, ty')] ! i)" if i: "i < length rels" for i
  proof -
    have ri: "rel_at b rela (int i) = Inr (rels ! i)"
      using map_e_nth [OF rows, of i] i by (simp add: py_range_nth)
    show ?thesis
    proof (cases "i = k")
      case True
      then have "u32 b (row_pos rela (int k)) = Inr off" using ri k by (auto simp: rel_at_def)
      then show ?thesis using True read [of "int k" 0] info ty' i by (simp add: rel_at_def)
    next
      case False
      then show ?thesis using ri read [of "int i" 0] read [of "int i" 4] by (simp add: rel_at_def)
    qed
  qed
  then show ?thesis using n by (simp add: rels_of_def map_e_Inr_iff py_range_nth)
qed

text \<open>
  Writing the \<open>r_info\<close> word of the entry at position \<open>k\<close> changes that entry of the view and nothing
  else: the sections, the symbols and their names, and every other entry are as before.
\<close>

lemma retarget:
  assumes w: "wf_rel b" and l: "link_tables b = Inr (sh, shstr, rela, t)"
    and v: "rels_of b rela = Inr rels" "names_of b t = Inr names" "homes_of b sh shstr t = Inr homes"
    and k: "k < length rels" "rels ! k = (off, s, ty)" and j: "j < length names" and ty': "0 \<le> ty'" "ty' < 256"
  shows "\<exists>b'. pack_into_I b (row_pos rela (int k) + 4) (int j * 256 + ty') = Inr b'
    \<and> agree (nat (s_offset rela)) (nat (s_offset rela + s_size rela)) b b'
    \<and> wf_rel b' \<and> link_tables b' = Inr (sh, shstr, rela, t)
    \<and> rels_of b' rela = Inr (rels[k := (off, int j, ty')]) \<and> names_of b' t = Inr names
    \<and> homes_of b' sh shstr t = Inr homes"
proof -
  let ?lo = "nat (s_offset rela)" and ?hi = "nat (s_offset rela + s_size rela)"
  let ?p = "row_pos rela (int k) + 4" and ?v = "int j * 256 + ty'"
  from w obtain sh' shstr' rela' t' rels' names' where f: "link_tables b = Inr (sh', shstr', rela', t')"
    "wf_tables b rela' t'" "rels_of b rela' = Inr rels'" "names_of b t' = Inr names'"
    "nrels rela' = Inr (int (length rels'))" "nsyms t' = Inr (int (length names'))"
    "list_all (\<lambda>(off, s, ty). 0 \<le> s \<and> s < int (length names')) rels'" "length names' \<le> 16777216"
    "name_tables b = link_tables b"
    by (auto elim: wf_relE)
  then have same: "rela' = rela" "t' = t" "rels' = rels" "names' = names" using l v by auto
  note f = f [unfolded same]
  have e: "s_entsize rela = 12" "0 \<le> s_offset rela" "0 \<le> s_size rela" "s_entsize (y_sym t) = 16"
    "s_offset rela + s_size rela \<le> int (length b)" "hdr_clear b ?lo ?hi"
    "syms_clear b ?lo ?hi t (s_size (y_sym t) div 16)"
    using f(2) by (simp_all add: wf_tables_def)
  have n: "int (length rels) = s_size rela div 12" "int (length names) = s_size (y_sym t) div 16"
    using f(5,6) e by (simp_all add: nrels_def nsyms_def py_div_def)
  have "int (length rels) * 12 \<le> s_size rela" unfolding n by simp
  then have p: "s_offset rela \<le> ?p" "?p + 4 \<le> s_offset rela + s_size rela"
    using k(1) e by (auto simp: row_pos_def)
  have "int j * 256 + ty' < 4294967296" using j f(8) ty' by simp
  then obtain wd where wd: "pack_I ?v = Inr wd" using ty' by (simp add: pack_I_def)
  then obtain b' where b': "pack_into_I b ?p ?v = Inr b'"
    using p e by (simp add: pack_into_I_def)
  have a: "agree ?lo ?hi b b'" using p e by (intro pack_into_I_agree [OF b']) auto
  have lt: "link_tables b' = Inr (sh, shstr, rela, t)" using link_tables_frame [OF a e(6)] l by simp
  have rels': "rels_of b' rela = Inr (rels[k := (off, int j, ty')])"
    by (rule rels_write [OF b' e(1,2) f(5) v(1) k ty'])
  have "map_e (symname b' t) (py_range (int (length names))) = map_e (symname b t) (py_range (int (length names)))"
    using e(7) n(2) by (intro map_e_cong_all symname_frame [OF a]) auto
  then have names': "names_of b' t = Inr names" using v(2) f(6) by (simp add: names_of_def)
  have "nsyms t = Inr (s_size (y_sym t) div 16)" using f(6) n(2) by simp
  then have homes': "homes_of b' sh shstr t = Inr homes"
    using homes_frame [OF a e(6) _ e(7)] link_tables_parts [OF l] v(3) by simp
  have "wf_tables b' rela t"
    unfolding wf_tables_def rels'
    using f(2) f(7) j k agree_length [OF a] hdr_clear_frame [OF a e(6)] syms_clear_frame [OF a e(7)] n(2)
    by (auto simp: wf_tables_def list_all_length nth_list_update)
  then have "wf_rel b'" using lt name_tables_frame [OF a e(6)] f(9) l by (simp add: wf_rel_def)
  then show ?thesis using b' a lt rels' names' homes' by blast
qed

text \<open>The halves of a word.\<close>

lemma u32_halves:
  assumes "u32 b i = Inr w" "0 \<le> i"
  shows "u16 b i = Inr (w div 65536)" "u16 b (i + 2) = Inr (w mod 65536)"
proof -
  obtain p q r s where v: "slice b i (i + 4) = [p, q, r, s]"
    "w = uint p * 16777216 + uint q * 65536 + uint r * 256 + uint s"
    using assms(1) by (auto simp: u32_def unpack_I_def split: list.splits)
  have "length (slice b i (i + int 4)) = 4" using v(1) by simp
  then have "i + 4 \<le> int (length b)" using slice_full(1) [of b i 4] assms(2)
    by (auto simp: clip_def split: if_splits)
  then have d: "take 4 (drop (nat i) b) = [p, q, r, s]" and le: "nat i + 4 \<le> length b"
    using v(1) slice_eq_sub [of i 4 b] assms(2) by (simp_all add: sub_def)
  have "take 2 (take 4 (drop (nat i) b)) = [p, q]" "drop 2 (take 4 (drop (nat i) b)) = [r, s]"
    unfolding d by simp_all
  then have h: "sub (nat i) 2 b = [p, q]" "sub (nat (i + 2)) 2 b = [r, s]"
    using assms(2) by (simp_all add: sub_def drop_take nat_add_distrib)
  then have "slice b i (i + int 2) = [p, q]" "slice b (i + 2) (i + 2 + int 2) = [r, s]"
    using slice_eq_sub [of i 2 b] slice_eq_sub [of "i + 2" 2 b] le assms(2) by simp_all
  then have u: "u16 b i = Inr (uint p * 256 + uint q)" "u16 b (i + 2) = Inr (uint r * 256 + uint s)"
    by (simp_all add: u16_def unpack_H_def add.assoc)
  have "uint r * 256 + uint s < 65536" "0 \<le> uint r * 256 + uint s"
    using uint_byte_bounds [of r] uint_byte_bounds [of s] by simp_all
  moreover have "w = (uint p * 256 + uint q) * 65536 + (uint r * 256 + uint s)" by (simp add: v(2))
  ultimately have "w div 65536 = uint p * 256 + uint q" "w mod 65536 = uint r * 256 + uint s"
    by (simp_all only: div_mult_self3 mod_mult_self3 div_pos_pos_trivial mod_pos_pos_trivial
        zero_neq_numeral not_False_eq_True)
  then show "u16 b i = Inr (w div 65536)" "u16 b (i + 2) = Inr (w mod 65536)"
    using u by simp_all
qed

subsection \<open>The contract of a script that edits relocations\<close>

text \<open>
  \<open>spec\<close> is what the script promises on the view of a well-formed image: \<open>None\<close>, it refuses and leaves the
  file alone, or the new view and the result.
\<close>

locale reloc_run =
  fixes run :: "'r script" and spec :: "rview \<Rightarrow> (rview \<times> 'r) option"
  assumes refines: "wf_rel b \<Longrightarrow> rel_view b = Inr v \<Longrightarrow>
      (case spec v of
         None \<Rightarrow> \<exists>e. run b = (b, Inl e)
       | Some (v', w) \<Rightarrow> \<exists>b'. run b = (b', Inr w) \<and> wf_rel b' \<and> rel_view b' = Inr v' \<and> length b' = length b)"
    and fail_closed: "run b = (b', Inl e) \<Longrightarrow> b' = b"
begin

lemma step:
  assumes "wf_rel b" "rel_view b = Inr v" "spec v = Some (v', w)"
  obtains b' where "step_of run b = (b', Inr ())" "wf_rel b'" "rel_view b' = Inr v'" "length b' = length b"
  using refines [OF assms(1,2)] assms(3) that by force

lemma refuse:
  assumes "wf_rel b" "rel_view b = Inr v" "spec v = None"
  shows "\<exists>e. step_of run b = (b, Inl e)"
  using refines [OF assms(1,2)] assms(3) by force

end

text \<open>A script that reports whether it wrote, and that finds its own work when it is run again.\<close>

locale reloc_script = reloc_run run spec
  for run :: "bool script" and spec :: "rview \<Rightarrow> (rview \<times> bool) option" +
  assumes skip: "run b = (b', Inr False) \<Longrightarrow> b' = b"
    and again: "spec v = Some (v', w) \<Longrightarrow> spec v' = Some (v', False)"
begin

lemma rerun:
  assumes "wf_rel b" "run b = (b', Inr w)" shows "run b' = (b', Inr False)"
proof -
  obtain v where v: "rel_view b = Inr v" using assms(1) by (auto elim: wf_relE)
  obtain v' where s: "spec v = Some (v', w)" "wf_rel b'" "rel_view b' = Inr v'"
    using refines [OF assms(1) v] assms(2) by (auto split: option.splits)
  then obtain b'' where "run b' = (b'', Inr False)" using refines [OF s(2,3)] again [OF s(1)] by auto
  then show ?thesis using skip by metis
qed

end

end
