(* ===== verification/Reloc_Latch.thy ===== *)
theory Reloc_Latch
  imports Reloc_Base
begin

text \<open>
  The patchers that put an instrument in front of a call by changing the symbol of one relocation:
  \<open>patch_usptrap\<close>, \<open>patch_srgtrap\<close>, \<open>patch_sdtfail\<close>, \<open>patch_segmapdbg\<close> and \<open>patch_inittrap\<close>, which are one
  program with different constants, and \<open>patch_ufault\<close>, \<open>patch_kvecdisp\<close> and \<open>patch_swapadd\<close>, which
  chain a second instrument in front of the first and check more.  Each meets the contract \<open>reloc_script\<close>:
  on a well-formed image it computes a function of the abstract view.
\<close>

subsection \<open>The plain latch\<close>

definition latch_hit :: "byte list \<Rightarrow> symtables \<Rightarrow> string \<Rightarrow> string \<Rightarrow> int \<Rightarrow> exn + byte list \<times> bool" where
  "latch_hit b t old new o' =
     bind_e (u32 b (o' + 4)) (\<lambda>r_info.
     bind_e (symname b t (r_info div 256)) (\<lambda>cur.
     if cur = new then Inr (b, False)
     else if cur \<noteq> old then Inl (SystemExit ''ABORT: reloc names another symbol'')
     else bind_e (sym_index b t new) (\<lambda>r. case r of
         None \<Rightarrow> Inl (SystemExit ''ABORT: not defined'')
       | Some j \<Rightarrow> bind_e (pack_into_I b (o' + 4) (j * 256 + r_info mod 256)) (\<lambda>b'. Inr (b', True)))))"

fun latch_rows :: "byte list \<Rightarrow> shdr \<Rightarrow> symtables \<Rightarrow> int \<Rightarrow> (int \<Rightarrow> exn + byte list \<times> bool) \<Rightarrow> int list
    \<Rightarrow> exn + byte list \<times> bool" where
  "latch_rows b rela t reloc hit [] = Inl (SystemExit ''ABORT: relocation not found'')"
| "latch_rows b rela t reloc hit (i # is) = bind_e (u32 b (row_pos rela i)) (\<lambda>off.
     if off \<noteq> reloc then latch_rows b rela t reloc hit is else hit (row_pos rela i))"

text \<open>The result is whether the script wrote; a skip returns before the file is written.\<close>

definition latch_main :: "int \<Rightarrow> string \<Rightarrow> string \<Rightarrow> bool script" where
  "latch_main reloc old new b = write_back b
     (bind_e (link_tables b) (\<lambda>(sh, shstr, rela, t).
      bind_e (nrels rela) (\<lambda>n. latch_rows b rela t reloc (latch_hit b t old new) (py_range n))))"

definition usptrap_main :: "bool script" where
  "usptrap_main = latch_main 0x5A640 ''cmn_err'' ''unt_latch''"

definition srgtrap_main :: "bool script" where
  "srgtrap_main = latch_main 0x11F0 ''u_trap'' ''srg_utraps''"

definition sdtfail_main :: "bool script" where
  "sdtfail_main = latch_main 0xB64B2 ''cmn_err'' ''hat_sdtfail_count''"

definition segmapdbg_main :: "bool script" where
  "segmapdbg_main = latch_main 0xA9080 ''cmn_err'' ''smu_panic_latch''"

definition inittrap_main :: "bool script" where
  "inittrap_main = latch_main 0x46 ''main'' ''ini_main''"

subsection \<open>The chained latch\<close>

definition chain_hit :: "byte list \<Rightarrow> symtables \<Rightarrow> string \<Rightarrow> string \<Rightarrow> int \<Rightarrow> int \<Rightarrow> exn + byte list \<times> bool" where
  "chain_hit b t old new new_idx o' =
     bind_e (u32 b (o' + 4)) (\<lambda>r_info.
     if r_info mod 256 \<noteq> 1 then Inl (SystemExit ''ABORT: reloc type != R_68K_32'')
     else bind_e (symname b t (r_info div 256)) (\<lambda>cur.
     if cur = new then Inr (b, False)
     else if cur \<noteq> old then Inl (SystemExit ''ABORT: reloc names another symbol'')
     else bind_e (pack_into_I b (o' + 4) (new_idx * 256 + 1)) (\<lambda>b'. Inr (b', True))))"

text \<open>
  \<open>need\<close> is the symbol the instrument jumps to (\<open>OLD\<close>, or \<open>REAL\<close> in \<open>patch_swapadd\<close>); \<open>patch_swapadd\<close> also
  prints its value.
\<close>

definition chain_checks ::
  "byte list \<Rightarrow> symtables \<Rightarrow> string list \<Rightarrow> string \<Rightarrow> string \<Rightarrow> bool \<Rightarrow> string \<Rightarrow> exn + int" where
  "chain_checks b t names new need show_value magic =
     bind_e (sym_index_or ''ABORT: latch not defined'' b t new) (\<lambda>new_idx.
     bind_e (sym_index_or ''ABORT: the tail jump has no target'' b t need) (\<lambda>ri.
     bind_e (if show_value then bind_e (symvalue b t ri) (\<lambda>_. Inr ()) else Inr ()) (\<lambda>_.
     bind_e (sym_index_or ''ABORT: magic not defined'' b t magic) (\<lambda>mi.
     bind_e (symshndx b t mi) (\<lambda>ndx. bind_e (home names ndx) (\<lambda>sec.
     if sec \<noteq> ''.data'' then Inl (SystemExit ''ABORT: magic not in .data'') else Inr new_idx))))))"

definition chain_main :: "int \<Rightarrow> string \<Rightarrow> string \<Rightarrow> string \<Rightarrow> bool \<Rightarrow> string \<Rightarrow> bool script" where
  "chain_main reloc old new need show_value magic b = write_back b
     (bind_e (section_table b) (\<lambda>(sh, shstr). bind_e (sec_dict b shstr sh) (\<lambda>d.
      bind_e (map_e (sec_name b shstr) sh) (\<lambda>names.
      bind_e (dict_get ''.rela.text'' d) (\<lambda>rela. bind_e (py_nth sh (s_link rela)) (\<lambda>sym.
      bind_e (py_nth sh (s_link sym)) (\<lambda>str. let t = \<lparr>y_sym = sym, y_str = str\<rparr> in
      bind_e (chain_checks b t names new need show_value magic) (\<lambda>new_idx.
      bind_e (nrels rela) (\<lambda>n.
      latch_rows b rela t reloc (chain_hit b t old new new_idx) (py_range n))))))))))"

definition ufault_main :: "bool script" where
  "ufault_main = chain_main 0x5A640 ''unt_latch'' ''uft_latch'' ''unt_latch'' False ''uft_magic''"

definition kvecdisp_main :: "bool script" where
  "kvecdisp_main = chain_main 0x11F0 ''srg_utraps'' ''kvd_utraps'' ''srg_utraps'' False ''kvd_magic''"

definition swapadd_main :: "bool script" where
  "swapadd_main = chain_main 0xB409E ''swapadd'' ''swa_latch'' ''swapadd_real'' True ''swa_magic''"

subsection \<open>The abstract retarget\<close>

text \<open>
  What a script promises on the view: the first entry at the address must name the new symbol already,
  or the old one; then its symbol becomes the first symbol of the new name and nothing else changes.
  \<open>typed\<close> says whether the script insists on \<open>R_68K_32\<close>.
\<close>

definition abs_retarget :: "bool \<Rightarrow> int \<Rightarrow> string \<Rightarrow> string \<Rightarrow> rview \<Rightarrow> (rview \<times> bool) option" where
  "abs_retarget typed reloc old new v = (case v of (rels, names, homes) \<Rightarrow>
     (case first_pos (\<lambda>(off, s, ty). off = reloc) rels of
        None \<Rightarrow> None
      | Some k \<Rightarrow> (case rels ! k of (off, s, ty) \<Rightarrow>
          if typed \<and> ty \<noteq> 1 then None
          else if names ! nat s = new then Some (v, False)
          else if names ! nat s \<noteq> old then None
          else case first_pos (\<lambda>n. n = new) names of
              None \<Rightarrow> None
            | Some j \<Rightarrow> Some ((rels[k := (off, int j, ty)], names, homes), True))))"

definition abs_chain :: "int \<Rightarrow> string \<Rightarrow> string \<Rightarrow> string \<Rightarrow> string \<Rightarrow> rview \<Rightarrow> (rview \<times> bool) option" where
  "abs_chain reloc old new need magic v = (case v of (rels, names, homes) \<Rightarrow>
     (case first_pos (\<lambda>n. n = magic) names of
        None \<Rightarrow> None
      | Some m \<Rightarrow> if new \<in> set names \<and> need \<in> set names \<and> snd (snd (homes ! m)) = ''.data''
          then abs_retarget True reloc old new v else None))"

lemma first_pos_update: "first_pos P xs = Some k \<Longrightarrow> P y \<Longrightarrow> first_pos P (xs[k := y]) = Some k"
  by (induction xs arbitrary: k) (auto split: if_splits)

lemma abs_retarget_again:
  assumes "abs_retarget typed reloc old new v = Some (v', w)"
  shows "abs_retarget typed reloc old new v' = Some (v', False)"
proof -
  obtain rels names homes where v: "v = (rels, names, homes)" by (cases v)
  obtain k off s ty where k: "first_pos (\<lambda>(off, s, ty). off = reloc) rels = Some k" "rels ! k = (off, s, ty)"
    using assms by (cases "first_pos (\<lambda>(off, s, ty). off = reloc) rels"; cases "rels ! the (first_pos (\<lambda>(off, s, ty). off = reloc) rels)")
      (auto simp: abs_retarget_def v)
  have off: "k < length rels" "off = reloc" using first_pos_Some [OF k(1)] k(2) by auto
  show ?thesis
  proof (cases w)
    case False
    then show ?thesis using assms k by (auto simp: abs_retarget_def v split: if_splits option.splits)
  next
    case True
    then obtain j where j: "first_pos (\<lambda>n. n = new) names = Some j" "\<not> (typed \<and> ty \<noteq> 1)"
      "v' = (rels[k := (off, int j, ty)], names, homes)"
      using assms k by (auto simp: abs_retarget_def v split: if_splits option.splits)
    have "names ! j = new" using first_pos_Some [OF j(1)] by simp
    then show ?thesis using first_pos_update [OF k(1), of "(off, int j, ty)"] off j
      by (auto simp: abs_retarget_def True)
  qed
qed

lemma abs_retarget_names:
  "abs_retarget typed reloc old new (rels, names, homes) = Some (v', w) \<Longrightarrow> snd v' = (names, homes)"
  by (auto simp: abs_retarget_def split: if_splits option.splits prod.splits)

lemma abs_chain_again:
  assumes "abs_chain reloc old new need magic v = Some (v', w)"
  shows "abs_chain reloc old new need magic v' = Some (v', False)"
proof -
  obtain rels names homes where v: "v = (rels, names, homes)" by (cases v)
  obtain rels' rest where v': "v' = (rels', rest)" by (cases v')
  have r: "abs_retarget True reloc old new v = Some (v', w)"
    using assms by (auto simp: abs_chain_def v split: option.splits if_splits)
  then have "rest = (names, homes)" using abs_retarget_names [of True reloc old new rels names homes v' w]
    by (simp add: v v')
  then show ?thesis using assms abs_retarget_again [OF r]
    by (auto simp: abs_chain_def v v' split: option.splits if_splits)
qed

subsection \<open>The scripts meet the contract\<close>

lemma latch_rows_pos:
  "map_e (rel_at b rela) is = Inr rels \<Longrightarrow> latch_rows b rela t reloc hit is =
    (case first_pos (\<lambda>(off, s, ty). off = reloc) rels of
       None \<Rightarrow> Inl (SystemExit ''ABORT: relocation not found'')
     | Some k \<Rightarrow> hit (row_pos rela (is ! k)))"
proof (induction "is" arbitrary: rels)
  case (Cons i "is")
  then obtain off s ty rs where r: "rel_at b rela i = Inr (off, s, ty)" "map_e (rel_at b rela) is = Inr rs"
    "rels = (off, s, ty) # rs" by auto
  have "u32 b (row_pos rela i) = Inr off" using r(1) by (auto simp: rel_at_def)
  then show ?case using Cons.IH [OF r(2)] r(3) by (auto split: option.splits)
qed simp

lemma latch_rows_range:
  assumes "rels_of b rela = Inr rels" "nrels rela = Inr n"
  shows "latch_rows b rela t reloc hit (py_range n) =
    (case first_pos (\<lambda>(off, s, ty). off = reloc) rels of
       None \<Rightarrow> Inl (SystemExit ''ABORT: relocation not found'')
     | Some k \<Rightarrow> hit (row_pos rela (int k)))"
proof -
  have m: "map_e (rel_at b rela) (py_range n) = Inr rels" using assms by (simp add: rels_of_def)
  have "length rels = nat n" using map_e_length [OF m] by simp
  then show ?thesis unfolding latch_rows_pos [OF m]
    by (auto simp: py_range_nth dest!: first_pos_Some split: option.splits)
qed

text \<open>
  On a well-formed image the tail that every one of these scripts shares, changing the symbol of the
  entry at position \<open>k\<close>, succeeds and changes the view as the abstract retarget says.
\<close>

lemma latch_hit_view:
  assumes w: "wf_rel b" and l: "link_tables b = Inr (sh, shstr, rela, t)"
    and v: "rels_of b rela = Inr rels" "names_of b t = Inr names" "homes_of b sh shstr t = Inr homes"
    and k: "first_pos (\<lambda>(off, s, ty). off = reloc) rels = Some k"
  shows "case abs_retarget False reloc old new (rels, names, homes) of
      None \<Rightarrow> \<exists>e. latch_hit b t old new (row_pos rela (int k)) = Inl e
    | Some (v', w) \<Rightarrow> \<exists>b'. latch_hit b t old new (row_pos rela (int k)) = Inr (b', w)
        \<and> wf_rel b' \<and> rel_view b' = Inr v' \<and> length b' = length b \<and> (w \<or> b' = b)"
proof -
  obtain off s ty where r: "rels ! k = (off, s, ty)" "k < length rels"
    using first_pos_Some [OF k] by (cases "rels ! k") auto
  obtain info where info: "u32 b (row_pos rela (int k) + 4) = Inr info" "s = info div 256" "ty = info mod 256"
    using rels_entry [OF v(1) r(2,1)] by blast
  have s: "0 \<le> s" "s < int (length names)"
    using wf_rel_entry [OF w l v(1,2) r(2,1)] by simp_all
  note nm = symname_names [OF v(2) s, unfolded info(2)]
  have view: "rel_view b = Inr (rels, names, homes)" using l v by (simp add: rel_view_def)
  show ?thesis
  proof (cases "first_pos (\<lambda>n. n = new) names")
    case None
    then show ?thesis using k r info nm sym_index_names [OF v(2), of new] w view
      by (auto simp: latch_hit_def abs_retarget_def)
  next
    case (Some j)
    have ty: "0 \<le> ty" "ty < 256" using info(3) by simp_all
    have "j < length names" using first_pos_Some [OF Some] by simp
    from retarget [OF w l v r(2,1) this ty] obtain b' where
      b': "pack_into_I b (row_pos rela (int k) + 4) (int j * 256 + ty) = Inr b'"
      "agree (nat (s_offset rela)) (nat (s_offset rela + s_size rela)) b b'"
      "wf_rel b'" "link_tables b' = Inr (sh, shstr, rela, t)"
      "rels_of b' rela = Inr (rels[k := (off, int j, ty)])" "names_of b' t = Inr names"
      "homes_of b' sh shstr t = Inr homes" by blast
    then have "rel_view b' = Inr (rels[k := (off, int j, ty)], names, homes)" by (simp add: rel_view_def)
    then show ?thesis using b' k r info nm sym_index_names [OF v(2), of new] Some w view agree_length [OF b'(2)]
      by (auto simp: latch_hit_def abs_retarget_def)
  qed
qed

lemma latch_script: "reloc_script (latch_main reloc old new) (abs_retarget False reloc old new)"
proof unfold_locales
  fix b v assume w: "wf_rel b" and v: "rel_view b = Inr v"
  obtain sh shstr rela t rels names homes where f: "link_tables b = Inr (sh, shstr, rela, t)"
    "rels_of b rela = Inr rels" "names_of b t = Inr names" "homes_of b sh shstr t = Inr homes"
    "nrels rela = Inr (int (length rels))" "v = (rels, names, homes)"
    using w v by (auto elim!: wf_relE)
  note rows = latch_rows_range [OF f(2,5)]
  show "case abs_retarget False reloc old new v of
      None \<Rightarrow> \<exists>e. latch_main reloc old new b = (b, Inl e)
    | Some (v', w) \<Rightarrow> \<exists>b'. latch_main reloc old new b = (b', Inr w) \<and> wf_rel b' \<and> rel_view b' = Inr v' \<and> length b' = length b"
  proof (cases "first_pos (\<lambda>(off, s, ty). off = reloc) rels")
    case None
    then show ?thesis by (simp add: latch_main_def f rows abs_retarget_def)
  next
    case (Some k)
    from latch_hit_view [OF w f(1-4) Some, of old new] show ?thesis
      by (auto simp: latch_main_def f rows Some split: option.splits)
  qed
next
  show "latch_main reloc old new b = (b', Inl e) \<Longrightarrow> b' = b" for b b' e
    by (auto simp: latch_main_def write_back_def split: sum.splits)
next
  have rows: "latch_rows b rela t reloc (latch_hit b t old new) is = Inr (b', False) \<Longrightarrow> b' = b" for b b' rela t "is"
    by (induction "is") (auto simp: latch_hit_def split: if_splits option.splits)
  show "latch_main reloc old new b = (b', Inr False) \<Longrightarrow> b' = b" for b b'
    using rows by (auto simp: latch_main_def write_back_def split: sum.splits)
qed (rule abs_retarget_again)

lemma chain_hit_view:
  assumes w: "wf_rel b" and l: "link_tables b = Inr (sh, shstr, rela, t)"
    and v: "rels_of b rela = Inr rels" "names_of b t = Inr names" "homes_of b sh shstr t = Inr homes"
    and k: "first_pos (\<lambda>(off, s, ty). off = reloc) rels = Some k" and j: "first_pos (\<lambda>n. n = new) names = Some j"
  shows "case abs_retarget True reloc old new (rels, names, homes) of
      None \<Rightarrow> \<exists>e. chain_hit b t old new (int j) (row_pos rela (int k)) = Inl e
    | Some (v', w) \<Rightarrow> \<exists>b'. chain_hit b t old new (int j) (row_pos rela (int k)) = Inr (b', w)
        \<and> wf_rel b' \<and> rel_view b' = Inr v' \<and> length b' = length b \<and> (w \<or> b' = b)"
proof -
  obtain off s ty where r: "rels ! k = (off, s, ty)" "k < length rels"
    using first_pos_Some [OF k] by (cases "rels ! k") auto
  obtain info where info: "u32 b (row_pos rela (int k) + 4) = Inr info" "s = info div 256" "ty = info mod 256"
    using rels_entry [OF v(1) r(2,1)] by blast
  have s: "0 \<le> s" "s < int (length names)" using wf_rel_entry [OF w l v(1,2) r(2,1)] by simp_all
  note nm = symname_names [OF v(2) s, unfolded info(2)]
  have view: "rel_view b = Inr (rels, names, homes)" using l v by (simp add: rel_view_def)
  have "j < length names" using first_pos_Some [OF j] by simp
  from retarget [OF w l v r(2,1) this, of 1] obtain b' where
    b': "pack_into_I b (row_pos rela (int k) + 4) (int j * 256 + 1) = Inr b'"
    "agree (nat (s_offset rela)) (nat (s_offset rela + s_size rela)) b b'"
    "wf_rel b'" "link_tables b' = Inr (sh, shstr, rela, t)"
    "rels_of b' rela = Inr (rels[k := (off, int j, 1)])" "names_of b' t = Inr names"
    "homes_of b' sh shstr t = Inr homes" by auto
  then have "rel_view b' = Inr (rels[k := (off, int j, 1)], names, homes)" by (simp add: rel_view_def)
  then show ?thesis using b' k r info nm j w view agree_length [OF b'(2)]
    by (auto simp: chain_hit_def abs_retarget_def)
qed

lemma chain_checks_view:
  assumes w: "wf_rel b" and l: "link_tables b = Inr (sh, shstr, rela, t)"
    and v: "names_of b t = Inr names" "homes_of b sh shstr t = Inr homes"
    and secs: "map_e (sec_name b shstr) sh = Inr secs"
  shows "chain_checks b t secs new need show_value magic = Inr j' \<longleftrightarrow>
    (\<exists>m j. first_pos (\<lambda>n. n = magic) names = Some m \<and> first_pos (\<lambda>n. n = new) names = Some j \<and> j' = int j
       \<and> need \<in> set names \<and> snd (snd (homes ! m)) = ''.data'')" (is "?L \<longleftrightarrow> ?R")
proof -
  have idx: "sym_index_or msg b t n = (case first_pos (\<lambda>x. x = n) names of
      None \<Rightarrow> Inl (SystemExit msg) | Some k \<Rightarrow> Inr (int k))" for msg n
    using sym_index_names [OF v(1), of n] by (simp add: sym_index_or_def split: option.splits)
  have pl: "\<exists>u x h. symvalue b t (int k) = Inr u \<and> symshndx b t (int k) = Inr x \<and> home secs x = Inr h
      \<and> h = snd (snd (homes ! k))" if "k < length names" for k
    using homes_nth [OF w l v secs that] by (cases "homes ! k") (auto simp: place_of_def)
  have mem: "need \<in> set names \<longleftrightarrow> (\<exists>r. first_pos (\<lambda>x. x = need) names = Some r \<and> r < length names)"
    using first_pos_None [of "\<lambda>x. x = need" names] first_pos_Some [of "\<lambda>x. x = need" names]
    by (cases "first_pos (\<lambda>x. x = need) names") auto
  show ?thesis
  proof (cases "first_pos (\<lambda>n. n = new) names"; cases "first_pos (\<lambda>n. n = need) names"; cases "first_pos (\<lambda>n. n = magic) names")
    fix j r m assume p: "first_pos (\<lambda>n. n = new) names = Some j" "first_pos (\<lambda>n. n = need) names = Some r"
      "first_pos (\<lambda>n. n = magic) names = Some m"
    have "r < length names" "m < length names" using first_pos_Some [OF p(2)] first_pos_Some [OF p(3)] by simp_all
    then obtain u x where "symvalue b t (int r) = Inr u" "symshndx b t (int m) = Inr x"
      "home secs x = Inr (snd (snd (homes ! m)))" using pl [of r] pl [of m] by auto
    then show ?thesis using p mem \<open>r < length names\<close> by (simp add: chain_checks_def idx) auto
  qed (use mem in \<open>auto simp: chain_checks_def idx\<close>)
qed

lemma symtab_eta: "\<lparr>y_sym = y_sym t, y_str = y_str t\<rparr> = (t :: symtables)"
  by (cases t) simp

lemma chain_script:
  "reloc_script (chain_main reloc old new need show_value magic) (abs_chain reloc old new need magic)"
proof unfold_locales
  fix b v assume w: "wf_rel b" and v: "rel_view b = Inr v"
  obtain sh shstr rela t rels names homes where f: "link_tables b = Inr (sh, shstr, rela, t)"
    "rels_of b rela = Inr rels" "names_of b t = Inr names" "homes_of b sh shstr t = Inr homes"
    "nrels rela = Inr (int (length rels))" "v = (rels, names, homes)"
    using w v by (auto elim!: wf_relE)
  obtain d where d: "section_table b = Inr (sh, shstr)" "sec_dict b shstr sh = Inr d"
    "dict_get ''.rela.text'' d = Inr rela" "py_nth sh (s_link rela) = Inr (y_sym t)"
    "py_nth sh (s_link (y_sym t)) = Inr (y_str t)"
    using f(1) by (auto simp: link_tables_def)
  obtain secs where secs: "map_e (sec_name b shstr) sh = Inr secs" using f(4) by (auto simp: homes_of_def)
  let ?run = "chain_main reloc old new need show_value magic b"
  let ?checks = "chain_checks b t secs new need show_value magic"
  have run: "?run = write_back b (bind_e ?checks (\<lambda>new_idx.
      latch_rows b rela t reloc (chain_hit b t old new new_idx) (py_range (int (length rels)))))"
    by (simp add: chain_main_def d secs f(5) Let_def symtab_eta)
  note checks = chain_checks_view [OF w f(1,3,4) secs, of new need show_value magic]
  note rows = latch_rows_range [OF f(2,5)]
  show "case abs_chain reloc old new need magic v of
      None \<Rightarrow> \<exists>e. ?run = (b, Inl e)
    | Some (v', w) \<Rightarrow> \<exists>b'. ?run = (b', Inr w) \<and> wf_rel b' \<and> rel_view b' = Inr v' \<and> length b' = length b"
  proof (cases ?checks)
    case (Inl e)
    then have "abs_chain reloc old new need magic v = None"
      using checks first_pos_None [of "\<lambda>n. n = new" names]
      by (cases "first_pos (\<lambda>n. n = new) names") (auto simp: abs_chain_def f(6) split: option.splits)
    then show ?thesis using Inl by (simp add: run)
  next
    case (Inr j')
    then obtain m j where j: "first_pos (\<lambda>n. n = magic) names = Some m" "first_pos (\<lambda>n. n = new) names = Some j"
      "j' = int j" "need \<in> set names" "snd (snd (homes ! m)) = ''.data''" using checks by blast
    have "new \<in> set names" using first_pos_Some [OF j(2)] by auto
    then have "abs_chain reloc old new need magic v = abs_retarget True reloc old new v"
      using j by (simp add: abs_chain_def f(6))
    note abs = this [unfolded f(6)]
    show ?thesis
    proof (cases "first_pos (\<lambda>(off, s, ty). off = reloc) rels")
      case None
      then show ?thesis by (simp add: f(6) abs) (simp add: abs_retarget_def run Inr rows)
    next
      case (Some k)
      from chain_hit_view [OF w f(1-4) Some j(2), of old] show ?thesis
        by (auto simp: run Inr rows Some j(3) f(6) abs split: option.splits)
    qed
  qed
next
  show "chain_main reloc old new need show_value magic b = (b', Inl e) \<Longrightarrow> b' = b" for b b' e
    by (auto simp: chain_main_def write_back_def split: sum.splits)
next
  have rows: "latch_rows b rela t reloc (chain_hit b t old new j) is = Inr (b', False) \<Longrightarrow> b' = b" for b b' rela t j "is"
    by (induction "is") (auto simp: chain_hit_def split: if_splits)
  show "chain_main reloc old new need show_value magic b = (b', Inr False) \<Longrightarrow> b' = b" for b b'
    using rows by (auto simp: chain_main_def write_back_def Let_def split: sum.splits)
qed (rule abs_chain_again)

text \<open>The scripts, each against its abstract retarget.\<close>

interpretation usptrap: reloc_script usptrap_main "abs_retarget False 0x5A640 ''cmn_err'' ''unt_latch''"
  unfolding usptrap_main_def by (rule latch_script)

interpretation srgtrap: reloc_script srgtrap_main "abs_retarget False 0x11F0 ''u_trap'' ''srg_utraps''"
  unfolding srgtrap_main_def by (rule latch_script)

interpretation sdtfail: reloc_script sdtfail_main "abs_retarget False 0xB64B2 ''cmn_err'' ''hat_sdtfail_count''"
  unfolding sdtfail_main_def by (rule latch_script)

interpretation segmapdbg: reloc_script segmapdbg_main "abs_retarget False 0xA9080 ''cmn_err'' ''smu_panic_latch''"
  unfolding segmapdbg_main_def by (rule latch_script)

interpretation inittrap: reloc_script inittrap_main "abs_retarget False 0x46 ''main'' ''ini_main''"
  unfolding inittrap_main_def by (rule latch_script)

interpretation ufault: reloc_script ufault_main
  "abs_chain 0x5A640 ''unt_latch'' ''uft_latch'' ''unt_latch'' ''uft_magic''"
  unfolding ufault_main_def by (rule chain_script)

interpretation kvecdisp: reloc_script kvecdisp_main
  "abs_chain 0x11F0 ''srg_utraps'' ''kvd_utraps'' ''srg_utraps'' ''kvd_magic''"
  unfolding kvecdisp_main_def by (rule chain_script)

interpretation swapadd: reloc_script swapadd_main
  "abs_chain 0xB409E ''swapadd'' ''swa_latch'' ''swapadd_real'' ''swa_magic''"
  unfolding swapadd_main_def by (rule chain_script)

end
