(* ===== verification/Reloc_Vec.thy ===== *)
theory Reloc_Vec
  imports Reloc_Base
begin

text \<open>
  The patchers of the exception vector table \<open>M68Kvec\<close>: \<open>patch_fpsp_vec11\<close>, \<open>patch_fpsp_vectors\<close>,
  \<open>patch_isp_vec61\<close>, and the two soft-FPU arms \<open>patch_fpe_vec11\<close> and \<open>patch_fpe_vec60\<close>, which also give
  the displaced handler to the decline path of the arm.
\<close>

subsection \<open>Lookups\<close>

definition sym_value :: "byte list \<Rightarrow> symtables \<Rightarrow> string \<Rightarrow> exn + int" where
  "sym_value b t name = bind_e (sym_index_or ''ABORT: symbol not found'' b t name) (symvalue b t)"

text \<open>The file position of the first entry whose offset satisfies \<open>P\<close>.\<close>

fun find_row :: "byte list \<Rightarrow> shdr \<Rightarrow> (int \<Rightarrow> bool) \<Rightarrow> int list \<Rightarrow> exn + int option" where
  "find_row b rela P [] = Inr None"
| "find_row b rela P (i # is) = bind_e (u32 b (row_pos rela i)) (\<lambda>off.
     if P off then Inr (Some (row_pos rela i)) else find_row b rela P is)"

text \<open>What the three FPSP and ISP patchers do with one slot.\<close>

definition take_slot :: "byte list \<Rightarrow> symtables \<Rightarrow> int \<Rightarrow> int \<Rightarrow> int \<Rightarrow> exn \<Rightarrow> exn + byte list \<times> bool" where
  "take_slot b t pos rinfo new_idx e =
     (if rinfo div 256 = new_idx then Inr (b, False)
      else bind_e (symname b t (rinfo div 256)) (\<lambda>cur.
        if cur = ''nullvect'' then bind_e (pack_into_I b (pos + 4) (new_idx * 256 + 1)) (\<lambda>b'. Inr (b', True))
        else Inl e))"

subsection \<open>patch_fpsp_vec11\<close>

definition fpsp_vec11_main :: "bool script" where
  "fpsp_vec11_main b = write_back b
     (bind_e (name_symtab b) (\<lambda>(sh, shstr, byname, t). bind_e (nsyms t) (\<lambda>_.
      bind_e (sym_value b t ''M68Kvec'') (\<lambda>base.
      bind_e (dict_get ''.rela.text'' byname) (\<lambda>rela. bind_e (nrels rela) (\<lambda>rn.
      bind_e (sym_index_or ''ABORT: symbol not found'' b t ''fpsp_vec11'') (\<lambda>new_idx.
      bind_e (find_row b rela (\<lambda>off. off = base + 11 * 4) (py_range rn)) (\<lambda>hit. case hit of
        None \<Rightarrow> Inl (SystemExit ''ABORT: no .rela.text reloc at M68Kvec[11]'')
      | Some o' \<Rightarrow> bind_e (u32 b (o' + 4)) (\<lambda>rinfo.
          if rinfo mod 256 \<noteq> 1 then Inl (SystemExit ''ABORT: reloc type != R_68K_32'')
          else take_slot b t o' rinfo new_idx (SystemExit ''ABORT: M68Kvec[11] has another target''))))))))))"

subsection \<open>patch_fpsp_vectors\<close>

definition fpsp_VECTORS :: "(int \<times> string) list" where
  "fpsp_VECTORS = [(48, ''fpsp_vec48''), (49, ''fpsp_vec49''), (50, ''fpsp_vec50''), (51, ''fpsp_vec51''),
     (52, ''fpsp_vec52''), (53, ''fpsp_vec53''), (54, ''fpsp_vec54''), (55, ''fpsp_vec55''), (60, ''fpsp_vec60'')]"

text \<open>\<open>at\<close>: the entries by the offset they patch, a later one in place of an earlier.\<close>

definition rows_at :: "byte list \<Rightarrow> shdr \<Rightarrow> int \<Rightarrow> exn + (int \<times> int) list" where
  "rows_at b rela rn = bind_e (map_e (\<lambda>i. bind_e (u32 b (row_pos rela i)) (\<lambda>off. Inr (off, row_pos rela i))) (py_range rn))
     (\<lambda>kvs. Inr (py_dict kvs))"

fun vectors_loop :: "symtables \<Rightarrow> (int \<times> int) list \<Rightarrow> int \<Rightarrow> (int \<times> string) list \<Rightarrow> byte list \<times> nat
    \<Rightarrow> exn + byte list \<times> nat" where
  "vectors_loop t at base [] s = Inr s"
| "vectors_loop t at base ((vec, target) # vs) (b, done) = (case map_of at (base + vec * 4) of
     None \<Rightarrow> Inl (SystemExit ''ABORT: no .rela.text reloc'')
   | Some hit \<Rightarrow> bind_e (u32 b (hit + 4)) (\<lambda>rinfo.
       if rinfo mod 256 \<noteq> 1 then Inl (SystemExit ''ABORT: reloc type != R_68K_32'')
       else bind_e (sym_index_or ''ABORT: symbol not found'' b t target) (\<lambda>new_idx.
         bind_e (take_slot b t hit rinfo new_idx (SystemExit ''ABORT: another target'')) (\<lambda>(b', wrote).
           vectors_loop t at base vs (b', if wrote then Suc done else done)))))"

definition fpsp_vectors_main :: "nat script" where
  "fpsp_vectors_main b = write_back b
     (bind_e (name_symtab b) (\<lambda>(sh, shstr, byname, t). bind_e (nsyms t) (\<lambda>_.
      bind_e (sym_value b t ''M68Kvec'') (\<lambda>base.
      bind_e (dict_get ''.rela.text'' byname) (\<lambda>rela. bind_e (nrels rela) (\<lambda>rn.
      bind_e (rows_at b rela rn) (\<lambda>at. vectors_loop t at base fpsp_VECTORS (b, 0))))))))"

subsection \<open>patch_isp_vec61\<close>

definition isp_NEEDED :: "string list" where
  "isp_NEEDED = [''isp61_vec'', ''isp61_magic'', ''isp61_entry_n'', ''isp61_ok_n'', ''isp61_unsupported_n'',
     ''isp61_last_pc'']"

fun isp_defined :: "byte list \<Rightarrow> symtables \<Rightarrow> string list \<Rightarrow> exn + unit" where
  "isp_defined b t [] = Inr ()"
| "isp_defined b t (s # ss) = bind_e (sym_index_or ''ABORT: symbol not found'' b t s) (\<lambda>i.
     bind_e (u32 b (s_offset (y_sym t) + i * s_entsize (y_sym t) + 12)) (\<lambda>w.
     if w mod 65536 = 0 then Inl (SystemExit ''ABORT: undefined'') else isp_defined b t ss))"

definition isp_vec61_main :: "bool script" where
  "isp_vec61_main b = write_back b
     (bind_e (name_symtab b) (\<lambda>(sh, shstr, byname, t). bind_e (nsyms t) (\<lambda>_.
      bind_e (sym_value b t ''M68Kvec'') (\<lambda>base.
      bind_e (dict_get ''.rela.text'' byname) (\<lambda>rela. bind_e (nrels rela) (\<lambda>rn.
      bind_e (sym_index_or ''ABORT: symbol not found'' b t ''isp61_vec'') (\<lambda>new_idx.
      bind_e (rows_at b rela rn) (\<lambda>at. let slots = filter (\<lambda>(off, o'). off \<in> {base + 60 * 4, base + 61 * 4}) at in
      case map_of slots (base + 61 * 4) of
        None \<Rightarrow> Inl (SystemExit ''ABORT: no .rela.text reloc at M68Kvec[61]'')
      | Some hit \<Rightarrow> (case map_of slots (base + 60 * 4) of
          None \<Rightarrow> Inl (SystemExit ''ABORT: no .rela.text reloc at M68Kvec[60]'')
        | Some hit60 \<Rightarrow> bind_e (u32 b (hit60 + 4)) (\<lambda>r60. bind_e (symname b t (r60 div 256)) (\<lambda>n60.
            if n60 \<notin> {''nullvect'', ''fpsp_vec60''} then Inl (SystemExit ''ABORT: M68Kvec[60] is another symbol'')
            else bind_e (u32 b (hit + 4)) (\<lambda>rinfo.
              if rinfo mod 256 \<noteq> 1 then Inl (SystemExit ''ABORT: reloc type != R_68K_32'')
              else bind_e (take_slot b t hit rinfo new_idx (SystemExit ''ABORT: M68Kvec[61] has another target''))
                (\<lambda>(b', wrote). bind_e (isp_defined b' t isp_NEEDED) (\<lambda>_. Inr (b', wrote)))))))))))))))"

subsection \<open>patch_fpe_vec11 and patch_fpe_vec60\<close>

definition fpe_main :: "int \<Rightarrow> string \<Rightarrow> string \<Rightarrow> string list \<Rightarrow> bool script" where
  "fpe_main vector new decline allowed b = write_back b
     (bind_e (name_symtab b) (\<lambda>(sh, shstr, byname, t). bind_e (nsyms t) (\<lambda>_.
      bind_e (dict_get ''.rela.text'' byname) (\<lambda>rela. bind_e (nrels rela) (\<lambda>rn.
      bind_e (sym_value b t ''M68Kvec'') (\<lambda>base. let vec = base + vector * 4 in
      bind_e (sym_index_or ''ABORT: symbol not found'' b t new) (\<lambda>new_idx.
      bind_e (sym_value b t decline) (\<lambda>dec.
      bind_e (find_row b rela (\<lambda>off. vec \<le> off \<and> off < vec + 4) (py_range rn)) (\<lambda>vhit. case vhit of
        None \<Rightarrow> Inl (SystemExit ''ABORT: no .rela.text reloc at the vector'')
      | Some vpos \<Rightarrow> bind_e (u32 b (vpos + 4)) (\<lambda>vinfo.
          if vinfo mod 256 \<noteq> 1 then Inl (SystemExit ''ABORT: reloc type != R_68K_32'')
          else bind_e (symname b t (vinfo div 256)) (\<lambda>prev.
            if prev = new then Inr (b, False)
            else if prev \<notin> set allowed then Inl (SystemExit ''ABORT: the vector holds another symbol'')
            else bind_e (find_row b rela (\<lambda>off. dec \<le> off \<and> off < dec + 6) (py_range rn)) (\<lambda>dhit. case dhit of
              None \<Rightarrow> Inl (SystemExit ''ABORT: no .rela.text reloc inside the decline'')
            | Some dpos \<Rightarrow> bind_e (u32 b (dpos + 4)) (\<lambda>dinfo.
                if dinfo mod 256 \<noteq> 1 then Inl (SystemExit ''ABORT: reloc type != R_68K_32'')
                else bind_e (symname b t (dinfo div 256)) (\<lambda>dcur.
                  if dcur \<noteq> ''nullvect'' then Inl (SystemExit ''ABORT: the decline names another symbol'')
                  else bind_e (pack_into_I b (dpos + 4) (vinfo div 256 * 256 + 1)) (\<lambda>b1.
                    bind_e (pack_into_I b1 (vpos + 4) (new_idx * 256 + 1)) (\<lambda>b2. Inr (b2, True)))))))))))))))))"

definition fpe_vec11_main :: "bool script" where
  "fpe_vec11_main = fpe_main 11 ''fpe_vec11'' ''fpe_decline'' [''fpsp_vec11'', ''nullvect'']"

definition fpe_vec60_main :: "bool script" where
  "fpe_vec60_main = fpe_main 60 ''fpe_vec60'' ''fpe_decline60'' [''fpsp_vec60'', ''nullvect'']"

subsection \<open>The scripts on the view\<close>

definition abs_value :: "string \<Rightarrow> string list \<Rightarrow> place list \<Rightarrow> int option" where
  "abs_value name names homes = map_option (\<lambda>k. fst (homes ! k)) (first_pos (\<lambda>n. n = name) names)"

definition sym_pos :: "string \<Rightarrow> string list \<Rightarrow> nat option" where
  "sym_pos name names = first_pos (\<lambda>n. n = name) names"

definition rel_pos :: "(int \<Rightarrow> bool) \<Rightarrow> rel list \<Rightarrow> nat option" where
  "rel_pos P rels = first_pos (\<lambda>(off, s, ty). P off) rels"

fun last_rel :: "int \<Rightarrow> rel list \<Rightarrow> nat option" where
  "last_rel x [] = None"
| "last_rel x ((off, s, ty) # rels) = (case last_rel x rels of
     Some k \<Rightarrow> Some (Suc k) | None \<Rightarrow> if off = x then Some 0 else None)"

definition point :: "nat \<Rightarrow> nat \<Rightarrow> rel list \<Rightarrow> rel list" where
  "point k j rels = rels[k := (fst (rels ! k), int j, 1)]"

text \<open>
  The slot at position \<open>k\<close> may be taken for symbol \<open>j\<close> if it names it already, or \<open>nullvect\<close>.
\<close>

definition abs_take :: "string list \<Rightarrow> nat \<Rightarrow> nat \<Rightarrow> rel list \<Rightarrow> (rel list \<times> bool) option" where
  "abs_take names k j rels = (case rels ! k of (off, s, ty) \<Rightarrow>
     if ty \<noteq> 1 then None
     else if s = int j then Some (rels, False)
     else if names ! nat s = ''nullvect'' then Some (point k j rels, True) else None)"

definition abs_vec11 :: "rview \<Rightarrow> (rview \<times> bool) option" where
  "abs_vec11 v = (case v of (rels, names, homes) \<Rightarrow>
     Option.bind (abs_value ''M68Kvec'' names homes) (\<lambda>base.
     Option.bind (sym_pos ''fpsp_vec11'' names) (\<lambda>j.
     Option.bind (rel_pos (\<lambda>off. off = base + 44) rels) (\<lambda>k.
     Option.bind (abs_take names k j rels) (\<lambda>(rels', w). Some ((rels', names, homes), w))))))"

fun abs_vectors_loop :: "int \<Rightarrow> string list \<Rightarrow> (int \<times> string) list \<Rightarrow> rel list \<times> nat \<Rightarrow> (rel list \<times> nat) option" where
  "abs_vectors_loop base names [] s = Some s"
| "abs_vectors_loop base names ((vec, target) # vs) (rels, n) =
     Option.bind (last_rel (base + vec * 4) rels) (\<lambda>k.
     Option.bind (sym_pos target names) (\<lambda>j.
     Option.bind (abs_take names k j rels) (\<lambda>(rels', w).
     abs_vectors_loop base names vs (rels', if w then Suc n else n))))"

definition abs_vectors :: "rview \<Rightarrow> (rview \<times> nat) option" where
  "abs_vectors v = (case v of (rels, names, homes) \<Rightarrow>
     Option.bind (abs_value ''M68Kvec'' names homes) (\<lambda>base.
     Option.bind (abs_vectors_loop base names fpsp_VECTORS (rels, 0)) (\<lambda>(rels', n).
     Some ((rels', names, homes), n))))"

definition abs_isp_defined :: "string list \<Rightarrow> place list \<Rightarrow> bool" where
  "abs_isp_defined names homes \<longleftrightarrow> list_all (\<lambda>s. case sym_pos s names of
     None \<Rightarrow> False | Some k \<Rightarrow> fst (snd (homes ! k)) \<noteq> 0) isp_NEEDED"

definition abs_isp :: "rview \<Rightarrow> (rview \<times> bool) option" where
  "abs_isp v = (case v of (rels, names, homes) \<Rightarrow>
     Option.bind (abs_value ''M68Kvec'' names homes) (\<lambda>base.
     Option.bind (sym_pos ''isp61_vec'' names) (\<lambda>j.
     Option.bind (last_rel (base + 244) rels) (\<lambda>k.
     Option.bind (last_rel (base + 240) rels) (\<lambda>k60.
     if names ! nat (fst (snd (rels ! k60))) \<notin> {''nullvect'', ''fpsp_vec60''} then None
     else Option.bind (abs_take names k j rels) (\<lambda>(rels', w).
       if abs_isp_defined names homes then Some ((rels', names, homes), w) else None))))))"

definition abs_fpe :: "int \<Rightarrow> string \<Rightarrow> string \<Rightarrow> string list \<Rightarrow> rview \<Rightarrow> (rview \<times> bool) option" where
  "abs_fpe vector new decline allowed v = (case v of (rels, names, homes) \<Rightarrow>
     Option.bind (abs_value ''M68Kvec'' names homes) (\<lambda>base. let vec = base + vector * 4 in
     Option.bind (sym_pos new names) (\<lambda>j.
     Option.bind (abs_value decline names homes) (\<lambda>dec.
     Option.bind (rel_pos (\<lambda>off. vec \<le> off \<and> off < vec + 4) rels) (\<lambda>k. case rels ! k of (off, s, ty) \<Rightarrow>
     if ty \<noteq> 1 then None
     else if names ! nat s = new then Some (v, False)
     else if names ! nat s \<notin> set allowed then None
     else Option.bind (rel_pos (\<lambda>off. dec \<le> off \<and> off < dec + 6) rels) (\<lambda>k'. case rels ! k' of (off', s', ty') \<Rightarrow>
       if ty' \<noteq> 1 \<or> names ! nat s' \<noteq> ''nullvect'' then None
       else Some ((point k j (point k' (nat s) rels), names, homes), True)))))))"

subsection \<open>Reading a viewed image\<close>

definition viewed :: "byte list \<Rightarrow> shdr \<Rightarrow> symtables \<Rightarrow> rview \<Rightarrow> bool" where
  "viewed b rela t v \<longleftrightarrow> wf_rel b \<and> rel_view b = Inr v \<and>
     (\<exists>sh shstr. link_tables b = Inr (sh, shstr, rela, t))"

lemma viewedE:
  assumes "viewed b rela t (rels, names, homes)"
  obtains sh shstr byname where "wf_rel b" "link_tables b = Inr (sh, shstr, rela, t)"
    "rels_of b rela = Inr rels" "names_of b t = Inr names" "homes_of b sh shstr t = Inr homes"
    "name_symtab b = Inr (sh, shstr, byname, t)" "dict_get ''.rela.text'' byname = Inr rela"
    "nsyms t = Inr (int (length names))" "nrels rela = Inr (int (length rels))" "length homes = length names"
proof -
  obtain sh shstr where l: "wf_rel b" "link_tables b = Inr (sh, shstr, rela, t)" "rel_view b = Inr (rels, names, homes)"
    using assms by (auto simp: viewed_def)
  have v: "rels_of b rela = Inr rels" "names_of b t = Inr names" "homes_of b sh shstr t = Inr homes"
    using l(2,3) by (auto simp: rel_view_def)
  have n: "name_tables b = Inr (sh, shstr, rela, t)" "nsyms t = Inr (int (length names))"
    "nrels rela = Inr (int (length rels))" "length homes = length names"
    using l(1,2) v by (auto elim!: wf_relE)
  then obtain byname where "name_symtab b = Inr (sh, shstr, byname, t)" "dict_get ''.rela.text'' byname = Inr rela"
    by (auto simp: name_tables_def)
  then show thesis using that [OF l(1,2) v] n by blast
qed

lemma viewed_idx:
  assumes "viewed b rela t (rels, names, homes)"
  shows "sym_index_or msg b t name =
    (case sym_pos name names of None \<Rightarrow> Inl (SystemExit msg) | Some k \<Rightarrow> Inr (int k))"
  using assms by (auto elim!: viewedE simp: sym_index_or_def sym_index_names sym_pos_def split: option.splits)

lemma viewed_home:
  assumes "viewed b rela t (rels, names, homes)" "k < length names"
  shows "symvalue b t (int k) = Inr (fst (homes ! k))" "symshndx b t (int k) = Inr (fst (snd (homes ! k)))"
proof -
  obtain sh shstr where f: "wf_rel b" "link_tables b = Inr (sh, shstr, rela, t)" "names_of b t = Inr names"
    "homes_of b sh shstr t = Inr homes"
    using assms(1) by (auto elim: viewedE)
  obtain secs where "map_e (sec_name b shstr) sh = Inr secs" using f(4) by (auto simp: homes_of_def)
  from homes_nth [OF f this assms(2)] show "symvalue b t (int k) = Inr (fst (homes ! k))"
    "symshndx b t (int k) = Inr (fst (snd (homes ! k)))"
    by (cases "homes ! k", auto simp: place_of_def)+
qed

lemma sym_pos_less: "sym_pos name names = Some k \<Longrightarrow> k < length names \<and> names ! k = name"
  unfolding sym_pos_def using first_pos_Some by fastforce

lemma viewed_value:
  assumes "viewed b rela t (rels, names, homes)"
  shows "sym_value b t name = (case abs_value name names homes of
    None \<Rightarrow> Inl (SystemExit ''ABORT: symbol not found'') | Some u \<Rightarrow> Inr u)"
  using viewed_idx [OF assms] viewed_home(1) [OF assms] sym_pos_less [of name names]
  by (auto simp: sym_value_def abs_value_def sym_pos_def split: option.splits)

lemma find_row_pos:
  "map_e (rel_at b rela) is = Inr rels \<Longrightarrow>
   find_row b rela P is = Inr (map_option (\<lambda>k. row_pos rela (is ! k)) (rel_pos P rels))"
proof (induction "is" arbitrary: rels)
  case (Cons i "is")
  then obtain off s ty rs where r: "rel_at b rela i = Inr (off, s, ty)" "map_e (rel_at b rela) is = Inr rs"
    "rels = (off, s, ty) # rs" by auto
  have "u32 b (row_pos rela i) = Inr off" using r(1) by (auto simp: rel_at_def)
  then show ?case using Cons.IH [OF r(2)] r(3)
    by (simp add: rel_pos_def option.map_comp comp_def)
qed (simp add: rel_pos_def)

lemma viewed_rows:
  assumes "viewed b rela t (rels, names, homes)"
  shows "map_e (rel_at b rela) (py_range (int (length rels))) = Inr rels"
  using assms by (auto elim!: viewedE simp: rels_of_def)

lemma rel_pos_less: "rel_pos P rels = Some k \<Longrightarrow> k < length rels \<and> P (fst (rels ! k))"
  unfolding rel_pos_def by (drule first_pos_Some) (auto split: prod.splits)

lemma viewed_find:
  assumes "viewed b rela t (rels, names, homes)"
  shows "find_row b rela P (py_range (int (length rels))) = Inr (map_option (\<lambda>k. row_pos rela (int k)) (rel_pos P rels))"
proof -
  have "map_option (\<lambda>k. row_pos rela (py_range (int (length rels)) ! k)) (rel_pos P rels) =
      map_option (\<lambda>k. row_pos rela (int k)) (rel_pos P rels)"
    by (rule option.map_cong0) (auto simp: py_range_nth dest!: rel_pos_less)
  then show ?thesis using find_row_pos [OF viewed_rows [OF assms], of P] by simp
qed

lemma last_rel_Some: "last_rel x rels = Some k \<Longrightarrow> k < length rels \<and> fst (rels ! k) = x"
  by (induction x rels arbitrary: k rule: last_rel.induct) (auto split: option.splits if_splits)

lemma rows_at_loop:
  "map_e (rel_at b rela) is = Inr rels \<Longrightarrow>
   \<exists>kvs. map_e (\<lambda>i. bind_e (u32 b (row_pos rela i)) (\<lambda>off. Inr (off, row_pos rela i))) is = Inr kvs
     \<and> map_of (rev kvs) x = map_option (\<lambda>k. row_pos rela (is ! k)) (last_rel x rels)"
proof (induction "is" arbitrary: rels)
  case (Cons i "is")
  then obtain off s ty rs where r: "rel_at b rela i = Inr (off, s, ty)" "map_e (rel_at b rela) is = Inr rs"
    "rels = (off, s, ty) # rs" by auto
  have "u32 b (row_pos rela i) = Inr off" using r(1) by (auto simp: rel_at_def)
  then show ?case using Cons.IH [OF r(2)] r(3) by (auto simp: map_add_def split: option.splits)
qed simp

lemma viewed_at:
  assumes "viewed b rela t (rels, names, homes)"
  shows "\<exists>at. rows_at b rela (int (length rels)) = Inr at
     \<and> (\<forall>x. map_of at x = map_option (\<lambda>k. row_pos rela (int k)) (last_rel x rels))"
proof -
  note rows = viewed_rows [OF assms]
  let ?f = "\<lambda>i. bind_e (u32 b (row_pos rela i)) (\<lambda>off. Inr (off, row_pos rela i))"
  obtain kvs where kvs: "map_e ?f (py_range (int (length rels))) = Inr kvs"
    using rows_at_loop [OF rows] by blast
  have "map_of (py_dict kvs) x = map_option (\<lambda>k. row_pos rela (int k)) (last_rel x rels)" for x
  proof -
    have "map_of (rev kvs) x = map_option (\<lambda>k. row_pos rela (py_range (int (length rels)) ! k)) (last_rel x rels)"
      using rows_at_loop [OF rows, of x] kvs by auto
    also have "\<dots> = map_option (\<lambda>k. row_pos rela (int k)) (last_rel x rels)"
      by (rule option.map_cong0) (auto simp: py_range_nth dest!: last_rel_Some)
    finally show ?thesis by (simp add: map_of_py_dict)
  qed
  then show ?thesis using kvs by (simp add: rows_at_def)
qed

lemma viewed_entry:
  assumes v: "viewed b rela t (rels, names, homes)" and k: "k < length rels" "rels ! k = (off, s, ty)"
  shows "\<exists>info. u32 b (row_pos rela (int k) + 4) = Inr info \<and> info div 256 = s \<and> info mod 256 = ty"
    and "symname b t s = Inr (names ! nat s)" and "0 \<le> s" and "nat s < length names"
proof -
  obtain sh shstr where f: "wf_rel b" "link_tables b = Inr (sh, shstr, rela, t)" "rels_of b rela = Inr rels"
    "names_of b t = Inr names" using v by (auto elim: viewedE)
  show "\<exists>info. u32 b (row_pos rela (int k) + 4) = Inr info \<and> info div 256 = s \<and> info mod 256 = ty"
    using rels_entry [OF f(3) k] by blast
  have s: "0 \<le> s" "s < int (length names)" using wf_rel_entry [OF f k] by simp_all
  then show "0 \<le> s" "nat s < length names" by auto
  show "symname b t s = Inr (names ! nat s)" by (rule symname_names [OF f(4) s])
qed

lemma viewed_point:
  assumes v: "viewed b rela t (rels, names, homes)" and k: "k < length rels" and j: "j < length names"
  shows "\<exists>b'. pack_into_I b (row_pos rela (int k) + 4) (int j * 256 + 1) = Inr b'
    \<and> viewed b' rela t (point k j rels, names, homes) \<and> length b' = length b"
proof -
  obtain sh shstr where f: "wf_rel b" "link_tables b = Inr (sh, shstr, rela, t)" "rels_of b rela = Inr rels"
    "names_of b t = Inr names" "homes_of b sh shstr t = Inr homes" using v by (auto elim: viewedE)
  obtain off s ty where e: "rels ! k = (off, s, ty)" by (cases "rels ! k")
  from retarget [OF f k e j, of 1] obtain b' where
    "pack_into_I b (row_pos rela (int k) + 4) (int j * 256 + 1) = Inr b'"
    "agree (nat (s_offset rela)) (nat (s_offset rela + s_size rela)) b b'"
    "wf_rel b'" "link_tables b' = Inr (sh, shstr, rela, t)"
    "rels_of b' rela = Inr (rels[k := (off, int j, 1)])" "names_of b' t = Inr names"
    "homes_of b' sh shstr t = Inr homes" by auto
  then show ?thesis using agree_length by (fastforce simp: viewed_def rel_view_def point_def e)
qed

lemma viewed_of:
  assumes "wf_rel b" "rel_view b = Inr v"
  obtains rela t rels names homes where "v = (rels, names, homes)" "viewed b rela t (rels, names, homes)"
proof -
  obtain rels names homes where "v = (rels, names, homes)" by (cases v)
  then show thesis using that assms by (auto elim!: wf_relE simp: viewed_def)
qed

lemma viewed_wf: "viewed b rela t v \<Longrightarrow> wf_rel b \<and> rel_view b = Inr v"
  by (simp add: viewed_def)

subsection \<open>The scripts meet the contract\<close>

lemma viewed_take:
  assumes v: "viewed b rela t (rels, names, homes)" and k: "k < length rels" and j: "j < length names"
  shows "\<exists>rinfo. u32 b (row_pos rela (int k) + 4) = Inr rinfo \<and> (case abs_take names k j rels of
      None \<Rightarrow> rinfo mod 256 \<noteq> 1 \<or> take_slot b t (row_pos rela (int k)) rinfo (int j) e = Inl e
    | Some (rels', w) \<Rightarrow> rinfo mod 256 = 1
        \<and> (\<exists>b'. take_slot b t (row_pos rela (int k)) rinfo (int j) e = Inr (b', w)
             \<and> viewed b' rela t (rels', names, homes) \<and> length b' = length b))"
proof -
  obtain off s ty where e: "rels ! k = (off, s, ty)" by (cases "rels ! k")
  obtain info where i: "u32 b (row_pos rela (int k) + 4) = Inr info" "info div 256 = s" "info mod 256 = ty"
    using viewed_entry(1) [OF v k e] by blast
  note nm = viewed_entry(2) [OF v k e]
  obtain b' where b': "pack_into_I b (row_pos rela (int k) + 4) (int j * 256 + 1) = Inr b'"
    "viewed b' rela t (point k j rels, names, homes)" "length b' = length b"
    using viewed_point [OF v k j] by blast
  show ?thesis using v b' i nm by (intro exI [of _ info]) (auto simp: abs_take_def take_slot_def e)
qed

lemma map_fst_point: "k < length rels \<Longrightarrow> map fst (point k j rels) = map fst rels"
  by (simp add: point_def map_update list_update_same_conv)

lemma take_slot_skip: "take_slot b t pos rinfo j e = Inr (b', False) \<Longrightarrow> b' = b"
  by (auto simp: take_slot_def split: if_splits)

lemma abs_take_again:
  assumes "abs_take names k j rels = Some (rels', w)" "k < length rels"
  shows "abs_take names k j rels' = Some (rels', False)" "map fst rels' = map fst rels" "length rels' = length rels"
  using assms map_fst_point [OF assms(2), of j]
  by (auto simp: abs_take_def point_def split: if_splits prod.splits)

lemma map_fst_rel_pos: "map fst rels' = map fst rels \<Longrightarrow> rel_pos P rels' = rel_pos P rels"
proof (induction rels arbitrary: rels')
  case (Cons r rels)
  then obtain r' rs' where "rels' = r' # rs'" "fst r' = fst r" "map fst rs' = map fst rels" by (cases rels') auto
  then show ?case using Cons.IH [of rs'] by (cases r; cases r') (auto simp: rel_pos_def)
qed simp

lemma map_fst_last_rel: "map fst rels' = map fst rels \<Longrightarrow> last_rel x rels' = last_rel x rels"
proof (induction rels arbitrary: rels')
  case (Cons r rels)
  then obtain r' rs' where "rels' = r' # rs'" "fst r' = fst r" "map fst rs' = map fst rels" by (cases rels') auto
  then show ?case using Cons.IH [of rs'] by (cases r; cases r') auto
qed simp

interpretation vec11: reloc_script fpsp_vec11_main abs_vec11
proof unfold_locales
  fix b v assume "wf_rel b" "rel_view b = Inr v"
  then obtain rela t rels names homes where v: "v = (rels, names, homes)" and vw: "viewed b rela t (rels, names, homes)"
    by (rule viewed_of)
  obtain sh shstr byname where f: "name_symtab b = Inr (sh, shstr, byname, t)"
    "dict_get ''.rela.text'' byname = Inr rela" "nsyms t = Inr (int (length names))" "nrels rela = Inr (int (length rels))"
    using vw by (auto elim: viewedE)
  note run = fpsp_vec11_main_def f viewed_value [OF vw] viewed_idx [OF vw] viewed_find [OF vw]
  show "case abs_vec11 v of None \<Rightarrow> \<exists>e. fpsp_vec11_main b = (b, Inl e)
    | Some (v', w) \<Rightarrow> \<exists>b'. fpsp_vec11_main b = (b', Inr w) \<and> wf_rel b' \<and> rel_view b' = Inr v' \<and> length b' = length b"
  proof (cases "abs_value ''M68Kvec'' names homes")
    case None
    then show ?thesis by (simp add: abs_vec11_def v run)
  next
    case base: (Some base)
    show ?thesis
    proof (cases "sym_pos ''fpsp_vec11'' names"; cases "rel_pos (\<lambda>off. off = base + 44) rels")
      fix j k assume jk: "sym_pos ''fpsp_vec11'' names = Some j" "rel_pos (\<lambda>off. off = base + 44) rels = Some k"
      have "k < length rels" "j < length names" using rel_pos_less [OF jk(2)] sym_pos_less [OF jk(1)] by simp_all
      from viewed_take [OF vw this, of "SystemExit ''ABORT: M68Kvec[11] has another target''"] show ?thesis
        by (cases "abs_take names k j rels") (auto simp: abs_vec11_def v run base jk viewed_def)
    qed (simp_all add: abs_vec11_def v run base)
  qed
next
  show "fpsp_vec11_main b = (b', Inl e) \<Longrightarrow> b' = b" for b b' e
    by (auto simp: fpsp_vec11_main_def write_back_def split: sum.splits)
next
  show "fpsp_vec11_main b = (b', Inr False) \<Longrightarrow> b' = b" for b b'
    by (auto simp: fpsp_vec11_main_def write_back_def split: sum.splits option.splits if_splits dest: take_slot_skip)
next
  fix v v' w assume a: "abs_vec11 v = Some (v', w)"
  obtain rels names homes where v: "v = (rels, names, homes)" by (cases v)
  from a obtain base j k rels' where r: "abs_value ''M68Kvec'' names homes = Some base" "sym_pos ''fpsp_vec11'' names = Some j"
    "rel_pos (\<lambda>off. off = base + 44) rels = Some k" "abs_take names k j rels = Some (rels', w)" "v' = (rels', names, homes)"
    by (auto simp: abs_vec11_def v split: bind_splits)
  have "k < length rels" using rel_pos_less [OF r(3)] by simp
  note again = abs_take_again [OF r(4) this]
  show "abs_vec11 v' = Some (v', False)"
    using r again(1) map_fst_rel_pos [OF again(2)] by (simp add: abs_vec11_def)
qed

lemma vectors_loop_view:
  assumes "viewed b rela t (rels, names, homes)"
    and "\<forall>x. map_of at x = map_option (\<lambda>k. row_pos rela (int k)) (last_rel x rels)"
  shows "case abs_vectors_loop base names vs (rels, n) of
      None \<Rightarrow> \<exists>e. vectors_loop t at base vs (b, n) = Inl e
    | Some (rels', n') \<Rightarrow> \<exists>b'. vectors_loop t at base vs (b, n) = Inr (b', n')
        \<and> viewed b' rela t (rels', names, homes) \<and> length b' = length b"
  using assms
proof (induction vs arbitrary: b rels n)
  case Nil
  then show ?case by auto
next
  case (Cons vt vs)
  obtain vec target where vt: "vt = (vec, target)" by (cases vt)
  note vw = Cons.prems(1) and at = Cons.prems(2)
  show ?case
  proof (cases "last_rel (base + vec * 4) rels")
    case None
    then show ?thesis using at by (simp add: vt)
  next
    case k: (Some k)
    have kl: "k < length rels" using last_rel_Some [OF k] by simp
    show ?thesis
    proof (cases "sym_pos target names")
      case None
      obtain off s ty where e: "rels ! k = (off, s, ty)" by (cases "rels ! k")
      obtain info where "u32 b (row_pos rela (int k) + 4) = Inr info"
        using viewed_entry(1) [OF vw kl e] by blast
      then show ?thesis using k at None viewed_idx [OF vw, of _ target] by (simp add: vt)
    next
      case j: (Some j)
      then have jl: "j < length names" using sym_pos_less by blast
      let ?e = "SystemExit ''ABORT: another target''"
      obtain rinfo where r: "u32 b (row_pos rela (int k) + 4) = Inr rinfo"
        "case abs_take names k j rels of
            None \<Rightarrow> rinfo mod 256 \<noteq> 1 \<or> take_slot b t (row_pos rela (int k)) rinfo (int j) ?e = Inl ?e
          | Some (rels', w) \<Rightarrow> rinfo mod 256 = 1
              \<and> (\<exists>b'. take_slot b t (row_pos rela (int k)) rinfo (int j) ?e = Inr (b', w)
                   \<and> viewed b' rela t (rels', names, homes) \<and> length b' = length b)"
        using viewed_take [OF vw kl jl] by blast
      show ?thesis
      proof (cases "abs_take names k j rels")
        case None
        then show ?thesis using k at j r viewed_idx [OF vw, of _ target]
          by (cases "rinfo mod 256 = 1") (simp_all add: vt)
      next
        case (Some rw)
        obtain rels' w where rw: "rw = (rels', w)" by (cases rw)
        then obtain b' where b': "take_slot b t (row_pos rela (int k)) rinfo (int j) ?e = Inr (b', w)"
          "viewed b' rela t (rels', names, homes)" "length b' = length b" and ty: "rinfo mod 256 = 1"
          using r(2) Some by auto
        have "map fst rels' = map fst rels" by (rule abs_take_again(2) [OF Some [unfolded rw] kl])
        from map_fst_last_rel [OF this]
        have "\<forall>x. map_of at x = map_option (\<lambda>k. row_pos rela (int k)) (last_rel x rels')" using at by simp
        from Cons.IH [OF b'(2) this, of "if w then Suc n else n"] show ?thesis
          using k at j r(1) ty b' viewed_idx [OF vw, of _ target] Some rw
          by (auto simp: vt split: option.splits)
      qed
    qed
  qed
qed

interpretation vectors: reloc_run fpsp_vectors_main abs_vectors
proof unfold_locales
  fix b v assume "wf_rel b" "rel_view b = Inr v"
  then obtain rela t rels names homes where v: "v = (rels, names, homes)" and vw: "viewed b rela t (rels, names, homes)"
    by (rule viewed_of)
  obtain sh shstr byname where f: "name_symtab b = Inr (sh, shstr, byname, t)"
    "dict_get ''.rela.text'' byname = Inr rela" "nsyms t = Inr (int (length names))" "nrels rela = Inr (int (length rels))"
    using vw by (auto elim: viewedE)
  obtain at where at: "rows_at b rela (int (length rels)) = Inr at"
    "\<forall>x. map_of at x = map_option (\<lambda>k. row_pos rela (int k)) (last_rel x rels)" using viewed_at [OF vw] by blast
  note run = fpsp_vectors_main_def f viewed_value [OF vw] at(1)
  show "case abs_vectors v of None \<Rightarrow> \<exists>e. fpsp_vectors_main b = (b, Inl e)
    | Some (v', w) \<Rightarrow> \<exists>b'. fpsp_vectors_main b = (b', Inr w) \<and> wf_rel b' \<and> rel_view b' = Inr v' \<and> length b' = length b"
  proof (cases "abs_value ''M68Kvec'' names homes")
    case None
    then show ?thesis by (simp add: abs_vectors_def v run)
  next
    case (Some base)
    then show ?thesis using vectors_loop_view [OF vw at(2), of base fpsp_VECTORS 0]
      by (auto simp: abs_vectors_def v run viewed_def split: option.splits)
  qed
next
  show "fpsp_vectors_main b = (b', Inl e) \<Longrightarrow> b' = b" for b b' e
    by (auto simp: fpsp_vectors_main_def write_back_def split: sum.splits)
qed

lemma isp_defined_view:
  assumes vw: "viewed b rela t (rels, names, homes)"
  shows "isp_defined b t ss = Inr () \<longleftrightarrow> list_all (\<lambda>s. case sym_pos s names of
     None \<Rightarrow> False | Some k \<Rightarrow> fst (snd (homes ! k)) \<noteq> 0) ss"
proof (induction ss)
  case (Cons s ss)
  show ?case
  proof (cases "sym_pos s names")
    case None
    then show ?thesis by (simp add: viewed_idx [OF vw])
  next
    case (Some k)
    then have k: "k < length names" using sym_pos_less by blast
    obtain sh shstr where f: "wf_rel b" "link_tables b = Inr (sh, shstr, rela, t)" "names_of b t = Inr names"
      using vw by (auto elim: viewedE)
    note row = wf_sym_row [OF f k]
    then obtain w where w: "u32 b (sym_row t (int k) + 12) = Inr w"
      using u32_total [of "sym_row t (int k) + 12" b] by auto
    have "symshndx b t (int k) = Inr (w mod 65536)"
      using u32_halves(2) [OF w] row by (simp add: symshndx_def sym_row_def add.commute)
    then have "w mod 65536 = fst (snd (homes ! k))" using viewed_home(2) [OF vw k] by simp
    then show ?thesis using w Some Cons by (simp add: viewed_idx [OF vw] sym_row_def)
  qed
qed simp

lemma map_of_filter_key: "map_of (filter (\<lambda>(k, v). P k) xs) x = (if P x then map_of xs x else None)"
  by (induction xs) auto

interpretation isp61: reloc_script isp_vec61_main abs_isp
proof unfold_locales
  fix b v assume "wf_rel b" "rel_view b = Inr v"
  then obtain rela t rels names homes where v: "v = (rels, names, homes)" and vw: "viewed b rela t (rels, names, homes)"
    by (rule viewed_of)
  obtain sh shstr byname where f: "name_symtab b = Inr (sh, shstr, byname, t)"
    "dict_get ''.rela.text'' byname = Inr rela" "nsyms t = Inr (int (length names))" "nrels rela = Inr (int (length rels))"
    using vw by (auto elim: viewedE)
  obtain at where at: "rows_at b rela (int (length rels)) = Inr at"
    "\<forall>x. map_of at x = map_option (\<lambda>k. row_pos rela (int k)) (last_rel x rels)" using viewed_at [OF vw] by blast
  note run = isp_vec61_main_def f viewed_value [OF vw] viewed_idx [OF vw] at(1) Let_def map_of_filter_key at(2)
  show "case abs_isp v of None \<Rightarrow> \<exists>e. isp_vec61_main b = (b, Inl e)
    | Some (v', w) \<Rightarrow> \<exists>b'. isp_vec61_main b = (b', Inr w) \<and> wf_rel b' \<and> rel_view b' = Inr v' \<and> length b' = length b"
  proof (cases "abs_value ''M68Kvec'' names homes"; cases "sym_pos ''isp61_vec'' names")
    fix base j assume bj: "abs_value ''M68Kvec'' names homes = Some base" "sym_pos ''isp61_vec'' names = Some j"
    show ?thesis
    proof (cases "last_rel (base + 244) rels"; cases "last_rel (base + 240) rels")
      fix k k60 assume k: "last_rel (base + 244) rels = Some k" "last_rel (base + 240) rels = Some k60"
      obtain off60 s60 ty60 where e60: "rels ! k60 = (off60, s60, ty60)" by (cases "rels ! k60")
      have l: "k60 < length rels" "k < length rels" "j < length names"
        using last_rel_Some [OF k(1)] last_rel_Some [OF k(2)] sym_pos_less [OF bj(2)] by simp_all
      obtain r60 where r60: "u32 b (row_pos rela (int k60) + 4) = Inr r60" "r60 div 256 = s60"
        using viewed_entry(1) [OF vw l(1) e60] by blast
      note n60 = viewed_entry(2) [OF vw l(1) e60]
      show ?thesis
      proof (cases "names ! nat s60 \<in> {''nullvect'', ''fpsp_vec60''}")
        case False
        then show ?thesis by (simp add: run abs_isp_def v bj k r60 n60 e60)
      next
        case ok: True
        let ?e = "SystemExit ''ABORT: M68Kvec[61] has another target''"
        obtain rinfo where r: "u32 b (row_pos rela (int k) + 4) = Inr rinfo"
          "case abs_take names k j rels of
              None \<Rightarrow> rinfo mod 256 \<noteq> 1 \<or> take_slot b t (row_pos rela (int k)) rinfo (int j) ?e = Inl ?e
            | Some (rels', w) \<Rightarrow> rinfo mod 256 = 1
                \<and> (\<exists>b'. take_slot b t (row_pos rela (int k)) rinfo (int j) ?e = Inr (b', w)
                     \<and> viewed b' rela t (rels', names, homes) \<and> length b' = length b)"
          using viewed_take [OF vw l(2,3)] by blast
        note run' = run abs_isp_def v bj k r60 n60 e60 ok r(1)
        show ?thesis
        proof (cases "abs_take names k j rels")
          case None
          then show ?thesis using r(2) ok by (cases "rinfo mod 256 = 1") (simp_all add: run')
        next
          case (Some rw)
          obtain rels' w where rw: "rw = (rels', w)" by (cases rw)
          then obtain b' where b': "take_slot b t (row_pos rela (int k)) rinfo (int j) ?e = Inr (b', w)"
            "viewed b' rela t (rels', names, homes)" "length b' = length b" "rinfo mod 256 = 1"
            using r(2) Some by auto
          show ?thesis
          proof (cases "isp_defined b' t isp_NEEDED")
            case (Inl e)
            then show ?thesis using isp_defined_view [OF b'(2), of isp_NEEDED] Some rw b' ok
              by (simp add: run' abs_isp_defined_def)
          next
            case (Inr u)
            then show ?thesis using isp_defined_view [OF b'(2), of isp_NEEDED] Some rw b' ok
              by (simp add: run' abs_isp_defined_def viewed_def)
          qed
        qed
      qed
    qed (simp_all add: run abs_isp_def v bj)
  qed (simp_all add: run abs_isp_def v)
next
  show "isp_vec61_main b = (b', Inl e) \<Longrightarrow> b' = b" for b b' e
    by (auto simp: isp_vec61_main_def write_back_def split: sum.splits)
next
  show "isp_vec61_main b = (b', Inr False) \<Longrightarrow> b' = b" for b b'
    by (auto simp: isp_vec61_main_def write_back_def Let_def split: sum.splits option.splits if_splits dest: take_slot_skip)
next
  fix v v' w assume a: "abs_isp v = Some (v', w)"
  obtain rels names homes where v: "v = (rels, names, homes)" by (cases v)
  from a obtain base j k k60 rels' where r: "abs_value ''M68Kvec'' names homes = Some base" "sym_pos ''isp61_vec'' names = Some j"
    "last_rel (base + 244) rels = Some k" "last_rel (base + 240) rels = Some k60"
    "names ! nat (fst (snd (rels ! k60))) \<in> {''nullvect'', ''fpsp_vec60''}"
    "abs_take names k j rels = Some (rels', w)" "abs_isp_defined names homes" "v' = (rels', names, homes)"
    by (auto simp: abs_isp_def v split: bind_splits if_splits)
  have k: "k < length rels" "fst (rels ! k) = base + 244" "fst (rels ! k60) = base + 240"
    using last_rel_Some [OF r(3)] last_rel_Some [OF r(4)] by simp_all
  then have "k60 \<noteq> k" by auto
  then have "rels' ! k60 = rels ! k60" using r(6) by (auto simp: abs_take_def point_def split: prod.splits if_splits)
  note again = abs_take_again [OF r(6) k(1)]
  then show "abs_isp v' = Some (v', False)"
    using r map_fst_last_rel [OF again(2)] \<open>rels' ! k60 = rels ! k60\<close> by (simp add: abs_isp_def)
qed

lemma point_fst: "k < length rels \<Longrightarrow> length (point k j rels) = length rels"
  by (simp add: point_def)

lemma fpe_writes:
  assumes vw: "viewed b rela t (rels, names, homes)" and k: "k < length rels" "k' < length rels"
    and j: "j < length names" "s < length names"
  shows "\<exists>b1 b2. pack_into_I b (row_pos rela (int k') + 4) (int s * 256 + 1) = Inr b1
    \<and> pack_into_I b1 (row_pos rela (int k) + 4) (int j * 256 + 1) = Inr b2
    \<and> viewed b2 rela t (point k j (point k' s rels), names, homes) \<and> length b2 = length b"
proof -
  obtain b1 where b1: "pack_into_I b (row_pos rela (int k') + 4) (int s * 256 + 1) = Inr b1"
    "viewed b1 rela t (point k' s rels, names, homes)" "length b1 = length b"
    using viewed_point [OF vw k(2) j(2)] by blast
  have "k < length (point k' s rels)" using k by (simp add: point_fst)
  from viewed_point [OF b1(2) this j(1)] b1 show ?thesis by auto
qed

lemma fpe_refines:
  assumes "wf_rel b" "rel_view b = Inr v"
  shows "case abs_fpe vector new decline allowed v of None \<Rightarrow> \<exists>e. fpe_main vector new decline allowed b = (b, Inl e)
    | Some (v', w) \<Rightarrow> \<exists>b'. fpe_main vector new decline allowed b = (b', Inr w) \<and> wf_rel b' \<and> rel_view b' = Inr v'
        \<and> length b' = length b"
proof -
  obtain rela t rels names homes where v: "v = (rels, names, homes)" and vw: "viewed b rela t (rels, names, homes)"
    using viewed_of [OF assms] by metis
  obtain sh shstr byname where f: "name_symtab b = Inr (sh, shstr, byname, t)"
    "dict_get ''.rela.text'' byname = Inr rela" "nsyms t = Inr (int (length names))" "nrels rela = Inr (int (length rels))"
    using vw by (auto elim: viewedE)
  note run = fpe_main_def f viewed_value [OF vw] viewed_idx [OF vw] viewed_find [OF vw] Let_def abs_fpe_def v
  show ?thesis
  proof (cases "abs_value ''M68Kvec'' names homes"; cases "sym_pos new names"; cases "abs_value decline names homes")
    fix base j dec assume bj: "abs_value ''M68Kvec'' names homes = Some base" "sym_pos new names = Some j"
      "abs_value decline names homes = Some dec"
    let ?vec = "base + vector * 4"
    show ?thesis
    proof (cases "rel_pos (\<lambda>off. ?vec \<le> off \<and> off < ?vec + 4) rels")
      case None
      then show ?thesis by (simp add: run bj)
    next
      case k: (Some k)
      have kl: "k < length rels" "j < length names" using rel_pos_less [OF k] sym_pos_less [OF bj(2)] by simp_all
      obtain off s ty where e: "rels ! k = (off, s, ty)" by (cases "rels ! k")
      obtain info where i: "u32 b (row_pos rela (int k) + 4) = Inr info" "info div 256 = s" "info mod 256 = ty"
        using viewed_entry(1) [OF vw kl(1) e] by blast
      note s = viewed_entry(2,3,4) [OF vw kl(1) e]
      note run = run bj k e i s(1)
      show ?thesis
      proof (cases "ty = 1 \<and> names ! nat s \<noteq> new \<and> names ! nat s \<in> set allowed")
        case False
        then show ?thesis using vw by (auto simp: run viewed_def)
      next
        case ok: True
        show ?thesis
        proof (cases "rel_pos (\<lambda>off. dec \<le> off \<and> off < dec + 6) rels")
          case None
          then show ?thesis using ok by (simp add: run)
        next
          case k': (Some k')
          have kl': "k' < length rels" using rel_pos_less [OF k'] by simp
          obtain off' s' ty' where e': "rels ! k' = (off', s', ty')" by (cases "rels ! k'")
          obtain info' where i': "u32 b (row_pos rela (int k') + 4) = Inr info'" "info' div 256 = s'" "info' mod 256 = ty'"
            using viewed_entry(1) [OF vw kl' e'] by blast
          note s' = viewed_entry(2) [OF vw kl' e']
          obtain b1 b2 where w: "pack_into_I b (row_pos rela (int k') + 4) (int (nat s) * 256 + 1) = Inr b1"
            "pack_into_I b1 (row_pos rela (int k) + 4) (int j * 256 + 1) = Inr b2"
            "viewed b2 rela t (point k j (point k' (nat s) rels), names, homes)" "length b2 = length b"
            using fpe_writes [OF vw kl(1) kl' kl(2) s(3)] by blast
          show ?thesis using ok w s(2) by (auto simp: run k' e' i' s' viewed_def)
        qed
      qed
    qed
  qed (simp_all add: run)
qed

lemma fpe_script:
  "reloc_script (fpe_main vector new decline allowed) (abs_fpe vector new decline allowed)"
proof unfold_locales
  show "fpe_main vector new decline allowed b = (b', Inl e) \<Longrightarrow> b' = b" for b b' e
    by (auto simp: fpe_main_def write_back_def split: sum.splits)
  show "fpe_main vector new decline allowed b = (b', Inr False) \<Longrightarrow> b' = b" for b b'
    by (auto simp: fpe_main_def write_back_def Let_def split: sum.splits option.splits if_splits)
  fix v v' w assume a: "abs_fpe vector new decline allowed v = Some (v', w)"
  obtain rels names homes where v: "v = (rels, names, homes)" by (cases v)
  from a obtain base j dec k where r: "abs_value ''M68Kvec'' names homes = Some base" "sym_pos new names = Some j"
    "abs_value decline names homes = Some dec"
    "rel_pos (\<lambda>off. base + vector * 4 \<le> off \<and> off < base + vector * 4 + 4) rels = Some k"
    by (auto simp: abs_fpe_def v Let_def split: bind_splits)
  obtain off s ty where e: "rels ! k = (off, s, ty)" by (cases "rels ! k")
  show "abs_fpe vector new decline allowed v' = Some (v', False)"
  proof (cases w)
    case False
    then show ?thesis using a r e by (auto simp: abs_fpe_def v Let_def split: bind_splits if_splits prod.splits)
  next
    case True
    then obtain k' where k': "rel_pos (\<lambda>off. dec \<le> off \<and> off < dec + 6) rels = Some k'"
      "v' = (point k j (point k' (nat s) rels), names, homes)"
      using a r e by (auto simp: abs_fpe_def v Let_def split: bind_splits if_splits prod.splits)
    have l: "k < length rels" "k' < length rels" "j < length names" "names ! j = new"
      using rel_pos_less [OF r(4)] rel_pos_less [OF k'(1)] sym_pos_less [OF r(2)] by simp_all
    let ?rels' = "point k j (point k' (nat s) rels)"
    have "map fst ?rels' = map fst rels" using l by (simp add: map_fst_point point_fst)
    from map_fst_rel_pos [OF this] r(4)
    have "rel_pos (\<lambda>off. base + vector * 4 \<le> off \<and> off < base + vector * 4 + 4) ?rels' = Some k" by simp
    moreover have "?rels' ! k = (fst (point k' (nat s) rels ! k), int j, 1)"
      using l by (simp add: point_def)
    ultimately show ?thesis using r(1-3) l(4) by (simp add: abs_fpe_def k'(2) Let_def)
  qed
qed (rule fpe_refines)

interpretation fpe11: reloc_script fpe_vec11_main
  "abs_fpe 11 ''fpe_vec11'' ''fpe_decline'' [''fpsp_vec11'', ''nullvect'']"
  unfolding fpe_vec11_main_def by (rule fpe_script)

interpretation fpe60: reloc_script fpe_vec60_main
  "abs_fpe 60 ''fpe_vec60'' ''fpe_decline60'' [''fpsp_vec60'', ''nullvect'']"
  unfolding fpe_vec60_main_def by (rule fpe_script)

end
