(* ===== verification/Reloc_Fp.thy ===== *)
theory Reloc_Fp
  imports Reloc_Vec
begin

text \<open>
  The floating-point vectors as the build installs them: \<open>patch_fpsp_vec11\<close>, \<open>patch_fpsp_vectors\<close> and
  \<open>patch_isp_vec61\<close> (\<open>relink-040.sh\<close>), then the two soft-FPU arms (\<open>relink-040-fpe.sh\<close>), and what every
  slot of the vector table names afterwards.
\<close>

subsection \<open>The slots of a view\<close>

text \<open>The name and the type of the relocation at an offset.\<close>

definition slot :: "string list \<Rightarrow> int \<Rightarrow> rel list \<Rightarrow> (string \<times> int) option" where
  "slot names x rels = map_option (\<lambda>k. (names ! nat (fst (snd (rels ! k))), snd (snd (rels ! k)))) (rel_pos (\<lambda>off. off = x) rels)"

lemma rel_pos_unique:
  assumes "distinct (map fst rels)" "k < length rels" "fst (rels ! k) = x"
  shows "rel_pos (\<lambda>off. off = x) rels = Some k"
proof (cases "rel_pos (\<lambda>off. off = x) rels")
  case None
  then have "\<forall>r \<in> set rels. fst r \<noteq> x" unfolding rel_pos_def first_pos_None by (auto split: prod.splits)
  then show ?thesis using assms by auto
next
  case (Some k')
  then show ?thesis using rel_pos_less [OF Some] assms nth_eq_iff_index_eq [OF assms(1), of k k'] by simp
qed

lemma last_rel_unique:
  assumes "distinct (map fst rels)" shows "last_rel x rels = rel_pos (\<lambda>off. off = x) rels"
proof (cases "last_rel x rels")
  case None
  then have "\<forall>r \<in> set rels. fst r \<noteq> x"
    by (induction x rels rule: last_rel.induct) (auto split: option.splits if_splits)
  then have "rel_pos (\<lambda>off. off = x) rels = None" unfolding rel_pos_def first_pos_None by (auto split: prod.splits)
  then show ?thesis using None by simp
next
  case (Some k)
  have "rel_pos (\<lambda>off. off = x) rels = Some k"
    by (rule rel_pos_unique [OF assms]) (use last_rel_Some [OF Some] in simp_all)
  then show ?thesis using Some by simp
qed

lemma rel_pos_range:
  assumes "\<forall>x \<in> set (map fst rels). P x \<longleftrightarrow> x = y" shows "rel_pos P rels = rel_pos (\<lambda>off. off = y) rels"
  using assms by (induction rels) (auto simp: rel_pos_def)

text \<open>Pointing one entry at a symbol changes its slot and no other.\<close>

lemma slot_point:
  assumes d: "distinct (map fst rels)" and k: "rel_pos (\<lambda>off. off = y) rels = Some k"
  shows "slot names x (point k j rels) = (if x = y then Some (names ! j, 1) else slot names x rels)"
proof -
  have l: "k < length rels" "fst (rels ! k) = y" using rel_pos_less [OF k] by simp_all
  have pos: "rel_pos (\<lambda>off. off = x) (point k j rels) = rel_pos (\<lambda>off. off = x) rels"
    by (rule map_fst_rel_pos [OF map_fst_point [OF l(1)]])
  show ?thesis
  proof (cases "rel_pos (\<lambda>off. off = x) rels")
    case None
    then have "x \<noteq> y" using k by auto
    then show ?thesis using None by (simp add: slot_def pos)
  next
    case (Some m)
    have m: "m < length rels" "fst (rels ! m) = x" using rel_pos_less [OF Some] by simp_all
    show ?thesis
    proof (cases "m = k")
      case True
      then show ?thesis using m l by (simp add: slot_def pos Some) (simp add: point_def)
    next
      case False
      then have "x \<noteq> y" using Some k by auto
      moreover have "point k j rels ! m = rels ! m" using False by (simp add: point_def)
      ultimately show ?thesis by (simp add: slot_def pos Some)
    qed
  qed
qed

lemma slot_take:
  assumes d: "distinct (map fst rels)" and s: "slot names y rels = Some (''nullvect'', 1)"
    and j: "sym_pos target names = Some j" "target \<noteq> ''nullvect''"
  shows "\<exists>k rels'. rel_pos (\<lambda>off. off = y) rels = Some k \<and> abs_take names k j rels = Some (rels', True)
    \<and> map fst rels' = map fst rels
    \<and> (\<forall>x. slot names x rels' = (if x = y then Some (target, 1) else slot names x rels))"
proof -
  obtain k where k: "rel_pos (\<lambda>off. off = y) rels = Some k" using s by (auto simp: slot_def)
  obtain off sy ty where e: "rels ! k = (off, sy, ty)" by (cases "rels ! k")
  have r: "names ! nat sy = ''nullvect''" "ty = 1" using s by (simp_all add: slot_def k e)
  have "names ! j = target" using sym_pos_less [OF j(1)] by simp
  then have "sy \<noteq> int j" using r j(2) by auto
  then have "abs_take names k j rels = Some (point k j rels, True)" using r by (simp add: abs_take_def e)
  moreover have "map fst (point k j rels) = map fst rels" using rel_pos_less [OF k] by (simp add: map_fst_point)
  ultimately show ?thesis using k slot_point [OF d k, of names _ j] \<open>names ! j = target\<close> by auto
qed

subsection \<open>The five scripts on the slots\<close>

lemma vec11_slots:
  assumes "distinct (map fst rels)" "abs_value ''M68Kvec'' names homes = Some base"
    "''fpsp_vec11'' \<in> set names" "slot names (base + 44) rels = Some (''nullvect'', 1)"
  shows "\<exists>rels'. abs_vec11 (rels, names, homes) = Some ((rels', names, homes), True) \<and> map fst rels' = map fst rels
    \<and> (\<forall>x. slot names x rels' = (if x = base + 44 then Some (''fpsp_vec11'', 1) else slot names x rels))"
proof -
  obtain j where j: "sym_pos ''fpsp_vec11'' names = Some j"
    using assms(3) first_pos_None [of "\<lambda>n. n = ''fpsp_vec11''" names] by (auto simp: sym_pos_def)
  from slot_take [OF assms(1,4) j] show ?thesis using assms(2) j by (auto simp: abs_vec11_def)
qed

lemma vectors_slots:
  assumes "distinct (map fst rels)" "distinct (map fst vs)"
    "\<forall>(vec, target) \<in> set vs. target \<in> set names \<and> target \<noteq> ''nullvect''
       \<and> slot names (base + vec * 4) rels = Some (''nullvect'', 1)"
  shows "\<exists>rels'. abs_vectors_loop base names vs (rels, n) = Some (rels', n + length vs) \<and> map fst rels' = map fst rels
    \<and> (\<forall>x. slot names x rels' = (case map_of (map (\<lambda>(vec, target). (base + vec * 4, target)) vs) x of
         Some target \<Rightarrow> Some (target, 1) | None \<Rightarrow> slot names x rels))"
  using assms
proof (induction vs arbitrary: rels n)
  case (Cons vt vs)
  obtain vec target where vt: "vt = (vec, target)" by (cases vt)
  have t: "target \<in> set names" "target \<noteq> ''nullvect''" "slot names (base + vec * 4) rels = Some (''nullvect'', 1)"
    using Cons.prems(3) by (auto simp: vt)
  obtain j where j: "sym_pos target names = Some j"
    using t(1) first_pos_None [of "\<lambda>n. n = target" names] by (auto simp: sym_pos_def)
  obtain k rels1 where r: "rel_pos (\<lambda>off. off = base + vec * 4) rels = Some k"
    "abs_take names k j rels = Some (rels1, True)" "map fst rels1 = map fst rels"
    "\<forall>x. slot names x rels1 = (if x = base + vec * 4 then Some (target, 1) else slot names x rels)"
    using slot_take [OF Cons.prems(1) t(3) j t(2)] by blast
  have fresh: "map_of (map (\<lambda>(vec, target). (base + vec * 4, target)) vs) (base + vec * 4) = None"
    using Cons.prems(2) by (force simp: vt map_of_eq_None_iff)
  have "\<forall>(vec', target') \<in> set vs. target' \<in> set names \<and> target' \<noteq> ''nullvect''
      \<and> slot names (base + vec' * 4) rels1 = Some (''nullvect'', 1)"
    using Cons.prems(2,3) r(4) by (force simp: vt)
  from Cons.IH [OF _ _ this, of "Suc n"] obtain rels' where
    i: "abs_vectors_loop base names vs (rels1, Suc n) = Some (rels', Suc n + length vs)" "map fst rels' = map fst rels1"
    "\<forall>x. slot names x rels' = (case map_of (map (\<lambda>(vec, target). (base + vec * 4, target)) vs) x of
         Some target \<Rightarrow> Some (target, 1) | None \<Rightarrow> slot names x rels1)"
    using Cons.prems(1,2) r(3) by auto
  have "slot names x rels' = (case map_of (map (\<lambda>(vec, target). (base + vec * 4, target)) (vt # vs)) x of
         Some target \<Rightarrow> Some (target, 1) | None \<Rightarrow> slot names x rels)" for x
    using i(3) r(4) fresh by (cases "x = base + vec * 4") (auto simp: vt split: option.split)
  then show ?case using i r last_rel_unique [OF Cons.prems(1), of "base + vec * 4"] j by (simp add: vt)
qed simp

lemma isp_slots:
  assumes "distinct (map fst rels)" "abs_value ''M68Kvec'' names homes = Some base" "abs_isp_defined names homes"
    "slot names (base + 244) rels = Some (''nullvect'', 1)" "slot names (base + 240) rels = Some (n60, 1)"
    "n60 \<in> {''nullvect'', ''fpsp_vec60''}"
  shows "\<exists>rels'. abs_isp (rels, names, homes) = Some ((rels', names, homes), True) \<and> map fst rels' = map fst rels
    \<and> (\<forall>x. slot names x rels' = (if x = base + 244 then Some (''isp61_vec'', 1) else slot names x rels))"
proof -
  obtain j where j: "sym_pos ''isp61_vec'' names = Some j"
    using assms(3) by (auto simp: abs_isp_defined_def isp_NEEDED_def split: option.splits)
  obtain k rels' where r: "rel_pos (\<lambda>off. off = base + 244) rels = Some k"
    "abs_take names k j rels = Some (rels', True)" "map fst rels' = map fst rels"
    "\<forall>x. slot names x rels' = (if x = base + 244 then Some (''isp61_vec'', 1) else slot names x rels)"
    using slot_take [OF assms(1,4) j] by auto
  obtain k60 where k60: "rel_pos (\<lambda>off. off = base + 240) rels = Some k60" "names ! nat (fst (snd (rels ! k60))) = n60"
    using assms(5) by (auto simp: slot_def)
  show ?thesis using r k60 j assms(2,3,6) last_rel_unique [OF assms(1)] by (simp add: abs_isp_def)
qed

text \<open>
  The arm goes in front of the handler \<open>prev\<close> of its vector, and the operand of the decline, two bytes into
  its \<open>jmp\<close>, gets \<open>prev\<close>.
\<close>

lemma fpe_slots:
  assumes d: "distinct (map fst rels)" and base: "abs_value ''M68Kvec'' names homes = Some base"
    and dec: "abs_value decline names homes = Some dec" and new: "new \<in> set names" "prev \<in> set allowed" "prev \<noteq> new"
    and vec: "slot names (base + vector * 4) rels = Some (prev, 1)"
    and decl: "slot names (dec + 2) rels = Some (''nullvect'', 1)" "dec + 2 \<noteq> base + vector * 4"
    and only: "\<forall>x \<in> set (map fst rels). (base + vector * 4 \<le> x \<and> x < base + vector * 4 + 4 \<longleftrightarrow> x = base + vector * 4)
       \<and> (dec \<le> x \<and> x < dec + 6 \<longleftrightarrow> x = dec + 2)"
  shows "\<exists>rels'. abs_fpe vector new decline allowed (rels, names, homes) = Some ((rels', names, homes), True)
    \<and> map fst rels' = map fst rels
    \<and> (\<forall>x. slot names x rels' = (if x = base + vector * 4 then Some (new, 1)
                                  else if x = dec + 2 then Some (prev, 1) else slot names x rels))"
proof -
  let ?vec = "base + vector * 4"
  obtain j where j: "sym_pos new names = Some j"
    using new(1) first_pos_None [of "\<lambda>n. n = new" names] by (auto simp: sym_pos_def)
  have range: "rel_pos (\<lambda>off. ?vec \<le> off \<and> off < ?vec + 4) rels = rel_pos (\<lambda>off. off = ?vec) rels"
    "rel_pos (\<lambda>off. dec \<le> off \<and> off < dec + 6) rels = rel_pos (\<lambda>off. off = dec + 2) rels"
    using only by (intro rel_pos_range; blast)+
  obtain k k' where k: "rel_pos (\<lambda>off. off = ?vec) rels = Some k" "rel_pos (\<lambda>off. off = dec + 2) rels = Some k'"
    using vec decl(1) by (auto simp: slot_def)
  obtain off s ty off' s' ty' where e: "rels ! k = (off, s, ty)" "rels ! k' = (off', s', ty')"
    by (cases "rels ! k"; cases "rels ! k'")
  have n: "names ! nat s = prev" "ty = 1" "names ! nat s' = ''nullvect''" "ty' = 1"
    using vec decl(1) by (simp_all add: slot_def k e)
  have l: "k < length rels" "k' < length rels" using k [THEN rel_pos_less] by simp_all
  let ?rels1 = "point k' (nat s) rels"
  have m1: "map fst ?rels1 = map fst rels" using l by (simp add: map_fst_point)
  have d1: "distinct (map fst ?rels1)" using d m1 by simp
  have k1: "rel_pos (\<lambda>off. off = ?vec) ?rels1 = Some k" using map_fst_rel_pos [OF m1] k(1) by simp
  have "names ! j = new" using sym_pos_less [OF j] by simp
  then have "slot names x (point k j ?rels1) = (if x = ?vec then Some (new, 1)
      else if x = dec + 2 then Some (prev, 1) else slot names x rels)" for x
    using slot_point [OF d1 k1, of names x j] slot_point [OF d k(2), of names x "nat s"] n(1) by simp
  moreover have "map fst (point k j ?rels1) = map fst rels" using l m1 by (simp add: map_fst_point point_fst)
  moreover have "abs_fpe vector new decline allowed (rels, names, homes) = Some ((point k j ?rels1, names, homes), True)"
    using base dec j range k e n new by (simp add: abs_fpe_def Let_def)
  ultimately show ?thesis by blast
qed

subsection \<open>The whole installation\<close>

definition fp_steps :: "step list" where
  "fp_steps = [step_of fpsp_vec11_main, step_of fpsp_vectors_main, step_of isp_vec61_main,
     step_of fpe_vec11_main, step_of fpe_vec60_main]"

text \<open>
  An image ready for the installation: every vector to be taken, and the operand of both declines, carries
  one relocation of type \<open>R_68K_32\<close> that names \<open>nullvect\<close>, and all handlers are linked.
\<close>

definition fp_vectors :: "int list" where
  "fp_vectors = [11, 48, 49, 50, 51, 52, 53, 54, 55, 60, 61]"

definition fp_handlers :: "string list" where
  "fp_handlers = [''fpsp_vec11'', ''fpsp_vec48'', ''fpsp_vec49'', ''fpsp_vec50'', ''fpsp_vec51'', ''fpsp_vec52'',
     ''fpsp_vec53'', ''fpsp_vec54'', ''fpsp_vec55'', ''fpsp_vec60'', ''fpe_vec11'', ''fpe_vec60'']"

definition fp_ready :: "rview \<Rightarrow> int \<Rightarrow> int \<Rightarrow> int \<Rightarrow> bool" where
  "fp_ready v base dec dec60 \<longleftrightarrow> (case v of (rels, names, homes) \<Rightarrow>
     abs_value ''M68Kvec'' names homes = Some base \<and> abs_value ''fpe_decline'' names homes = Some dec
     \<and> abs_value ''fpe_decline60'' names homes = Some dec60
     \<and> distinct (map fst rels) \<and> dec \<noteq> dec60
     \<and> list_all (\<lambda>x. slot names x rels = Some (''nullvect'', 1)) ([dec + 2, dec60 + 2] @ map (\<lambda>n. base + n * 4) fp_vectors)
     \<and> dec + 2 \<notin> (\<lambda>n. base + n * 4) ` set fp_vectors \<and> dec60 + 2 \<notin> (\<lambda>n. base + n * 4) ` set fp_vectors
     \<and> list_all (\<lambda>x. (base + 44 \<le> x \<and> x < base + 48 \<longleftrightarrow> x = base + 44)
          \<and> (base + 240 \<le> x \<and> x < base + 244 \<longleftrightarrow> x = base + 240)
          \<and> (dec \<le> x \<and> x < dec + 6 \<longleftrightarrow> x = dec + 2) \<and> (dec60 \<le> x \<and> x < dec60 + 6 \<longleftrightarrow> x = dec60 + 2)) (map fst rels)
     \<and> list_all (\<lambda>n. n \<in> set names) fp_handlers \<and> abs_isp_defined names homes)"

text \<open>What the slots name in the end.\<close>

definition fp_targets :: "int \<Rightarrow> int \<Rightarrow> int \<Rightarrow> (int \<times> string) list" where
  "fp_targets base dec dec60 =
     [(base + 44, ''fpe_vec11''), (dec + 2, ''fpsp_vec11''), (base + 240, ''fpe_vec60''), (dec60 + 2, ''fpsp_vec60''),
      (base + 244, ''isp61_vec''), (base + 192, ''fpsp_vec48''), (base + 196, ''fpsp_vec49''),
      (base + 200, ''fpsp_vec50''), (base + 204, ''fpsp_vec51''), (base + 208, ''fpsp_vec52''),
      (base + 212, ''fpsp_vec53''), (base + 216, ''fpsp_vec54''), (base + 220, ''fpsp_vec55'')]"

text \<open>The facts of a ready image, one by one.\<close>

lemma fp_readyD:
  assumes "fp_ready (rels, names, homes) base dec dec60"
  shows "abs_value ''M68Kvec'' names homes = Some base" "abs_value ''fpe_decline'' names homes = Some dec"
    "abs_value ''fpe_decline60'' names homes = Some dec60" "distinct (map fst rels)" "abs_isp_defined names homes"
    and "list_all (\<lambda>n. n \<in> set names) fp_handlers"
    and "dec \<noteq> dec60" "dec + 2 \<notin> (\<lambda>n. base + n * 4) ` set fp_vectors"
      "dec60 + 2 \<notin> (\<lambda>n. base + n * 4) ` set fp_vectors"
    and "list_all (\<lambda>n. slot names (base + n * 4) rels = Some (''nullvect'', 1)) fp_vectors"
      "slot names (dec + 2) rels = Some (''nullvect'', 1)" "slot names (dec60 + 2) rels = Some (''nullvect'', 1)"
    and "list_all (\<lambda>x. (base + 44 \<le> x \<and> x < base + 48 \<longleftrightarrow> x = base + 44)
          \<and> (base + 240 \<le> x \<and> x < base + 244 \<longleftrightarrow> x = base + 240)
          \<and> (dec \<le> x \<and> x < dec + 6 \<longleftrightarrow> x = dec + 2) \<and> (dec60 \<le> x \<and> x < dec60 + 6 \<longleftrightarrow> x = dec60 + 2)) (map fst rels)"
  using assms [unfolded fp_ready_def prod.case]
  by (simp_all only: simp_thms list_all_append list.pred_inject list.pred_map comp_def)

text \<open>The three steps of \<open>relink-040.sh\<close>.\<close>

lemma fpsp_specs:
  assumes "fp_ready (rels, names, homes) base dec dec60"
  shows "\<exists>r1 r2 r3. abs_vec11 (rels, names, homes) = Some ((r1, names, homes), True)
    \<and> abs_vectors (r1, names, homes) = Some ((r2, names, homes), 9)
    \<and> abs_isp (r2, names, homes) = Some ((r3, names, homes), True) \<and> map fst r3 = map fst rels
    \<and> (\<forall>x. slot names x r3 = (if x = base + 244 then Some (''isp61_vec'', 1)
         else case map_of (map (\<lambda>(vec, target). (base + vec * 4, target)) fpsp_VECTORS) x of
           Some target \<Rightarrow> Some (target, 1)
         | None \<Rightarrow> if x = base + 44 then Some (''fpsp_vec11'', 1) else slot names x rels))"
proof -
  note h = fp_readyD [OF assms]
  note hd = h(6) [unfolded fp_handlers_def, simplified]
  note sl = h(10) [unfolded fp_vectors_def, simplified]
  obtain r1 where r1: "abs_vec11 (rels, names, homes) = Some ((r1, names, homes), True)" "map fst r1 = map fst rels"
    "\<forall>x. slot names x r1 = (if x = base + 44 then Some (''fpsp_vec11'', 1) else slot names x rels)"
    using vec11_slots [OF h(4,1)] hd sl by auto
  have "\<forall>(vec, target) \<in> set fpsp_VECTORS. target \<in> set names \<and> target \<noteq> ''nullvect''
       \<and> slot names (base + vec * 4) r1 = Some (''nullvect'', 1)"
    using hd sl by (simp add: fpsp_VECTORS_def r1(3))
  from vectors_slots [OF _ _ this, of 0] obtain r2 where
    r2: "abs_vectors_loop base names fpsp_VECTORS (r1, 0) = Some (r2, 9)" "map fst r2 = map fst r1"
    "\<forall>x. slot names x r2 = (case map_of (map (\<lambda>(vec, target). (base + vec * 4, target)) fpsp_VECTORS) x of
         Some target \<Rightarrow> Some (target, 1) | None \<Rightarrow> slot names x r1)"
    using h(4) r1(2) by (auto simp: fpsp_VECTORS_def)
  have d2: "distinct (map fst r2)" using h(4) r1(2) r2(2) by simp
  have "slot names (base + 244) r2 = Some (''nullvect'', 1)" "slot names (base + 240) r2 = Some (''fpsp_vec60'', 1)"
    using sl by (simp_all add: r2(3) fpsp_VECTORS_def r1(3))
  from isp_slots [OF d2 h(1,5) this] obtain r3 where
    r3: "abs_isp (r2, names, homes) = Some ((r3, names, homes), True)" "map fst r3 = map fst r2"
    "\<forall>x. slot names x r3 = (if x = base + 244 then Some (''isp61_vec'', 1) else slot names x r2)" by auto
  have "\<forall>x. slot names x r3 = (if x = base + 244 then Some (''isp61_vec'', 1)
         else case map_of (map (\<lambda>(vec, target). (base + vec * 4, target)) fpsp_VECTORS) x of
           Some target \<Rightarrow> Some (target, 1)
         | None \<Rightarrow> if x = base + 44 then Some (''fpsp_vec11'', 1) else slot names x rels)"
    by (simp only: r3(3) r2(3) r1(3) simp_thms)
  moreover have "abs_vectors (r1, names, homes) = Some ((r2, names, homes), 9)"
    using r2(1) h(1) by (simp add: abs_vectors_def)
  moreover have "map fst r3 = map fst rels" using r1(2) r2(2) r3(2) by simp
  ultimately show ?thesis using r1(1) r3(1) by blast
qed

text \<open>One arm, on a table with the same entries as the input.\<close>

lemma arm_specs:
  assumes r: "fp_ready (rels, names, homes) base dec dec60" and m: "map fst r3 = map fst rels"
    and arm: "(vector, new, decline, d, prev) \<in> {(11, ''fpe_vec11'', ''fpe_decline'', dec, ''fpsp_vec11''),
      (60, ''fpe_vec60'', ''fpe_decline60'', dec60, ''fpsp_vec60'')}"
    and s: "slot names (base + vector * 4) r3 = Some (prev, 1)" "slot names (d + 2) r3 = Some (''nullvect'', 1)"
  shows "\<exists>r4. abs_fpe vector new decline [prev, ''nullvect''] (r3, names, homes) = Some ((r4, names, homes), True)
    \<and> map fst r4 = map fst rels \<and> (\<forall>x. slot names x r4 = (if x = base + vector * 4 then Some (new, 1)
         else if x = d + 2 then Some (prev, 1) else slot names x r3))"
proof -
  note h = fp_readyD [OF r]
  note hd = h(6) [unfolded fp_handlers_def, simplified]
  have d3: "distinct (map fst r3)" and o3: "set (map fst r3) = set (map fst rels)" using h(4) m by simp_all
  have e: "base + 11 * 4 = base + 44" "base + 44 + 4 = base + 48" "base + 60 * 4 = base + 240" "base + 240 + 4 = base + 244"
    by simp_all
  have only: "\<forall>x \<in> set (map fst r3). (base + vector * 4 \<le> x \<and> x < base + vector * 4 + 4 \<longleftrightarrow> x = base + vector * 4)
       \<and> (d \<le> x \<and> x < d + 6 \<longleftrightarrow> x = d + 2)"
    using arm h(13) [unfolded list_all_iff] unfolding o3 by (elim insertE emptyE) (simp_all only: prod.inject e, blast+)
  have ne: "d + 2 \<noteq> base + vector * 4"
    using arm h(8,9) by (auto simp: fp_vectors_def)
  have "abs_value decline names homes = Some d" "new \<in> set names" "prev \<noteq> new" using arm h(2,3) hd by auto
  from fpe_slots [OF d3 h(1) this(1,2) _ this(3) s ne only, of "[prev, ''nullvect'']"] m show ?thesis by simp
qed

lemma fp_specs:
  assumes "fp_ready (rels, names, homes) base dec dec60"
  shows "\<exists>r1 r2 r3 r4 r5. abs_vec11 (rels, names, homes) = Some ((r1, names, homes), True)
    \<and> abs_vectors (r1, names, homes) = Some ((r2, names, homes), 9)
    \<and> abs_isp (r2, names, homes) = Some ((r3, names, homes), True)
    \<and> abs_fpe 11 ''fpe_vec11'' ''fpe_decline'' [''fpsp_vec11'', ''nullvect''] (r3, names, homes) = Some ((r4, names, homes), True)
    \<and> abs_fpe 60 ''fpe_vec60'' ''fpe_decline60'' [''fpsp_vec60'', ''nullvect''] (r4, names, homes) = Some ((r5, names, homes), True)
    \<and> (\<forall>x. slot names x r5 = (case map_of (fp_targets base dec dec60) x of
         Some n \<Rightarrow> Some (n, 1) | None \<Rightarrow> slot names x rels))"
proof -
  note h = fp_readyD [OF assms]
  note ne = h(7) h(8,9) [unfolded fp_vectors_def, simplified]
  have ne': "base + 240 \<noteq> dec + 2" using ne(2) by auto
  obtain r1 r2 r3 where r: "abs_vec11 (rels, names, homes) = Some ((r1, names, homes), True)"
    "abs_vectors (r1, names, homes) = Some ((r2, names, homes), 9)"
    "abs_isp (r2, names, homes) = Some ((r3, names, homes), True)" "map fst r3 = map fst rels"
    and s3: "\<forall>x. slot names x r3 = (if x = base + 244 then Some (''isp61_vec'', 1)
         else case map_of (map (\<lambda>(vec, target). (base + vec * 4, target)) fpsp_VECTORS) x of
           Some target \<Rightarrow> Some (target, 1)
         | None \<Rightarrow> if x = base + 44 then Some (''fpsp_vec11'', 1) else slot names x rels)"
    using fpsp_specs [OF assms] by blast
  have "slot names (base + 11 * 4) r3 = Some (''fpsp_vec11'', 1)" "slot names (dec + 2) r3 = Some (''nullvect'', 1)"
    using ne h(11) by (simp_all add: s3 fpsp_VECTORS_def)
  from arm_specs [OF assms r(4) insertI1 this] obtain r4 where
    r4: "abs_fpe 11 ''fpe_vec11'' ''fpe_decline'' [''fpsp_vec11'', ''nullvect''] (r3, names, homes) = Some ((r4, names, homes), True)"
    "map fst r4 = map fst rels" "\<forall>x. slot names x r4 = (if x = base + 11 * 4 then Some (''fpe_vec11'', 1)
         else if x = dec + 2 then Some (''fpsp_vec11'', 1) else slot names x r3)" by blast
  have "slot names (base + 60 * 4) r4 = Some (''fpsp_vec60'', 1)" "slot names (dec60 + 2) r4 = Some (''nullvect'', 1)"
    using ne ne' h(12) by (simp_all add: r4(3) s3 fpsp_VECTORS_def)
  from arm_specs [OF assms r4(2) insertI2 [OF insertI1] this] obtain r5 where
    r5: "abs_fpe 60 ''fpe_vec60'' ''fpe_decline60'' [''fpsp_vec60'', ''nullvect''] (r4, names, homes) = Some ((r5, names, homes), True)"
    "\<forall>x. slot names x r5 = (if x = base + 60 * 4 then Some (''fpe_vec60'', 1)
         else if x = dec60 + 2 then Some (''fpsp_vec60'', 1) else slot names x r4)" by blast
  have "slot names x r5 = (case map_of (fp_targets base dec dec60) x of Some n \<Rightarrow> Some (n, 1) | None \<Rightarrow> slot names x rels)" for x
    using ne ne' by (simp add: r5(2) r4(3) s3 fpsp_VECTORS_def fp_targets_def)
  then show ?thesis using r r4(1) r5(1) by blast
qed

lemma fp_installed:
  assumes w: "wf_rel b" "rel_view b = Inr (rels, names, homes)" and r: "fp_ready (rels, names, homes) base dec dec60"
  shows "\<exists>b' rels'. run_steps fp_steps b = (b', Inr ()) \<and> wf_rel b' \<and> rel_view b' = Inr (rels', names, homes)
    \<and> length b' = length b
    \<and> (\<forall>x. slot names x rels' = (case map_of (fp_targets base dec dec60) x of
         Some n \<Rightarrow> Some (n, 1) | None \<Rightarrow> slot names x rels))"
proof -
  obtain r1 r2 r3 r4 r5 where s: "abs_vec11 (rels, names, homes) = Some ((r1, names, homes), True)"
    "abs_vectors (r1, names, homes) = Some ((r2, names, homes), 9)"
    "abs_isp (r2, names, homes) = Some ((r3, names, homes), True)"
    "abs_fpe 11 ''fpe_vec11'' ''fpe_decline'' [''fpsp_vec11'', ''nullvect''] (r3, names, homes) = Some ((r4, names, homes), True)"
    "abs_fpe 60 ''fpe_vec60'' ''fpe_decline60'' [''fpsp_vec60'', ''nullvect''] (r4, names, homes) = Some ((r5, names, homes), True)"
    "\<forall>x. slot names x r5 = (case map_of (fp_targets base dec dec60) x of
         Some n \<Rightarrow> Some (n, 1) | None \<Rightarrow> slot names x rels)"
    using fp_specs [OF r] by blast
  obtain b1 where b1: "step_of fpsp_vec11_main b = (b1, Inr ())" "wf_rel b1" "rel_view b1 = Inr (r1, names, homes)" "length b1 = length b"
    by (rule vec11.step [OF w s(1)])
  obtain b2 where b2: "step_of fpsp_vectors_main b1 = (b2, Inr ())" "wf_rel b2" "rel_view b2 = Inr (r2, names, homes)" "length b2 = length b1"
    by (rule vectors.step [OF b1(2,3) s(2)])
  obtain b3 where b3: "step_of isp_vec61_main b2 = (b3, Inr ())" "wf_rel b3" "rel_view b3 = Inr (r3, names, homes)" "length b3 = length b2"
    by (rule isp61.step [OF b2(2,3) s(3)])
  obtain b4 where b4: "step_of fpe_vec11_main b3 = (b4, Inr ())" "wf_rel b4" "rel_view b4 = Inr (r4, names, homes)" "length b4 = length b3"
    by (rule fpe11.step [OF b3(2,3) s(4)])
  obtain b5 where b5: "step_of fpe_vec60_main b4 = (b5, Inr ())" "wf_rel b5" "rel_view b5 = Inr (r5, names, homes)" "length b5 = length b4"
    by (rule fpe60.step [OF b4(2,3) s(5)])
  have "run_steps fp_steps b = (b5, Inr ())" by (simp add: fp_steps_def b1(1) b2(1) b3(1) b4(1) b5(1))
  then show ?thesis using b1 b2 b3 b4 b5 s(6) by auto
qed

end
