(* ===== verification/Reloc_Order.thy ===== *)
theory Reloc_Order
  imports Reloc_Latch Reloc_Fp
begin

text \<open>
  The relocation patchers together: each with its abstract specification, and the order in which the two
  latches of the call at \<open>0x5A640\<close> must be applied.
\<close>

definition reloc_specs :: "(bool script \<times> (rview \<Rightarrow> (rview \<times> bool) option)) list" where
  "reloc_specs =
     [(usptrap_main, abs_retarget False 0x5A640 ''cmn_err'' ''unt_latch''),
      (srgtrap_main, abs_retarget False 0x11F0 ''u_trap'' ''srg_utraps''),
      (sdtfail_main, abs_retarget False 0xB64B2 ''cmn_err'' ''hat_sdtfail_count''),
      (segmapdbg_main, abs_retarget False 0xA9080 ''cmn_err'' ''smu_panic_latch''),
      (inittrap_main, abs_retarget False 0x46 ''main'' ''ini_main''),
      (ufault_main, abs_chain 0x5A640 ''unt_latch'' ''uft_latch'' ''unt_latch'' ''uft_magic''),
      (kvecdisp_main, abs_chain 0x11F0 ''srg_utraps'' ''kvd_utraps'' ''srg_utraps'' ''kvd_magic''),
      (swapadd_main, abs_chain 0xB409E ''swapadd'' ''swa_latch'' ''swapadd_real'' ''swa_magic''),
      (fpsp_vec11_main, abs_vec11),
      (isp_vec61_main, abs_isp),
      (fpe_vec11_main, abs_fpe 11 ''fpe_vec11'' ''fpe_decline'' [''fpsp_vec11'', ''nullvect'']),
      (fpe_vec60_main, abs_fpe 60 ''fpe_vec60'' ''fpe_decline60'' [''fpsp_vec60'', ''nullvect''])]"

text \<open>The outcome of a run on a well-formed image, by its specification.\<close>

definition run_meets :: "byte list \<Rightarrow> bool script \<Rightarrow> (rview \<times> bool) option \<Rightarrow> bool" where
  "run_meets b run r = (case r of
     None \<Rightarrow> fst (run b) = b \<and> isl (snd (run b))
   | Some (v', w) \<Rightarrow> snd (run b) = Inr w \<and> wf_rel (fst (run b)) \<and> rel_view (fst (run b)) = Inr v'
       \<and> length (fst (run b)) = length b)"

lemma run_meetsI:
  assumes "reloc_script run spec" "wf_rel b" "rel_view b = Inr v"
  shows "run_meets b run (spec v)"
proof -
  have "case spec v of
      None \<Rightarrow> \<exists>e. run b = (b, Inl e)
    | Some (v', w) \<Rightarrow> \<exists>b'. run b = (b', Inr w) \<and> wf_rel b' \<and> rel_view b' = Inr v' \<and> length b' = length b"
    using reloc_run.refines [OF reloc_script.axioms(1) [OF assms(1)] assms(2,3)] .
  then show ?thesis by (auto simp: run_meets_def split: option.splits)
qed

lemma reloc_specs_scripts: "list_all (\<lambda>(run, spec). reloc_script run spec) reloc_specs"
  unfolding reloc_specs_def
  by (simp add: usptrap.reloc_script_axioms srgtrap.reloc_script_axioms sdtfail.reloc_script_axioms
      segmapdbg.reloc_script_axioms inittrap.reloc_script_axioms ufault.reloc_script_axioms
      kvecdisp.reloc_script_axioms swapadd.reloc_script_axioms vec11.reloc_script_axioms
      isp61.reloc_script_axioms fpe11.reloc_script_axioms fpe60.reloc_script_axioms)

text \<open>A script leaves the file alone when it stops, and finds its own work when it is run again.\<close>

definition rerun_same :: "byte list \<Rightarrow> bool script \<Rightarrow> bool" where
  "rerun_same b run = (case run b of (b', Inl e) \<Rightarrow> b' = b | (b', Inr w) \<Rightarrow> run b' = (b', Inr False))"

lemma rerun_sameI: "reloc_script run spec \<Longrightarrow> wf_rel b \<Longrightarrow> rerun_same b run"
  using reloc_script.rerun [of run spec b] reloc_run.fail_closed [OF reloc_script.axioms(1), of run spec b]
  by (auto simp: rerun_same_def split: prod.splits sum.splits)

lemma reloc_specs_meet:
  assumes "wf_rel b" "rel_view b = Inr v"
  shows "list_all (\<lambda>(run, spec). run_meets b run (spec v) \<and> rerun_same b run) reloc_specs"
  using reloc_specs_scripts run_meetsI [OF _ assms] rerun_sameI [OF _ assms(1)]
  by (auto simp: list_all_iff)

subsection \<open>The two latches of one call\<close>

text \<open>A retarget on the slot of its address: it takes the old name, and refuses any other but the new one.\<close>

lemma retarget_slot:
  assumes s: "slot names x rels = Some (old, ty)" and t: "typed \<longrightarrow> ty = 1" and n: "new \<in> set names" "old \<noteq> new"
  shows "\<exists>rels'. abs_retarget typed x old new (rels, names, homes) = Some ((rels', names, homes), True)
    \<and> slot names x rels' = Some (new, ty)"
proof -
  obtain k where k: "rel_pos (\<lambda>off. off = x) rels = Some k" using s by (auto simp: slot_def)
  obtain off sy ty' where e: "rels ! k = (off, sy, ty')" by (cases "rels ! k")
  have r: "names ! nat sy = old" "ty' = ty" using s by (simp_all add: slot_def k e)
  have l: "k < length rels" "off = x" using rel_pos_less [OF k] e by simp_all
  obtain j where j: "first_pos (\<lambda>n. n = new) names = Some j"
    using n(1) first_pos_None [of "\<lambda>n. n = new" names] by auto
  have "rel_pos (\<lambda>off. off = x) (rels[k := (off, int j, ty)]) = Some k"
    using first_pos_update [OF k [unfolded rel_pos_def], of "(off, int j, ty)"] l by (simp add: rel_pos_def)
  then show ?thesis using k e r l j n(2) t first_pos_Some [OF j]
    by (auto simp: abs_retarget_def rel_pos_def slot_def)
qed

lemma retarget_refuses:
  assumes "slot names x rels = Some (cur, ty)" "cur \<noteq> old" "cur \<noteq> new"
  shows "abs_retarget typed x old new (rels, names, homes) = None"
  using assms by (auto simp: abs_retarget_def slot_def rel_pos_def split: option.splits prod.splits)

definition latch_ready :: "rview \<Rightarrow> bool" where
  "latch_ready v \<longleftrightarrow> (case v of (rels, names, homes) \<Rightarrow> slot names 0x5A640 rels = Some (''cmn_err'', 1)
     \<and> ''unt_latch'' \<in> set names \<and> ''uft_latch'' \<in> set names
     \<and> (case sym_pos ''uft_magic'' names of None \<Rightarrow> False | Some m \<Rightarrow> snd (snd (homes ! m)) = ''.data''))"

lemma latch_order_specs:
  assumes "latch_ready (rels, names, homes)"
  shows "\<exists>r1 r2. abs_chain 0x5A640 ''unt_latch'' ''uft_latch'' ''unt_latch'' ''uft_magic'' (rels, names, homes) = None
    \<and> abs_retarget False 0x5A640 ''cmn_err'' ''unt_latch'' (rels, names, homes) = Some ((r1, names, homes), True)
    \<and> abs_chain 0x5A640 ''unt_latch'' ''uft_latch'' ''unt_latch'' ''uft_magic'' (r1, names, homes) = Some ((r2, names, homes), True)
    \<and> slot names 0x5A640 r2 = Some (''uft_latch'', 1)
    \<and> abs_retarget False 0x5A640 ''cmn_err'' ''unt_latch'' (r2, names, homes) = None"
proof -
  have h: "slot names 0x5A640 rels = Some (''cmn_err'', 1)" "''unt_latch'' \<in> set names" "''uft_latch'' \<in> set names"
    using assms by (simp_all add: latch_ready_def)
  obtain m where m: "first_pos (\<lambda>n. n = ''uft_magic'') names = Some m" "snd (snd (homes ! m)) = ''.data''"
    using assms by (auto simp: latch_ready_def sym_pos_def split: option.splits)
  have chain: "abs_chain 0x5A640 ''unt_latch'' ''uft_latch'' ''unt_latch'' ''uft_magic'' (r, names, homes)
      = abs_retarget True 0x5A640 ''unt_latch'' ''uft_latch'' (r, names, homes)" for r
    using h m by (simp add: abs_chain_def)
  obtain r1 where r1: "abs_retarget False 0x5A640 ''cmn_err'' ''unt_latch'' (rels, names, homes) = Some ((r1, names, homes), True)"
    "slot names 0x5A640 r1 = Some (''unt_latch'', 1)"
    using retarget_slot [OF h(1) _ h(2), of False] by auto
  obtain r2 where r2: "abs_retarget True 0x5A640 ''unt_latch'' ''uft_latch'' (r1, names, homes) = Some ((r2, names, homes), True)"
    "slot names 0x5A640 r2 = Some (''uft_latch'', 1)"
    using retarget_slot [OF r1(2) _ h(3), of True] by auto
  show ?thesis using r1 r2 retarget_refuses [OF h(1), of "''unt_latch''" "''uft_latch''" True homes]
      retarget_refuses [OF r2(2), of "''cmn_err''" "''unt_latch''" False homes]
    by (simp add: chain)
qed

lemma latch_order_run:
  assumes w: "wf_rel b" "rel_view b = Inr v" and r: "latch_ready v"
  shows "fst (ufault_main b) = b" "isl (snd (ufault_main b))"
    and "\<exists>b' rels'. run_steps [step_of usptrap_main, step_of ufault_main] b = (b', Inr ()) \<and> wf_rel b'
      \<and> rel_view b' = Inr (rels', snd v) \<and> slot (fst (snd v)) 0x5A640 rels' = Some (''uft_latch'', 1)
      \<and> fst (usptrap_main b') = b' \<and> isl (snd (usptrap_main b'))"
proof -
  obtain rels names homes where v: "v = (rels, names, homes)" by (cases v)
  obtain r1 r2 where s: "abs_chain 0x5A640 ''unt_latch'' ''uft_latch'' ''unt_latch'' ''uft_magic'' v = None"
    "abs_retarget False 0x5A640 ''cmn_err'' ''unt_latch'' v = Some ((r1, names, homes), True)"
    "abs_chain 0x5A640 ''unt_latch'' ''uft_latch'' ''unt_latch'' ''uft_magic'' (r1, names, homes) = Some ((r2, names, homes), True)"
    "slot names 0x5A640 r2 = Some (''uft_latch'', 1)"
    "abs_retarget False 0x5A640 ''cmn_err'' ''unt_latch'' (r2, names, homes) = None"
    using latch_order_specs r unfolding v by blast
  show "fst (ufault_main b) = b" "isl (snd (ufault_main b))"
    using run_meetsI [OF ufault.reloc_script_axioms w] by (simp_all add: s(1) run_meets_def)
  obtain b1 where b1: "step_of usptrap_main b = (b1, Inr ())" "wf_rel b1" "rel_view b1 = Inr (r1, names, homes)"
    by (rule usptrap.step [OF w s(2)])
  obtain b2 where b2: "step_of ufault_main b1 = (b2, Inr ())" "wf_rel b2" "rel_view b2 = Inr (r2, names, homes)"
    by (rule ufault.step [OF b1(2,3) s(3)])
  have "fst (usptrap_main b2) = b2" "isl (snd (usptrap_main b2))"
    using run_meetsI [OF usptrap.reloc_script_axioms b2(2,3)] by (simp_all add: s(5) run_meets_def)
  then show "\<exists>b' rels'. run_steps [step_of usptrap_main, step_of ufault_main] b = (b', Inr ()) \<and> wf_rel b'
      \<and> rel_view b' = Inr (rels', snd v) \<and> slot (fst (snd v)) 0x5A640 rels' = Some (''uft_latch'', 1)
      \<and> fst (usptrap_main b') = b' \<and> isl (snd (usptrap_main b'))"
    using b1(1) b2 s(4) by (auto simp: v)
qed

end
