(* ===== verification/Reloc_Image.thy ===== *)
theory Reloc_Image
  imports Reloc_Base
begin

text \<open>
  Concrete relocatable images for the witnesses: an image is a file header of 32-bit words, the strings,
  and again 32-bit words (section headers, symbols, relocations).  The lemmas read such an image word by
  word and name by name, so that its view is computed without walking its bytes.
\<close>

definition word_bytes :: "int list \<Rightarrow> byte list" where
  "word_bytes ws = concat (map be32 ws)"

definition words_ok :: "int list \<Rightarrow> bool" where
  "words_ok ws \<longleftrightarrow> list_all (\<lambda>w. 0 \<le> w \<and> w < 4294967296) ws"

definition image_of :: "int list \<Rightarrow> byte list \<Rightarrow> int list \<Rightarrow> byte list" where
  "image_of ws1 strs ws2 = word_bytes ws1 @ strs @ word_bytes ws2"

lemma length_be32 [simp]: "length (be32 w) = 4"
  by (simp add: be32_def)

lemma length_word_bytes [simp]: "length (word_bytes ws) = 4 * length ws"
  by (induction ws) (simp_all add: word_bytes_def)

lemma unpack_be32: "0 \<le> w \<Longrightarrow> w < 4294967296 \<Longrightarrow> unpack_I (be32 w) = Inr w"
  using unpack_pack_I [of w "be32 w"] by (simp add: pack_I_def be32_def)

lemma drop_word_bytes: "k < length ws \<Longrightarrow> drop (4 * k) (word_bytes ws) = be32 (ws ! k) @ word_bytes (drop (Suc k) ws)"
proof (induction ws arbitrary: k)
  case (Cons w ws)
  then show ?case by (cases k) (simp_all add: word_bytes_def)
qed simp

lemma slice_inside:
  assumes "drop n b = v @ r" "0 \<le> i" "nat i = n" "n + length v \<le> length b"
  shows "slice b i (i + int (length v)) = v"
proof -
  have "slice b i (i + int (length v)) = sub (nat i) (length v) b" using assms by (intro slice_eq_sub) auto
  then show ?thesis using assms by (simp add: sub_def)
qed

lemma u32_drop:
  assumes "drop n b = be32 w @ r" "0 \<le> i" "nat i = n" "0 \<le> w" "w < 4294967296"
  shows "u32 b i = Inr w"
proof -
  have "length (drop n b) = 4 + length r" using assms(1) by simp
  then have "n + 4 \<le> length b" by simp
  then have "slice b i (i + int (length (be32 w))) = be32 w"
    using assms by (intro slice_inside) auto
  then show ?thesis using unpack_be32 [OF assms(4,5)] by (simp add: u32_def)
qed

text \<open>The \<open>k\<close>-th word of the header, and of the part after the strings.\<close>

lemma image_word1:
  assumes "words_ok ws1" "0 \<le> i" "i mod 4 = 0" "i div 4 < int (length ws1)"
  shows "u32 (image_of ws1 strs ws2) i = Inr (ws1 ! nat (i div 4))"
proof -
  let ?k = "nat (i div 4)"
  have k: "?k < length ws1" "nat i = 4 * ?k" using assms by (auto simp: nat_less_iff)
  have "drop (4 * ?k) (image_of ws1 strs ws2) = be32 (ws1 ! ?k) @ (word_bytes (drop (Suc ?k) ws1) @ strs @ word_bytes ws2)"
    using k(1) by (simp add: image_of_def drop_word_bytes)
  then show ?thesis using assms k by (intro u32_drop) (auto simp: words_ok_def list_all_length)
qed

lemma image_word2:
  assumes "words_ok ws2" "j = i - int (4 * length ws1 + length strs)" "0 \<le> j" "j mod 4 = 0" "j div 4 < int (length ws2)"
  shows "u32 (image_of ws1 strs ws2) i = Inr (ws2 ! nat (j div 4))"
proof -
  let ?k = "nat (j div 4)" and ?n = "4 * length ws1 + length strs"
  have k: "?k < length ws2" "nat i = ?n + 4 * ?k" using assms by (auto simp: nat_less_iff)
  have "drop (?n + 4 * ?k) (image_of ws1 strs ws2) = be32 (ws2 ! ?k) @ word_bytes (drop (Suc ?k) ws2)"
    using k(1) by (simp add: image_of_def drop_word_bytes [symmetric])
  then show ?thesis using assms k by (intro u32_drop) (auto simp: words_ok_def list_all_length)
qed

text \<open>A name in the strings.\<close>

lemma takeWhile_nul_append:
  assumes "k = length (takeWhile (\<lambda>x. x \<noteq> 0) ys)" "k < length ys"
  shows "takeWhile (\<lambda>x. x \<noteq> 0) (ys @ zs) = take k ys"
proof -
  have "ys ! k = 0" using nth_length_takeWhile [of "\<lambda>x. x \<noteq> 0" ys] assms by simp
  then have "0 \<in> set ys" using assms(2) nth_mem by metis
  then have "takeWhile (\<lambda>x. x \<noteq> 0) (ys @ zs) = takeWhile (\<lambda>x. x \<noteq> 0) ys" by (auto intro: takeWhile_append1)
  then show ?thesis unfolding assms(1) using takeWhile_eq_take [of "\<lambda>x. x \<noteq> 0" ys] by simp
qed

lemma image_name:
  assumes p: "p = nat i - 4 * length ws1" "int (4 * length ws1) \<le> i" "p < length strs"
    and k: "k = length (takeWhile (\<lambda>x. x \<noteq> 0) (drop p strs))" "p + k < length strs"
  shows "index_nul (image_of ws1 strs ws2) i = Inr (i + int k)"
    and "cstr (image_of ws1 strs ws2) i = Inr (take k (drop p strs))"
proof -
  let ?b = "image_of ws1 strs ws2"
  have n: "nat i = 4 * length ws1 + p" "0 \<le> i" using p by auto
  then have "nat i + k < length ?b" using k(2) by (simp add: image_of_def)
  note n = n this
  have d: "drop (nat i) ?b = drop p strs @ word_bytes ws2"
    unfolding n(1) using p(3) by (simp add: image_of_def)
  have c: "clip (length ?b) i = nat i" using n by (intro clip_id) auto
  have tw: "takeWhile (\<lambda>x. x \<noteq> 0) (drop p strs @ word_bytes ws2) = take k (drop p strs)"
    using k by (intro takeWhile_nul_append) auto
  have lk: "length (take k (drop p strs)) = k" using k by simp
  have tw': "takeWhile (\<lambda>x. x \<noteq> 0) (drop (nat i) ?b) = take k (drop p strs)" by (simp only: d tw)
  show nul: "index_nul ?b i = Inr (i + int k)"
    unfolding index_nul_def Let_def c tw' lk using n(2,3) by simp
  have "slice ?b i (i + int k) = sub (nat i) k ?b" using n by (intro slice_eq_sub) auto
  also have "\<dots> = take k (drop p strs)" using k by (simp add: sub_def d)
  finally show "cstr ?b i = Inr (take k (drop p strs))" by (simp add: cstr_def nul)
qed

end
