(* ===== verification/Reloc_Example.thy ===== *)
theory Reloc_Example
  imports Reloc_Image Reloc_Latch Reloc_Fp
begin

text \<open>
  A concrete relocatable image of 1244 bytes with 27 symbols and 15 relocations, on which the witnesses of the
  relocation patchers run: the call at \<open>0x5A640\<close> names \<open>cmn_err\<close>, the vector slots and the operands of
  both declines name \<open>nullvect\<close>.  It is well-formed, and its view is computed here once.
\<close>

definition ex_words1 :: "int list" where
  "ex_words1 = [0x7f454c46, 0x1020100, 0, 0, 0x10004, 1, 0, 0, 0x188, 0, 0x340000, 40, 0x60005]"

definition ex_strs :: "byte list" where
  "ex_strs = [0, 46, 100, 97, 116, 97, 0, 46, 114, 101, 108, 97, 46, 116, 101, 120, 116, 0, 46, 115,
     121, 109, 116, 97, 98, 0, 46, 115, 116, 114, 116, 97, 98, 0, 46, 115, 104, 115, 116, 114,
     116, 97, 98, 0, 0, 99, 109, 110, 95, 101, 114, 114, 0, 117, 110, 116, 95, 108, 97, 116,
     99, 104, 0, 117, 102, 116, 95, 108, 97, 116, 99, 104, 0, 117, 102, 116, 95, 109, 97, 103,
     105, 99, 0, 110, 117, 108, 108, 118, 101, 99, 116, 0, 77, 54, 56, 75, 118, 101, 99, 0,
     102, 112, 115, 112, 95, 118, 101, 99, 49, 49, 0, 102, 112, 115, 112, 95, 118, 101, 99,
     52, 56, 0, 102, 112, 115, 112, 95, 118, 101, 99, 52, 57, 0, 102, 112, 115, 112, 95, 118,
     101, 99, 53, 48, 0, 102, 112, 115, 112, 95, 118, 101, 99, 53, 49, 0, 102, 112, 115, 112,
     95, 118, 101, 99, 53, 50, 0, 102, 112, 115, 112, 95, 118, 101, 99, 53, 51, 0, 102, 112,
     115, 112, 95, 118, 101, 99, 53, 52, 0, 102, 112, 115, 112, 95, 118, 101, 99, 53, 53, 0,
     102, 112, 115, 112, 95, 118, 101, 99, 54, 48, 0, 102, 112, 101, 95, 118, 101, 99, 49, 49,
     0, 102, 112, 101, 95, 118, 101, 99, 54, 48, 0, 102, 112, 101, 95, 100, 101, 99, 108, 105,
     110, 101, 0, 102, 112, 101, 95, 100, 101, 99, 108, 105, 110, 101, 54, 48, 0, 105, 115,
     112, 54, 49, 95, 118, 101, 99, 0, 105, 115, 112, 54, 49, 95, 109, 97, 103, 105, 99, 0,
     105, 115, 112, 54, 49, 95, 101, 110, 116, 114, 121, 95, 110, 0, 105, 115, 112, 54, 49,
     95, 111, 107, 95, 110, 0, 105, 115, 112, 54, 49, 95, 117, 110, 115, 117, 112, 112, 111,
     114, 116, 101, 100, 95, 110, 0, 105, 115, 112, 54, 49, 95, 108, 97, 115, 116, 95, 112,
     99, 0, 0, 0, 0]"

definition ex_words2 :: "int list" where
  "ex_words2 = [0, 0, 0, 0, 0, 0, 0, 0, 0, 0, 1, 1, 0, 0, 52, 0, 0, 0, 0, 0, 7, 4, 0, 0, 0x428, 180, 3,
     0, 0, 12, 18, 2, 0, 0, 0x278, 0x1b0, 4, 0, 0, 16, 26, 3, 0, 0, 96, 0x125, 0, 0, 0, 0, 34,
     3, 0, 0, 52, 44, 0, 0, 0, 0, 0, 0, 0, 0x10000000, 1, 0x3000, 0, 0x10000001, 9, 0x3010, 0,
     0x10000001, 19, 0x3020, 0, 0x10000001, 29, 0x3030, 0, 0x10000001, 39, 0x3040, 0,
     0x10000001, 48, 0x1000, 0, 0x10000001, 56, 0x3060, 0, 0x10000001, 67, 0x3070, 0,
     0x10000001, 78, 0x3080, 0, 0x10000001, 89, 0x3090, 0, 0x10000001, 100, 0x30a0, 0,
     0x10000001, 111, 0x30b0, 0, 0x10000001, 122, 0x30c0, 0, 0x10000001, 133, 0x30d0, 0,
     0x10000001, 144, 0x30e0, 0, 0x10000001, 155, 0x30f0, 0, 0x10000001, 166, 0x3100, 0,
     0x10000001, 176, 0x3110, 0, 0x10000001, 186, 0x2000, 0, 0x10000001, 198, 0x2010, 0,
     0x10000001, 212, 0x3140, 0, 0x10000001, 222, 0x3150, 0, 0x10000001, 234, 0x3160, 0,
     0x10000001, 248, 0x3170, 0, 0x10000001, 0x103, 0x3180, 0, 0x10000001, 0x117, 0x3190, 0,
     0x10000001, 0x100, 0x101, 0, 0x5a640, 0x101, 0, 0x102c, 0x501, 0, 0x10c0, 0x501, 0,
     0x10c4, 0x501, 0, 0x10c8, 0x501, 0, 0x10cc, 0x501, 0, 0x10d0, 0x501, 0, 0x10d4, 0x501, 0,
     0x10d8, 0x501, 0, 0x10dc, 0x501, 0, 0x10f0, 0x501, 0, 0x10f4, 0x501, 0, 0x2002, 0x501, 0,
     0x2012, 0x501, 0]"

definition ex_image :: "byte list" where
  "ex_image = image_of ex_words1 ex_strs ex_words2"

definition ex_names :: "string list" where
  "ex_names = ['''', ''cmn_err'', ''unt_latch'', ''uft_latch'', ''uft_magic'', ''nullvect'', ''M68Kvec'',
     ''fpsp_vec11'', ''fpsp_vec48'', ''fpsp_vec49'', ''fpsp_vec50'', ''fpsp_vec51'', ''fpsp_vec52'',
     ''fpsp_vec53'', ''fpsp_vec54'', ''fpsp_vec55'', ''fpsp_vec60'', ''fpe_vec11'', ''fpe_vec60'',
     ''fpe_decline'', ''fpe_decline60'', ''isp61_vec'', ''isp61_magic'', ''isp61_entry_n'',
     ''isp61_ok_n'', ''isp61_unsupported_n'', ''isp61_last_pc'']"

definition ex_rels :: "rel list" where
  "ex_rels = [(0x100, 1, 1), (0x5a640, 1, 1), (0x102c, 5, 1), (0x10c0, 5, 1), (0x10c4, 5, 1), (0x10c8, 5, 1),
     (0x10cc, 5, 1), (0x10d0, 5, 1), (0x10d4, 5, 1), (0x10d8, 5, 1), (0x10dc, 5, 1), (0x10f0, 5, 1),
     (0x10f4, 5, 1), (0x2002, 5, 1), (0x2012, 5, 1)]"

definition ex_homes :: "place list" where
  "ex_homes = [(0x0, 0, ''''), (0x3000, 1, ''.data''), (0x3010, 1, ''.data''), (0x3020, 1, ''.data''), (0x3030, 1,
     ''.data''), (0x3040, 1, ''.data''), (0x1000, 1, ''.data''), (0x3060, 1, ''.data''), (0x3070, 1,
     ''.data''), (0x3080, 1, ''.data''), (0x3090, 1, ''.data''), (0x30a0, 1, ''.data''), (0x30b0, 1,
     ''.data''), (0x30c0, 1, ''.data''), (0x30d0, 1, ''.data''), (0x30e0, 1, ''.data''), (0x30f0, 1,
     ''.data''), (0x3100, 1, ''.data''), (0x3110, 1, ''.data''), (0x2000, 1, ''.data''), (0x2010, 1,
     ''.data''), (0x3140, 1, ''.data''), (0x3150, 1, ''.data''), (0x3160, 1, ''.data''), (0x3170, 1,
     ''.data''), (0x3180, 1, ''.data''), (0x3190, 1, ''.data'')]"

definition ex_secs :: "string list" where
  "ex_secs = ['''', ''.data'', ''.rela.text'', ''.symtab'', ''.strtab'', ''.shstrtab'']"

definition ex_shdr :: "int \<Rightarrow> int \<Rightarrow> int \<Rightarrow> int \<Rightarrow> int \<Rightarrow> shdr" where
  "ex_shdr n off sz link ent = \<lparr>s_name = n, s_offset = off, s_size = sz, s_link = link, s_entsize = ent\<rparr>"

definition ex_sh :: "shdr list" where
  "ex_sh = [ex_shdr 0 0 0 0 0, ex_shdr 1 52 0 0 0, ex_shdr 7 1064 180 3 12, ex_shdr 18 632 432 4 16, ex_shdr 26
     96 293 0 0, ex_shdr 34 52 44 0 0]"

definition ex_t :: symtables where
  "ex_t = \<lparr>y_sym = ex_sh ! 3, y_str = ex_sh ! 4\<rparr>"

subsection \<open>Reading it\<close>

lemma ex_lengths: "length ex_words1 = 13" "length ex_strs = 340" "length ex_words2 = 213" "length ex_image = 1244"
  by (simp_all add: ex_image_def image_of_def ex_words1_def ex_strs_def ex_words2_def)

lemma ex_ok: "words_ok ex_words1" "words_ok ex_words2"
  by (simp_all add: words_ok_def ex_words1_def ex_words2_def)

lemma ex_word1: "0 \<le> i \<Longrightarrow> i mod 4 = 0 \<Longrightarrow> i < 52 \<Longrightarrow> u32 ex_image i = Inr (ex_words1 ! nat (i div 4))"
  unfolding ex_image_def by (rule image_word1) (auto simp: ex_ok ex_lengths)

lemma ex_word2: "392 \<le> i \<Longrightarrow> i mod 4 = 0 \<Longrightarrow> i < 1244 \<Longrightarrow> u32 ex_image i = Inr (ex_words2 ! nat (i div 4 - 98))"
  unfolding ex_image_def by (subst image_word2 [OF _ refl]) (auto simp: ex_ok ex_lengths)

lemma ex_name:
  assumes "52 \<le> i" "i < 392" "nat i - 52 + length (takeWhile (\<lambda>x. x \<noteq> 0) (drop (nat i - 52) ex_strs)) < 340"
  shows "cstr ex_image i = Inr (takeWhile (\<lambda>x. x \<noteq> 0) (drop (nat i - 52) ex_strs))"
    "index_nul ex_image i = Inr (i + int (length (takeWhile (\<lambda>x. x \<noteq> 0) (drop (nat i - 52) ex_strs))))"
  unfolding ex_image_def using image_name [of "nat i - 52" i ex_words1 ex_strs, OF _ _ _ refl] assms
  by (simp_all add: ex_lengths takeWhile_eq_take [symmetric])

lemma ex_ranges: "py_range 6 = [0, 1, 2, 3, 4, 5]"
  "py_range 27 = [0, 1, 2, 3, 4, 5, 6, 7, 8, 9, 10, 11, 12, 13, 14, 15, 16, 17, 18, 19, 20, 21, 22, 23, 24, 25, 26]"
  "py_range 15 = [0, 1, 2, 3, 4, 5, 6, 7, 8, 9, 10, 11, 12, 13, 14]"
  by (simp_all add: py_range_def upto.simps)

lemma ex_header: "u16 ex_image 46 = Inr 40" "u16 ex_image 48 = Inr 6" "u16 ex_image 50 = Inr 5" "u32 ex_image 32 = Inr 392"
  using u32_halves [of ex_image 44] u32_halves [of ex_image 48] by (simp_all add: ex_word1 ex_words1_def)

lemma ex_section_table: "section_table ex_image = Inr (ex_sh, 52)"
  by (simp add: section_table_def ex_header ex_ranges(1) shdr_at_def ex_word2 ex_words2_def py_nth_def ex_sh_def ex_shdr_def)

lemmas ex_ascii = decode_utf8_def byte_char_def char_of_def bit_0

lemma ex_sec_names:
  "cstr ex_image 52 = Inr []" "index_nul ex_image 52 = Inr 52"
  "cstr ex_image 53 = Inr [46, 100, 97, 116, 97]" "index_nul ex_image 53 = Inr 58"
  "cstr ex_image 59 = Inr [46, 114, 101, 108, 97, 46, 116, 101, 120, 116]" "index_nul ex_image 59 = Inr 69"
  "cstr ex_image 70 = Inr [46, 115, 121, 109, 116, 97, 98]" "index_nul ex_image 70 = Inr 77"
  "cstr ex_image 78 = Inr [46, 115, 116, 114, 116, 97, 98]" "index_nul ex_image 78 = Inr 85"
  "cstr ex_image 86 = Inr [46, 115, 104, 115, 116, 114, 116, 97, 98]" "index_nul ex_image 86 = Inr 95"
  by (simp_all add: ex_name ex_strs_def)

lemma ex_sym_names:
  "cstr ex_image 96 = Inr []" "index_nul ex_image 96 = Inr 96"
  "cstr ex_image 97 = Inr [99, 109, 110, 95, 101, 114, 114]" "index_nul ex_image 97 = Inr 104"
  "cstr ex_image 105 = Inr [117, 110, 116, 95, 108, 97, 116, 99, 104]" "index_nul ex_image 105 = Inr 114"
  "cstr ex_image 115 = Inr [117, 102, 116, 95, 108, 97, 116, 99, 104]" "index_nul ex_image 115 = Inr 124"
  "cstr ex_image 125 = Inr [117, 102, 116, 95, 109, 97, 103, 105, 99]" "index_nul ex_image 125 = Inr 134"
  "cstr ex_image 135 = Inr [110, 117, 108, 108, 118, 101, 99, 116]" "index_nul ex_image 135 = Inr 143"
  "cstr ex_image 144 = Inr [77, 54, 56, 75, 118, 101, 99]" "index_nul ex_image 144 = Inr 151"
  "cstr ex_image 152 = Inr [102, 112, 115, 112, 95, 118, 101, 99, 49, 49]" "index_nul ex_image 152 = Inr 162"
  "cstr ex_image 163 = Inr [102, 112, 115, 112, 95, 118, 101, 99, 52, 56]" "index_nul ex_image 163 = Inr 173"
  "cstr ex_image 174 = Inr [102, 112, 115, 112, 95, 118, 101, 99, 52, 57]" "index_nul ex_image 174 = Inr 184"
  "cstr ex_image 185 = Inr [102, 112, 115, 112, 95, 118, 101, 99, 53, 48]" "index_nul ex_image 185 = Inr 195"
  "cstr ex_image 196 = Inr [102, 112, 115, 112, 95, 118, 101, 99, 53, 49]" "index_nul ex_image 196 = Inr 206"
  "cstr ex_image 207 = Inr [102, 112, 115, 112, 95, 118, 101, 99, 53, 50]" "index_nul ex_image 207 = Inr 217"
  "cstr ex_image 218 = Inr [102, 112, 115, 112, 95, 118, 101, 99, 53, 51]" "index_nul ex_image 218 = Inr 228"
  "cstr ex_image 229 = Inr [102, 112, 115, 112, 95, 118, 101, 99, 53, 52]" "index_nul ex_image 229 = Inr 239"
  "cstr ex_image 240 = Inr [102, 112, 115, 112, 95, 118, 101, 99, 53, 53]" "index_nul ex_image 240 = Inr 250"
  "cstr ex_image 251 = Inr [102, 112, 115, 112, 95, 118, 101, 99, 54, 48]" "index_nul ex_image 251 = Inr 261"
  "cstr ex_image 262 = Inr [102, 112, 101, 95, 118, 101, 99, 49, 49]" "index_nul ex_image 262 = Inr 271"
  "cstr ex_image 272 = Inr [102, 112, 101, 95, 118, 101, 99, 54, 48]" "index_nul ex_image 272 = Inr 281"
  "cstr ex_image 282 = Inr [102, 112, 101, 95, 100, 101, 99, 108, 105, 110, 101]" "index_nul ex_image 282 = Inr 293"
  "cstr ex_image 294 = Inr [102, 112, 101, 95, 100, 101, 99, 108, 105, 110, 101, 54, 48]" "index_nul ex_image 294 = Inr 307"
  "cstr ex_image 308 = Inr [105, 115, 112, 54, 49, 95, 118, 101, 99]" "index_nul ex_image 308 = Inr 317"
  "cstr ex_image 318 = Inr [105, 115, 112, 54, 49, 95, 109, 97, 103, 105, 99]" "index_nul ex_image 318 = Inr 329"
  "cstr ex_image 330 = Inr [105, 115, 112, 54, 49, 95, 101, 110, 116, 114, 121, 95, 110]" "index_nul ex_image 330 = Inr 343"
  "cstr ex_image 344 = Inr [105, 115, 112, 54, 49, 95, 111, 107, 95, 110]" "index_nul ex_image 344 = Inr 354"
  "cstr ex_image 355 = Inr [105, 115, 112, 54, 49, 95, 117, 110, 115, 117, 112, 112, 111, 114, 116, 101, 100, 95, 110]" "index_nul ex_image 355 = Inr 374"
  "cstr ex_image 375 = Inr [105, 115, 112, 54, 49, 95, 108, 97, 115, 116, 95, 112, 99]" "index_nul ex_image 375 = Inr 388"
  by (simp_all add: ex_name ex_strs_def)

lemma ex_secs_read: "map_e (sec_name ex_image 52) ex_sh = Inr ex_secs"
  by (simp add: ex_sh_def ex_shdr_def ex_secs_def sec_name_def utf8_at_def ex_sec_names ex_ascii)

lemma ex_sec_dict: "sec_dict ex_image 52 ex_sh = Inr (zip ex_secs ex_sh)"
  using ex_secs_read by (simp add: sec_dict_def ex_sh_def ex_secs_def py_dict_def)

lemma ex_link: "link_tables ex_image = Inr (ex_sh, 52, ex_sh ! 2, ex_t)"
  by (simp add: link_tables_def ex_section_table ex_sec_dict)
    (simp add: ex_sh_def ex_secs_def py_nth_def dict_get_def ex_shdr_def ex_t_def)

lemma ex_link': "name_tables ex_image = Inr (ex_sh, 52, ex_sh ! 2, ex_t)"
  by (simp add: name_tables_def name_symtab_def ex_section_table ex_sec_dict)
    (simp add: ex_sh_def ex_secs_def py_nth_def dict_get_def ex_shdr_def ex_t_def)

lemma ex_fields: "s_offset (ex_sh ! 2) = 1064" "s_size (ex_sh ! 2) = 180" "s_entsize (ex_sh ! 2) = 12"
  "s_offset (y_sym ex_t) = 632" "s_size (y_sym ex_t) = 432" "s_entsize (y_sym ex_t) = 16" "s_offset (y_str ex_t) = 96"
  by (simp_all add: ex_t_def ex_sh_def ex_shdr_def)

lemma ex_counts: "nsyms ex_t = Inr 27" "nrels (ex_sh ! 2) = Inr 15"
  by (simp_all add: nsyms_def nrels_def ex_fields py_div_def)

lemma ex_rels_read: "rels_of ex_image (ex_sh ! 2) = Inr ex_rels"
  by (simp add: rels_of_def ex_counts ex_ranges(3) ex_rels_def rel_at_def row_pos_def ex_fields ex_word2 ex_words2_def)

lemma ex_name_words: "map_e (\<lambda>i. u32 ex_image (632 + i * 16)) (py_range 27) = Inr [0, 1, 9, 19, 29, 39, 48, 56, 67, 78, 89, 100, 111, 122, 133, 144, 155, 166, 176, 186, 198, 212, 222, 234, 248, 259, 279]"
  by (simp add: ex_ranges(2) ex_word2 ex_words2_def)

lemma ex_names_read: "names_of ex_image ex_t = Inr ex_names"
  using ex_name_words by (simp add: names_of_def ex_counts ex_ranges(2) ex_names_def symname_def ex_fields utf8_at_def ex_sym_names ex_ascii)

lemma ex_half: "392 \<le> i - 2 \<Longrightarrow> (i - 2) mod 4 = 0 \<Longrightarrow> i - 2 < 1244 \<Longrightarrow>
    u16 ex_image i = Inr (ex_words2 ! nat ((i - 2) div 4 - 98) mod 65536)"
  using u32_halves(2) [OF ex_word2, of "i - 2"] by simp

lemma ex_homes_read: "homes_of ex_image ex_sh 52 ex_t = Inr ex_homes"
  by (simp add: homes_of_def ex_secs_read ex_counts ex_ranges(2) ex_homes_def place_of_def symvalue_def symshndx_def
      ex_fields ex_word2 ex_half ex_words2_def home_def ex_secs_def py_nth_def)

lemma ex_view: "rel_view ex_image = Inr (ex_rels, ex_names, ex_homes)"
  by (simp add: rel_view_def ex_link ex_rels_read ex_names_read ex_homes_read)

subsection \<open>It is well-formed\<close>

lemma ex_hdr_clear: "hdr_clear ex_image 1064 1244"
  by (simp add: hdr_clear_def ex_header ex_ranges(1) ex_word2 ex_words2_def outside_def name_clear_def ex_sec_names)

lemma ex_name_total: "0 \<le> i \<Longrightarrow> i < 27 \<Longrightarrow> symname ex_image ex_t i = Inr (ex_names ! nat i)"
  by (intro symname_names [OF ex_names_read]) (simp_all add: ex_names_def)

lemma ex_names_clear: "list_all (\<lambda>i. case u32 ex_image (632 + i * 16) of Inl _ \<Rightarrow> False
    | Inr nm \<Rightarrow> name_clear ex_image 1064 1244 (96 + nm)) (py_range 27)"
  by (simp add: ex_ranges(2) ex_word2 ex_words2_def name_clear_def outside_def ex_sym_names)

lemma ex_syms_clear: "syms_clear ex_image 1064 1244 ex_t 27"
  unfolding syms_clear_def sym_row_def ex_fields using ex_names_clear
  by (auto simp: list_all_iff ex_lengths outside_def ex_name_total isl_def simp del: set_py_range simp: set_py_range [of _ 27])

lemma ex_wf: "wf_rel ex_image"
  using ex_hdr_clear ex_syms_clear
  by (simp add: wf_rel_def ex_link ex_link' wf_tables_def ex_fields ex_lengths ex_rels_read) (simp add: ex_rels_def)

lemma ex_ready: "fp_ready (ex_rels, ex_names, ex_homes) 0x1000 0x2000 0x2010"
  by (simp add: fp_ready_def)
    (simp add: ex_names_def ex_homes_def ex_rels_def abs_value_def slot_def rel_pos_def fp_vectors_def fp_handlers_def
      abs_isp_defined_def isp_NEEDED_def sym_pos_def)

end
