(* ===== verification/Kelf.thy ===== *)
theory Kelf
  imports Reloc_Base
begin

text \<open>
  \<open>kelf.py\<close>, the ELF reader that \<open>patch_rth1_hook\<close>, \<open>patch_pgrsv_sites\<close> and \<open>patch_isp060_hook\<close> share,
  and these three patchers, which route calls through a hook by changing relocations.  They find the
  calls by what the relocations of \<open>.rela.text\<close> name, check everything before they write, and read the
  written file again.
\<close>

subsection \<open>The reader\<close>

record kelf =
  k_sh :: "shdr list"
  k_names :: "string list"
  k_sec :: "(string \<times> shdr) list"
  k_syo :: int
  k_sye :: int
  k_syn :: int
  k_stro :: int

definition kelf_of :: "byte list \<Rightarrow> exn + kelf" where
  "kelf_of b = bind_e (section_table b) (\<lambda>(sh, base).
     bind_e (map_e (sec_name b base) sh) (\<lambda>names. let sec = py_dict (zip names sh) in
     bind_e (dict_get ''.symtab'' sec) (\<lambda>st. bind_e (py_div (s_size st) (s_entsize st)) (\<lambda>syn.
     bind_e (py_nth sh (s_link st)) (\<lambda>strt.
     Inr \<lparr>k_sh = sh, k_names = names, k_sec = sec, k_syo = s_offset st, k_sye = s_entsize st, k_syn = syn,
           k_stro = s_offset strt\<rparr>)))))"

record ksymbol =
  ks_name :: string
  ks_value :: int
  ks_info :: int
  ks_shndx :: int

definition byte_at :: "byte list \<Rightarrow> int \<Rightarrow> exn + int" where
  "byte_at b i = bind_e (py_nth b i) (\<lambda>w. Inr (uint w))"

definition ksym :: "byte list \<Rightarrow> kelf \<Rightarrow> int \<Rightarrow> exn + ksymbol" where
  "ksym b e i = (let o' = k_syo e + i * k_sye e in
     bind_e (u32 b o') (\<lambda>n. bind_e (cstr b (k_stro e + n)) (\<lambda>nm. bind_e (u32 b (o' + 4)) (\<lambda>v.
     bind_e (byte_at b (o' + 12)) (\<lambda>info. bind_e (u16 b (o' + 14)) (\<lambda>shndx.
     Inr \<lparr>ks_name = decode_latin1 nm, ks_value = v, ks_info = info, ks_shndx = shndx\<rparr>))))))"

fun kindex_loop :: "byte list \<Rightarrow> kelf \<Rightarrow> string \<Rightarrow> int list \<Rightarrow> exn + int" where
  "kindex_loop b e name [] = Inl (SystemExit ''ABORT: no defined symbol'')"
| "kindex_loop b e name (i # is) = bind_e (ksym b e i) (\<lambda>s.
     if ks_name s = name \<and> ks_shndx s \<noteq> 0 then Inr i else kindex_loop b e name is)"

definition kindex :: "byte list \<Rightarrow> kelf \<Rightarrow> string \<Rightarrow> exn + int" where
  "kindex b e name = kindex_loop b e name (py_range (k_syn e))"

text \<open>\<open>rela\<close>: offset to (file position, symbol index, type, addend); a later entry replaces an earlier one.\<close>

type_synonym krel = "int \<times> int \<times> int \<times> int"

definition krel_at :: "byte list \<Rightarrow> shdr \<Rightarrow> int \<Rightarrow> exn + int \<times> krel" where
  "krel_at b s i = (let o' = row_pos s i in
     bind_e (u32 b (o' + 4)) (\<lambda>info. bind_e (u32 b o') (\<lambda>off. bind_e (i32 b (o' + 8)) (\<lambda>ad.
     Inr (off, o', info div 256, info mod 256, ad)))))"

definition krela :: "byte list \<Rightarrow> kelf \<Rightarrow> string \<Rightarrow> exn + (int \<times> krel) list" where
  "krela b e secname = bind_e (dict_get secname (k_sec e)) (\<lambda>s. bind_e (nrels s) (\<lambda>n.
     bind_e (map_e (krel_at b s) (py_range n)) (\<lambda>kvs. Inr (py_dict kvs))))"

text \<open>\<open>target\<close>: the section, the offset in it, and the name unless the symbol is a section symbol.\<close>

definition ktarget :: "byte list \<Rightarrow> kelf \<Rightarrow> int \<Rightarrow> int \<Rightarrow> exn + string option \<times> int \<times> string option \<times> bool" where
  "ktarget b e symidx addend = bind_e (ksym b e symidx) (\<lambda>s.
     let sec = (if 0 < ks_shndx s \<and> ks_shndx s < int (length (k_names e)) then Some (k_names e ! nat (ks_shndx s)) else None) in
     Inr (if ks_info s mod 16 = 3 then (sec, addend, None, False)
          else (sec, ks_value s + addend, Some (ks_name s), ks_info s div 16 = 1 \<and> addend = 0)))"

definition ktext :: "byte list \<Rightarrow> kelf \<Rightarrow> int \<Rightarrow> int \<Rightarrow> exn + byte list" where
  "ktext b e off n = bind_e (dict_get ''.text'' (k_sec e)) (\<lambda>s. Inr (slice b (s_offset s + off) (s_offset s + off + n)))"

text \<open>\<open>names.index(s)\<close>\<close>

definition name_index :: "string list \<Rightarrow> string \<Rightarrow> exn + int" where
  "name_index names s = (case first_pos (\<lambda>n. n = s) names of None \<Rightarrow> Inl ValueError | Some k \<Rightarrow> Inr (int k))"

definition text_end :: "kelf \<Rightarrow> exn + int" where
  "text_end e = bind_e (dict_get ''.text'' (k_sec e)) (\<lambda>s. Inr (s_size s))"

text \<open>\<open>min([v for v in vals if v > lo] or [size])\<close>\<close>

definition next_value :: "kelf \<Rightarrow> int list \<Rightarrow> int \<Rightarrow> exn + int" where
  "next_value e vals lo = (case filter (\<lambda>v. lo < v) vals of [] \<Rightarrow> text_end e | v # vs \<Rightarrow> Inr (fold min vs v))"

text \<open>\<open>rt[off]\<close>, and the offsets of \<open>sorted(rt)\<close>.\<close>

definition krel_get :: "int \<Rightarrow> (int \<times> krel) list \<Rightarrow> exn + krel" where
  "krel_get off rt = (case map_of rt off of None \<Rightarrow> Inl (KeyError ''offset'') | Some r \<Rightarrow> Inr r)"


definition offsets :: "(int \<times> krel) list \<Rightarrow> int list" where
  "offsets rt = sort (map fst rt)"

end
