(* ===== verification/Kelf_Hooks.thy ===== *)
theory Kelf_Hooks
  imports Kelf
begin

text \<open>
  \<open>patch_rth1_hook\<close> (the call of \<open>vfs_mountroot\<close> in \<open>main\<close>) and \<open>patch_isp060_hook\<close> (the decline of
  \<open>isp61_vec\<close>): each changes the symbol of one relocation, and each has a \<open>--check\<close> that verifies a
  finished kernel.
\<close>

subsection \<open>patch_rth1_hook\<close>

fun text_extent_loop :: "byte list \<Rightarrow> kelf \<Rightarrow> string \<Rightarrow> int \<Rightarrow> int list \<Rightarrow> int list \<times> int option
    \<Rightarrow> exn + int list \<times> int option" where
  "text_extent_loop b e name tidx [] s = Inr s"
| "text_extent_loop b e name tidx (i # is) (vals, lo) = bind_e (ksym b e i) (\<lambda>s.
     if ks_shndx s \<noteq> tidx \<or> ks_info s mod 16 = 3 then text_extent_loop b e name tidx is (vals, lo)
     else if ks_name s = name then
       (if lo \<noteq> None \<and> lo \<noteq> Some (ks_value s) then Inl (SystemExit ''ABORT: two definitions'')
        else text_extent_loop b e name tidx is (ks_value s # vals, Some (ks_value s)))
     else text_extent_loop b e name tidx is (ks_value s # vals, lo))"

definition text_extent :: "byte list \<Rightarrow> kelf \<Rightarrow> string \<Rightarrow> exn + int \<times> int" where
  "text_extent b e name = bind_e (name_index (k_names e) ''.text'') (\<lambda>tidx.
     bind_e (text_extent_loop b e name tidx (py_range (k_syn e)) ([], None)) (\<lambda>(vals, lo). case lo of
       None \<Rightarrow> Inl (SystemExit ''ABORT: not defined in .text'')
     | Some l \<Rightarrow> bind_e (next_value e vals l) (\<lambda>hi. Inr (l, hi))))"

text \<open>
  A reference to one of \<open>names\<close> must be the operand of \<open>jsr <abs>.l\<close>, of type \<open>R_68K_32\<close> and with addend 0.
\<close>

fun calls_loop :: "byte list \<Rightarrow> kelf \<Rightarrow> (int \<times> krel) list \<Rightarrow> int \<Rightarrow> int \<Rightarrow> string list \<Rightarrow> int list
    \<Rightarrow> exn + (int \<times> string) list" where
  "calls_loop b e rt lo hi names [] = Inr []"
| "calls_loop b e rt lo hi names (off # offs) =
     (if \<not> (lo \<le> off \<and> off < hi) then calls_loop b e rt lo hi names offs
      else bind_e (krel_get off rt) (\<lambda>(_, si, typ, ad).
        bind_e (ktarget b e si ad) (\<lambda>(sec, val, name, glob). case name of
          None \<Rightarrow> calls_loop b e rt lo hi names offs
        | Some nm \<Rightarrow>
            if nm \<in> set names then
              (if typ \<noteq> 1 \<or> ad \<noteq> 0 then Inl (SystemExit ''ABORT: the reference is not a jsr'')
               else bind_e (ktext b e (off - 2) 2) (\<lambda>opc.
                 if opc \<noteq> [0x4e, 0xb9] then Inl (SystemExit ''ABORT: the reference is not a jsr'')
                 else bind_e (calls_loop b e rt lo hi names offs) (\<lambda>rest. Inr ((off, nm) # rest))))
            else calls_loop b e rt lo hi names offs)))"

definition calls :: "byte list \<Rightarrow> kelf \<Rightarrow> (int \<times> krel) list \<Rightarrow> int \<Rightarrow> int \<Rightarrow> string list
    \<Rightarrow> exn + (int \<times> string) list" where
  "calls b e rt lo hi names = calls_loop b e rt lo hi names (offsets rt)"

text \<open>\<open>(rt, offset, hooked)\<close>\<close>

definition rth1_state :: "byte list \<Rightarrow> kelf \<Rightarrow> exn + (int \<times> krel) list \<times> int \<times> bool" where
  "rth1_state b e = bind_e (krela b e ''.rela.text'') (\<lambda>rt.
     bind_e (text_extent b e ''main'') (\<lambda>(lo, hi).
     bind_e (calls b e rt lo hi [''vfs_mountroot'', ''rth1_mountroot'']) (\<lambda>c. case c of
       [(off, name)] \<Rightarrow>
         bind_e (text_extent b e ''rth1_mountroot'') (\<lambda>(hlo, hhi).
         bind_e (calls b e rt hlo hhi [''vfs_mountroot'']) (\<lambda>inner.
         if length inner \<noteq> 1 then Inl (SystemExit ''ABORT: rth1_mountroot does not call vfs_mountroot once'')
         else Inr (rt, off, name = ''rth1_mountroot'')))
     | _ \<Rightarrow> Inl (SystemExit ''ABORT: main does not reference vfs_mountroot/rth1_mountroot once''))))"

text \<open>\<open>e.b[eo + 4:eo + 8] = struct.pack(">I", (idx << 8) | R_68K_32)\<close>\<close>

definition set_info :: "byte list \<Rightarrow> int \<Rightarrow> int \<Rightarrow> exn + byte list" where
  "set_info b eo idx = bind_e (pack_I (idx * 256 + 1)) (\<lambda>w. Inr (splice b (eo + 4) (eo + 8) w))"

text \<open>
  The shape of both patch commands: find the one reference, and if it is not hooked, rewrite it, write
  the file, and look again.  The result is whether the script wrote.
\<close>

definition hook_patch :: "(byte list \<Rightarrow> kelf \<Rightarrow> exn + (int \<times> krel) list \<times> int \<times> bool) \<Rightarrow> string \<Rightarrow> bool script" where
  "hook_patch state hook b =
     (case bind_e (kelf_of b) (\<lambda>e. bind_e (state b e) (\<lambda>(rt, off, hooked).
        if hooked then Inr None
        else bind_e (krel_get off rt) (\<lambda>(eo, _). bind_e (kindex b e hook) (\<lambda>idx.
          bind_e (set_info b eo idx) (\<lambda>b'. Inr (Some b')))))) of
      Inl x \<Rightarrow> (b, Inl x)
    | Inr None \<Rightarrow> (b, Inr False)
    | Inr (Some b') \<Rightarrow> (b', bind_e (kelf_of b') (\<lambda>e2. bind_e (state b' e2) (\<lambda>(rt, off, hooked).
        if hooked then Inr True else Inl (SystemExit ''ABORT: the retarget did not take'')))))"

definition rth1_patch :: "bool script" where
  "rth1_patch = hook_patch rth1_state ''rth1_mountroot''"

text \<open>\<open>check_data\<close>: a symbol of \<open>.data\<close> and the longword the image holds there.\<close>

definition data_symbol :: "byte list \<Rightarrow> kelf \<Rightarrow> string \<Rightarrow> exn + int \<times> int" where
  "data_symbol b e name = bind_e (kindex b e name) (\<lambda>i. bind_e (ksym b e i) (\<lambda>s. Inr (ks_shndx s, ks_value s)))"

fun rth1_unset :: "byte list \<Rightarrow> kelf \<Rightarrow> int \<Rightarrow> int \<Rightarrow> string list \<Rightarrow> exn + unit" where
  "rth1_unset b e doff didx [] = Inr ()"
| "rth1_unset b e doff didx (n # ns) = bind_e (data_symbol b e n) (\<lambda>(shndx, v).
     if shndx \<noteq> didx then Inl (SystemExit ''FAIL: not in .data'')
     else bind_e (u32 b (doff + v)) (\<lambda>w. if w \<noteq> 0xFFFFFFFF then Inl (SystemExit ''FAIL: already run'')
       else rth1_unset b e doff didx ns))"

definition rth1_check :: "byte list \<Rightarrow> exn + unit" where
  "rth1_check b = bind_e (kelf_of b) (\<lambda>e. bind_e (rth1_state b e) (\<lambda>(rt, off, hooked).
     if \<not> hooked then Inl (SystemExit ''FAIL: main still calls vfs_mountroot'')
     else bind_e (dict_get ''.data'' (k_sec e)) (\<lambda>data. bind_e (name_index (k_names e) ''.data'') (\<lambda>didx.
       bind_e (rth1_unset b e (s_offset data) didx [''rth1_used'', ''rth1_why'']) (\<lambda>_.
       bind_e (kindex b e ''sdcardbase'') (\<lambda>_. Inr ()))))))"

definition QUEUE_LEAS :: "int list" where
  "QUEUE_LEAS = [0xD6D2, 0xD6FE, 0xD720]"

fun queue_targets :: "byte list \<Rightarrow> kelf \<Rightarrow> (int \<times> krel) list \<Rightarrow> int list \<Rightarrow> exn + (string option \<times> int) list" where
  "queue_targets b e rt [] = Inr []"
| "queue_targets b e rt (site # sites) = bind_e (ktext b e site 2) (\<lambda>opc.
     if opc \<noteq> [0x41, 0xf9] \<or> map_of rt (site + 2) = None then Inl (SystemExit ''ABORT: not the relocated lea'')
     else bind_e (krel_get (site + 2) rt) (\<lambda>(_, si, typ, ad). bind_e (ktarget b e si ad) (\<lambda>(sec, off, _, _).
       bind_e (queue_targets b e rt sites) (\<lambda>qt. Inr ((sec, off) # qt)))))"

text \<open>
  The message of the last abort sorts the targets, and Python cannot order a target without a section
  against one with.
\<close>

definition rth1_queue_tbl :: "byte list \<Rightarrow> exn + int" where
  "rth1_queue_tbl b = bind_e (kelf_of b) (\<lambda>e. bind_e (krela b e ''.rela.text'') (\<lambda>rt.
     bind_e (queue_targets b e rt QUEUE_LEAS) (\<lambda>qt. case remdups qt of
       [(Some sec, off)] \<Rightarrow> if sec = ''.bss'' then Inr off else Inl (SystemExit ''ABORT: the accessors do not agree'')
     | qs \<Rightarrow> if (\<exists>q \<in> set qs. fst q = None) \<and> (\<exists>q \<in> set qs. fst q \<noteq> None) then Inl TypeError
            else Inl (SystemExit ''ABORT: the accessors do not agree''))))"

text \<open>\<open>sys.argv[1:]\<close> decides; the file is that of the path.  The result is the printed offset, if any.\<close>

definition is_option :: "string \<Rightarrow> bool" where
  "is_option s \<longleftrightarrow> (case s of [] \<Rightarrow> False | c # cs \<Rightarrow> c = CHR ''-'')"

definition rth1_main :: "string list \<Rightarrow> int option script" where
  "rth1_main a b = (case a of
     [path] \<Rightarrow> if is_option path then (b, Inl (SystemExit ''usage''))
               else map_prod id (map_sum id (\<lambda>_. None)) (rth1_patch b)
   | [opt, path] \<Rightarrow>
       if opt = ''--check'' then (b, map_sum id (\<lambda>_. None) (rth1_check b))
       else if opt = ''--queue-tbl'' then (b, map_sum id Some (rth1_queue_tbl b))
       else (b, Inl (SystemExit ''usage''))
   | _ \<Rightarrow> (b, Inl (SystemExit ''usage'')))"

subsection \<open>patch_isp060_hook\<close>

fun isp_extent_loop :: "byte list \<Rightarrow> kelf \<Rightarrow> string \<Rightarrow> int \<Rightarrow> int list \<Rightarrow> int list \<times> int option
    \<Rightarrow> exn + int list \<times> int option" where
  "isp_extent_loop b e name tidx [] s = Inr s"
| "isp_extent_loop b e name tidx (i # is) (vals, lo) = bind_e (ksym b e i) (\<lambda>s.
     if ks_shndx s \<noteq> tidx \<or> ks_info s mod 16 = 3 \<or> ks_info s div 16 \<noteq> 1 then isp_extent_loop b e name tidx is (vals, lo)
     else isp_extent_loop b e name tidx is (ks_value s # vals, if ks_name s = name then Some (ks_value s) else lo))"

definition isp_extent :: "byte list \<Rightarrow> kelf \<Rightarrow> string \<Rightarrow> exn + int \<times> int" where
  "isp_extent b e name = bind_e (name_index (k_names e) ''.text'') (\<lambda>tidx.
     bind_e (isp_extent_loop b e name tidx (py_range (k_syn e)) ([], None)) (\<lambda>(vals, lo). case lo of
       None \<Rightarrow> Inl (SystemExit ''ABORT: not a global .text symbol'')
     | Some l \<Rightarrow> bind_e (next_value e vals l) (\<lambda>hi. Inr (l, hi))))"

fun refs_loop :: "byte list \<Rightarrow> kelf \<Rightarrow> (int \<times> krel) list \<Rightarrow> int \<Rightarrow> int \<Rightarrow> string list \<Rightarrow> int list
    \<Rightarrow> exn + (int \<times> string \<times> int \<times> int) list" where
  "refs_loop b e rt lo hi names [] = Inr []"
| "refs_loop b e rt lo hi names (off # offs) =
     (if lo \<le> off \<and> off < hi then
        bind_e (krel_get off rt) (\<lambda>(_, si, typ, ad). bind_e (ktarget b e si ad) (\<lambda>(_, _, name, _).
        bind_e (refs_loop b e rt lo hi names offs) (\<lambda>rest. case name of
          None \<Rightarrow> Inr rest
        | Some n \<Rightarrow> Inr (if n \<in> set names then (off, n, typ, ad) # rest else rest))))
      else refs_loop b e rt lo hi names offs)"

definition isp060_state :: "byte list \<Rightarrow> kelf \<Rightarrow> exn + (int \<times> krel) list \<times> int \<times> bool" where
  "isp060_state b e = bind_e (krela b e ''.rela.text'') (\<lambda>rt.
     bind_e (isp_extent b e ''isp61_vec'') (\<lambda>(lo, hi).
     bind_e (refs_loop b e rt lo hi [''nullvect'', ''isp060_unimp''] (offsets rt)) (\<lambda>r. case r of
       [(off, name, typ, ad)] \<Rightarrow>
         if typ \<noteq> 1 \<or> ad \<noteq> 0 then Inl (SystemExit ''ABORT: the reference is not a jmp'')
         else bind_e (ktext b e (off - 2) 2) (\<lambda>opc.
           if opc \<noteq> [0x4e, 0xf9] then Inl (SystemExit ''ABORT: the reference is not a jmp'')
           else bind_e (isp_extent b e ''isp060_unimp'') (\<lambda>(nlo, nhi).
             bind_e (refs_loop b e rt nlo (min nhi (nlo + 0x40)) [''nullvect''] (offsets rt)) (\<lambda>first.
             if length first \<noteq> 1 then Inl (SystemExit ''ABORT: no stock exit'')
             else bind_e (kindex b e ''M68Kvec'') (\<lambda>vi. bind_e (ksym b e vi) (\<lambda>vs.
               case map_of rt (ks_value vs + 61 * 4) of
                 None \<Rightarrow> Inl (SystemExit ''ABORT: M68Kvec[61] does not name isp61_vec'')
               | Some (_, si, typ', ad') \<Rightarrow> bind_e (ktarget b e si ad') (\<lambda>(_, _, n, _).
                   if n \<noteq> Some ''isp61_vec'' then Inl (SystemExit ''ABORT: M68Kvec[61] does not name isp61_vec'')
                   else Inr (rt, off, name = ''isp060_unimp'')))))))
     | _ \<Rightarrow> Inl (SystemExit ''ABORT: isp61_vec does not reference nullvect/isp060_unimp once''))))"

definition isp060_patch :: "bool script" where
  "isp060_patch = hook_patch isp060_state ''isp060_unimp''"

definition isp060_check :: "byte list \<Rightarrow> exn + unit" where
  "isp060_check b = bind_e (kelf_of b) (\<lambda>e. bind_e (isp060_state b e) (\<lambda>(rt, off, hooked).
     if \<not> hooked then Inl (SystemExit ''FAIL: the decline still goes to nullvect'')
     else bind_e (dict_get ''.data'' (k_sec e)) (\<lambda>data. bind_e (name_index (k_names e) ''.data'') (\<lambda>didx.
       bind_e (data_symbol b e ''i60_magic'') (\<lambda>(shndx, v). bind_e (u32 b (s_offset data + v)) (\<lambda>w.
       if shndx \<noteq> didx \<or> w \<noteq> 0x49533630 then Inl (SystemExit ''FAIL: i60_magic'') else Inr ()))))))"

definition isp060_main :: "string list \<Rightarrow> unit script" where
  "isp060_main a b = (case a of
     [path] \<Rightarrow> if is_option path then (b, Inl (SystemExit ''usage''))
               else map_prod id (map_sum id (\<lambda>_. ())) (isp060_patch b)
   | [opt, path] \<Rightarrow> if opt = ''--check'' then (b, isp060_check b) else (b, Inl (SystemExit ''usage''))
   | _ \<Rightarrow> (b, Inl (SystemExit ''usage'')))"

subsection \<open>What the patch commands do\<close>

lemma u32_room:
  assumes "u32 b i = Inr u"
  shows "clip (length b) i + 4 \<le> length b" and "length w = 4 \<Longrightarrow> splice b i (i + 4) w = overwrite (clip (length b) i) w b"
proof -
  have "length (slice b i (i + int 4)) = 4" using assms by (auto simp: u32_def unpack_I_def split: list.splits)
  from slice_full [OF this] show "clip (length b) i + 4 \<le> length b"
    and "length w = 4 \<Longrightarrow> splice b i (i + 4) w = overwrite (clip (length b) i) w b" by simp_all
qed

lemma krela_readable:
  assumes "krela b e nm = Inr rt" "krel_get off rt = Inr (eo, si, typ, ad)"
  shows "\<exists>u. u32 b (eo + 4) = Inr u"
proof -
  obtain s n kvs where k: "map_e (krel_at b s) (py_range n) = Inr kvs" "rt = py_dict kvs"
    using assms(1) by (auto simp: krela_def)
  have "(off, eo, si, typ, ad) \<in> set kvs"
    using assms(2) k(2) by (auto simp: krel_get_def map_of_py_dict dest!: map_of_SomeD split: option.splits)
  then obtain i where "krel_at b s i = Inr (off, eo, si, typ, ad)" using map_e_set [OF k(1)] by blast
  then show ?thesis by (auto simp: krel_at_def Let_def)
qed

text \<open>\<open>changed b b' P\<close>: the two files have one length, and a byte differs only at a position of \<open>P\<close>.\<close>

definition changed :: "byte list \<Rightarrow> byte list \<Rightarrow> nat set \<Rightarrow> bool" where
  "changed b b' P \<longleftrightarrow> length b' = length b \<and> (\<forall>i. i < length b \<longrightarrow> b' ! i \<noteq> b ! i \<longrightarrow> i \<in> P)"

lemma changed_refl [simp]: "changed b b P"
  by (simp add: changed_def)

lemma changed_step: "changed b b1 P \<Longrightarrow> changed b1 b2 Q \<Longrightarrow> changed b b2 (P \<union> Q)"
  unfolding changed_def by (metis Un_iff)

lemma changed_mono: "changed b b' P \<Longrightarrow> P \<subseteq> Q \<Longrightarrow> changed b b' Q"
  by (auto simp: changed_def)

lemma changed_overwrite:
  "length w = 4 \<Longrightarrow> p + 4 \<le> length b \<Longrightarrow> changed b (overwrite p w b) {p..<p + 4}"
  by (auto simp: changed_def overwrite_def nth_append)

text \<open>The bytes of the symbol words of the entries of a relocation table, in a file of \<open>n\<close> bytes.\<close>

definition info_bytes :: "nat \<Rightarrow> (int \<times> krel) list \<Rightarrow> nat set" where
  "info_bytes n rt = (\<Union>(off, eo, r) \<in> set rt. {clip n (eo + 4)..<clip n (eo + 4) + 4})"

lemma u32_same_length:
  assumes "u32 b i = Inr u" "length b' = length b"
  shows "\<exists>u'. u32 b' i = Inr u'"
proof -
  have "length (slice b i (i + int 4)) = 4" using assms(1) by (auto simp: u32_def unpack_I_def split: list.splits)
  then have "length (slice b' i (i + int 4)) = 4" using assms(2) by (simp add: slice_def Let_def)
  then show ?thesis unfolding u32_def unpack_I_def
    by (auto simp: length_Suc_conv numeral_eq_Suc)
qed

lemma set_info_changed:
  assumes "set_info b eo idx = Inr b'" "u32 b (eo + 4) = Inr u"
  shows "changed b b' {clip (length b) (eo + 4)..<clip (length b) (eo + 4) + 4}"
proof -
  obtain w where w: "pack_I (idx * 256 + 1) = Inr w" "b' = splice b (eo + 4) (eo + 4 + 4) w"
    using assms(1) by (auto simp: set_info_def add.assoc)
  have l: "length w = 4" by (rule pack_I_length [OF w(1)])
  from u32_room [OF assms(2)] show ?thesis
    unfolding w(2) by (metis l changed_overwrite)
qed

lemma krel_get_in: "krel_get off rt = Inr (eo, r) \<Longrightarrow> (off, eo, r) \<in> set rt"
  by (auto simp: krel_get_def dest: map_of_SomeD split: option.splits)

definition rela_words :: "byte list \<Rightarrow> nat set" where
  "rela_words b = (case bind_e (kelf_of b) (\<lambda>e. krela b e ''.rela.text'') of
     Inl _ \<Rightarrow> {} | Inr rt \<Rightarrow> info_bytes (length b) rt)"

subsection \<open>The contract of a script that checks its own work\<close>

text \<open>
  Every input falls in one of three cases: the script leaves the file alone (it stopped, or had nothing
  to do, and then the file is in order); it wrote, and the file, read again, is in order; or it wrote
  and stopped at the second look.  It writes symbol words of \<open>.rela.text\<close> only.
\<close>

definition checked_run :: "bool script \<Rightarrow> (byte list \<Rightarrow> bool) \<Rightarrow> byte list \<Rightarrow> bool" where
  "checked_run run settled b = (case run b of
     (b', Inr w) \<Rightarrow> settled b' \<and> (if w then changed b b' (rela_words b) else b' = b)
   | (b', Inl x) \<Rightarrow> changed b b' (rela_words b))"

locale hook_script =
  fixes run :: "bool script" and settled :: "byte list \<Rightarrow> bool"
  assumes outcome: "checked_run run settled b"
begin

lemma only_words: "changed b (fst (run b)) (rela_words b)"
  using outcome [of b] by (auto simp: checked_run_def split: prod.splits sum.splits if_splits)

lemma keeps_length: "length (fst (run b)) = length b"
  using only_words [of b] by (simp add: changed_def)

lemma ends_settled: "run b = (b', Inr w) \<Longrightarrow> settled b'"
  using outcome [of b] by (simp add: checked_run_def)

lemma skip_is_settled: "run b = (b', Inr False) \<Longrightarrow> b' = b \<and> settled b"
  using outcome [of b] by (auto simp: checked_run_def)

end

definition hooked_file :: "(byte list \<Rightarrow> kelf \<Rightarrow> exn + (int \<times> krel) list \<times> int \<times> bool) \<Rightarrow> byte list \<Rightarrow> bool" where
  "hooked_file state b = (case bind_e (kelf_of b) (state b) of Inl _ \<Rightarrow> False | Inr (_, _, hooked) \<Rightarrow> hooked)"

lemma hook_patch_checked:
  assumes st: "\<And>b e rt off h. state b e = Inr (rt, off, h) \<Longrightarrow> krela b e ''.rela.text'' = Inr rt"
  shows "checked_run (hook_patch state hook) (hooked_file state) b"
proof (cases "bind_e (kelf_of b) (\<lambda>e. bind_e (state b e) (\<lambda>(rt, off, hooked).
        if hooked then Inr None
        else bind_e (krel_get off rt) (\<lambda>(eo, _). bind_e (kindex b e hook) (\<lambda>idx.
          bind_e (set_info b eo idx) (\<lambda>b'. Inr (Some b'))))))")
  case (Inl x)
  then show ?thesis by (simp add: hook_patch_def checked_run_def)
next
  case (Inr r)
  show ?thesis
  proof (cases r)
    case None
    then show ?thesis using Inr
      by (auto simp: hook_patch_def checked_run_def hooked_file_def split: if_splits)
  next
    case (Some b1)
    then obtain e rt off eo rest idx where h: "kelf_of b = Inr e" "state b e = Inr (rt, off, False)"
      "krel_get off rt = Inr (eo, rest)" "set_info b eo idx = Inr b1"
      using Inr by (auto split: if_splits)
    obtain si ty ad where "rest = (si, ty, ad)" by (cases rest)
    then obtain u where "u32 b (eo + 4) = Inr u" using krela_readable [OF st [OF h(2)]] h(3) by blast
    from set_info_changed [OF h(4) this] have ch: "changed b b1 (rela_words b)"
      by (rule changed_mono)
        (use krel_get_in [OF h(3)] in \<open>force simp: rela_words_def info_bytes_def h(1) st [OF h(2)]\<close>)
    have "hook_patch state hook b = (b1, bind_e (kelf_of b1) (\<lambda>e2. bind_e (state b1 e2) (\<lambda>(rt, off, hooked).
        if hooked then Inr True else Inl (SystemExit ''ABORT: the retarget did not take''))))"
      unfolding hook_patch_def Inr Some by simp
    with ch show ?thesis
      by (auto simp: checked_run_def hooked_file_def bind_e_Inr_iff split: sum.splits if_splits)
  qed
qed

text \<open>A hooked file is left alone, so a script that ended leaves its own result alone.\<close>

lemma hook_patch_again: "hooked_file state b \<Longrightarrow> hook_patch state hook b = (b, Inr False)"
  by (auto simp: hooked_file_def hook_patch_def bind_e_Inr_iff split: sum.splits)

lemma rth1_state_rela: "rth1_state b e = Inr (rt, off, h) \<Longrightarrow> krela b e ''.rela.text'' = Inr rt"
  apply (clarsimp simp: rth1_state_def)
  subgoal for x lo hi c
    by (cases c; cases "tl c") (auto split: if_splits)
  done

lemma isp060_state_rela: "isp060_state b e = Inr (rt, off, h) \<Longrightarrow> krela b e ''.rela.text'' = Inr rt"
  apply (clarsimp simp: isp060_state_def)
  subgoal for x lo hi c
    by (cases c; cases "tl c") (auto split: if_splits option.splits)
  done

interpretation rth1_hook: hook_script rth1_patch "hooked_file rth1_state"
  by unfold_locales (simp add: rth1_patch_def hook_patch_checked [OF rth1_state_rela])

interpretation isp060_hook: hook_script isp060_patch "hooked_file isp060_state"
  by unfold_locales (simp add: isp060_patch_def hook_patch_checked [OF isp060_state_rela])

end
