(* ===== verification/Kelf_Pgrsv.thy ===== *)
theory Kelf_Pgrsv
  imports Kelf_Hooks "HOL-Library.Product_Lexorder" "HOL-Library.List_Lexorder" "HOL-Library.Char_ord"
begin

text \<open>
  \<open>patch_pgrsv_sites\<close>: every call of \<open>page_get\<close> outside the exempt callers goes through \<open>pgrsv_get\<close>.
\<close>

subsection \<open>The callers\<close>

definition pg_EXEMPT :: "string list" where
  "pg_EXEMPT = [''segkmem_alloc'', ''hat_ptalloc'', ''hat_sdtalloc'', ''page_delmem'']"

definition pg_CALLERS :: "string list" where
  "pg_CALLERS = [''after:hat_devload'', ''anon_private'', ''anon_zero'', ''hat_dup'', ''pvn_kluster'', ''rfc_pageget'',
     ''rfc_writefill'', ''s5getapage'', ''segmap_pagecreate'', ''segu_get_orig'', ''ufs_getapage''] @ pg_EXEMPT"

definition pg_STATICS :: "(string \<times> string \<times> int) list" where
  "pg_STATICS = [(''freemem_wait'', ''pgrsv_fmw'', 0x52b9), (''max_page_get'', ''pgrsv_mpg'', 0xb4b9)]"

text \<open>The functions of \<open>.text\<close>: value, size, name, in the order of Python's tuples.\<close>

type_synonym func = "int \<times> int \<times> string"

fun funcs_loop :: "byte list \<Rightarrow> kelf \<Rightarrow> int \<Rightarrow> int list \<Rightarrow> exn + func list" where
  "funcs_loop b e tidx [] = Inr []"
| "funcs_loop b e tidx (i # is) = bind_e (ksym b e i) (\<lambda>s.
     if ks_shndx s = tidx \<and> ks_info s mod 16 = 2 then
       bind_e (u32 b (k_syo e + i * k_sye e + 8)) (\<lambda>sz.
       bind_e (funcs_loop b e tidx is) (\<lambda>rest. Inr ((ks_value s, sz, ks_name s) # rest)))
     else funcs_loop b e tidx is)"

definition funcs_text :: "byte list \<Rightarrow> kelf \<Rightarrow> exn + func list" where
  "funcs_text b e = bind_e (name_index (k_names e) ''.text'') (\<lambda>tidx.
     bind_e (funcs_loop b e tidx (py_range (k_syn e))) (\<lambda>fs. Inr (sort fs)))"

definition owner :: "func list \<Rightarrow> int \<Rightarrow> string option" where
  "owner gt off = (case rev (takeWhile (\<lambda>(v, sz, n). v \<le> off) gt) of
     [] \<Rightarrow> None
   | (v, sz, n) # _ \<Rightarrow> Some (if sz = 0 \<or> off < v + sz then n else ''after:'' @ n))"

definition pg_extent :: "func list \<Rightarrow> kelf \<Rightarrow> string \<Rightarrow> exn + int \<times> int" where
  "pg_extent gt e name = (case filter (\<lambda>(v, sz, n). n = name) gt of
     [(lo, sz, n)] \<Rightarrow> bind_e (next_value e (map fst gt) lo) (\<lambda>hi. Inr (lo, hi))
   | _ \<Rightarrow> Inl (SystemExit ''ABORT: not defined once in .text''))"

subsection \<open>The sites\<close>

type_synonym pg_site = "int \<times> string \<times> string"

fun sites_loop :: "byte list \<Rightarrow> kelf \<Rightarrow> (int \<times> krel) list \<Rightarrow> func list \<Rightarrow> int list \<Rightarrow> exn + pg_site list" where
  "sites_loop b e rt gt [] = Inr []"
| "sites_loop b e rt gt (off # offs) =
     bind_e (krel_get off rt) (\<lambda>(_, si, typ, ad). bind_e (ktarget b e si ad) (\<lambda>(_, _, name, _).
     case name of None \<Rightarrow> sites_loop b e rt gt offs
     | Some nm \<Rightarrow>
         if nm \<notin> {''page_get'', ''pgrsv_get''} then sites_loop b e rt gt offs
         else if owner gt off = Some ''pgrsv_get'' then sites_loop b e rt gt offs
         else if typ \<noteq> 1 \<or> ad \<noteq> 0 then Inl (SystemExit ''ABORT: the reference is not a jsr'')
         else bind_e (ktext b e (off - 2) 2) (\<lambda>opc.
           if opc \<noteq> [0x4e, 0xb9] then Inl (SystemExit ''ABORT: the reference is not a jsr'')
           else case owner gt off of
               None \<Rightarrow> Inl (SystemExit ''ABORT: not a known caller'')
             | Some caller \<Rightarrow>
                 if caller \<notin> set pg_CALLERS then Inl (SystemExit ''ABORT: not a known caller'')
                 else bind_e (sites_loop b e rt gt offs) (\<lambda>rest. Inr ((off, nm, caller) # rest)))))"

definition pg_sites :: "byte list \<Rightarrow> kelf \<Rightarrow> exn + (int \<times> krel) list \<times> func list \<times> pg_site list" where
  "pg_sites b e = bind_e (krela b e ''.rela.text'') (\<lambda>rt. bind_e (funcs_text b e) (\<lambda>gt.
     bind_e (sites_loop b e rt gt (offsets rt)) (\<lambda>ss. Inr (rt, gt, ss))))"

definition pg_BTOPR :: "byte list" where
  "pg_BTOPR = [0x06, 0x82, 0x00, 0x00, 0x0f, 0xff, 0x72, 0x0c, 0xe2, 0xaa]"

fun has_bytes :: "byte list \<Rightarrow> byte list \<Rightarrow> bool" where
  "has_bytes pat [] = (pat = [])"
| "has_bytes pat (x # xs) = (take (length pat) (x # xs) = pat \<or> has_bytes pat xs)"

fun inner_calls :: "byte list \<Rightarrow> kelf \<Rightarrow> (int \<times> krel) list \<Rightarrow> int \<Rightarrow> int \<Rightarrow> int list \<Rightarrow> exn + int list" where
  "inner_calls b e rt lo hi [] = Inr []"
| "inner_calls b e rt lo hi (off # offs) =
     (if lo \<le> off \<and> off < hi then
        bind_e (krel_get off rt) (\<lambda>(_, si, typ, ad). bind_e (ktarget b e si ad) (\<lambda>(_, _, name, _).
        bind_e (inner_calls b e rt lo hi offs) (\<lambda>rest. Inr (if name = Some ''page_get'' then off # rest else rest))))
      else inner_calls b e rt lo hi offs)"

definition pg_validate :: "byte list \<Rightarrow> kelf \<Rightarrow> (int \<times> krel) list \<Rightarrow> func list \<Rightarrow> pg_site list \<Rightarrow> exn + unit" where
  "pg_validate b e rt gt ss = bind_e (pg_extent gt e ''page_get'') (\<lambda>(plo, phi).
     bind_e (ktext b e plo (min (phi - plo) 0x40)) (\<lambda>body.
     if \<not> has_bytes pg_BTOPR body then Inl (SystemExit ''ABORT: page_get is not 4 KiB'')
     else if \<not> list_all (\<lambda>x. length (filter (\<lambda>(_, _, c). c = x) ss) = 1) pg_EXEMPT
     then Inl (SystemExit ''ABORT: exempt caller without its one site'')
     else bind_e (pg_extent gt e ''pgrsv_get'') (\<lambda>(lo, hi).
       bind_e (inner_calls b e rt lo hi (offsets rt)) (\<lambda>inner.
       if length inner \<noteq> 1 then Inl (SystemExit ''ABORT: pgrsv_get does not call page_get once'') else Inr ()))))"

subsection \<open>The commands\<close>

definition pg_want :: "string \<Rightarrow> string" where
  "pg_want caller = (if caller \<in> set pg_EXEMPT then ''page_get'' else ''pgrsv_get'')"

definition pg_wrong :: "pg_site list \<Rightarrow> pg_site list" where
  "pg_wrong ss = filter (\<lambda>(_, name, caller). name \<noteq> pg_want caller) ss"

fun pg_write :: "(int \<times> krel) list \<Rightarrow> int \<Rightarrow> pg_site list \<Rightarrow> byte list \<Rightarrow> exn + byte list" where
  "pg_write rt hidx [] b = Inr b"
| "pg_write rt hidx ((off, _, _) # todo) b = bind_e (krel_get off rt) (\<lambda>(eo, _).
     bind_e (set_info b eo hidx) (\<lambda>b'. pg_write rt hidx todo b'))"

text \<open>\<open>None\<close>: nothing to do; \<open>Some b'\<close>: the bytes to write.\<close>

definition pg_plan :: "byte list \<Rightarrow> exn + byte list option" where
  "pg_plan b = bind_e (kelf_of b) (\<lambda>e. bind_e (pg_sites b e) (\<lambda>(rt, gt, ss).
     bind_e (pg_validate b e rt gt ss) (\<lambda>_. bind_e (kindex b e ''pgrsv_get'') (\<lambda>hidx.
     let todo = filter (\<lambda>(_, name, caller). caller \<notin> set pg_EXEMPT \<and> name = ''page_get'') ss;
         done = filter (\<lambda>(_, name, caller). caller \<notin> set pg_EXEMPT \<and> name = ''pgrsv_get'') ss;
         bad = filter (\<lambda>(_, name, caller). caller \<in> set pg_EXEMPT \<and> name = ''pgrsv_get'') ss in
     if bad \<noteq> [] then Inl (SystemExit ''ABORT: an exempt caller already calls pgrsv_get'')
     else if todo = [] then Inr None
     else if done \<noteq> [] then Inl (SystemExit ''ABORT: half-patched base'')
     else bind_e (pg_write rt hidx todo b) (\<lambda>b'. Inr (Some b'))))))"

definition pgrsv_patch :: "bool script" where
  "pgrsv_patch b = (case pg_plan b of
     Inl x \<Rightarrow> (b, Inl x)
   | Inr None \<Rightarrow> (b, Inr False)
   | Inr (Some b') \<Rightarrow> (b', bind_e (kelf_of b') (\<lambda>e2. bind_e (pg_sites b' e2) (\<lambda>(_, _, s2).
       if pg_wrong s2 \<noteq> [] then Inl (SystemExit ''ABORT: the retarget did not take'') else Inr True))))"

definition pg_COUNTERS :: "(string \<times> int) list" where
  "pg_COUNTERS = [(''pgrsv_calls'', 0), (''pgrsv_fails'', 0), (''pgrsv_magic'', 0x70677276), (''pgrsv_pages'', 20),
     (''pgrsv_waits'', 0)]"

fun pg_counters :: "byte list \<Rightarrow> kelf \<Rightarrow> int \<Rightarrow> int \<Rightarrow> (string \<times> int) list \<Rightarrow> exn + unit" where
  "pg_counters b e doff didx [] = Inr ()"
| "pg_counters b e doff didx ((name, v) # ws) = bind_e (data_symbol b e name) (\<lambda>(shndx, val).
     bind_e (u32 b (doff + val)) (\<lambda>got.
     if shndx \<noteq> didx \<or> got \<noteq> v then Inl (SystemExit ''FAIL: another value in the image'')
     else pg_counters b e doff didx ws))"

fun pg_indices :: "byte list \<Rightarrow> kelf \<Rightarrow> (string \<times> string \<times> int) list \<Rightarrow> exn + unit" where
  "pg_indices b e [] = Inr ()"
| "pg_indices b e ((_, alias, _) # ss) = bind_e (kindex b e alias) (\<lambda>_. pg_indices b e ss)"

definition pgrsv_check :: "byte list \<Rightarrow> exn + unit" where
  "pgrsv_check b = bind_e (kelf_of b) (\<lambda>e. bind_e (pg_sites b e) (\<lambda>(rt, gt, ss).
     bind_e (pg_validate b e rt gt ss) (\<lambda>_.
     if pg_wrong ss \<noteq> [] then Inl (SystemExit ''FAIL: page_get sites on the wrong path'')
     else bind_e (dict_get ''.data'' (k_sec e)) (\<lambda>data. bind_e (name_index (k_names e) ''.data'') (\<lambda>didx.
       bind_e (pg_counters b e (s_offset data) didx pg_COUNTERS) (\<lambda>_. pg_indices b e pg_STATICS))))))"

fun static_hits :: "byte list \<Rightarrow> kelf \<Rightarrow> (int \<times> krel) list \<Rightarrow> int \<Rightarrow> int \<Rightarrow> string \<Rightarrow> int \<Rightarrow> int list \<Rightarrow> exn + int list" where
  "static_hits b e rt lo hi stat opc [] = Inr []"
| "static_hits b e rt lo hi stat opc (off # offs) =
     (if \<not> (lo \<le> off \<and> off < hi) then static_hits b e rt lo hi stat opc offs
      else bind_e (krel_get off rt) (\<lambda>(_, si, typ, ad). bind_e (ktarget b e si ad) (\<lambda>(sec, val, name, _).
        bind_e (if name = Some stat \<or> name = None \<and> sec = Some ''.bss''
                then bind_e (ktext b e (off - 2) 2) (\<lambda>t. bind_e (unpack_H t) (\<lambda>w. Inr (w = opc \<and> sec = Some ''.bss'')))
                else Inr False) (\<lambda>hit.
        bind_e (static_hits b e rt lo hi stat opc offs) (\<lambda>rest. Inr (if hit then val # rest else rest))))))"

fun pg_statics :: "byte list \<Rightarrow> kelf \<Rightarrow> (int \<times> krel) list \<Rightarrow> int \<Rightarrow> int \<Rightarrow> (string \<times> string \<times> int) list
    \<Rightarrow> exn + (string \<times> int) list" where
  "pg_statics b e rt lo hi [] = Inr []"
| "pg_statics b e rt lo hi ((stat, alias, opc) # ss) =
     bind_e (static_hits b e rt lo hi stat opc (offsets rt)) (\<lambda>hits. case remdups hits of
       [v] \<Rightarrow> bind_e (pg_statics b e rt lo hi ss) (\<lambda>rest. Inr ((alias, v) # rest))
     | _ \<Rightarrow> Inl (SystemExit ''ABORT: candidates''))"

definition pgrsv_aliases :: "byte list \<Rightarrow> exn + (string \<times> int) list" where
  "pgrsv_aliases b = bind_e (kelf_of b) (\<lambda>e. bind_e (pg_sites b e) (\<lambda>(rt, gt, _).
     bind_e (pg_extent gt e ''page_get'') (\<lambda>(lo, hi). pg_statics b e rt lo hi pg_STATICS)))"

definition pgrsv_main :: "string list \<Rightarrow> (string \<times> int) list script" where
  "pgrsv_main a b = (case a of
     [path] \<Rightarrow> if is_option path then (b, Inl (SystemExit ''usage''))
               else map_prod id (map_sum id (\<lambda>_. [])) (pgrsv_patch b)
   | [opt, path] \<Rightarrow>
       if opt = ''--check'' then (b, map_sum id (\<lambda>_. []) (pgrsv_check b))
       else if opt = ''--aliases'' then (b, pgrsv_aliases b)
       else (b, Inl (SystemExit ''usage''))
   | _ \<Rightarrow> (b, Inl (SystemExit ''usage'')))"

subsection \<open>What the patch command does\<close>

text \<open>Every collected site is a reference to one of the two names, from a caller the script knows.\<close>

definition known_site :: "pg_site \<Rightarrow> bool" where
  "known_site x = (case x of (off, n, c) \<Rightarrow> n \<in> {''page_get'', ''pgrsv_get''} \<and> c \<in> set pg_CALLERS)"

lemma sites_loop_step:
  assumes "sites_loop b e rt gt (off # offs) = Inr ss"
  shows "sites_loop b e rt gt offs = Inr ss
    \<or> (\<exists>n c rest. sites_loop b e rt gt offs = Inr rest \<and> known_site (off, n, c) \<and> ss = (off, n, c) # rest
         \<and> (\<exists>r. krel_get off rt = Inr r))"
proof -
  obtain eo si ty ad where r: "krel_get off rt = Inr (eo, si, ty, ad)" using assms by (auto simp: bind_e_Inr_iff)
  obtain sec val name g where t: "ktarget b e si ad = Inr (sec, val, name, g)" using assms r by (auto simp: bind_e_Inr_iff)
  show ?thesis
  proof (cases name)
    case None
    then show ?thesis using assms r t by simp
  next
    case (Some nm)
    have "ss = (off, nm, c) # rest \<Longrightarrow> ?thesis" if "sites_loop b e rt gt offs = Inr rest" "known_site (off, nm, c)" for c rest
      using that r by blast
    then show ?thesis using assms r t Some
      by (simp split: if_splits add: bind_e_Inr_iff) (auto simp: known_site_def split: option.splits if_splits)
  qed
qed

lemma sites_loop_known: "sites_loop b e rt gt offs = Inr ss \<Longrightarrow> list_all known_site ss"
proof (induction offs arbitrary: ss)
  case Nil
  then show ?case by simp
next
  case (Cons off offs)
  from sites_loop_step [OF Cons.prems] show ?case
  proof
    assume "sites_loop b e rt gt offs = Inr ss"
    from Cons.IH [OF this] show ?case .
  next
    assume "\<exists>n c rest. sites_loop b e rt gt offs = Inr rest \<and> known_site (off, n, c) \<and> ss = (off, n, c) # rest
      \<and> (\<exists>r. krel_get off rt = Inr r)"
    then obtain n c rest where "sites_loop b e rt gt offs = Inr rest" "known_site (off, n, c)" "ss = (off, n, c) # rest"
      by blast
    with Cons.IH show ?case by simp
  qed
qed

lemma pg_sites_parts:
  assumes "pg_sites b e = Inr (rt, gt, ss)"
  shows "krela b e ''.rela.text'' = Inr rt" "list_all known_site ss"
  using assms sites_loop_known [of b e rt gt "offsets rt" ss] by (auto simp: pg_sites_def)

text \<open>With nothing to do and nothing bad, nothing is on the wrong path.\<close>

lemma known_site_settled:
  "known_site x \<Longrightarrow> \<not> (case x of (_, name, caller) \<Rightarrow> caller \<notin> set pg_EXEMPT \<and> name = ''page_get'')
    \<Longrightarrow> \<not> (case x of (_, name, caller) \<Rightarrow> caller \<in> set pg_EXEMPT \<and> name = ''pgrsv_get'')
    \<Longrightarrow> \<not> (case x of (_, name, caller) \<Rightarrow> name \<noteq> pg_want caller)"
  by (cases x) (auto simp: known_site_def pg_want_def)

lemma pg_settled:
  assumes "list_all known_site ss"
    "filter (\<lambda>(_, name, caller). caller \<notin> set pg_EXEMPT \<and> name = ''page_get'') ss = []"
    "filter (\<lambda>(_, name, caller). caller \<in> set pg_EXEMPT \<and> name = ''pgrsv_get'') ss = []"
  shows "pg_wrong ss = []"
  unfolding pg_wrong_def filter_empty_conv
proof
  fix x assume "x \<in> set ss"
  with assms show "\<not> (case x of (_, name, caller) \<Rightarrow> name \<noteq> pg_want caller)"
    unfolding list_all_iff filter_empty_conv by (intro known_site_settled) blast+
qed

lemma pg_write_changed:
  assumes "\<And>off eo si ty ad. krel_get off rt = Inr (eo, si, ty, ad) \<Longrightarrow> \<exists>u. u32 b (eo + 4) = Inr u"
    "pg_write rt h todo b1 = Inr b'" "changed b b1 (info_bytes (length b) rt)"
  shows "changed b b' (info_bytes (length b) rt)"
  using assms(2,3)
proof (induction todo arbitrary: b1)
  case Nil
  then show ?case by simp
next
  case (Cons x todo)
  obtain off n c where x: "x = (off, n, c)" by (cases x)
  obtain eo si ty ad b2 where g: "krel_get off rt = Inr (eo, si, ty, ad)" "set_info b1 eo h = Inr b2"
    "pg_write rt h todo b2 = Inr b'"
    using Cons.prems(1) unfolding x by (auto simp: bind_e_Inr_iff)
  have l: "length b1 = length b" using Cons.prems(2) by (simp add: changed_def)
  obtain u where "u32 b1 (eo + 4) = Inr u" using assms(1) [OF g(1)] u32_same_length [OF _ l] by blast
  from set_info_changed [OF g(2) this] have "changed b1 b2 (info_bytes (length b) rt)"
    by (rule changed_mono) (use krel_get_in [OF g(1)] l in \<open>force simp: info_bytes_def\<close>)
  from changed_step [OF Cons.prems(2) this] show ?case by (intro Cons.IH [OF g(3)]) simp
qed

text \<open>The sites of the file, as the script reads them, are all on the path they belong on.\<close>

definition pg_settled_file :: "byte list \<Rightarrow> bool" where
  "pg_settled_file b = (case bind_e (kelf_of b) (pg_sites b) of
     Inl _ \<Rightarrow> False
   | Inr (rt, gt, ss) \<Rightarrow> list_all (\<lambda>(off, name, caller). caller \<in> set pg_CALLERS \<and> name = pg_want caller) ss)"

lemma pg_settled_fileI:
  assumes "kelf_of b = Inr e" "pg_sites b e = Inr (rt, gt, ss)" "pg_wrong ss = []"
  shows "pg_settled_file b"
  using assms(3) pg_sites_parts(2) [OF assms(2)]
  by (auto simp: pg_settled_file_def assms(1,2) list_all_iff pg_wrong_def filter_empty_conv known_site_def)

lemma pg_plan_cases:
  assumes "pg_plan b = Inr r"
  shows "case r of
      None \<Rightarrow> pg_settled_file b
    | Some b' \<Rightarrow> \<exists>e rt gt ss. kelf_of b = Inr e \<and> pg_sites b e = Inr (rt, gt, ss) \<and> changed b b' (info_bytes (length b) rt)"
proof -
  let ?todo = "filter (\<lambda>(_, name, caller). caller \<notin> set pg_EXEMPT \<and> name = ''page_get'')"
  let ?bad = "filter (\<lambda>(_, name, caller). caller \<in> set pg_EXEMPT \<and> name = ''pgrsv_get'')"
  obtain e rt gt ss hidx where h: "kelf_of b = Inr e" "pg_sites b e = Inr (rt, gt, ss)" "kindex b e ''pgrsv_get'' = Inr hidx"
    and bad: "?bad ss = []"
    and r: "?todo ss = [] \<and> r = None \<or> (\<exists>b'. pg_write rt hidx (?todo ss) b = Inr b' \<and> r = Some b')"
    using assms by (auto simp: pg_plan_def bind_e_Inr_iff Let_def split: if_splits)
  from r show ?thesis
  proof (elim disjE conjE exE)
    assume "?todo ss = []" "r = None"
    then show ?thesis using pg_settled_fileI [OF h(1,2) pg_settled [OF pg_sites_parts(2) [OF h(2)] _ bad]] by simp
  next
    fix b' assume w: "pg_write rt hidx (?todo ss) b = Inr b'" "r = Some b'"
    have "changed b b' (info_bytes (length b) rt)"
      by (rule pg_write_changed [OF krela_readable [OF pg_sites_parts(1) [OF h(2)]] w(1)]) simp_all
    then show ?thesis using h w by auto
  qed
qed

lemma pg_plan_words:
  assumes "pg_plan b = Inr (Some b')"
  shows "changed b b' (rela_words b)"
proof -
  obtain e rt gt ss where "kelf_of b = Inr e" "pg_sites b e = Inr (rt, gt, ss)" "changed b b' (info_bytes (length b) rt)"
    using pg_plan_cases [OF assms] by auto
  then show ?thesis using pg_sites_parts(1) by (simp add: rela_words_def)
qed

lemma pgrsv_checked: "checked_run pgrsv_patch pg_settled_file b"
proof (cases "pg_plan b")
  case (Inl x)
  then show ?thesis by (simp add: checked_run_def pgrsv_patch_def)
next
  case (Inr r)
  show ?thesis
  proof (cases r)
    case None
    then show ?thesis using Inr pg_plan_cases [OF Inr] by (simp add: checked_run_def pgrsv_patch_def)
  next
    case (Some b')
    have "pg_settled_file b'" if "kelf_of b' = Inr e" "pg_sites b' e = Inr (rt, gt, s2)" "pg_wrong s2 = []" for e rt gt s2
      by (rule pg_settled_fileI [OF that])
    then show ?thesis using Inr Some pg_plan_words [of b b']
      by (auto simp: checked_run_def pgrsv_patch_def bind_e_Inr_iff split: sum.splits if_splits)
  qed
qed

interpretation pgrsv_hook: hook_script pgrsv_patch pg_settled_file
  by unfold_locales (rule pgrsv_checked)

text \<open>\<open>--check\<close> accepts settled files only.\<close>

lemma pgrsv_check_settled: "pgrsv_check b = Inr u \<Longrightarrow> pg_settled_file b"
  by (auto simp: pgrsv_check_def bind_e_Inr_iff split: if_splits intro: pg_settled_fileI)

end
