(* ===== verification/Rewire.thy ===== *)
theory Rewire
  imports Reloc_Vec Kelf_Hooks
begin

text \<open>
  What the patchers of device drivers and kernel hooks share.  They find relocation entries by the
  offset they patch, give each another symbol after checking what it names now, and replace opcodes or
  immediates at fixed places of \<open>.text\<close>.  The relation \<open>edits\<close> is the abstract account of such a run: a
  sequence of checked steps, each at one slot of a table, together with the list of the slots handled so
  far, whether they were changed or found right.
\<close>

subsection \<open>Shared operations\<close>

text \<open>\<open>struct.pack_into(">I", buf, o + 4, (idx << 8) | typ)\<close>\<close>

definition rewire :: "byte list \<Rightarrow> int \<Rightarrow> int \<Rightarrow> int \<Rightarrow> exn + byte list" where
  "rewire b o' j typ = pack_into_I b (o' + 4) (j * 256 + typ)"

text \<open>
  One slot: read \<open>r_info\<close>, run the checks \<open>pre\<close> on it, leave it alone if it names symbol \<open>j\<close> already, and
  otherwise check with \<open>known\<close> what it names and give it \<open>j\<close>.
\<close>

definition slot_edit :: "byte list \<Rightarrow> int \<Rightarrow> int \<Rightarrow> (int \<Rightarrow> exn + unit) \<Rightarrow> (int \<Rightarrow> exn + unit) \<Rightarrow> exn + byte list \<times> bool" where
  "slot_edit b o' j pre known = bind_e (u32 b (o' + 4)) (\<lambda>info. bind_e (pre info) (\<lambda>_.
     if info div 256 = j then Inr (b, False)
     else bind_e (known (info div 256)) (\<lambda>_. bind_e (rewire b o' j 1) (\<lambda>b'. Inr (b', True)))))"

definition must :: "bool \<Rightarrow> string \<Rightarrow> exn + unit" where
  "must c msg = (if c then Inr () else Inl (SystemExit msg))"

text \<open>\<open>r_info & 0xff != R_68K_32\<close>\<close>

definition is_r32 :: "int \<Rightarrow> exn + unit" where
  "is_r32 info = must (info mod 256 = 1) ''ABORT: reloc type != R_68K_32''"

text \<open>The operand at \<open>r\<close> belongs to an instruction with the given opcode.\<close>

definition opcode_before :: "byte list \<Rightarrow> int \<Rightarrow> int \<Rightarrow> byte list \<Rightarrow> exn + unit" where
  "opcode_before b text r op = must (slice b (text + r - 2) (text + r) = op) ''ABORT: unexpected opcode''"

definition jsr_op :: "byte list" where
  "jsr_op = [0x4e, 0xb9]"

text \<open>The symbol now named must have this name, and for \<open>names_at\<close> this value.\<close>

definition names_sym :: "byte list \<Rightarrow> symtables \<Rightarrow> string \<Rightarrow> int \<Rightarrow> exn + unit" where
  "names_sym b t want cur = bind_e (symname b t cur) (\<lambda>n. must (n = want) ''ABORT: another target'')"

definition names_at :: "byte list \<Rightarrow> symtables \<Rightarrow> string \<Rightarrow> int \<Rightarrow> int \<Rightarrow> exn + unit" where
  "names_at b t want val cur = bind_e (symname b t cur) (\<lambda>n. bind_e (symvalue b t cur) (\<lambda>v.
     must (n = want \<and> v = val) ''ABORT: another target''))"

text \<open>The section headers with the dictionary of sections, and a symbol table with its strings.\<close>

definition open_elf :: "byte list \<Rightarrow> exn + shdr list \<times> (string \<times> shdr) list" where
  "open_elf b = bind_e (section_table b) (\<lambda>(sh, shstr). bind_e (sec_dict b shstr sh) (\<lambda>d. Inr (sh, d)))"

definition strings_of :: "shdr list \<Rightarrow> shdr \<Rightarrow> exn + symtables" where
  "strings_of sh st = bind_e (py_nth sh (s_link st)) (\<lambda>str. Inr \<lparr>y_sym = st, y_str = str\<rparr>)"

definition dict_get_or :: "string \<Rightarrow> string \<Rightarrow> (string \<times> 'v) list \<Rightarrow> exn + 'v" where
  "dict_get_or msg k d = (case map_of d k of None \<Rightarrow> Inl (SystemExit msg) | Some v \<Rightarrow> Inr v)"

text \<open>All symbol names, for the scripts whose search does not stop at the first hit.\<close>

definition sym_names :: "byte list \<Rightarrow> symtables \<Rightarrow> int \<Rightarrow> exn + string list" where
  "sym_names b t n = map_e (symname b t) (py_range n)"

definition first_named :: "string list \<Rightarrow> string \<Rightarrow> string \<Rightarrow> exn + int" where
  "first_named names msg x = (case first_pos (\<lambda>n. n = x) names of
     None \<Rightarrow> Inl (SystemExit msg) | Some k \<Rightarrow> Inr (int k))"

definition last_named :: "string list \<Rightarrow> string \<Rightarrow> string \<Rightarrow> exn + int" where
  "last_named names msg x = (case first_pos (\<lambda>n. n = x) (rev names) of
     None \<Rightarrow> Inl (SystemExit msg) | Some k \<Rightarrow> Inr (int (length names - 1 - k)))"

text \<open>The entries of a relocation section as (offset patched, file position), in file order.\<close>

definition row_list :: "byte list \<Rightarrow> shdr \<Rightarrow> int \<Rightarrow> exn + (int \<times> int) list" where
  "row_list b rela n = map_e (\<lambda>i. bind_e (u32 b (row_pos rela i)) (\<lambda>off. Inr (off, row_pos rela i))) (py_range n)"

definition row_for :: "(int \<times> int) list \<Rightarrow> string \<Rightarrow> int \<Rightarrow> exn + int" where
  "row_for at msg off = (case map_of at off of None \<Rightarrow> Inl (SystemExit msg) | Some o' \<Rightarrow> Inr o')"

subsection \<open>Edits\<close>

text \<open>
  \<open>edits t rela S T b H D E\<close>: from the file \<open>b\<close> the run has passed through the files \<open>H\<close>, newest first.
  \<open>S\<close> is the table of slots, the offset an entry of \<open>rela\<close> patches, the name of the symbol it may lose and of
  the one it is to have; \<open>T\<close> is the table of sites, a file position with a test of the bytes that may be replaced and the
  new bytes.  \<open>D\<close> and \<open>E\<close> are the offsets and positions handled.  Which entry is at an offset and what a
  symbol is called is what the run read in a file it passed through.
\<close>

type_synonym site_place = "int \<times> (byte list \<Rightarrow> bool) \<times> byte list"

definition is_row :: "byte list set \<Rightarrow> shdr \<Rightarrow> int \<Rightarrow> int \<Rightarrow> bool" where
  "is_row X rela o' off \<longleftrightarrow> (case nrels rela of Inl _ \<Rightarrow> False | Inr n \<Rightarrow>
     (\<exists>i \<in> set (py_range n). o' = row_pos rela i) \<and> (\<exists>x \<in> X. u32 x o' = Inr off))"

definition named :: "byte list set \<Rightarrow> symtables \<Rightarrow> int \<Rightarrow> string \<Rightarrow> bool" where
  "named X t j name \<longleftrightarrow> (\<exists>x \<in> X. symname x t j = Inr name)"

inductive edits :: "symtables \<Rightarrow> shdr \<Rightarrow> (int \<times> string \<times> string) list \<Rightarrow> site_place list \<Rightarrow> byte list
    \<Rightarrow> byte list list \<Rightarrow> int list \<Rightarrow> int list \<Rightarrow> bool"
  for t rela S T b where
  start: "edits t rela S T b [b] [] []"
| right_slot: "edits t rela S T b (b1 # H) D E \<Longrightarrow> is_row (set (b1 # H)) rela o' off \<Longrightarrow> (off, old, new) \<in> set S
    \<Longrightarrow> u32 b1 (o' + 4) = Inr info \<Longrightarrow> named (set (b1 # H)) t (info div 256) new
    \<Longrightarrow> edits t rela S T b (b1 # H) (off # D) E"
| new_slot: "edits t rela S T b (b1 # H) D E \<Longrightarrow> is_row (set (b1 # H)) rela o' off \<Longrightarrow> (off, old, new) \<in> set S
    \<Longrightarrow> x \<in> set (b1 # H) \<Longrightarrow> u32 x (o' + 4) = Inr info \<Longrightarrow> named (set (b1 # H)) t (info div 256) old
    \<Longrightarrow> y \<in> set (b1 # H) \<Longrightarrow> u32 y (o' + 4) = Inr info' \<Longrightarrow> named (set (b1 # H)) t j new
    \<Longrightarrow> rewire b1 o' j (info' mod 256) = Inr b2 \<Longrightarrow> edits t rela S T b (b2 # b1 # H) (off # D) E"
| right_site: "edits t rela S T b (b1 # H) D E \<Longrightarrow> (p, ok, new) \<in> set T
    \<Longrightarrow> slice b1 p (p + int (length new)) = new \<Longrightarrow> edits t rela S T b (b1 # H) D (p # E)"
| new_site: "edits t rela S T b (b1 # H) D E \<Longrightarrow> (p, ok, new) \<in> set T
    \<Longrightarrow> ok (slice b1 p (p + int (length new)))
    \<Longrightarrow> edits t rela S T b (splice b1 p (p + int (length new)) new # b1 # H) D (p # E)"

text \<open>The run is at \<open>b1\<close> and has passed through the files \<open>X\<close>.\<close>

definition run_at :: "symtables \<Rightarrow> shdr \<Rightarrow> (int \<times> string \<times> string) list \<Rightarrow> site_place list \<Rightarrow> byte list
    \<Rightarrow> byte list \<Rightarrow> byte list set \<Rightarrow> int list \<Rightarrow> int list \<Rightarrow> bool" where
  "run_at t rela S T b b1 X D E \<longleftrightarrow> (\<exists>H. edits t rela S T b (b1 # H) D E \<and> X \<subseteq> set (b1 # H))"

lemma run_at_start: "run_at t rela S T b b {b} [] []"
  unfolding run_at_def by (intro exI [of _ "[]"]) (simp add: start)

lemma run_at_here: "run_at t rela S T b b1 X D E \<Longrightarrow> run_at t rela S T b b1 (insert b1 X) D E"
  by (auto simp: run_at_def)

lemma is_row_mono: "is_row X rela o' off \<Longrightarrow> X \<subseteq> Y \<Longrightarrow> is_row Y rela o' off"
  by (auto simp: is_row_def split: sum.splits)

lemma named_mono: "named X t j name \<Longrightarrow> X \<subseteq> Y \<Longrightarrow> named Y t j name"
  by (auto simp: named_def)

lemma named_here: "symname x t j = Inr name \<Longrightarrow> x \<in> X \<Longrightarrow> named X t j name"
  by (auto simp: named_def)

lemma run_at_right_slot:
  assumes "run_at t rela S T b b1 X D E" "is_row (insert b1 X) rela o' off" "(off, old, new) \<in> set S"
    "u32 b1 (o' + 4) = Inr info" "named (insert b1 X) t (info div 256) new"
  shows "run_at t rela S T b b1 X (off # D) E"
proof -
  obtain H where H: "edits t rela S T b (b1 # H) D E" "X \<subseteq> set (b1 # H)" using assms(1) by (auto simp: run_at_def)
  then have "insert b1 X \<subseteq> set (b1 # H)" by simp
  from right_slot [OF H(1) is_row_mono [OF assms(2) this] assms(3,4) named_mono [OF assms(5) this]] H(2)
  show ?thesis unfolding run_at_def by blast
qed

lemma run_at_new_slot:
  assumes "run_at t rela S T b b1 X D E" "is_row (insert b1 X) rela o' off" "(off, old, new) \<in> set S"
    "x \<in> insert b1 X" "u32 x (o' + 4) = Inr info" "named (insert b1 X) t (info div 256) old"
    "y \<in> insert b1 X" "u32 y (o' + 4) = Inr info'" "named (insert b1 X) t j new"
    "rewire b1 o' j (info' mod 256) = Inr b2"
  shows "run_at t rela S T b b2 X (off # D) E"
proof -
  obtain H where H: "edits t rela S T b (b1 # H) D E" "X \<subseteq> set (b1 # H)" using assms(1) by (auto simp: run_at_def)
  then have X: "insert b1 X \<subseteq> set (b1 # H)" by simp
  then have "x \<in> set (b1 # H)" "y \<in> set (b1 # H)" using assms(4,7) by blast+
  from new_slot [OF H(1) is_row_mono [OF assms(2) X] assms(3) this(1) assms(5) named_mono [OF assms(6) X] this(2)
      assms(8) named_mono [OF assms(9) X] assms(10)] H(2)
  show ?thesis unfolding run_at_def by (intro exI [of _ "b1 # H"]) auto
qed

lemma run_at_site:
  assumes "run_at t rela S T b b1 X D E" "(p, ok, new) \<in> set T"
    "b2 = b1 \<and> slice b1 p (p + int (length new)) = new
     \<or> b2 = splice b1 p (p + int (length new)) new \<and> ok (slice b1 p (p + int (length new)))"
  shows "run_at t rela S T b b2 X D (p # E)"
proof -
  obtain H where H: "edits t rela S T b (b1 # H) D E" "X \<subseteq> set (b1 # H)" using assms(1) by (auto simp: run_at_def)
  from assms(3) show ?thesis
  proof (elim disjE conjE)
    assume "b2 = b1" "slice b1 p (p + int (length new)) = new"
    then show ?thesis using right_site [OF H(1) assms(2)] H(2) unfolding run_at_def by blast
  next
    assume "b2 = splice b1 p (p + int (length new)) new" "ok (slice b1 p (p + int (length new)))"
    then show ?thesis using new_site [OF H(1) assms(2)] H(2) unfolding run_at_def by (intro exI [of _ "b1 # H"]) auto
  qed
qed

text \<open>One slot or one site of a script is one step.\<close>

lemma slot_step:
  assumes "slot_edit b1 o' j pre known = Inr (b2, w)" "run_at t rela S T b b1 X D E" "is_row (insert b1 X) rela o' off"
    "(off, old, new) \<in> set S" "named (insert b1 X) t j new" and pre: "\<And>info. pre info = Inr () \<Longrightarrow> info mod 256 = 1"
    and known: "\<And>cur. known cur = Inr () \<Longrightarrow> symname b1 t cur = Inr old"
  shows "run_at t rela S T b b2 X (off # D) E"
proof -
  obtain info where i: "u32 b1 (o' + 4) = Inr info" "pre info = Inr ()"
    "info div 256 = j \<and> b2 = b1 \<or> known (info div 256) = Inr () \<and> rewire b1 o' j 1 = Inr b2"
    using assms(1) by (auto simp: slot_edit_def split: if_splits)
  from i(3) show ?thesis
  proof (elim disjE conjE)
    assume "info div 256 = j" "b2 = b1"
    then show ?thesis using run_at_right_slot [OF assms(2-4) i(1)] assms(5) by simp
  next
    assume k: "known (info div 256) = Inr ()" and w: "rewire b1 o' j 1 = Inr b2"
    from run_at_new_slot [OF assms(2-4) insertI1 i(1) named_here [OF known [OF k] insertI1] insertI1 i(1) assms(5)]
    show ?thesis using w pre [OF i(2)] by simp
  qed
qed

lemma must_Inr [simp]: "must c msg = Inr x \<longleftrightarrow> c"
  by (simp add: must_def)

lemma patch_site_step:
  assumes "patch_site p old new name b1 = Inr (b2, w)" "run_at t rela S T b b1 X D E"
    "(p, (\<lambda>c. c = old), new) \<in> set T" "length old = length new"
  shows "run_at t rela S T b b2 X D (p # E)"
  by (rule run_at_site [OF assms(2,3)]) (use assms(1,4) in \<open>auto simp: patch_site_def Let_def split: if_splits\<close>)

definition places :: "int \<Rightarrow> site list \<Rightarrow> site_place list" where
  "places off ss = map (\<lambda>(v, old, new, name). (off + v, (\<lambda>c. c = old), new)) ss"

lemma patch_sites_steps:
  assumes "patch_sites off 0 ss (b1, d, k) = Inr (b2, d', k')" "run_at t rela S T b b1 X D E"
    "set (places off ss) \<subseteq> set T" "\<forall>s \<in> set ss. site_ok s"
  shows "\<exists>E'. run_at t rela S T b b2 X D E' \<and> set E \<union> fst ` set (places off ss) \<subseteq> set E'"
  using assms
proof (induction ss arbitrary: b1 d k E)
  case (Cons s ss)
  obtain v old new name where s: "s = (v, old, new, name)" by (cases s)
  obtain b3 w where h: "patch_site (off + v) old new name b1 = Inr (b3, w)"
    "patch_sites off 0 ss (if w then (b3, Suc d, k) else (b3, d, Suc k)) = Inr (b2, d', k')"
    using Cons.prems(1) by (auto simp: s)
  have "run_at t rela S T b b3 X D ((off + v) # E)"
    using Cons.prems(3,4) by (intro patch_site_step [OF h(1) Cons.prems(2)]) (auto simp: places_def s)
  moreover have "set (places off ss) \<subseteq> set T" using Cons.prems(3) by (simp add: places_def)
  ultimately have "\<exists>E'. run_at t rela S T b b2 X D E' \<and> set ((off + v) # E) \<union> fst ` set (places off ss) \<subseteq> set E'"
    using Cons.IH [of b3 _ _ "(off + v) # E"] h(2) Cons.prems(4) by (cases w) simp_all
  then show ?case by (auto simp: places_def s)
qed (auto simp: places_def)

text \<open>What a run of edits leaves alone.\<close>

definition edit_bytes :: "nat \<Rightarrow> shdr \<Rightarrow> site_place list \<Rightarrow> nat set" where
  "edit_bytes n rela T = (case nrels rela of Inl _ \<Rightarrow> {} | Inr k \<Rightarrow>
      (\<Union>i \<in> set (py_range k). {nat (row_pos rela i + 4)..<nat (row_pos rela i + 4) + 4}))
    \<union> (\<Union>(p, ok, new) \<in> set T. {clip n p..<clip n p + length new})"

lemma rewire_changed:
  assumes "rewire b o' j typ = Inr b'" "0 \<le> o'"
  shows "changed b b' {nat (o' + 4)..<nat (o' + 4) + 4}"
  using pack_into_I_Inr [OF assms(1) [unfolded rewire_def]] assms(2) pack_I_length
  by (auto intro!: changed_overwrite)

lemma splice_changed:
  assumes "length (slice b p (p + int (length new))) = length new" "new \<noteq> []"
  shows "changed b (splice b p (p + int (length new)) new) {clip (length b) p..<clip (length b) p + length new}"
proof -
  have le: "clip (length b) p + length new \<le> length b"
    and s: "splice b p (p + int (length new)) new = overwrite (clip (length b) p) new b"
    using slice_full [OF assms(1)] assms(2) by simp_all
  show ?thesis unfolding s using le by (auto simp: changed_def overwrite_def nth_append)
qed

lemma edits_changed:
  assumes "edits t rela S T b H D E" and nn: "0 \<le> s_offset rela" "0 \<le> s_entsize rela"
    and ok: "\<forall>(p, ok, new) \<in> set T. new \<noteq> [] \<and> (\<forall>c. ok c \<longrightarrow> length c = length new)"
  shows "changed b (hd H) (edit_bytes (length b) rela T)"
  using assms(1)
proof induction
  case (new_slot b1 H D E o' off old new x info y info' j b2)
  obtain n i where n: "nrels rela = Inr n" "i \<in> set (py_range n)" "o' = row_pos rela i"
    using new_slot.hyps(2) by (auto simp: is_row_def split: sum.splits)
  have "0 \<le> o'" using nn n(2,3) by (simp add: row_pos_def py_range_def)
  from rewire_changed [OF new_slot.hyps(10) this]
  have "changed b1 b2 (edit_bytes (length b) rela T)"
    using n by (elim changed_mono) (auto simp: edit_bytes_def)
  with new_slot.IH show ?case using changed_step [of b b1 _ b2] by fastforce
next
  case (new_site b1 H D E p ok new)
  have l: "length b1 = length b" using new_site.IH by (simp add: changed_def)
  have "changed b1 (splice b1 p (p + int (length new)) new) (edit_bytes (length b) rela T)"
    by (rule changed_mono [OF splice_changed])
      (use new_site.hyps(2,3) assms(4) in \<open>auto simp: edit_bytes_def l\<close>)
  with new_site.IH show ?case using changed_step [of b b1] by fastforce
qed simp_all

end
