(* ===== verification/Fixed_Sites.thy ===== *)
theory Fixed_Sites
  imports Text_Patcher Stock_Image
begin

text \<open>
  The patchers that take \<open>.text\<close> to start at file offset \<open>0x34\<close> and never read the section headers:
  \<open>patch_autocon_lsr\<close>, \<open>patch_xpanic_sync\<close> and \<open>patch_sysconfig_pagesize\<close>, which meet the contract
  \<open>text_patcher\<close>, and the two-phase patchers \<open>patch_nfs_putpage\<close> and \<open>patch_nfs_getpage\<close>, which verify all
  their sites before they write any; the second can also revert.
\<close>

definition TEXT_OFF :: int where
  "TEXT_OFF = 0x34"

definition fixed_text :: "byte list \<Rightarrow> exn + int \<times> int" where
  "fixed_text b = Inr (0, TEXT_OFF)"

subsection \<open>One site\<close>

definition autocon_site :: site where
  "autocon_site = (0x1927a, [0x3a, 0x30, 0x18, 0x14, 0x20, 0x06, 0x7e, 0x10, 0xee, 0xa0, 0xb0, 0x85],
     [0x3a, 0x30, 0x18, 0x14, 0x20, 0x06, 0x7e, 0x10, 0xee, 0xa8, 0xb0, 0x85], ''autocon'')"

definition xpanic_site :: site where
  "xpanic_site = (0x3e68e, [0x2d, 0x40, 0xff, 0xfc], [0x42, 0xae, 0xff, 0xfc], ''xpanic'')"

text \<open>The result is whether the script wrote.\<close>

definition one_site_main :: "site \<Rightarrow> bool script" where
  "one_site_main s b = (case s of (v, old, new, name) \<Rightarrow> write_back b (patch_site (TEXT_OFF + v) old new name b))"

definition autocon_main :: "bool script" where
  "autocon_main = one_site_main autocon_site"

definition xpanic_main :: "bool script" where
  "xpanic_main = one_site_main xpanic_site"

lemma one_site_steps:
  "one_site_main s b = write_back b
      (bind_e (fixed_text b) (\<lambda>(addr, off).
       bind_e (no_check off addr b) (\<lambda>_.
       bind_e (patch_sites off addr [s] (b, 0, 0)) (\<lambda>(buf, d, n).
       bind_e (no_check off addr buf) (\<lambda>_. Inr (buf, d = 1))))))"
proof -
  obtain v old new name where s: "s = (v, old, new, name)" by (cases s)
  show ?thesis
  proof (cases "patch_site (TEXT_OFF + v) old new name b")
    case (Inr r)
    then show ?thesis by (cases r) (simp add: one_site_main_def s fixed_text_def no_check_def)
  qed (simp add: one_site_main_def s fixed_text_def no_check_def)
qed

interpretation autocon: text_patcher "[autocon_site]" autocon_main fixed_text no_check no_check "\<lambda>d s. d = 1"
  by unfold_locales (simp_all add: autocon_main_def one_site_steps fixed_text_def,
    simp add: consistent_def compat_def autocon_site_def)

interpretation xpanic: text_patcher "[xpanic_site]" xpanic_main fixed_text no_check no_check "\<lambda>d s. d = 1"
  by unfold_locales (simp_all add: xpanic_main_def one_site_steps fixed_text_def,
    simp add: consistent_def compat_def xpanic_site_def)

subsection \<open>patch_sysconfig_pagesize\<close>

definition sysconfig_SITES :: "site list" where
  "sysconfig_SITES = [(0x44e7c, [0x20, 0xbc, 0x00, 0x00, 0x08, 0x00], [0x20, 0xbc, 0x00, 0x00, 0x10, 0x00],
     ''sysconfig:_CONFIG_PAGESIZE movel #2048 -> #4096'')]"

definition sysconfig_CANARIES :: "canary list" where
  "sysconfig_CANARIES =
    [(0x44e72, [0x20, 0xbc, 0x00, 0x03, 0x08, 0x98], ''_CONFIG_POSIX_VER 198808''),
     (0x44e22, [0x72, 0x06], ''_CONFIG_PAGESIZE case VALUE 6'')]"

text \<open>The file is written only if a site was patched, which is the same as writing it back.\<close>

definition sysconfig_main :: "(nat \<times> nat) script" where
  "sysconfig_main b = write_back b
     (bind_e (check_canaries TEXT_OFF 0 sysconfig_CANARIES b) (\<lambda>_.
      bind_e (patch_sites TEXT_OFF 0 sysconfig_SITES (b, 0, 0)) (\<lambda>(img, patched, already).
      Inr (img, (patched, already)))))"

interpretation sysconfig: text_patcher sysconfig_SITES sysconfig_main fixed_text
    "\<lambda>off addr b. check_canaries off addr sysconfig_CANARIES b" no_check Pair
  by unfold_locales (simp_all add: sysconfig_main_def fixed_text_def,
    simp add: consistent_def compat_def sysconfig_SITES_def)

subsection \<open>The two-phase patchers\<close>

text \<open>The first loop: the sites that still hold their old bytes, and how many hold the new ones.\<close>

fun verify_sites :: "byte list \<Rightarrow> site list \<Rightarrow> exn + site list \<times> nat" where
  "verify_sites img [] = Inr ([], 0)"
| "verify_sites img ((va, old, new, name) # ss) =
     (let got = slice img (va + TEXT_OFF) (va + TEXT_OFF + int (length old)) in
      if got = new then bind_e (verify_sites img ss) (\<lambda>(todo, already). Inr (todo, Suc already))
      else if got \<noteq> old then Inl (SystemExit ''ABORT: NOTHING was written'')
      else bind_e (verify_sites img ss) (\<lambda>(todo, already). Inr ((va, old, new, name) # todo, already)))"

text \<open>The second loop.\<close>

fun write_sites :: "site list \<Rightarrow> byte list \<Rightarrow> byte list" where
  "write_sites [] img = img"
| "write_sites ((va, old, new, name) # ss) img =
     write_sites ss (splice img (va + TEXT_OFF) (va + TEXT_OFF + int (length new)) new)"

definition unit_main :: "canary list \<Rightarrow> site list \<Rightarrow> nat script" where
  "unit_main canaries sites b = write_back b
     (bind_e (check_canaries TEXT_OFF 0 canaries b) (\<lambda>_.
      bind_e (verify_sites b sites) (\<lambda>(todo, already).
      if todo \<noteq> [] \<and> already \<noteq> 0 then Inl (SystemExit ''ABORT: half applied'')
      else Inr (write_sites todo b, length todo))))"

definition putpage_SITES :: "site list" where
  "putpage_SITES =
    [(0x8b9de, [0x26, 0x3c, 0x00, 0x00, 0x08, 0x00], [0x26, 0x3c, 0x00, 0x00, 0x10, 0x00],
       ''nfs_putpage:io_len = PAGESIZE  movel #2048 -> #4096''),
     (0x8ba2c, [0x06, 0x83, 0x00, 0x00, 0x08, 0x00], [0x06, 0x83, 0x00, 0x00, 0x10, 0x00],
       ''nfs_putpage:io_len += PAGESIZE addil #2048 -> #4096'')]"

definition putpage_CANARIES :: "canary list" where
  "putpage_CANARIES =
    [(0x8b84e, [0x0c, 0xa8, 0x00, 0x00, 0x07, 0xff], ''MAX(vfs_bsize,PAGESIZE) gate''),
     (0x8b85a, [0x2d, 0x7c, 0x00, 0x00, 0x08, 0x00], ''fallback PAGESIZE local minimum''),
     (0x8b916, [0x06, 0x80, 0x00, 0x00, 0x07, 0xff], ''file-size round-up''),
     (0x8b91c, [0x02, 0x40, 0xf8, 0x00], ''rounded file boundary mask'')]"

definition nfs_putpage_main :: "nat script" where
  "nfs_putpage_main = unit_main putpage_CANARIES putpage_SITES"

definition getpage_SITES :: "site list" where
  "getpage_SITES =
    [(0x8b6ba, [0x06, 0x81, 0x00, 0x00, 0x07, 0xff], [0x06, 0x81, 0x00, 0x00, 0x0f, 0xff],
       ''nfs_getpage:EOF allowance   rp->r_size + 2047 -> + 4095''),
     (0x8b26c, [0x06, 0xae, 0xff, 0xff, 0xf8, 0x00, 0xff, 0xec], [0x06, 0xae, 0xff, 0xff, 0xf0, 0x00, 0xff, 0xec],
       ''nfs_getapage:pl[] countdown sz -= 2048 -> 4096''),
     (0x8b282, [0x06, 0x80, 0x00, 0x00, 0x07, 0xff], [0x06, 0x80, 0x00, 0x00, 0x0f, 0xff],
       ''nfs_getapage:io_len round   + 2047 -> + 4095''),
     (0x8b288, [0x02, 0x40, 0xf8, 0x00], [0x02, 0x40, 0xf0, 0x00],
       ''nfs_getapage:io_len mask    andiw #-2048 -> #-4096'')]"

definition getpage_CANARIES :: "canary list" where
  "getpage_CANARIES =
    [(0x8b1c0, [0x06, 0x80, 0xff, 0xff, 0xf8, 0x00], ''segkmap one-page-beyond-EOF synthesis''),
     (0x8b360, [0x06, 0x80, 0x00, 0x00, 0x07, 0xff], ''primary statistics round add''),
     (0x8b366, [0x7a, 0x0b], ''primary statistics shift''),
     (0x8b406, [0x06, 0x80, 0x00, 0x00, 0x07, 0xff], ''async read-ahead I/O round add''),
     (0x8b40c, [0x02, 0x40, 0xf8, 0x00], ''async read-ahead I/O mask''),
     (0x8b46c, [0x06, 0x80, 0x00, 0x00, 0x07, 0xff], ''read-ahead statistics add''),
     (0x8b472, [0x7a, 0x0b], ''read-ahead statistics shift''),
     (0x8b50c, [0x06, 0x85, 0x00, 0x00, 0x08, 0x00], ''resident-hit r_nextr advance''),
     (0x8b72c, [0x0c, 0x84, 0x00, 0x00, 0x08, 0x00], ''direct-vs-pvn_getpages dispatch'')]"

text \<open>
  \<open>--revert\<close> checks no canary, and skips the sites that are original already without asking whether
  others are not.
\<close>

definition nfs_getpage_revert :: "nat script" where
  "nfs_getpage_revert b = write_back b
     (bind_e (verify_sites b (revert getpage_SITES)) (\<lambda>(todo, already). Inr (write_sites todo b, length todo)))"

definition nfs_getpage_main :: "bool \<Rightarrow> nat script" where
  "nfs_getpage_main back = (if back then nfs_getpage_revert else unit_main getpage_CANARIES getpage_SITES)"

subsection \<open>What the two loops do\<close>

text \<open>The bytes of a site as the scripts read them.\<close>

definition reads :: "byte list \<Rightarrow> site \<Rightarrow> byte list" where
  "reads b e = (case e of (va, old, new, name) \<Rightarrow> slice b (va + TEXT_OFF) (va + TEXT_OFF + int (length old)))"

lemma verify_sites_Inr:
  "verify_sites b ss = Inr (todo, n) \<Longrightarrow>
    todo = filter (\<lambda>e. reads b e \<noteq> new_of e) ss \<and> length todo + n = length ss
    \<and> (\<forall>e \<in> set ss. reads b e \<in> {old_of e, new_of e})"
proof (induction b ss arbitrary: todo n rule: verify_sites.induct)
  case (2 img va old new name ss)
  let ?got = "slice img (va + TEXT_OFF) (va + TEXT_OFF + int (length old))"
  have got: "reads img (va, old, new, name) = ?got" by (simp add: reads_def)
  consider "?got = new" | "?got \<noteq> new" "?got = old" using "2.prems" by (auto simp: Let_def split: if_splits)
  then show ?case
  proof cases
    case 1
    then obtain todo' n' where r: "verify_sites img ss = Inr (todo', n')" "todo = todo'" "n = Suc n'"
      using "2.prems" by (auto simp: Let_def)
    from "2.IH"(1) [OF refl 1 r(1)] show ?thesis using r 1 by (auto simp: got)
  next
    case 2
    then obtain todo' n' where r: "verify_sites img ss = Inr (todo', n')" "todo = (va, old, new, name) # todo'" "n = n'"
      using "2.prems" by (auto simp: Let_def)
    from "2.IH"(2) [OF refl 2(1) _ r(1)] show ?thesis using r 2 by (auto simp: got)
  qed
qed simp

lemma reads_room:
  assumes "room TEXT_OFF 0 0 (length b) [e]" "site_ok e"
  shows "site_read TEXT_OFF 0 b e = reads b e"
proof -
  obtain va old new name where e: "e = (va, old, new, name)" by (cases e)
  have r: "0 \<le> va + TEXT_OFF" "va + TEXT_OFF + int (length new) \<le> int (length b)" "length old = length new"
    using assms by (simp_all add: e add.commute)
  then show ?thesis
    by (simp add: e site_read_def reads_def slice_eq_sub clip_id add.commute [of TEXT_OFF va] nat_add_distrib)
qed

text \<open>A site that reads its old or its new bytes lies in the file.\<close>

lemma reads_site_read:
  assumes "reads b e \<in> {old_of e, new_of e}" "site_ok e" "0 \<le> fst e"
  shows "room TEXT_OFF 0 0 (length b) [e]" and "site_read TEXT_OFF 0 b e = reads b e"
proof -
  obtain va old new name where e: "e = (va, old, new, name)" by (cases e)
  have n: "length old = length new" "0 < length new" using assms(2) by (auto simp: e)
  have "length (slice b (va + TEXT_OFF) (va + TEXT_OFF + int (length new))) = length new"
    using assms(1) n by (auto simp: e reads_def)
  note f = slice_full [OF this n(2)]
  have "0 \<le> va + TEXT_OFF" using assms(3) by (simp add: e TEXT_OFF_def)
  then have c: "clip (length b) (va + TEXT_OFF) = min (nat (va + TEXT_OFF)) (length b)" by (auto simp: clip_def)
  have le: "nat (va + TEXT_OFF) + length new \<le> length b" using f(1) n(2) unfolding c by linarith
  then show room: "room TEXT_OFF 0 0 (length b) [e]" using \<open>0 \<le> va + TEXT_OFF\<close> by (simp add: e)
  show "site_read TEXT_OFF 0 b e = reads b e" by (rule reads_room [OF room assms(2)])
qed

lemma room_all: "\<forall>e \<in> set ps. room off addr lo hi [e] \<Longrightarrow> room off addr lo hi ps"
  by (fastforce simp: room_def)

lemma write_sites_apply:
  "\<forall>e \<in> set ss. site_ok e \<Longrightarrow> room TEXT_OFF 0 0 (length b) ss \<Longrightarrow> write_sites ss b = apply_new TEXT_OFF 0 ss b"
proof (induction ss b rule: write_sites.induct)
  case (2 va old new name ss img)
  have r: "0 \<le> va + TEXT_OFF" "va + TEXT_OFF + int (length new) \<le> int (length img)"
    using "2.prems"(2) by (simp_all add: add.commute)
  have "splice img (va + TEXT_OFF) (va + TEXT_OFF + int (length new)) new
      = overwrite (clip (length img) (TEXT_OFF + (va - 0))) new img"
    using r by (simp add: splice_def overwrite_def clip_id Let_def nat_add_distrib add.commute)
  then have "splice img (va + TEXT_OFF) (va + TEXT_OFF + int (length new)) new = write_site TEXT_OFF 0 (va, old, new, name) img"
    by (simp add: write_site_def)
  then show ?case using 2 by simp
qed simp

text \<open>On a site that reads its old bytes, writing the new ones and then the old ones changes nothing.\<close>

lemma site_byte_revert: "\<forall>e \<in> set ps. site_ok e \<Longrightarrow> site_byte (revert ps) v = None \<longleftrightarrow> site_byte ps v = None"
proof (induction ps)
  case (Cons s ps)
  then show ?case by (cases s) (simp add: revert_def)
qed (simp add: revert_def)

lemma apply_revert:
  assumes c: "consistent ps" and r: "room off addr 0 (length b) ps" and o: "all_old off addr ps b"
  shows "apply_new off addr (revert ps) (apply_new off addr ps b) = b"
proof -
  have ok: "\<forall>e \<in> set ps. site_ok e" using c by (simp add: consistent_def)
  note c' = consistent_revert [OF c]
  have r': "room off addr 0 (length b) (revert ps)" using r room_revert [OF ok] by blast
  have same: "apply_new off addr (revert ps) b = b"
    using apply_new_all_new [OF c' r'] o all_old_revert [OF ok] by blast
  have "apply_new off addr (revert ps) (apply_new off addr ps b) ! i = b ! i" if i: "i < length b" for i
  proof -
    let ?v = "int i - off + addr"
    have "b ! i = (case site_byte (revert ps) ?v of Some x \<Rightarrow> x | None \<Rightarrow> b ! i)"
      using nth_apply_new [OF c' r' i] same by simp
    moreover have "apply_new off addr ps b ! i = b ! i" if "site_byte (revert ps) ?v = None"
      using nth_apply_new [OF c r i] that site_byte_revert [OF ok] by simp
    ultimately show ?thesis
      using nth_apply_new [OF c', of off addr "apply_new off addr ps b" i] r r' i by (auto split: option.splits)
  qed
  then show ?thesis using r r' by (intro nth_equalityI) simp_all
qed

lemma filter_all_or_none:
  "filter P xs = [] \<or> length (filter P xs) = length xs \<Longrightarrow> filter P xs = [] \<or> filter P xs = xs"
  by (metis filter_True filter_id_conv length_filter_less not_less_iff_gr_or_eq)

text \<open>
  A run of a unit leaves the file alone, or finds every site converted already, or finds every site
  unconverted and converts them all.
\<close>

lemma unit_outcome:
  assumes c: "consistent sites" and v: "\<forall>e \<in> set sites. 0 \<le> fst e"
  shows "case unit_main can sites b of
      (b', Inl e) \<Rightarrow> b' = b
    | (b', Inr n) \<Rightarrow> room TEXT_OFF 0 0 (length b) sites \<and>
        (if n = 0 then b' = b \<and> all_new TEXT_OFF 0 sites b
         else n = length sites \<and> all_old TEXT_OFF 0 sites b \<and> b' = apply_new TEXT_OFF 0 sites b)"
proof (cases "bind_e (check_canaries TEXT_OFF 0 can b) (\<lambda>_. bind_e (verify_sites b sites) (\<lambda>(todo, already).
      if todo \<noteq> [] \<and> already \<noteq> 0 then Inl (SystemExit ''ABORT: half applied'')
      else Inr (write_sites todo b, length todo)))")
  case (Inl e)
  then show ?thesis by (simp add: unit_main_def)
next
  case (Inr r)
  then obtain todo already where t: "verify_sites b sites = Inr (todo, already)" "todo = [] \<or> already = 0"
    "r = (write_sites todo b, length todo)"
    by (auto split: if_splits)
  have run: "unit_main can sites b = (fst r, Inr (snd r))"
    unfolding unit_main_def Inr by (cases r) simp
  note w = verify_sites_Inr [OF t(1)]
  have ok: "\<forall>e \<in> set sites. site_ok e" using c by (simp add: consistent_def)
  have rd: "\<forall>e \<in> set sites. room TEXT_OFF 0 0 (length b) [e] \<and> site_read TEXT_OFF 0 b e = reads b e"
    using reads_site_read w ok v by blast
  then have room: "room TEXT_OFF 0 0 (length b) sites" by (intro room_all) blast
  have "todo = [] \<or> todo = sites"
    using w t(2) filter_all_or_none [of "\<lambda>e. reads b e \<noteq> new_of e" sites] by auto
  moreover have flt: "filter (\<lambda>e. reads b e \<noteq> new_of e) sites = todo" using w by simp
  moreover have known: "\<forall>e \<in> set sites. reads b e \<in> {old_of e, new_of e}" using w by simp
  ultimately consider "todo = []" "\<forall>e \<in> set sites. reads b e = new_of e"
    | "todo = sites" "\<forall>e \<in> set sites. reads b e = old_of e"
    by (force simp: filter_empty_conv filter_id_conv)
  then show ?thesis
  proof cases
    case 1
    then have "all_new TEXT_OFF 0 sites b" using rd by (simp add: all_new_def)
    with 1 show ?thesis using run t(3) room by simp
  next
    case 2
    then have "all_old TEXT_OFF 0 sites b" using rd by (simp add: all_old_def)
    moreover have "sites = [] \<Longrightarrow> all_new TEXT_OFF 0 sites b" by (simp add: all_new_def)
    ultimately show ?thesis using run t(3) room 2(1) write_sites_apply [OF ok room] by simp
  qed
qed

lemma revert_ok: "consistent ps \<Longrightarrow> \<forall>e \<in> set (revert ps). site_ok e"
  using consistent_revert by (simp add: consistent_def)

lemma getpage_consistent: "consistent getpage_SITES" "\<forall>e \<in> set getpage_SITES. 0 \<le> fst e"
  by (simp_all add: consistent_def compat_def getpage_SITES_def)

lemma putpage_consistent: "consistent putpage_SITES" "\<forall>e \<in> set putpage_SITES. 0 \<le> fst e"
  by (simp_all add: consistent_def compat_def putpage_SITES_def)

text \<open>Sites that all hold their old bytes are all written.\<close>

lemma verify_sites_all_old:
  "all_old TEXT_OFF 0 ss b \<Longrightarrow> room TEXT_OFF 0 0 (length b) ss \<Longrightarrow> \<forall>e \<in> set ss. site_ok e \<and> old_of e \<noteq> new_of e \<Longrightarrow>
    verify_sites b ss = Inr (ss, 0)"
proof (induction ss)
  case (Cons e ss)
  obtain va old new name where e: "e = (va, old, new, name)" by (cases e)
  have "room TEXT_OFF 0 0 (length b) [e]" using Cons.prems(2) by (simp add: e)
  then have "reads b e = old" using reads_room [of b e] Cons.prems(1,3) by (simp add: all_old_def e)
  moreover have "verify_sites b ss = Inr (ss, 0)" using Cons by (simp add: all_old_def e)
  ultimately show ?case using Cons.prems(3) by (simp add: e reads_def Let_def)
qed simp

lemma revert_revert: "revert (revert ps) = ps"
  by (induction ps) (auto simp: revert_def)

lemma getpage_changes: "\<forall>e \<in> set getpage_SITES. old_of e \<noteq> new_of e"
  by (simp add: getpage_SITES_def)

lemma getpage_revert:
  assumes r: "room TEXT_OFF 0 0 (length b) getpage_SITES" and o: "all_old TEXT_OFF 0 getpage_SITES b"
  shows "nfs_getpage_revert (apply_new TEXT_OFF 0 getpage_SITES b) = (b, Inr 4)"
proof -
  let ?b = "apply_new TEXT_OFF 0 getpage_SITES b" and ?r = "revert getpage_SITES"
  note c = getpage_consistent(1)
  have ok: "\<forall>e \<in> set getpage_SITES. site_ok e" using c by (simp add: consistent_def)
  have r': "room TEXT_OFF 0 0 (length ?b) ?r" using r room_revert [OF ok] by simp
  have "all_old TEXT_OFF 0 ?r ?b"
    using all_new_apply_new [OF c r] all_old_revert [OF revert_ok [OF c]] by (simp add: revert_revert)
  moreover have "\<forall>e \<in> set ?r. site_ok e \<and> old_of e \<noteq> new_of e"
    using revert_ok [OF c] getpage_changes by (auto simp: revert_def)
  ultimately have v: "verify_sites ?b ?r = Inr (?r, 0)" using verify_sites_all_old [OF _ r'] by blast
  have "write_sites ?r ?b = b"
    using write_sites_apply [OF revert_ok [OF c] r'] apply_revert [OF c r o] by simp
  moreover have "length ?r = 4" by (simp add: revert_def getpage_SITES_def)
  ultimately show ?thesis by (simp add: nfs_getpage_revert_def v)
qed

text \<open>
  C6: patch_nfs_getpage.py is all or nothing, and its \<open>--revert\<close> undoes it. On every file, a run either aborts
  and leaves the file alone, or finds all four sites converted already and changes nothing, or finds all
  four unconverted and converts them; in the last case reverting the result gives the original file back,
  byte for byte, with four sites reported.
\<close>

theorem nfs_getpage_atomic:
  "case nfs_getpage_main False b of
      (b', Inl e) \<Rightarrow> b' = b
    | (b', Inr n) \<Rightarrow> n = 0 \<and> b' = b \<and> all_new TEXT_OFF 0 getpage_SITES b
        \<or> n = 4 \<and> all_old TEXT_OFF 0 getpage_SITES b \<and> all_new TEXT_OFF 0 getpage_SITES b'
          \<and> nfs_getpage_main True b' = (b, Inr 4)"
proof (cases "unit_main getpage_CANARIES getpage_SITES b")
  case (Pair b' r)
  note u = unit_outcome [OF getpage_consistent, of b getpage_CANARIES, unfolded Pair]
  have n: "length getpage_SITES = 4" by (simp add: getpage_SITES_def)
  show ?thesis
  proof (cases r)
    case (Inr k)
    then show ?thesis
      using u getpage_revert [of b] all_new_apply_new [OF getpage_consistent(1), of TEXT_OFF 0 b]
      by (auto simp: nfs_getpage_main_def Pair n split: if_splits)
  qed (use u in \<open>simp add: nfs_getpage_main_def Pair\<close>)
qed

end
