(* ===== verification/Device_Relocs.thy ===== *)
theory Device_Relocs
  imports Rewire Fixed_Sites
begin

text \<open>
  The patchers that put a wrapper in front of kernel or driver entry points by changing relocations:
  \<open>patch_config_cachefix\<close>, \<open>patch_sendsig_fpu\<close>, \<open>patch_dbgpublish\<close>, \<open>patch_z3660\<close>, \<open>patch_a3091_dma\<close>,
  \<open>patch_a3091_badhardware\<close>, \<open>patch_a3091_intr\<close>, \<open>patch_segdev_ops\<close>, \<open>patch_scrdev_pageb\<close>,
  \<open>patch_va2000_cdevsw\<close>, \<open>patch_xsvga\<close> and \<open>patch_cb_release\<close>.
\<close>

text \<open>The operand of a \<open>jsr\<close>, of type \<open>R_68K_32\<close>.\<close>

definition call_checks :: "byte list \<Rightarrow> int \<Rightarrow> int \<Rightarrow> int \<Rightarrow> exn + unit" where
  "call_checks b text r info = bind_e (opcode_before b text r jsr_op) (\<lambda>_. is_r32 info)"

subsection \<open>patch_config_cachefix and patch_sendsig_fpu\<close>

text \<open>The result is whether the script changed the entry.\<close>

definition config_cachefix_main :: "bool script" where
  "config_cachefix_main b = write_back b
     (bind_e (open_elf b) (\<lambda>(sh, d). bind_e (dict_get ''.text'' d) (\<lambda>text.
      bind_e (dict_get ''.rela.text'' d) (\<lambda>rela. bind_e (dict_get ''.symtab'' d) (\<lambda>st.
      bind_e (strings_of sh st) (\<lambda>t.
      bind_e (sym_index_or ''ABORT: config_cachefix symbol not found'' b t ''config_cachefix'') (\<lambda>wrap.
      bind_e (nrels rela) (\<lambda>rn. bind_e (find_row b rela (\<lambda>off. off = 0x26) (py_range rn)) (\<lambda>hit. case hit of
        None \<Rightarrow> Inl (SystemExit ''ABORT: reloc @0x26 (_start jsr config) not found'')
      | Some o' \<Rightarrow> slot_edit b o' wrap (call_checks b (s_offset text) 0x26)
          (names_at b t ''config'' 0x18f5c))))))))))"

definition sendsig_fpu_main :: "bool script" where
  "sendsig_fpu_main b = write_back b
     (bind_e (name_symtab b) (\<lambda>(sh, shstr, byname, t). bind_e (nsyms t) (\<lambda>_.
      bind_e (opcode_before b TEXT_OFF 0x5921c jsr_op) (\<lambda>_.
      bind_e (sym_value b t ''sendsig'') (\<lambda>v.
      bind_e (must (v + 0x1f8 = 0x5921a) ''ABORT: sendsig+0x1f8 is another address'') (\<lambda>_.
      bind_e (dict_get ''.rela.text'' byname) (\<lambda>rela. bind_e (nrels rela) (\<lambda>rn.
      bind_e (sym_index_or ''ABORT: symbol not found'' b t ''fpu_setup_gated'') (\<lambda>new_idx.
      bind_e (find_row b rela (\<lambda>off. off = 0x5921c) (py_range rn)) (\<lambda>hit. case hit of
        None \<Rightarrow> Inl (SystemExit ''ABORT: no .rela.text reloc'')
      | Some o' \<Rightarrow> slot_edit b o' new_idx is_r32 (names_sym b t ''fpu_setup'')))))))))))"

subsection \<open>patch_dbgpublish and patch_z3660\<close>

text \<open>
  One pass over all entries: an entry at an offset of the table that names the old symbol gets the new
  one; the offsets seen are collected.
\<close>

fun publish_rows :: "symtables \<Rightarrow> shdr \<Rightarrow> (int \<times> string \<times> string) list \<Rightarrow> int list \<Rightarrow> byte list \<times> int list
    \<Rightarrow> exn + byte list \<times> int list" where
  "publish_rows t rela S [] s = Inr s"
| "publish_rows t rela S (i # is) (b, seen) = bind_e (u32 b (row_pos rela i)) (\<lambda>off. case map_of S off of
     None \<Rightarrow> publish_rows t rela S is (b, seen)
   | Some (old, new) \<Rightarrow> bind_e (u32 b (row_pos rela i + 4)) (\<lambda>info. bind_e (symname b t (info div 256)) (\<lambda>cur.
       if cur = new then publish_rows t rela S is (b, off # seen)
       else if cur = old then
         bind_e (sym_index_or ''ABORT: symbol not defined'' b t new) (\<lambda>j.
         bind_e (rewire b (row_pos rela i) j (info mod 256)) (\<lambda>b'. publish_rows t rela S is (b', off # seen)))
       else Inl (SystemExit ''ABORT: reloc names another symbol''))))"

definition publish :: "(int \<times> string \<times> string) list \<Rightarrow> byte list \<Rightarrow> shdr list \<Rightarrow> shdr \<Rightarrow> exn + byte list" where
  "publish S b sh rela = bind_e (py_nth sh (s_link rela)) (\<lambda>st. bind_e (strings_of sh st) (\<lambda>t.
     bind_e (nrels rela) (\<lambda>n. bind_e (publish_rows t rela S (py_range n) (b, [])) (\<lambda>(b', seen).
     bind_e (must (set (map fst S) \<subseteq> set seen) ''ABORT: relocation(s) not found'') (\<lambda>_. Inr b')))))"

definition dbgpublish_SITES :: "(int \<times> string \<times> string) list" where
  "dbgpublish_SITES = [(0x47EB8, ''suword'', ''dbg_suword_publish''), (0x47EEA, ''suword'', ''dbg_suword_publish''),
     (0x64626, ''uiomove'', ''dbg_uiomove_publish'')]"

definition dbgpublish_main :: "unit script" where
  "dbgpublish_main b = write_back b
     (bind_e (open_elf b) (\<lambda>(sh, d). bind_e (dict_get_or ''ABORT: no .rela.text'' ''.rela.text'' d) (\<lambda>rela.
      bind_e (publish dbgpublish_SITES b sh rela) (\<lambda>b'. Inr (b', ())))))"

text \<open>\<open>dd_order\<close> is the environment variable \<open>Z3660_DD_ORDER\<close>.\<close>

definition z3660_todo :: "bool \<Rightarrow> (int \<times> string \<times> string) list" where
  "z3660_todo dd_order = (0xD74C, ''scsicard'', ''z3660_scsicard'') #
     (if dd_order then [(0xC0AE, ''iodone'', ''dd_startio_first'')] else [])"

definition z3660_bound :: "site list" where
  "z3660_bound = [(0xD79E, [0x72, 0x02], [0x72, 0x03], ''scsicard loop bound'')]"

definition z3660_main :: "bool \<Rightarrow> (nat \<times> nat) script" where
  "z3660_main dd_order b = write_back b
     (bind_e (open_elf b) (\<lambda>(sh, d). bind_e (dict_get ''.text'' d) (\<lambda>text.
      bind_e (dict_get_or ''ABORT: no .rela.text'' ''.rela.text'' d) (\<lambda>rela.
      bind_e (publish (z3660_todo dd_order) b sh rela) (\<lambda>b1.
      patch_sites (s_offset text) 0 z3660_bound (b1, 0, 0))))))"

subsection \<open>patch_a3091_dma\<close>

definition dma_stop :: "int list" where
  "dma_stop = [0xd170, 0xd1c8, 0xd2ce, 0xd34a]"

definition dma_start :: "(int \<times> string) list" where
  "dma_start = [(0xd0b2, ''dma_a3091_startdma''), (0xd21a, ''dma_a3091_startdma_reconn'')]"

fun stop_rows :: "int \<Rightarrow> symtables \<Rightarrow> shdr \<Rightarrow> int \<Rightarrow> int list \<Rightarrow> byte list \<times> int list \<times> nat \<times> nat
    \<Rightarrow> exn + byte list \<times> int list \<times> nat \<times> nat" where
  "stop_rows text t rela wrap [] s = Inr s"
| "stop_rows text t rela wrap (i # is) (b, seen, done, skip) = bind_e (u32 b (row_pos rela i)) (\<lambda>off.
     if off \<notin> set dma_stop then stop_rows text t rela wrap is (b, seen, done, skip)
     else bind_e (slot_edit b (row_pos rela i) wrap (call_checks b text off) (names_at b t ''stopdma'' 0xd4cc))
       (\<lambda>(b', wrote). stop_rows text t rela wrap is
          (b', off # seen, if wrote then Suc done else done, if wrote then skip else Suc skip)))"

fun start_slots :: "int \<Rightarrow> symtables \<Rightarrow> shdr \<Rightarrow> int \<Rightarrow> (int \<times> string) list \<Rightarrow> byte list \<times> nat \<times> nat
    \<Rightarrow> exn + byte list \<times> nat \<times> nat" where
  "start_slots text t rela rn [] s = Inr s"
| "start_slots text t rela rn ((r, name) # rs) (b, done, skip) =
     bind_e (sym_index_or ''ABORT: wrapper symbol not found'' b t name) (\<lambda>widx.
     bind_e (find_row b rela (\<lambda>off. off = r) (py_range rn)) (\<lambda>hit. case hit of
       None \<Rightarrow> Inl (SystemExit ''ABORT: a3091 startdma reloc not found'')
     | Some o' \<Rightarrow> bind_e (slot_edit b o' widx (call_checks b text r) (names_at b t ''startdma'' 0xd40a)) (\<lambda>(b', wrote).
         start_slots text t rela rn rs (b', if wrote then Suc done else done, if wrote then skip else Suc skip))))"

definition whole_group :: "nat \<Rightarrow> nat \<Rightarrow> exn + unit" where
  "whole_group done skip = must (done = 0 \<or> skip = 0) ''ABORT: partial retarget -- group is atomic''"

text \<open>The result is how many stop and start calls were changed and how many were right.\<close>

definition a3091_dma_main :: "((nat \<times> nat) \<times> (nat \<times> nat)) script" where
  "a3091_dma_main b = write_back b
     (bind_e (open_elf b) (\<lambda>(sh, d). bind_e (dict_get ''.text'' d) (\<lambda>text. bind_e (dict_get ''.symtab'' d) (\<lambda>st.
      bind_e (strings_of sh st) (\<lambda>t. bind_e (dict_get ''.rela.text'' d) (\<lambda>rela. bind_e (nsyms t) (\<lambda>_.
      bind_e (sym_index_or ''ABORT: wrapper symbol not found'' b t ''dma_a3091_stopdma'') (\<lambda>wrap.
      bind_e (nrels rela) (\<lambda>rn.
      bind_e (stop_rows (s_offset text) t rela wrap (py_range rn) (b, [], 0, 0)) (\<lambda>(b1, seen, done, skip).
      bind_e (must (set dma_stop \<subseteq> set seen) ''ABORT: a3091 stopdma reloc(s) not found'') (\<lambda>_.
      bind_e (whole_group done skip) (\<lambda>_.
      bind_e (start_slots (s_offset text) t rela rn dma_start (b1, 0, 0)) (\<lambda>(b2, sdone, sskip).
      bind_e (whole_group sdone sskip) (\<lambda>_. Inr (b2, ((done, skip), (sdone, sskip)))))))))))))))))"

subsection \<open>patch_a3091_badhardware\<close>

text \<open>\<open>found\<close>: the entries that name \<open>badhardware\<close> or the interposer: offset, position, symbol, value.\<close>

fun bad_found :: "byte list \<Rightarrow> symtables \<Rightarrow> shdr \<Rightarrow> int \<Rightarrow> int list \<Rightarrow> exn + (int \<times> int \<times> int \<times> int) list" where
  "bad_found b t rela new_idx [] = Inr []"
| "bad_found b t rela new_idx (i # is) = bind_e (u32 b (row_pos rela i + 4)) (\<lambda>info.
     bind_e (symname b t (info div 256)) (\<lambda>nm.
     if nm = ''badhardware'' \<or> info div 256 = new_idx then
       bind_e (u32 b (row_pos rela i)) (\<lambda>off. bind_e (symvalue b t (info div 256)) (\<lambda>val.
       bind_e (bad_found b t rela new_idx is) (\<lambda>rest. Inr ((off, row_pos rela i, info div 256, val) # rest))))
     else bad_found b t rela new_idx is))"

fun bad_calls :: "int \<Rightarrow> int \<Rightarrow> (int \<times> int \<times> int \<times> int) list \<Rightarrow> byte list \<times> nat \<times> nat
    \<Rightarrow> exn + byte list \<times> nat \<times> nat" where
  "bad_calls text new_idx [] s = Inr s"
| "bad_calls text new_idx ((off, o', cur, val) # fs) (b, done, skip) =
     (if cur = new_idx then bad_calls text new_idx fs (b, done, Suc skip)
      else if val = 0xcf46 then bad_calls text new_idx fs (b, done, skip)
      else bind_e (must (off = 0xd3a6) ''ABORT: unexpected a3091 badhardware reloc'') (\<lambda>_.
        bind_e (opcode_before b text off jsr_op) (\<lambda>_.
        bind_e (u32 b (o' + 4)) (\<lambda>info. bind_e (is_r32 info) (\<lambda>_.
        bind_e (must (val = 0xd666) ''ABORT: another badhardware'') (\<lambda>_.
        bind_e (rewire b o' new_idx 1) (\<lambda>b'. bad_calls text new_idx fs (b', Suc done, skip))))))))"

definition a3091_badhardware_main :: "(nat \<times> nat) script" where
  "a3091_badhardware_main b = write_back b
     (bind_e (open_elf b) (\<lambda>(sh, d). bind_e (dict_get ''.text'' d) (\<lambda>text. bind_e (dict_get ''.symtab'' d) (\<lambda>st.
      bind_e (dict_get ''.rela.text'' d) (\<lambda>rela. bind_e (strings_of sh st) (\<lambda>t. bind_e (nsyms t) (\<lambda>_.
      bind_e (sym_index_or ''ABORT: a3091_badhardware_dbg not found'' b t ''a3091_badhardware_dbg'') (\<lambda>new_idx.
      bind_e (nrels rela) (\<lambda>rn. bind_e (bad_found b t rela new_idx (py_range rn)) (\<lambda>found.
      bind_e (bad_calls (s_offset text) new_idx found (b, 0, 0)) (\<lambda>(b', done, skip).
      bind_e (must (done + skip = 1) ''ABORT: expected exactly 1 a3091 badhardware call site'') (\<lambda>_.
      Inr (b', (done, skip))))))))))))))"

subsection \<open>patch_a3091_intr\<close>

definition intr_SLOTS :: "(int \<times> string \<times> int) list" where
  "intr_SLOTS = [(0x998c, ''aciaaintr'', 0x0def8), (0x9990, ''jbintr'', 0x0fb3e), (0x9994, ''a2091intr'', 0x0c8a0),
     (0x9998, ''a3091intr'', 0x0d0e0), (0x999c, ''aenintr'', 0x15702)]"

definition intr_known :: "byte list \<Rightarrow> symtables \<Rightarrow> string \<Rightarrow> int \<Rightarrow> int \<Rightarrow> int \<Rightarrow> exn + unit" where
  "intr_known b t want val addend cur =
     bind_e (names_at b t want val cur) (\<lambda>_. must (addend = 0) ''ABORT: addend'')"

text \<open>The loop over the slots: all but \<open>0x9998\<close> are only compared.\<close>

fun intr_slots :: "symtables \<Rightarrow> (int \<times> int) list \<Rightarrow> int \<Rightarrow> (int \<times> string \<times> int) list \<Rightarrow> byte list \<times> nat \<times> nat
    \<Rightarrow> exn + byte list \<times> nat \<times> nat" where
  "intr_slots t at wrap [] s = Inr s"
| "intr_slots t at wrap ((off, want, val) # ss) (b, done, skip) =
     bind_e (row_for at ''ABORT: no relocation in int2_tbl'' off) (\<lambda>o'.
     bind_e (u32 b (o' + 4)) (\<lambda>info. bind_e (u32 b (o' + 8)) (\<lambda>addend. bind_e (is_r32 info) (\<lambda>_.
     if off \<noteq> 0x9998 then
       bind_e (names_at b t want val (info div 256)) (\<lambda>_. intr_slots t at wrap ss (b, done, skip))
     else bind_e (slot_edit b o' wrap is_r32 (intr_known b t want val addend))
       (\<lambda>(b', wrote). intr_slots t at wrap ss
          (b', if wrote then Suc done else done, if wrote then skip else Suc skip))))))"

definition a3091_intr_main :: "(nat \<times> nat) script" where
  "a3091_intr_main b = write_back b
     (bind_e (open_elf b) (\<lambda>(sh, d). bind_e (dict_get_or ''ABORT: no .rela.data'' ''.rela.data'' d) (\<lambda>rela.
      bind_e (dict_get ''.symtab'' d) (\<lambda>st. bind_e (strings_of sh st) (\<lambda>t. bind_e (nsyms t) (\<lambda>sn.
      bind_e (sym_names b t sn) (\<lambda>names.
      bind_e (first_named names ''ABORT: a3091intr_demux not found'' ''a3091intr_demux'') (\<lambda>wrap.
      bind_e (first_named names ''ABORT: int2_tbl not found'' ''int2_tbl'') (\<lambda>tbl.
      bind_e (symvalue b t tbl) (\<lambda>v. bind_e (must (v = 0x998c) ''ABORT: the table moved'') (\<lambda>_.
      bind_e (u32 b (sym_row t tbl + 8)) (\<lambda>size. bind_e (must (size = 24) ''ABORT: the table gained a handler'') (\<lambda>_.
      bind_e (nrels rela) (\<lambda>rn. bind_e (rows_at b rela rn) (\<lambda>at.
      bind_e (must (map_of at 0x99a0 = None) ''ABORT: the terminator is relocated'') (\<lambda>_.
      bind_e (intr_slots t at wrap intr_SLOTS (b, 0, 0)) (\<lambda>(b', done, skip).
      bind_e (must (done + skip = 1) ''ABORT: expected exactly 1'') (\<lambda>_. Inr (b', (done, skip))))))))))))))))))))"

subsection \<open>patch_segdev_ops\<close>

definition segdev_SLOTS :: "(int \<times> string \<times> int \<times> string) list" where
  "segdev_SLOTS = [(0xb384, ''segdev_unmap'', 0xa7c08, ''segdev_unmap_chk''),
     (0xb398, ''segdev_setprot'', 0xa80de, ''segdev_setprot_chk'')]"

fun segdev_slots :: "symtables \<Rightarrow> shdr \<Rightarrow> int \<Rightarrow> string list \<Rightarrow> (int \<times> string \<times> int \<times> string) list
    \<Rightarrow> byte list \<times> nat \<times> nat \<Rightarrow> exn + byte list \<times> nat \<times> nat" where
  "segdev_slots t rela rn names [] s = Inr s"
| "segdev_slots t rela rn names ((off, want, val, wrapper) # ss) (b, done, skip) =
     bind_e (find_row b rela (\<lambda>x. x = off) (py_range rn)) (\<lambda>hit. case hit of
       None \<Rightarrow> Inl (SystemExit ''ABORT: no relocation -- table moved'')
     | Some o' \<Rightarrow> bind_e (last_named names ''ABORT: not found'' wrapper) (\<lambda>j.
         bind_e (slot_edit b o' j is_r32 (names_at b t want val)) (\<lambda>(b', wrote). segdev_slots t rela rn names ss
           (b', if wrote then Suc done else done, if wrote then skip else Suc skip))))"

definition segdev_ops_main :: "(nat \<times> nat) script" where
  "segdev_ops_main b = write_back b
     (bind_e (open_elf b) (\<lambda>(sh, d). bind_e (dict_get_or ''ABORT: no .rela.data'' ''.rela.data'' d) (\<lambda>rela.
      bind_e (dict_get ''.symtab'' d) (\<lambda>st. bind_e (strings_of sh st) (\<lambda>t. bind_e (nsyms t) (\<lambda>sn.
      bind_e (sym_names b t sn) (\<lambda>names.
      bind_e (map_e (\<lambda>(off, want, val, w). last_named names ''ABORT: not found'' w) segdev_SLOTS) (\<lambda>_.
      bind_e (nrels rela) (\<lambda>rn. bind_e (segdev_slots t rela rn names segdev_SLOTS (b, 0, 0)) (\<lambda>(b', done, skip).
      bind_e (must (done + skip = length segdev_SLOTS) ''ABORT: handled slots'') (\<lambda>_. Inr (b', (done, skip)))))))))))))"

subsection \<open>patch_scrdev_pageb\<close>

definition scrdev_SITES :: "site list" where
  "scrdev_SITES = [
    (0x73d8, [0x06, 0x80, 0x00, 0x00, 0x08, 0x1f], [0x06, 0x80, 0x00, 0x00, 0x10, 0x1f], ''AllocMem: 2048+31 -> 4096+31''),
    (0x73f2, [0x06, 0x84, 0x00, 0x00, 0x07, 0xff], [0x06, 0x84, 0x00, 0x00, 0x0f, 0xff], ''AllocMem: 2047 -> 4095''),
    (0x73fc, [0x02, 0x6e, 0xf8, 0x00, 0xff, 0xfe], [0x02, 0x6e, 0xf0, 0x00, 0xff, 0xfe], ''AllocMem: ~2047 -> ~4095''),
    (0x7438, [0x20, 0x3c, 0x00, 0x00, 0x08, 0x1f], [0x20, 0x3c, 0x00, 0x00, 0x10, 0x1f], ''AllocMem: tail slack'')]"

definition scrdev_CALLS :: "(int \<times> string \<times> int \<times> string) list" where
  "scrdev_CALLS = [(0x7e74, ''allocbmap'', 0x74e8, ''scr_allocbmap''), (0x7956, ''freebmap'', 0x7580, ''scr_freebmap'')]"

fun scrdev_calls :: "int \<Rightarrow> symtables \<Rightarrow> (int \<times> int) list \<Rightarrow> string list \<Rightarrow> (int \<times> string \<times> int \<times> string) list
    \<Rightarrow> byte list \<times> nat \<times> nat \<Rightarrow> exn + byte list \<times> nat \<times> nat" where
  "scrdev_calls text t byoff names [] s = Inr s"
| "scrdev_calls text t byoff names ((r, want, val, ov) # cs) (b, done, skip) =
     bind_e (row_for byoff ''ABORT: no relocation (call site)'' r) (\<lambda>o'.
     bind_e (first_named names ''ABORT: not found'' ov) (\<lambda>j.
     bind_e (slot_edit b o' j (\<lambda>info. bind_e (is_r32 info) (\<lambda>_. opcode_before b text r jsr_op)) (names_at b t want val))
       (\<lambda>(b', wrote). scrdev_calls text t byoff names cs
          (b', if wrote then Suc done else done, if wrote then skip else Suc skip))))"

text \<open>The result is how many immediates and how many calls were changed.\<close>

definition scrdev_pageb_main :: "(nat \<times> nat) script" where
  "scrdev_pageb_main b = write_back b
     (bind_e (open_elf b) (\<lambda>(sh, d). bind_e (dict_get ''.text'' d) (\<lambda>text.
      bind_e (assert_patch_sites (s_offset text) 0 scrdev_SITES (b, 0, 0)) (\<lambda>(b1, done, skip).
      bind_e (must (done + skip = length scrdev_SITES) ''ABORT: handled immediates'') (\<lambda>_.
      bind_e (dict_get ''.rela.text'' d) (\<lambda>rela. bind_e (dict_get ''.symtab'' d) (\<lambda>st.
      bind_e (strings_of sh st) (\<lambda>t. bind_e (nsyms t) (\<lambda>sn. bind_e (sym_names b1 t sn) (\<lambda>names.
      bind_e (map_e (\<lambda>(r, want, val, ov). first_named names ''ABORT: not found'' ov) scrdev_CALLS) (\<lambda>_.
      bind_e (nrels rela) (\<lambda>rn. bind_e (row_list b1 rela rn) (\<lambda>byoff.
      bind_e (scrdev_calls (s_offset text) t byoff names scrdev_CALLS (b1, 0, 0)) (\<lambda>(b2, rdone, rskip).
      bind_e (must (rdone + rskip = length scrdev_CALLS) ''ABORT: handled call sites'') (\<lambda>_.
      Inr (b2, (done, rdone)))))))))))))))))"

subsection \<open>patch_va2000_cdevsw and patch_xsvga\<close>

text \<open>
  The entries of one row of \<open>cdevsw\<close>.  Both scripts keep only the entries of that row in their
  dictionary, which no lookup tells apart from the dictionary of all entries.
\<close>

fun cdevsw_slots :: "symtables \<Rightarrow> (int \<times> int) list \<Rightarrow> (int \<times> string) list \<Rightarrow> byte list \<times> nat \<times> nat
    \<Rightarrow> exn + byte list \<times> nat \<times> nat" where
  "cdevsw_slots t at [] s = Inr s"
| "cdevsw_slots t at ((off, name) # fs) (b, done, skip) =
     bind_e (row_for at ''ABORT: no .rela.data reloc at cdevsw'' off) (\<lambda>o'.
     bind_e (u32 b (o' + 4)) (\<lambda>info. bind_e (is_r32 info) (\<lambda>_.
     bind_e (sym_index_or ''ABORT: symbol not found'' b t name) (\<lambda>tgt.
     bind_e (slot_edit b o' tgt is_r32 (names_sym b t ''nodev'')) (\<lambda>(b', wrote).
       if wrote then bind_e (sym_value b' t name) (\<lambda>_. cdevsw_slots t at fs (b', Suc done, skip))
       else cdevsw_slots t at fs (b', done, Suc skip))))))"

definition va2000_FIELDS :: "string list" where
  "va2000_FIELDS = [''va2000open'', ''va2000close'', ''va2000read'', ''va2000write'', ''va2000ioctl'', ''va2000mmap'']"

text \<open>Row 68 of 52 bytes; the offset is computed from \<open>cdevsw\<close> and must be \<open>0xaba4\<close>.\<close>

definition va2000_slots :: "(int \<times> string) list" where
  "va2000_slots = zip (map (\<lambda>i. 0xaba4 + i * 4) (py_range 6)) va2000_FIELDS"

definition va2000_main :: "(nat \<times> nat) script" where
  "va2000_main b = write_back b
     (bind_e (name_symtab b) (\<lambda>(sh, shstr, byname, t). bind_e (nsyms t) (\<lambda>_.
      bind_e (sym_value b t ''cdevsw'') (\<lambda>cdevsw.
      bind_e (must (cdevsw + 68 * 52 = 0xaba4) ''ABORT: cdevsw layout drifted'') (\<lambda>_.
      bind_e (dict_get ''.rela.data'' byname) (\<lambda>rela. bind_e (nrels rela) (\<lambda>rn. bind_e (rows_at b rela rn) (\<lambda>at.
      bind_e (cdevsw_slots t at va2000_slots (b, 0, 0)) (\<lambda>(b', done, skip).
      bind_e (whole_group done skip) (\<lambda>_. Inr (b', (done, skip))))))))))))"

definition xsvga_slots :: "(int \<times> string) list" where
  "xsvga_slots = [(0xab70, ''svgaopen''), (0xab74, ''svgaclose''), (0xab78, ''svgaread''), (0xab7c, ''svgawrite''),
     (0xab80, ''svgaioctl''), (0xab84, ''svgammap'')]"

text \<open>\<open>sh_addr\<close> of the section of that name, the last one when there are several.\<close>

definition section_addr :: "byte list \<Rightarrow> string \<Rightarrow> exn + int" where
  "section_addr b name = bind_e (section_table b) (\<lambda>(sh, shstr). bind_e (map_e (sec_name b shstr) sh) (\<lambda>names.
     bind_e (u32 b 32) (\<lambda>shoff. bind_e (u16 b 46) (\<lambda>ent. bind_e (u16 b 48) (\<lambda>n.
     bind_e (map_e (\<lambda>i. u32 b (shoff + i * ent + 12)) (py_range n)) (\<lambda>addrs.
     dict_get name (py_dict (zip names addrs))))))))"

definition svgammap_old :: "byte list" where "svgammap_old = [0x72, 0x0b, 0xe2, 0xa8]"
definition svgammap_new :: "byte list" where "svgammap_new = [0x72, 0x0c, 0xe2, 0xa8]"

definition xsvga_main :: "(nat \<times> bool) script" where
  "xsvga_main b = write_back b
     (bind_e (name_symtab b) (\<lambda>(sh, shstr, byname, t). bind_e (nsyms t) (\<lambda>_.
      bind_e (dict_get ''.text'' byname) (\<lambda>text. bind_e (section_addr b ''.text'') (\<lambda>taddr.
      bind_e (dict_get ''.rela.data'' byname) (\<lambda>rela.
      bind_e (nrels rela) (\<lambda>rn.
      bind_e (map_e (\<lambda>(off, name). sym_index_or ''ABORT: symbol not found'' b t name) xsvga_slots) (\<lambda>_.
      bind_e (rows_at b rela rn) (\<lambda>at.
      bind_e (cdevsw_slots t at xsvga_slots (b, 0, 0)) (\<lambda>(b1, done, skip).
      bind_e (whole_group done skip) (\<lambda>_.
      bind_e (sym_value b1 t ''svgammap'') (\<lambda>sm.
      bind_e (patch_site (s_offset text + (sm + 0x48 - taddr)) svgammap_old svgammap_new ''svgammap'' b1) (\<lambda>(b2, wrote).
      Inr (b2, (done, wrote)))))))))))))))"

subsection \<open>patch_cb_release\<close>

text \<open>\<open>bsr.l\<close> to \<open>target\<close> from \<open>at\<close>: the displacement counts from the word after the opcode.\<close>

definition branch_l :: "byte list \<Rightarrow> int \<Rightarrow> int \<Rightarrow> exn + byte list" where
  "branch_l op at target = bind_e (pack_I ((target - (at + 2)) mod 4294967296)) (\<lambda>w. Inr (op @ w))"

definition pgfree_OLD :: "byte list" where
  "pgfree_OLD = [0x40, 0xc3, 0x46, 0xfc, 0x24, 0x00]"

definition pgfree_ok :: "byte list \<Rightarrow> bool" where
  "pgfree_ok cur \<longleftrightarrow> cur = pgfree_OLD \<or> take 2 cur = [0x61, 0xff]"

text \<open>The first site: stock bytes or any \<open>bsr.l\<close> are replaced by the \<open>bsr.l\<close> of this image.\<close>

definition pgfree_site :: "byte list \<Rightarrow> int \<Rightarrow> byte list \<Rightarrow> exn + byte list \<times> bool" where
  "pgfree_site b p want = (let cur = slice b p (p + 6) in
     if cur = want then Inr (b, False)
     else if pgfree_ok cur then Inr (splice b p (p + 6) want, True)
     else Inl (SystemExit ''ABORT: unexpected bytes at page_free''))"

definition cb_release_main :: "(bool \<times> bool) script" where
  "cb_release_main b = write_back b
     (bind_e (open_elf b) (\<lambda>(sh, d). bind_e (dict_get ''.text'' d) (\<lambda>text. bind_e (dict_get ''.symtab'' d) (\<lambda>st.
      bind_e (dict_get ''.rela.text'' d) (\<lambda>rela. bind_e (strings_of sh st) (\<lambda>t. bind_e (nsyms t) (\<lambda>_.
      bind_e (sym_value b t ''cb_pgfree_enter'') (\<lambda>isl1. bind_e (branch_l [0x61, 0xff] 0xafb08 isl1) (\<lambda>want.
      bind_e (pgfree_site b (s_offset text + 0xafb08) want) (\<lambda>(b1, w1).
      bind_e (sym_index_or ''ABORT: symbol not found'' b1 t ''cb_vpfree_enter'') (\<lambda>isl2.
      bind_e (nrels rela) (\<lambda>rn. bind_e (find_row b1 rela (\<lambda>off. off = 0xafd9a) (py_range rn)) (\<lambda>hit. case hit of
        None \<Rightarrow> Inl (SystemExit ''ABORT: no relocation at free_vp_pages'')
      | Some o' \<Rightarrow> bind_e (u32 b1 (o' + 4)) (\<lambda>info. bind_e (is_r32 info) (\<lambda>_.
          let p = s_offset text + 0xafd98; opc = slice b1 p (p + 2) in
          if info div 256 = isl2 \<and> opc = jsr_op then Inr (b1, (w1, False))
          else bind_e (names_sym b1 t ''freemem'' (info div 256)) (\<lambda>_.
            bind_e (must (opc = [0x52, 0xb9]) ''ABORT: expected addql'') (\<lambda>_.
            bind_e (rewire (splice b1 p (p + 2) jsr_op) o' isl2 1) (\<lambda>b2. Inr (b2, (w1, True))))))))))))))))))))"

end
