(* ===== verification/Device_Edits.thy ===== *)
theory Device_Edits
  imports Device_Relocs
begin

text \<open>
  The contract of the driver and hook patchers: a run that fails leaves the file alone, and a run that
  succeeds is a sequence of edits at the slots and sites of its table that handles every one of them.
\<close>

subsection \<open>The contract\<close>

text \<open>
  \<open>P b d t T\<close> says which places \<open>T\<close> of \<open>.text\<close> the script works on, given the sections \<open>d\<close> and the symbol
  tables \<open>t\<close> of the input \<open>b\<close>.
\<close>

type_synonym places_of = "byte list \<Rightarrow> (string \<times> shdr) list \<Rightarrow> symtables \<Rightarrow> site_place list \<Rightarrow> bool"

definition edited :: "bool \<Rightarrow> string \<Rightarrow> (int \<times> string \<times> string) list \<Rightarrow> places_of \<Rightarrow> 'r script \<Rightarrow> byte list \<Rightarrow> bool" where
  "edited full secname S P run b \<longleftrightarrow> (case run b of
     (b', Inl e) \<Rightarrow> b' = b
   | (b', Inr r) \<Rightarrow> \<exists>sh d rela t T H D E. open_elf b = Inr (sh, d) \<and> map_of d secname = Some rela \<and> P b d t T
       \<and> edits t rela S T b (b' # H) D E \<and> (if full then fst ` set S \<subseteq> set D \<and> fst ` set T \<subseteq> set E else True))"

definition no_places :: places_of where
  "no_places b d t T \<longleftrightarrow> T = []"

definition text_places :: "site list \<Rightarrow> places_of" where
  "text_places ss b d t T \<longleftrightarrow> (\<exists>text. map_of d ''.text'' = Some text \<and> T = places (s_offset text) ss)"

locale edit_script =
  fixes run :: "'r script" and secname :: string and S :: "(int \<times> string \<times> string) list" and P :: places_of
  assumes run_edits: "edited False secname S P run b"
begin

lemma aborts: "run b = (b', Inl e) \<Longrightarrow> b' = b"
  using run_edits [of b] by (simp add: edited_def)

lemma only_table:
  assumes "run b = (b', Inr r)"
    and sized: "\<And>d t T p ok new. P b d t T \<Longrightarrow> (p, ok, new) \<in> set T \<Longrightarrow> new \<noteq> [] \<and> (\<forall>c. ok c \<longrightarrow> length c = length new)"
  shows "\<exists>sh d rela t T. open_elf b = Inr (sh, d) \<and> map_of d secname = Some rela \<and> P b d t T
    \<and> (0 \<le> s_offset rela \<longrightarrow> 0 \<le> s_entsize rela \<longrightarrow> changed b b' (edit_bytes (length b) rela T))"
proof -
  obtain sh d rela t T H D E where h: "open_elf b = Inr (sh, d)" "map_of d secname = Some rela" "P b d t T"
    "edits t rela S T b (b' # H) D E"
    using run_edits [of b] assms(1) by (auto simp: edited_def)
  have "\<forall>(p, ok, new) \<in> set T. new \<noteq> [] \<and> (\<forall>c. ok c \<longrightarrow> length c = length new)" using sized [OF h(3)] by blast
  then show ?thesis using h edits_changed [OF h(4)] by fastforce
qed

end

locale slot_script =
  fixes run :: "'r script" and secname :: string and S :: "(int \<times> string \<times> string) list" and P :: places_of
  assumes run_slots: "edited True secname S P run b"
begin

lemma all_slots:
  "run b = (b', Inr r) \<Longrightarrow> \<exists>sh d rela t T H D E. open_elf b = Inr (sh, d) \<and> map_of d secname = Some rela \<and> P b d t T
     \<and> edits t rela S T b (b' # H) D E \<and> fst ` set S \<subseteq> set D \<and> fst ` set T \<subseteq> set E"
  using run_slots [of b] by (simp add: edited_def)

end

lemma edited_weaken: "edited True secname S P run b \<Longrightarrow> edited False secname S P run b"
  unfolding edited_def by (auto split: prod.splits sum.splits) blast

sublocale slot_script \<subseteq> edit_script run secname S P
  by unfold_locales (rule edited_weaken [OF run_slots])

text \<open>The intended way to meet the contract.\<close>

lemma write_back_Inr: "write_back b x = (b', Inr r) \<longleftrightarrow> x = Inr (b', r)"
  by (cases x) (auto simp: write_back_def)

text \<open>\<open>edits_reach\<close> is what is left to show of a run that ended well.\<close>

definition edits_reach :: "bool \<Rightarrow> string \<Rightarrow> (int \<times> string \<times> string) list \<Rightarrow> places_of \<Rightarrow> byte list \<Rightarrow> byte list \<Rightarrow> bool" where
  "edits_reach full secname S P b b' \<longleftrightarrow> (\<exists>sh d rela t T H D E. open_elf b = Inr (sh, d) \<and> map_of d secname = Some rela
     \<and> P b d t T \<and> edits t rela S T b (b' # H) D E \<and> (if full then fst ` set S \<subseteq> set D \<and> fst ` set T \<subseteq> set E else True))"

lemma edits_reachI:
  "open_elf b = Inr (sh, d) \<Longrightarrow> map_of d secname = Some rela \<Longrightarrow> P b d t T \<Longrightarrow> run_at t rela S T b b' X D E
    \<Longrightarrow> fst ` set S \<subseteq> set D \<Longrightarrow> fst ` set T \<subseteq> set E \<Longrightarrow> edits_reach True secname S P b b'"
  unfolding edits_reach_def run_at_def by (simp only: if_True) blast

lemma editedI:
  assumes "run b = write_back b x" and "\<And>b' r. run b = (b', Inr r) \<Longrightarrow> edits_reach full secname S P b b'"
  shows "edited full secname S P run b"
proof (cases x)
  case (Inr p)
  then show ?thesis using assms by (cases p) (simp add: edited_def edits_reach_def)
qed (simp add: edited_def assms(1))

subsection \<open>The lookups\<close>

lemma dict_get_Inr [simp]: "dict_get k d = Inr v \<longleftrightarrow> map_of d k = Some v"
  by (simp add: dict_get_def split: option.splits)

lemma dict_get_or_Inr [simp]: "dict_get_or msg k d = Inr v \<longleftrightarrow> map_of d k = Some v"
  by (simp add: dict_get_or_def split: option.splits)

lemma name_symtab_open: "name_symtab b = Inr (sh, shstr, d, t) \<Longrightarrow> open_elf b = Inr (sh, d)"
  by (auto simp: name_symtab_def open_elf_def)

lemma first_sym_name: "first_sym b t name is = Inr (Some i) \<Longrightarrow> symname b t i = Inr name"
  by (induction "is") (auto split: if_splits)

lemma sym_index_or_name: "sym_index_or msg b t name = Inr i \<Longrightarrow> symname b t i = Inr name"
  by (auto simp: sym_index_or_def sym_index_def dest: first_sym_name split: option.splits)

lemma find_row_is_row:
  assumes "find_row b1 rela Q (py_range n) = Inr (Some o')" "nrels rela = Inr n"
  shows "\<exists>off. is_row (insert b1 X) rela o' off \<and> Q off"
proof -
  have "\<exists>i \<in> set is. \<exists>off. o' = row_pos rela i \<and> u32 b1 o' = Inr off \<and> Q off"
    if "find_row b1 rela Q is = Inr (Some o')" for "is"
    using that by (induction "is") (auto split: if_splits)
  from this [OF assms(1)] show ?thesis using assms(2) by (auto simp: is_row_def)
qed

lemma rows_at_row:
  assumes "rows_at b rela n = Inr at" "row_for at msg off = Inr o'"
  shows "\<exists>i \<in> set (py_range n). o' = row_pos rela i \<and> u32 b o' = Inr off"
proof -
  obtain kvs where k: "map_e (\<lambda>i. bind_e (u32 b (row_pos rela i)) (\<lambda>off. Inr (off, row_pos rela i))) (py_range n) = Inr kvs"
    "at = py_dict kvs" using assms(1) by (auto simp: rows_at_def)
  have "(off, o') \<in> set kvs"
    using assms(2) by (auto simp: row_for_def k(2) map_of_py_dict split: option.splits dest!: map_of_SomeD)
  from map_e_set [OF k(1) this] show ?thesis by auto
qed

lemma row_list_row:
  assumes "row_list b rela n = Inr at" "row_for at msg off = Inr o'"
  shows "\<exists>i \<in> set (py_range n). o' = row_pos rela i \<and> u32 b o' = Inr off"
proof -
  have "(off, o') \<in> set at" using assms(2) by (auto simp: row_for_def split: option.splits dest!: map_of_SomeD)
  from map_e_set [OF assms(1) [unfolded row_list_def] this] show ?thesis by auto
qed

lemma row_for_is_row:
  assumes "rows_at b0 rela n = Inr at \<or> row_list b0 rela n = Inr at" "nrels rela = Inr n" "b0 \<in> X"
    "row_for at msg off = Inr o'"
  shows "is_row X rela o' off"
proof -
  have "\<exists>i \<in> set (py_range n). o' = row_pos rela i \<and> u32 b0 o' = Inr off"
    using rows_at_row [OF _ assms(4)] row_list_row [OF _ assms(4)] assms(1) by blast
  then show ?thesis using assms(2,3) by (auto simp: is_row_def)
qed

lemma sym_names_nth:
  assumes "sym_names b t n = Inr names" "k < length names"
  shows "symname b t (int k) = Inr (names ! k)"
proof -
  have m: "map_e (symname b t) (py_range n) = Inr names" using assms(1) by (simp add: sym_names_def)
  have l: "length names = length (py_range n)" by (rule map_e_length [OF m])
  have "py_range n ! k = int k" using assms(2) l by (simp add: py_range_def)
  then show ?thesis using map_e_nth [OF m, of k] assms(2) l by simp
qed

lemma first_named_name:
  assumes "sym_names b t n = Inr names" "first_named names msg x = Inr i"
  shows "symname b t i = Inr x"
  using assms(2) first_pos_Some [of "\<lambda>n. n = x" names] sym_names_nth [OF assms(1)]
  by (auto simp: first_named_def split: option.splits)

lemma last_named_name:
  assumes "sym_names b t n = Inr names" "last_named names msg x = Inr i"
  shows "symname b t i = Inr x"
proof -
  obtain k where k: "first_pos (\<lambda>n. n = x) (rev names) = Some k" "i = int (length names - 1 - k)"
    using assms(2) by (auto simp: last_named_def split: option.splits)
  from first_pos_Some [OF k(1)] have "k < length names" "names ! (length names - 1 - k) = x"
    by (auto simp: rev_nth)
  then show ?thesis using sym_names_nth [OF assms(1), of "length names - 1 - k"] k(2) by simp
qed

subsection \<open>The scripts\<close>

lemma is_r32_Inr: "is_r32 info = Inr u \<Longrightarrow> info mod 256 = 1"
  by (simp add: is_r32_def)

lemma call_checks_r32: "call_checks b text r info = Inr u \<Longrightarrow> info mod 256 = 1"
  by (auto simp: call_checks_def is_r32_def)

lemma names_sym_name: "names_sym b t want cur = Inr u \<Longrightarrow> symname b t cur = Inr want"
  by (auto simp: names_sym_def)

lemma names_at_name: "names_at b t want val cur = Inr u \<Longrightarrow> symname b t cur = Inr want"
  by (auto simp: names_at_def)

lemma config_cachefix_edited:
  "edited True ''.rela.text'' [(0x26, ''config'', ''config_cachefix'')] no_places config_cachefix_main b"
proof (rule editedI [OF config_cachefix_main_def])
  fix b' r assume "config_cachefix_main b = (b', Inr r)"
  then obtain sh d tx rela t wrap rn o' where h: "open_elf b = Inr (sh, d)" "map_of d ''.rela.text'' = Some rela"
    "map_of d ''.text'' = Some tx" "sym_index_or ''ABORT: config_cachefix symbol not found'' b t ''config_cachefix'' = Inr wrap"
    "nrels rela = Inr rn" "find_row b rela (\<lambda>off. off = 0x26) (py_range rn) = Inr (Some o')"
    "slot_edit b o' wrap (call_checks b (s_offset tx) 0x26) (names_at b t ''config'' 0x18f5c) = Inr (b', r)"
    by (auto simp: config_cachefix_main_def write_back_Inr split: option.splits)
  have row: "is_row (insert b {b}) rela o' 0x26" using find_row_is_row [OF h(6,5)] by blast
  have "run_at t rela [(0x26, ''config'', ''config_cachefix'')] [] b b' {b} [0x26] []"
    by (rule slot_step [OF h(7) run_at_start row _ named_here [OF sym_index_or_name [OF h(4)]]])
      (auto dest: call_checks_r32 names_at_name)
  then show "edits_reach True ''.rela.text'' [(0x26, ''config'', ''config_cachefix'')] no_places b b'"
    by (intro edits_reachI [OF h(1,2)]) (auto simp: no_places_def)
qed

lemma sendsig_fpu_edited:
  "edited True ''.rela.text'' [(0x5921c, ''fpu_setup'', ''fpu_setup_gated'')] no_places sendsig_fpu_main b"
proof (rule editedI [OF sendsig_fpu_main_def])
  fix b' r assume "sendsig_fpu_main b = (b', Inr r)"
  then obtain sh shstr d rela t j rn o' where h: "name_symtab b = Inr (sh, shstr, d, t)" "map_of d ''.rela.text'' = Some rela"
    "sym_index_or ''ABORT: symbol not found'' b t ''fpu_setup_gated'' = Inr j"
    "nrels rela = Inr rn" "find_row b rela (\<lambda>off. off = 0x5921c) (py_range rn) = Inr (Some o')"
    "slot_edit b o' j is_r32 (names_sym b t ''fpu_setup'') = Inr (b', r)"
    by (auto simp: sendsig_fpu_main_def write_back_Inr split: option.splits)
  have row: "is_row (insert b {b}) rela o' 0x5921c" using find_row_is_row [OF h(5,4)] by blast
  have "run_at t rela [(0x5921c, ''fpu_setup'', ''fpu_setup_gated'')] [] b b' {b} [0x5921c] []"
    by (rule slot_step [OF h(6) run_at_start row _ named_here [OF sym_index_or_name [OF h(3)]]])
      (auto dest: is_r32_Inr names_sym_name)
  then show "edits_reach True ''.rela.text'' [(0x5921c, ''fpu_setup'', ''fpu_setup_gated'')] no_places b b'"
    by (intro edits_reachI [OF name_symtab_open [OF h(1)] h(2)]) (auto simp: no_places_def)
qed

text \<open>The pass of \<open>patch_dbgpublish\<close> and \<open>patch_z3660\<close>.\<close>

lemma publish_rows_edits:
  assumes "publish_rows t rela S is (b1, seen) = Inr (b', seen')" "run_at t rela S T b b1 X D []"
    "set seen \<subseteq> set D" "nrels rela = Inr n" "set is \<subseteq> set (py_range n)"
  shows "\<exists>D'. run_at t rela S T b b' X D' [] \<and> set seen' \<subseteq> set D'"
  using assms
proof (induction "is" arbitrary: b1 seen D)
  case (Cons i "is")
  obtain off where off: "u32 b1 (row_pos rela i) = Inr off" using Cons.prems(1) by auto
  have row: "is_row (insert b1 X) rela (row_pos rela i) off" using Cons.prems(4,5) off by (auto simp: is_row_def)
  show ?case
  proof (cases "map_of S off")
    case None
    then show ?thesis using Cons off by simp
  next
    case (Some p)
    obtain old new where p: "p = (old, new)" by (cases p)
    have S: "(off, old, new) \<in> set S" using map_of_SomeD [OF Some] by (simp add: p)
    obtain info cur where i: "u32 b1 (row_pos rela i + 4) = Inr info" "symname b1 t (info div 256) = Inr cur"
      using Cons.prems(1) by (auto simp: off Some p)
    show ?thesis
    proof (cases "cur = new")
      case True
      have "publish_rows t rela S is (b1, off # seen) = Inr (b', seen')"
        using Cons.prems(1) by (simp add: off Some p i True)
      note IH = Cons.IH [OF this run_at_right_slot [OF Cons.prems(2) row S i(1)]]
      have "named (insert b1 X) t (info div 256) new" using named_here [OF i(2)] True by simp
      from IH [OF this] show ?thesis using Cons.prems(3-5) by auto
    next
      case False
      then obtain j b2 where w: "cur = old" "sym_index_or ''ABORT: symbol not defined'' b1 t new = Inr j"
        "rewire b1 (row_pos rela i) j (info mod 256) = Inr b2"
        "publish_rows t rela S is (b2, off # seen) = Inr (b', seen')"
        using Cons.prems(1) by (auto simp: off Some p i split: if_splits)
      from Cons.IH [OF w(4) run_at_new_slot [OF Cons.prems(2) row S insertI1 i(1) named_here [OF i(2) [unfolded w(1)]]
            insertI1 i(1) named_here [OF sym_index_or_name [OF w(2)]] w(3)]]
      show ?thesis using Cons.prems(3-5) by auto
    qed
  qed
qed auto

lemma publish_edits:
  assumes "publish S b sh rela = Inr b'"
  shows "\<exists>t D. run_at t rela S T b b' {b} D [] \<and> fst ` set S \<subseteq> set D"
proof -
  obtain t n seen where h: "nrels rela = Inr n" "publish_rows t rela S (py_range n) (b, []) = Inr (b', seen)"
    "fst ` set S \<subseteq> set seen"
    using assms by (auto simp: publish_def)
  from publish_rows_edits [OF h(2) run_at_start _ h(1)] obtain D where D: "run_at t rela S T b b' {b} D []"
    "set seen \<subseteq> set D" by auto
  then show ?thesis using h(3) by (intro exI [of _ t] exI [of _ D]) auto
qed

lemma dbgpublish_edited:
  "edited True ''.rela.text'' dbgpublish_SITES no_places dbgpublish_main b"
proof (rule editedI [OF dbgpublish_main_def])
  fix b' r assume "dbgpublish_main b = (b', Inr r)"
  then obtain sh d rela where h: "open_elf b = Inr (sh, d)" "map_of d ''.rela.text'' = Some rela"
    "publish dbgpublish_SITES b sh rela = Inr b'"
    by (auto simp: dbgpublish_main_def write_back_Inr)
  obtain t D where e: "run_at t rela dbgpublish_SITES [] b b' {b} D []"
    "fst ` set dbgpublish_SITES \<subseteq> set D"
    using publish_edits [OF h(3)] by blast
  show "edits_reach True ''.rela.text'' dbgpublish_SITES no_places b b'"
    by (rule edits_reachI [OF h(1,2) _ e]) (simp_all add: no_places_def)
qed

lemma z3660_edited:
  "edited True ''.rela.text'' (z3660_todo o') (text_places z3660_bound) (z3660_main o') b"
proof (rule editedI [OF z3660_main_def])
  fix b' r assume "z3660_main o' b = (b', Inr r)"
  then obtain sh d tx rela b1 where h: "open_elf b = Inr (sh, d)" "map_of d ''.rela.text'' = Some rela"
    "map_of d ''.text'' = Some tx" "publish (z3660_todo o') b sh rela = Inr b1"
    "patch_sites (s_offset tx) 0 z3660_bound (b1, 0, 0) = Inr (b', r)"
    by (auto simp: z3660_main_def write_back_Inr)
  let ?T = "places (s_offset tx) z3660_bound"
  obtain t D where e: "run_at t rela (z3660_todo o') ?T b b1 {b} D []"
    "fst ` set (z3660_todo o') \<subseteq> set D"
    using publish_edits [OF h(4)] by blast
  obtain d' k where "r = (d', k)" by (cases r)
  from patch_sites_steps [OF h(5) [unfolded this] e(1) subset_refl]
  obtain E where "run_at t rela (z3660_todo o') ?T b b' {b} D E" "fst ` set ?T \<subseteq> set E"
    by (auto simp: z3660_bound_def)
  with e(2) show "edits_reach True ''.rela.text'' (z3660_todo o') (text_places z3660_bound) b b'"
    by (intro edits_reachI [OF h(1,2)]) (auto simp: text_places_def h(3))
qed

end
