(* ===== verification/Driver_Edits.thy ===== *)
theory Driver_Edits
  imports Device_Edits
begin

text \<open>
  The driver patchers with several slots meet the contract of \<open>Device_Edits\<close>: each loop over slots or
  entries is a sequence of edits.
\<close>

subsection \<open>patch_a3091_dma\<close>

definition dma_S :: "(int \<times> string \<times> string) list" where
  "dma_S = map (\<lambda>off. (off, ''stopdma'', ''dma_a3091_stopdma'')) dma_stop
     @ map (\<lambda>(off, w). (off, ''startdma'', w)) dma_start"

lemma stop_rows_edits:
  assumes "stop_rows tx t rela wrap is (b1, seen, d, k) = Inr (b', seen', d', k')" "run_at t rela dma_S T b b1 X D E"
    "set seen \<subseteq> set D" "nrels rela = Inr n" "set is \<subseteq> set (py_range n)" "named X t wrap ''dma_a3091_stopdma''"
  shows "\<exists>D'. run_at t rela dma_S T b b' X D' E \<and> set seen' \<subseteq> set D'"
  using assms
proof (induction "is" arbitrary: b1 seen d k D)
  case (Cons i "is")
  obtain off where off: "u32 b1 (row_pos rela i) = Inr off" using Cons.prems(1) by auto
  show ?case
  proof (cases "off \<in> set dma_stop")
    case True
    then have S: "(off, ''stopdma'', ''dma_a3091_stopdma'') \<in> set dma_S" by (simp add: dma_S_def)
    have row: "is_row (insert b1 X) rela (row_pos rela i) off" using Cons.prems(4,5) off by (auto simp: is_row_def)
    from Cons.prems(1) True obtain b2 w where w:
      "slot_edit b1 (row_pos rela i) wrap (call_checks b1 tx off) (names_at b1 t ''stopdma'' 0xd4cc) = Inr (b2, w)"
      "stop_rows tx t rela wrap is (b2, off # seen, if w then Suc d else d, if w then k else Suc k) = Inr (b', seen', d', k')"
      by (auto simp: off)
    have "run_at t rela dma_S T b b2 X (off # D) E"
      by (rule slot_step [OF w(1) Cons.prems(2) row S]) (use Cons.prems(6) in \<open>auto dest: call_checks_r32 names_at_name elim: named_mono\<close>)
    from Cons.IH [OF w(2) this _ Cons.prems(4) _ Cons.prems(6)] show ?thesis using Cons.prems(3,5) by auto
  next
    case False
    then show ?thesis using Cons off by simp
  qed
qed auto

lemma start_slots_edits:
  assumes "start_slots tx t rela n rs (b1, d, k) = Inr (b', d', k')" "run_at t rela S T b b1 X D E"
    "nrels rela = Inr n" "\<forall>(off, w) \<in> set rs. (off, ''startdma'', w) \<in> set S"
  shows "\<exists>D'. run_at t rela S T b b' X D' E \<and> set D \<union> fst ` set rs \<subseteq> set D'"
  using assms
proof (induction rs arbitrary: b1 d k D)
  case (Cons s rs)
  obtain r name where s: "s = (r, name)" by (cases s)
  from Cons.prems(1) obtain j o' b2 w where w: "sym_index_or ''ABORT: wrapper symbol not found'' b1 t name = Inr j"
    "find_row b1 rela (\<lambda>off. off = r) (py_range n) = Inr (Some o')"
    "slot_edit b1 o' j (call_checks b1 tx r) (names_at b1 t ''startdma'' 0xd40a) = Inr (b2, w)"
    "start_slots tx t rela n rs (b2, if w then Suc d else d, if w then k else Suc k) = Inr (b', d', k')"
    by (auto simp: s split: option.splits)
  have row: "is_row (insert b1 X) rela o' r" using find_row_is_row [OF w(2) Cons.prems(3)] by blast
  have S: "(r, ''startdma'', name) \<in> set S" using Cons.prems(4) by (simp add: s)
  have "run_at t rela S T b b2 X (r # D) E"
    by (rule slot_step [OF w(3) Cons.prems(2) row S named_here [OF sym_index_or_name [OF w(1)]]]) (auto dest: call_checks_r32 names_at_name)
  from Cons.IH [OF w(4) this Cons.prems(3)] show ?case using Cons.prems(4) by (auto simp: s)
qed auto

lemma a3091_dma_edited: "edited True ''.rela.text'' dma_S no_places a3091_dma_main b"
proof (rule editedI [OF a3091_dma_main_def])
  fix b' r assume "a3091_dma_main b = (b', Inr r)"
  then obtain sh d tx st t rela wrap rn b1 seen dn sk sdn ssk where h: "open_elf b = Inr (sh, d)"
    "map_of d ''.text'' = Some tx" "map_of d ''.symtab'' = Some st" "strings_of sh st = Inr t"
    "map_of d ''.rela.text'' = Some rela"
    "sym_index_or ''ABORT: wrapper symbol not found'' b t ''dma_a3091_stopdma'' = Inr wrap"
    "nrels rela = Inr rn" "stop_rows (s_offset tx) t rela wrap (py_range rn) (b, [], 0, 0) = Inr (b1, seen, dn, sk)"
    "set dma_stop \<subseteq> set seen"
    "start_slots (s_offset tx) t rela rn dma_start (b1, 0, 0) = Inr (b', sdn, ssk)"
    by (auto simp: a3091_dma_main_def write_back_Inr)
  from stop_rows_edits [OF h(8) run_at_start _ h(7) subset_refl named_here [OF sym_index_or_name [OF h(6)]]]
  obtain D where D: "run_at t rela dma_S [] b b1 {b} D []" "set seen \<subseteq> set D" by auto
  have "\<forall>(off, w) \<in> set dma_start. (off, ''startdma'', w) \<in> set dma_S" by (auto simp: dma_S_def)
  from start_slots_edits [OF h(10) D(1) h(7) this]
  obtain D' where D': "run_at t rela dma_S [] b b' {b} D' []" "set D \<union> fst ` set dma_start \<subseteq> set D'"
    by blast
  have "fst ` set dma_S \<subseteq> set D'" using D(2) D'(2) h(9) unfolding dma_S_def by fastforce
  then show "edits_reach True ''.rela.text'' dma_S no_places b b'"
    by (intro edits_reachI [OF h(1,5) _ D'(1)]) (simp_all add: no_places_def)
qed

subsection \<open>patch_a3091_badhardware\<close>

lemma bad_found_rows:
  "bad_found b t rela j is = Inr found \<Longrightarrow> (off, o', cur, val) \<in> set found
    \<Longrightarrow> (\<exists>i \<in> set is. o' = row_pos rela i \<and> u32 b o' = Inr off)
    \<and> (\<exists>info. u32 b (o' + 4) = Inr info \<and> cur = info div 256 \<and> (cur = j \<or> symname b t cur = Inr ''badhardware''))"
  by (induction "is" arbitrary: found) (auto split: if_splits)

lemma bad_calls_edits:
  assumes "bad_calls tx j fs (b1, d, k) = Inr (b', d', k')" "run_at t rela S T b b1 X D E"
    "\<forall>(off, o', cur, val) \<in> set fs. is_row X rela o' off \<and> (\<exists>x \<in> X. \<exists>info. u32 x (o' + 4) = Inr info
       \<and> cur = info div 256 \<and> (cur = j \<or> named X t cur old))" "(0xd3a6, old, new) \<in> set S" "named X t j new"
  shows "\<exists>D'. run_at t rela S T b b' X D' E \<and> (if d < d' then 0xd3a6 \<in> set D' else True)
    \<and> set D \<subseteq> set D' \<and> d \<le> d'"
  using assms
proof (induction fs arbitrary: b1 d k D)
  case (Cons f fs)
  obtain off o' cur val where f: "f = (off, o', cur, val)" by (cases f)
  consider k1 where "bad_calls tx j fs (b1, d, k1) = Inr (b', d', k')"
    | info b2 where "cur \<noteq> j" "off = 0xd3a6" "u32 b1 (o' + 4) = Inr info" "info mod 256 = 1" "rewire b1 o' j 1 = Inr b2"
        "bad_calls tx j fs (b2, Suc d, k) = Inr (b', d', k')"
    using Cons.prems(1) by (auto simp: f is_r32_def split: if_splits)
  then show ?case
  proof cases
    case 1
    from Cons.IH [OF this Cons.prems(2)] Cons.prems(3-5) show ?thesis by simp
  next
    case 2
    obtain x info0 where x: "is_row X rela o' off" "x \<in> X" "u32 x (o' + 4) = Inr info0" "cur = info0 div 256"
      "named X t cur old" using Cons.prems(3) 2(1) by (auto simp: f)
    note X = subset_insertI [of X b1]
    have "run_at t rela S T b b2 X (off # D) E"
      using run_at_new_slot [OF Cons.prems(2) is_row_mono [OF x(1) X] _ _ x(3) _ insertI1 2(3) named_mono [OF Cons.prems(5) X]]
        x(2,4) named_mono [OF x(5) X] Cons.prems(4) 2 by simp
    from Cons.IH [OF 2(6) this] Cons.prems(3-5) 2(2)
    obtain D' where "run_at t rela S T b b' X D' E" "set (off # D) \<subseteq> set D'" "Suc d \<le> d'" by auto
    then show ?thesis using 2(2) by (intro exI [of _ D']) auto
  qed
qed auto

text \<open>What the loop counts, and that it writes only where it counts a change.\<close>

lemma bad_calls_counts:
  assumes "bad_calls tx j fs (b1, d, k) = Inr (b', d', k')"
  shows "k' = k + length (filter (\<lambda>(off, o', cur, val). cur = j) fs)"
    "d' = d + length (filter (\<lambda>(off, o', cur, val). cur \<noteq> j \<and> val \<noteq> 0xcf46) fs)" "d' = d \<Longrightarrow> b' = b1"
proof -
  have "k' = k + length (filter (\<lambda>(off, o', cur, val). cur = j) fs)
    \<and> d' = d + length (filter (\<lambda>(off, o', cur, val). cur \<noteq> j \<and> val \<noteq> 0xcf46) fs) \<and> (if d' = d then b' = b1 else True)"
    using assms
  proof (induction fs arbitrary: b1 d k)
    case (Cons f fs)
    obtain off o' cur val where f: "f = (off, o', cur, val)" by (cases f)
    consider "cur = j" "bad_calls tx j fs (b1, d, Suc k) = Inr (b', d', k')"
      | "cur \<noteq> j" "val = 0xcf46" "bad_calls tx j fs (b1, d, k) = Inr (b', d', k')"
      | b2 where "cur \<noteq> j" "val \<noteq> 0xcf46" "bad_calls tx j fs (b2, Suc d, k) = Inr (b', d', k')"
      using Cons.prems by (auto simp: f split: if_splits)
    then show ?case by cases (auto simp: f dest!: Cons.IH split: if_splits)
  qed simp
  then show "k' = k + length (filter (\<lambda>(off, o', cur, val). cur = j) fs)"
    "d' = d + length (filter (\<lambda>(off, o', cur, val). cur \<noteq> j \<and> val \<noteq> 0xcf46) fs)" "d' = d \<Longrightarrow> b' = b1"
    by auto
qed

lemma a3091_badhardware_Inr:
  assumes "a3091_badhardware_main b = (b', Inr r)"
  obtains sh d st rela t j rn found dn sk and tx :: shdr where "open_elf b = Inr (sh, d)"
    "map_of d ''.symtab'' = Some st" "map_of d ''.rela.text'' = Some rela" "strings_of sh st = Inr t"
    "nrels rela = Inr rn" "bad_found b t rela j (py_range rn) = Inr found" "named {b} t j ''a3091_badhardware_dbg''"
    "bad_calls (s_offset tx) j found (b, 0, 0) = Inr (b', dn, sk)" "r = (dn, sk)" "dn + sk = 1"
    "\<forall>(off, o', cur, val) \<in> set found. is_row {b} rela o' off \<and> (\<exists>x \<in> {b}. \<exists>info. u32 x (o' + 4) = Inr info
       \<and> cur = info div 256 \<and> (cur = j \<or> named {b} t cur ''badhardware''))"
proof -
  obtain sh d tx st rela t j rn found dn sk where h: "open_elf b = Inr (sh, d)"
    "map_of d ''.text'' = Some tx" "map_of d ''.symtab'' = Some st" "map_of d ''.rela.text'' = Some rela"
    "strings_of sh st = Inr t"
    "sym_index_or ''ABORT: a3091_badhardware_dbg not found'' b t ''a3091_badhardware_dbg'' = Inr j"
    "nrels rela = Inr rn" "bad_found b t rela j (py_range rn) = Inr found"
    "bad_calls (s_offset tx) j found (b, 0, 0) = Inr (b', dn, sk)" "r = (dn, sk)" "dn + sk = 1"
    using assms by (auto simp: a3091_badhardware_main_def write_back_Inr)
  have "\<forall>(off, o', cur, val) \<in> set found. is_row {b} rela o' off \<and> (\<exists>x \<in> {b}. \<exists>info. u32 x (o' + 4) = Inr info
       \<and> cur = info div 256 \<and> (cur = j \<or> named {b} t cur ''badhardware''))"
    using bad_found_rows [OF h(8)] h(7) by (fastforce simp: is_row_def named_def)
  moreover have "named {b} t j ''a3091_badhardware_dbg''" using named_here [OF sym_index_or_name [OF h(6)]] by simp
  ultimately show thesis using h by (intro that) assumption+
qed

lemma a3091_badhardware_edited:
  "edited False ''.rela.text'' [(0xd3a6, ''badhardware'', ''a3091_badhardware_dbg'')] no_places a3091_badhardware_main b"
proof (rule editedI [OF a3091_badhardware_main_def])
  fix b' r assume "a3091_badhardware_main b = (b', Inr r)"
  then obtain sh d st rela t j rn found dn sk and tx :: shdr where h: "open_elf b = Inr (sh, d)"
    "map_of d ''.symtab'' = Some st" "map_of d ''.rela.text'' = Some rela" "strings_of sh st = Inr t"
    "nrels rela = Inr rn" "bad_found b t rela j (py_range rn) = Inr found" "named {b} t j ''a3091_badhardware_dbg''"
    "bad_calls (s_offset tx) j found (b, 0, 0) = Inr (b', dn, sk)" "r = (dn, sk)" "dn + sk = 1"
    "\<forall>(off, o', cur, val) \<in> set found. is_row {b} rela o' off \<and> (\<exists>x \<in> {b}. \<exists>info. u32 x (o' + 4) = Inr info
       \<and> cur = info div 256 \<and> (cur = j \<or> named {b} t cur ''badhardware''))"
    by (rule a3091_badhardware_Inr)
  from bad_calls_edits [OF h(8) run_at_start h(11) _ h(7),
      where S = "[(0xd3a6, ''badhardware'', ''a3091_badhardware_dbg'')]" and T = "[]"]
  obtain D H where "edits t rela [(0xd3a6, ''badhardware'', ''a3091_badhardware_dbg'')] [] b (b' # H) D []"
    by (auto simp: run_at_def)
  with h(1,3) show "edits_reach False ''.rela.text'' [(0xd3a6, ''badhardware'', ''a3091_badhardware_dbg'')] no_places b b'"
    unfolding edits_reach_def no_places_def by (simp only: if_False) blast
qed

subsection \<open>patch_a3091_intr and patch_segdev_ops\<close>

lemma intr_slots_edits:
  assumes "intr_slots t at j ss (b1, d, k) = Inr (b', d', k')" "run_at t rela S T b b1 X D E"
    "\<forall>msg off o'. row_for at msg off = Inr o' \<longrightarrow> is_row X rela o' off" "(0x9998, ''a3091intr'', new) \<in> set S" "\<forall>s \<in> set ss. fst s = 0x9998 \<longrightarrow> fst (snd s) = ''a3091intr''" "named X t j new"
  shows "\<exists>D'. run_at t rela S T b b' X D' E \<and> set D \<union> (fst ` set ss \<inter> {0x9998}) \<subseteq> set D'"
  using assms
proof (induction ss arbitrary: b1 d k D)
  case (Cons s ss)
  obtain off want val where s: "s = (off, want, val)" by (cases s)
  obtain o' where o': "row_for at ''ABORT: no relocation in int2_tbl'' off = Inr o'" using Cons.prems(1) by (auto simp: s)
  show ?case
  proof (cases "off = 0x9998")
    case True
    obtain addend b2 w where w: "slot_edit b1 o' j is_r32 (intr_known b1 t want val addend) = Inr (b2, w)"
      "intr_slots t at j ss (b2, if w then Suc d else d, if w then k else Suc k) = Inr (b', d', k')"
      using Cons.prems(1) o' True by (auto simp: s)
    have row: "is_row (insert b1 X) rela o' off" and nm: "named (insert b1 X) t j new"
      using Cons.prems(3,6) o' is_row_mono [OF _ subset_insertI] named_mono [OF _ subset_insertI] by blast+
    have "run_at t rela S T b b2 X (off # D) E"
      by (rule slot_step [OF w(1) Cons.prems(2) row _ nm])
        (use Cons.prems(4,5) True in \<open>auto simp: s intr_known_def dest: is_r32_Inr names_at_name\<close>)
    from Cons.IH [OF w(2) this Cons.prems(3,4) _ Cons.prems(6)] Cons.prems(5) show ?thesis using True by (auto simp: s)
  next
    case False
    then have "intr_slots t at j ss (b1, d, k) = Inr (b', d', k')" using Cons.prems(1) by (auto simp: s o')
    from Cons.IH [OF this Cons.prems(2-4) _ Cons.prems(6)] Cons.prems(5) show ?thesis using False by (auto simp: s)
  qed
qed auto

lemma a3091_intr_edited: "edited True ''.rela.data'' [(0x9998, ''a3091intr'', ''a3091intr_demux'')] no_places a3091_intr_main b"
proof (rule editedI [OF a3091_intr_main_def])
  fix b' r assume "a3091_intr_main b = (b', Inr r)"
  then obtain sh d rela st t sn names j tbl rn at dn sk where h: "open_elf b = Inr (sh, d)"
    "map_of d ''.rela.data'' = Some rela" "map_of d ''.symtab'' = Some st" "strings_of sh st = Inr t"
    "nsyms t = Inr sn" "sym_names b t sn = Inr names"
    "first_named names ''ABORT: a3091intr_demux not found'' ''a3091intr_demux'' = Inr j"
    "first_named names ''ABORT: int2_tbl not found'' ''int2_tbl'' = Inr tbl"
    "nrels rela = Inr rn" "rows_at b rela rn = Inr at"
    "intr_slots t at j intr_SLOTS (b, 0, 0) = Inr (b', dn, sk)"
    by (auto simp: a3091_intr_main_def write_back_Inr)
  have "\<forall>msg off o'. row_for at msg off = Inr o' \<longrightarrow> is_row {b} rela o' off"
    using row_for_is_row [OF _ h(9)] h(10) by blast
  from intr_slots_edits [OF h(11) run_at_start this _ _ named_here [OF first_named_name [OF h(6,7)]],
      where S = "[(0x9998, ''a3091intr'', ''a3091intr_demux'')]" and T = "[]"]
  obtain D where D: "run_at t rela [(0x9998, ''a3091intr'', ''a3091intr_demux'')] [] b b' {b} D []" "0x9998 \<in> set D"
    by (auto simp: intr_SLOTS_def)
  then show "edits_reach True ''.rela.data'' [(0x9998, ''a3091intr'', ''a3091intr_demux'')] no_places b b'"
    by (intro edits_reachI [OF h(1,2) _ D(1)]) (simp_all add: no_places_def)
qed

definition wrappers :: "(int \<times> string \<times> int \<times> string) list \<Rightarrow> (int \<times> string \<times> string) list" where
  "wrappers ss = map (\<lambda>(off, want, val, w). (off, want, w)) ss"

lemma wrappers_Cons [simp]: "wrappers ((off, want, val, w) # ss) = (off, want, w) # wrappers ss" "wrappers [] = []"
  by (simp_all add: wrappers_def)

lemma segdev_slots_edits:
  assumes "segdev_slots t rela n names ss (b1, d, k) = Inr (b', d', k')" "run_at t rela S T b b1 X D E"
    "nrels rela = Inr n" "set (wrappers ss) \<subseteq> set S" "sym_names b t m = Inr names" "b \<in> X"
  shows "\<exists>D'. run_at t rela S T b b' X D' E \<and> set D \<union> fst ` set (wrappers ss) \<subseteq> set D'"
  using assms
proof (induction ss arbitrary: b1 d k D)
  case (Cons s ss)
  obtain off want val w where s: "s = (off, want, val, w)" by (cases s)
  from Cons.prems(1) obtain o' j b2 wr where h: "find_row b1 rela (\<lambda>x. x = off) (py_range n) = Inr (Some o')"
    "last_named names ''ABORT: not found'' w = Inr j" "slot_edit b1 o' j is_r32 (names_at b1 t want val) = Inr (b2, wr)"
    "segdev_slots t rela n names ss (b2, if wr then Suc d else d, if wr then k else Suc k) = Inr (b', d', k')"
    by (auto simp: s split: option.splits)
  have row: "is_row (insert b1 X) rela o' off" using find_row_is_row [OF h(1) Cons.prems(3)] by blast
  have "run_at t rela S T b b2 X (off # D) E"
    by (rule slot_step [OF h(3) Cons.prems(2) row _ named_here [OF last_named_name [OF Cons.prems(5) h(2)]]])
      (use Cons.prems(4,6) in \<open>auto simp: s dest: is_r32_Inr names_at_name\<close>)
  from Cons.IH [OF h(4) this Cons.prems(3) _ Cons.prems(5,6)] show ?case using Cons.prems(4) by (auto simp: s)
qed auto

lemma segdev_ops_edited: "edited True ''.rela.data'' (wrappers segdev_SLOTS) no_places segdev_ops_main b"
proof (rule editedI [OF segdev_ops_main_def])
  fix b' r assume "segdev_ops_main b = (b', Inr r)"
  then obtain sh d rela st t sn names rn dn sk where h: "open_elf b = Inr (sh, d)"
    "map_of d ''.rela.data'' = Some rela" "map_of d ''.symtab'' = Some st" "strings_of sh st = Inr t"
    "nsyms t = Inr sn" "sym_names b t sn = Inr names" "nrels rela = Inr rn"
    "segdev_slots t rela rn names segdev_SLOTS (b, 0, 0) = Inr (b', dn, sk)"
    by (auto simp: segdev_ops_main_def write_back_Inr)
  from segdev_slots_edits [OF h(8) run_at_start h(7) subset_refl h(6), where T = "[]"]
  obtain D where D: "run_at t rela (wrappers segdev_SLOTS) [] b b' {b} D []" "fst ` set (wrappers segdev_SLOTS) \<subseteq> set D"
    by auto
  then show "edits_reach True ''.rela.data'' (wrappers segdev_SLOTS) no_places b b'"
    by (intro edits_reachI [OF h(1,2) _ D(1)]) (simp_all add: no_places_def)
qed

subsection \<open>patch_scrdev_pageb\<close>

lemma scrdev_calls_edits:
  assumes "scrdev_calls tx t byoff names cs (b1, d, k) = Inr (b', d', k')" "run_at t rela S T b b1 X D E"
    "nrels rela = Inr n" "set (wrappers cs) \<subseteq> set S" "sym_names b0 t m = Inr names" "row_list b0 rela n = Inr byoff"
    "b0 \<in> X"
  shows "\<exists>D'. run_at t rela S T b b' X D' E \<and> set D \<union> fst ` set (wrappers cs) \<subseteq> set D'"
  using assms
proof (induction cs arbitrary: b1 d k D)
  case (Cons c cs)
  obtain r want val ov where c: "c = (r, want, val, ov)" by (cases c)
  let ?pre = "\<lambda>info. bind_e (is_r32 info) (\<lambda>_. opcode_before b1 tx r jsr_op)"
  from Cons.prems(1) obtain o' j b2 w where h: "row_for byoff ''ABORT: no relocation (call site)'' r = Inr o'"
    "first_named names ''ABORT: not found'' ov = Inr j" "slot_edit b1 o' j ?pre (names_at b1 t want val) = Inr (b2, w)"
    "scrdev_calls tx t byoff names cs (b2, if w then Suc d else d, if w then k else Suc k) = Inr (b', d', k')"
    by (auto simp: c)
  have row: "is_row (insert b1 X) rela o' r"
    by (rule row_for_is_row [OF disjI2 [OF Cons.prems(6)] Cons.prems(3) _ h(1)]) (simp add: Cons.prems(7))
  have "run_at t rela S T b b2 X (r # D) E"
    by (rule slot_step [OF h(3) Cons.prems(2) row _ named_here [OF first_named_name [OF Cons.prems(5) h(2)]]])
      (use Cons.prems(4,7) in \<open>auto simp: c dest: is_r32_Inr names_at_name\<close>)
  from Cons.IH [OF h(4) this Cons.prems(3) _ Cons.prems(5-7)] show ?case using Cons.prems(4) by (auto simp: c)
qed auto

lemma scrdev_sites_ok: "\<forall>s \<in> set scrdev_SITES. site_ok s"
  by (simp add: scrdev_SITES_def)

lemma scrdev_pageb_edited:
  "edited True ''.rela.text'' (wrappers scrdev_CALLS) (text_places scrdev_SITES) scrdev_pageb_main b"
proof (rule editedI [OF scrdev_pageb_main_def])
  fix b' r assume "scrdev_pageb_main b = (b', Inr r)"
  then obtain sh d tx b1 dn sk rela st t sn names rn byoff dn2 sk2 where h: "open_elf b = Inr (sh, d)"
    "map_of d ''.text'' = Some tx" "assert_patch_sites (s_offset tx) 0 scrdev_SITES (b, 0, 0) = Inr (b1, dn, sk)"
    "map_of d ''.rela.text'' = Some rela" "map_of d ''.symtab'' = Some st" "strings_of sh st = Inr t"
    "nsyms t = Inr sn" "sym_names b1 t sn = Inr names" "nrels rela = Inr rn" "row_list b1 rela rn = Inr byoff"
    "scrdev_calls (s_offset tx) t byoff names scrdev_CALLS (b1, 0, 0) = Inr (b', dn2, sk2)"
    by (auto simp: scrdev_pageb_main_def write_back_Inr)
  let ?T = "places (s_offset tx) scrdev_SITES" and ?S = "wrappers scrdev_CALLS"
  have "patch_sites (s_offset tx) 0 scrdev_SITES (b, 0, 0) = Inr (b1, dn, sk)"
    using h(3) assert_patch_sites_eq [of scrdev_SITES] scrdev_sites_ok by simp
  from patch_sites_steps [OF this run_at_start subset_refl scrdev_sites_ok, where S = ?S and t = t and rela = rela]
  obtain E where E: "run_at t rela ?S ?T b b1 {b} [] E" "fst ` set ?T \<subseteq> set E" by auto
  from scrdev_calls_edits [OF h(11) run_at_here [OF E(1)] h(9) subset_refl h(8,10)]
  obtain D where "run_at t rela ?S ?T b b' (insert b1 {b}) D E" "fst ` set ?S \<subseteq> set D" by auto
  with E(2) show "edits_reach True ''.rela.text'' ?S (text_places scrdev_SITES) b b'"
    by (intro edits_reachI [OF h(1,4)]) (auto simp: text_places_def h(2))
qed

subsection \<open>patch_va2000_cdevsw and patch_xsvga\<close>

definition cdevsw_S :: "(int \<times> string) list \<Rightarrow> (int \<times> string \<times> string) list" where
  "cdevsw_S fs = map (\<lambda>(off, name). (off, ''nodev'', name)) fs"

lemma cdevsw_S_simps [simp]: "cdevsw_S [] = []" "cdevsw_S ((off, name) # fs) = (off, ''nodev'', name) # cdevsw_S fs"
  by (simp_all add: cdevsw_S_def)

lemma cdevsw_slots_edits:
  assumes "cdevsw_slots t at fs (b1, d, k) = Inr (b', d', k')" "run_at t rela S T b b1 X D E"
    "nrels rela = Inr n" "set (cdevsw_S fs) \<subseteq> set S" "rows_at b rela n = Inr at" "b \<in> X"
  shows "\<exists>D'. run_at t rela S T b b' X D' E \<and> set D \<union> fst ` set (cdevsw_S fs) \<subseteq> set D'"
  using assms
proof (induction fs arbitrary: b1 d k D)
  case (Cons f fs)
  obtain off name where f: "f = (off, name)" by (cases f)
  from Cons.prems(1) obtain o' j b2 w d2 k2 where h: "row_for at ''ABORT: no .rela.data reloc at cdevsw'' off = Inr o'"
    "sym_index_or ''ABORT: symbol not found'' b1 t name = Inr j" "slot_edit b1 o' j is_r32 (names_sym b1 t ''nodev'') = Inr (b2, w)"
    "cdevsw_slots t at fs (b2, d2, k2) = Inr (b', d', k')"
    by (auto simp: f split: if_splits)
  have row: "is_row (insert b1 X) rela o' off"
    by (rule row_for_is_row [OF disjI1 [OF Cons.prems(5)] Cons.prems(3) _ h(1)]) (simp add: Cons.prems(6))
  have "run_at t rela S T b b2 X (off # D) E"
    by (rule slot_step [OF h(3) Cons.prems(2) row _ named_here [OF sym_index_or_name [OF h(2)]]])
      (use Cons.prems(4) in \<open>auto simp: f dest: is_r32_Inr names_sym_name\<close>)
  from Cons.IH [OF h(4) this Cons.prems(3) _ Cons.prems(5,6)] show ?case using Cons.prems(4) by (auto simp: f)
qed auto

lemma va2000_edited: "edited True ''.rela.data'' (cdevsw_S va2000_slots) no_places va2000_main b"
proof (rule editedI [OF va2000_main_def])
  fix b' r assume "va2000_main b = (b', Inr r)"
  then obtain sh shstr d t rela rn at dn sk where h: "name_symtab b = Inr (sh, shstr, d, t)"
    "map_of d ''.rela.data'' = Some rela" "nrels rela = Inr rn" "rows_at b rela rn = Inr at"
    "cdevsw_slots t at va2000_slots (b, 0, 0) = Inr (b', dn, sk)"
    by (auto simp: va2000_main_def write_back_Inr)
  from cdevsw_slots_edits [OF h(5) run_at_start h(3) subset_refl h(4), where T = "[]"]
  obtain D where "run_at t rela (cdevsw_S va2000_slots) [] b b' {b} D []" "fst ` set (cdevsw_S va2000_slots) \<subseteq> set D" by auto
  then show "edits_reach True ''.rela.data'' (cdevsw_S va2000_slots) no_places b b'"
    by (intro edits_reachI [OF name_symtab_open [OF h(1)] h(2)]) (auto simp: no_places_def)
qed

text \<open>The place in \<open>svgammap\<close>, from the value \<open>sm\<close> the script read for that symbol.\<close>

definition svgammap_place :: places_of where
  "svgammap_place b d t T \<longleftrightarrow> (\<exists>tx sm addr x. map_of d ''.text'' = Some tx \<and> section_addr b ''.text'' = Inr addr
     \<and> sym_value x t ''svgammap'' = Inr sm
     \<and> T = [(s_offset tx + (sm + 0x48 - addr), (\<lambda>c. c = svgammap_old), svgammap_new)])"

lemma xsvga_edited: "edited True ''.rela.data'' (cdevsw_S xsvga_slots) svgammap_place xsvga_main b"
proof (rule editedI [OF xsvga_main_def])
  fix b' r assume "xsvga_main b = (b', Inr r)"
  then obtain sh shstr d t tx addr rela rn at b1 dn sk sm w where h: "name_symtab b = Inr (sh, shstr, d, t)"
    "map_of d ''.text'' = Some tx" "section_addr b ''.text'' = Inr addr" "map_of d ''.rela.data'' = Some rela"
    "nrels rela = Inr rn" "rows_at b rela rn = Inr at" "cdevsw_slots t at xsvga_slots (b, 0, 0) = Inr (b1, dn, sk)"
    "sym_value b1 t ''svgammap'' = Inr sm"
    "patch_site (s_offset tx + (sm + 0x48 - addr)) svgammap_old svgammap_new ''svgammap'' b1 = Inr (b', w)"
    by (auto simp: xsvga_main_def write_back_Inr)
  let ?p = "s_offset tx + (sm + 0x48 - addr)"
  let ?T = "[(?p, (\<lambda>c. c = svgammap_old), svgammap_new)]"
  from cdevsw_slots_edits [OF h(7) run_at_start h(5) subset_refl h(6), where T = ?T]
  obtain D where D: "run_at t rela (cdevsw_S xsvga_slots) ?T b b1 {b} D []" "fst ` set (cdevsw_S xsvga_slots) \<subseteq> set D" by auto
  have "run_at t rela (cdevsw_S xsvga_slots) ?T b b' {b} D [?p]"
    by (rule patch_site_step [OF h(9) D(1)]) (simp_all add: svgammap_old_def svgammap_new_def)
  with D(2) h(2,3,8) show "edits_reach True ''.rela.data'' (cdevsw_S xsvga_slots) svgammap_place b b'"
    by (intro edits_reachI [OF name_symtab_open [OF h(1)] h(4)]) (auto simp: svgammap_place_def)
qed

subsection \<open>patch_cb_release\<close>

text \<open>
  The two places: the stock bytes or any \<open>bsr.l\<close> at \<open>page_free\<close>, replaced by the \<open>bsr.l\<close> to the island, and
  the opcode of \<open>addql\<close> in \<open>free_vp_pages\<close>.
\<close>

definition cb_release_places :: places_of where
  "cb_release_places b d t T \<longleftrightarrow> (\<exists>tx isl want. map_of d ''.text'' = Some tx \<and> sym_value b t ''cb_pgfree_enter'' = Inr isl
     \<and> branch_l [0x61, 0xff] 0xafb08 isl = Inr want
     \<and> T = [(s_offset tx + 0xafb08, pgfree_ok, want), (s_offset tx + 0xafd98, (\<lambda>c. c = [0x52, 0xb9]), jsr_op)])"

lemma branch_l_length: "branch_l op at target = Inr w \<Longrightarrow> length w = length op + 4"
  by (auto simp: branch_l_def dest: pack_I_length)

lemma cb_release_edited:
  "edited True ''.rela.text'' [(0xafd9a, ''freemem'', ''cb_vpfree_enter'')] cb_release_places cb_release_main b"
proof (rule editedI [OF cb_release_main_def])
  fix b' r assume "cb_release_main b = (b', Inr r)"
  then obtain sh d tx st rela t isl want b1 w1 j rn o' info w2 where h: "open_elf b = Inr (sh, d)"
    "map_of d ''.text'' = Some tx" "map_of d ''.symtab'' = Some st" "map_of d ''.rela.text'' = Some rela"
    "strings_of sh st = Inr t" "sym_value b t ''cb_pgfree_enter'' = Inr isl"
    "branch_l [0x61, 0xff] 0xafb08 isl = Inr want" "pgfree_site b (s_offset tx + 0xafb08) want = Inr (b1, w1)"
    "sym_index_or ''ABORT: symbol not found'' b1 t ''cb_vpfree_enter'' = Inr j" "nrels rela = Inr rn"
    "find_row b1 rela (\<lambda>off. off = 0xafd9a) (py_range rn) = Inr (Some o')" "u32 b1 (o' + 4) = Inr info"
    "is_r32 info = Inr ()"
    and c: "(let p = s_offset tx + 0xafd98; opc = slice b1 p (p + 2) in
          if info div 256 = j \<and> opc = jsr_op then Inr (b1, (w1, False))
          else bind_e (names_sym b1 t ''freemem'' (info div 256)) (\<lambda>_.
            bind_e (must (opc = [0x52, 0xb9]) ''ABORT: expected addql'') (\<lambda>_.
            bind_e (rewire (splice b1 p (p + 2) jsr_op) o' j 1) (\<lambda>b2. Inr (b2, (w1, True)))))) = Inr (b', r)"
    by (auto simp: cb_release_main_def write_back_Inr split: option.splits)
  let ?p = "s_offset tx + 0xafb08" and ?q = "s_offset tx + 0xafd98" and ?S = "[(0xafd9a, ''freemem'', ''cb_vpfree_enter'')]"
  let ?T = "[(?p, pgfree_ok, want), (?q, (\<lambda>c. c = [0x52, 0xb9]), jsr_op)]"
  have lw: "?p + int (length want) = ?p + 6" and lj: "?q + int (length jsr_op) = ?q + 2"
    using branch_l_length [OF h(7)] by (simp_all add: jsr_op_def)
  have "b1 = b \<and> slice b ?p (?p + 6) = want \<or> b1 = splice b ?p (?p + 6) want \<and> pgfree_ok (slice b ?p (?p + 6))"
    using h(8) by (simp add: pgfree_site_def Let_def split: if_splits)
  then have "run_at t rela ?S ?T b b1 {b} [] [?p]"
    by (intro run_at_site [OF run_at_start, where ok = pgfree_ok and new = want]) (simp_all only: lw list.set insertI1)
  then have A: "run_at t rela ?S ?T b b1 {b1, b} [] [?p]" by (rule run_at_here)
  have row: "is_row (insert x {b1, b}) rela o' 0xafd9a" for x
    using find_row_is_row [OF h(11,10), of "{}"] by (auto elim: is_row_mono)
  have nm: "named (insert x {b1, b}) t j ''cb_vpfree_enter''" for x
    using named_here [OF sym_index_or_name [OF h(9)]] by auto
  have "\<exists>D E. run_at t rela ?S ?T b b' {b1, b} D E \<and> 0xafd9a \<in> set D \<and> {?p, ?q} \<subseteq> set E"
  proof (cases "info div 256 = j \<and> slice b1 ?q (?q + 2) = jsr_op")
    case True
    then have [simp]: "b' = b1" using c by (simp add: Let_def)
    have "run_at t rela ?S ?T b b1 {b1, b} [] [?q, ?p]"
      by (rule run_at_site [OF A, where ok = "\<lambda>c. c = [0x52, 0xb9]" and new = jsr_op]) (use True lj in simp_all)
    from run_at_right_slot [OF this row _ h(12), of "''freemem''" "''cb_vpfree_enter''"] nm [of b1] True
    have "run_at t rela ?S ?T b b' {b1, b} [0xafd9a] [?q, ?p]" by simp
    then show ?thesis by (intro exI [of _ "[0xafd9a]"] exI [of _ "[?q, ?p]"]) simp
  next
    case False
    then have s: "slice b1 ?q (?q + 2) = [0x52, 0xb9]" "symname b1 t (info div 256) = Inr ''freemem''"
      "rewire (splice b1 ?q (?q + 2) jsr_op) o' j 1 = Inr b'"
      using c by (auto simp: Let_def dest: names_sym_name)
    have B: "run_at t rela ?S ?T b (splice b1 ?q (?q + 2) jsr_op) {b1, b} [] [?q, ?p]"
      by (rule run_at_site [OF A, where ok = "\<lambda>c. c = [0x52, 0xb9]" and new = jsr_op]) (use s(1) lj in simp_all)
    from run_at_new_slot [OF B row _ _ h(12) named_here [OF s(2)] _ h(12) nm] s(3) is_r32_Inr [OF h(13)]
    have "run_at t rela ?S ?T b b' {b1, b} [0xafd9a] [?q, ?p]" by simp
    then show ?thesis by (intro exI [of _ "[0xafd9a]"] exI [of _ "[?q, ?p]"]) simp
  qed
  then obtain D E where "run_at t rela ?S ?T b b' {b1, b} D E" "0xafd9a \<in> set D" "{?p, ?q} \<subseteq> set E" by blast
  then show "edits_reach True ''.rela.text'' ?S cb_release_places b b'"
    using h(2,6,7) by (intro edits_reachI [OF h(1,4)]) (auto simp: cb_release_places_def)
qed

subsection \<open>The contract holds of every script\<close>

interpretation config_cachefix: slot_script config_cachefix_main "''.rela.text''" "[(0x26, ''config'', ''config_cachefix'')]" no_places
  by unfold_locales (rule config_cachefix_edited)

interpretation sendsig_fpu: slot_script sendsig_fpu_main "''.rela.text''" "[(0x5921c, ''fpu_setup'', ''fpu_setup_gated'')]" no_places
  by unfold_locales (rule sendsig_fpu_edited)

interpretation dbgpublish: slot_script dbgpublish_main "''.rela.text''" "dbgpublish_SITES" no_places
  by unfold_locales (rule dbgpublish_edited)

interpretation a3091_dma: slot_script a3091_dma_main "''.rela.text''" "dma_S" no_places
  by unfold_locales (rule a3091_dma_edited)

interpretation a3091_intr: slot_script a3091_intr_main "''.rela.data''" "[(0x9998, ''a3091intr'', ''a3091intr_demux'')]" no_places
  by unfold_locales (rule a3091_intr_edited)

interpretation segdev_ops: slot_script segdev_ops_main "''.rela.data''" "wrappers segdev_SLOTS" no_places
  by unfold_locales (rule segdev_ops_edited)

interpretation scrdev_pageb: slot_script scrdev_pageb_main "''.rela.text''" "wrappers scrdev_CALLS" "text_places scrdev_SITES"
  by unfold_locales (rule scrdev_pageb_edited)

interpretation va2000: slot_script va2000_main "''.rela.data''" "cdevsw_S va2000_slots" no_places
  by unfold_locales (rule va2000_edited)

interpretation xsvga: slot_script xsvga_main "''.rela.data''" "cdevsw_S xsvga_slots" "svgammap_place"
  by unfold_locales (rule xsvga_edited)

interpretation cb_release: slot_script cb_release_main "''.rela.text''" "[(0xafd9a, ''freemem'', ''cb_vpfree_enter'')]" "cb_release_places"
  by unfold_locales (rule cb_release_edited)

interpretation z3660: slot_script "z3660_main dd_order" "''.rela.text''" "z3660_todo dd_order"
    "text_places z3660_bound" for dd_order
  by unfold_locales (rule z3660_edited)

interpretation a3091_badhardware: edit_script a3091_badhardware_main "''.rela.text''"
    "[(0xd3a6, ''badhardware'', ''a3091_badhardware_dbg'')]" no_places
  by unfold_locales (rule a3091_badhardware_edited)

text \<open>
  \<open>patch_a3091_badhardware\<close> counts an entry that names its interposer as the call it looks for, at whatever
  offset it stands.
\<close>

definition interposer_called :: "byte list \<Rightarrow> bool" where
  "interposer_called b \<longleftrightarrow> (\<exists>sh d rela st t o' off info. open_elf b = Inr (sh, d) \<and> map_of d ''.rela.text'' = Some rela
     \<and> map_of d ''.symtab'' = Some st \<and> strings_of sh st = Inr t \<and> is_row {b} rela o' off
     \<and> u32 b (o' + 4) = Inr info \<and> named {b} t (info div 256) ''a3091_badhardware_dbg'')"

lemma a3091_badhardware_outcome:
  "case a3091_badhardware_main b of
     (b', Inl e) \<Rightarrow> b' = b
   | (b', Inr (d, k)) \<Rightarrow> (if d = 1
       then k = 0 \<and> edits_reach True ''.rela.text'' [(0xd3a6, ''badhardware'', ''a3091_badhardware_dbg'')] no_places b b'
       else d = 0 \<and> k = 1 \<and> b' = b \<and> interposer_called b)"
proof (cases "a3091_badhardware_main b")
  case (Pair b' o')
  show ?thesis
  proof (cases o')
    case (Inl e)
    then show ?thesis using Pair a3091_badhardware.aborts [of b] by simp
  next
    case (Inr r)
    let ?S = "[(0xd3a6, ''badhardware'', ''a3091_badhardware_dbg'')]"
    obtain sh d st rela t j rn found dn sk and tx :: shdr where h: "open_elf b = Inr (sh, d)"
      "map_of d ''.symtab'' = Some st" "map_of d ''.rela.text'' = Some rela" "strings_of sh st = Inr t"
      "nrels rela = Inr rn" "bad_found b t rela j (py_range rn) = Inr found" "named {b} t j ''a3091_badhardware_dbg''"
      "bad_calls (s_offset tx) j found (b, 0, 0) = Inr (b', dn, sk)" "r = (dn, sk)" "dn + sk = 1"
      "\<forall>(off, o', cur, val) \<in> set found. is_row {b} rela o' off \<and> (\<exists>x \<in> {b}. \<exists>info. u32 x (o' + 4) = Inr info
         \<and> cur = info div 256 \<and> (cur = j \<or> named {b} t cur ''badhardware''))"
      using Pair unfolding Inr by (rule a3091_badhardware_Inr)
    have "edits_reach True ''.rela.text'' ?S no_places b b'" if dn: "dn = 1"
    proof -
      obtain D' where "run_at t rela ?S [] b b' {b} D' []" "0xd3a6 \<in> set D'"
        using bad_calls_edits [OF h(8) run_at_start h(11) _ h(7), where S = ?S and T = "[]"] dn by auto
      then show ?thesis by (intro edits_reachI [OF h(1,3)]) (auto simp: no_places_def)
    qed
    moreover have "b' = b \<and> interposer_called b" if dn: "dn = 0"
    proof -
      note c = bad_calls_counts [OF h(8)]
      have "filter (\<lambda>(off, o', cur, val). cur = j) found \<noteq> []" using c(1) dn h(10) by auto
      then obtain off o' val where "(off, o', j, val) \<in> set found" by (auto simp: filter_empty_conv)
      then obtain info where "is_row {b} rela o' off" "u32 b (o' + 4) = Inr info" "named {b} t (info div 256) ''a3091_badhardware_dbg''"
        using h(7,11) by fastforce
      then show ?thesis using c(3) dn h(1-4) unfolding interposer_called_def by blast
    qed
    ultimately show ?thesis using Pair Inr h(9,10) by auto
  qed
qed

lemmas device_runs = config_cachefix.run_slots sendsig_fpu.run_slots dbgpublish.run_slots
  a3091_dma.run_slots a3091_intr.run_slots segdev_ops.run_slots scrdev_pageb.run_slots va2000.run_slots xsvga.run_slots
  cb_release.run_slots z3660.run_slots a3091_badhardware_outcome

text \<open>
  C7: The twelve patchers of drivers and kernel hooks change only what their tables name. On every file and
  for every script, a run either ends in an error and leaves the file alone, or its result is reached from
  the input by a sequence of steps, each of which gives one relocation entry of the table another symbol, of
  the name the table says and with the type kept, or replaces accepted bytes of \<open>.text\<close> at a place of the
  table. Eleven of them then have changed, or found right, every slot and every site of their table.
  \<open>patch_a3091_badhardware\<close> either has redirected its one call, or leaves the file as it was because an entry
  of \<open>.rela.text\<close> names the interposer already: it does not look at the offset of that entry.
\<close>

theorem device_scripts_edit:
  "edited True ''.rela.text'' [(0x26, ''config'', ''config_cachefix'')] no_places config_cachefix_main b
   \<and> edited True ''.rela.text'' [(0x5921c, ''fpu_setup'', ''fpu_setup_gated'')] no_places sendsig_fpu_main b
   \<and> edited True ''.rela.text'' dbgpublish_SITES no_places dbgpublish_main b
   \<and> edited True ''.rela.text'' dma_S no_places a3091_dma_main b
   \<and> edited True ''.rela.data'' [(0x9998, ''a3091intr'', ''a3091intr_demux'')] no_places a3091_intr_main b
   \<and> edited True ''.rela.data'' (wrappers segdev_SLOTS) no_places segdev_ops_main b
   \<and> edited True ''.rela.text'' (wrappers scrdev_CALLS) (text_places scrdev_SITES) scrdev_pageb_main b
   \<and> edited True ''.rela.data'' (cdevsw_S va2000_slots) no_places va2000_main b
   \<and> edited True ''.rela.data'' (cdevsw_S xsvga_slots) svgammap_place xsvga_main b
   \<and> edited True ''.rela.text'' [(0xafd9a, ''freemem'', ''cb_vpfree_enter'')] cb_release_places cb_release_main b
   \<and> edited True ''.rela.text'' (z3660_todo dd_order) (text_places z3660_bound) (z3660_main dd_order) b
   \<and> (case a3091_badhardware_main b of
       (b', Inl e) \<Rightarrow> b' = b
     | (b', Inr (d, k)) \<Rightarrow> (if d = 1
         then k = 0 \<and> edits_reach True ''.rela.text'' [(0xd3a6, ''badhardware'', ''a3091_badhardware_dbg'')] no_places b b'
         else d = 0 \<and> k = 1 \<and> b' = b \<and> interposer_called b))"
  by (intro conjI device_runs)

subsection \<open>Group messages that take effect\<close>

text \<open>
  The three scripts that compare the changed slots with the slots found changed refuse a half-done group: a run
  that ends well has changed all of the slots or none.
\<close>

lemma whole_group_Inr: "whole_group d k = Inr u \<longleftrightarrow> d = 0 \<or> k = 0"
  by (simp add: whole_group_def must_def)

lemma cdevsw_slots_count: "cdevsw_slots t at fs (b, d, k) = Inr (b', d', k') \<Longrightarrow> d' + k' = d + k + length fs"
  by (induction fs arbitrary: b d k) (auto simp: bind_e_Inr_iff split: if_splits sum.splits prod.splits)

lemma start_slots_count: "start_slots tx t rela rn fs (b, d, k) = Inr (b', d', k') \<Longrightarrow> d' + k' = d + k + length fs"
proof (induction fs arbitrary: b d k)
  case (Cons f fs)
  obtain r name where f: "f = (r, name)" by (cases f)
  obtain b2 w where "start_slots tx t rela rn fs (b2, if w then Suc d else d, if w then k else Suc k) = Inr (b', d', k')"
    using Cons.prems by (auto simp: f split: option.splits)
  from Cons.IH [OF this] show ?case by (cases w) simp_all
qed simp

lemma va2000_whole: "case va2000_main b of (_, Inr (d, k)) \<Rightarrow> (d, k) = (6, 0) \<or> (d, k) = (0, 6) | _ \<Rightarrow> True"
proof -
  have "(d, k) = (6, 0) \<or> (d, k) = (0, 6)" if run: "va2000_main b = (b', Inr (d, k))" for b' d k
  proof -
    obtain t at where s: "cdevsw_slots t at va2000_slots (b, 0, 0) = Inr (b', d, k)" "whole_group d k = Inr ()"
      using run by (auto simp: va2000_main_def write_back_Inr)
    have "d + k = 6" using cdevsw_slots_count [OF s(1)] by (simp add: va2000_slots_def va2000_FIELDS_def py_range_def)
    then show ?thesis using s(2) by (auto simp: whole_group_Inr)
  qed
  then show ?thesis by (auto split: sum.splits prod.splits)
qed

lemma xsvga_whole: "case xsvga_main b of (_, Inr (d, w)) \<Rightarrow> d = 6 \<or> d = 0 | _ \<Rightarrow> True"
proof -
  have "d = 6 \<or> d = 0" if run: "xsvga_main b = (b', Inr (d, w))" for b' d w
  proof -
    obtain t at b1 k where s: "cdevsw_slots t at xsvga_slots (b, 0, 0) = Inr (b1, d, k)" "whole_group d k = Inr ()"
      using run by (auto simp: xsvga_main_def write_back_Inr)
    have "d + k = 6" using cdevsw_slots_count [OF s(1)] by (simp add: xsvga_slots_def)
    then show ?thesis using s(2) by (auto simp: whole_group_Inr)
  qed
  then show ?thesis by (auto split: sum.splits prod.splits)
qed

lemma dma_whole: "case a3091_dma_main b of
    (_, Inr ((d, k), sd, sk)) \<Rightarrow> (d = 0 \<or> k = 0) \<and> ((sd, sk) = (2, 0) \<or> (sd, sk) = (0, 2)) | _ \<Rightarrow> True"
proof -
  have "(d = 0 \<or> k = 0) \<and> ((sd, sk) = (2, 0) \<or> (sd, sk) = (0, 2))"
    if run: "a3091_dma_main b = (b', Inr ((d, k), sd, sk))" for b' d k sd sk
  proof -
    obtain tx t rela rn b1 where s: "start_slots tx t rela rn dma_start (b1, 0, 0) = Inr (b', sd, sk)"
      "whole_group d k = Inr ()" "whole_group sd sk = Inr ()"
      using run by (auto simp: a3091_dma_main_def write_back_Inr)
    have "sd + sk = 2" using start_slots_count [OF s(1)] by (simp add: dma_start_def)
    then show ?thesis using s(2,3) by (auto simp: whole_group_Inr)
  qed
  then show ?thesis by (auto split: sum.splits prod.splits)
qed

end
