(* ===== verification/Islands.thy ===== *)
theory Islands
  imports Device_Edits
begin

text \<open>
  The patchers that write a branch to a new routine over kernel code.  \<open>patch_btwalk\<close> and \<open>patch_inituser\<close>
  use a PC-relative \<open>bsr.l\<close>/\<open>bra.l\<close> padded with \<open>nop\<close>; the diagnostic hooks \<open>patch_setrun_hook\<close>,
  \<open>patch_sched_hook\<close>, \<open>patch_setbackdq_hook\<close> and \<open>patch_sys_forkret_hook\<close> use \<open>jmp\<close> with an absolute
  address.  What the bytes mean to the processor is stated independently, by \<open>branch_dest\<close> and \<open>jump_dest\<close>.
\<close>

subsection \<open>The 68k instructions\<close>

text \<open>
  \<open>bra.l\<close>, \<open>bsr.l\<close> (68020 and later): opcode \<open>60ff\<close> or \<open>61ff\<close>, a 32-bit displacement from the word after the
  opcode.  \<open>jmp (xxx).L\<close>: opcode \<open>4ef9\<close> and the address.
\<close>

definition branch_dest :: "int \<Rightarrow> byte list \<Rightarrow> int option" where
  "branch_dest pc code = (case code of
     a # b # w \<Rightarrow> if (a = 0x60 \<or> a = 0x61) \<and> b = 0xff
       then (case unpack_I w of Inl _ \<Rightarrow> None | Inr d \<Rightarrow> Some ((pc + 2 + d) mod 4294967296)) else None
   | _ \<Rightarrow> None)"

definition jump_dest :: "byte list \<Rightarrow> int option" where
  "jump_dest code = (case code of
     a # b # w \<Rightarrow> if a = 0x4e \<and> b = 0xf9 then (case unpack_I w of Inl _ \<Rightarrow> None | Inr d \<Rightarrow> Some d) else None
   | _ \<Rightarrow> None)"

definition nop :: "byte list" where
  "nop = [0x4e, 0x71]"

definition nops :: "nat \<Rightarrow> byte list" where
  "nops n = concat (replicate n nop)"

subsection \<open>patch_btwalk and patch_inituser\<close>

text \<open>The result is whether the site held the stock code.\<close>

definition island_main :: "int \<Rightarrow> byte list \<Rightarrow> byte list \<Rightarrow> string \<Rightarrow> bool script" where
  "island_main site OLD op island b = write_back b
     (bind_e (name_symtab b) (\<lambda>(sh, shstr, d, t). bind_e (sym_value b t island) (\<lambda>target.
      let span = int (length OLD); cur = slice b (TEXT_OFF + site) (TEXT_OFF + (site + span)) in
      bind_e (must (cur = OLD \<or> take 2 cur = op) ''ABORT: site is neither the pinned code nor a branch'') (\<lambda>_.
      bind_e (branch_l op site target) (\<lambda>br. let new = br @ nops ((length OLD - length br) div 2) in
      if length new \<noteq> length OLD then Inl (AssertionError ''padding arithmetic wrong'')
      else Inr (splice b (TEXT_OFF + site) (TEXT_OFF + (site + span)) new, cur = OLD))))))"

definition btwalk_OLD :: "byte list" where
  "btwalk_OLD = [0x0c, 0xae, 0x3f, 0xff, 0xff, 0xff, 0xff, 0xfc, 0x63, 0x00, 0x00, 0x10, 0x0c, 0xae, 0x40, 0x00,
     0xff, 0xff, 0xff, 0xfc, 0x62, 0x00, 0x00, 0x04, 0x70, 0x01]"

definition btwalk_main :: "bool script" where
  "btwalk_main = island_main 0x5960e btwalk_OLD [0x61, 0xff] ''bt_frame_ok''"

definition inituser_OLD :: "byte list" where
  "inituser_OLD = [0x32, 0x3c, 0x00, 0x00, 0x3f, 0x01, 0x2f, 0x00, 0x6b, 0x08, 0x32, 0x3c, 0x20, 0x00, 0x3f, 0x01,
     0x4e, 0x73, 0x3f, 0x01, 0x4e, 0x73]"

definition inituser_main :: "bool script" where
  "inituser_main = island_main 0x4a inituser_OLD [0x60, 0xff] ''ini_user_rte''"

subsection \<open>The diagnostic hooks\<close>

text \<open>\<open>sections\<close> of these scripts: name to (address, offset, size).\<close>

definition detour_row :: "byte list \<Rightarrow> int \<Rightarrow> int \<Rightarrow> exn + string \<times> int \<times> int \<times> int" where
  "detour_row b so o' = bind_e (u32 b o') (\<lambda>nm. bind_e (cstr b (so + nm)) (\<lambda>s.
     bind_e (u32 b (o' + 12)) (\<lambda>addr. bind_e (u32 b (o' + 16)) (\<lambda>off. bind_e (u32 b (o' + 20)) (\<lambda>size.
     bind_e (u32 b (o' + 4)) (\<lambda>_. bind_e (decode_utf8 s) (\<lambda>name. Inr (name, addr, off, size))))))))"

definition detour_sections :: "byte list \<Rightarrow> exn + (string \<times> int \<times> int \<times> int) list" where
  "detour_sections b =
     bind_e (u32 b 32) (\<lambda>sh. bind_e (u16 b 46) (\<lambda>ent. bind_e (u16 b 48) (\<lambda>n. bind_e (u16 b 50) (\<lambda>st.
     bind_e (u32 b (sh + st * ent + 16)) (\<lambda>so.
     bind_e (map_e (\<lambda>i. detour_row b so (sh + i * ent)) (py_range n)) (\<lambda>rows. Inr (py_dict rows)))))))"

fun detour_find :: "byte list \<Rightarrow> int \<Rightarrow> string \<Rightarrow> int list \<Rightarrow> exn + int" where
  "detour_find b stoff name [] = Inl (SystemExit ''symbol not found'')"
| "detour_find b stoff name (o' # os) = bind_e (u32 b o') (\<lambda>nm. bind_e (u32 b (o' + 4)) (\<lambda>val.
     bind_e (cstr b (stoff + nm)) (\<lambda>s. if s = ascii name then Inr val else detour_find b stoff name os)))"

text \<open>\<open>range(syoff, syoff + sysz, 16)\<close>\<close>

definition sym_offsets :: "int \<Rightarrow> int \<Rightarrow> int list" where
  "sym_offsets syoff sysz = map (\<lambda>k. syoff + 16 * k) (py_range ((sysz + 15) div 16))"

definition detour_sym :: "byte list \<Rightarrow> (string \<times> int \<times> int \<times> int) list \<Rightarrow> string \<Rightarrow> exn + int" where
  "detour_sym b secs name = bind_e (dict_get ''.symtab'' secs) (\<lambda>(_, syoff, sysz).
     bind_e (dict_get ''.strtab'' secs) (\<lambda>(_, stoff, _). detour_find b stoff name (sym_offsets syoff sysz)))"

definition jmp_l :: "int \<Rightarrow> exn + byte list" where
  "jmp_l target = bind_e (pack_I target) (\<lambda>w. Inr ([0x4e, 0xf9] @ w))"

text \<open>The result is whether the script wrote.\<close>

definition detour_main :: "int \<Rightarrow> byte list \<Rightarrow> string \<Rightarrow> bool script" where
  "detour_main site OLD hook b = write_back b
     (bind_e (detour_sections b) (\<lambda>secs. bind_e (detour_sym b secs hook) (\<lambda>target.
      bind_e (dict_get ''.text'' secs) (\<lambda>(sa, so, _). let fo = so + (site - sa); cur = slice b fo (fo + 8) in
      bind_e (jmp_l target) (\<lambda>j. let new = j @ nop in
      if cur = new then Inr (b, False)
      else if cur \<noteq> OLD then Inl (SystemExit ''ABORT: unexpected bytes'')
      else Inr (splice b fo (fo + 8) new, True))))))"

definition setrun_main :: "bool script" where
  "setrun_main = detour_main 0x489c2 [0x4e, 0x56, 0x00, 0x00, 0x48, 0xe7, 0x20, 0x20] ''setrun_hook''"

definition sched_main :: "bool script" where
  "sched_main = detour_main 0x46e94 [0x4e, 0x56, 0xff, 0xe0, 0x48, 0xe7, 0x3c, 0x30] ''sched_hook''"

definition setbackdq_main :: "bool script" where
  "setbackdq_main = detour_main 0xb926e [0x4e, 0x56, 0xff, 0xf8, 0x48, 0xe7, 0x3c, 0x30] ''setbackdq_hook''"

definition sys_forkret_main :: "bool script" where
  "sys_forkret_main = detour_main 0xba936 [0x4e, 0x56, 0x00, 0x00, 0x2f, 0x2e, 0x00, 0x08] ''sys_forkret_hook''"

subsection \<open>Where the branches go\<close>

lemma pack_I_mod: "pack_I (k mod 4294967296) = Inr w \<Longrightarrow> unpack_I w = Inr (k mod 4294967296)"
  by (rule unpack_pack_I)

text \<open>
  \<open>bsr.l\<close> written for address \<open>site\<close> and executed at \<open>base + site\<close>: it goes to \<open>base + target\<close>.
\<close>

lemma branch_l_dest:
  assumes "branch_l op site target = Inr code" "op = [0x60, 0xff] \<or> op = [0x61, 0xff]"
  shows "branch_dest (base + site) code = Some ((base + target) mod 4294967296)"
proof -
  obtain w where w: "pack_I ((target - (site + 2)) mod 4294967296) = Inr w" "code = op @ w"
    using assms(1) by (auto simp: branch_l_def)
  have "(base + site + 2 + (target - (site + 2)) mod 4294967296) mod 4294967296
      = (base + site + 2 + (target - (site + 2))) mod 4294967296"
    by (rule mod_add_right_eq)
  also have "base + site + 2 + (target - (site + 2)) = base + target" by simp
  finally have "(base + site + 2 + (target - (site + 2)) mod 4294967296) mod 4294967296 = (base + target) mod 4294967296" .
  then show ?thesis using unpack_pack_I [OF w(1)] assms(2) by (auto simp: branch_dest_def w(2))
qed

lemma jmp_l_dest: "jmp_l target = Inr code \<Longrightarrow> jump_dest code = Some target"
  by (auto simp: jmp_l_def jump_dest_def dest: unpack_pack_I)

lemma length_nops [simp]: "length (nops n) = 2 * n"
  by (induction n) (simp_all add: nops_def nop_def)

lemma splice_parts:
  assumes "0 \<le> p" "slice b p (p + int n) \<noteq> []"
  shows "splice b p (p + int n) new = take (nat p) b @ new @ drop (nat p + n) b" and "p < int (length b)"
proof -
  have "\<not> int (length b) \<le> p"
  proof
    assume "int (length b) \<le> p"
    then have "clip (length b) p = length b" by (auto simp: clip_def)
    then show False using assms(2) by (simp add: slice_def Let_def)
  qed
  then show "p < int (length b)" by simp
  then have "clip (length b) p = nat p" "clip (length b) (p + int n) = min (nat p + n) (length b)"
    using assms(1) by (auto simp: clip_def)
  then show "splice b p (p + int n) new = take (nat p) b @ new @ drop (nat p + n) b"
    by (auto simp: splice_def Let_def min_def max_def)
qed

text \<open>The file with \<open>code\<close> over the bytes from position \<open>p\<close>; a file that ends in the middle grows.\<close>

definition code_at :: "int \<Rightarrow> byte list \<Rightarrow> byte list \<Rightarrow> byte list" where
  "code_at p code b = take (nat p) b @ code @ drop (nat p + length code) b"

text \<open>
  A run that succeeds leaves a branch that reaches the island wherever the loader puts \<open>.text\<close>.
\<close>

definition island_run :: "int \<Rightarrow> byte list \<Rightarrow> string \<Rightarrow> bool script \<Rightarrow> byte list \<Rightarrow> bool" where
  "island_run site OLD island run b \<longleftrightarrow> (case run b of
     (b', Inl e) \<Rightarrow> b' = b
   | (b', Inr fresh) \<Rightarrow> \<exists>sh shstr d t target code. name_symtab b = Inr (sh, shstr, d, t)
       \<and> sym_value b t island = Inr target \<and> length code = length OLD \<and> b' = code_at (TEXT_OFF + site) code b
       \<and> (\<forall>base. branch_dest (base + site) (take 6 code) = Some ((base + target) mod 4294967296))
       \<and> drop 6 code = nops ((length OLD - 6) div 2))"

lemma island_outcome:
  assumes op: "op = [0x60, 0xff] \<or> op = [0x61, 0xff]" and s: "0 \<le> site" and old: "OLD \<noteq> []"
  shows "island_run site OLD island (island_main site OLD op island) b"
proof (cases "island_main site OLD op island b")
  case (Pair b' res)
  show ?thesis
  proof (cases res)
    case (Inl e)
    then have "b' = b" using Pair by (auto simp: island_main_def write_back_def split: sum.splits)
    then show ?thesis using Inl Pair by (simp add: island_run_def)
  next
    case (Inr fresh)
    let ?p = "TEXT_OFF + site" and ?n = "length OLD"
    obtain sh shstr d t target br where h: "name_symtab b = Inr (sh, shstr, d, t)" "sym_value b t island = Inr target"
      "slice b ?p (TEXT_OFF + (site + int ?n)) = OLD \<or> take 2 (slice b ?p (TEXT_OFF + (site + int ?n))) = op"
      "branch_l op site target = Inr br" "length (br @ nops ((?n - length br) div 2)) = ?n"
      "b' = splice b ?p (TEXT_OFF + (site + int ?n)) (br @ nops ((?n - length br) div 2))"
      using Pair [unfolded Inr] by (auto simp: island_main_def write_back_def Let_def split: sum.splits if_splits)
    have e: "TEXT_OFF + (site + int ?n) = ?p + int ?n" by simp
    have "slice b ?p (?p + int ?n) \<noteq> []" using h(3) old op unfolding e by auto
    from splice_parts(1) [OF _ this] have "b' = code_at ?p (br @ nops ((?n - length br) div 2)) b"
      using s h(5,6) unfolding e by (simp add: code_at_def TEXT_OFF_def)
    moreover have "length br = 6"
      using h(4) op by (auto simp: branch_l_def dest: pack_I_length)
    ultimately show ?thesis using h(1,2,5) Inr Pair branch_l_dest [OF h(4) op]
      by (simp add: island_run_def) (intro exI [of _ "br @ nops ((?n - length br) div 2)"], simp)
  qed
qed

text \<open>
  A detour that was written goes to the address of the symbol in the file, whatever the loader does.
\<close>

definition detour_run :: "int \<Rightarrow> byte list \<Rightarrow> string \<Rightarrow> bool script \<Rightarrow> byte list \<Rightarrow> bool" where
  "detour_run site OLD hook run b \<longleftrightarrow> (case run b of
     (b', Inl e) \<Rightarrow> b' = b
   | (b', Inr wrote) \<Rightarrow> \<exists>secs target sa so size code. detour_sections b = Inr secs
       \<and> detour_sym b secs hook = Inr target \<and> map_of secs ''.text'' = Some (sa, so, size)
       \<and> jump_dest (take 6 code) = Some target \<and> drop 6 code = nop
       \<and> (if wrote then slice b (so + (site - sa)) (so + (site - sa) + 8) = OLD
            \<and> b' = splice b (so + (site - sa)) (so + (site - sa) + 8) code
          else slice b (so + (site - sa)) (so + (site - sa) + 8) = code \<and> b' = b))"

lemma detour_outcome: "detour_run site OLD hook (detour_main site OLD hook) b"
proof (cases "detour_main site OLD hook b")
  case (Pair b' res)
  show ?thesis
  proof (cases res)
    case (Inl e)
    then have "b' = b" using Pair by (auto simp: detour_main_def write_back_def split: sum.splits)
    then show ?thesis using Inl Pair by (simp add: detour_run_def)
  next
    case (Inr wrote)
    let ?new = "\<lambda>fo j. if slice b fo (fo + 8) = j @ nop then Inr (b, False)
        else if slice b fo (fo + 8) \<noteq> OLD then Inl (SystemExit ''ABORT: unexpected bytes'')
        else Inr (splice b fo (fo + 8) (j @ nop), True)"
    obtain secs target sa so size j where h: "detour_sections b = Inr secs" "detour_sym b secs hook = Inr target"
      "map_of secs ''.text'' = Some (sa, so, size)" "jmp_l target = Inr j" "?new (so + (site - sa)) j = Inr (b', wrote)"
      using Pair [unfolded Inr detour_main_def write_back_Inr] by (auto simp: Let_def)
    have w: "if wrote then slice b (so + (site - sa)) (so + (site - sa) + 8) = OLD
         \<and> b' = splice b (so + (site - sa)) (so + (site - sa) + 8) (j @ nop)
       else slice b (so + (site - sa)) (so + (site - sa) + 8) = j @ nop \<and> b' = b"
      using h(5) by (simp split: if_splits)
    have "length j = 6" using h(4) by (auto simp: jmp_l_def dest: pack_I_length)
    then show ?thesis using h(1-3) w Inr Pair jmp_l_dest [OF h(4)]
      by (simp add: detour_run_def) (intro exI [of _ "j @ nop"], simp)
  qed
qed

text \<open>
  C8: The branches written by the island and detour patchers go where they should. On every file, each
  script either fails and leaves the file alone, or replaces exactly the site. For \<open>patch_btwalk\<close> and
  \<open>patch_inituser\<close> the new code is a \<open>bsr.l\<close>/\<open>bra.l\<close> that, executed at \<open>base + site\<close>, reaches \<open>base + target\<close>
  for the symbol's value \<open>target\<close> and every load address \<open>base\<close>, followed by \<open>nop\<close>s to the end of the site.
  For the four diagnostic hooks it is a \<open>jmp\<close> to \<open>target\<close> itself, without a relocation: it reaches the hook
  only in a kernel bound at address 0.
\<close>

theorem branches_land:
  "island_run 0x5960e btwalk_OLD ''bt_frame_ok'' btwalk_main b
   \<and> island_run 0x4a inituser_OLD ''ini_user_rte'' inituser_main b
   \<and> detour_run 0x489c2 [0x4e, 0x56, 0x00, 0x00, 0x48, 0xe7, 0x20, 0x20] ''setrun_hook'' setrun_main b
   \<and> detour_run 0x46e94 [0x4e, 0x56, 0xff, 0xe0, 0x48, 0xe7, 0x3c, 0x30] ''sched_hook'' sched_main b
   \<and> detour_run 0xb926e [0x4e, 0x56, 0xff, 0xf8, 0x48, 0xe7, 0x3c, 0x30] ''setbackdq_hook'' setbackdq_main b
   \<and> detour_run 0xba936 [0x4e, 0x56, 0x00, 0x00, 0x2f, 0x2e, 0x00, 0x08] ''sys_forkret_hook'' sys_forkret_main b"
  unfolding btwalk_main_def inituser_main_def setrun_main_def sched_main_def setbackdq_main_def sys_forkret_main_def
  by (intro conjI island_outcome detour_outcome) (simp_all add: btwalk_OLD_def inituser_OLD_def)

end
