(* ===== verification/Data_Words.thy ===== *)
theory Data_Words
  imports Device_Edits
begin

text \<open>
  The scripts that set a word of \<open>.data\<close>: \<open>patch_b2_flip\<close> (\<open>hat_cm_ram\<close>), \<open>patch_btrace_on\<close>,
  \<open>patch_framesz060\<close>, and the two that read their own write back, \<open>patch_z3660_cache\<close> and
  \<open>stamp-cputype\<close>.
\<close>

subsection \<open>Symbols by their bytes\<close>

text \<open>The first symbol whose name has these bytes; nothing is decoded.\<close>

fun byte_sym :: "byte list \<Rightarrow> symtables \<Rightarrow> byte list \<Rightarrow> int list \<Rightarrow> exn + int option" where
  "byte_sym b t name [] = Inr None"
| "byte_sym b t name (i # is) = bind_e (u32 b (sym_row t i)) (\<lambda>n. bind_e (cstr b (s_offset (y_str t) + n)) (\<lambda>s.
     if s = name then Inr (Some i) else byte_sym b t name is))"

text \<open>The offset of the value \<open>val\<close> in the file, for a section at file offset \<open>off\<close> and address \<open>addr\<close>.\<close>

definition data_pos :: "int \<Rightarrow> int \<Rightarrow> int \<Rightarrow> int" where
  "data_pos off addr val = off + (val - addr)"

subsection \<open>patch_b2_flip\<close>

text \<open>
  The word of \<open>hat_cm_ram\<close>: its file position and content, which must be write-through (0) or copyback (32).
\<close>

definition b2_word :: "byte list \<Rightarrow> exn + int \<times> int" where
  "b2_word b = bind_e (open_elf b) (\<lambda>(sh, d). bind_e (dict_get ''.data'' d) (\<lambda>data. bind_e (dict_get ''.symtab'' d) (\<lambda>st.
     bind_e (strings_of sh st) (\<lambda>t. bind_e (nsyms t) (\<lambda>sn.
     bind_e (byte_sym b t (ascii ''hat_cm_ram'') (py_range sn)) (\<lambda>r. case r of
       None \<Rightarrow> Inl (SystemExit ''ABORT: hat_cm_ram symbol not found'')
     | Some i \<Rightarrow> bind_e (symvalue b t i) (\<lambda>val. bind_e (section_addr b ''.data'') (\<lambda>addr.
         let p = data_pos (s_offset data) addr val in
         bind_e (u32 b p) (\<lambda>cur. bind_e (must (cur \<in> {0, 32}) ''ABORT: hat_cm_ram holds another value'') (\<lambda>_.
         Inr (p, cur)))))))))))"

text \<open>\<open><image> --check\<close> prints the mode; \<open><in> <out> [--wt]\<close> writes the second file.\<close>

definition b2_check :: "byte list \<Rightarrow> exn + int" where
  "b2_check b = bind_e (b2_word b) (\<lambda>(p, cur). Inr cur)"

definition b2_flip :: "int \<Rightarrow> byte list \<Rightarrow> exn + byte list" where
  "b2_flip want b = bind_e (b2_word b) (\<lambda>(p, cur). if cur = want then Inr b else pack_into_I b p want)"

subsection \<open>patch_btrace_on\<close>

definition btrace_word :: "string \<Rightarrow> byte list \<Rightarrow> exn + int" where
  "btrace_word flag b = bind_e (open_elf b) (\<lambda>(sh, d). bind_e (dict_get ''.symtab'' d) (\<lambda>st.
     bind_e (strings_of sh st) (\<lambda>t. bind_e (dict_get ''.data'' d) (\<lambda>data. bind_e (nsyms t) (\<lambda>sn.
     bind_e (byte_sym b t (ascii flag) (py_range sn)) (\<lambda>r. case r of
       None \<Rightarrow> Inl (SystemExit ''ABORT: symbol not found'')
     | Some i \<Rightarrow> bind_e (symvalue b t i) (\<lambda>val. bind_e (symshndx b t i) (\<lambda>shndx.
         bind_e (must (first_pos (\<lambda>s. s = data) sh = Some (nat shndx)) ''ABORT: shndx != .data'') (\<lambda>_.
         Inr (s_offset data + val))))))))))"

definition btrace_flag :: "string \<Rightarrow> bool script" where
  "btrace_flag flag b = write_back b (bind_e (btrace_word flag b) (\<lambda>p. bind_e (u32 b p) (\<lambda>cur.
     if cur = 1 then Inr (b, False)
     else bind_e (must (cur = 0) ''ABORT: expected 0 (or 1)'') (\<lambda>_.
       bind_e (pack_into_I b p 1) (\<lambda>b'. Inr (b', True))))))"

text \<open>The flags one after the other: each is a run of its own on the file.\<close>

fun btrace_flags :: "string list \<Rightarrow> bool list script" where
  "btrace_flags [] b = (b, Inr [])"
| "btrace_flags (f # fs) b = (case btrace_flag f b of
     (b1, Inl e) \<Rightarrow> (b1, Inl e)
   | (b1, Inr w) \<Rightarrow> (case btrace_flags fs b1 of (b2, r) \<Rightarrow> (b2, map_sum id ((#) w) r)))"

definition btrace_main :: "bool list script" where
  "btrace_main = btrace_flags [''btrace_on'', ''kdbg_on'']"

subsection \<open>patch_framesz060\<close>

text \<open>A section header as ten words.\<close>

definition shdr10 :: "byte list \<Rightarrow> int \<Rightarrow> exn + int list" where
  "shdr10 b o' = map_e (\<lambda>k. u32 b (o' + 4 * k)) (py_range 10)"

fun data_offset_loop :: "byte list \<Rightarrow> int \<Rightarrow> int \<Rightarrow> int \<Rightarrow> int list \<Rightarrow> exn + int option" where
  "data_offset_loop b shoff ent stroff [] = Inr None"
| "data_offset_loop b shoff ent stroff (i # is) = bind_e (shdr10 b (shoff + i * ent)) (\<lambda>h.
     bind_e (utf8_at b (stroff + h ! 0)) (\<lambda>name.
     if name = ''.data'' then Inr (Some (h ! 4)) else data_offset_loop b shoff ent stroff is))"

text \<open>The result is the byte that was there.\<close>

definition framesz060_main :: "int script" where
  "framesz060_main b = write_back b
     (bind_e (u32 b 0x20) (\<lambda>shoff. bind_e (u16 b 0x2e) (\<lambda>ent. bind_e (u16 b 0x30) (\<lambda>n. bind_e (u16 b 0x32) (\<lambda>st.
      bind_e (shdr10 b (shoff + st * ent)) (\<lambda>h.
      bind_e (data_offset_loop b shoff ent (h ! 4) (py_range n)) (\<lambda>r. case r of
        None \<Rightarrow> Inl (SystemExit ''FAIL: no .data section'')
      | Some off \<Rightarrow> let p = off + 0x72ac; tbl = slice b p (p + 16) in
          bind_e (byte_at tbl 0) (\<lambda>f0. bind_e (if f0 = 8 then byte_at tbl 1 else Inr 0) (\<lambda>f1.
          bind_e (if f0 = 8 \<and> f1 = 8 then byte_at tbl 7 else Inr 0) (\<lambda>f7.
          bind_e (must (f0 = 8 \<and> f1 = 8 \<and> f7 = 60) ''FAIL: framesz signature mismatch'') (\<lambda>_.
          bind_e (byte_at tbl 4) (\<lambda>old. bind_e (must (old \<in> {0, 16}) ''FAIL: framesz[4]'') (\<lambda>_.
          Inr (overwrite (nat (p + 4)) [16] b, old))))))))))))))"

subsection \<open>patch_z3660_cache\<close>

text \<open>Every symbol with a name: name, value, section index.\<close>

definition named_row :: "byte list \<Rightarrow> symtables \<Rightarrow> int \<Rightarrow> exn + (string \<times> int \<times> int) list" where
  "named_row b t i = bind_e (u32 b (sym_row t i)) (\<lambda>n. bind_e (cstr b (s_offset (y_str t) + n)) (\<lambda>s.
     if s = [] then Inr [] else bind_e (symvalue b t i) (\<lambda>v. bind_e (symshndx b t i) (\<lambda>x.
       Inr [(decode_latin1 s, v, x)]))))"

definition named_syms :: "byte list \<Rightarrow> symtables \<Rightarrow> int \<Rightarrow> exn + (string \<times> int \<times> int) list" where
  "named_syms b t n = bind_e (map_e (named_row b t) (py_range n)) (\<lambda>rows. Inr (concat rows))"

definition defs_of :: "string \<Rightarrow> (string \<times> int \<times> int) list \<Rightarrow> (int \<times> int) list" where
  "defs_of name syms = map snd (filter (\<lambda>s. fst s = name) syms)"

text \<open>The one definition of a name; then the one in \<open>.data\<close>.\<close>

definition single_def :: "(string \<times> int \<times> int) list \<Rightarrow> string \<Rightarrow> exn + int \<times> int" where
  "single_def syms name = (case defs_of name syms of
     [] \<Rightarrow> Inl (SystemExit ''ABORT: is not defined'')
   | [x] \<Rightarrow> Inr x
   | _ \<Rightarrow> Inl (SystemExit ''ABORT: more than one definition''))"

definition in_data :: "int \<Rightarrow> int \<times> int \<Rightarrow> exn + unit" where
  "in_data data_idx x = bind_e (must (snd x \<noteq> 0xfff2) ''ABORT: still COMMON'') (\<lambda>_.
     must (snd x = data_idx) ''ABORT: in another section'')"

definition elf_magic :: "byte list" where
  "elf_magic = [0x7f, 0x45, 0x4c, 0x46]"

text \<open>The file positions of \<open>z3660_cache\<close> and \<open>zc_armed\<close> and their common value.\<close>

definition zc_words :: "byte list \<Rightarrow> exn + int \<times> int \<times> int" where
  "zc_words b = bind_e (must (slice b 0 4 = elf_magic) ''ABORT: not ELF'') (\<lambda>_.
     bind_e (section_table b) (\<lambda>(sh, shstr). bind_e (map_e (sec_name b shstr) sh) (\<lambda>names.
     bind_e (name_index names ''.data'') (\<lambda>data_idx. let sec = py_dict (zip names sh) in
     bind_e (dict_get ''.data'' sec) (\<lambda>data. bind_e (dict_get ''.symtab'' sec) (\<lambda>st.
     bind_e (strings_of sh st) (\<lambda>t. bind_e (nsyms t) (\<lambda>sn. bind_e (named_syms b t sn) (\<lambda>syms.
     bind_e (single_def syms ''zc_magic'') (\<lambda>m. bind_e (single_def syms ''z3660_cache'') (\<lambda>c.
     bind_e (single_def syms ''zc_armed'') (\<lambda>a.
     bind_e (in_data data_idx m) (\<lambda>_. bind_e (in_data data_idx c) (\<lambda>_. bind_e (in_data data_idx a) (\<lambda>_.
     bind_e (must (defs_of ''z3660queue'' syms \<noteq> []) ''ABORT: z3660queue is not defined'') (\<lambda>_.
     bind_e (must (fst c = fst m + 4 \<and> fst a = fst m + 8) ''ABORT: block layout'') (\<lambda>_.
     bind_e (section_addr b ''.data'') (\<lambda>addr. let foff = data_pos (s_offset data) addr in
     bind_e (u32 b (foff (fst m))) (\<lambda>magic. bind_e (must (magic = 0x5a434121) ''ABORT: zc_magic'') (\<lambda>_.
     bind_e (u32 b (foff (fst c))) (\<lambda>cur. bind_e (u32 b (foff (fst a))) (\<lambda>armed.
     bind_e (must (cur \<in> {0, 40, 60} \<and> armed \<in> {0, 40, 60}) ''ABORT: unexpected values'') (\<lambda>_.
     bind_e (must (cur = armed) ''ABORT: z3660_cache and its witness disagree'') (\<lambda>_.
     Inr (foff (fst c), foff (fst a), cur)))))))))))))))))))))))))"

text \<open>
  The second look: the file that was written has the old size, differs at no other place than the words,
  and holds the new value.
\<close>

definition stray :: "byte list \<Rightarrow> byte list \<Rightarrow> int list \<Rightarrow> nat list" where
  "stray b b' ps = filter (\<lambda>i. b ! i \<noteq> b' ! i \<and> \<not> (\<exists>p \<in> set ps. p \<le> int i \<and> int i < p + 4)) [0..<length b']"

definition look_again :: "byte list \<Rightarrow> byte list \<Rightarrow> int list \<Rightarrow> int \<Rightarrow> exn + unit" where
  "look_again b b' ps want = bind_e (must (length b' = length b) ''ABORT: size changed'') (\<lambda>_.
     bind_e (must (stray b b' ps = []) ''ABORT: byte(s) changed outside the words'') (\<lambda>_.
     bind_e (map_e (\<lambda>p. bind_e (u32 b' p) (\<lambda>v. must (v = want) ''ABORT: read-back'')) ps) (\<lambda>_. Inr ())))"

text \<open>Once the file is written, a failing second look leaves it written.\<close>

definition write_then_look :: "byte list \<Rightarrow> byte list \<Rightarrow> int list \<Rightarrow> int \<Rightarrow> byte list \<times> (exn + bool)" where
  "write_then_look b b' ps want = (b', bind_e (look_again b b' ps want) (\<lambda>_. Inr True))"

text \<open>\<open>--set <0|40|60>\<close>; the result is whether the script wrote.\<close>

definition z3660_cache_set :: "int \<Rightarrow> bool script" where
  "z3660_cache_set want b = (case bind_e (zc_words b) (\<lambda>(pc, pa, cur).
      if cur = want then Inr None
      else bind_e (pack_into_I b pc want) (\<lambda>b1. bind_e (pack_into_I b1 pa want) (\<lambda>b2. Inr (Some (b2, [pc, pa]))))) of
     Inl e \<Rightarrow> (b, Inl e)
   | Inr None \<Rightarrow> (b, Inr False)
   | Inr (Some (b', ps)) \<Rightarrow> write_then_look b b' ps want)"

definition z3660_cache_main :: "int option \<Rightarrow> bool script" where
  "z3660_cache_main want b = (case want of
     None \<Rightarrow> (b, bind_e (zc_words b) (\<lambda>_. Inr False))
   | Some w \<Rightarrow> if w \<in> {0, 40, 60} then z3660_cache_set w b else (b, Inl (SystemExit ''--set must be one of'')))"

subsection \<open>stamp-cputype\<close>

definition header_rows :: "byte list \<Rightarrow> int \<Rightarrow> int \<Rightarrow> int \<Rightarrow> byte list list" where
  "header_rows b shoff ent n = map (\<lambda>i. slice b (shoff + i * ent) (shoff + (i + 1) * ent)) (py_range n)"

definition row_name :: "byte list \<Rightarrow> int \<Rightarrow> byte list \<Rightarrow> exn + string" where
  "row_name b shstr row = bind_e (u32 row 0) (\<lambda>n. utf8_at b (shstr + n))"

definition cpu_row :: "byte list \<Rightarrow> int \<Rightarrow> int \<Rightarrow> int \<Rightarrow> int \<Rightarrow> exn + (string \<times> int \<times> int) list" where
  "cpu_row b off ent stroff i = (let o' = off + i * ent in
     bind_e (u32 b o') (\<lambda>n. bind_e (cstr b (stroff + n)) (\<lambda>s.
     if decode_latin1 s \<in> {''cputype'', ''pcr_boot''} then
       bind_e (u32 b (o' + 4)) (\<lambda>v. bind_e (u16 b (o' + 14)) (\<lambda>x. Inr [(decode_latin1 s, v, x)]))
     else Inr [])))"

definition data_def :: "(string \<times> int \<times> int) list \<Rightarrow> int \<Rightarrow> string \<Rightarrow> exn + int" where
  "data_def found data_idx name = bind_e (single_def found name) (\<lambda>x.
     bind_e (must (snd x = data_idx) ''ABORT: is not in .data'') (\<lambda>_. Inr (fst x)))"

text \<open>The file position and the content of \<open>cputype\<close>.\<close>

definition cputype_word :: "byte list \<Rightarrow> exn + int \<times> int" where
  "cputype_word b = bind_e (must (slice b 0 4 = elf_magic) ''ABORT: not ELF'') (\<lambda>_.
     bind_e (u16 b 16) (\<lambda>ty. bind_e (must (ty = 1) ''ABORT: not ET_REL'') (\<lambda>_.
     bind_e (u32 b 32) (\<lambda>shoff. bind_e (u16 b 46) (\<lambda>ent. bind_e (u16 b 48) (\<lambda>n. bind_e (u16 b 50) (\<lambda>st.
     let sh = header_rows b shoff ent n in
     bind_e (py_nth sh st) (\<lambda>srow. bind_e (u32 srow 16) (\<lambda>shstr. bind_e (map_e (row_name b shstr) sh) (\<lambda>names.
     bind_e (name_index names ''.data'') (\<lambda>data_idx. let drow = sh ! nat data_idx in
     bind_e (u32 drow 12) (\<lambda>addr. bind_e (u32 drow 16) (\<lambda>off.
     bind_e (name_index names ''.symtab'') (\<lambda>k. let yrow = sh ! nat k in
     bind_e (u32 yrow 16) (\<lambda>sy_off. bind_e (u32 yrow 20) (\<lambda>sy_size. bind_e (u32 yrow 24) (\<lambda>sy_link.
     bind_e (u32 yrow 36) (\<lambda>sy_ent. bind_e (py_nth sh sy_link) (\<lambda>trow. bind_e (u32 trow 16) (\<lambda>str_off.
     bind_e (py_div sy_size sy_ent) (\<lambda>sn.
     bind_e (map_e (cpu_row b sy_off sy_ent str_off) (py_range sn)) (\<lambda>rows. let found = concat rows in
     bind_e (data_def found data_idx ''cputype'') (\<lambda>a_cpu. bind_e (data_def found data_idx ''pcr_boot'') (\<lambda>a_pcr.
     bind_e (u32 b (data_pos off addr a_cpu)) (\<lambda>cur. bind_e (u32 b (data_pos off addr a_pcr)) (\<lambda>pcr.
     bind_e (must (cur \<in> {40, 60}) ''ABORT: cputype holds another value'') (\<lambda>_.
     bind_e (must (pcr = 0xffffffff) ''ABORT: pcr_boot is not the sentinel'') (\<lambda>_.
     Inr (data_pos off addr a_cpu, cur)))))))))))))))))))))))))))))"

text \<open>\<open><in> <out> --set <40|60>\<close>: what is written to the second file, if anything, and the outcome.\<close>

definition cputype_set :: "int \<Rightarrow> byte list \<Rightarrow> byte list option \<times> (exn + bool)" where
  "cputype_set want b = (case bind_e (must (want \<in> {40, 60}) ''stamp-cputype: --set must be 40 or 60'') (\<lambda>_.
      bind_e (cputype_word b) (\<lambda>(p, cur). bind_e (pack_into_I b p want) (\<lambda>b'. Inr (b', p)))) of
     Inl e \<Rightarrow> (None, Inl e)
   | Inr (b', p) \<Rightarrow> (Some b', snd (write_then_look b b' [p] want)))"

subsection \<open>Writing a word that was read\<close>

lemma byte_digit: "0 \<le> d \<Longrightarrow> d < 256 \<Longrightarrow> (k * 256 + d) div 256 = k \<and> (k * 256 + d) mod 256 = d" for d :: int
  by (intro conjI; simp)

lemma pack_unpack_I:
  assumes "unpack_I s = Inr x" shows "pack_I x = Inr s"
proof -
  obtain a b c d where s: "s = [a, b, c, d]" and x: "x = ((uint a * 256 + uint b) * 256 + uint c) * 256 + uint d"
    using assms by (auto simp: unpack_I_def split: list.splits)
  have w: "(word_of_int k :: byte) = v" if "k mod 256 = uint v" for k and v :: byte
    using that by (simp add: word_uint_eq_iff uint_word_of_int)
  note h = byte_digit [OF uint_byte_bounds [of d], of "(uint a * 256 + uint b) * 256 + uint c"]
    byte_digit [OF uint_byte_bounds [of c], of "uint a * 256 + uint b"]
    byte_digit [OF uint_byte_bounds [of b], of "uint a"] byte_digit [OF uint_byte_bounds [of a], of 0]
  have "x div 65536 = x div 256 div 256" "x div 16777216 = x div 256 div 256 div 256"
    by (simp_all add: zdiv_zmult2_eq [of _ x, symmetric])
  then have "x div 256 = (uint a * 256 + uint b) * 256 + uint c" "x div 65536 = uint a * 256 + uint b"
    "x div 16777216 = uint a" "x mod 256 = uint d"
    using h unfolding x by simp_all
  then have "x div 16777216 mod 256 = uint a" "x div 65536 mod 256 = uint b" "x div 256 mod 256 = uint c"
    "x mod 256 = uint d" using h by simp_all
  from this [THEN w] show ?thesis using unpack_I_bounds [OF assms] unfolding s by (simp add: pack_I_def)
qed

text \<open>Where a word lies that can be read at \<open>p\<close>: a negative position counts from the end of the file.\<close>

lemma word_pos:
  assumes "u32 b p = Inr x"
  shows "int (clip (length b) p) = (if p < 0 then int (length b) + p else p)" "clip (length b) p + 4 \<le> length b"
    and "slice b p (p + 4) = sub (clip (length b) p) 4 b" "length (slice b p (p + 4)) = 4" "p < 0 \<Longrightarrow> p + 4 < 0"
proof -
  have l4: "length (slice b p (p + int 4)) = 4"
    using assms(1) by (auto simp: u32_def unpack_I_def split: list.splits)
  then show "length (slice b p (p + 4)) = 4" by simp
  show "clip (length b) p + 4 \<le> length b" "slice b p (p + 4) = sub (clip (length b) p) 4 b"
    using slice_full [OF l4] by simp_all
  show "int (clip (length b) p) = (if p < 0 then int (length b) + p else p)" "p < 0 \<Longrightarrow> p + 4 < 0"
    using l4 by (auto simp: slice_def clip_def Let_def min_def max_def split: if_splits)
qed

lemma pack_into_ok: "u32 b p = Inr x \<Longrightarrow> 0 \<le> v \<Longrightarrow> v < 4294967296 \<Longrightarrow> \<exists>b'. pack_into_I b p v = Inr b'"
  using word_pos [of b p x] by (auto simp: pack_into_I_def pack_I_def Let_def split: if_splits)

lemma set_word:
  assumes "u32 b p = Inr x" "pack_into_I b p v = Inr b'"
  shows "u32 b' p = Inr v" and "length b' = length b"
    and "changed b b' {clip (length b) p..<clip (length b) p + 4}" and "pack_into_I b' p x = Inr b"
proof -
  let ?q = "clip (length b) p"
  note q = word_pos [OF assms(1)]
  obtain w where w: "pack_I v = Inr w" "b' = overwrite ?q w b"
    using assms(2) by (auto simp: pack_into_I_def Let_def clip_def split: if_splits)
  have lw: "length w = 4" by (rule pack_I_length [OF w(1)])
  show len: "length b' = length b" using q(2) lw by (simp add: w(2))
  have l4': "length (slice b' p (p + int 4)) = 4" using q(4) len by (simp add: slice_def Let_def)
  have s': "slice b' p (p + 4) = sub ?q 4 b'" using slice_full(2) [OF l4'] len by simp
  then have "slice b' p (p + 4) = w" using sub_overwrite_same [of ?q w b] q(2) lw by (simp add: w(2))
  then show u': "u32 b' p = Inr v" using unpack_pack_I [OF w(1)] by (simp add: u32_def)
  show "changed b b' {?q..<?q + 4}" unfolding w(2) by (rule changed_overwrite [OF lw q(2)])
  have x: "pack_I x = Inr (sub ?q 4 b)" using pack_unpack_I assms(1) q(3) by (simp add: u32_def)
  obtain b2 where b2: "pack_into_I b' p x = Inr b2"
    using pack_into_ok [OF u'] u32_bounds [OF assms(1)] by blast
  then have "b2 = overwrite ?q (sub ?q 4 b) b'"
    using x by (auto simp: pack_into_I_def Let_def clip_def len split: if_splits)
  also have "\<dots> = b" using q(2) lw by (intro nth_equalityI) (auto simp: nth_overwrite length_sub nth_sub w(2))
  finally show "pack_into_I b' p x = Inr b" using b2 by simp
qed

lemma u32_unchanged:
  assumes "changed b b' {p..<p + n}" "u32 b r = Inr y" "clip (length b) r + 4 \<le> p \<or> p + n \<le> clip (length b) r"
  shows "u32 b' r = Inr y"
proof -
  let ?q = "clip (length b) r"
  note q = word_pos [OF assms(2)]
  have same: "b' ! i = b ! i" if "i < length b" "i < p \<or> p + n \<le> i" for i
    using assms(1) that by (auto simp: changed_def)
  have l: "length b' = length b" using assms(1) by (simp add: changed_def)
  have "length (slice b' r (r + int 4)) = 4" using q(4) l by (simp add: slice_def Let_def)
  then have "slice b' r (r + 4) = sub ?q 4 b'" using slice_full(2) [of b' r 4] l by simp
  also have "sub ?q 4 b' = sub ?q 4 b"
    using q(2) l assms(3) by (intro nth_equalityI) (auto simp: length_sub nth_sub intro!: same)
  finally show ?thesis using q(3) assms(2) by (simp add: u32_def)
qed

lemma same_word:
  assumes "u32 b p = Inr x" shows "pack_into_I b p x = Inr b"
proof -
  note q = word_pos [OF assms]
  have w: "pack_I x = Inr (sub (clip (length b) p) 4 b)" using pack_unpack_I assms q(3) by (simp add: u32_def)
  obtain b2 where b2: "pack_into_I b p x = Inr b2" using pack_into_ok [OF assms] u32_bounds [OF assms] by blast
  then have "b2 = overwrite (clip (length b) p) (sub (clip (length b) p) 4 b) b"
    using w by (auto simp: pack_into_I_def Let_def clip_def split: if_splits)
  then show ?thesis using b2 q(2) by (simp add: overwrite_sub)
qed

text \<open>Two words, one after the other.\<close>

lemma set_two_words:
  assumes "u32 b p = Inr x" "u32 b (p + 4) = Inr y" "0 \<le> v" "v < 4294967296"
  obtains b1 b2 where "pack_into_I b p v = Inr b1" "pack_into_I b1 (p + 4) v = Inr b2"
    "u32 b2 p = Inr v" "u32 b2 (p + 4) = Inr v" "changed b b2 {clip (length b) p..<clip (length b) p + 8}"
proof -
  let ?q = "clip (length b) p"
  note q = word_pos [OF assms(1)] and q' = word_pos [OF assms(2)]
  have next_word: "clip (length b) (p + 4) = ?q + 4" using q(1,5) q'(1) by (cases "p < 0") auto
  obtain b1 where b1: "pack_into_I b p v = Inr b1" using pack_into_ok [OF assms(1,3,4)] by blast
  note w = set_word [OF assms(1) b1]
  have y: "u32 b1 (p + 4) = Inr y" using next_word by (intro u32_unchanged [OF w(3) assms(2)]) simp
  obtain b2 where b2: "pack_into_I b1 (p + 4) v = Inr b2" using pack_into_ok [OF y assms(3,4)] by blast
  note w2 = set_word [OF y b2]
  have c2: "changed b1 b2 {?q + 4..<?q + 4 + 4}" using w2(3) w(2) next_word by simp
  have "u32 b2 p = Inr v" using w(2) by (intro u32_unchanged [OF c2 w(1)]) simp
  moreover have "changed b b2 {?q..<?q + 8}"
    by (rule changed_mono [OF changed_step [OF w(3) c2]]) auto
  ultimately show thesis using that [OF b1 b2] w2(1) by simp
qed

subsection \<open>The second look\<close>

lemma stray_empty:
  assumes "changed b b' {p..<p + n}" "\<And>i. p \<le> i \<Longrightarrow> i < p + n \<Longrightarrow> \<exists>k \<in> set ps. k \<le> int i \<and> int i < k + 4"
  shows "stray b b' ps = []"
proof -
  have "\<exists>k \<in> set ps. k \<le> int i \<and> int i < k + 4" if "i < length b'" "b ! i \<noteq> b' ! i" for i
    using assms(1) that by (intro assms(2)) (auto simp: changed_def)
  then have "\<forall>i \<in> set [0..<length b']. \<not> (b ! i \<noteq> b' ! i \<and> \<not> (\<exists>p \<in> set ps. p \<le> int i \<and> int i < p + 4))" by force
  then show ?thesis unfolding stray_def filter_empty_conv .
qed

lemma stray_full:
  assumes "length b' = length b" "b' \<noteq> b" "\<forall>k \<in> set ps. k + 4 \<le> 0"
  shows "stray b b' ps \<noteq> []"
proof -
  obtain i where "i < length b'" "b ! i \<noteq> b' ! i" using assms(1,2) by (metis nth_equalityI)
  moreover have "\<not> (\<exists>k \<in> set ps. k \<le> int i \<and> int i < k + 4)" using assms(3) by fastforce
  ultimately have "i \<in> set (stray b b' ps)" by (simp add: stray_def)
  then show ?thesis by auto
qed

lemma look_again_ok:
  assumes "length b' = length b" "stray b b' ps = []" "\<forall>k \<in> set ps. u32 b' k = Inr v"
  shows "look_again b b' ps v = Inr ()"
proof -
  have "map_e (\<lambda>p. bind_e (u32 b' p) (\<lambda>x. must (x = v) ''ABORT: read-back'')) ps = Inr (map (\<lambda>_. ()) ps)"
    using assms(3) by (induction ps) (auto simp: must_def)
  then show ?thesis using assms(1,2) by (simp add: look_again_def must_def)
qed

text \<open>A word at a position from the end is written, and then found outside the places allowed.\<close>

lemma look_again_stray:
  assumes "length b' = length b" "b' \<noteq> b" "\<forall>k \<in> set ps. k + 4 \<le> 0"
  shows "look_again b b' ps v = Inl (SystemExit ''ABORT: byte(s) changed outside the words'')"
  using assms(1) stray_full [OF assms] by (simp add: look_again_def must_def)

lemma zc_words_Inr:
  assumes "zc_words b = Inr (pc, pa, cur)"
  shows "pa = pc + 4 \<and> u32 b pc = Inr cur \<and> u32 b pa = Inr cur \<and> cur \<in> {0, 40, 60}"
  using assms unfolding zc_words_def
  by (auto simp: data_pos_def Let_def split: prod.splits)

lemma z3660_cache_write:
  assumes z: "zc_words b = Inr (pc, pa, cur)" and v: "v \<noteq> cur" "0 \<le> v" "v < 4294967296"
  obtains b' where "z3660_cache_set v b = (b', if 0 \<le> pc then Inr True
      else Inl (SystemExit ''ABORT: byte(s) changed outside the words''))"
    "u32 b' pc = Inr v" "u32 b' pa = Inr v" "changed b b' {clip (length b) pc..<clip (length b) pc + 8}"
proof -
  have p: "pa = pc + 4" "u32 b pc = Inr cur" "u32 b (pc + 4) = Inr cur" using zc_words_Inr [OF z] by auto
  obtain b1 b2 where w: "pack_into_I b pc v = Inr b1" "pack_into_I b1 (pc + 4) v = Inr b2" "u32 b2 pc = Inr v"
    "u32 b2 (pc + 4) = Inr v" "changed b b2 {clip (length b) pc..<clip (length b) pc + 8}"
    by (rule set_two_words [OF p(2,3) v(2,3)])
  have l: "length b2 = length b" using w(5) by (simp add: changed_def)
  have run: "z3660_cache_set v b = (b2, bind_e (look_again b b2 [pc, pa] v) (\<lambda>_. Inr True))"
    using z v(1) w(1,2) by (simp add: z3660_cache_set_def write_then_look_def p(1))
  have "look_again b b2 [pc, pa] v = (if 0 \<le> pc then Inr () else Inl (SystemExit ''ABORT: byte(s) changed outside the words''))"
  proof (cases "0 \<le> pc")
    case True
    have "stray b b2 [pc, pa] = []"
      using word_pos(1) [OF p(2)] True by (intro stray_empty [OF w(5)]) (auto simp: p(1))
    then show ?thesis using True l w(3,4) by (simp add: look_again_ok p(1))
  next
    case False
    have "b2 \<noteq> b" using w(3) p(2) v(1) by auto
    then show ?thesis using False word_pos(5) [OF p(2)] word_pos(5) [OF p(3)] l
      by (simp add: look_again_stray p(1))
  qed
  then show thesis using that [of b2] run w(3-5) p(1) by (auto split: if_splits)
qed

text \<open>
  C9: What \<open>patch_z3660_cache --set\<close> does on every image: an image it refuses is left alone; if the block
  holds the value already nothing is written; otherwise both words, which are adjacent, hold the value
  afterwards and no other byte differs, and the second look at the written file passes.  It fails, with
  the file written, exactly for a block whose position is negative (below the address of \<open>.data\<close>).
\<close>

theorem z3660_cache_exact:
  "case zc_words b of
     Inl e \<Rightarrow> z3660_cache_main (Some v) b = (b, Inl (if v \<in> {0, 40, 60} then e else SystemExit ''--set must be one of''))
   | Inr (pc, pa, cur) \<Rightarrow>
       if v \<notin> {0, 40, 60} then z3660_cache_main (Some v) b = (b, Inl (SystemExit ''--set must be one of''))
       else if v = cur then z3660_cache_main (Some v) b = (b, Inr False)
       else \<exists>b'. z3660_cache_main (Some v) b = (b', if 0 \<le> pc then Inr True
              else Inl (SystemExit ''ABORT: byte(s) changed outside the words''))
         \<and> u32 b' pc = Inr v \<and> u32 b' pa = Inr v \<and> pa = pc + 4
         \<and> changed b b' {clip (length b) pc..<clip (length b) pc + 8}"
proof (cases "zc_words b")
  case (Inl e)
  then show ?thesis by (simp add: z3660_cache_main_def z3660_cache_set_def)
next
  case (Inr z)
  obtain pc pa cur where z: "zc_words b = Inr (pc, pa, cur)" using Inr by (cases z) auto
  show ?thesis
  proof (cases "v \<in> {0, 40, 60} \<and> v \<noteq> cur")
    case True
    then have "0 \<le> v" "v < 4294967296" "v \<noteq> cur" by auto
    from z3660_cache_write [OF z this(3,1,2)] obtain b' where
      "z3660_cache_set v b = (b', if 0 \<le> pc then Inr True
        else Inl (SystemExit ''ABORT: byte(s) changed outside the words''))"
      "u32 b' pc = Inr v" "u32 b' pa = Inr v" "changed b b' {clip (length b) pc..<clip (length b) pc + 8}" by blast
    then show ?thesis using True z zc_words_Inr [OF z] by (simp add: z3660_cache_main_def)
  qed (use z in \<open>auto simp: z3660_cache_main_def z3660_cache_set_def\<close>)
qed

subsection \<open>The other words\<close>

lemma b2_word_Inr: "b2_word b = Inr (p, cur) \<Longrightarrow> u32 b p = Inr cur \<and> cur \<in> {0, 32}"
  by (auto simp: b2_word_def Let_def split: option.splits prod.splits)

lemma b2_flip_exact:
  assumes w: "b2_word b = Inr (p, cur)" and v: "0 \<le> v" "v < 4294967296"
  shows "\<exists>b'. b2_flip v b = Inr b' \<and> u32 b' p = Inr v \<and> changed b b' {clip (length b) p..<clip (length b) p + 4}
    \<and> pack_into_I b' p cur = Inr b"
proof -
  note u = b2_word_Inr [OF w, THEN conjunct1]
  obtain b' where b': "pack_into_I b p v = Inr b'" using pack_into_ok [OF u v] by blast
  have "b' = b" if "cur = v" using same_word [OF u] b' that by simp
  then show ?thesis using w b' set_word [OF u b'] by (auto simp: b2_flip_def)
qed

lemma cputype_word_Inr: "cputype_word b = Inr (p, cur) \<Longrightarrow> u32 b p = Inr cur"
  by (auto simp: cputype_word_def Let_def split: prod.splits)

lemma cputype_set_exact:
  assumes w: "cputype_word b = Inr (p, cur)" and v: "v \<in> {40, 60}"
  shows "\<exists>b'. cputype_set v b = (Some b', if 0 \<le> p \<or> v = cur then Inr True
      else Inl (SystemExit ''ABORT: byte(s) changed outside the words''))
    \<and> u32 b' p = Inr v \<and> changed b b' {clip (length b) p..<clip (length b) p + 4}"
proof -
  note u = cputype_word_Inr [OF w]
  have "0 \<le> v" "v < 4294967296" using v by auto
  then obtain b' where b': "pack_into_I b p v = Inr b'" using pack_into_ok [OF u] by blast
  note s = set_word [OF u b']
  have run: "cputype_set v b = (Some b', bind_e (look_again b b' [p] v) (\<lambda>_. Inr True))"
    using w v b' by (simp add: cputype_set_def write_then_look_def must_def)
  have "look_again b b' [p] v = (if 0 \<le> p \<or> v = cur then Inr () else Inl (SystemExit ''ABORT: byte(s) changed outside the words''))"
  proof (cases "0 \<le> p \<or> b' = b")
    case True
    have "stray b b' [p] = []"
    proof (cases "b' = b")
      case False
      then show ?thesis using True word_pos(1) [OF u] by (intro stray_empty [OF s(3)]) auto
    qed (simp add: stray_def)
    then have "look_again b b' [p] v = Inr ()" using s(1,2) by (simp add: look_again_ok)
    then show ?thesis using True s(1) u by auto
  next
    case False
    then have "v \<noteq> cur" using same_word [OF u] b' by auto
    then show ?thesis using False word_pos(5) [OF u] s(2) by (simp add: look_again_stray)
  qed
  then show ?thesis using run s(1,3) by (auto split: if_splits)
qed

lemma data_offset_nonneg:
  "data_offset_loop b shoff ent stroff is = Inr (Some off) \<Longrightarrow> 0 \<le> off"
proof (induction "is")
  case (Cons i "is")
  obtain h where h: "shdr10 b (shoff + i * ent) = Inr h"
    "off = h ! 4 \<or> data_offset_loop b shoff ent stroff is = Inr (Some off)"
    using Cons.prems by (auto split: if_splits)
  have "u32 b (shoff + i * ent + 4 * (py_range 10 ! 4)) = Inr (h ! 4)"
    using map_e_nth [OF h(1) [unfolded shdr10_def], of 4] by (simp add: py_range_def)
  then show ?case using h(2) Cons.IH u32_bounds by auto
qed simp

lemma byte_at_slice:
  assumes "byte_at (slice b p (p + int n)) (int k) = Inr x" "0 \<le> p"
  shows "nat p + k < length b"
  using assms by (auto simp: byte_at_def py_nth_def slice_def clip_def Let_def split: if_splits)

lemma framesz060_exact:
  assumes "framesz060_main b = (b', Inr old)"
  shows "\<exists>p. p < length b \<and> changed b b' {p} \<and> b' ! p = 16 \<and> old \<in> {0, 16}"
proof -
  obtain shoff ent n h off where o: "data_offset_loop b shoff ent (h ! 4) (py_range n) = Inr (Some off)"
    "byte_at (slice b (off + 0x72ac) (off + 0x72ac + 16)) 4 = Inr old" "old \<in> {0, 16}"
    "b' = overwrite (nat (off + 0x72ac + 4)) [16] b"
    using assms by (auto simp: framesz060_main_def write_back_Inr Let_def split: option.splits if_splits)
  have off: "0 \<le> off" by (rule data_offset_nonneg [OF o(1)])
  let ?p = "nat (off + 0x72ac + 4)"
  have p: "?p + 1 \<le> length b" using byte_at_slice [of b "off + 0x72ac" 16 4] o(2) off by simp
  have "changed b b' {?p}" using p by (auto simp: changed_def o(4) nth_overwrite)
  moreover have "b' ! ?p = 16" using p by (simp add: o(4) nth_overwrite)
  ultimately show ?thesis using p o(3) by (intro exI [of _ ?p]) simp
qed

lemma btrace_flag_exact:
  "case btrace_flag f b of (b', Inl e) \<Rightarrow> b' = b
   | (b', Inr w) \<Rightarrow> \<exists>p. btrace_word f b = Inr p \<and> u32 b p = Inr (if w then 0 else 1) \<and> u32 b' p = Inr 1
       \<and> changed b b' {clip (length b) p..<clip (length b) p + 4}"
proof (cases "btrace_flag f b")
  case (Pair b' r)
  show ?thesis
  proof (cases r)
    case (Inr w)
    obtain p cur where p: "btrace_word f b = Inr p" "u32 b p = Inr cur"
      "cur = 1 \<and> b' = b \<and> \<not> w \<or> cur = 0 \<and> pack_into_I b p 1 = Inr b' \<and> w"
      using Pair Inr by (auto simp: btrace_flag_def write_back_Inr split: if_splits)
    then show ?thesis using Pair Inr set_word [OF p(2)] by auto
  qed (use Pair in \<open>auto simp: btrace_flag_def write_back_def split: sum.splits\<close>)
qed

text \<open>
  The scripts that set one word of \<open>.data\<close>, on every image: \<open>patch_b2_flip\<close> leaves both modes writable,
  changes the four bytes of \<open>hat_cm_ram\<close> and nothing else, and writing the old mode back restores the file;
  \<open>stamp-cputype\<close> changes the four bytes of \<open>cputype\<close> and nothing else, and its second look passes unless the
  word is found at a negative position; a flag of \<open>patch_btrace_on\<close> is one afterwards and was zero or one, and
  a refused flag changes nothing.
\<close>

theorem data_words_exact:
  "(case b2_word b of Inl e \<Rightarrow> b2_flip mode b = Inl e
    | Inr (p, cur) \<Rightarrow> \<exists>b'. b2_flip (if wt then 0 else 32) b = Inr b' \<and> u32 b' p = Inr (if wt then 0 else 32)
        \<and> changed b b' {clip (length b) p..<clip (length b) p + 4} \<and> pack_into_I b' p cur = Inr b)
   \<and> (case cputype_word b of Inl e \<Rightarrow> fst (cputype_set v b) = None
      | Inr (p, cur) \<Rightarrow> if v \<notin> {40, 60} then fst (cputype_set v b) = None
          else \<exists>b'. cputype_set v b = (Some b', if 0 \<le> p \<or> v = cur then Inr True
              else Inl (SystemExit ''ABORT: byte(s) changed outside the words''))
            \<and> u32 b' p = Inr v \<and> changed b b' {clip (length b) p..<clip (length b) p + 4})
   \<and> (case btrace_flag f b of (b', Inl e) \<Rightarrow> b' = b
      | (b', Inr w) \<Rightarrow> \<exists>p. btrace_word f b = Inr p \<and> u32 b p = Inr (if w then 0 else 1) \<and> u32 b' p = Inr 1
          \<and> changed b b' {clip (length b) p..<clip (length b) p + 4})"
proof (intro conjI)
  show "case b2_word b of Inl e \<Rightarrow> b2_flip mode b = Inl e
    | Inr (p, cur) \<Rightarrow> \<exists>b'. b2_flip (if wt then 0 else 32) b = Inr b' \<and> u32 b' p = Inr (if wt then 0 else 32)
        \<and> changed b b' {clip (length b) p..<clip (length b) p + 4} \<and> pack_into_I b' p cur = Inr b"
  proof (cases "b2_word b")
    case (Inr x)
    then show ?thesis using b2_flip_exact [of b "fst x" "snd x" "if wt then 0 else 32"] by (cases x) simp
  qed (simp add: b2_flip_def)
  show "case cputype_word b of Inl e \<Rightarrow> fst (cputype_set v b) = None
      | Inr (p, cur) \<Rightarrow> if v \<notin> {40, 60} then fst (cputype_set v b) = None
          else \<exists>b'. cputype_set v b = (Some b', if 0 \<le> p \<or> v = cur then Inr True
              else Inl (SystemExit ''ABORT: byte(s) changed outside the words''))
            \<and> u32 b' p = Inr v \<and> changed b b' {clip (length b) p..<clip (length b) p + 4}"
  proof (cases "cputype_word b")
    case (Inl e)
    then show ?thesis by (cases "v \<in> {40, 60}") (simp_all add: cputype_set_def must_def)
  next
    case (Inr x)
    then show ?thesis using cputype_set_exact [of b "fst x" "snd x" v]
      by (cases x; cases "v \<in> {40, 60}") (simp_all add: cputype_set_def must_def)
  qed
qed (rule btrace_flag_exact)

end
