(* ===== verification/Check_Fp.thy ===== *)
theory Check_Fp
  imports Rewire Reloc_Fp Reloc_Example
begin

text \<open>
  The two checkers of the floating-point link: \<open>check_fpu_relocs\<close>, which pins the call sites of the FPU state,
  and \<open>check_fpe_relocs\<close>, which pins what the soft-FPU arm adds.  They read the finished image into three
  tables and collect what is wrong.  The scripts of \<open>Reloc_Fp\<close> are what they watch over.
\<close>

subsection \<open>Reading\<close>

text \<open>
  A symbol as (value, \<open>st_info\<close>, section index).  The scripts keep the first symbol of a name
  (\<open>setdefault\<close>), which is the one \<open>map_of\<close> finds in the list of all symbols.
\<close>

type_synonym csym = "string \<times> int \<times> int \<times> int"

definition check_sym :: "byte list \<Rightarrow> symtables \<Rightarrow> int \<Rightarrow> exn + csym" where
  "check_sym b t i = bind_e (symname b t i) (\<lambda>nm. bind_e (symvalue b t i) (\<lambda>v.
     bind_e (byte_at b (sym_row t i + 12)) (\<lambda>info. bind_e (symshndx b t i) (\<lambda>k. Inr (nm, v, info, k)))))"

definition check_syms :: "byte list \<Rightarrow> symtables \<Rightarrow> exn + csym list" where
  "check_syms b t = bind_e (nsyms t) (\<lambda>n. map_e (check_sym b t) (py_range n))"

text \<open>
  A relocation as (offset, symbol name, type, addend).  The scripts group them by offset; the first entry
  of a group is the one \<open>map_of\<close> finds in file order.
\<close>

type_synonym crel = "int \<times> string \<times> int \<times> int"

definition check_rel :: "byte list \<Rightarrow> symtables \<Rightarrow> shdr \<Rightarrow> int \<Rightarrow> exn + crel" where
  "check_rel b t s i = bind_e (u32 b (row_pos s i + 4)) (\<lambda>info. bind_e (i32 b (row_pos s i + 8)) (\<lambda>addend.
     bind_e (u32 b (row_pos s i)) (\<lambda>off. bind_e (symname b t (info div 256)) (\<lambda>nm. Inr (off, nm, info mod 256, addend)))))"

definition check_rels :: "byte list \<Rightarrow> symtables \<Rightarrow> (string \<times> shdr) list \<Rightarrow> string \<Rightarrow> exn + crel list" where
  "check_rels b t d sec = bind_e (dict_get sec d) (\<lambda>s. bind_e (nrels s) (\<lambda>n. map_e (check_rel b t s) (py_range n)))"

text \<open>The symbols and \<open>.rela.text\<close>, then \<open>.rela.data\<close>.\<close>

definition check_text :: "byte list \<Rightarrow> exn + (string \<times> shdr) list \<times> symtables \<times> csym list \<times> crel list" where
  "check_text b = bind_e (open_elf b) (\<lambda>(sh, d). bind_e (dict_get ''.symtab'' d) (\<lambda>st. bind_e (strings_of sh st) (\<lambda>t.
     bind_e (check_syms b t) (\<lambda>syms. bind_e (check_rels b t d ''.rela.text'') (\<lambda>rtext. Inr (d, t, syms, rtext))))))"

definition check_tables :: "byte list \<Rightarrow> exn + csym list \<times> crel list \<times> crel list" where
  "check_tables b = bind_e (check_text b) (\<lambda>(d, t, syms, rtext).
     bind_e (check_rels b t d ''.rela.data'') (\<lambda>rdata. Inr (syms, rtext, rdata)))"

subsection \<open>Single checks\<close>

definition complain :: "bool \<Rightarrow> string \<Rightarrow> string list" where
  "complain c msg = (if c then [msg] else [])"

text \<open>A flag is a global object.\<close>

definition flag_fails :: "csym list \<Rightarrow> string \<Rightarrow> string list" where
  "flag_fails syms name = (case map_of syms name of
     None \<Rightarrow> [name @ '' not found'']
   | Some (v, info, k) \<Rightarrow> complain (info \<noteq> 0x11) (name @ '' is not a global object''))"

text \<open>The pointer to the FPU state is initialised to \<open>u + 0x9c\<close>.\<close>

definition ptr_fails :: "csym list \<Rightarrow> crel list \<Rightarrow> string list" where
  "ptr_fails syms rdata = (case map_of syms ''fpu_ptr'' of
     None \<Rightarrow> [''fpu_ptr not found'']
   | Some (v, _) \<Rightarrow> (case map_of rdata v of
       Some (nm, ty, addend) \<Rightarrow> complain (nm \<noteq> ''u'' \<or> addend \<noteq> 0x9c) ''fpu_ptr initializer''
     | None \<Rightarrow> [''fpu_ptr initializer'']))"

text \<open>Exactly one relocation of \<open>.data\<close> names \<open>fpuinit\<close>, and it is the first word of \<open>init_tbl\<close>.\<close>

definition init_fails :: "csym list \<Rightarrow> crel list \<Rightarrow> string list" where
  "init_fails syms rdata = (case map_of syms ''init_tbl'' of
     None \<Rightarrow> [''init_tbl not found'']
   | Some (it, _) \<Rightarrow> let inits = filter (\<lambda>r. fst (snd r) = ''fpuinit'') rdata in
       if length (filter (\<lambda>r. fst r = it) inits) \<noteq> 1 then [''init_tbl+0 has no single relocation to fpuinit'']
       else complain (filter (\<lambda>r. fst r \<noteq> it) inits \<noteq> []) ''fpuinit is also reached from elsewhere'')"

text \<open>A slot of the vector table names the arm.\<close>

definition vector_fails :: "csym list \<Rightarrow> crel list \<Rightarrow> int \<Rightarrow> string \<Rightarrow> string list" where
  "vector_fails syms rtext vec new = (case (map_of syms ''M68Kvec'', map_of syms new) of
     (Some (base, _), Some _) \<Rightarrow> (case map_of rtext (base + vec * 4) of
         None \<Rightarrow> [''no .rela.text reloc at the vector'']
       | Some (nm, ty, _) \<Rightarrow> if nm \<noteq> new then [''the vector names another handler'']
           else complain (ty \<noteq> 1) ''the vector has another reloc type'')
   | _ \<Rightarrow> [''M68Kvec or the arm not found''])"

text \<open>The offsets of a range that carry a relocation, each once.\<close>

definition offsets_in :: "crel list \<Rightarrow> int \<Rightarrow> int \<Rightarrow> int list" where
  "offsets_in rtext lo hi = remdups (filter (\<lambda>o'. lo \<le> o' \<and> o' < hi) (map fst rtext))"

text \<open>The operand of a decline names a displaced handler and never an arm.\<close>

definition decline_fails :: "csym list \<Rightarrow> crel list \<Rightarrow> string \<Rightarrow> string list \<Rightarrow> string list \<Rightarrow> string list" where
  "decline_fails syms rtext decline arms allowed = (case map_of syms decline of
     None \<Rightarrow> [decline @ '' not found'']
   | Some (base, _) \<Rightarrow> (case offsets_in rtext base (base + 6) of
       [o'] \<Rightarrow> (case map_of rtext o' of
           Some (tgt, _) \<Rightarrow> if tgt \<in> set arms then [decline @ '' loops back into an arm'']
             else complain (tgt \<notin> set allowed) (decline @ '' names another handler'')
         | None \<Rightarrow> [])
     | _ \<Rightarrow> [decline @ '' carries not exactly one relocation'']))"

definition sigpend_fails :: "csym list \<Rightarrow> crel list \<Rightarrow> string list" where
  "sigpend_fails syms rtext = (case map_of syms ''fpe_sigpend'' of
     None \<Rightarrow> [''fpe_sigpend not found'']
   | Some (base, _) \<Rightarrow> (case offsets_in rtext base (base + 6) of
       [o'] \<Rightarrow> (case map_of rtext o' of
           Some (tgt, _, addend) \<Rightarrow> complain (tgt \<noteq> ''u'' \<or> addend \<noteq> 0x730) ''fpe_sigpend reads another word''
         | None \<Rightarrow> [])
     | _ \<Rightarrow> [''fpe_sigpend carries not exactly one relocation'']))"

subsection \<open>The checkers\<close>

definition two_flags_fails :: "csym list \<Rightarrow> string list" where
  "two_flags_fails syms = (case (map_of syms ''fpu_present'', map_of syms ''fpu_emul'') of
     (Some (v, _), Some (w, _)) \<Rightarrow> complain (v = w) ''fpu_present and fpu_emul are the SAME object''
   | _ \<Rightarrow> [])"

definition fpe_fails :: "csym list \<Rightarrow> crel list \<Rightarrow> crel list \<Rightarrow> string list" where
  "fpe_fails syms rtext rdata =
     flag_fails syms ''fpu_present'' @ flag_fails syms ''fpu_emul'' @ two_flags_fails syms
     @ ptr_fails syms rdata @ vector_fails syms rtext 11 ''fpe_vec11''
     @ decline_fails syms rtext ''fpe_decline'' [''fpe_vec11''] [''fpsp_vec11'', ''nullvect'']
     @ init_fails syms rdata @ sigpend_fails syms rtext @ vector_fails syms rtext 60 ''fpe_vec60''
     @ decline_fails syms rtext ''fpe_decline60'' [''fpe_vec60'', ''fpe_vec11''] [''fpsp_vec60'', ''nullvect'']"

definition verdict :: "string list \<Rightarrow> exn + unit" where
  "verdict fails = (if fails = [] then Inr () else Inl (SystemExit ''1''))"

definition check_fpe_main :: "byte list \<Rightarrow> exn + unit" where
  "check_fpe_main b = bind_e (check_tables b) (\<lambda>(syms, rtext, rdata). verdict (fpe_fails syms rtext rdata))"

definition fpu_SITES :: "(string \<times> int list) list" where
  "fpu_SITES = [(''fpu_save'', [0x041930, 0x058ea6, 0x058f8c, 0x0b7ffc, 0x0b920c]),
     (''fpu_restore'', [0x058ecc, 0x058fd0, 0x0b9060]), (''fpu_setup'', [0x019bd0, 0x058c34, 0x05921c])]"

definition SENDSIG_SITE :: int where
  "SENDSIG_SITE = 0x05921c"

definition site_fails :: "crel list \<Rightarrow> string \<Rightarrow> int \<Rightarrow> string list" where
  "site_fails rtext name off = (case map_of rtext off of
     None \<Rightarrow> [''no .rela.text reloc at the site''] | Some (nm, _) \<Rightarrow> complain (nm \<noteq> name) ''the site names another symbol'')"

definition fpu_sites :: "bool \<Rightarrow> string \<times> int list \<Rightarrow> int list" where
  "fpu_sites gated s = (if gated \<and> fst s = ''fpu_setup'' then filter (\<lambda>a. a \<noteq> SENDSIG_SITE) (snd s) else snd s)"

definition sendsig_fails :: "bool \<Rightarrow> crel list \<Rightarrow> string list" where
  "sendsig_fails gated rtext = (let tgt = map_option fst (map_of rtext SENDSIG_SITE) in
     complain (tgt \<noteq> Some (if gated then ''fpu_setup_gated'' else ''fpu_setup'')) ''sendsig+0x1f8'')"

definition fpu_fails :: "bool \<Rightarrow> csym list \<Rightarrow> crel list \<Rightarrow> crel list \<Rightarrow> string list" where
  "fpu_fails gated syms rtext rdata =
     concat (map (\<lambda>s. concat (map (site_fails rtext (fst s)) (fpu_sites gated s))) fpu_SITES)
     @ sendsig_fails gated rtext @ init_fails syms rdata @ ptr_fails syms rdata @ flag_fails syms ''fpu_present''"

definition check_fpu_main :: "bool \<Rightarrow> byte list \<Rightarrow> exn + unit" where
  "check_fpu_main gated b = bind_e (check_tables b) (\<lambda>(syms, rtext, rdata). verdict (fpu_fails gated syms rtext rdata))"

subsection \<open>The tables of a well-formed image\<close>

lemma i32_total: "0 \<le> i \<Longrightarrow> i + 4 \<le> int (length b) \<Longrightarrow> \<exists>u. i32 b i = Inr u"
  using u32_total [of i b] by (auto simp: i32_def u32_def unpack_i_def)

lemma byte_at_total: "0 \<le> i \<Longrightarrow> i < int (length b) \<Longrightarrow> \<exists>u. byte_at b i = Inr u"
  by (auto simp: byte_at_def py_nth_def)

lemma map_e_range:
  assumes "\<And>k. k < n \<Longrightarrow> \<exists>y. f (int k) = Inr y \<and> P k y"
  shows "\<exists>ys. map_e f (py_range (int n)) = Inr ys \<and> length ys = n \<and> (\<forall>k < n. P k (ys ! k))"
proof -
  let ?ys = "map (\<lambda>k. projr (f (int k))) [0..<n]"
  have y: "f (int k) = Inr (?ys ! k) \<and> P k (?ys ! k)" if "k < n" for k using assms [OF that] that by auto
  then have "map_e f (py_range (int n)) = Inr ?ys" by (simp add: map_e_Inr_iff py_range_nth)
  then show ?thesis using y by (intro exI [of _ ?ys]) simp
qed

lemma view_syms:
  assumes v: "viewed b rela t (rels, names, homes)"
  shows "\<exists>syms. check_syms b t = Inr syms \<and> map fst syms = names \<and> map (fst \<circ> snd) syms = map fst homes"
proof -
  obtain sh shstr byname where w: "wf_rel b" "link_tables b = Inr (sh, shstr, rela, t)" "names_of b t = Inr names"
    "nsyms t = Inr (int (length names))" "length homes = length names"
    using v by (auto elim: viewedE)
  have names: "map_e (symname b t) (py_range (int (length names))) = Inr names"
    using w(3,4) by (auto simp: names_of_def)
  have tables: "wf_tables b rela t" using w(1,2) by (auto simp: wf_rel_def)
  then have c: "syms_clear b (nat (s_offset rela)) (nat (s_offset rela + s_size rela)) t (int (length names))"
    using w(4) by (auto simp: wf_tables_def nsyms_def py_div_def)
  have one: "\<exists>y. check_sym b t (int k) = Inr y \<and> fst y = names ! k \<and> fst (snd y) = fst (homes ! k)"
    if k: "k < length names" for k
  proof -
    have r: "0 \<le> sym_row t (int k)" "sym_row t (int k) + 16 \<le> int (length b)"
      using k by (auto simp: outside_def intro: syms_clear_row [OF c, of "int k"])
    obtain info where "byte_at b (sym_row t (int k) + 12) = Inr info"
      using byte_at_total [of "sym_row t (int k) + 12" b] r by auto
    moreover have "symname b t (int k) = Inr (names ! k)" using map_e_nth [OF names, of k] k by (simp add: py_range_nth)
    ultimately show ?thesis using viewed_home [OF v k] by (simp add: check_sym_def)
  qed
  obtain syms where s: "map_e (check_sym b t) (py_range (int (length names))) = Inr syms" "length syms = length names"
    "\<forall>k < length names. fst (syms ! k) = names ! k \<and> fst (snd (syms ! k)) = fst (homes ! k)"
    using map_e_range [of "length names" "check_sym b t" "\<lambda>k y. fst y = names ! k \<and> fst (snd y) = fst (homes ! k)", OF one]
    by blast
  then have "map fst syms = names" "map (fst \<circ> snd) syms = map fst homes"
    using w(5) by (auto intro!: nth_equalityI)
  then show ?thesis using s(1) w(4) by (simp add: check_syms_def)
qed

lemma view_rels:
  assumes v: "viewed b rela t (rels, names, homes)" and d: "dict_get sec d = Inr rela"
  shows "\<exists>rs. check_rels b t d sec = Inr rs
    \<and> map (\<lambda>(off, nm, ty, a). (off, nm, ty)) rs = map (\<lambda>(off, s, ty). (off, names ! nat s, ty)) rels"
proof -
  obtain sh shstr byname where w: "wf_rel b" "link_tables b = Inr (sh, shstr, rela, t)"
    "nrels rela = Inr (int (length rels))"
    using v by (auto elim: viewedE)
  have "wf_tables b rela t" using w(1,2) by (auto simp: wf_rel_def)
  then have e: "s_entsize rela = 12" "0 \<le> s_offset rela" "s_offset rela + s_size rela \<le> int (length b)"
    by (auto simp: wf_tables_def)
  have n: "int (length rels) = s_size rela div 12" using w(3) e(1) by (simp add: nrels_def py_div_def)
  have one: "\<exists>y. check_rel b t rela (int k) = Inr y \<and> (case y of (off, nm, ty, a) \<Rightarrow>
      (off, nm, ty) = (case rels ! k of (off, s, ty) \<Rightarrow> (off, names ! nat s, ty)))" if k: "k < length rels" for k
  proof -
    obtain off s ty where r: "rels ! k = (off, s, ty)" by (cases "rels ! k")
    have "rel_at b rela (int k) = Inr (off, s, ty)"
      using map_e_nth [OF viewed_rows [OF v], of k] k r by (simp add: py_range_nth)
    then have "u32 b (row_pos rela (int k)) = Inr off" by (auto simp: rel_at_def)
    moreover obtain info where "u32 b (row_pos rela (int k) + 4) = Inr info" "info div 256 = s" "info mod 256 = ty"
      using viewed_entry(1) [OF v k r] by blast
    moreover have "12 * int k + 12 \<le> s_size rela" using k n by linarith
    then obtain a where "i32 b (row_pos rela (int k) + 8) = Inr a"
      using i32_total [of "row_pos rela (int k) + 8" b] e by (auto simp: row_pos_def)
    ultimately show ?thesis using viewed_entry(2) [OF v k r] r by (simp add: check_rel_def)
  qed
  obtain rs where rs: "map_e (check_rel b t rela) (py_range (int (length rels))) = Inr rs" "length rs = length rels"
    "\<forall>k < length rels. (case rs ! k of (off, nm, ty, a) \<Rightarrow>
       (off, nm, ty) = (case rels ! k of (off, s, ty) \<Rightarrow> (off, names ! nat s, ty)))"
    using map_e_range [of "length rels" "check_rel b t rela" "\<lambda>k y. case y of (off, nm, ty, a) \<Rightarrow>
      (off, nm, ty) = (case rels ! k of (off, s, ty) \<Rightarrow> (off, names ! nat s, ty))", OF one] by blast
  then have "map (\<lambda>(off, nm, ty, a). (off, nm, ty)) rs = map (\<lambda>(off, s, ty). (off, names ! nat s, ty)) rels"
    by (intro nth_equalityI) (auto split: prod.splits)
  then show ?thesis using rs(1) w(3) d by (simp add: check_rels_def)
qed

lemma first_pos_map: "first_pos P (map f xs) = first_pos (P \<circ> f) xs"
  by (induction xs) auto

lemma map_of_first: "map_of ps x = map_option (\<lambda>k. snd (ps ! k)) (first_pos (\<lambda>n. n = x) (map fst ps))"
  by (induction ps) (auto simp: option.map_comp comp_def)

lemma sym_lookup:
  assumes "map fst syms = names" "map (fst \<circ> snd) syms = map fst homes" "abs_value x names (homes :: place list) = Some u"
  shows "\<exists>r. map_of syms x = Some (u, r)"
proof -
  obtain k where k: "first_pos (\<lambda>n. n = x) names = Some k" "u = fst (homes ! k)"
    using assms(3) by (auto simp: abs_value_def sym_pos_def split: option.splits)
  have "k < length syms" using first_pos_Some [OF k(1)] assms(1) by auto
  moreover have "length homes = length syms" using arg_cong [OF assms(2), of length] by simp
  ultimately have "fst (snd (syms ! k)) = u" using arg_cong [OF assms(2), of "\<lambda>l. l ! k"] k(2) by simp
  then show ?thesis using k(1) assms(1) by (cases "snd (syms ! k)") (auto simp: map_of_first)
qed

lemma rel_lookup:
  assumes "map (\<lambda>(off, nm, ty, a). (off, nm, ty)) rs = map (\<lambda>(off, s, ty). (off, names ! nat s, ty)) rels"
    "slot names x rels = Some (n, ty)"
  shows "\<exists>a. map_of rs x = Some (n, ty, a)"
proof -
  have f: "map fst rs = map fst rels"
    using arg_cong [OF assms(1), of "map fst"] by (simp add: comp_def case_prod_unfold)
  obtain k where k: "rel_pos (\<lambda>off. off = x) rels = Some k" "n = names ! nat (fst (snd (rels ! k)))" "ty = snd (snd (rels ! k))"
    using assms(2) by (auto simp: slot_def)
  have "first_pos (\<lambda>n. n = x) (map fst rs) = Some k"
    using k(1) unfolding f by (simp add: rel_pos_def first_pos_map comp_def case_prod_unfold)
  moreover from this have "k < length rs" using first_pos_Some by fastforce
  moreover have "length rs = length rels" using arg_cong [OF assms(1), of length] by simp
  ultimately show ?thesis using arg_cong [OF assms(1), of "\<lambda>l. l ! k"] k(2,3)
    by (cases "rs ! k") (auto simp: map_of_first split: prod.splits)
qed

lemma slot_defined: "slot names x rels \<noteq> None \<longleftrightarrow> x \<in> set (map fst rels)"
  unfolding slot_def rel_pos_def map_option_is_None first_pos_None by (force split: prod.splits)

lemma only_offset:
  assumes "map fst rs = map fst rels" "x \<in> set (map fst rels)"
    "\<And>y. y \<in> set (map fst rels) \<Longrightarrow> lo \<le> y \<and> y < hi \<longleftrightarrow> y = x"
  shows "offsets_in rs lo hi = [x]"
proof -
  have "set (offsets_in rs lo hi) = {x}" using assms by (auto simp: offsets_in_def)
  moreover have "distinct (offsets_in rs lo hi)" by (simp add: offsets_in_def)
  ultimately show ?thesis by (cases "offsets_in rs lo hi"; cases "tl (offsets_in rs lo hi)") auto
qed

subsection \<open>The link passes\<close>

text \<open>What the text part of \<open>check_fpe_relocs\<close> asks of the vectors and of the declines.\<close>

definition arm_fails :: "csym list \<Rightarrow> crel list \<Rightarrow> string list" where
  "arm_fails syms rtext = vector_fails syms rtext 11 ''fpe_vec11''
     @ decline_fails syms rtext ''fpe_decline'' [''fpe_vec11''] [''fpsp_vec11'', ''nullvect'']
     @ vector_fails syms rtext 60 ''fpe_vec60''
     @ decline_fails syms rtext ''fpe_decline60'' [''fpe_vec60'', ''fpe_vec11''] [''fpsp_vec60'', ''nullvect'']"

lemma fpe_fails_arm: "set (arm_fails syms rtext) \<subseteq> set (fpe_fails syms rtext rdata)"
  by (auto simp: arm_fails_def fpe_fails_def)

text \<open>The tables of an image against its view.\<close>

definition tables_show :: "csym list \<Rightarrow> crel list \<Rightarrow> rview \<Rightarrow> bool" where
  "tables_show syms rtext v \<longleftrightarrow> (case v of (rels, names, homes) \<Rightarrow>
     map fst syms = names \<and> map (fst \<circ> snd) syms = map fst homes
     \<and> map (\<lambda>(off, nm, ty, a). (off, nm, ty)) rtext = map (\<lambda>(off, s, ty). (off, names ! nat s, ty)) rels)"

lemma tables_showD:
  assumes "tables_show syms rtext (rels, names, homes)"
  shows "abs_value x names homes = Some u \<Longrightarrow> \<exists>r. map_of syms x = Some (u, r)"
    and "x \<in> set names \<Longrightarrow> \<exists>r. map_of syms x = Some r"
    and "slot names y rels = Some (n, ty) \<Longrightarrow> \<exists>a. map_of rtext y = Some (n, ty, a)"
    and "map fst rtext = map fst rels"
proof -
  have t: "map fst syms = names" "map (fst \<circ> snd) syms = map fst homes"
    "map (\<lambda>(off, nm, ty, a). (off, nm, ty)) rtext = map (\<lambda>(off, s, ty). (off, names ! nat s, ty)) rels"
    using assms by (simp_all add: tables_show_def)
  show "abs_value x names homes = Some u \<Longrightarrow> \<exists>r. map_of syms x = Some (u, r)" by (rule sym_lookup [OF t(1,2)])
  show "slot names y rels = Some (n, ty) \<Longrightarrow> \<exists>a. map_of rtext y = Some (n, ty, a)" by (rule rel_lookup [OF t(3)])
  show "map fst rtext = map fst rels" using arg_cong [OF t(3), of "map fst"] by (simp add: comp_def case_prod_unfold)
  show "x \<in> set names \<Longrightarrow> \<exists>r. map_of syms x = Some r"
    using t(1) map_of_eq_None_iff [of syms x] by (cases "map_of syms x") auto
qed

lemma check_text_view:
  assumes "wf_rel b" "rel_view b = Inr (rels, names, homes)"
  shows "\<exists>d t syms rtext. check_text b = Inr (d, t, syms, rtext)
    \<and> tables_show syms rtext (rels, names, homes)"
proof -
  obtain rela t where v: "viewed b rela t (rels, names, homes)" using assms by (auto elim: viewed_of)
  obtain sh shstr byname where w: "name_symtab b = Inr (sh, shstr, byname, t)" "dict_get ''.rela.text'' byname = Inr rela"
    using v by (auto elim: viewedE)
  obtain st where o: "open_elf b = Inr (sh, byname)" "dict_get ''.symtab'' byname = Inr st" "strings_of sh st = Inr t"
    using w(1) by (auto simp: name_symtab_def open_elf_def strings_of_def)
  obtain syms where s: "check_syms b t = Inr syms" "map fst syms = names" "map (fst \<circ> snd) syms = map fst homes"
    using view_syms [OF v] by blast
  obtain rs where r: "check_rels b t byname ''.rela.text'' = Inr rs"
    "map (\<lambda>(off, nm, ty, a). (off, nm, ty)) rs = map (\<lambda>(off, s, ty). (off, names ! nat s, ty)) rels"
    using view_rels [OF v w(2)] by blast
  show ?thesis using o s r by (simp add: check_text_def tables_show_def)
qed

lemma vector_report:
  assumes t: "tables_show syms rtext (rels, names, homes)"
    and a: "abs_value ''M68Kvec'' names homes = Some base" "new \<in> set names"
    "slot names (base + vec * 4) rels = Some (n, 1)"
  shows "vector_fails syms rtext vec new = (if n = new then [] else [''the vector names another handler''])"
  using tables_showD(1) [OF t a(1)] tables_showD(2) [OF t a(2)] tables_showD(3) [OF t a(3)]
  by (auto simp: vector_fails_def complain_def)

lemma decline_report:
  assumes t: "tables_show syms rtext (rels, names, homes)"
    and a: "abs_value decline names homes = Some u" "slot names (u + 2) rels = Some (n, ty)"
    "\<And>y. y \<in> set (map fst rels) \<Longrightarrow> u \<le> y \<and> y < u + 6 \<longleftrightarrow> y = u + 2"
    "n \<notin> set arms" "n \<in> set allowed"
  shows "decline_fails syms rtext decline arms allowed = []"
proof -
  have "u + 2 \<in> set (map fst rels)" using a(2) slot_defined [of names "u + 2" rels] by simp
  then have "offsets_in rtext u (u + 6) = [u + 2]" using only_offset [OF tables_showD(4) [OF t] _ a(3)] by simp
  then show ?thesis using tables_showD(1) [OF t a(1)] tables_showD(3) [OF t a(2)] a(4,5)
    by (auto simp: decline_fails_def complain_def)
qed

lemma arms_missing:
  assumes w: "wf_rel b" "rel_view b = Inr (rels, names, homes)" and r: "fp_ready (rels, names, homes) base d11 d60"
  shows "\<exists>d t syms rtext. check_text b = Inr (d, t, syms, rtext) \<and> arm_fails syms rtext \<noteq> []"
proof -
  obtain d t syms rtext where c: "check_text b = Inr (d, t, syms, rtext)" "tables_show syms rtext (rels, names, homes)"
    using check_text_view [OF w] by blast
  note f = fp_readyD [OF r]
  have "''fpe_vec11'' \<in> set names" using f(6) by (simp add: fp_handlers_def)
  moreover have "slot names (base + 11 * 4) rels = Some (''nullvect'', 1)" using f(10) by (simp add: fp_vectors_def)
  ultimately have "vector_fails syms rtext 11 ''fpe_vec11'' = [''the vector names another handler'']"
    using vector_report [OF c(2) f(1)] by simp
  then show ?thesis using c(1) by (simp add: arm_fails_def)
qed

lemma arms_accepted:
  assumes w: "wf_rel b" "rel_view b = Inr (rels, names, homes)" and r: "fp_ready (rels, names, homes) base d11 d60"
  shows "\<exists>b' d t syms rtext. run_steps fp_steps b = (b', Inr ()) \<and> check_text b' = Inr (d, t, syms, rtext)
    \<and> arm_fails syms rtext = []"
proof -
  note f = fp_readyD [OF r]
  obtain b' rels' where s: "run_steps fp_steps b = (b', Inr ())" "wf_rel b'" "rel_view b' = Inr (rels', names, homes)"
    "\<And>x. slot names x rels' = (case map_of (fp_targets base d11 d60) x of Some n \<Rightarrow> Some (n, 1) | None \<Rightarrow> slot names x rels)"
    using fp_installed [OF w r] by blast
  obtain d t syms rtext where c: "check_text b' = Inr (d, t, syms, rtext)" "tables_show syms rtext (rels', names, homes)"
    using check_text_view [OF s(2,3)] by blast
  have names: "''fpe_vec11'' \<in> set names" "''fpe_vec60'' \<in> set names" using f(6) by (simp_all add: fp_handlers_def)
  have slots: "slot names (base + 11 * 4) rels' = Some (''fpe_vec11'', 1)" "slot names (base + 60 * 4) rels' = Some (''fpe_vec60'', 1)"
    "slot names (d11 + 2) rels' = Some (''fpsp_vec11'', 1)" "slot names (d60 + 2) rels' = Some (''fpsp_vec60'', 1)"
    using f(7-9) by (auto simp: s(4) fp_targets_def fp_vectors_def)
  have dom: "y \<in> set (map fst rels)" if "y \<in> set (map fst rels')" for y
  proof -
    have "slot names x rels \<noteq> None" if "map_of (fp_targets base d11 d60) x \<noteq> None" for x
      using that f(10-12) by (auto simp: fp_targets_def fp_vectors_def split: if_splits)
    then show ?thesis using that slot_defined [of names y rels'] slot_defined [of names y rels] s(4) [of y]
      by (auto split: option.splits)
  qed
  have win: "d11 \<le> y \<and> y < d11 + 6 \<longleftrightarrow> y = d11 + 2" "d60 \<le> y \<and> y < d60 + 6 \<longleftrightarrow> y = d60 + 2"
    if "y \<in> set (map fst rels')" for y
    using f(13) dom [OF that] unfolding list_all_iff by blast+
  have "vector_fails syms rtext 11 ''fpe_vec11'' = []" "vector_fails syms rtext 60 ''fpe_vec60'' = []"
    using vector_report [OF c(2) f(1)] names slots(1,2) by simp_all
  moreover have "decline_fails syms rtext ''fpe_decline'' [''fpe_vec11''] [''fpsp_vec11'', ''nullvect''] = []"
    by (rule decline_report [OF c(2) f(2) slots(3) win(1)]) auto
  moreover have "decline_fails syms rtext ''fpe_decline60'' [''fpe_vec60'', ''fpe_vec11''] [''fpsp_vec60'', ''nullvect''] = []"
    by (rule decline_report [OF c(2) f(3) slots(4) win(2)]) auto
  ultimately show ?thesis using s(1) c(1) by (simp add: arm_fails_def)
qed

lemma unarmed_refused:
  assumes "check_text b = Inr (d, t, syms, rtext)" "arm_fails syms rtext \<noteq> []"
  shows "isl (check_fpe_main b)"
proof (cases "check_rels b t d ''.rela.data''")
  case (Inr rdata)
  have "fpe_fails syms rtext rdata \<noteq> []" using fpe_fails_arm [of syms rtext rdata] assms(2) by (cases "arm_fails syms rtext") auto
  then show ?thesis using Inr assms(1) by (simp add: check_fpe_main_def check_tables_def verdict_def)
qed (simp add: check_fpe_main_def check_tables_def assms(1))

text \<open>
  C12: The checker sees what the link does.  On an image that is ready for the floating-point scripts,
  \<open>check_fpe_relocs\<close> refuses the image before the five scripts ran (its symbol and \<open>.rela.text\<close> tables are
  read without an error, and the vectors are wrong); the scripts run to the end, and then vectors 11 and 60
  and both declines pass every check.
\<close>

theorem fpe_check_gates:
  assumes "wf_rel b" "rel_view b = Inr (rels, names, homes)" "fp_ready (rels, names, homes) base d11 d60"
  shows "isl (check_fpe_main b)
    \<and> (\<exists>d t syms rtext. check_text b = Inr (d, t, syms, rtext) \<and> arm_fails syms rtext \<noteq> [])
    \<and> (\<exists>b' d t syms rtext. run_steps fp_steps b = (b', Inr ()) \<and> check_text b' = Inr (d, t, syms, rtext)
         \<and> arm_fails syms rtext = [])"
  using arms_missing [OF assms] arms_accepted [OF assms] unarmed_refused by blast

lemma fpe_check_gates_witness: "isl (check_fpe_main ex_image)
    \<and> (\<exists>b' d t syms rtext. run_steps fp_steps ex_image = (b', Inr ()) \<and> check_text b' = Inr (d, t, syms, rtext)
         \<and> arm_fails syms rtext = [])"
  using fpe_check_gates [OF ex_wf ex_view ex_ready] by blast

end
