(* ===== verification/Build_Ids.thy ===== *)
theory Build_Ids
  imports Py_Strings Reloc_Base
begin

text \<open>
  The identity of a kernel: \<open>src/tools/blocks.py\<close> finds the block of numbers of a machine in the table of
  \<open>CONTRACTS.md\<close>, and \<open>src/src/stamp_buildid.py\<close> takes the next number of the day from the block and writes
  it into the image.  The state is the file \<open>.build-seq\<close> of a build directory, whose content is a text.
  The answers of \<open>git\<close> and \<open>nm\<close> are parameters.
\<close>

subsection \<open>blocks.py\<close>

text \<open>The expression \<open>rng\<close>.\<close>

definition re_range :: "string \<Rightarrow> (int \<times> int) option" where
  "re_range s = do { (a, s) \<leftarrow> digits (dropWhile is_space s); s \<leftarrow> lit ''-'' (dropWhile is_space s);
     (b, s) \<leftarrow> digits (dropWhile is_space s); eol s; Some (a, b) }"

type_synonym block = "int \<times> int"
type_synonym blocks = "(string \<times> block \<times> block) list"

definition cells_of :: "string \<Rightarrow> string list" where
  "cells_of line = map py_strip (split_on (CHR ''|'') (strip_of (\<lambda>c. c = CHR ''|'') (py_strip line)))"

definition is_row_line :: "string \<Rightarrow> bool" where
  "is_row_line line \<longleftrightarrow> (case dropWhile is_space line of c # _ \<Rightarrow> c = CHR ''|'' | [] \<Rightarrow> False)
     \<and> 3 \<le> length (cells_of line) \<and> CHR ''@'' \<in> set (cells_of line ! 0)"

definition row_email :: "string \<Rightarrow> string" where
  "row_email line = py_lower (strip_of (\<lambda>c. c \<in> {CHR ''`'', CHR ''*'', CHR '' ''}) (cells_of line ! 0))"

fun registry_rows :: "string list \<Rightarrow> blocks \<Rightarrow> exn + blocks" where
  "registry_rows [] rows = Inr rows"
| "registry_rows (line # lines) rows =
     (if \<not> is_row_line line then registry_rows lines rows
      else case (re_range (cells_of line ! 1), re_range (cells_of line ! 2)) of
        (Some mi, Some mb) \<Rightarrow> registry_rows lines (AList.update (row_email line) (mi, mb) rows)
      | _ \<Rightarrow> Inl (SystemExit ''blocks: ERROR: unparseable range''))"

text \<open>The lines of \<open>CONTRACTS.md\<close>, or \<open>None\<close> where there is no such file.\<close>

definition registry :: "string list option \<Rightarrow> exn + blocks" where
  "registry contracts = (case contracts of
     None \<Rightarrow> Inl (SystemExit ''blocks: ERROR: not found'')
   | Some lines \<Rightarrow> bind_e (registry_rows lines []) (\<lambda>rows.
       if rows = [] then Inl (SystemExit ''blocks: ERROR: no registry rows found'') else Inr rows))"

definition block_lookup :: "string list option \<Rightarrow> string \<Rightarrow> exn + block \<times> block" where
  "block_lookup contracts email = bind_e (registry contracts) (\<lambda>rows. case map_of rows email of
     None \<Rightarrow> Inl (SystemExit ''3'') | Some r \<Rightarrow> Inr r)"

text \<open>What \<open>git config user.email\<close> prints, or \<open>None\<close> if it fails.\<close>

definition git_email :: "string option \<Rightarrow> exn + string" where
  "git_email out = (let s = (case out of Some t \<Rightarrow> py_strip t | None \<Rightarrow> []) in
     if s = [] then Inl (SystemExit ''blocks: ERROR: user.email is empty'') else Inr (py_lower s))"

definition print_block :: "block \<Rightarrow> string" where
  "print_block r = int_str (fst r) @ '' '' @ int_str (snd r)"

text \<open>The arguments and the printed line.\<close>

definition blocks_main :: "string list option \<Rightarrow> string option \<Rightarrow> string list \<Rightarrow> exn + string" where
  "blocks_main contracts git argv = (case argv of
     [] \<Rightarrow> Inl (SystemExit ''blocks: ERROR: usage'')
   | what # args \<Rightarrow> bind_e (case args of e # _ \<Rightarrow> Inr (py_lower e) | [] \<Rightarrow> git_email git) (\<lambda>email.
       if what = ''whoami'' then Inr email
       else bind_e (block_lookup contracts email) (\<lambda>(issues, buildseq).
         if what = ''issues'' then Inr (print_block issues)
         else if what = ''buildseq'' then Inr (print_block buildseq)
         else Inl (SystemExit ''blocks: ERROR: unknown query''))))"

subsection \<open>stamp_buildid.py\<close>

definition seq_block :: "string list option \<Rightarrow> string option \<Rightarrow> exn + block" where
  "seq_block contracts git = (case blocks_main contracts git [''buildseq''] of
     Inl _ \<Rightarrow> Inl (SystemExit ''stamp_buildid: ERROR: no build-id block'')
   | Inr out \<Rightarrow> bind_e (map_e py_int (split_ws out)) (\<lambda>xs. case xs of
       [lo, hi] \<Rightarrow> Inr (lo, hi) | _ \<Rightarrow> Inl ValueError))"

text \<open>
  The date and number of the last stamp.  A file that does not split in two leaves both unset; a number
  that cannot be read leaves the date set.
\<close>

definition read_seq :: "string option \<Rightarrow> string option \<times> int" where
  "read_seq content = (case content of
     None \<Rightarrow> (None, 0)
   | Some c \<Rightarrow> (case split_ws c of
       [date, s] \<Rightarrow> (case py_int s of Inr n \<Rightarrow> (Some date, n) | Inl _ \<Rightarrow> (Some date, 0))
     | _ \<Rightarrow> (None, 0)))"

definition seq_line :: "string \<Rightarrow> int \<Rightarrow> string" where
  "seq_line today n = today @ '' '' @ int_str n @ [char_of (10 :: nat)]"

text \<open>\<open>next_seq\<close> after the look-up of the block: the file it leaves, and the number.\<close>

definition next_seq :: "block \<Rightarrow> string \<Rightarrow> string option \<Rightarrow> string option \<times> (exn + int)" where
  "next_seq blk today content = (case blk of (lo, hi) \<Rightarrow> case read_seq content of (date, old) \<Rightarrow>
     let n = (if date = Some today \<and> lo \<le> old \<and> old \<le> hi then old + 1 else lo) in
     if n > hi then (content, Inl (SystemExit ''stamp_buildid: ERROR: sequence exhausted''))
     else (Some (seq_line today n), Inr n))"

definition stamp_field :: "string \<Rightarrow> int \<Rightarrow> string" where
  "stamp_field today n = '' 68040-'' @ today @ ''-'' @ fmt_02d n"

text \<open>The section headers are read one after the other; a read at the end of the file is short.\<close>

definition stamp_rows :: "byte list \<Rightarrow> int \<Rightarrow> int \<Rightarrow> int \<Rightarrow> byte list list" where
  "stamp_rows b shoff ent n = map (\<lambda>i. slice b (shoff + i * ent) (shoff + i * ent + ent)) (py_range n)"

fun data_row :: "byte list \<Rightarrow> byte list list \<Rightarrow> exn + int" where
  "data_row st [] = Inl (SystemExit ''stamp_buildid: ERROR: no .data section'')"
| "data_row st (s # ss) = bind_e (u32 s 0) (\<lambda>n. bind_e (cstr st n) (\<lambda>name.
     if name = ascii ''.data'' then u32 s 16 else data_row st ss))"

definition stamp_data_offset :: "byte list \<Rightarrow> exn + int" where
  "stamp_data_offset b = (let eh = slice b 0 52 in
     if slice eh 0 4 \<noteq> [0x7f, 0x45, 0x4c, 0x46] then Inl (SystemExit ''stamp_buildid: ERROR: is not ELF'')
     else bind_e (u32 eh 32) (\<lambda>shoff. bind_e (u16 eh 46) (\<lambda>ent. bind_e (u16 eh 48) (\<lambda>n. bind_e (u16 eh 50) (\<lambda>ix.
       let sh = stamp_rows b shoff ent n in
       bind_e (py_nth sh ix) (\<lambda>row. bind_e (u32 row 16) (\<lambda>so. bind_e (u32 row 20) (\<lambda>ss.
       data_row (slice b so (so + ss)) sh))))))))"

text \<open>The lines that \<open>nm\<close> prints for the image, or the exception of the call.\<close>

type_synonym nm = "byte list \<Rightarrow> exn + string list"

definition nm_line :: "string \<Rightarrow> string \<Rightarrow> int option" where
  "nm_line name line = do { (v, s) \<leftarrow> run1 is_lower_hex line; s \<leftarrow> lit '' '' s; (t, s) \<leftarrow> count is_alpha 1 s;
     s \<leftarrow> lit '' '' s; s \<leftarrow> lit name s; if s = [] then Some (hex v) else None }"

fun nm_find :: "string \<Rightarrow> string list \<Rightarrow> exn + int" where
  "nm_find name [] = Inl (SystemExit ''stamp_buildid: ERROR: no symbol'')"
| "nm_find name (l # ls) = (case nm_line name l of Some v \<Rightarrow> Inr v | None \<Rightarrow> nm_find name ls)"

definition stamp_position :: "nm \<Rightarrow> byte list \<Rightarrow> exn + int" where
  "stamp_position nm b = bind_e (stamp_data_offset b) (\<lambda>off. bind_e (nm b) (\<lambda>lines.
     bind_e (nm_find ''buildid'' lines) (\<lambda>v. Inr (off + v))))"

text \<open>Seek, read 16 bytes, check them, seek back and write: a write at the end of the file extends it.\<close>

definition write_field :: "byte list \<Rightarrow> int \<Rightarrow> byte list \<Rightarrow> exn + byte list" where
  "write_field b off field = (let o' = nat off in
     if take 7 (take 16 (drop o' b)) \<noteq> ascii '' 68040-'' then Inl (SystemExit ''stamp_buildid: ERROR: refusing to stamp'')
     else Inr (take o' b @ field @ drop (o' + length field) b))"

definition stamp_image :: "nm \<Rightarrow> string \<Rightarrow> int \<Rightarrow> byte list \<Rightarrow> exn + byte list" where
  "stamp_image nm today n b = (let field = stamp_field today n in
     if length field \<noteq> 16 then Inl (SystemExit ''stamp_buildid: ERROR: stamp too long'')
     else bind_e (stamp_position nm b) (\<lambda>off. write_field b off (ascii field)))"

record tree =
  t_seq :: "string option"
  t_img :: "byte list"

definition stamp_main :: "string list option \<Rightarrow> string option \<Rightarrow> nm \<Rightarrow> string \<Rightarrow> tree \<Rightarrow> tree \<times> (exn + string)" where
  "stamp_main contracts git nm today w = (case seq_block contracts git of
     Inl e \<Rightarrow> (w, Inl e)
   | Inr blk \<Rightarrow> (case next_seq blk today (t_seq w) of
       (c, Inl e) \<Rightarrow> (w\<lparr>t_seq := c\<rparr>, Inl e)
     | (c, Inr n) \<Rightarrow> (case stamp_image nm today n (t_img w) of
         Inl e \<Rightarrow> (w\<lparr>t_seq := c\<rparr>, Inl e)
       | Inr b \<Rightarrow> (w\<lparr>t_seq := c, t_img := b\<rparr>, Inr (stamp_field today n)))))"

subsection \<open>What is printed is read back\<close>

lemma read_seq_line:
  assumes "solid today" "0 \<le> n"
  shows "read_seq (Some (seq_line today n)) = (Some today, n)"
proof -
  have "seq_line today n = today @ CHR '' '' # int_str n @ char_of (10 :: nat) # []" by (simp add: seq_line_def)
  then have "split_ws (seq_line today n) = [today, int_str n]"
    using assms by (simp only:) (simp add: split_ws_solid int_str_solid)
  then show ?thesis using assms(2) by (simp add: read_seq_def py_int_int_str)
qed

lemma block_printed: "0 \<le> fst r \<Longrightarrow> 0 \<le> snd r \<Longrightarrow> map_e py_int (split_ws (print_block r)) = Inr [fst r, snd r]"
  by (simp add: print_block_def split_ws_solid int_str_solid split_ws_last py_int_int_str)

subsection \<open>The numbers of a day\<close>

text \<open>
  \<open>taken\<close>: the builds of several build directories, one after the other.  Directory \<open>t\<close> belongs to a machine
  with the block \<open>blk t\<close>; its file is \<open>f t\<close>.  \<open>H\<close> is what was handed out, newest first.  A day that a
  directory has left does not come back.
\<close>

definition last_day :: "(nat \<times> string \<times> int) list \<Rightarrow> nat \<Rightarrow> string option" where
  "last_day H t = map_option (fst \<circ> snd) (List.find (\<lambda>x. fst x = t) H)"

definition clock_ok :: "(nat \<times> string \<times> int) list \<Rightarrow> nat \<Rightarrow> string \<Rightarrow> bool" where
  "clock_ok H t day \<longleftrightarrow> length day = 6 \<and> list_all is_digit day
     \<and> (day \<in> (fst \<circ> snd) ` {x \<in> set H. fst x = t} \<longrightarrow> last_day H t = Some day)"

inductive taken :: "(nat \<Rightarrow> block) \<Rightarrow> (nat \<Rightarrow> string option) \<Rightarrow> (nat \<Rightarrow> string option)
    \<Rightarrow> (nat \<times> string \<times> int) list \<Rightarrow> bool"
  for blk f0 where
  none_taken: "taken blk f0 f0 []"
| one_taken: "taken blk f0 f H \<Longrightarrow> clock_ok H t day \<Longrightarrow> next_seq (blk t) day (f t) = (c, Inr n)
    \<Longrightarrow> taken blk f0 (f(t := c)) ((t, day, n) # H)"
| one_refused: "taken blk f0 f H \<Longrightarrow> next_seq (blk t) day (f t) = (c, Inl e) \<Longrightarrow> taken blk f0 (f(t := c)) H"

text \<open>What \<open>next_seq\<close> does on the file it wrote, and on any other.\<close>

lemma next_seq_Inl: "next_seq blk day c = (c', Inl e) \<Longrightarrow> c' = c"
  by (auto simp: next_seq_def Let_def split: prod.splits if_splits)

lemma next_seq_Inr:
  assumes "next_seq blk day c = (c', Inr n)"
  shows "c' = Some (seq_line day n)" "fst blk \<le> n" "n \<le> snd blk"
    and "read_seq c = (Some day, m) \<Longrightarrow> fst blk \<le> m \<Longrightarrow> m \<le> snd blk \<Longrightarrow> n = m + 1"
  using assms by (auto simp: next_seq_def Let_def split: prod.splits if_splits)

lemma clock_solid: "clock_ok H t day \<Longrightarrow> solid day"
  by (intro digits_solid) (auto simp: clock_ok_def)

text \<open>
  The invariant: the file of a directory that has handed out a number holds the last one, and no number of
  that day is greater.
\<close>

definition file_ok :: "block \<Rightarrow> string option \<Rightarrow> (string \<times> int) list \<Rightarrow> bool" where
  "file_ok blk c h \<longleftrightarrow> distinct h \<and> list_all (\<lambda>(d, m). fst blk \<le> m \<and> m \<le> snd blk) h \<and> (case h of [] \<Rightarrow> True
     | (d, n) # _ \<Rightarrow> read_seq c = (Some d, n) \<and> list_all (\<lambda>(d', m). d' = d \<longrightarrow> m \<le> n) h)"

definition of_tree :: "nat \<Rightarrow> (nat \<times> string \<times> int) list \<Rightarrow> (string \<times> int) list" where
  "of_tree t H = map snd (filter (\<lambda>x. fst x = t) H)"

lemma of_tree_Cons: "of_tree t ((u, x) # H) = (if u = t then x # of_tree t H else of_tree t H)"
  by (simp add: of_tree_def)

lemma last_day_of_tree: "last_day H t = map_option fst (case of_tree t H of [] \<Rightarrow> None | x # _ \<Rightarrow> Some x)"
  by (induction H) (auto simp: last_day_def of_tree_def)

lemma file_ok_step:
  assumes "file_ok blk c h" "next_seq blk day c = (c', Inr n)" "solid day" "0 \<le> fst blk"
    and "day \<in> fst ` set h \<Longrightarrow> \<exists>m h'. h = (day, m) # h'"
  shows "file_ok blk c' ((day, n) # h)"
proof -
  note r = next_seq_Inr [OF assms(2)]
  have new: "read_seq c' = (Some day, n)" using read_seq_line [OF assms(3), of n] r(1,2) assms(4) by simp
  have below: "m < n" if "(day, m) \<in> set h" for m
  proof -
    have "day \<in> fst ` set h" using that by force
    from assms(5) [OF this] obtain m0 h' where h: "h = (day, m0) # h'" by blast
    have "read_seq c = (Some day, m0)" "fst blk \<le> m0" "m0 \<le> snd blk" "m \<le> m0"
      using assms(1) that by (auto simp: file_ok_def h list_all_iff)
    then show ?thesis using r(4) by simp
  qed
  have "distinct h" "list_all (\<lambda>(d, m). fst blk \<le> m \<and> m \<le> snd blk) h" using assms(1) by (simp_all add: file_ok_def)
  moreover have "(day, n) \<notin> set h" using below by blast
  moreover have "list_all (\<lambda>(d', m). d' = day \<longrightarrow> m \<le> n) h" using below by (force simp: list_all_iff)
  ultimately show ?thesis using r(2,3) new by (simp add: file_ok_def)
qed

lemma taken_file_ok:
  assumes "taken blk f0 f H" "\<And>t. 0 \<le> fst (blk t)"
  shows "file_ok (blk t) (f t) (of_tree t H)"
  using assms(1)
proof (induction arbitrary: t)
  case none_taken
  then show ?case by (simp add: file_ok_def of_tree_def)
next
  case (one_taken f H u day c n)
  show ?case
  proof (cases "t = u")
    case True
    have "\<exists>m h'. of_tree u H = (day, m) # h'" if "day \<in> fst ` set (of_tree u H)"
    proof -
      have "day \<in> (fst \<circ> snd) ` {x \<in> set H. fst x = u}" using that by (force simp: of_tree_def)
      then have "last_day H u = Some day" using one_taken.hyps(2) by (simp add: clock_ok_def)
      then show ?thesis by (auto simp: last_day_of_tree split: list.splits)
    qed
    from file_ok_step [OF one_taken.IH one_taken.hyps(3) clock_solid [OF one_taken.hyps(2)] assms(2) this]
    show ?thesis by (simp add: True of_tree_Cons)
  qed (use one_taken.IH in \<open>simp add: of_tree_Cons\<close>)
next
  case (one_refused f H u day c e)
  then show ?case using next_seq_Inl by fastforce
qed

subsection \<open>Blocks of the registry\<close>

lemma re_range_nonneg: "re_range s = Some (a, b) \<Longrightarrow> 0 \<le> a \<and> 0 \<le> b"
  by (auto simp: re_range_def digits_nonneg split: Option.bind_splits)

definition blocks_nonneg :: "blocks \<Rightarrow> bool" where
  "blocks_nonneg rows \<longleftrightarrow> list_all (\<lambda>(e, mi, mb). 0 \<le> fst mi \<and> 0 \<le> snd mi \<and> 0 \<le> fst mb \<and> 0 \<le> snd mb) rows"

lemma blocks_nonneg_update:
  assumes "blocks_nonneg rows" "0 \<le> fst mi \<and> 0 \<le> snd mi \<and> 0 \<le> fst mb \<and> 0 \<le> snd mb"
  shows "blocks_nonneg (AList.update e (mi, mb) rows)"
  using assms by (induction rows) (auto simp: blocks_nonneg_def)

lemma registry_rows_nonneg: "registry_rows lines rows = Inr rows' \<Longrightarrow> blocks_nonneg rows \<Longrightarrow> blocks_nonneg rows'"
proof (induction lines rows rule: registry_rows.induct)
  case (2 line lines rows)
  show ?case
  proof (cases "is_row_line line")
    case True
    then obtain mi mb where m: "re_range (cells_of line ! 1) = Some mi" "re_range (cells_of line ! 2) = Some mb"
      "registry_rows lines (AList.update (row_email line) (mi, mb) rows) = Inr rows'"
      using "2.prems"(1) by (auto split: option.splits)
    have "blocks_nonneg (AList.update (row_email line) (mi, mb) rows)"
      using re_range_nonneg [of _ "fst mi" "snd mi"] re_range_nonneg [of _ "fst mb" "snd mb"] m(1,2)
      by (intro blocks_nonneg_update "2.prems"(2)) simp
    then show ?thesis using "2.IH"(2) True m by auto
  qed (use 2 in simp)
qed simp

lemma block_lookup_nonneg:
  assumes "block_lookup contracts email = Inr (mi, mb)"
  shows "0 \<le> fst mi" "0 \<le> snd mi" "0 \<le> fst mb" "0 \<le> snd mb"
proof -
  obtain lines rows where r: "registry_rows lines [] = Inr rows" "map_of rows email = Some (mi, mb)"
    using assms by (auto simp: block_lookup_def registry_def split: option.splits if_splits)
  have "blocks_nonneg rows" by (rule registry_rows_nonneg [OF r(1)]) (simp add: blocks_nonneg_def)
  with map_of_SomeD [OF r(2)] show "0 \<le> fst mi" "0 \<le> snd mi" "0 \<le> fst mb" "0 \<le> snd mb"
    by (auto simp: blocks_nonneg_def list_all_iff)
qed

text \<open>The printed block is read back, so the stamp uses the row of the registry.\<close>

lemma seq_block_of_row:
  assumes "git_email git = Inr email" "block_lookup contracts email = Inr (mi, mb)"
  shows "seq_block contracts git = Inr mb"
  using assms block_printed [OF block_lookup_nonneg(3,4) [OF assms(2)]]
  by (cases mb) (simp add: seq_block_def blocks_main_def)

lemma seq_block_Inr:
  assumes "seq_block contracts git = Inr mb"
  shows "\<exists>email mi. git_email git = Inr email \<and> block_lookup contracts email = Inr (mi, mb)"
proof -
  obtain out where "blocks_main contracts git [''buildseq''] = Inr out"
    using assms by (auto simp: seq_block_def split: sum.splits)
  then obtain email mi mb' where l: "git_email git = Inr email" "block_lookup contracts email = Inr (mi, mb')"
    by (auto simp: blocks_main_def)
  then show ?thesis using seq_block_of_row [OF l] assms by auto
qed

lemma seq_block_nonneg: "seq_block contracts git = Inr mb \<Longrightarrow> 0 \<le> fst mb"
  using seq_block_Inr block_lookup_nonneg(3) by blast

subsection \<open>Identities\<close>

lemma dec_fmt: "0 \<le> n \<Longrightarrow> dec (fmt_02d n) = n"
  using int_str_digits [of n] by (simp add: fmt_02d_def dec_def ord_c_def)

lemma stamp_field_inj:
  assumes "stamp_field d n = stamp_field d' n'" "length d = length d'" "0 \<le> n" "0 \<le> n'"
  shows "d = d' \<and> n = n'"
proof -
  have e: "d = d'" "fmt_02d n = fmt_02d n'" using assms(1,2) by (simp_all add: stamp_field_def)
  have "dec (fmt_02d n) = n" "dec (fmt_02d n') = n'" by (rule dec_fmt, fact)+
  with e show ?thesis by metis
qed

lemma taken_days: "taken blk f0 f H \<Longrightarrow> x \<in> set H \<Longrightarrow> length (fst (snd x)) = 6"
  by (induction arbitrary: x rule: taken.induct) (auto simp: clock_ok_def)

lemma distinct_by_tree: "(\<And>t. distinct (of_tree t H)) \<Longrightarrow> distinct H"
proof (induction H)
  case (Cons x H)
  obtain u y where x: "x = (u, y)" by (cases x)
  have "distinct (of_tree t H)" for t using Cons.prems [of t] by (simp add: x of_tree_Cons split: if_splits)
  moreover have "y \<notin> set (of_tree u H)" using Cons.prems [of u] by (simp add: x of_tree_Cons)
  ultimately show ?case using Cons.IH by (force simp: x of_tree_def)
qed simp

text \<open>
  C10: No two kernels get the same build id.  Whatever builds the machines of the registry run, in any
  order and interleaving, from whatever files their directories hold at first: if each directory belongs
  to a machine of its own, the blocks of the machines do not overlap, and no clock returns to a day it has
  left, then the identities handed out are all different.
\<close>

theorem build_ids_unique:
  assumes "taken blk f0 f H" "\<And>t. seq_block contracts (git t) = Inr (blk t)"
    and "\<And>t u. t \<in> fst ` set H \<Longrightarrow> u \<in> fst ` set H \<Longrightarrow> t \<noteq> u \<Longrightarrow> snd (blk t) < fst (blk u) \<or> snd (blk u) < fst (blk t)"
  shows "distinct (map (\<lambda>(t, day, n). stamp_field day n) H)"
proof -
  have nn: "0 \<le> fst (blk t)" for t by (rule seq_block_nonneg [OF assms(2)])
  note ok = taken_file_ok [OF assms(1) nn]
  have range: "fst (blk t) \<le> n \<and> n \<le> snd (blk t)" if "(t, d, n) \<in> set H" for t d n
  proof -
    have "(d, n) \<in> set (of_tree t H)" using that by (force simp: of_tree_def)
    moreover have "list_all (\<lambda>(d, m). fst (blk t) \<le> m \<and> m \<le> snd (blk t)) (of_tree t H)"
      using ok [of t] by (simp add: file_ok_def)
    ultimately show ?thesis by (auto simp: list_all_iff)
  qed
  have "x = y" if x: "x \<in> set H" and y: "y \<in> set H"
    and e: "(\<lambda>(t, day, n). stamp_field day n) x = (\<lambda>(t, day, n). stamp_field day n) y" for x y
  proof -
    obtain t d n u d' n' where xy: "x = (t, d, n)" "y = (u, d', n')" by (cases x, cases y)
    have r: "fst (blk t) \<le> n" "n \<le> snd (blk t)" "fst (blk u) \<le> n'" "n' \<le> snd (blk u)"
      using range [of t d n] range [of u d' n'] x y by (simp_all add: xy)
    have l: "length d = length d'" using taken_days [OF assms(1) x] taken_days [OF assms(1) y] by (simp add: xy)
    have "0 \<le> n" "0 \<le> n'" using r nn [of t] nn [of u] by linarith+
    then have "d = d' \<and> n = n'" using e by (intro stamp_field_inj [OF _ l]) (simp_all add: xy)
    moreover have "t = u"
    proof (rule ccontr)
      assume "t \<noteq> u"
      moreover have "t \<in> fst ` set H" "u \<in> fst ` set H" using x y xy by force+
      ultimately show False using assms(3) [of t u] r \<open>d = d' \<and> n = n'\<close> by linarith
    qed
    ultimately show ?thesis by (simp add: xy)
  qed
  then have "inj_on (\<lambda>(t, day, n). stamp_field day n) (set H)" by (rule inj_onI)
  moreover have "distinct H" by (rule distinct_by_tree) (use ok in \<open>simp add: file_ok_def\<close>)
  ultimately show ?thesis by (simp add: distinct_map)
qed

subsection \<open>Service\<close>

fun day_run :: "block \<Rightarrow> string \<Rightarrow> nat \<Rightarrow> string option \<Rightarrow> (exn + int) list" where
  "day_run blk day 0 c = []"
| "day_run blk day (Suc k) c = (case next_seq blk day c of (c', r) \<Rightarrow> r # day_run blk day k c')"

definition served :: "int \<Rightarrow> int \<Rightarrow> nat \<Rightarrow> (exn + int) list" where
  "served lo hi k = map (\<lambda>i. if lo + int i \<le> hi then Inr (lo + int i)
     else Inl (SystemExit ''stamp_buildid: ERROR: sequence exhausted'')) [0..<k]"

lemma served_Suc:
  "served lo hi (Suc k) = (if lo \<le> hi then Inr lo else Inl (SystemExit ''stamp_buildid: ERROR: sequence exhausted''))
     # served (lo + 1) hi k"
  by (simp add: served_def upt_conv_Cons map_Suc_upt [symmetric] del: upt_Suc)

lemma served_none: "hi < lo \<Longrightarrow> served lo hi k = served (lo + 1) hi k"
  by (simp add: served_def)

lemma day_run_later:
  assumes "solid day" "0 \<le> lo"
  shows "read_seq c = (Some day, m) \<Longrightarrow> lo \<le> m \<Longrightarrow> m \<le> hi \<Longrightarrow> day_run (lo, hi) day k c = served (m + 1) hi k"
proof (induction k arbitrary: c m)
  case (Suc k)
  show ?case
  proof (cases "m + 1 \<le> hi")
    case True
    then have "next_seq (lo, hi) day c = (Some (seq_line day (m + 1)), Inr (m + 1))"
      using Suc.prems by (simp add: next_seq_def Let_def)
    moreover have "day_run (lo, hi) day k (Some (seq_line day (m + 1))) = served (m + 1 + 1) hi k"
      using assms Suc.prems(2) True by (intro Suc.IH read_seq_line) simp_all
    ultimately show ?thesis using True by (simp add: served_Suc)
  next
    case False
    then show ?thesis using Suc.prems Suc.IH [OF Suc.prems] served_none [of hi "m + 1" k]
      by (simp add: next_seq_def Let_def served_Suc)
  qed
qed (simp add: served_def)

lemma day_run_exhausted:
  "fst (read_seq c) \<noteq> Some day \<Longrightarrow> hi < lo \<Longrightarrow> day_run (lo, hi) day k c = served lo hi k"
proof (induction k)
  case (Suc k)
  then show ?case using served_none [of hi lo k] by (simp add: next_seq_def Let_def served_Suc split: prod.splits)
qed (simp add: served_def)

text \<open>
  C11: Every build of a day is served as long as the block lasts.  The first build of the day gets the
  first number of the block, each later one the next, and only when the block is used up do the builds stop,
  with the message that says so; no number is skipped and none is given twice.
\<close>

theorem day_served:
  assumes "solid day" "0 \<le> lo" "fst (read_seq c) \<noteq> Some day"
  shows "day_run (lo, hi) day k c = map (\<lambda>i. if lo + int i \<le> hi then Inr (lo + int i)
     else Inl (SystemExit ''stamp_buildid: ERROR: sequence exhausted'')) [0..<k]"
  unfolding served_def [symmetric]
proof (cases "k = 0 \<or> hi < lo")
  case True
  then show "day_run (lo, hi) day k c = served lo hi k" using day_run_exhausted [OF assms(3)]
    by (auto simp: served_def)
next
  case False
  then obtain k' where k: "k = Suc k'" "lo \<le> hi" by (cases k) auto
  have "next_seq (lo, hi) day c = (Some (seq_line day lo), Inr lo)"
    using assms(3) k(2) by (auto simp: next_seq_def Let_def split: prod.splits)
  moreover have "day_run (lo, hi) day k' (Some (seq_line day lo)) = served (lo + 1) hi k'"
    using assms k(2) by (intro day_run_later read_seq_line) simp_all
  ultimately show "day_run (lo, hi) day k c = served lo hi k" using k by (simp add: served_Suc)
qed

subsection \<open>The stamp\<close>

lemma nat_str_length: "10 \<le> n \<Longrightarrow> 2 \<le> length (nat_str n)" "100 \<le> n \<Longrightarrow> 3 \<le> length (nat_str n)"
proof -
  have one: "1 \<le> length (nat_str m)" for m using nat_str_digits [of m] by (cases "nat_str m") auto
  have two: "2 \<le> length (nat_str m)" if "10 \<le> m" for m
    using one [of "m div 10"] that by (subst nat_str.simps) simp
  then show "10 \<le> n \<Longrightarrow> 2 \<le> length (nat_str n)" .
  assume "100 \<le> n"
  then show "3 \<le> length (nat_str n)" using two [of "n div 10"] by (subst nat_str.simps) simp
qed

lemma wide_number: "100 \<le> n \<Longrightarrow> length day = 6 \<Longrightarrow> length (stamp_field day n) \<noteq> 16"
  using nat_str_length(2) [of "nat n"] nat_mono [of 100 n] by (auto simp: stamp_field_def fmt_02d_def int_str_def)

lemma two_digits:
  assumes "0 \<le> n" "n < 100" "length day = 6" shows "length (stamp_field day n) = 16"
proof -
  have "length (nat_str m) = (if m < 10 then 1 else 2)" if "m < 100" for m
    using that div_le_mono [of m 99 10] by (simp add: nat_str.simps [of m] nat_str.simps [of "m div 10"])
  from this [of "nat n"] show ?thesis using assms by (auto simp: stamp_field_def fmt_02d_def int_str_def)
qed

text \<open>
  A build id is two digits wide, and nothing keeps the blocks below that: a machine whose block starts
  at 100 or above, which is what the registry hands the third machine, can never stamp an image.  Every run
  takes a number and then ends in an error with the image untouched.
\<close>

theorem wide_block_refused:
  assumes "seq_block contracts git = Inr (lo, hi)" "100 \<le> lo" "length day = 6"
  shows "\<exists>e. snd (stamp_main contracts git nm day w) = Inl e \<and> t_img (fst (stamp_main contracts git nm day w)) = t_img w"
proof (cases "next_seq (lo, hi) day (t_seq w)")
  case (Pair c r)
  show ?thesis
  proof (cases r)
    case (Inr n)
    then have "100 \<le> n" using next_seq_Inr(2) [of "(lo, hi)" day "t_seq w" c n] Pair assms(2) by simp
    from wide_number [OF this assms(3)] show ?thesis
      using assms(1) Pair Inr by (simp add: stamp_main_def stamp_image_def Let_def)
  qed (use assms(1) Pair in \<open>simp add: stamp_main_def\<close>)
qed

text \<open>
  What a stamp leaves behind, on every tree.  A run that fails leaves the image alone.  A run that
  succeeds has taken a number of the machine's block, recorded it in the file of the directory, and replaced the sixteen
  bytes at the position of \<open>buildid\<close>, which began with the prefix; everything before and behind stays.
\<close>

theorem stamp_outcome:
  "case stamp_main contracts git nm day w of
     (w', Inl e) \<Rightarrow> t_img w' = t_img w
   | (w', Inr field) \<Rightarrow> \<exists>blk n off. seq_block contracts git = Inr blk \<and> fst blk \<le> n \<and> n \<le> snd blk
       \<and> field = stamp_field day n \<and> length field = 16 \<and> t_seq w' = Some (seq_line day n)
       \<and> stamp_position nm (t_img w) = Inr off \<and> take 7 (drop (nat off) (t_img w)) = ascii '' 68040-''
       \<and> t_img w' = take (nat off) (t_img w) @ ascii field @ drop (nat off + 16) (t_img w)"
proof (cases "seq_block contracts git")
  case (Inr blk)
  obtain c r where n: "next_seq blk day (t_seq w) = (c, r)" by (cases "next_seq blk day (t_seq w)")
  show ?thesis
  proof (cases r)
    case (Inr k)
    note k = next_seq_Inr [OF n [unfolded Inr]]
    show ?thesis
    proof (cases "stamp_image nm day k (t_img w)")
      case (Inr b)
      then obtain off where "length (stamp_field day k) = 16" "stamp_position nm (t_img w) = Inr off"
        "write_field (t_img w) off (ascii (stamp_field day k)) = Inr b"
        by (auto simp: stamp_image_def Let_def split: if_splits)
      moreover from this have "take 7 (drop (nat off) (t_img w)) = ascii '' 68040-''"
        "b = take (nat off) (t_img w) @ ascii (stamp_field day k) @ drop (nat off + 16) (t_img w)"
        by (auto simp: write_field_def Let_def ascii_def split: if_splits)
      moreover have "stamp_main contracts git nm day w = (w\<lparr>t_seq := c, t_img := b\<rparr>, Inr (stamp_field day k))"
        using Inr \<open>seq_block contracts git = Inr blk\<close> \<open>r = Inr k\<close> n by (simp add: stamp_main_def)
      ultimately show ?thesis using k(1-3) \<open>seq_block contracts git = Inr blk\<close>
        by (simp only: prod.case sum.case) (intro exI [of _ blk] exI [of _ k] exI [of _ off], simp)
    qed (use n \<open>r = Inr k\<close> \<open>seq_block contracts git = Inr blk\<close> in \<open>simp add: stamp_main_def\<close>)
  qed (use n \<open>seq_block contracts git = Inr blk\<close> in \<open>simp add: stamp_main_def\<close>)
qed (simp add: stamp_main_def)

subsection \<open>Witnesses\<close>

text \<open>The table of the repository, with a third machine that has taken the next free ranges.\<close>

definition contracts_lines :: "string list" where
  "contracts_lines = [''| git identity | issues | build-id seq |'', ''|---|---|---|'',
     ''| antti.sokero@gmail.com | 1-99 | 1-49 |'', ''| jussi@alanara.fi | 100-199 | 50-99 |'',
     ''| third@example.org | 200-299 | 100-149 |'']"

lemma registry_of_table:
  "registry (Some contracts_lines) = Inr [(''antti.sokero@gmail.com'', (1, 99), (1, 49)),
     (''jussi@alanara.fi'', (100, 199), (50, 99)), (''third@example.org'', (200, 299), (100, 149))]"
  by code_simp

lemma blocks_of_table:
  "seq_block (Some contracts_lines) (Some ''antti.sokero@gmail.com'') = Inr (1, 49)"
  "seq_block (Some contracts_lines) (Some ''jussi@alanara.fi'') = Inr (50, 99)"
  "seq_block (Some contracts_lines) (Some ''third@example.org'') = Inr (100, 149)"
proof -
  have g: "git_email (Some ''antti.sokero@gmail.com'') = Inr ''antti.sokero@gmail.com''"
    "git_email (Some ''jussi@alanara.fi'') = Inr ''jussi@alanara.fi''"
    "git_email (Some ''third@example.org'') = Inr ''third@example.org''"
    by code_simp+
  show "seq_block (Some contracts_lines) (Some ''antti.sokero@gmail.com'') = Inr (1, 49)"
    "seq_block (Some contracts_lines) (Some ''jussi@alanara.fi'') = Inr (50, 99)"
    "seq_block (Some contracts_lines) (Some ''third@example.org'') = Inr (100, 149)"
    by (rule g [THEN seq_block_of_row]; simp add: block_lookup_def registry_of_table)+
qed

definition seq_blocks :: "nat \<Rightarrow> block" where
  "seq_blocks t = (if t = 0 then (1, 49) else (50, 99))"

definition emails :: "nat \<Rightarrow> string option" where
  "emails t = Some (if t = 0 then ''antti.sokero@gmail.com'' else ''jussi@alanara.fi'')"

lemma solid_day: "solid ''260709''"
  by (simp add: solid_def is_space_def ord_c_def)

lemma clock_day: "length day = 6 \<Longrightarrow> list_all is_digit day \<Longrightarrow> list_all (\<lambda>x. fst (snd x) = day) H \<Longrightarrow> clock_ok H t day"
  by (induction H) (auto simp: clock_ok_def last_day_def list_all_iff)

lemma first_of_day: "lo \<le> hi \<Longrightarrow> next_seq (lo, hi) day None = (Some (seq_line day lo), Inr lo)"
  by (simp add: next_seq_def read_seq_def)

lemma next_of_day:
  "solid day \<Longrightarrow> 0 \<le> lo \<Longrightarrow> lo \<le> m \<Longrightarrow> m < hi
    \<Longrightarrow> next_seq (lo, hi) day (Some (seq_line day m)) = (Some (seq_line day (m + 1)), Inr (m + 1))"
  by (simp add: next_seq_def read_seq_line Let_def)

lemma three_builds:
  "taken seq_blocks (\<lambda>_. None) ((\<lambda>_. None)(0 := Some (seq_line ''260709'' 1), 1 := Some (seq_line ''260709'' 50),
      0 := Some (seq_line ''260709'' 2))) [(0, ''260709'', 2), (1, ''260709'', 50), (0, ''260709'', 1)]"
proof (intro one_taken none_taken)
  show "next_seq (seq_blocks 0) ''260709'' None = (Some (seq_line ''260709'' 1), Inr 1)"
    by (simp add: seq_blocks_def first_of_day)
  show "next_seq (seq_blocks 1) ''260709'' (((\<lambda>_. None)(0 :: nat := Some (seq_line ''260709'' 1))) 1)
      = (Some (seq_line ''260709'' 50), Inr 50)"
    by (simp add: seq_blocks_def first_of_day)
  show "next_seq (seq_blocks 0) ''260709'' (((\<lambda>_. None)(0 :: nat := Some (seq_line ''260709'' 1), 1 := Some (seq_line ''260709'' 50))) 0)
      = (Some (seq_line ''260709'' 2), Inr 2)"
    using next_of_day [OF solid_day, of 1 1 49] by (simp add: seq_blocks_def)
qed (auto intro!: clock_day simp: is_digit_def ord_c_def)

theorem build_ids_unique_witness:
  "distinct (map (\<lambda>(t :: nat, day, n). stamp_field day n) [(0, ''260709'', 2), (1, ''260709'', 50), (0, ''260709'', 1)])"
  by (rule build_ids_unique [OF three_builds, of "Some contracts_lines" emails])
    (auto simp: emails_def seq_blocks_def blocks_of_table)

theorem day_served_witness:
  "day_run (1, 2) ''260709'' 3 (Some ''260708 2'') = [Inr 1, Inr 2, Inl (SystemExit ''stamp_buildid: ERROR: sequence exhausted'')]"
proof -
  have "fst (read_seq (Some ''260708 2'')) \<noteq> Some ''260709''" by code_simp
  from day_served [OF solid_day _ this, of 1 2 3] show ?thesis by (simp add: upt_conv_Cons)
qed

theorem wide_block_refused_witness:
  "\<exists>e. snd (stamp_main (Some contracts_lines) (Some ''third@example.org'') (\<lambda>_. Inr []) ''260709'' \<lparr>t_seq = None, t_img = []\<rparr>)
     = Inl e"
  using wide_block_refused [OF blocks_of_table(3), of "''260709''" "\<lambda>_. Inr []" "\<lparr>t_seq = None, t_img = []\<rparr>"] by auto

end
