(* ===== verification/Nfs_Test.thy ===== *)
theory Nfs_Test
  imports Py_Strings Reloc_Base "HOL-Library.Product_Lexorder" "HOL-Library.List_Lexorder" "HOL-Library.Char_ord"
begin

text \<open>
  The acceptance tests of the NFS repairs in \<open>src/test-tools\<close>.  \<open>nfstail-gen.py\<close> writes the files of the read
  test on the host, and looks for binaries that a broken kernel cannot run; \<open>nfstail.c\<close> maps the files on the
  kernel under test and compares them; \<open>nfstruth-verify.py\<close> checks on the host what \<open>nfstruth.c\<close> has written.
  A directory is the list of its files.  The share on which files are stored, the directory walk and the
  kernel that maps a file are parameters.
\<close>

unbundle bit_operations_syntax

subsection \<open>nfstail-gen.py: the corpus\<close>

definition pat :: "int \<Rightarrow> int" where
  "pat o' = (((o' XOR drop_bit 8 o' XOR drop_bit 16 o') AND 0xFE) + 1) AND 0xFF"

definition tail_CASES :: "(int \<times> string) list" where
  "tail_CASES = [
     (24576, ''r=0     full final page          -- control, worked before the fix too''),
     (24577, ''r=1     partial                  -- REJECTED by the old gate''),
     (24699, ''r=123   partial                  -- the originally observed hardware failure''),
     (26624, ''r=2048  partial, BOUNDARY        -- last size the old gate rejects''),
     (26625, ''r=2049  partial, BOUNDARY        -- first size the old gate accepts''),
     (28671, ''r=4095  partial                  -- accepted before, must stay working''),
     (28795, ''r=123 in the 2nd page of a partial 8K block -- backward clustering (item 3)'')]"

type_synonym dir = "(string \<times> byte list) list"

definition tail_name :: "string \<Rightarrow> int \<Rightarrow> string" where
  "tail_name tag sz = ''tail_'' @ tag @ ''_'' @ int_str sz @ ''_r'' @ int_str (sz AND 0xFFF)"

definition pattern :: "int \<Rightarrow> byte list" where
  "pattern sz = map (\<lambda>o'. word_of_int (pat o')) (py_range sz)"

text \<open>\<open>share name buf\<close> is what the share holds after \<open>buf\<close> was written under \<open>name\<close>.\<close>

fun gen_files :: "(string \<Rightarrow> byte list \<Rightarrow> byte list) \<Rightarrow> string \<Rightarrow> int list \<Rightarrow> dir
    \<Rightarrow> dir \<times> (exn + (string \<times> int \<times> int) list)" where
  "gen_files share tag [] d = (d, Inr [])"
| "gen_files share tag (sz # sizes) d = (let name = tail_name tag sz; kept = share name (pattern sz);
       d' = AList.update name kept d in
     if int (length kept) \<noteq> sz then (d', Inl (SystemExit ''ABORT: the write path truncated it''))
     else case gen_files share tag sizes d' of
         (d'', Inl e) \<Rightarrow> (d'', Inl e)
       | (d'', Inr names) \<Rightarrow> (d'', Inr ((name, sz, sz AND 0xFFF) # names)))"

definition newline :: string where
  "newline = [CHR 0x0A]"

definition manifest_line :: "string \<times> int \<times> int \<Rightarrow> string" where
  "manifest_line x = (case x of (name, sz, r) \<Rightarrow> name @ '' '' @ int_str sz @ '' '' @ int_str r @ newline)"

definition manifest :: "string \<Rightarrow> (string \<times> int \<times> int) list \<Rightarrow> string" where
  "manifest tag names =
     ''# ISSUE-36 acceptance corpus, run tag '' @ tag @ newline
     @ ''# pattern: ((o ^ (o>>8) ^ (o>>16)) & 0xfe) + 1   (never zero)'' @ newline
     @ ''# expectation on the OLD kernel: r in 1..2048 SIGBUS; r 0/2049/4095 pass'' @ newline
     @ concat (map manifest_line names)"

definition manifest_name :: "string \<Rightarrow> string" where
  "manifest_name tag = ''tail_'' @ tag @ ''_manifest''"

definition gen_data :: "(string \<Rightarrow> byte list \<Rightarrow> byte list) \<Rightarrow> string \<Rightarrow> dir \<Rightarrow> dir \<times> (exn + unit)" where
  "gen_data share tag d = (case gen_files share tag (map fst tail_CASES) d of
     (d', Inl e) \<Rightarrow> (d', Inl e)
   | (d', Inr names) \<Rightarrow> (let f = manifest_name tag in
       (AList.update f (share f (ascii (manifest tag names))) d', Inr ())))"

subsection \<open>nfstail.c: the reader\<close>

text \<open>
  \<open>k_map c n\<close> is the kernel's answer to mapping \<open>n\<close> bytes of a file with the content \<open>c\<close>: \<open>None\<close> where the call
  fails, and otherwise what a load at an offset gives, \<open>None\<close> for a signal.
\<close>

type_synonym kernel = "byte list \<Rightarrow> int \<Rightarrow> (int \<Rightarrow> byte option) option"

datatype tail_verdict = Cannot_open | Mmap_failed | Faulted | Mismatch int | Past_eof nat | Passed

text \<open>The first offset whose byte is wrong; \<open>None\<close> outside is a signal on the way.\<close>

fun first_bad :: "(int \<Rightarrow> byte option) \<Rightarrow> int list \<Rightarrow> int option option" where
  "first_bad p [] = Some None"
| "first_bad p (o' # os) = (case p o' of None \<Rightarrow> None
     | Some v \<Rightarrow> if uint v \<noteq> pat o' then Some (Some o') else first_bad p os)"

fun count_nonzero :: "(int \<Rightarrow> byte option) \<Rightarrow> int list \<Rightarrow> nat option" where
  "count_nonzero p [] = Some 0"
| "count_nonzero p (o' # os) = (case p o' of None \<Rightarrow> None
     | Some v \<Rightarrow> map_option (\<lambda>n. if v \<noteq> 0 then Suc n else n) (count_nonzero p os))"

definition c_range :: "int \<Rightarrow> int \<Rightarrow> int list" where
  "c_range a b = map (\<lambda>i. a + i) (py_range (b - a))"

definition tail_file :: "kernel \<Rightarrow> byte list option \<Rightarrow> int \<Rightarrow> int \<Rightarrow> tail_verdict" where
  "tail_file k content sz r = (case content of
     None \<Rightarrow> Cannot_open
   | Some c \<Rightarrow> (case k c sz of
       None \<Rightarrow> Mmap_failed
     | Some p \<Rightarrow> (case p (sz - 1) of
         None \<Rightarrow> Faulted
       | Some v \<Rightarrow> (case first_bad p (c_range 0 sz) of
           None \<Rightarrow> Faulted
         | Some bad \<Rightarrow>
             (let pgbase = sz AND NOT 0xFFF in
              case (if r \<noteq> 0 then count_nonzero p (c_range sz (pgbase + 4096)) else Some 0) of
                None \<Rightarrow> Faulted
              | Some n \<Rightarrow> (case bad of Some o' \<Rightarrow> Mismatch o'
                  | None \<Rightarrow> if n > 0 then Past_eof n else Passed))))))"

text \<open>\<open>fgets\<close> with a buffer of 256, and \<open>sscanf\<close> with \<open>%s %ld %ld\<close>.\<close>

function fgets_lines :: "string \<Rightarrow> string list" where
  "fgets_lines s = (if s = [] then [] else
     let t = takeWhile (\<lambda>c. c \<noteq> CHR 0x0A) s;
         n = (if length t < 255 then (if length t < length s then Suc (length t) else length t) else 255)
     in take n s # fgets_lines (drop n s))"
  by auto

termination
proof (relation "measure length", goal_cases)
  case (2 s t n)
  have "0 < n" using 2 by (cases s) (auto split: if_splits)
  then show ?case using 2(1) by (cases s) auto
qed simp

declare fgets_lines.simps [simp del]

definition c_space :: "char \<Rightarrow> bool" where
  "c_space c \<longleftrightarrow> (9 \<le> ord_c c \<and> ord_c c \<le> 13) \<or> ord_c c = 32"

definition scan_ld :: "string \<Rightarrow> (int \<times> string) option" where
  "scan_ld s = (case dropWhile c_space s of
     c # t \<Rightarrow> if c = CHR ''-'' then map_option (\<lambda>(n, r). (- n, r)) (digits t)
       else if c = CHR ''+'' then digits t else digits (c # t)
   | [] \<Rightarrow> None)"

definition scan_entry :: "string \<Rightarrow> (string \<times> int \<times> int) option" where
  "scan_entry s = do { (name, s) \<leftarrow> run1 (\<lambda>c. \<not> c_space c) (dropWhile c_space s);
     (sz, s) \<leftarrow> scan_ld s; (r, s) \<leftarrow> scan_ld s; Some (name, sz, r) }"

definition is_comment :: "string \<Rightarrow> bool" where
  "is_comment line \<longleftrightarrow> (case line of c # _ \<Rightarrow> c = CHR ''#'' \<or> c = CHR 0x0A | [] \<Rightarrow> False)"

definition manifest_entries :: "string \<Rightarrow> (string \<times> int \<times> int) list" where
  "manifest_entries text' = concat (map (\<lambda>line. if is_comment line then [] else
     (case scan_entry line of Some e \<Rightarrow> [e] | None \<Rightarrow> [])) (fgets_lines text'))"

text \<open>The verdicts, and the exit status.\<close>

definition nfstail_main :: "kernel \<Rightarrow> dir \<Rightarrow> string \<Rightarrow> (string \<times> int \<times> tail_verdict) list \<times> int" where
  "nfstail_main k d mname = (case map_of d mname of
     None \<Rightarrow> ([], 1)
   | Some m \<Rightarrow> (let vs = map (\<lambda>(name, sz, r). (name, sz, tail_file k (map_of d name) sz r))
                       (manifest_entries (decode_latin1 m))
       in (vs, if list_all (\<lambda>(name, sz, v). v = Passed) vs then 0 else 1)))"

subsection \<open>nfstail-gen.py: binaries\<close>

definition elf_head :: "byte list \<Rightarrow> bool" where
  "elf_head d \<longleftrightarrow> 52 \<le> length d \<and> take 4 d = [0x7f, 0x45, 0x4c, 0x46]"

text \<open>The program headers: each is cut from what could be read.\<close>

definition prog_headers :: "byte list \<Rightarrow> byte list \<Rightarrow> exn + byte list list" where
  "prog_headers file d = bind_e (u32 d 28) (\<lambda>phoff. bind_e (u16 d 42) (\<lambda>ent. bind_e (u16 d 44) (\<lambda>n.
     let ph = slice file phoff (phoff + ent * n) in
     Inr (map (\<lambda>i. slice ph (i * ent) ((i + 1) * ent)) (py_range n)))))"

fun count_loads :: "byte list list \<Rightarrow> exn + nat" where
  "count_loads [] = Inr 0"
| "count_loads (e # es) = (if 20 \<le> length e then bind_e (u32 e 0) (\<lambda>ty. bind_e (u32 e 16) (\<lambda>filesz.
       bind_e (count_loads es) (\<lambda>n. Inr (if ty = 1 \<and> filesz \<noteq> 0 then Suc n else n))))
     else count_loads es)"

definition m68k_elf_loads :: "byte list \<Rightarrow> bool \<times> nat" where
  "m68k_elf_loads file = (let d = take 64 file in
     if \<not> elf_head d then (False, 0)
     else if d ! 4 \<noteq> 1 \<or> d ! 5 \<noteq> 2 then (False, 0)
     else case bind_e (u16 d 18) (\<lambda>m. if m \<noteq> 4 then Inr (False, 0)
         else bind_e (prog_headers file d) (\<lambda>es. bind_e (count_loads es) (\<lambda>n. Inr (True, n)))) of
       Inr r \<Rightarrow> r | Inl _ \<Rightarrow> (False, 0))"

definition is_exposed :: "int \<Rightarrow> byte list \<Rightarrow> exn + bool" where
  "is_exposed st e = (if length e < 32 then Inr False else
     bind_e (u32 e 0) (\<lambda>ty. bind_e (u32 e 4) (\<lambda>off. bind_e (u32 e 16) (\<lambda>filesz.
     if ty \<noteq> 1 \<or> filesz = 0 then Inr False
     else let last_page = (off + filesz - 1) div 4096 * 4096 in
       Inr (1 \<le> st - last_page \<and> st - last_page \<le> 2048)))))"

definition exposed_loads :: "byte list \<Rightarrow> nat" where
  "exposed_loads file = (let d = take 64 file in
     if \<not> elf_head d \<or> d ! 5 \<noteq> 2 then 0
     else case bind_e (u16 d 18) (\<lambda>m. if m \<noteq> 4 then Inr 0
         else bind_e (prog_headers file d) (\<lambda>es. bind_e (map_e (is_exposed (int (length file))) es)
           (\<lambda>xs. Inr (length (filter id xs))))) of
       Inr n \<Rightarrow> n | Inl _ \<Rightarrow> 0)"

text \<open>The regular files below a root, in the order of the walk: path, base name, content.\<close>

type_synonym found = "(string \<times> string \<times> byte list) list"

definition elf_roots :: "string list" where
  "elf_roots = [''bin'', ''sbin'', ''etc'', ''usr/bin'', ''usr/sbin'', ''usr/lib'']"

definition elf_PREF :: "string list" where
  "elf_PREF = [''uname'', ''pwd'', ''echo'', ''date'', ''ls'', ''ps'', ''mkdir'', ''hostname'']"

definition elf_CPREF :: "string list" where
  "elf_CPREF = [''uname'', ''pwd'', ''echo'', ''date'', ''ls'', ''cat'', ''hostname'', ''sync'']"

definition pref_rank :: "string list \<Rightarrow> string \<times> string \<times> byte list \<Rightarrow> nat \<times> string" where
  "pref_rank prefs x = (case x of (path, base, c) \<Rightarrow>
     ((case first_pos (\<lambda>n. n = base) prefs of Some k \<Rightarrow> k | None \<Rightarrow> length prefs), path))"

definition exposed_files :: "found \<Rightarrow> found" where
  "exposed_files fs = filter (\<lambda>(path, base, c). exposed_loads c > 0) fs"

definition control_files :: "found \<Rightarrow> found" where
  "control_files fs = filter (\<lambda>(path, base, c). exposed_loads c = 0
     \<and> fst (m68k_elf_loads c) \<and> snd (m68k_elf_loads c) > 0) fs"

definition copy_first :: "(string \<Rightarrow> byte list \<Rightarrow> byte list) \<Rightarrow> string \<Rightarrow> string list \<Rightarrow> found \<Rightarrow> dir \<Rightarrow> dir" where
  "copy_first share prefix prefs fs d = (case sort_key (pref_rank prefs) fs of
     [] \<Rightarrow> d
   | (path, base, c) # _ \<Rightarrow> AList.update (prefix @ base) (share (prefix @ base) c) d)"

definition gen_elf :: "(string \<Rightarrow> byte list \<Rightarrow> byte list) \<Rightarrow> (string \<Rightarrow> found) \<Rightarrow> string \<Rightarrow> dir \<Rightarrow> dir" where
  "gen_elf share files_of tag d = (let fs = concat (map files_of elf_roots) in
     if exposed_files fs = [] then d
     else copy_first share (''elfc_'' @ tag @ ''_'') elf_CPREF (control_files fs)
       (copy_first share (''elfx_'' @ tag @ ''_'') elf_PREF (exposed_files fs) d))"

text \<open>The arguments; \<open>d\<close> is the directory the first of them names.\<close>

definition tailgen_main :: "(string \<Rightarrow> byte list \<Rightarrow> byte list) \<Rightarrow> (string \<Rightarrow> string \<Rightarrow> found) \<Rightarrow> string list
    \<Rightarrow> dir \<Rightarrow> dir \<times> (exn + unit)" where
  "tailgen_main share files_of a d = (case a of
     [] \<Rightarrow> (d, Inl (SystemExit ''usage''))
   | x # xs \<Rightarrow> if x = ''--elf'' then (case xs of
         outdir # vanilla # ys \<Rightarrow> (gen_elf share (files_of vanilla) (case ys of t # _ \<Rightarrow> t | [] \<Rightarrow> ''r1'') d, Inr ())
       | _ \<Rightarrow> (d, Inl (SystemExit ''usage'')))
     else gen_data share (case xs of t # _ \<Rightarrow> t | [] \<Rightarrow> ''r1'') d)"

subsection \<open>nfstruth-verify.py\<close>

definition patbyte :: "int \<Rightarrow> int" where
  "patbyte o' = (drop_bit 9 o') mod 251 + 1"

text \<open>A wrong size; or how many bytes are wrong, in which regions, and the first of them.\<close>

datatype truth_problem = Size int int | Bytes nat int "int list"

text \<open>The loop ends after 4097 wrong bytes.\<close>

definition truth_bad :: "byte list \<Rightarrow> int \<Rightarrow> int list" where
  "truth_bad data expect = take 4097 (filter (\<lambda>o'. uint (data ! nat o') \<noteq> patbyte o')
     (py_range (min (int (length data)) expect)))"

definition truth_check :: "byte list \<Rightarrow> int \<Rightarrow> truth_problem list" where
  "truth_check data expect =
     (if int (length data) \<noteq> expect then [Size (int (length data)) expect] else [])
     @ (case truth_bad data expect of [] \<Rightarrow> []
        | o' # os \<Rightarrow> [Bytes (Suc (length os)) o' (sort (remdups (map (drop_bit 9) (o' # os))))])"

definition truth_name :: "string \<Rightarrow> int option" where
  "truth_name f = do { s \<leftarrow> lit ''truth'' f; (n, s) \<leftarrow> digits s; s \<leftarrow> lit ''.bin'' s;
     if s = [] \<or> s = newline then Some n else None }"

definition truth_main :: "dir \<Rightarrow> (string \<times> truth_problem list) list \<times> (exn + unit)" where
  "truth_main d = (let files = sort (map fst (filter (\<lambda>f. truth_name (fst f) \<noteq> None) d)) in
     if files = [] then ([], Inl (SystemExit ''no truth*.bin''))
     else let ps = map (\<lambda>f. (f, truth_check (the (map_of d f)) (the (truth_name f)))) files in
       (ps, if list_all (\<lambda>(f, p). p = []) ps then Inr () else Inl (SystemExit ''1'')))"

subsection \<open>The pattern\<close>

lemma pat_range: "0 < pat o' \<and> pat o' < 256"
proof -
  let ?x = "(o' XOR drop_bit 8 o' XOR drop_bit 16 o') AND 0xFE"
  have "0 \<le> ?x" "?x \<le> 0xFE" by (simp_all add: AND_upper2)
  moreover have "(?x + 1) AND 0xFF = (?x + 1) mod 256" using take_bit_eq_mask [of 8 "?x + 1"]
    by (simp add: take_bit_eq_mod mask_eq_exp_minus_1)
  ultimately show ?thesis by (simp add: pat_def)
qed

lemma pat_eq_bits:
  assumes "pat a = pat b" "bit (0xFE :: int) n"
  shows "bit (a XOR drop_bit 8 a XOR drop_bit 16 a) n = bit (b XOR drop_bit 8 b XOR drop_bit 16 b) n"
proof -
  let ?m = "\<lambda>x :: int. (x XOR drop_bit 8 x XOR drop_bit 16 x) AND 0xFE"
  have p: "pat x = ?m x + 1" for x
  proof -
    have "0 \<le> ?m x" "?m x \<le> 0xFE" by (simp_all add: AND_upper2)
    then show ?thesis using take_bit_eq_mask [of 8 "?m x + 1"]
      by (simp add: pat_def take_bit_eq_mod mask_eq_exp_minus_1)
  qed
  then have "bit (?m a) n = bit (?m b) n" using assms(1) by simp
  then show ?thesis using assms(2) by (simp add: bit_and_iff)
qed

text \<open>
  The same place of two regions of 512 bytes never holds the same byte, in files below 64 KiB: a page, half
  page or block that arrives in the wrong place is wrong in every byte.
\<close>

lemma pat_regions:
  assumes "pat (512 * i + x) = pat (512 * j + x)" "0 \<le> x" "x < 512" "0 \<le> i" "i < 128" "0 \<le> j" "j < 128"
  shows "i = j"
proof (rule bit_eqI)
  fix n
  have "take_bit 9 x = x" using assms(2,3) by (simp add: take_bit_int_eq_self_iff)
  then have b: "bit (512 * k + x) m = (if m < 9 then bit x m else bit k (m - 9))" for k m
    using bit_concat_bit_iff [of 9 x k m] concat_bit_eq [of 9 x k]
    by (simp add: push_bit_eq_mult algebra_simps)
  have big: "\<not> bit k n" if "0 \<le> k" "k < 128" "7 \<le> n" for k :: int
    using bit_take_bit_iff [of 7 k n] that take_bit_int_eq_self_iff [of 7 k] by simp
  show "bit i n = bit j n"
  proof (cases "n < 7")
    case True
    then have "n = 0 \<or> n = 1 \<or> n = 2 \<or> n = 3 \<or> n = 4 \<or> n = 5 \<or> n = 6" by arith
    then have fe: "bit (0xFE :: int) (Suc n)" by (elim disjE; simp)
    have hi: "\<not> bit (512 * k + x) (Suc n + 16)" if "0 \<le> k" "k < 128" for k
      using bit_take_bit_iff [of 16 "512 * k + x" "Suc n + 16"] that assms(2,3)
        take_bit_int_eq_self_iff [of 16 "512 * k + x"] by simp
    show ?thesis using pat_eq_bits [OF assms(1) fe] hi [OF assms(4,5)] hi [OF assms(6,7)] True
      by (auto simp: bit_simps b)
  next
    case False
    then show ?thesis using big assms(4-7) by simp
  qed
qed

subsection \<open>The manifest is read as it was written\<close>

lemma ascii_chars: "decode_latin1 (ascii s) = s"
  by (simp add: decode_latin1_iff)

lemma fgets_line:
  assumes "CHR 0x0A \<notin> set t" "length t < 255"
  shows "fgets_lines (t @ newline @ s) = (t @ newline) # fgets_lines s"
proof -
  have "takeWhile (\<lambda>c. c \<noteq> CHR 0x0A) (t @ newline @ s) = t"
    using assms(1) by (auto simp: newline_def takeWhile_tail)
  then show ?thesis using assms(2) by (subst fgets_lines.simps) (simp add: Let_def newline_def)
qed

lemma int_str_c_solid: "0 \<le> n \<Longrightarrow> list_all (\<lambda>c. \<not> c_space c) (int_str n)"
  using int_str_digits [of n] by (auto simp: list_all_iff c_space_def is_digit_def)

lemma scan_number:
  assumes "0 \<le> n" "case r of c # _ \<Rightarrow> \<not> is_digit c | [] \<Rightarrow> True"
  shows "scan_ld (CHR '' '' # int_str n @ r) = Some (n, r)"
proof -
  note d = int_str_digits [OF assms(1)]
  obtain c t where c: "int_str n = c # t" using d by (cases "int_str n") auto
  then have digit: "is_digit c" using d by simp
  then have "\<not> c_space c" "c \<noteq> CHR ''-''" "c \<noteq> CHR ''+''" by (auto simp: c_space_def is_digit_def ord_c_def)
  moreover have "c_space (CHR '' '')" by (simp add: c_space_def ord_c_def)
  moreover have "takeWhile is_digit (int_str n @ r) = int_str n" "dropWhile is_digit (int_str n @ r) = r"
    using d assms(2) by (auto simp: list_all_iff takeWhile_append dropWhile_append split: list.splits)
  then have "digits (int_str n @ r) = Some (n, r)" using d by (simp add: digits_def run1_def)
  ultimately show ?thesis by (simp add: scan_ld_def c)
qed

lemma scan_manifest:
  assumes "name \<noteq> []" "list_all (\<lambda>c. \<not> c_space c) name" "0 \<le> sz" "0 \<le> r"
  shows "scan_entry (manifest_line (name, sz, r)) = Some (name, sz, r)"
proof -
  let ?rest = "CHR '' '' # int_str sz @ CHR '' '' # int_str r @ newline"
  obtain c t where c: "name = c # t" using assms(1) by (cases name) auto
  have sp: "c_space (CHR '' '')" by (simp add: c_space_def ord_c_def)
  have "dropWhile c_space (name @ ?rest) = name @ ?rest" using assms(2) by (simp add: c)
  moreover have "takeWhile (\<lambda>c. \<not> c_space c) (name @ ?rest) = name" "dropWhile (\<lambda>c. \<not> c_space c) (name @ ?rest) = ?rest"
    using assms(2) sp by (auto simp: list_all_iff takeWhile_append dropWhile_append)
  moreover have "scan_ld ?rest = Some (sz, CHR '' '' # int_str r @ newline)"
    using assms(3) by (intro scan_number) (simp_all add: is_digit_def ord_c_def)
  moreover have "scan_ld (CHR '' '' # int_str r @ newline) = Some (r, newline)"
    using assms(4) by (intro scan_number) (simp_all add: is_digit_def ord_c_def newline_def)
  ultimately show ?thesis using assms(1) by (simp add: scan_entry_def manifest_line_def run1_def Let_def)
qed

definition plain_tag :: "string \<Rightarrow> bool" where
  "plain_tag tag \<longleftrightarrow> list_all (\<lambda>c. \<not> c_space c) tag \<and> length tag < 100"

lemma manifest_read:
  assumes "plain_tag tag" "\<forall>(name, sz, r) \<in> set names. name \<noteq> [] \<and> hd name \<noteq> CHR ''#'' \<and> list_all (\<lambda>c. \<not> c_space c) name
     \<and> 0 \<le> sz \<and> 0 \<le> r \<and> length (manifest_line (name, sz, r)) < 255"
  shows "manifest_entries (manifest tag names) = names"
proof -
  have nl: "CHR 0x0A \<notin> set s" if "list_all (\<lambda>c. \<not> c_space c) s" for s
    using that by (auto simp: list_all_iff c_space_def ord_c_def)
  have loop: "manifest_entries (concat (map manifest_line names)) = names" using assms(2)
  proof (induction names)
    case (Cons x names)
    obtain name sz r where x: "x = (name, sz, r)" by (cases x)
    let ?t = "name @ '' '' @ int_str sz @ '' '' @ int_str r"
    have n: "name \<noteq> []" "hd name \<noteq> CHR ''#''" "list_all (\<lambda>c. \<not> c_space c) name" "0 \<le> sz" "0 \<le> r" "length ?t < 255"
      using Cons.prems by (auto simp: x manifest_line_def newline_def)
    have "CHR 0x0A \<notin> set ?t" using nl n(3) nl [OF int_str_c_solid] n(4,5) by simp
    from fgets_line [OF this n(6)] have "fgets_lines (concat (map manifest_line (x # names)))
        = manifest_line x # fgets_lines (concat (map manifest_line names))"
      by (simp add: x manifest_line_def)
    moreover have "\<not> is_comment (manifest_line x)"
      using n(1-3) by (cases name) (auto simp: x manifest_line_def is_comment_def c_space_def ord_c_def)
    moreover have "scan_entry (manifest_line x) = Some x" using n by (simp add: x scan_manifest)
    ultimately show ?case using Cons by (simp add: manifest_entries_def)
  qed (simp add: manifest_entries_def fgets_lines.simps [of "[]"])
  have head: "manifest_entries (t @ newline @ s) = manifest_entries s"
    if "hd t = CHR ''#''" "t \<noteq> []" "CHR 0x0A \<notin> set t" "length t < 255" for t s
    using that fgets_line [of t s] by (cases t) (simp_all add: manifest_entries_def is_comment_def)
  have "CHR 0x0A \<notin> set tag" "length tag < 100" using assms(1) nl by (simp_all add: plain_tag_def)
  then show ?thesis using loop head [of "''# ISSUE-36 acceptance corpus, run tag '' @ tag"]
      head [of "''# pattern: ((o ^ (o>>8) ^ (o>>16)) & 0xfe) + 1   (never zero)''"]
      head [of "''# expectation on the OLD kernel: r in 1..2048 SIGBUS; r 0/2049/4095 pass''"]
    by (simp add: manifest_def)
qed

subsection \<open>The corpus tells the kernels apart\<close>

text \<open>
  What a kernel does with the last page of a file of a given size: it fills the rest with zeros, it refuses
  the page, or it leaves something in the rest.  The pages in front come out as they are stored.
\<close>

datatype tail_kind = Filled | Refused | Stale

definition serves :: "kernel \<Rightarrow> (int \<Rightarrow> tail_kind) \<Rightarrow> bool" where
  "serves k kind \<longleftrightarrow> (\<forall>c. c \<noteq> [] \<longrightarrow> (let n = int (length c); past = {n ..< n + (4096 - n mod 4096) mod 4096} in
     \<exists>p. k c n = Some p
       \<and> (\<forall>o' \<in> {0 ..< n}. p o' = (if kind n = Refused \<and> o' div 4096 = (n - 1) div 4096 then None else Some (c ! nat o')))
       \<and> (kind n = Filled \<longrightarrow> (\<forall>o' \<in> past. p o' = Some 0))
       \<and> (kind n = Stale \<longrightarrow> (\<forall>o' \<in> past. p o' \<noteq> None) \<and> (\<exists>o' \<in> past. p o' \<noteq> Some 0))))"

definition shows_kind :: "tail_kind \<Rightarrow> tail_verdict \<Rightarrow> bool" where
  "shows_kind kind v \<longleftrightarrow> (case kind of Filled \<Rightarrow> v = Passed | Refused \<Rightarrow> v = Faulted
     | Stale \<Rightarrow> (case v of Past_eof n \<Rightarrow> n > 0 | _ \<Rightarrow> False))"

lemma and_page: "x AND 0xFFF = x mod 4096" for x :: int
  using take_bit_eq_mask [of 12 x] by (simp add: take_bit_eq_mod mask_eq_exp_minus_1)

lemma and_not_page: "x AND NOT 0xFFF = x div 4096 * 4096" for x :: int
proof -
  have "x AND NOT (mask 12) = push_bit 12 (drop_bit 12 x)" by (intro bit_eqI) (auto simp: bit_simps)
  then show ?thesis by (simp add: mask_eq_exp_minus_1 push_bit_eq_mult drop_bit_eq_div)
qed

lemma and_neg_page: "x AND - 4096 = x div 4096 * 4096" for x :: int
  using and_not_page [of x] by simp

lemma set_c_range: "set (c_range a b) = {a ..< b}"
proof
  show "{a ..< b} \<subseteq> set (c_range a b)"
  proof
    fix x assume "x \<in> {a ..< b}"
    then have "x = a + (x - a)" "x - a \<in> set (py_range (b - a))" by simp_all
    then show "x \<in> set (c_range a b)" unfolding c_range_def set_map by (rule image_eqI)
  qed
qed (auto simp: c_range_def)

lemma first_bad_none: "\<forall>o' \<in> set os. \<exists>v. p o' = Some v \<and> uint v = pat o' \<Longrightarrow> first_bad p os = Some None"
  by (induction os) auto

lemma count_nonzero_total: "\<forall>o' \<in> set os. p o' \<noteq> None \<Longrightarrow> \<exists>n. count_nonzero p os = Some n"
  by (induction os) auto

lemma count_nonzero_zero: "count_nonzero p os = Some n \<Longrightarrow> n = 0 \<longleftrightarrow> (\<forall>o' \<in> set os. p o' = Some 0)"
proof (induction os arbitrary: n)
  case (Cons o' os)
  then obtain v m where "p o' = Some v" "count_nonzero p os = Some m" "n = (if v \<noteq> 0 then Suc m else m)"
    by (auto split: option.splits)
  then show ?case using Cons.IH [of m] by auto
qed simp

lemma pattern_nth: "0 \<le> o' \<Longrightarrow> o' < sz \<Longrightarrow> uint (pattern sz ! nat o') = pat o'"
  using pat_range [of o'] by (simp add: pattern_def py_range_def unsigned_of_int take_bit_int_eq_self)

lemma tail_file_kind:
  assumes k: "serves k kind" and sz: "0 < sz"
  shows "shows_kind (kind sz) (tail_file k (Some (pattern sz)) sz (sz mod 4096))"
proof -
  let ?c = "pattern sz" and ?past = "{sz ..< sz + (4096 - sz mod 4096) mod 4096}"
  have l: "int (length ?c) = sz" using sz by (simp add: pattern_def py_range_def)
  then have "?c \<noteq> []" using sz by auto
  with k have "let n = int (length ?c); past = {n ..< n + (4096 - n mod 4096) mod 4096} in
     \<exists>p. k ?c n = Some p
       \<and> (\<forall>o' \<in> {0 ..< n}. p o' = (if kind n = Refused \<and> o' div 4096 = (n - 1) div 4096 then None else Some (?c ! nat o')))
       \<and> (kind n = Filled \<longrightarrow> (\<forall>o' \<in> past. p o' = Some 0))
       \<and> (kind n = Stale \<longrightarrow> (\<forall>o' \<in> past. p o' \<noteq> None) \<and> (\<exists>o' \<in> past. p o' \<noteq> Some 0))"
    unfolding serves_def by blast
  then obtain p where p: "k ?c sz = Some p"
    "\<forall>o' \<in> {0 ..< sz}. p o' = (if kind sz = Refused \<and> o' div 4096 = (sz - 1) div 4096 then None else Some (?c ! nat o'))"
    "kind sz = Filled \<Longrightarrow> \<forall>o' \<in> ?past. p o' = Some 0"
    "kind sz = Stale \<Longrightarrow> (\<forall>o' \<in> ?past. p o' \<noteq> None) \<and> (\<exists>o' \<in> ?past. p o' \<noteq> Some 0)"
    unfolding l Let_def by blast
  show ?thesis
  proof (cases "kind sz = Refused")
    case True
    then show ?thesis using p(1,2) sz by (simp add: tail_file_def shows_kind_def)
  next
    case False
    then have q: "\<forall>o' \<in> {0 ..< sz}. p o' = Some (?c ! nat o')" using p(2) by simp
    then have fb: "first_bad p (c_range 0 sz) = Some None" by (intro first_bad_none) (simp add: set_c_range pattern_nth)
    have tail: "p (sz - 1) = Some (?c ! nat (sz - 1))" using q sz by simp
    have past: "{sz ..< sz div 4096 * 4096 + 4096} = ?past" if "sz mod 4096 \<noteq> 0"
    proof -
      have "0 \<le> sz mod 4096" "sz mod 4096 < 4096" by simp_all
      then have "(4096 - sz mod 4096) mod 4096 = 4096 - sz mod 4096" using that by (intro mod_pos_pos_trivial) linarith+
      moreover have "sz div 4096 * 4096 + 4096 = sz + (4096 - sz mod 4096)"
        by (simp only: minus_mod_eq_div_mult [symmetric])
      ultimately show ?thesis by (simp only:)
    qed
    obtain n where n: "(if sz mod 4096 \<noteq> 0 then count_nonzero p (c_range sz (sz div 4096 * 4096 + 4096)) else Some 0) = Some n"
      "n = 0 \<longleftrightarrow> (\<forall>o' \<in> ?past. p o' = Some 0)"
    proof (cases "sz mod 4096 = 0")
      case False
      have "\<forall>o' \<in> ?past. p o' \<noteq> None" using p(3,4) \<open>kind sz \<noteq> Refused\<close> by (cases "kind sz") auto
      then obtain n where "count_nonzero p (c_range sz (sz div 4096 * 4096 + 4096)) = Some n"
        "n = 0 \<longleftrightarrow> (\<forall>o' \<in> ?past. p o' = Some 0)"
        using count_nonzero_total [of "c_range sz (sz div 4096 * 4096 + 4096)" p] past [OF False]
          count_nonzero_zero [of p "c_range sz (sz div 4096 * 4096 + 4096)"]
        unfolding set_c_range by metis
      then show thesis using that False by simp
    qed (use that in simp)
    have "tail_file k (Some ?c) sz (sz mod 4096) = (if n > 0 then Past_eof n else Passed)"
      using p(1) tail fb n(1) by (simp add: tail_file_def Let_def and_neg_page)
    then show ?thesis using n(2) p(3,4) False by (cases "kind sz") (auto simp: shows_kind_def)
  qed
qed

subsection \<open>The corpus is found again\<close>

lemma int_str_inj: "0 \<le> a \<Longrightarrow> 0 \<le> b \<Longrightarrow> int_str a = int_str b \<Longrightarrow> a = b"
  by (metis int_str_digits)

lemma tail_name_inj:
  assumes "tail_name tag a = tail_name tag b" "0 \<le> a" "0 \<le> b" shows "a = b"
proof -
  have t: "takeWhile is_digit (int_str n @ CHR ''_'' # r) = int_str n" if "0 \<le> n" for n r
    using int_str_digits [OF that] by (auto simp: takeWhile_append list_all_iff is_digit_def ord_c_def)
  have "int_str a @ CHR ''_'' # (''r'' @ int_str (a AND 0xFFF)) = int_str b @ CHR ''_'' # (''r'' @ int_str (b AND 0xFFF))"
    using assms(1) by (simp add: tail_name_def)
  from arg_cong [OF this, of "takeWhile is_digit"] have "int_str a = int_str b"
    unfolding t [OF assms(2)] t [OF assms(3)] .
  then show ?thesis using int_str_inj assms(2,3) by simp
qed

lemma manifest_name_other: "0 \<le> sz \<Longrightarrow> manifest_name tag \<noteq> tail_name tag sz"
  using int_str_digits [of sz] by (cases "int_str sz") (auto simp: manifest_name_def tail_name_def is_digit_def ord_c_def)

lemma gen_files_ok:
  assumes "\<And>name b. share name b = b" "list_all (\<lambda>sz. 0 \<le> sz) szs"
  shows "\<exists>d'. gen_files share tag szs d = (d', Inr (map (\<lambda>sz. (tail_name tag sz, sz, sz AND 0xFFF)) szs))
     \<and> (\<forall>sz. 0 \<le> sz \<longrightarrow> map_of d' (tail_name tag sz) =
          (if sz \<in> set szs then Some (pattern sz) else map_of d (tail_name tag sz)))"
  using assms(2)
proof (induction szs arbitrary: d)
  case (Cons s szs)
  let ?d = "AList.update (tail_name tag s) (pattern s) d"
  obtain d' where d': "gen_files share tag szs ?d = (d', Inr (map (\<lambda>sz. (tail_name tag sz, sz, sz AND 0xFFF)) szs))"
    "\<forall>sz. 0 \<le> sz \<longrightarrow> map_of d' (tail_name tag sz) =
       (if sz \<in> set szs then Some (pattern sz) else map_of ?d (tail_name tag sz))"
    using Cons.IH [of ?d] Cons.prems by auto
  have "int (length (pattern s)) = s" using Cons.prems by (simp add: pattern_def)
  moreover have "map_of ?d (tail_name tag sz) = (if sz = s then Some (pattern s) else map_of d (tail_name tag sz))"
    if "0 \<le> sz" for sz
    using that Cons.prems tail_name_inj [of tag sz s] by (auto simp: update_conv')
  moreover have "gen_files share tag (s # szs) d
      = (d', Inr (map (\<lambda>sz. (tail_name tag sz, sz, sz AND 0xFFF)) (s # szs)))"
    by (simp add: Let_def assms(1) d'(1) calculation(1))
  ultimately show ?case using d'(2) by (intro exI [of _ d']) simp
qed simp

lemma nat_str_length_le: "n < 10 ^ Suc k \<Longrightarrow> length (nat_str n) \<le> Suc k"
proof (induction k arbitrary: n)
  case (Suc k)
  have "n div 10 < 10 ^ Suc k" using Suc.prems by (simp add: less_mult_imp_div_less)
  from Suc.IH [OF this] show ?case by (subst nat_str.simps) simp
qed (simp add: nat_str.simps)

lemma tail_entry_ok:
  assumes "plain_tag tag" "sz \<in> set (map fst tail_CASES)"
  shows "tail_name tag sz \<noteq> [] \<and> hd (tail_name tag sz) \<noteq> CHR ''#'' \<and> list_all (\<lambda>c. \<not> c_space c) (tail_name tag sz)
     \<and> 0 \<le> sz \<and> 0 \<le> sz AND 0xFFF \<and> length (manifest_line (tail_name tag sz, sz, sz AND 0xFFF)) < 255"
proof -
  have sz: "0 \<le> sz" "sz < 99999" using assms(2) by (auto simp: tail_CASES_def)
  have l: "length (int_str n) \<le> 5" if "0 \<le> n" "n < 99999" for n
    using nat_str_length_le [of "nat n" 4] that by (simp add: int_str_def nat_less_iff)
  have r: "0 \<le> sz AND 0xFFF" "sz AND 0xFFF < 99999" by (simp_all add: and_page)
  have t: "length tag < 100" "list_all (\<lambda>c. \<not> c_space c) tag" using assms(1) by (simp_all add: plain_tag_def)
  show ?thesis using sz r t l [OF sz] l [OF r] int_str_c_solid [OF sz(1)] int_str_c_solid [OF r(1)]
    by (simp add: tail_name_def manifest_line_def newline_def c_space_def ord_c_def)
qed

lemma corpus_run:
  assumes "\<And>name b. share name b = b" "plain_tag tag" "serves k kind"
  shows "\<exists>d' vs. gen_data share tag d = (d', Inr ())
    \<and> nfstail_main k d' (manifest_name tag) = (vs, if list_all (\<lambda>(name, sz, v). v = Passed) vs then 0 else 1)
    \<and> list_all2 (\<lambda>sz (name, sz', v). name = tail_name tag sz \<and> sz' = sz \<and> shows_kind (kind sz) v) (map fst tail_CASES) vs"
proof -
  define szs where "szs = map fst tail_CASES"
  let ?entry = "\<lambda>sz. (tail_name tag sz, sz, sz AND 0xFFF)"
  have pos: "0 < sz" if "sz \<in> set szs" for sz using that by (auto simp: szs_def tail_CASES_def)
  obtain d' where g: "gen_files share tag szs d = (d', Inr (map ?entry szs))"
    "\<forall>sz. 0 \<le> sz \<longrightarrow> map_of d' (tail_name tag sz) =
       (if sz \<in> set szs then Some (pattern sz) else map_of d (tail_name tag sz))"
    using gen_files_ok [OF assms(1), where szs = szs and tag = tag and d = d] pos by (force simp: list_all_iff)
  let ?m = "ascii (manifest tag (map ?entry szs))" and ?d = "\<lambda>m. AList.update (manifest_name tag) m d'"
  let ?v = "\<lambda>sz. (tail_name tag sz, sz, tail_file k (Some (pattern sz)) sz (sz mod 4096))"
  have gen: "gen_data share tag d = (?d ?m, Inr ())" by (simp add: gen_data_def g(1) [unfolded szs_def] Let_def assms(1) szs_def)
  have names: "map_of (?d m) (tail_name tag sz) = Some (pattern sz)" if "sz \<in> set szs" for sz m
    using g(2) that pos [OF that] manifest_name_other [of sz tag] by (auto simp: update_conv')
  have "manifest_entries (manifest tag (map ?entry szs)) = map ?entry szs"
    using tail_entry_ok [OF assms(2)] by (intro manifest_read [OF assms(2)]) (auto simp: szs_def)
  then have "nfstail_main k (?d ?m) (manifest_name tag)
      = (map ?v szs, if list_all (\<lambda>(name, sz, v). v = Passed) (map ?v szs) then 0 else 1)"
    using names by (simp add: nfstail_main_def update_conv' ascii_chars Let_def and_page comp_def cong: map_cong)
  moreover have "list_all2 (\<lambda>sz (name, sz', v). name = tail_name tag sz \<and> sz' = sz \<and> shows_kind (kind sz) v) szs (map ?v szs)"
    using tail_file_kind [OF assms(3) pos] by (simp add: list_all2_map2 list_all2_same)
  ultimately show ?thesis using gen unfolding szs_def by blast
qed

subsection \<open>The exposed binaries\<close>

text \<open>A nonempty segment to load, and its last byte.\<close>

definition load_end :: "byte list \<Rightarrow> int option" where
  "load_end e = (case (u32 e 0, u32 e 4, u32 e 16) of
     (Inr ty, Inr off, Inr filesz) \<Rightarrow> if ty = 1 \<and> filesz \<noteq> 0 then Some (off + filesz - 1) else None | _ \<Rightarrow> None)"

lemma u32_read: "20 \<le> length e \<Longrightarrow> \<exists>a b c. u32 e 0 = Inr a \<and> u32 e 4 = Inr b \<and> u32 e 16 = Inr c"
  using u32_total [of 0 e] u32_total [of 4 e] u32_total [of 16 e] by auto

lemma last_page_gap:
  fixes st x :: int
  assumes "x < st"
  shows "1 \<le> st - x div 4096 * 4096 \<and> st - x div 4096 * 4096 \<le> 2048
    \<longleftrightarrow> 1 \<le> st mod 4096 \<and> st mod 4096 \<le> 2048 \<and> x div 4096 = st div 4096"
proof -
  have le: "x div 4096 \<le> st div 4096" using assms by (intro zdiv_mono1) simp_all
  have st: "st = st div 4096 * 4096 + st mod 4096" by simp
  show ?thesis
  proof (cases "x div 4096 = st div 4096")
    case True
    have "st - x div 4096 * 4096 = st mod 4096" unfolding True by (rule minus_div_mult_eq_mod)
    then show ?thesis using True by simp
  next
    case False
    then have "x div 4096 + 1 \<le> st div 4096" using le by linarith
    moreover have "0 \<le> st mod 4096" by simp
    ultimately have "2048 < st - x div 4096 * 4096" using st by linarith
    then show ?thesis using False by linarith
  qed
qed

lemma is_exposed_page:
  assumes "32 \<le> length e" "\<And>x. load_end e = Some x \<Longrightarrow> x < st"
  shows "is_exposed st e = Inr (case load_end e of None \<Rightarrow> False
    | Some x \<Rightarrow> 1 \<le> st mod 4096 \<and> st mod 4096 \<le> 2048 \<and> x div 4096 = st div 4096)"
proof -
  obtain ty off filesz where f: "u32 e 0 = Inr ty" "u32 e 4 = Inr off" "u32 e 16 = Inr filesz"
    using u32_read [of e] assms(1) by auto
  show ?thesis
  proof (cases "ty = 1 \<and> filesz \<noteq> 0")
    case True
    let ?x = "off + filesz - 1"
    have "?x < st" using assms(2) f True by (simp add: load_end_def)
    then have "1 \<le> st - ?x div 4096 * 4096 \<and> st - ?x div 4096 * 4096 \<le> 2048
        \<longleftrightarrow> 1 \<le> st mod 4096 \<and> st mod 4096 \<le> 2048 \<and> ?x div 4096 = st div 4096"
      by (rule last_page_gap)
    then show ?thesis using True f assms(1) by (simp add: is_exposed_def load_end_def Let_def)
  next
    case False
    then have "load_end e = None" using f by (simp add: load_end_def)
    then show ?thesis using False f assms(1) by (simp add: is_exposed_def)
  qed
qed

lemma exposed_count:
  assumes "elf_head (take 64 file)" "file ! 5 = 2" "u16 file 18 = Inr 4" "prog_headers file (take 64 file) = Inr es"
    and "\<And>e. e \<in> set es \<Longrightarrow> 32 \<le> length e" "\<And>e x. e \<in> set es \<Longrightarrow> load_end e = Some x \<Longrightarrow> x < int (length file)"
  shows "exposed_loads file = length (filter (\<lambda>e. case load_end e of None \<Rightarrow> False
    | Some x \<Rightarrow> 1 \<le> int (length file) mod 4096 \<and> int (length file) mod 4096 \<le> 2048
        \<and> x div 4096 = int (length file) div 4096) es)"
proof -
  let ?st = "int (length file)"
  let ?hit = "\<lambda>e. case load_end e of None \<Rightarrow> False
    | Some x \<Rightarrow> 1 \<le> ?st mod 4096 \<and> ?st mod 4096 \<le> 2048 \<and> x div 4096 = ?st div 4096"
  have one: "is_exposed ?st e = Inr (?hit e)" if "e \<in> set es" for e
    by (rule is_exposed_page [OF assms(5) [OF that] assms(6) [OF that]])
  have "map_e (is_exposed ?st) es = Inr (map ?hit es)" using one by (induction es) auto
  moreover have l: "52 \<le> length file" using assms(1) by (simp add: elf_head_def)
  then have "u16 (take 64 file) 18 = Inr 4" using assms(3) by (simp add: u16_def slice_def clip_def take_drop min_def)
  moreover have "take 64 file ! 5 = 2" using assms(2) by simp
  moreover have "length (filter id (map ?hit es)) = length (filter ?hit es)" by (simp add: filter_map comp_def)
  ultimately show ?thesis using assms(1,4) by (simp add: exposed_loads_def Let_def)
qed

subsection \<open>The truth check\<close>

lemma ball_py_range: "(\<forall>x \<in> set (py_range (int n)). Q x) \<longleftrightarrow> (\<forall>k < n. Q (int k))"
proof
  assume q: "\<forall>k < n. Q (int k)"
  have "Q x" if "x \<in> set (py_range (int n))" for x
  proof -
    have "0 \<le> x" "nat x < n" using that by auto
    then show ?thesis using q [rule_format, of "nat x"] by simp
  qed
  then show "\<forall>x \<in> set (py_range (int n)). Q x" by blast
qed simp

lemma truth_check_none:
  "truth_check data expect = [] \<longleftrightarrow> int (length data) = expect \<and> (\<forall>k < length data. uint (data ! k) = patbyte (int k))"
proof (cases "int (length data) = expect")
  case True
  have "(\<forall>x \<in> set (py_range (int (length data))). uint (data ! nat x) = patbyte x)
      \<longleftrightarrow> (\<forall>k < length data. uint (data ! k) = patbyte (int k))"
    unfolding ball_py_range by simp
  then have "truth_bad data expect = [] \<longleftrightarrow> (\<forall>k < length data. uint (data ! k) = patbyte (int k))"
    using True by (simp add: truth_bad_def filter_empty_conv del: set_py_range)
  then show ?thesis using True by (auto simp: truth_check_def split: list.splits)
qed (simp add: truth_check_def)

lemma ball_some: "(\<forall>x \<in> {x \<in> A. g x \<noteq> None}. P x (the (g x))) \<longleftrightarrow> (\<forall>x \<in> A. case g x of None \<Rightarrow> True | Some n \<Rightarrow> P x n)"
  by (force split: option.splits)

lemma truth_main_ok:
  assumes "distinct (map fst d)"
  shows "snd (truth_main d) = Inr () \<longleftrightarrow> (\<exists>f \<in> set d. truth_name (fst f) \<noteq> None)
    \<and> (\<forall>f \<in> set d. case truth_name (fst f) of None \<Rightarrow> True
        | Some n \<Rightarrow> int (length (snd f)) = n \<and> (\<forall>k < length (snd f). uint (snd f ! k) = patbyte (int k)))"
proof -
  define files where "files = sort (map fst (filter (\<lambda>f. truth_name (fst f) \<noteq> None) d))"
  have set_files: "set files = fst ` {f \<in> set d. truth_name (fst f) \<noteq> None}" by (simp add: files_def)
  have "files = [] \<longleftrightarrow> \<not> (\<exists>f \<in> set d. truth_name (fst f) \<noteq> None)"
    unfolding set_empty [symmetric] set_files by blast
  moreover have "(\<forall>n \<in> set files. truth_check (the (map_of d n)) (the (truth_name n)) = []) \<longleftrightarrow>
     (\<forall>f \<in> set d. case truth_name (fst f) of None \<Rightarrow> True
        | Some n \<Rightarrow> int (length (snd f)) = n \<and> (\<forall>k < length (snd f). uint (snd f ! k) = patbyte (int k)))"
    (is "?A \<longleftrightarrow> ?B")
  proof -
    have "map_of d (fst f) = Some (snd f)" if "f \<in> set d" for f
      using assms that by (simp add: map_of_is_SomeI)
    then have "?A \<longleftrightarrow> (\<forall>f \<in> {f \<in> set d. truth_name (fst f) \<noteq> None}. truth_check (snd f) (the (truth_name (fst f))) = [])"
      unfolding set_files by auto
    also have "\<dots> \<longleftrightarrow> ?B" unfolding truth_check_none by (rule ball_some)
    finally show ?thesis .
  qed
  ultimately show ?thesis unfolding truth_main_def Let_def files_def [symmetric] by (auto simp: list_all_iff)
qed

subsection \<open>Properties\<close>

text \<open>
  C22: The read test decides.  The corpus of \<open>nfstail-gen.py\<close>, stored on a share that keeps what is written, is
  found again by \<open>nfstail.c\<close> through its manifest, file for file; and whatever a kernel does with the last page
  of each file, the verdicts say it: a page that is filled with zeros passes, a page that is refused is
  reported as a fault, and a page whose rest is left over is reported as bytes past the end.
\<close>

theorem tail_test_decides:
  assumes "\<And>name b. share name b = b" "plain_tag tag" "serves k kind"
  shows "\<exists>d' vs. gen_data share tag d = (d', Inr ())
    \<and> nfstail_main k d' (manifest_name tag) = (vs, if list_all (\<lambda>(name, sz, v). v = Passed) vs then 0 else 1)
    \<and> list_all2 (\<lambda>sz (name, sz', v). name = tail_name tag sz \<and> sz' = sz \<and> shows_kind (kind sz) v) (map fst tail_CASES) vs"
  by (rule corpus_run [OF assms])

text \<open>
  Nothing can be mistaken for anything else in the corpus: no byte of the pattern is zero, which is what a
  lost byte reads as, and the same place of two different regions of 512 bytes never holds the same byte,
  so that a region delivered in another's place is wrong throughout.
\<close>

theorem tail_pattern_tells:
  assumes "0 \<le> x" "x < 512" "0 \<le> i" "i < 128" "0 \<le> j" "j < 128"
  shows "pat (512 * i + x) \<noteq> 0 \<and> (pat (512 * i + x) = pat (512 * j + x) \<longleftrightarrow> i = j)"
  using pat_range [of "512 * i + x"] pat_regions [OF _ assms] by auto

text \<open>
  The search for binaries that a broken kernel cannot run finds exactly them.  In an m68k ELF file whose
  segments lie inside the file, \<open>exposed_loads\<close> counts the loaded segments that end in the last page of the
  file, if that page is one that the old gate refuses (one to 2048 bytes long), and no others.
\<close>

theorem exposed_loads_exact:
  assumes "elf_head (take 64 file)" "file ! 5 = 2" "u16 file 18 = Inr 4" "prog_headers file (take 64 file) = Inr es"
    and "\<And>e. e \<in> set es \<Longrightarrow> 32 \<le> length e" "\<And>e x. e \<in> set es \<Longrightarrow> load_end e = Some x \<Longrightarrow> x < int (length file)"
  shows "exposed_loads file = length (filter (\<lambda>e. case load_end e of None \<Rightarrow> False
    | Some x \<Rightarrow> 1 \<le> int (length file) mod 4096 \<and> int (length file) mod 4096 \<le> 2048
        \<and> x div 4096 = int (length file) div 4096) es)"
  by (rule exposed_count [OF assms])

text \<open>
  \<open>nfstruth-verify.py\<close> passes a directory exactly when it holds a file to check, and every file to check has
  the size of its name and the expected byte at every offset.
\<close>

theorem truth_check_exact:
  assumes "distinct (map fst d)"
  shows "snd (truth_main d) = Inr () \<longleftrightarrow> (\<exists>f \<in> set d. truth_name (fst f) \<noteq> None)
    \<and> (\<forall>f \<in> set d. case truth_name (fst f) of None \<Rightarrow> True
        | Some n \<Rightarrow> int (length (snd f)) = n \<and> (\<forall>k < length (snd f). uint (snd f ! k) = patbyte (int k)))"
  by (rule truth_main_ok [OF assms])

subsection \<open>Witnesses\<close>

text \<open>The kernel before the repair: it refuses a last page of one to 2048 bytes.\<close>

definition old_kind :: "int \<Rightarrow> tail_kind" where
  "old_kind n = (if 1 \<le> n mod 4096 \<and> n mod 4096 \<le> 2048 then Refused else Filled)"

definition old_kernel :: kernel where
  "old_kernel c n = Some (\<lambda>o'. if old_kind n = Refused \<and> o' div 4096 = (n - 1) div 4096 then None
     else if 0 \<le> o' \<and> o' < int (length c) then Some (c ! nat o') else Some 0)"

lemma old_serves: "serves old_kernel old_kind"
  by (auto simp: serves_def old_kernel_def old_kind_def Let_def)

lemma tail_test_decides_witness: "\<exists>d' vs. gen_data (\<lambda>name b. b) ''r1'' [] = (d', Inr ())
    \<and> nfstail_main old_kernel d' (manifest_name ''r1'') = (vs, if list_all (\<lambda>(name, sz, v). v = Passed) vs then 0 else 1)
    \<and> list_all2 (\<lambda>sz (name, sz', v). name = tail_name ''r1'' sz \<and> sz' = sz \<and> shows_kind (old_kind sz) v) (map fst tail_CASES) vs"
  by (rule tail_test_decides [OF refl _ old_serves]) (simp add: plain_tag_def c_space_def ord_c_def)

lemma tail_pattern_tells_witness: "pat (512 * 3 + 5) \<noteq> 0 \<and> (pat (512 * 3 + 5) = pat (512 * 4 + 5) \<longleftrightarrow> (3 :: int) = 4)"
  using tail_pattern_tells [of 5 3 4] by simp

lemma truth_check_exact_witness: "snd (truth_main [(''truth2.bin'', [1, 1])]) = Inr ()"
  by (subst truth_check_exact) (simp_all add: truth_name_def digits_def run1_def is_digit_def ord_c_def
      dec_def Let_def patbyte_def less_Suc_eq numeral_2_eq_2)

text \<open>A binary of a hundred bytes with one segment to load, all of the file.\<close>

definition tiny_header :: "byte list" where
  "tiny_header = [0, 0, 0, 1, 0, 0, 0, 0, 0, 0, 0, 0, 0, 0, 0, 0, 0, 0, 0, 100, 0, 0, 0, 0, 0, 0, 0, 0, 0, 0, 0, 0]"

definition tiny_elf :: "byte list" where
  "tiny_elf = [127, 69, 76, 70, 1, 2, 0, 0, 0, 0, 0, 0, 0, 0, 0, 0, 0, 0, 0, 4, 0, 0, 0, 0, 0, 0, 0, 0, 0, 0, 0, 52, 0, 0, 0, 0, 0, 0, 0, 0, 0, 0, 0, 32, 0, 1, 0, 0, 0, 0, 0, 0] @ tiny_header @ replicate 16 0"

lemma tiny_facts: "length tiny_elf = 100" "elf_head (take 64 tiny_elf)" "tiny_elf ! 5 = 2" "length tiny_header = 32"
  by code_simp+

lemma tiny_reads: "u16 tiny_elf 18 = Inr 4" "prog_headers tiny_elf (take 64 tiny_elf) = Inr [tiny_header]"
  "load_end tiny_header = Some 99"
  by code_simp+

lemma exposed_loads_exact_witness: "exposed_loads tiny_elf = 1"
proof -
  have "exposed_loads tiny_elf = length (filter (\<lambda>e. case load_end e of None \<Rightarrow> False
    | Some x \<Rightarrow> 1 \<le> int (length tiny_elf) mod 4096 \<and> int (length tiny_elf) mod 4096 \<le> 2048
        \<and> x div 4096 = int (length tiny_elf) div 4096) [tiny_header])"
    by (rule exposed_loads_exact) (simp_all add: tiny_facts tiny_reads)
  then show ?thesis by (simp add: tiny_facts tiny_reads)
qed

end
