(* ===== verification/Root_Family.thy ===== *)
theory Root_Family
  imports Kelf Py_Strings Prof_Report
begin

text \<open>
  \<open>check_root_family.py\<close>, which names the root-storage family of a linked kernel: the root device, the swap
  node, and the rows of the controller registry that the kernel scans.  It collects complaints and fails on
  any.  A report is the record of the values that are printed.
\<close>

subsection \<open>Device numbers and nodes\<close>

record devnum =
  d_major :: int
  d_minor :: int
  d_unit :: int
  d_card :: int
  d_slice :: int
  d_controller :: int

definition decode_dev :: "int \<Rightarrow> devnum" where
  "decode_dev dev = (let minor = dev mod 2 ^ 18 in
     \<lparr>d_major = dev div 2 ^ 18 mod 256, d_minor = minor, d_unit = minor mod 8, d_card = minor div 8 mod 2,
      d_slice = minor div 16 mod 8, d_controller = minor mod 16\<rparr>)"

definition dev_node :: "int \<Rightarrow> int \<Rightarrow> int \<Rightarrow> string" where
  "dev_node cd unit sl = ''/dev/dsk/c'' @ fmt_x (push_bit 3 cd OR unit) @ ''d0s'' @ int_str sl"

subsection \<open>The image\<close>

record rsym =
  rs_name :: string
  rs_value :: int
  rs_size :: int
  rs_info :: int
  rs_shndx :: int

definition rf_wanted :: "string list" where
  "rf_wanted = [''.text'', ''.data'', ''.symtab'', ''.rela.text'', ''.rela.data'']"

fun rf_have :: "string list \<Rightarrow> (string \<times> shdr) list \<Rightarrow> exn + unit" where
  "rf_have [] d = Inr ()"
| "rf_have (w # ws) d = (if map_of d w = None then Inl (SystemExit ''REFUSED: missing section'') else rf_have ws d)"

definition rf_open :: "byte list \<Rightarrow> exn + kelf" where
  "rf_open b = (if slice b 0 4 \<noteq> [0x7f, 0x45, 0x4c, 0x46] then Inl (SystemExit ''REFUSED: not ELF'') else
     bind_e (u16 b 16) (\<lambda>ty. if ty \<noteq> 1 then Inl (SystemExit ''REFUSED: not ET_REL'') else
     bind_e (section_table b) (\<lambda>(sh, base). bind_e (map_e (sec_name b base) sh) (\<lambda>names.
     let sec = py_dict (zip names sh) in
     bind_e (rf_have rf_wanted sec) (\<lambda>_. bind_e (dict_get ''.symtab'' sec) (\<lambda>st.
     bind_e (py_nth sh (s_link st)) (\<lambda>strt. bind_e (py_div (s_size st) (s_entsize st)) (\<lambda>syn.
     Inr \<lparr>k_sh = sh, k_names = names, k_sec = sec, k_syo = s_offset st, k_sye = s_entsize st, k_syn = syn,
           k_stro = s_offset strt\<rparr>))))))))"

definition rf_symname :: "byte list \<Rightarrow> kelf \<Rightarrow> int \<Rightarrow> exn + string" where
  "rf_symname b e i = bind_e (u32 b (k_syo e + i * k_sye e)) (\<lambda>n. bind_e (cstr b (k_stro e + n)) (\<lambda>s.
     Inr (decode_latin1 s)))"

definition rf_sym :: "byte list \<Rightarrow> kelf \<Rightarrow> int \<Rightarrow> exn + rsym" where
  "rf_sym b e i = (let p = k_syo e + i * k_sye e in
     bind_e (rf_symname b e i) (\<lambda>nm. bind_e (u32 b (p + 4)) (\<lambda>v. bind_e (u32 b (p + 8)) (\<lambda>sz.
     bind_e (byte_at b (p + 12)) (\<lambda>info. bind_e (u16 b (p + 14)) (\<lambda>shndx.
     Inr \<lparr>rs_name = nm, rs_value = v, rs_size = sz, rs_info = info, rs_shndx = shndx\<rparr>))))))"

text \<open>The dictionary behind \<open>lookup\<close>, filled with every symbol at the first call.\<close>

definition rf_enter :: "rsym \<Rightarrow> (string \<times> rsym) list \<Rightarrow> (string \<times> rsym) list" where
  "rf_enter s d = (if rs_name s = [] then d else (case map_of d (rs_name s) of
     None \<Rightarrow> AList.update (rs_name s) s d
   | Some cur \<Rightarrow> if rs_shndx cur = 0 \<and> rs_shndx s \<noteq> 0 then AList.update (rs_name s) s d else d))"

definition rf_byname :: "byte list \<Rightarrow> kelf \<Rightarrow> exn + (string \<times> rsym) list" where
  "rf_byname b e = bind_e (map_e (rf_sym b e) (py_range (k_syn e))) (\<lambda>ss. Inr (fold rf_enter ss []))"

definition rf_secbytes :: "byte list \<Rightarrow> kelf \<Rightarrow> string \<Rightarrow> exn + byte list" where
  "rf_secbytes b e name = bind_e (dict_get name (k_sec e)) (\<lambda>s. Inr (slice b (s_offset s) (s_offset s + s_size s)))"

text \<open>A relocation as (symbol index, type, addend).\<close>

definition rf_relocs :: "byte list \<Rightarrow> kelf \<Rightarrow> string \<Rightarrow> exn + (int \<times> int \<times> int \<times> int) list" where
  "rf_relocs b e secname = bind_e (dict_get secname (k_sec e)) (\<lambda>s. bind_e (nrels s) (\<lambda>n.
     bind_e (map_e (\<lambda>i. let p = row_pos s i in bind_e (u32 b (p + 4)) (\<lambda>info. bind_e (i32 b (p + 8)) (\<lambda>ad.
       bind_e (u32 b p) (\<lambda>off. Inr (off, info div 256, info mod 256, ad))))) (py_range n)) (\<lambda>kvs.
     Inr (py_dict kvs))))"

definition rf_target :: "byte list \<Rightarrow> kelf \<Rightarrow> int \<Rightarrow> int \<Rightarrow> exn + string option \<times> int \<times> string" where
  "rf_target b e i addend = bind_e (rf_sym b e i) (\<lambda>s. let n = int (length (k_names e)) in
     if rs_info s mod 16 = 3
     then bind_e (if rs_shndx s < n then bind_e (py_nth (k_names e) (rs_shndx s)) (\<lambda>x. Inr (Some x)) else Inr None)
       (\<lambda>sec. Inr (sec, addend, case sec of None \<Rightarrow> ''?'' | Some x \<Rightarrow> if x = [] then ''?'' else x))
     else bind_e (if 0 < rs_shndx s \<and> rs_shndx s < n then bind_e (py_nth (k_names e) (rs_shndx s)) (\<lambda>x. Inr (Some x))
         else Inr None)
       (\<lambda>sec. Inr (sec, rs_value s + addend, rs_name s)))"

text \<open>\<open>cstr\<close> answers \<open>None\<close> on every exception.\<close>

definition rf_cstr :: "byte list \<Rightarrow> int \<Rightarrow> string option" where
  "rf_cstr d off = (case index_nul d off of Inl _ \<Rightarrow> None | Inr j \<Rightarrow> Some (decode_latin1 (slice d off j)))"

subsection \<open>The arguments\<close>

record rf_args =
  a_path :: string
  a_queue :: "string option"
  a_card :: "int option"

fun rf_options :: "string list \<Rightarrow> rf_args \<Rightarrow> exn + rf_args" where
  "rf_options [] a = Inr a"
| "rf_options [x] a = Inl (SystemExit ''check_root_family: unknown argument'')"
| "rf_options (x # v # r) a = (if x = ''--require-queue'' then rf_options r (a\<lparr>a_queue := Some v\<rparr>)
     else if x = ''--require-card'' then bind_e (py_int v) (\<lambda>n. rf_options r (a\<lparr>a_card := Some n\<rparr>))
     else Inl (SystemExit ''check_root_family: unknown argument''))"

definition rf_argv :: "string list \<Rightarrow> exn + rf_args" where
  "rf_argv argv = (case argv of
     [] \<Rightarrow> Inl (SystemExit ''usage: check_root_family.py'')
   | p # r \<Rightarrow> if take 1 p = ''-'' then Inl (SystemExit ''usage: check_root_family.py'')
       else rf_options r \<lparr>a_path = p, a_queue = None, a_card = None\<rparr>)"

subsection \<open>What is read\<close>

datatype complaint =
    Anchor_count nat
  | Row_past_data int
  | Row_unrelocated int
  | Row_undefined int string
  | Bound_stale int int
  | Digit_differs char int
  | Digit_not_hex char
  | Card_range int
  | Queue_absent string
  | Card_other int

definition rf_anchor :: "byte list" where
  "rf_anchor = ascii ''/dev/dsk/c''"

text \<open>\<open>bytes.count\<close> and \<open>bytes.index\<close> of a pattern; occurrences do not overlap.\<close>

function (sequential) occurrences :: "byte list \<Rightarrow> byte list \<Rightarrow> nat \<Rightarrow> nat list" where
  "occurrences p [] i = []"
| "occurrences p (x # r) i = (if p \<noteq> [] \<and> take (length p) (x # r) = p
     then i # occurrences p (drop (length p) (x # r)) (i + length p) else occurrences p r (i + 1))"
  by pat_completeness auto
termination
proof (relation "measure (\<lambda>(p, b, i). length b)", goal_cases)
  case (2 p x r i)
  then have "0 < length p" by simp
  then have "Suc (length r) - length p < Suc (length r)" by linarith
  then show ?case by simp
qed auto

definition rf_root :: "byte list \<Rightarrow> kelf \<Rightarrow> (string \<times> rsym) list \<Rightarrow> byte list \<Rightarrow> exn + int" where
  "rf_root b e d data = (let missing = Inl (SystemExit ''REFUSED: no rootdev in .data'') in
     case map_of d ''rootdev'' of None \<Rightarrow> missing
   | Some rd \<Rightarrow> bind_e (py_nth (k_names e) (rs_shndx rd)) (\<lambda>home. if home \<noteq> ''.data'' then missing else u32 data (rs_value rd)))"

definition rf_swap :: "byte list \<Rightarrow> exn + string option \<times> complaint list" where
  "rf_swap b = (case occurrences rf_anchor b 0 of
     [o'] \<Rightarrow> bind_e (index_nul b (int o')) (\<lambda>j. Inr (Some (decode_latin1 (slice b (int o') j)), []))
   | os \<Rightarrow> Inr (None, [Anchor_count (length os)]))"

text \<open>The immediate of the loop bound, and the table its \<open>lea\<close> names: section, offset, name, size.\<close>

definition rf_bound :: "byte list \<Rightarrow> exn + int" where
  "rf_bound text = (if slice text 0xD74A 0xD74C \<noteq> [0x47, 0xf9]
     then Inl (SystemExit ''REFUSED: not the lea opcode'') else
     bind_e (byte_at text 0xD79E) (\<lambda>op. if op \<noteq> 0x72 then Inl (SystemExit ''REFUSED: not a moveq'')
       else byte_at text 0xD79F))"

definition rf_table :: "byte list \<Rightarrow> kelf \<Rightarrow> (string \<times> rsym) list \<Rightarrow> exn + int \<times> string \<times> int" where
  "rf_table b e d = bind_e (rf_relocs b e ''.rela.text'') (\<lambda>rt.
     let missing = Inl (SystemExit ''REFUSED: the scsicard operand is not relocated'') in
     case map_of rt 0xD74C of None \<Rightarrow> missing
   | Some (i, ty, ad) \<Rightarrow> if ty \<noteq> 1 then missing else
       bind_e (rf_target b e i ad) (\<lambda>(sec, off, name).
       if sec \<noteq> Some ''.data'' then Inl (SystemExit ''REFUSED: scsicard is not in .data'')
       else Inr (off, name, case map_of d name of None \<Rightarrow> 0 | Some s \<Rightarrow> rs_size s)))"

text \<open>A row: number, identifier, queue function, label.\<close>

type_synonym card_row = "int \<times> int \<times> string option \<times> string option"

definition rf_queue :: "byte list \<Rightarrow> kelf \<Rightarrow> (int \<times> int \<times> int) option \<Rightarrow> exn + string option" where
  "rf_queue b e rel = (case rel of None \<Rightarrow> Inr None
   | Some (i, ty, ad) \<Rightarrow> bind_e (rf_target b e i ad) (\<lambda>(sec, off, name). Inr (Some name)))"

definition rf_label :: "byte list \<Rightarrow> kelf \<Rightarrow> (int \<times> int \<times> int) option \<Rightarrow> exn + string option" where
  "rf_label b e rel = (case rel of None \<Rightarrow> Inr None
   | Some (i, ty, ad) \<Rightarrow> bind_e (rf_target b e i ad) (\<lambda>(sec, off, name).
       if sec = Some ''.data'' \<or> sec = Some ''.text'' then bind_e (rf_secbytes b e (the sec)) (\<lambda>s. Inr (rf_cstr s off))
       else Inr None))"

definition queue_complaint :: "(string \<times> rsym) list \<Rightarrow> int \<Rightarrow> string option \<Rightarrow> complaint list" where
  "queue_complaint d r q = (case q of None \<Rightarrow> [Row_unrelocated r]
   | Some name \<Rightarrow> if name = [] then [] else (case map_of d name of
       None \<Rightarrow> [Row_undefined r name]
     | Some s \<Rightarrow> if rs_shndx s = 0 then [Row_undefined r name] else []))"

definition rf_row :: "byte list \<Rightarrow> kelf \<Rightarrow> byte list \<Rightarrow> (int \<times> int \<times> int \<times> int) list \<Rightarrow> int \<Rightarrow> int \<Rightarrow> exn + card_row" where
  "rf_row b e data dr base r = bind_e (u32 data base) (\<lambda>ident. bind_e (rf_queue b e (map_of dr (base + 4))) (\<lambda>q.
     bind_e (rf_label b e (map_of dr (base + 8))) (\<lambda>lab. Inr (r, ident, q, lab))))"

fun rf_rows :: "byte list \<Rightarrow> kelf \<Rightarrow> (string \<times> rsym) list \<Rightarrow> byte list \<Rightarrow> (int \<times> int \<times> int \<times> int) list \<Rightarrow> int \<Rightarrow>
    int list \<Rightarrow> exn + card_row list \<times> complaint list" where
  "rf_rows b e d data dr off [] = Inr ([], [])"
| "rf_rows b e d data dr off (r # rs) = (let base = off + r * 12 in
     if int (length data) < base + 12 then Inr ([], [Row_past_data r])
     else bind_e (rf_row b e data dr base r) (\<lambda>row. bind_e (rf_rows b e d data dr off rs) (\<lambda>(rows, bad).
       Inr (row # rows, queue_complaint d r (fst (snd (snd row))) @ bad))))"

subsection \<open>What is asserted\<close>

record family =
  f_dev :: int
  f_swap :: "string option"
  f_bound :: int
  f_table :: string
  f_size :: int
  f_rows :: "card_row list"

definition bound_complaint :: "int \<Rightarrow> int \<Rightarrow> complaint list" where
  "bound_complaint bound tsize = (if tsize \<noteq> 0 \<and> tsize mod 12 = 0 \<and> tsize div 12 \<noteq> bound + 1
     then [Bound_stale bound tsize] else [])"

text \<open>\<open>int(digit, 16)\<close> of one character raises unless it is a hexadecimal digit.\<close>

definition digit_complaint :: "string option \<Rightarrow> devnum \<Rightarrow> exn + complaint list" where
  "digit_complaint swap g = (case swap of None \<Rightarrow> Inr []
   | Some s \<Rightarrow> bind_e (py_nth s 10) (\<lambda>c.
       Inr (if \<not> is_hex c then [Digit_not_hex c]
            else if hex_val c \<noteq> d_controller g then [Digit_differs c (d_controller g)] else [])))"

definition card_complaint :: "devnum \<Rightarrow> complaint list" where
  "card_complaint g = (if 2 \<le> d_card g then [Card_range (d_card g)] else [])"

definition rf_queues :: "card_row list \<Rightarrow> string list" where
  "rf_queues rows = filter (\<lambda>q. q \<noteq> []) (map (\<lambda>(r, ident, q, lab). case q of None \<Rightarrow> [] | Some s \<Rightarrow> s) rows)"

definition required_complaints :: "rf_args \<Rightarrow> string list \<Rightarrow> devnum \<Rightarrow> complaint list" where
  "required_complaints a queues g =
     (case a_queue a of None \<Rightarrow> [] | Some q \<Rightarrow> if q \<in> set queues then [] else [Queue_absent q])
     @ (case a_card a of None \<Rightarrow> [] | Some n \<Rightarrow> if d_card g = n then [] else [Card_other n])"

text \<open>The rows are read up to the end of \<open>.data\<close>; the answer is the report and the complaints.\<close>

definition rf_registry :: "byte list \<Rightarrow> kelf \<Rightarrow> (string \<times> rsym) list \<Rightarrow> byte list \<Rightarrow> byte list \<Rightarrow>
    exn + int \<times> (string \<times> int) \<times> card_row list \<times> complaint list" where
  "rf_registry b e d text data = bind_e (rf_bound text) (\<lambda>bound. bind_e (rf_table b e d) (\<lambda>(off, name, tsize).
     bind_e (rf_relocs b e ''.rela.data'') (\<lambda>dr. bind_e (rf_rows b e d data dr off (py_range (bound + 1))) (\<lambda>(rows, bad).
     Inr (bound, (name, tsize), rows, bad)))))"

definition rf_read :: "byte list \<Rightarrow> exn + family \<times> complaint list" where
  "rf_read b = bind_e (rf_open b) (\<lambda>e. bind_e (rf_secbytes b e ''.text'') (\<lambda>text. bind_e (rf_secbytes b e ''.data'') (\<lambda>data.
     bind_e (rf_byname b e) (\<lambda>d. bind_e (rf_root b e d data) (\<lambda>dev. bind_e (rf_swap b) (\<lambda>(swap, bad1).
     bind_e (rf_registry b e d text data) (\<lambda>(bound, (name, tsize), rows, bad2).
     bind_e (digit_complaint swap (decode_dev dev)) (\<lambda>bad3.
     Inr (\<lparr>f_dev = dev, f_swap = swap, f_bound = bound, f_table = name, f_size = tsize, f_rows = rows\<rparr>,
       bad1 @ bad2 @ bound_complaint bound tsize @ bad3 @ card_complaint (decode_dev dev))))))))))"

text \<open>The exit status is 0 exactly when there is no complaint.\<close>

definition root_family_main :: "string list \<Rightarrow> (string \<Rightarrow> byte list) \<Rightarrow> exn + family \<times> complaint list \<times> int" where
  "root_family_main argv files = bind_e (rf_argv argv) (\<lambda>a. bind_e (rf_read (files (a_path a))) (\<lambda>(f, bad).
     let all = bad @ required_complaints a (rf_queues (f_rows f)) (decode_dev (f_dev f))
     in Inr (f, all, if all = [] then 0 else 1)))"

subsection \<open>Device numbers\<close>

lemma decode_bounds:
  "0 \<le> d_unit (decode_dev dev) \<and> d_unit (decode_dev dev) < 8 \<and> 0 \<le> d_card (decode_dev dev) \<and> d_card (decode_dev dev) < 2
   \<and> 0 \<le> d_slice (decode_dev dev) \<and> d_slice (decode_dev dev) < 8"
  by (simp add: decode_dev_def Let_def)

lemma card_never: "card_complaint (decode_dev dev) = []"
  using decode_bounds [of dev] by (simp add: card_complaint_def)

lemma controller_parts: "d_controller (decode_dev dev) = 8 * d_card (decode_dev dev) + d_unit (decode_dev dev)"
proof -
  have "m mod 16 = 8 * (m div 8 mod 2) + m mod 8" for m :: int
    using zmod_zmult2_eq [of 2 m 8] by simp
  from this [of "dev mod 2 ^ 18"] show ?thesis by (simp only: decode_dev_def Let_def devnum.simps)
qed

definition lower_digit :: "int \<Rightarrow> char" where
  "lower_digit v = ''0123456789abcdef'' ! nat v"

lemma fmt_x_digit: "0 \<le> v \<Longrightarrow> v < 16 \<Longrightarrow> fmt_x v = [lower_digit v]"
  by (simp add: fmt_x_def hex_nat.simps [of "nat v"] lower_digit_def nat_less_iff)

lemma controller_or:
  assumes "0 \<le> u" "u < 8" "0 \<le> cd" "cd < (2 :: int)"
  shows "push_bit 3 cd OR u = 8 * cd + u"
proof -
  have "u = 0 \<or> u = 1 \<or> u = 2 \<or> u = 3 \<or> u = 4 \<or> u = 5 \<or> u = 6 \<or> u = 7" "cd = 0 \<or> cd = 1" using assms by linarith+
  then show ?thesis by (elim disjE) (simp_all add: push_bit_int_def)
qed

lemma node_of_dev:
  assumes "decode_dev dev = g"
  shows "dev_node (d_card g) (d_unit g) sl = ''/dev/dsk/c'' @ lower_digit (d_controller g) # ''d0s'' @ int_str sl"
  using decode_bounds [of dev] controller_parts [of dev] assms
  by (simp add: dev_node_def controller_or fmt_x_digit)

lemma lower_digit_inj: "0 \<le> v \<Longrightarrow> v < 16 \<Longrightarrow> 0 \<le> w \<Longrightarrow> w < 16 \<Longrightarrow> lower_digit v = lower_digit w \<longleftrightarrow> v = w"
  by (auto simp: lower_digit_def nth_eq_iff_index_eq nat_less_iff eq_nat_nat_iff)

lemma hex_codes: "char_of ` {48, 49, 50, 51, 52, 53, 54, 55, 56, 57, 97, 98, 99, 100, 101, 102, 65, 66, 67, 68, 69, 70 :: nat} = set ''0123456789abcdefABCDEF''"
  by (simp add: char_of_def bit_0)

lemma hex_chars: "is_hex c \<Longrightarrow> c \<in> set ''0123456789abcdefABCDEF''"
proof -
  assume "is_hex c"
  then have "48 \<le> ord_c c \<and> ord_c c < 58 \<or> 97 \<le> ord_c c \<and> ord_c c < 103 \<or> 65 \<le> ord_c c \<and> ord_c c < 71"
    by (auto simp: is_hex_def is_lower_hex_def is_digit_def)
  then have "ord_c c \<in> {48, 49, 50, 51, 52, 53, 54, 55, 56, 57, 97, 98, 99, 100, 101, 102, 65, 66, 67, 68, 69, 70}" by simp presburger
  moreover have "c = char_of (ord_c c)" by (simp add: ord_c_def)
  ultimately show ?thesis unfolding hex_codes [symmetric] by (rule rev_image_eqI)
qed

lemma lower_hex:
  assumes "is_hex c" shows "0 \<le> hex_val c \<and> hex_val c < 16 \<and> lower_digit (hex_val c) = lower_c c"
  using hex_chars [OF assms] unfolding list.set insert_iff empty_iff
  by (elim disjE; simp only: hex_val_def lower_digit_def lower_c_def is_digit_def is_upper_def ord_c_def;
      simp; simp add: char_of_def bit_0)

text \<open>
  The swap node passes exactly when its controller digit is that of the root device's own node, except that the
  digit may be an upper-case one, which no node has.
\<close>

lemma digit_passes_iff:
  "digit_complaint (Some s) (decode_dev dev) = Inr [] \<longleftrightarrow> 10 < length s \<and> is_hex (s ! 10) \<and>
     lower_c (s ! 10) = dev_node (d_card (decode_dev dev)) (d_unit (decode_dev dev)) sl ! 10"
  using lower_hex [of "s ! 10"] lower_digit_inj [of "hex_val (s ! 10)" "d_controller (decode_dev dev)"]
    controller_parts [of dev] decode_bounds [of dev]
  by (auto simp: digit_complaint_def py_nth_def node_of_dev bind_e_Inr_iff split: if_splits)

subsection \<open>The lookup by name\<close>

lemma find_append: "find P (xs @ ys) = (case find P xs of None \<Rightarrow> find P ys | Some x \<Rightarrow> Some x)"
  by (induction xs) auto

text \<open>The first defined symbol of a name, else the first of that name; the empty name is never found.\<close>

definition best_symbol :: "rsym list \<Rightarrow> string \<Rightarrow> rsym option" where
  "best_symbol ss name = (case find (\<lambda>s. rs_name s = name \<and> rs_shndx s \<noteq> 0) ss of
     Some s \<Rightarrow> Some s | None \<Rightarrow> find (\<lambda>s. rs_name s = name) ss)"

lemma best_symbol_snoc:
  "best_symbol (ss @ [s]) name = (if rs_name s \<noteq> name then best_symbol ss name else case best_symbol ss name of
     None \<Rightarrow> Some s | Some x \<Rightarrow> if rs_shndx x = 0 \<and> rs_shndx s \<noteq> 0 then Some s else Some x)"
proof -
  have undef: "rs_shndx x = 0" if "find (\<lambda>s. rs_name s = name) ss = Some x"
    "find (\<lambda>s. rs_name s = name \<and> rs_shndx s \<noteq> 0) ss = None" for x
    using that by (auto simp: find_None_iff find_Some_iff)
  have defd: "find (\<lambda>s. rs_name s = name \<and> rs_shndx s \<noteq> 0) ss = Some x \<Longrightarrow> rs_shndx x \<noteq> 0" for x
    by (auto simp: find_Some_iff)
  show ?thesis
  proof (cases "find (\<lambda>s. rs_name s = name \<and> rs_shndx s \<noteq> 0) ss")
    case a: (Some x)
    then show ?thesis using defd [OF a] by (simp add: best_symbol_def find_append)
  next
    case a: None
    show ?thesis
    proof (cases "find (\<lambda>s. rs_name s = name) ss")
      case None
      then show ?thesis using a by (simp add: best_symbol_def find_append)
    next
      case (Some x)
      then show ?thesis using a undef [OF Some a] by (simp add: best_symbol_def find_append)
    qed
  qed
qed

lemma rf_lookup: "map_of (fold rf_enter ss []) name = (if name = [] then None else best_symbol ss name)"
proof (induction ss rule: rev_induct)
  case Nil
  then show ?case by (simp add: best_symbol_def)
next
  case (snoc s ss)
  then show ?case
    by (cases "rs_name s = []"; cases "rs_name s = name")
      (auto simp: rf_enter_def best_symbol_snoc update_conv' split: option.splits)
qed

definition rf_symbols :: "byte list \<Rightarrow> exn + rsym list" where
  "rf_symbols b = bind_e (rf_open b) (\<lambda>e. map_e (rf_sym b e) (py_range (k_syn e)))"

definition rf_defines :: "byte list \<Rightarrow> string \<Rightarrow> bool" where
  "rf_defines b name = (case rf_symbols b of Inl e \<Rightarrow> False
   | Inr ss \<Rightarrow> name \<noteq> [] \<and> list_ex (\<lambda>s. rs_name s = name \<and> rs_shndx s \<noteq> 0) ss)"

lemma queue_complaint_iff:
  assumes "rf_open b = Inr e" "rf_byname b e = Inr d"
  shows "queue_complaint d r q = [] \<longleftrightarrow> (case q of None \<Rightarrow> False | Some name \<Rightarrow> name = [] \<or> rf_defines b name)"
proof -
  obtain ss where ss: "map_e (rf_sym b e) (py_range (k_syn e)) = Inr ss" "d = fold rf_enter ss []"
    using assms(2) by (auto simp: rf_byname_def)
  have f: "(\<exists>s. best_symbol ss name = Some s \<and> rs_shndx s \<noteq> 0) \<longleftrightarrow> list_ex (\<lambda>s. rs_name s = name \<and> rs_shndx s \<noteq> 0) ss" for name
  proof (cases "find (\<lambda>s. rs_name s = name \<and> rs_shndx s \<noteq> 0) ss")
    case None
    then have "list_ex (\<lambda>s. rs_name s = name \<and> rs_shndx s \<noteq> 0) ss = False" by (auto simp: list_ex_iff find_None_iff)
    moreover have "best_symbol ss name = Some s \<Longrightarrow> rs_shndx s = 0" for s
    proof -
      assume "best_symbol ss name = Some s"
      then have "find (\<lambda>s. rs_name s = name) ss = Some s" by (simp add: best_symbol_def None)
      then have "rs_name s = name" "s \<in> set ss" by (auto simp: find_Some_iff)
      then show ?thesis using None by (auto simp: find_None_iff)
    qed
    ultimately show ?thesis by auto
  next
    case (Some x)
    moreover have "best_symbol ss name = Some x" unfolding best_symbol_def Some by simp
    ultimately have "best_symbol ss name = Some x" "rs_shndx x \<noteq> 0" "rs_name x = name" "x \<in> set ss"
      by (auto simp: find_Some_iff)
    then show ?thesis by (auto simp: list_ex_iff)
  qed
  show ?thesis unfolding queue_complaint_def rf_defines_def rf_symbols_def assms(1) ss rf_lookup bind_e.simps sum.case f [symmetric]
    by (auto split: option.splits if_splits)
qed

subsection \<open>What acceptance means\<close>

definition row_ok :: "byte list \<Rightarrow> card_row \<Rightarrow> bool" where
  "row_ok b row = (case fst (snd (snd row)) of None \<Rightarrow> False | Some name \<Rightarrow> name = [] \<or> rf_defines b name)"

definition digit_ok :: "string option \<Rightarrow> int \<Rightarrow> bool" where
  "digit_ok swap dev = (case swap of None \<Rightarrow> False
   | Some s \<Rightarrow> 10 < length s \<and> is_hex (s ! 10) \<and> lower_c (s ! 10) = dev_node (d_card (decode_dev dev)) (d_unit (decode_dev dev)) 0 ! 10)"

definition family_ok :: "byte list \<Rightarrow> family \<Rightarrow> bool" where
  "family_ok b f \<longleftrightarrow> digit_ok (f_swap f) (f_dev f) \<and> int (length (f_rows f)) = f_bound f + 1
     \<and> list_all (row_ok b) (f_rows f) \<and> (f_size f = 0 \<or> f_size f mod 12 > 0 \<or> f_size f = 12 * (f_bound f + 1))"

lemma rf_rows_ok:
  assumes "rf_open b = Inr e" "rf_byname b e = Inr d"
  shows "rf_rows b e d data dr off rs = Inr (rows, bad) \<Longrightarrow>
    length rows \<le> length rs \<and> (bad = [] \<longleftrightarrow> length rows = length rs \<and> list_all (row_ok b) rows)"
proof (induction rs arbitrary: rows bad)
  case (Cons r rs)
  show ?case
  proof (cases "int (length data) < off + r * 12 + 12")
    case False
    then obtain row rows' bad' where
      "rf_rows b e d data dr off rs = Inr (rows', bad')" "rows = row # rows'"
      "bad = queue_complaint d r (fst (snd (snd row))) @ bad'"
      using Cons.prems by (auto simp: Let_def)
    then show ?thesis using Cons.IH by (auto simp: row_ok_def queue_complaint_iff [OF assms])
  qed (use Cons.prems in \<open>auto simp: Let_def\<close>)
qed simp

lemma byte_at_nonneg: "byte_at b i = Inr x \<Longrightarrow> 0 \<le> x"
  by (auto simp: byte_at_def)

lemma bound_complaint_iff:
  "bound_complaint n sz = [] \<longleftrightarrow> sz = 0 \<or> sz mod 12 > 0 \<or> sz = 12 * (n + 1)"
  by (auto simp: bound_complaint_def) presburger+

lemma swap_complaint: "rf_swap b = Inr (swap, bad) \<Longrightarrow> bad = [] \<longleftrightarrow> swap \<noteq> None"
  by (auto simp: rf_swap_def split: list.splits)

lemma rf_read_ok:
  assumes "rf_read b = Inr (f, bad)" shows "bad = [] \<longleftrightarrow> family_ok b f"
proof -
  obtain e tx data d dev swap bad1 bound name tsize rows bad2 bad3 where
    r: "rf_open b = Inr e" "rf_byname b e = Inr d" "rf_swap b = Inr (swap, bad1)"
      "rf_registry b e d tx data = Inr (bound, (name, tsize), rows, bad2)"
      "digit_complaint swap (decode_dev dev) = Inr bad3"
    and f: "f = \<lparr>f_dev = dev, f_swap = swap, f_bound = bound, f_table = name, f_size = tsize, f_rows = rows\<rparr>"
    and bad: "bad = bad1 @ bad2 @ bound_complaint bound tsize @ bad3"
    using assms by (auto simp: rf_read_def card_never)
  obtain off dr where rows: "0 \<le> bound" "rf_rows b e d data dr off (py_range (bound + 1)) = Inr (rows, bad2)"
    using r(4) by (auto simp: rf_registry_def rf_bound_def byte_at_nonneg split: if_splits)
  have "bad2 = [] \<longleftrightarrow> int (length rows) = bound + 1 \<and> list_all (row_ok b) rows"
    using rf_rows_ok [OF r(1,2) rows(2)] rows(1) by (auto simp: py_range_def)
  moreover have "bad1 = [] \<and> bad3 = [] \<longleftrightarrow> digit_ok swap dev"
  proof -
    have "bad3 = [] \<longleftrightarrow> digit_complaint swap (decode_dev dev) = Inr []" using r(5) by auto
    then show ?thesis using swap_complaint [OF r(3)] digit_passes_iff [of _ dev 0]
      by (cases swap) (simp_all add: digit_ok_def digit_complaint_def)
  qed
  ultimately show ?thesis by (auto simp: f bad family_ok_def bound_complaint_iff)
qed

text \<open>
  C13: What acceptance means.  Whenever the check comes to a verdict, the exit status is 0 exactly when the swap
  node is on the root's controller, every row the loop scans was read and names a defined function or nothing,
  the size of the table, where it is known, fits the loop bound, and the requirements given are met.
\<close>

theorem root_family_exact:
  "case (rf_argv argv, root_family_main argv files) of
     (Inr a, Inr (f, bad, st)) \<Rightarrow> (st = 0) = (family_ok (files (a_path a)) f
       \<and> (case a_queue a of None \<Rightarrow> True | Some q \<Rightarrow> q \<in> set (rf_queues (f_rows f)))
       \<and> (case a_card a of None \<Rightarrow> True | Some n \<Rightarrow> d_card (decode_dev (f_dev f)) = n))
   | _ \<Rightarrow> True"
  by (auto dest: rf_read_ok simp: root_family_main_def Let_def required_complaints_def split: sum.splits prod.splits option.splits if_splits)

end
