(* ===== verification/Image_Edits.thy ===== *)
theory Image_Edits
  imports Fixed_Sites Kelf Data_Words Prof_Report Py_Strings
begin

text \<open>
  Five patchers that stand alone: \<open>patch_segdev_bridge\<close>, which meets the contract \<open>text_patcher\<close> with
  a search for \<open>.text\<close> of its own; \<open>patch_sl_closedq\<close>, which refuses to write over a relocation;
  \<open>patch_ttcompat_init\<close>, which finds its site by symbol, recognises three forms of it and reads its own
  write back; \<open>patch_xpage_flip\<close>, which trusts the listings of two external tools; and \<open>patch_pstart_040\<close>,
  which edits a copy of the kernel.
\<close>

subsection \<open>patch_segdev_bridge\<close>

text \<open>A section header as the script keeps it: name, offset.\<close>

definition bridge_row :: "byte list \<Rightarrow> int \<Rightarrow> exn + int \<times> int" where
  "bridge_row b o' = bind_e (u32 b o') (\<lambda>nm. bind_e (u32 b (o' + 16)) (\<lambda>off. bind_e (u32 b (o' + 20)) (\<lambda>_.
     Inr (nm, off))))"

fun bridge_find :: "byte list \<Rightarrow> int \<Rightarrow> (int \<times> int) list \<Rightarrow> exn + int" where
  "bridge_find b stro [] = Inl (SystemExit ''ERROR: no .text section'')"
| "bridge_find b stro ((nm, off) # rows) = bind_e (index_nul b (stro + nm)) (\<lambda>e.
     if slice b (stro + nm) e = ascii ''.text'' then Inr off else bridge_find b stro rows)"

definition text_offset :: "byte list \<Rightarrow> exn + int" where
  "text_offset b = bind_e (u32 b 32) (\<lambda>sh. bind_e (u16 b 46) (\<lambda>ent. bind_e (u16 b 48) (\<lambda>n. bind_e (u16 b 50) (\<lambda>st.
     bind_e (map_e (\<lambda>i. bridge_row b (sh + i * ent)) (py_range n)) (\<lambda>rows.
     bind_e (py_nth rows st) (\<lambda>(_, stro). bridge_find b stro rows))))))"

definition bridge_SITES :: "site list" where
  "bridge_SITES =
    [(0x6766a, [0xd4, 0xfc, 0x08, 0x00], [0xd4, 0xfc, 0x10, 0x00], ''spec_segmap''),
     (0xa804c, [0x54, 0x4a], [0x58, 0x4a], ''segdev_fault''),
     (0xa80aa, [0x06, 0x82, 0x00, 0x00, 0x08, 0x00], [0x06, 0x82, 0x00, 0x00, 0x10, 0x00], ''segdev_fault'')]"

definition SHIFT_SITE :: canary where
  "SHIFT_SITE = (0xa7fe4, [0x7e, 0x0b], ''seg_page shift site'')"

text \<open>The file is written only if a site was patched, which is the same as writing it back.\<close>

definition bridge_main :: "(nat \<times> nat) script" where
  "bridge_main b = write_back b
     (bind_e (text_offset b) (\<lambda>t. bind_e (check_canaries t 0 [SHIFT_SITE] b) (\<lambda>_.
      bind_e (patch_sites t 0 bridge_SITES (b, 0, 0)) (\<lambda>(buf, patched, already).
      if patched + already \<noteq> length bridge_SITES then Inl (SystemExit ''ABORT: handled'')
      else Inr (buf, (patched, already))))))"

text \<open>The search reads what the other walks read, so edits that stay clear of the headers do not move it.\<close>

lemma bridge_row_frame:
  assumes a: "agree lo hi b b'" and o': "outside lo hi o' (o' + 40)"
  shows "bridge_row b' o' = bridge_row b o'"
proof -
  have "u32 b' o' = u32 b o'" "u32 b' (o' + 16) = u32 b (o' + 16)" "u32 b' (o' + 20) = u32 b (o' + 20)"
    using o' by (auto simp: outside_def intro!: agree_u32 [OF a])
  then show ?thesis by (simp add: bridge_row_def)
qed

lemma bridge_find_frame:
  assumes a: "agree lo hi b b'"
  shows "\<forall>(nm, off) \<in> set rows. name_clear b lo hi (so + nm) \<Longrightarrow> bridge_find b' so rows = bridge_find b so rows"
proof (induction rows)
  case (Cons r rows)
  obtain nm off where r: "r = (nm, off)" by (cases r)
  then have "name_clear b lo hi (so + nm)" using Cons.prems by simp
  then obtain e where "index_nul b (so + nm) = Inr e" "index_nul b' (so + nm) = Inr e"
      "slice b' (so + nm) e = slice b (so + nm) e"
    by (rule agree_name_clear [OF a])
  then show ?case using Cons by (simp add: r)
qed simp

lemma bridge_rows_clear:
  assumes r: "\<forall>i \<in> set is. row_clear b lo hi so (sh + i * ent)"
    and m: "map_e (\<lambda>i. bridge_row b (sh + i * ent)) is = Inr rows"
  shows "\<forall>(nm, off) \<in> set rows. name_clear b lo hi (so + nm)"
  using assms
proof (induction "is" arbitrary: rows)
  case (Cons i "is")
  then show ?case by (auto simp: bridge_row_def row_clear_def split: sum.splits)
qed simp

lemma bridge_nth_offset:
  assumes m: "map_e (\<lambda>i. bridge_row b (sh + i * ent)) (py_range n) = Inr rows" and st: "0 \<le> st"
    and nth: "py_nth rows st = Inr (nm, stro)" and so: "u32 b (sh + st * ent + 16) = Inr so"
  shows "stro = so"
proof -
  have l: "length rows = length (py_range n)" by (rule map_e_length [OF m])
  have i: "nat st < length rows" "rows ! nat st = (nm, stro)"
    using nth st by (auto simp: py_nth_def Let_def split: if_splits)
  then have "py_range n ! nat st = st" using l st by (simp add: py_range_def)
  then have "bridge_row b (sh + st * ent) = Inr (nm, stro)"
    using map_e_nth [OF m, of "nat st"] i l by simp
  then show ?thesis using so by (simp add: bridge_row_def)
qed

lemma text_offset_frame:
  assumes a: "agree lo hi b b'" and c: "hdr_clear b lo hi"
  shows "text_offset b' = text_offset b"
proof (rule hdr_clear_reads [OF a c])
  fix sh ent n st so
  assume h: "u32 b 32 = Inr sh" "u32 b' 32 = Inr sh" "u16 b 46 = Inr ent" "u16 b' 46 = Inr ent"
    "u16 b 48 = Inr n" "u16 b' 48 = Inr n" "u16 b 50 = Inr st" "u16 b' 50 = Inr st"
    and so: "u32 b (sh + st * ent + 16) = Inr so"
    and r: "\<forall>i \<in> set (py_range n). row_clear b lo hi so (sh + i * ent)"
  have rows: "map_e (\<lambda>i. bridge_row b' (sh + i * ent)) (py_range n) = map_e (\<lambda>i. bridge_row b (sh + i * ent)) (py_range n)"
    using r by (intro map_e_cong refl bridge_row_frame [OF a]) (auto simp: row_clear_def)
  have st: "0 \<le> st" using u16_bounds [OF h(7)] by simp
  have "bind_e (map_e (\<lambda>i. bridge_row b (sh + i * ent)) (py_range n)) (\<lambda>rows.
      bind_e (py_nth rows st) (\<lambda>(_, stro). bridge_find b' stro rows)) =
    bind_e (map_e (\<lambda>i. bridge_row b (sh + i * ent)) (py_range n)) (\<lambda>rows.
      bind_e (py_nth rows st) (\<lambda>(_, stro). bridge_find b stro rows))"
  proof (intro bind_e_cong refl)
    fix rows x
    assume m: "map_e (\<lambda>i. bridge_row b (sh + i * ent)) (py_range n) = Inr rows" and n: "py_nth rows st = Inr x"
    obtain nm stro where x: "x = (nm, stro)" by (cases x)
    have "stro = so" by (rule bridge_nth_offset [OF m st n [unfolded x] so])
    then show "(case x of (_, stro) \<Rightarrow> bridge_find b' stro rows) = (case x of (_, stro) \<Rightarrow> bridge_find b stro rows)"
      using bridge_find_frame [OF a bridge_rows_clear [OF r m]] by (simp add: x)
  qed
  then show ?thesis using h rows by (simp add: text_offset_def)
qed

definition bridge_locate :: "byte list \<Rightarrow> exn + int \<times> int" where
  "bridge_locate b = bind_e (text_offset b) (\<lambda>t. Inr (0, t))"

interpretation bridge_table: site_table bridge_SITES
  by unfold_locales (simp add: consistent_def compat_def bridge_SITES_def)

lemma bridge_counted:
  "bind_e (patch_sites t 0 bridge_SITES (b, 0, 0)) (\<lambda>(buf, patched, already).
      if patched + already \<noteq> length bridge_SITES then Inl e else Inr (buf, (patched, already))) =
   bind_e (patch_sites t 0 bridge_SITES (b, 0, 0)) (\<lambda>(buf, patched, already). Inr (buf, (patched, already)))"
  by (rule bind_e_cong) (auto dest: bridge_table.run_result(3))

interpretation bridge: text_patcher bridge_SITES bridge_main bridge_locate
    "\<lambda>off addr b. check_canaries off addr [SHIFT_SITE] b" no_check Pair
proof unfold_locales
  show "bridge_main b = write_back b (bind_e (bridge_locate b) (\<lambda>(addr, off).
      bind_e (check_canaries off addr [SHIFT_SITE] b) (\<lambda>_.
      bind_e (patch_sites off addr bridge_SITES (b, 0, 0)) (\<lambda>(buf, d, s).
      bind_e (no_check off addr buf) (\<lambda>_. Inr (buf, d, s))))))" for b
    by (simp add: bridge_main_def bridge_locate_def bridge_counted bind_e_assoc)
qed (simp add: bridge_locate_def text_offset_frame)

subsection \<open>patch_sl_closedq\<close>

text \<open>\<open>struct.unpack(">IIIIIIIIII", ...)\<close> takes exactly forty bytes.\<close>

definition unpack_10 :: "byte list \<Rightarrow> exn + int list" where
  "unpack_10 s = (if length s = 40 then map_e (\<lambda>k. u32 s (4 * k)) (py_range 10) else Inl StructError)"

definition section_words :: "byte list \<Rightarrow> exn + int list list \<times> int" where
  "section_words b = bind_e (u32 b 0x20) (\<lambda>shoff. bind_e (u16 b 0x2e) (\<lambda>ent. bind_e (u16 b 0x30) (\<lambda>n. bind_e (u16 b 0x32) (\<lambda>st.
     bind_e (map_e (\<lambda>i. unpack_10 (slice b (shoff + i * ent) (shoff + (i + 1) * ent))) (py_range n)) (\<lambda>secs.
     bind_e (py_nth secs st) (\<lambda>strtab. Inr (secs, strtab ! 4)))))))"

fun text_relocs_loop :: "byte list \<Rightarrow> int \<Rightarrow> int list list \<Rightarrow> exn + int list" where
  "text_relocs_loop b stroff [] = Inr []"
| "text_relocs_loop b stroff (s # ss) = bind_e (utf8_at b (stroff + s ! 0)) (\<lambda>name.
     bind_e (if name \<noteq> ''.rela.text'' then Inr []
             else map_e (\<lambda>k. u32 b (s ! 4 + 12 * k)) (py_range (s ! 5 div 12))) (\<lambda>offs.
     bind_e (text_relocs_loop b stroff ss) (\<lambda>rest. Inr (offs @ rest))))"

definition text_relocs :: "byte list \<Rightarrow> exn + int list" where
  "text_relocs b = bind_e (section_words b) (\<lambda>(secs, stroff). text_relocs_loop b stroff secs)"

definition sl_SITES :: "site list" where
  "sl_SITES =
    [(0x12390,
      [0x40, 0xc2, 0x46, 0xfc, 0x24, 0x00, 0x02, 0x6b, 0xff, 0xfe, 0x00, 0x38, 0x40, 0xc0, 0x46, 0xc2,
       0x33, 0xfc, 0x80, 0x01, 0x00, 0xdf, 0xf0, 0x9c, 0x33, 0xfc, 0x80, 0x01, 0x00, 0xdf, 0xf0, 0x9a,
       0x60, 0x00, 0x00, 0x82],
      [0x02, 0x6b, 0xff, 0xfe, 0x00, 0x38, 0x4a, 0xab, 0x00, 0x18, 0x67, 0x00, 0x00, 0xa0,
       0x33, 0xfc, 0x80, 0x01, 0x00, 0xdf, 0xf0, 0x9c, 0x33, 0xfc, 0x80, 0x01, 0x00, 0xdf, 0xf0, 0x9a,
       0x60, 0x00, 0x00, 0x84, 0x4e, 0x71], ''slproc T_TIME''),
     (0x11fb6,
      [0x40, 0xc0, 0x46, 0xfc, 0x24, 0x00, 0x02, 0x68, 0xff, 0xfe, 0x00, 0x38, 0x40, 0xc1, 0x46, 0xc0],
      [0x02, 0x68, 0xff, 0xfe, 0x00, 0x38, 0x4a, 0xa8, 0x00, 0x18, 0x67, 0x0c, 0x4e, 0x71, 0x4e, 0x71],
      ''delay'')]"

definition reloc_in :: "int list \<Rightarrow> site \<Rightarrow> bool" where
  "reloc_in relocs s \<longleftrightarrow> (case s of (site, old, new, name) \<Rightarrow>
     list_ex (\<lambda>r. site - 3 \<le> r \<and> r < site + int (length old)) relocs)"

text \<open>The result counts the sites written and the sites found guarded.\<close>

fun sl_loop :: "int list \<Rightarrow> site list \<Rightarrow> byte list \<times> nat \<times> nat \<Rightarrow> exn + byte list \<times> nat \<times> nat" where
  "sl_loop relocs [] st = Inr st"
| "sl_loop relocs ((site, old, new, name) # ss) (buf, done, skip) =
     (if length old \<noteq> length new then Inl (SystemExit ''ABORT: old and new bytes'')
      else if reloc_in relocs (site, old, new, name) then Inl (SystemExit ''ABORT: relocation inside'')
      else bind_e (patch_site (TEXT_OFF + site) old new name buf) (\<lambda>(buf', wrote).
        sl_loop relocs ss (if wrote then (buf', Suc done, skip) else (buf', done, Suc skip))))"

definition sl_main :: "(nat \<times> nat) script" where
  "sl_main b = write_back b (bind_e (text_relocs b) (\<lambda>relocs. sl_loop relocs sl_SITES (b, 0, 0)))"

interpretation sl_table: site_table sl_SITES
  by unfold_locales (simp add: consistent_def compat_def sl_SITES_def)

text \<open>The loop is the shared one behind a gate: no relocation may touch a site.\<close>

lemma sl_loop_Inr:
  "\<forall>s \<in> set ss. site_ok s \<Longrightarrow>
   sl_loop relocs ss (b, d, k) = Inr r \<longleftrightarrow>
     (\<forall>s \<in> set ss. \<not> reloc_in relocs s) \<and> patch_sites TEXT_OFF 0 ss (b, d, k) = Inr r"
proof (induction ss arbitrary: b d k)
  case (Cons s ss)
  obtain v old new name where s: "s = (v, old, new, name)" by (cases s)
  show ?case
  proof (cases "patch_site (TEXT_OFF + v) old new name b")
    case (Inr x)
    obtain buf wrote where "x = (buf, wrote)" by (cases x)
    then show ?thesis using Inr Cons by (cases wrote) (auto simp: s)
  qed (use Cons.prems in \<open>auto simp: s\<close>)
qed simp

lemma sl_ok: "\<forall>s \<in> set sl_SITES. site_ok s"
  using sl_table.consistent by (simp add: consistent_def)

lemma sl_Inr:
  "sl_main b = (b', Inr (d, k)) \<longleftrightarrow> (\<exists>relocs. text_relocs b = Inr relocs \<and> (\<forall>s \<in> set sl_SITES. \<not> reloc_in relocs s)
     \<and> patch_sites TEXT_OFF 0 sl_SITES (b, 0, 0) = Inr (b', d, k))"
proof -
  have "sl_main b = (b', Inr (d, k)) \<longleftrightarrow>
      bind_e (text_relocs b) (\<lambda>relocs. sl_loop relocs sl_SITES (b, 0, 0)) = Inr (b', d, k)"
    by (auto simp: sl_main_def write_back_def split: sum.split)
  then show ?thesis by (simp add: sl_loop_Inr [OF sl_ok])
qed

text \<open>A word that no site reaches is left as it was; the gate says just that of the relocated words.\<close>

lemma reloc_apart:
  "\<not> reloc_in relocs (v, old, new, name) \<Longrightarrow> r \<in> set relocs \<Longrightarrow> r + 4 \<le> v \<or> v + int (length old) \<le> r"
  by (fastforce simp: reloc_in_def list_ex_iff)

lemma apply_new_spares:
  assumes "room TEXT_OFF 0 0 (length b) ps" "\<forall>s \<in> set ps. site_ok s \<and> \<not> reloc_in relocs s"
    and r: "r \<in> set relocs" "0 \<le> r" "nat (TEXT_OFF + r) + 4 \<le> length b"
  shows "sub (nat (TEXT_OFF + r)) 4 (apply_new TEXT_OFF 0 ps b) = sub (nat (TEXT_OFF + r)) 4 b"
  using assms(1,2) r(3)
proof (induction ps arbitrary: b)
  case (Cons s ps)
  obtain v old new name where s: "s = (v, old, new, name)" by (cases s)
  have rm: "0 \<le> TEXT_OFF + v" "TEXT_OFF + v + int (length new) \<le> int (length b)"
    using Cons.prems(1) by (simp_all add: s)
  have n: "length old = length new" "r + 4 \<le> v \<or> v + int (length old) \<le> r"
    using Cons.prems(2) r(1) reloc_apart [of relocs v old new name r] by (auto simp: s)
  have w: "write_site TEXT_OFF 0 s b = overwrite (nat (TEXT_OFF + v)) new b"
    using rm by (simp add: s write_site_def clip_id)
  have "sub (nat (TEXT_OFF + r)) 4 (write_site TEXT_OFF 0 s b) = sub (nat (TEXT_OFF + r)) 4 b"
    unfolding w using rm n r(2) Cons.prems(3) by (intro sub_overwrite_disjoint) (auto simp: TEXT_OFF_def)
  moreover have "length (write_site TEXT_OFF 0 s b) = length b" unfolding w using rm by simp
  ultimately show ?case using Cons by (simp add: s)
qed simp

text \<open>The sites lie in every file in which they are found.\<close>

lemma patch_sites_room:
  assumes run: "patch_sites TEXT_OFF 0 ps (b, 0, 0) = Inr (b', d, k)" and ok: "\<forall>s \<in> set ps. site_ok s"
    and v: "\<forall>s \<in> set ps. 0 \<le> fst s"
  shows "room TEXT_OFF 0 0 (length b) ps"
proof (rule room_all, rule ballI)
  fix s assume s: "s \<in> set ps"
  obtain x old new name where e: "s = (x, old, new, name)" by (cases s)
  have c: "clip (length b) (TEXT_OFF + (x - 0)) + length new \<le> length b"
    using patch_sites_Inr(6) [OF run ok] s e by blast
  have n: "0 < length new" and x: "0 \<le> TEXT_OFF + x" using ok v s e by (auto simp: TEXT_OFF_def)
  have "nat (min (TEXT_OFF + x) (int (length b))) + length new \<le> length b" using c x by (simp add: clip_def)
  then have "TEXT_OFF + x + int (length new) \<le> int (length b)" using n x by linarith
  then show "room TEXT_OFF 0 0 (length b) [s]" using x by (simp add: e)
qed

text \<open>
  C15: patch_sl_closedq.py never writes over a relocation.  A run that fails leaves the file alone; a run
  that succeeds has written the guarded form of both sites, counting each once, in a file in which no
  relocation of any \<open>.rela.text\<close> touches them, and every word of \<open>.text\<close> that the loader will relocate
  still holds what it held.
\<close>

theorem closedq_spares_relocations:
  "case sl_main b of
     (b', Inl e) \<Rightarrow> b' = b
   | (b', Inr (d, k)) \<Rightarrow> d + k = 2 \<and> b' = apply_new TEXT_OFF 0 sl_SITES b \<and> length b' = length b \<and>
       (case text_relocs b of
          Inl e \<Rightarrow> False
        | Inr relocs \<Rightarrow> list_all (\<lambda>r. r < 0 \<or> length b < nat (TEXT_OFF + r) + 4 \<or>
            sub (nat (TEXT_OFF + r)) 4 b' = sub (nat (TEXT_OFF + r)) 4 b) relocs)"
proof (cases "sl_main b")
  case (Pair b' o')
  show ?thesis
  proof (cases o')
    case (Inl e)
    then show ?thesis using Pair by (auto simp: sl_main_def write_back_def split: sum.splits)
  next
    case (Inr r)
    obtain d k where r: "r = (d, k)" by (cases r)
    obtain relocs where t: "text_relocs b = Inr relocs" and g: "\<forall>s \<in> set sl_SITES. \<not> reloc_in relocs s"
      and run: "patch_sites TEXT_OFF 0 sl_SITES (b, 0, 0) = Inr (b', d, k)"
      using Pair Inr r sl_Inr [of b b' d k] by auto
    note res = sl_table.run_result [OF run]
    have room: "room TEXT_OFF 0 0 (length b) sl_SITES"
      by (rule patch_sites_room [OF run sl_ok]) (simp add: sl_SITES_def)
    have sp: "sub (nat (TEXT_OFF + x)) 4 b' = sub (nat (TEXT_OFF + x)) 4 b"
      if "x \<in> set relocs" "0 \<le> x" "nat (TEXT_OFF + x) + 4 \<le> length b" for x
      unfolding res(1) using sl_ok g that by (intro apply_new_spares [OF room]) auto
    have "length sl_SITES = 2" by (simp add: sl_SITES_def)
    then have "d + k = 2" using res(3) by simp
    moreover have "list_all (\<lambda>r. r < 0 \<or> length b < nat (TEXT_OFF + r) + 4 \<or>
        sub (nat (TEXT_OFF + r)) 4 b' = sub (nat (TEXT_OFF + r)) 4 b) relocs"
      unfolding list_all_iff
    proof
      fix x assume "x \<in> set relocs"
      with sp [of x] show "x < 0 \<or> length b < nat (TEXT_OFF + x) + 4 \<or>
        sub (nat (TEXT_OFF + x)) 4 b' = sub (nat (TEXT_OFF + x)) 4 b" by linarith
    qed
    ultimately show ?thesis unfolding Pair Inr r prod.case sum.case t
      using res(1,2) by (intro conjI)
  qed
qed

subsection \<open>patch_ttcompat_init\<close>

definition half :: "int \<Rightarrow> byte list" where
  "half n = [word_of_int (n div 256), word_of_int n]"

definition clears :: "int \<Rightarrow> int list \<Rightarrow> byte list" where
  "clears insn ns = concat (map (\<lambda>n. half insn @ half n) ns)"

definition nop_run :: "nat \<Rightarrow> byte list" where
  "nop_run n = concat (replicate n [0x4e, 0x71])"

definition CLRB :: int where "CLRB = 0x4228"
definition CLRL :: int where "CLRL = 0x42a8"

definition WIDE_OFFS :: "int list" where
  "WIDE_OFFS = filter (\<lambda>n. n \<noteq> 0x1c) (map (\<lambda>k. 0x0c + 4 * k) [0..13])"

definition STOCK_clears :: "byte list" where
  "STOCK_clears = clears CLRB [0x0c..0x1b]"

definition FIXED_clears :: "byte list" where
  "FIXED_clears = clears CLRL WIDE_OFFS @ nop_run 6"

definition NARROW_clears :: "byte list" where
  "NARROW_clears = clears CLRL [0x0c, 0x10, 0x14, 0x18, 0x38, 0x3c, 0x40] @ nop_run 18"

datatype clear_form = Stock | Narrow | Fixed

definition clear_form_of :: "byte list \<Rightarrow> clear_form option" where
  "clear_form_of cur = (if cur = STOCK_clears then Some Stock else if cur = NARROW_clears then Some Narrow
     else if cur = FIXED_clears then Some Fixed else None)"

text \<open>The values of the symbols named \<open>ttcompatopen\<close> of section \<open>tidx\<close>.\<close>

definition tt_hits :: "byte list \<Rightarrow> kelf \<Rightarrow> int \<Rightarrow> exn + int list" where
  "tt_hits b e tidx = bind_e (map_e (ksym b e) (py_range (k_syn e))) (\<lambda>syms.
     Inr (map ks_value (filter (\<lambda>s. ks_name s = ''ttcompatopen'' \<and> ks_shndx s = tidx) syms)))"

definition tt_relocs :: "byte list \<Rightarrow> kelf \<Rightarrow> exn + int list" where
  "tt_relocs b e = (if map_of (k_sec e) ''.rela.text'' = None then Inr []
     else bind_e (krela b e ''.rela.text'') (\<lambda>rt. Inr (map fst rt)))"

text \<open>The span at \<open>site\<close>: the stock clears around it, no relocation in it, and one of the three forms.\<close>

definition tt_at :: "byte list \<Rightarrow> kelf \<Rightarrow> int \<Rightarrow> exn + int \<times> clear_form" where
  "tt_at b e site = bind_e (ktext b e (site - 8) 8) (\<lambda>before.
     bind_e (if before \<noteq> [0x42, 0xa8, 0x00, 0x04, 0x42, 0xa8, 0x00, 0x08] then Inr True
             else bind_e (ktext b e (site + 64) 4) (\<lambda>behind. Inr (behind \<noteq> [0x42, 0xa8, 0x00, 0x1c]))) (\<lambda>drifted.
     bind_e (must (\<not> drifted) ''ABORT: not the stock clear sequence'') (\<lambda>_.
     bind_e (tt_relocs b e) (\<lambda>rt.
     bind_e (must (\<not> list_ex (\<lambda>off. site \<le> off \<and> off < site + 64) rt) ''ABORT: a relocation lies in the span'') (\<lambda>_.
     bind_e (ktext b e site 64) (\<lambda>cur. case clear_form_of cur of
       None \<Rightarrow> Inl (SystemExit ''ABORT: neither the stock nor a fixed form'')
     | Some f \<Rightarrow> Inr (site, f)))))))"

definition tt_locate :: "byte list \<Rightarrow> kelf \<Rightarrow> exn + int \<times> clear_form" where
  "tt_locate b e = bind_e (name_index (k_names e) ''.text'') (\<lambda>tidx. bind_e (tt_hits b e tidx) (\<lambda>hits.
     case hits of [v] \<Rightarrow> tt_at b e (v + 0x80)
     | _ \<Rightarrow> Inl (SystemExit ''ABORT: want exactly one ttcompatopen'')))"

definition tt_find :: "byte list \<Rightarrow> exn + int \<times> clear_form" where
  "tt_find b = bind_e (kelf_of b) (tt_locate b)"

text \<open>
  The result is the form that was found.  \<open>--check\<close> writes nothing and exits with \<open>0\<close> or \<open>1\<close>; the
  other mode writes, reads the file again, and can abort after the write.
\<close>

definition tt_check :: "byte list \<Rightarrow> exn + clear_form \<times> int" where
  "tt_check b = bind_e (tt_find b) (\<lambda>(site, f). Inr (f, if f = Fixed then 0 else 1))"

definition tt_text :: "byte list \<Rightarrow> exn + int" where
  "tt_text b = bind_e (kelf_of b) (\<lambda>e. bind_e (dict_get ''.text'' (k_sec e)) (\<lambda>s. Inr (s_offset s)))"

definition tt_write :: "clear_form script" where
  "tt_write b = (case tt_find b of
     Inl e \<Rightarrow> (b, Inl e)
   | Inr (site, f) \<Rightarrow>
       if f = Fixed then (b, Inr f)
       else (case tt_text b of
         Inl e \<Rightarrow> (b, Inl e)
       | Inr toff \<Rightarrow> let b' = splice b (toff + site) (toff + site + 64) FIXED_clears in
           (b', case tt_find b' of
              Inl e \<Rightarrow> Inl e
            | Inr (_, g) \<Rightarrow> if g = Fixed then Inr f else Inl (SystemExit ''ABORT: the write did not take''))))"

datatype tt_result = Checked clear_form int | Wrote clear_form

text \<open>\<open>args\<close> is \<open>sys.argv[1:]\<close>; the file is the one its last element names.\<close>

definition tt_main :: "string list \<Rightarrow> tt_result script" where
  "tt_main args b = (let check = (length args = 2 \<and> args ! 0 = ''--check'') in
     if \<not> (length args = 1 \<or> check) then (b, Inl (SystemExit ''usage''))
     else if check then (b, bind_e (tt_check b) (\<lambda>(f, code). Inr (Checked f code)))
     else (case tt_write b of (b', r) \<Rightarrow> (b', map_sum id Wrote r)))"

lemma clear_lengths: "length STOCK_clears = 64" "length NARROW_clears = 64" "length FIXED_clears = 64"
  by code_simp+

lemma clear_form_of_Some:
  "clear_form_of cur = Some f \<longleftrightarrow> cur = (case f of Stock \<Rightarrow> STOCK_clears | Narrow \<Rightarrow> NARROW_clears | Fixed \<Rightarrow> FIXED_clears)"
proof -
  have "STOCK_clears \<noteq> NARROW_clears" "STOCK_clears \<noteq> FIXED_clears" "NARROW_clears \<noteq> FIXED_clears"
    by code_simp+
  then show ?thesis by (cases f) (auto simp: clear_form_of_def)
qed

text \<open>What a successful search has seen: the bytes of the form it reports, at the place it reports.\<close>

lemma tt_find_Inr:
  assumes "tt_find b = Inr (site, f)"
  obtains toff where "tt_text b = Inr toff" "clear_form_of (slice b (toff + site) (toff + site + 64)) = Some f"
proof -
  obtain e where e: "kelf_of b = Inr e" "tt_locate b e = Inr (site, f)" using assms by (auto simp: tt_find_def)
  from e(2) obtain hits where "(case hits of [v] \<Rightarrow> tt_at b e (v + 0x80)
      | _ \<Rightarrow> Inl (SystemExit ''ABORT: want exactly one ttcompatopen'')) = Inr (site, f)"
    by (auto simp: tt_locate_def)
  then obtain v where "tt_at b e v = Inr (site, f)" by (cases hits; cases "tl hits") auto
  then obtain cur where c: "ktext b e site 64 = Inr cur" "clear_form_of cur = Some f"
    by (auto simp: tt_at_def split: option.splits if_splits)
  then show thesis using that e(1) by (auto simp: ktext_def tt_text_def add.assoc)
qed

text \<open>The write: sixty-four bytes of the file, and nothing else.\<close>

lemma tt_write_bytes:
  assumes f: "tt_find b = Inr (site, f)" and t: "tt_text b = Inr toff"
  shows "clip (length b) (toff + site) + 64 \<le> length b"
    and "splice b (toff + site) (toff + site + 64) FIXED_clears = overwrite (clip (length b) (toff + site)) FIXED_clears b"
    and "f = Fixed \<Longrightarrow> overwrite (clip (length b) (toff + site)) FIXED_clears b = b"
proof -
  have c: "clear_form_of (slice b (toff + site) (toff + site + 64)) = Some f"
    using t by (auto intro: tt_find_Inr [OF f])
  then have "length (slice b (toff + site) (toff + site + int 64)) = 64"
    by (cases f) (auto simp: clear_form_of_Some clear_lengths)
  note full = slice_full [OF this, simplified]
  show fits: "clip (length b) (toff + site) + 64 \<le> length b" by (rule full(1))
  show "splice b (toff + site) (toff + site + 64) FIXED_clears = overwrite (clip (length b) (toff + site)) FIXED_clears b"
    by (rule full(3)) (rule clear_lengths)
  assume "f = Fixed"
  then have "sub (clip (length b) (toff + site)) 64 b = FIXED_clears" using c full(2) by (simp add: clear_form_of_Some)
  then show "overwrite (clip (length b) (toff + site)) FIXED_clears b = b" using overwrite_sub [OF fits] by simp
qed

subsubsection \<open>What the clears clear\<close>

text \<open>
  The offsets from \<open>%a0\<close> that a run of \<open>clrb %a0@(n)\<close>, \<open>clrl %a0@(n)\<close> and \<open>nop\<close> sets to zero, and
  \<open>None\<close> for any other code.
\<close>

fun cleared :: "byte list \<Rightarrow> int list option" where
  "cleared [] = Some []"
| "cleared (a # b # r) =
     (if [a, b] = [0x4e, 0x71] then cleared r
      else case r of
        h # l # r' \<Rightarrow> (let n = uint h * 256 + uint l in
          if [a, b] = half CLRB then map_option (\<lambda>c. n # c) (cleared r')
          else if [a, b] = half CLRL then map_option (\<lambda>c. n # (n + 1) # (n + 2) # (n + 3) # c) (cleared r')
          else None)
      | _ \<Rightarrow> None)"
| "cleared [a] = None"

definition clears_of :: "clear_form \<Rightarrow> byte list" where
  "clears_of f = (case f of Stock \<Rightarrow> STOCK_clears | Narrow \<Rightarrow> NARROW_clears | Fixed \<Rightarrow> FIXED_clears)"

definition around :: "clear_form \<Rightarrow> byte list" where
  "around f = [0x42, 0xa8, 0x00, 0x04, 0x42, 0xa8, 0x00, 0x08] @ clears_of f @ [0x42, 0xa8, 0x00, 0x1c]"

text \<open>
  What the three forms of the clear sequence of ttcompatopen leave initialised.  With the stock
  clears in front of and behind the span, the stock code zeroes the bytes 4 to 31 of the state, the
  narrow fix those and 56 to 67, and the form patch_ttcompat_init.py writes every byte from 4 to 67
  (0x43), each once and nothing else.
\<close>

theorem ttcompat_clears:
  "map_option sort (cleared (around f)) = Some (case f of
     Stock \<Rightarrow> [4..31] | Narrow \<Rightarrow> [4..31] @ [56..67] | Fixed \<Rightarrow> [4..67])"
proof (cases f)
  case Stock
  show ?thesis unfolding Stock by code_simp
next
  case Narrow
  show ?thesis unfolding Narrow by code_simp
next
  case Fixed
  show ?thesis unfolding Fixed by code_simp
qed

text \<open>
  C16: a run of patch_ttcompat_init.py.  Whatever cannot be located is refused with the file untouched; the
  fixed form is left alone; otherwise exactly the sixty-four bytes of the span become the fixed form, and
  the run succeeds exactly when the written file, read again, is found fixed.  After a success both
  another run and --check find the fixed form.
\<close>

theorem ttcompat_run:
  "case tt_find b of
     Inl e \<Rightarrow> tt_write b = (b, Inl e)
   | Inr (site, f) \<Rightarrow> (case tt_text b of
       Inl _ \<Rightarrow> False
     | Inr toff \<Rightarrow> (case tt_write b of (b', r) \<Rightarrow>
         length b' = length b \<and> b' = overwrite (clip (length b) (toff + site)) FIXED_clears b \<and>
         (case r of
            Inl e \<Rightarrow> map_sum id snd (tt_find b') \<noteq> Inr Fixed
          | Inr g \<Rightarrow> g = f \<and> tt_write b' = (b', Inr Fixed) \<and> tt_check b' = Inr (Fixed, 0))))"
proof (cases "tt_find b")
  case (Inl e)
  then show ?thesis by (simp add: tt_write_def)
next
  case (Inr x)
  obtain site f where x: "x = (site, f)" by (cases x)
  note find = Inr [unfolded x]
  obtain toff where t: "tt_text b = Inr toff" by (rule tt_find_Inr [OF find])
  note w = tt_write_bytes [OF find t]
  let ?b' = "overwrite (clip (length b) (toff + site)) FIXED_clears b"
  have len: "length ?b' = length b" using w(1) by (simp add: clear_lengths)
  show ?thesis
  proof (cases "f = Fixed")
    case True
    then show ?thesis using find t w(3) by (simp add: tt_write_def tt_check_def)
  next
    case False
    then have r: "tt_write b = (?b', case tt_find ?b' of Inl e \<Rightarrow> Inl e
        | Inr (_, g) \<Rightarrow> if g = Fixed then Inr f else Inl (SystemExit ''ABORT: the write did not take''))"
      using find t w(2) by (simp add: tt_write_def Let_def)
    show ?thesis
    proof (cases "tt_find ?b'")
      case (Inl e)
      then show ?thesis using r find t len by simp
    next
      case (Inr y)
      then show ?thesis using r find t len by (cases y) (auto simp: tt_write_def tt_check_def)
    qed
  qed
qed

subsection \<open>patch_xpage_flip\<close>

text \<open>
  The lines that \<open>nm\<close> and \<open>objdump -h\<close> print of the kernel are arguments; the last line that fits decides.
  \<open>p[1] in "dD"\<close> is a substring test.
\<close>

fun xpage_addr :: "string list \<Rightarrow> int option \<Rightarrow> exn + int option" where
  "xpage_addr [] addr = Inr addr"
| "xpage_addr (l # ls) addr = (let p = split_ws l in
     if length p = 3 \<and> p ! 2 = ''xpage_on'' \<and> p ! 1 \<in> {''d'', ''D'', ''dD''}
     then bind_e (py_int16 (p ! 0)) (\<lambda>a. xpage_addr ls (Some a))
     else xpage_addr ls addr)"

fun xpage_doff :: "string list \<Rightarrow> int option \<Rightarrow> exn + int option" where
  "xpage_doff [] doff = Inr doff"
| "xpage_doff (l # ls) doff = (let p = split_ws l in
     if 5 < length p \<and> p ! 1 = ''.data''
     then bind_e (py_int16 (p ! 5)) (\<lambda>a. xpage_doff ls (Some a))
     else xpage_doff ls doff)"

definition xpage_word :: "string list \<Rightarrow> string list \<Rightarrow> exn + int" where
  "xpage_word nm_lines hdr_lines = bind_e (xpage_addr nm_lines None) (\<lambda>a. case a of
     None \<Rightarrow> Inl (SystemExit ''ABORT: xpage_on not found'')
   | Some addr \<Rightarrow> bind_e (xpage_doff hdr_lines None) (\<lambda>d. case d of
       None \<Rightarrow> Inl (SystemExit ''ABORT: no .data section header'')
     | Some doff \<Rightarrow> Inr (doff + addr)))"

text \<open>The result is whether the script wrote.\<close>

definition xpage_main :: "string list \<Rightarrow> string list \<Rightarrow> bool script" where
  "xpage_main nm_lines hdr_lines b = write_back b (bind_e (xpage_word nm_lines hdr_lines) (\<lambda>off.
     bind_e (u32 b off) (\<lambda>cur.
     if cur = 0 then Inr (b, False)
     else bind_e (must (cur = 1) ''ABORT: xpage_on is neither 0 nor 1'') (\<lambda>_.
       bind_e (pack_I 0) (\<lambda>z. Inr (splice b off (off + 4) z, True))))))"

text \<open>The result of a flip, byte by byte: the last byte of the word goes from 1 to 0.\<close>

lemma pack_zero: "pack_I 0 = Inr [0, 0, 0, 0]"
  by (simp add: pack_I_def)

lemma u32_one:
  assumes "u32 b i = Inr 1"
  shows "clip (length b) i + 4 \<le> length b" and "sub (clip (length b) i) 4 b = [0, 0, 0, 1]"
    and "splice b i (i + 4) [0, 0, 0, 0] = b[clip (length b) i + 3 := 0]"
proof -
  note q = word_pos [OF assms]
  show fits: "clip (length b) i + 4 \<le> length b" by (rule q(2))
  have "unpack_I (slice b i (i + 4)) = Inr 1" using assms by (simp add: u32_def)
  then have "pack_I 1 = Inr (slice b i (i + 4))" by (rule pack_unpack_I)
  then show sb: "sub (clip (length b) i) 4 b = [0, 0, 0, 1]" using q(3) by (simp add: pack_I_def)
  have "length (slice b i (i + int 4)) = 4" using q(4) by simp
  note full = slice_full [OF this, simplified]
  have "splice b i (i + 4) [0, 0, 0, 0] = overwrite (clip (length b) i) [0, 0, 0, 0] b" by (rule full(3)) simp
  also have "\<dots> = b[clip (length b) i + 3 := 0]"
  proof (rule nth_equalityI)
    fix k assume "k < length (overwrite (clip (length b) i) [0, 0, 0, 0] b)"
    then have k: "k < length b" using fits by simp
    have n: "b ! (clip (length b) i + j) = [0, 0, 0, 1] ! j" if "j < 4" for j
      using sb sub_eq_nth [OF fits, of "[0, 0, 0, 1]"] that by simp
    consider "k < clip (length b) i" | j where "k = clip (length b) i + j" "j < 4" | "clip (length b) i + 4 \<le> k"
      by (metis le_add_diff_inverse less_diff_conv2 not_le add.commute)
    then show "overwrite (clip (length b) i) [0, 0, 0, 0] b ! k = b[clip (length b) i + 3 := 0] ! k"
    proof cases
      case 2
      then have "j = 0 \<or> j = 1 \<or> j = 2 \<or> j = 3" by linarith
      then show ?thesis using 2 n k fits by (auto simp: nth_overwrite nth_list_update)
    qed (use k fits in \<open>auto simp: nth_overwrite nth_list_update\<close>)
  qed (use fits in simp)
  finally show "splice b i (i + 4) [0, 0, 0, 0] = b[clip (length b) i + 3 := 0]" .
qed

text \<open>
  Patch_xpage_flip.py makes an image that differs from the one it was given in one byte.  A run that fails
  leaves the file alone; one that succeeds found the word the two listings locate to be 0, and changed
  nothing, or to be 1, and cleared its last byte.
\<close>

theorem xpage_one_byte:
  "case xpage_main nm_lines hdr_lines b of
     (b', Inl e) \<Rightarrow> b' = b
   | (b', Inr wrote) \<Rightarrow> (case xpage_word nm_lines hdr_lines of
       Inl e \<Rightarrow> False
     | Inr off \<Rightarrow> u32 b off = Inr (if wrote then 1 else 0) \<and>
         b' = (if wrote then b[clip (length b) off + 3 := 0] else b))"
proof (cases "xpage_word nm_lines hdr_lines")
  case (Inl e)
  then show ?thesis by (simp add: xpage_main_def)
next
  case (Inr off)
  show ?thesis
  proof (cases "u32 b off")
    case (Inl e)
    then show ?thesis using Inr by (simp add: xpage_main_def)
  next
    case w: (Inr cur)
    consider "cur = 0" | "cur = 1" | "cur \<noteq> 0" "cur \<noteq> 1" by blast
    then show ?thesis
      by cases (use Inr w u32_one(3) [of b off] in \<open>auto simp: xpage_main_def pack_zero must_def\<close>)
  qed
qed

subsection \<open>patch_pstart_040\<close>

text \<open>
  The script copies the kernel and edits the copy, so its state is a map from paths to contents.  \<open>os\<close> is
  local to \<open>main\<close> because of an import in its middle, and the defaults of both paths read it before that
  import: without two arguments the run ends in an \<open>UnboundLocalError\<close>.
\<close>

type_synonym files = "string \<rightharpoonup> byte list"

datatype pstart_end = Unbound_os | No_directory | No_source | Same_file | Not_pstart | Patched

definition pstart_EXPECT :: "byte list" where
  "pstart_EXPECT = [0xf0, 0x10, 0x48, 0x00, 0xf0, 0x00, 0x24, 0x00, 0xf0, 0x39, 0x40, 0x00, 0x00, 0x00, 0x00, 0x00]"

definition pstart_PATCH :: "byte list" where
  "pstart_PATCH = [0xf5, 0x18, 0x60, 0x00, 0x00, 0x0c] @ nop_run 5"

definition pstart_off :: int where
  "pstart_off = 0x34 + 0xfd6"

text \<open>\<open>os.makedirs(os.path.dirname(dst), exist_ok=True)\<close> fails on a path without a directory.\<close>

definition pstart_main :: "string list \<Rightarrow> files \<Rightarrow> files \<times> pstart_end" where
  "pstart_main args fs = (case args of
     src # dst # _ \<Rightarrow>
       if CHR ''/'' \<notin> set dst then (fs, No_directory)
       else (case fs src of
         None \<Rightarrow> (fs, No_source)
       | Some k \<Rightarrow> if src = dst then (fs, Same_file)
           else let copied = fs(dst \<mapsto> k); cur = slice k pstart_off (pstart_off + 16) in
             if cur \<noteq> pstart_EXPECT then (copied, Not_pstart)
             else (copied(dst \<mapsto> splice k pstart_off (pstart_off + 16) pstart_PATCH), Patched))
   | _ \<Rightarrow> (fs, Unbound_os))"

text \<open>The sixteen bytes at \<open>pstart\<close> as a range of the file.\<close>

lemma pstart_slice:
  shows "slice k pstart_off (pstart_off + 16) = pstart_EXPECT \<longleftrightarrow> sub 0x100a 16 k = pstart_EXPECT"
    and "sub 0x100a 16 k = pstart_EXPECT \<Longrightarrow>
      splice k pstart_off (pstart_off + 16) pstart_PATCH = overwrite 0x100a pstart_PATCH k"
proof -
  have n: "length pstart_EXPECT = 16" "length pstart_PATCH = 16" by code_simp+
  have off: "pstart_off = int 0x100a" by (simp add: pstart_off_def)
  have fits: "0x100a + 16 \<le> length k" if "sub 0x100a 16 k = pstart_EXPECT"
    using arg_cong [OF that, of length] n(1) by (simp add: sub_def min_def split: if_splits)
  have sl: "slice k pstart_off (pstart_off + 16) = sub 0x100a 16 k" if "0x100a + 16 \<le> length k"
    using that slice_eq_sub [of pstart_off 16 k] by (simp add: off)
  have l: "0x100a + 16 \<le> length k" if "slice k pstart_off (pstart_off + 16) = pstart_EXPECT"
  proof -
    have "length (slice k pstart_off (pstart_off + int 16)) = 16" using that n(1) by simp
    from slice_full(1) [OF this] show ?thesis by (auto simp: off clip_def)
  qed
  show "slice k pstart_off (pstart_off + 16) = pstart_EXPECT \<longleftrightarrow> sub 0x100a 16 k = pstart_EXPECT"
    using sl l fits by metis
  assume "sub 0x100a 16 k = pstart_EXPECT"
  then have "0x100a + 16 \<le> length k" by (rule fits)
  then show "splice k pstart_off (pstart_off + 16) pstart_PATCH = overwrite 0x100a pstart_PATCH k"
    by (simp add: splice_def overwrite_def off n(2) clip_def Let_def nat_add_distrib)
qed

text \<open>
  C17: how a run of patch_pstart_040.py ends.  It touches no file but the copy.  Without two arguments it
  ends before doing anything; otherwise the copy is made first, so a kernel whose code at pstart is not
  the expected one is refused with an unpatched copy left in place of the output, and a run that
  succeeds leaves the sixteen bytes replaced in a kernel of the same length.
\<close>

theorem pstart_ends:
  "case pstart_main args fs of (fs', r) \<Rightarrow> (case args of
     src # dst # _ \<Rightarrow>
       (if r = Patched \<or> r = Not_pstart then
          (case fs src of
             None \<Rightarrow> False
           | Some k \<Rightarrow> fs' = fs(dst \<mapsto> if r = Not_pstart then k else overwrite 0x100a pstart_PATCH k) \<and> src \<noteq> dst \<and>
               (r = Patched) = (sub 0x100a 16 k = pstart_EXPECT))
        else fs' = fs \<and> r \<noteq> Unbound_os)
   | _ \<Rightarrow> fs' = fs \<and> r = Unbound_os)"
proof (cases args)
  case (Cons src as)
  note args1 = Cons
  show ?thesis
  proof (cases as)
    case (Cons dst rest)
    show ?thesis
    proof (cases "CHR ''/'' \<notin> set dst \<or> fs src = None \<or> src = dst")
      case True
      then show ?thesis using args1 Cons by (auto simp: pstart_main_def split: option.splits)
    next
      case False
      then obtain k where k: "fs src = Some k" and f: "CHR ''/'' \<in> set dst" "src \<noteq> dst" by auto
      have "0x100a = nat pstart_off" by (simp add: pstart_off_def)
      show ?thesis using k f args1 Cons pstart_slice [of k] by (auto simp: pstart_main_def Let_def)
    qed
  qed (simp add: args1 pstart_main_def)
qed (simp add: pstart_main_def)

end
