(* ===== verification/Image_Checks.thy ===== *)
theory Image_Checks
  imports Data_Words Py_Strings
begin

text \<open>
  Three checkers of a linked image: \<open>check_relink_relocs\<close>, which runs the binding and symbol rules of the
  AMIX loader over every relocation before the image is ever booted; \<open>check_vproc\<close>, which compares a
  tunable with the size of a table; and \<open>check_swap_boname\<close>, which follows a pointer of the swap code.
\<close>

subsection \<open>check_relink_relocs\<close>

record lsec =
  l_nm :: string
  l_type :: int
  l_flags :: int
  l_off :: int
  l_size :: int
  l_link :: int
  l_entsize :: int
  l_baddr :: int

definition SHT_PROGBITS :: int where "SHT_PROGBITS = 1"
definition SHT_NOBITS :: int where "SHT_NOBITS = 8"
definition SHT_SYMTAB :: int where "SHT_SYMTAB = 2"
definition SHT_RELA :: int where "SHT_RELA = 4"

text \<open>The flags \<open>SHF_WRITE\<close> and \<open>SHF_EXEC\<close> are bits 0 and 2.\<close>

definition writable :: "lsec \<Rightarrow> bool" where
  "writable s \<longleftrightarrow> l_flags s mod 2 = 1"

definition executable :: "lsec \<Rightarrow> bool" where
  "executable s \<longleftrightarrow> l_flags s div 4 mod 2 = 1"

definition lsec_at :: "byte list \<Rightarrow> int \<Rightarrow> exn + int \<times> lsec" where
  "lsec_at f b = bind_e (u32 f b) (\<lambda>nm. bind_e (u32 f (b + 4)) (\<lambda>ty. bind_e (u32 f (b + 8)) (\<lambda>fl.
     bind_e (u32 f (b + 12)) (\<lambda>_. bind_e (u32 f (b + 16)) (\<lambda>off. bind_e (u32 f (b + 20)) (\<lambda>sz.
     bind_e (u32 f (b + 24)) (\<lambda>lk. bind_e (u32 f (b + 28)) (\<lambda>_. bind_e (u32 f (b + 36)) (\<lambda>ent.
     Inr (nm, \<lparr>l_nm = [], l_type = ty, l_flags = fl, l_off = off, l_size = sz, l_link = lk, l_entsize = ent,
               l_baddr = 0\<rparr>))))))))))"

definition lname_at :: "byte list \<Rightarrow> int \<Rightarrow> exn + string" where
  "lname_at f o' = bind_e (cstr f o') (\<lambda>s. Inr (decode_latin1 s))"

definition lsecs :: "byte list \<Rightarrow> exn + lsec list" where
  "lsecs f = bind_e (u16 f 16) (\<lambda>_. bind_e (u32 f 32) (\<lambda>shoff. bind_e (u16 f 46) (\<lambda>ent. bind_e (u16 f 48) (\<lambda>n.
     bind_e (u16 f 50) (\<lambda>st.
     bind_e (map_e (\<lambda>i. lsec_at f (shoff + i * ent)) (py_range n)) (\<lambda>rows.
     bind_e (py_nth rows st) (\<lambda>(_, s). let shstr = l_off s in
     map_e (\<lambda>(nm, s). bind_e (lname_at f (shstr + nm)) (\<lambda>name. Inr (s\<lparr>l_nm := name\<rparr>))) rows)))))))"

text \<open>\<open>findsections\<close>: the positions of the text, data, bss and symbol sections; the last of each kind wins.\<close>

record headers =
  h_thdr :: "nat option"
  h_dhdr :: "nat option"
  h_bhdr :: "nat option"
  h_symhdr :: "nat option"

definition find_step :: "nat \<times> lsec \<Rightarrow> headers \<Rightarrow> headers" where
  "find_step p h = (case p of (i, s) \<Rightarrow>
     if l_type s = SHT_PROGBITS then
       (if executable s \<and> 0 < l_size s then h\<lparr>h_thdr := Some i\<rparr>
        else if writable s \<and> 0 < l_size s then h\<lparr>h_dhdr := Some i\<rparr> else h)
     else if l_type s = SHT_NOBITS \<and> writable s \<and> 0 < l_size s then h\<lparr>h_bhdr := Some i\<rparr>
     else if l_type s = SHT_SYMTAB then h\<lparr>h_symhdr := Some i\<rparr> else h)"

definition findsections :: "lsec list \<Rightarrow> headers" where
  "findsections ss = fold find_step (zip [0..<length ss] ss)
     \<lparr>h_thdr = None, h_dhdr = None, h_bhdr = None, h_symhdr = None\<rparr>"

definition BIND :: int where "BIND = 0x07000000"

definition named_secs :: "(string \<times> int) list" where
  "named_secs = [(''.uvblock'', 0x40000000), (''.kvsysseg'', 0x40040000), (''.kvsegmap'', 0x40440000), (''.kvsegu'', 0x48440000)]"

definition bind_at :: "nat \<Rightarrow> int \<Rightarrow> lsec list \<Rightarrow> lsec list" where
  "bind_at i a ss = ss[i := (ss ! i)\<lparr>l_baddr := a\<rparr>]"

text \<open>
  \<open>bindsections\<close>: text, data and bss follow one another from \<open>BIND\<close>, and the sections with a fixed address
  come last.  Without text or data section the subscript of \<open>None\<close> raises.
\<close>

definition bindsections :: "lsec list \<Rightarrow> exn + lsec list" where
  "bindsections ss = (let h = findsections ss in
     case (h_thdr h, h_dhdr h) of
       (Some t, Some d) \<Rightarrow>
         (let s1 = bind_at t BIND ss;
              s2 = bind_at d (l_baddr (s1 ! t) + l_size (s1 ! t)) s1;
              s3 = (case h_bhdr h of None \<Rightarrow> s2 | Some b \<Rightarrow> bind_at b (l_baddr (s2 ! d) + l_size (s2 ! d)) s2)
          in Inr (map (\<lambda>s. case map_of named_secs (l_nm s) of None \<Rightarrow> s | Some a \<Rightarrow> s\<lparr>l_baddr := a\<rparr>) s3))
     | _ \<Rightarrow> Inl TypeError)"

record lsym =
  y_name :: int
  y_shndx :: int

definition lsym_at :: "byte list \<Rightarrow> int \<Rightarrow> int \<Rightarrow> exn + lsym" where
  "lsym_at f symoff i = (let b = symoff + i * 16 in
     bind_e (u32 f b) (\<lambda>nm. bind_e (u32 f (b + 4)) (\<lambda>_. bind_e (u32 f (b + 8)) (\<lambda>_. bind_e (byte_at f (b + 12)) (\<lambda>_.
     bind_e (u16 f (b + 14)) (\<lambda>x. Inr \<lparr>y_name = nm, y_shndx = x\<rparr>))))))"

definition lsymname :: "byte list \<Rightarrow> int \<Rightarrow> lsym \<Rightarrow> exn + string" where
  "lsymname f stroff sm = (if y_name sm = 0 then Inr [] else lname_at f (stroff + y_name sm))"

text \<open>\<open>specialsyms\<close>: the symbols the loader turns into absolute ones.\<close>

definition absset :: "byte list \<Rightarrow> int \<Rightarrow> int \<Rightarrow> int \<Rightarrow> exn + int list" where
  "absset f symoff stroff sn = bind_e (map_e (\<lambda>i. bind_e (lsym_at f symoff i) (\<lambda>sm.
       bind_e (lsymname f stroff sm) (\<lambda>nm. Inr (i, nm)))) (py_range sn))
     (\<lambda>kvs. Inr (map fst (filter (\<lambda>(i, nm). nm \<in> {''etext'', ''edata'', ''end''}) kvs)))"

datatype reloc_complaint = Unbound int | Badshndx int

definition complaint_of :: "lsec list \<Rightarrow> int list \<Rightarrow> int \<Rightarrow> int \<Rightarrow> reloc_complaint option" where
  "complaint_of ss special symidx shndx =
     (if symidx \<in> set special \<or> shndx = 0xfff1 \<or> shndx = 0xfff2 then None
      else if 0 < shndx \<and> shndx < int (length ss)
      then (if l_baddr (ss ! nat shndx) = 0 then Some (Unbound symidx) else None)
      else Some (Badshndx symidx))"

record relink_view =
  r_secs :: "lsec list"
  r_symoff :: int
  r_stroff :: int
  r_special :: "int list"

text \<open>
  One relocation.  The first twelve complaints are printed with the name of the symbol, and reading that
  name can itself raise.
\<close>

definition relink_rel :: "byte list \<Rightarrow> relink_view \<Rightarrow> int \<Rightarrow> reloc_complaint list \<Rightarrow> exn + reloc_complaint list" where
  "relink_rel f v b cs = bind_e (u32 f b) (\<lambda>_. bind_e (u32 f (b + 4)) (\<lambda>info. bind_e (u32 f (b + 8)) (\<lambda>_.
     let symidx = info div 256 in
     bind_e (lsym_at f (r_symoff v) symidx) (\<lambda>sm.
     case complaint_of (r_secs v) (r_special v) symidx (y_shndx sm) of
       None \<Rightarrow> Inr cs
     | Some c \<Rightarrow> bind_e (if length cs < 12 then lsymname f (r_stroff v) sm else Inr []) (\<lambda>_. Inr (cs @ [c]))))))"

fun relink_rels :: "byte list \<Rightarrow> relink_view \<Rightarrow> int list \<Rightarrow> reloc_complaint list \<Rightarrow> exn + reloc_complaint list" where
  "relink_rels f v [] cs = Inr cs"
| "relink_rels f v (b # bs) cs = bind_e (relink_rel f v b cs) (relink_rels f v bs)"

fun relink_secs :: "byte list \<Rightarrow> relink_view \<Rightarrow> lsec list \<Rightarrow> reloc_complaint list \<Rightarrow> exn + reloc_complaint list" where
  "relink_secs f v [] cs = Inr cs"
| "relink_secs f v (s # ss) cs =
     (if l_type s \<noteq> SHT_RELA then relink_secs f v ss cs
      else bind_e (py_div (l_size s) (l_entsize s)) (\<lambda>n.
        bind_e (relink_rels f v (map (\<lambda>j. l_off s + j * l_entsize s) (py_range n)) cs) (relink_secs f v ss)))"

definition relink_open :: "byte list \<Rightarrow> exn + relink_view" where
  "relink_open f = bind_e (lsecs f) (\<lambda>ss0. bind_e (bindsections ss0) (\<lambda>ss.
     case h_symhdr (findsections ss0) of
       None \<Rightarrow> Inl TypeError
     | Some k \<Rightarrow> let sh = ss ! k in bind_e (py_nth ss (l_link sh)) (\<lambda>strh.
         bind_e (absset f (l_off sh) (l_off strh) (l_size sh div 16)) (\<lambda>special.
         Inr \<lparr>r_secs = ss, r_symoff = l_off sh, r_stroff = l_off strh, r_special = special\<rparr>))))"

definition check_relink :: "byte list \<Rightarrow> exn + reloc_complaint list" where
  "check_relink f = bind_e (relink_open f) (\<lambda>v. relink_secs f v (r_secs v) [])"

definition relink_exit :: "byte list \<Rightarrow> exn + int" where
  "relink_exit f = bind_e (check_relink f) (\<lambda>cs. Inr (if cs = [] then 0 else 1))"

subsubsection \<open>Which sections are bound\<close>

text \<open>The sections of each kind, and the last of a kind.\<close>

definition is_text :: "lsec \<Rightarrow> bool" where
  "is_text s \<longleftrightarrow> l_type s = SHT_PROGBITS \<and> executable s \<and> 0 < l_size s"

definition is_data :: "lsec \<Rightarrow> bool" where
  "is_data s \<longleftrightarrow> l_type s = SHT_PROGBITS \<and> \<not> executable s \<and> writable s \<and> 0 < l_size s"

definition is_bss :: "lsec \<Rightarrow> bool" where
  "is_bss s \<longleftrightarrow> l_type s = SHT_NOBITS \<and> writable s \<and> 0 < l_size s"

definition is_symtab :: "lsec \<Rightarrow> bool" where
  "is_symtab s \<longleftrightarrow> l_type s = SHT_SYMTAB"

definition last_such :: "(lsec \<Rightarrow> bool) \<Rightarrow> lsec list \<Rightarrow> nat option" where
  "last_such P ss = (let is = filter (\<lambda>i. P (ss ! i)) [0..<length ss] in if is = [] then None else Some (last is))"

lemma last_such_snoc: "last_such P (ss @ [s]) = (if P s then Some (length ss) else last_such P ss)"
proof -
  have "filter (\<lambda>i. P ((ss @ [s]) ! i)) [0..<length ss] = filter (\<lambda>i. P (ss ! i)) [0..<length ss]"
    by (rule filter_cong) (simp_all add: nth_append)
  then show ?thesis by (simp add: last_such_def Let_def)
qed

lemma last_such_Some: "last_such P ss = Some i \<Longrightarrow> i < length ss \<and> P (ss ! i)"
  by (induction ss rule: rev_induct) (auto simp: last_such_snoc nth_append last_such_def [of P "[]"] split: if_splits)

lemma findsections_snoc: "findsections (ss @ [s]) = find_step (length ss, s) (findsections ss)"
  by (simp add: findsections_def zip_append1)

lemma find_step_simps:
  "h_thdr (find_step (i, s) h) = (if is_text s then Some i else h_thdr h)"
  "h_dhdr (find_step (i, s) h) = (if is_data s then Some i else h_dhdr h)"
  "h_bhdr (find_step (i, s) h) = (if is_bss s then Some i else h_bhdr h)"
  "h_symhdr (find_step (i, s) h) = (if is_symtab s then Some i else h_symhdr h)"
  by (simp_all add: find_step_def is_text_def is_data_def is_bss_def is_symtab_def
      SHT_PROGBITS_def SHT_NOBITS_def SHT_SYMTAB_def)

lemma findsections_spec:
  "h_thdr (findsections ss) = last_such is_text ss" "h_dhdr (findsections ss) = last_such is_data ss"
  "h_bhdr (findsections ss) = last_such is_bss ss" "h_symhdr (findsections ss) = last_such is_symtab ss"
proof (induction ss rule: rev_induct)
  case Nil
  show 1: "h_thdr (findsections []) = last_such is_text []" and "h_dhdr (findsections []) = last_such is_data []"
    and "h_bhdr (findsections []) = last_such is_bss []" and "h_symhdr (findsections []) = last_such is_symtab []"
    by (simp_all add: findsections_def last_such_def)
next
  case (snoc s ss)
  show "h_thdr (findsections (ss @ [s])) = last_such is_text (ss @ [s])"
    and "h_dhdr (findsections (ss @ [s])) = last_such is_data (ss @ [s])"
    and "h_bhdr (findsections (ss @ [s])) = last_such is_bss (ss @ [s])"
    and "h_symhdr (findsections (ss @ [s])) = last_such is_symtab (ss @ [s])"
    using snoc by (simp_all add: findsections_snoc last_such_snoc find_step_simps)
qed

text \<open>
  The sections of an image that the loader gives an address: the last text, data and bss sections and those
  with a fixed address.
\<close>

definition gets_address :: "lsec list \<Rightarrow> nat \<Rightarrow> bool" where
  "gets_address ss i \<longleftrightarrow> Some i \<in> {last_such is_text ss, last_such is_data ss, last_such is_bss ss} \<or>
     l_nm (ss ! i) \<in> {''.uvblock'', ''.kvsysseg'', ''.kvsegmap'', ''.kvsegu''}"

text \<open>
  The three addresses: text at \<open>BIND\<close>, data behind it, bss behind data.
\<close>

definition laid_out :: "lsec list \<Rightarrow> nat \<Rightarrow> nat \<Rightarrow> nat \<Rightarrow> int" where
  "laid_out ss t d i =
     (if last_such is_bss ss = Some i then BIND + l_size (ss ! t) + l_size (ss ! d)
      else if i = d then BIND + l_size (ss ! t)
      else if i = t then BIND else l_baddr (ss ! i))"

lemma kinds_apart:
  assumes "last_such is_text ss = Some t" "last_such is_data ss = Some d"
  shows "t < length ss" "d < length ss" "t \<noteq> d" "last_such is_bss ss = Some b \<Longrightarrow> b < length ss \<and> b \<noteq> t \<and> b \<noteq> d"
proof -
  note t = last_such_Some [OF assms(1)] and d = last_such_Some [OF assms(2)]
  show "t < length ss" "d < length ss" using t d by auto
  show "t \<noteq> d" using t d by (auto simp: is_text_def is_data_def)
  assume "last_such is_bss ss = Some b"
  then have "b < length ss \<and> is_bss (ss ! b)" by (rule last_such_Some)
  then show "b < length ss \<and> b \<noteq> t \<and> b \<noteq> d" using t d
    by (auto simp: is_text_def is_data_def is_bss_def SHT_PROGBITS_def SHT_NOBITS_def)
qed

definition fixed_of :: "lsec \<Rightarrow> int \<Rightarrow> int" where
  "fixed_of s a = (case map_of named_secs (l_nm s) of None \<Rightarrow> a | Some x \<Rightarrow> x)"

lemma length_bind_at [simp]: "length (bind_at i a ss) = length ss"
  by (simp add: bind_at_def)

lemma bindsections_nth:
  assumes "bindsections ss = Inr ss'"
  obtains t d where "last_such is_text ss = Some t" "last_such is_data ss = Some d" "length ss' = length ss"
    "\<And>i. i < length ss \<Longrightarrow> ss' ! i = (ss ! i)\<lparr>l_baddr := fixed_of (ss ! i) (laid_out ss t d i)\<rparr>"
proof -
  obtain t d where t: "last_such is_text ss = Some t" and d: "last_such is_data ss = Some d"
    using assms by (auto simp: bindsections_def findsections_spec Let_def split: option.splits)
  note k = kinds_apart [OF t d]
  let ?s1 = "bind_at t BIND ss" and ?s2 = "bind_at d (BIND + l_size (ss ! t)) (bind_at t BIND ss)"
  let ?s3 = "case last_such is_bss ss of None \<Rightarrow> ?s2 | Some b \<Rightarrow> bind_at b (BIND + l_size (ss ! t) + l_size (ss ! d)) ?s2"
  have s3: "?s3 ! i = (ss ! i)\<lparr>l_baddr := laid_out ss t d i\<rparr>" "length ?s3 = length ss" if "i < length ss" for i
    using that k by (auto simp: bind_at_def laid_out_def nth_list_update split: option.splits)
  have "ss' = map (\<lambda>s. case map_of named_secs (l_nm s) of None \<Rightarrow> s | Some a \<Rightarrow> s\<lparr>l_baddr := a\<rparr>) ?s3"
    using assms k by (simp add: bindsections_def findsections_spec Let_def t d bind_at_def cong: option.case_cong)
  then show thesis
    by (intro that [OF t d]) (auto simp: s3 fixed_of_def split: option.splits)
qed

lemma bound_iff:
  assumes b: "bindsections ss = Inr ss'" and z: "\<forall>s \<in> set ss. l_baddr s = 0" and i: "i < length ss"
  shows "l_baddr (ss' ! i) \<noteq> 0 \<longleftrightarrow> gets_address ss i"
proof -
  obtain t d where h: "last_such is_text ss = Some t" "last_such is_data ss = Some d"
    "ss' ! i = (ss ! i)\<lparr>l_baddr := fixed_of (ss ! i) (laid_out ss t d i)\<rparr>"
    using i by (auto intro: bindsections_nth [OF b])
  have "0 < l_size (ss ! t)" "0 < l_size (ss ! d)"
    using last_such_Some [OF h(1)] last_such_Some [OF h(2)] by (auto simp: is_text_def is_data_def)
  moreover have "l_baddr (ss ! i) = 0" using z i by simp
  ultimately show ?thesis
    using h by (auto simp: gets_address_def fixed_of_def named_secs_def laid_out_def BIND_def split: if_splits)
qed

subsubsection \<open>What the checker reports\<close>

text \<open>The relocations the checker walks: symbol and section index of the symbol, in order.\<close>

definition rel_target :: "byte list \<Rightarrow> relink_view \<Rightarrow> int \<Rightarrow> exn + int \<times> int" where
  "rel_target f v b = bind_e (u32 f b) (\<lambda>_. bind_e (u32 f (b + 4)) (\<lambda>info. bind_e (u32 f (b + 8)) (\<lambda>_.
     bind_e (lsym_at f (r_symoff v) (info div 256)) (\<lambda>sm. Inr (info div 256, y_shndx sm)))))"

definition sec_targets :: "byte list \<Rightarrow> relink_view \<Rightarrow> lsec \<Rightarrow> exn + (int \<times> int) list" where
  "sec_targets f v s = (if l_type s \<noteq> SHT_RELA then Inr []
     else bind_e (py_div (l_size s) (l_entsize s)) (\<lambda>n.
       map_e (\<lambda>j. rel_target f v (l_off s + j * l_entsize s)) (py_range n)))"

definition all_targets :: "byte list \<Rightarrow> relink_view \<Rightarrow> exn + (int \<times> int) list" where
  "all_targets f v = bind_e (map_e (sec_targets f v) (r_secs v)) (\<lambda>rs. Inr (concat rs))"

definition complaints :: "relink_view \<Rightarrow> (int \<times> int) list \<Rightarrow> reloc_complaint list" where
  "complaints v rs = List.map_filter (\<lambda>(i, x). complaint_of (r_secs v) (r_special v) i x) rs"

lemma complaints_simps:
  "complaints v [] = []"
  "complaints v ((i, x) # rs) = (case complaint_of (r_secs v) (r_special v) i x of
     None \<Rightarrow> complaints v rs | Some c \<Rightarrow> c # complaints v rs)"
  by (simp_all add: complaints_def map_filter_simps split: option.split)

lemma complaints_append: "complaints v (rs @ rs') = complaints v rs @ complaints v rs'"
  by (induction rs) (auto simp: complaints_simps split: option.split)

lemma relink_rel_Inr:
  assumes "relink_rel f v b cs = Inr cs'"
  obtains i x where "rel_target f v b = Inr (i, x)" "cs' = cs @ complaints v [(i, x)]"
  using assms
  by (auto simp: relink_rel_def rel_target_def complaints_simps Let_def split: option.splits)

lemma relink_rels_Inr:
  "relink_rels f v bs cs = Inr cs' \<Longrightarrow> \<exists>rs. map_e (rel_target f v) bs = Inr rs \<and> cs' = cs @ complaints v rs"
proof (induction bs arbitrary: cs)
  case Nil
  then show ?case by (simp add: complaints_simps)
next
  case (Cons b bs)
  then obtain c1 where c1: "relink_rel f v b cs = Inr c1" "relink_rels f v bs c1 = Inr cs'" by auto
  obtain i x where r: "rel_target f v b = Inr (i, x)" "c1 = cs @ complaints v [(i, x)]"
    by (rule relink_rel_Inr [OF c1(1)])
  obtain rs where "map_e (rel_target f v) bs = Inr rs" "cs' = c1 @ complaints v rs"
    using Cons.IH [OF c1(2)] by blast
  then show ?case using r complaints_append [of v "[(i, x)]" rs] by simp
qed

lemma relink_secs_Inr:
  "relink_secs f v ss cs = Inr cs' \<Longrightarrow> \<exists>rs. map_e (sec_targets f v) ss = Inr rs \<and> cs' = cs @ complaints v (concat rs)"
proof (induction ss arbitrary: cs)
  case Nil
  then show ?case by (simp add: complaints_simps)
next
  case (Cons s ss)
  show ?case
  proof (cases "l_type s = SHT_RELA")
    case False
    then have "relink_secs f v ss cs = Inr cs'" using Cons.prems by simp
    from Cons.IH [OF this] show ?thesis using False by (auto simp: sec_targets_def)
  next
    case True
    then obtain n c1 where n: "py_div (l_size s) (l_entsize s) = Inr n"
      and c1: "relink_rels f v (map (\<lambda>j. l_off s + j * l_entsize s) (py_range n)) cs = Inr c1"
      and rest: "relink_secs f v ss c1 = Inr cs'"
      using Cons.prems by auto
    have me: "map_e g (map h xs) = map_e (\<lambda>x. g (h x)) xs" for g h and xs :: "int list"
      by (induction xs) auto
    obtain rs1 where "map_e (\<lambda>j. rel_target f v (l_off s + j * l_entsize s)) (py_range n) = Inr rs1"
        "c1 = cs @ complaints v rs1"
      using relink_rels_Inr [OF c1] by (auto simp: me)
    then show ?thesis using Cons.IH [OF rest] True n
      by (auto simp: sec_targets_def complaints_append)
  qed
qed

text \<open>
  What the loader resolves: an absolute or common symbol, one of the three it makes absolute, or a symbol of
  a section that gets an address.
\<close>

definition resolves :: "lsec list \<Rightarrow> int list \<Rightarrow> int \<times> int \<Rightarrow> bool" where
  "resolves ss special r \<longleftrightarrow> (case r of (i, x) \<Rightarrow>
     i \<in> set special \<or> x \<in> {0xfff1, 0xfff2} \<or> (0 < x \<and> x < int (length ss) \<and> gets_address ss (nat x)))"

lemma lsecs_unbound: "lsecs f = Inr ss \<Longrightarrow> \<forall>s \<in> set ss. l_baddr s = 0"
proof -
  assume "lsecs f = Inr ss"
  then obtain shoff ent n shstr rows where rows: "map_e (\<lambda>i. lsec_at f (shoff + i * ent)) (py_range n) = Inr rows"
    and ss: "map_e (\<lambda>(nm, s). bind_e (lname_at f (shstr + nm)) (\<lambda>name. Inr (s\<lparr>l_nm := name\<rparr>))) rows = Inr ss"
    by (auto simp: lsecs_def Let_def)
  have z: "l_baddr (snd r) = 0" if r: "r \<in> set rows" for r
  proof -
    obtain k where k: "k < length rows" "rows ! k = r" using r unfolding in_set_conv_nth by blast
    then have "lsec_at f (shoff + py_range n ! k * ent) = Inr r"
      using map_e_nth [OF rows, of k] map_e_length [OF rows] by simp
    then show ?thesis by (auto simp: lsec_at_def)
  qed
  show ?thesis
  proof
    fix s assume "s \<in> set ss"
    then obtain k where k: "k < length rows" "s = ss ! k" using map_e_length [OF ss] by (auto simp: in_set_conv_nth)
    obtain nm s0 where r: "rows ! k = (nm, s0)" by (cases "rows ! k")
    obtain name where "Inr (s0\<lparr>l_nm := name\<rparr>) = (Inr s :: exn + lsec)"
      using map_e_nth [OF ss k(1)] k(2) by (auto simp: r)
    then have "s = s0\<lparr>l_nm := name\<rparr>" by simp
    moreover have "l_baddr s0 = 0" using z [OF nth_mem [OF k(1)]] by (simp add: r)
    ultimately show "l_baddr s = 0" by simp
  qed
qed

lemma complaint_iff:
  assumes "bindsections ss0 = Inr ss" "\<forall>s \<in> set ss0. l_baddr s = 0"
  shows "complaint_of ss special i x = None \<longleftrightarrow> resolves ss0 special (i, x)"
proof -
  have l: "length ss = length ss0" by (auto intro: bindsections_nth [OF assms(1)])
  show ?thesis
  proof (cases "0 < x \<and> x < int (length ss0)")
    case True
    then have "nat x < length ss0" by linarith
    from bound_iff [OF assms this] True l show ?thesis by (auto simp: complaint_of_def resolves_def)
  qed (auto simp: complaint_of_def resolves_def l)
qed

lemma complaints_Nil:
  assumes "bindsections ss0 = Inr (r_secs v)" "\<forall>s \<in> set ss0. l_baddr s = 0"
  shows "complaints v rs = [] \<longleftrightarrow> list_all (resolves ss0 (r_special v)) rs"
  by (induction rs) (auto simp: complaints_simps complaint_iff [OF assms, symmetric] split: option.splits)

text \<open>
  C14: check_relink_relocs.py is exact.  Whenever it reaches a verdict it has read every relocation of
  every RELA section, and it exits with 0 exactly when the loader can resolve the symbol of each of them:
  the symbol is absolute, common, one of etext, edata and end, or defined in a section the loader gives an
  address, that is the last text, data or bss section or one of the four with a fixed address.
\<close>

theorem relink_check_exact:
  "case check_relink f of
     Inl e \<Rightarrow> relink_exit f = Inl e
   | Inr cs \<Rightarrow> (\<exists>ss v rs. lsecs f = Inr ss \<and> relink_open f = Inr v \<and> all_targets f v = Inr rs \<and>
       length cs = length (filter (\<lambda>r. \<not> resolves ss (r_special v) r) rs) \<and>
       relink_exit f = Inr (if list_all (resolves ss (r_special v)) rs then 0 else 1))"
proof (cases "check_relink f")
  case (Inl e)
  then show ?thesis by (simp add: relink_exit_def)
next
  case (Inr cs)
  then obtain v where v: "relink_open f = Inr v" and secs: "relink_secs f v (r_secs v) [] = Inr cs"
    by (auto simp: check_relink_def)
  obtain ss where ss: "lsecs f = Inr ss" and b: "bindsections ss = Inr (r_secs v)"
    using v by (auto simp: relink_open_def Let_def split: option.splits)
  note z = lsecs_unbound [OF ss]
  obtain rs where rs: "all_targets f v = Inr rs" "cs = complaints v rs"
    using relink_secs_Inr [OF secs] by (auto simp: all_targets_def)
  have len: "length (complaints v rs) = length (filter (\<lambda>r. \<not> resolves ss (r_special v) r) rs)" for rs
    by (induction rs) (auto simp: complaints_simps complaint_iff [OF b z, symmetric] split: option.splits)
  have "relink_exit f = Inr (if list_all (resolves ss (r_special v)) rs then 0 else 1)"
    using Inr rs(2) complaints_Nil [OF b z] by (simp add: relink_exit_def)
  then show ?thesis using Inr ss v rs len by auto
qed

subsection \<open>check_vproc\<close>

text \<open>The first symbol \<open>v\<close> of the section \<open>idx\<close>.\<close>

fun vproc_find :: "byte list \<Rightarrow> shdr \<Rightarrow> int \<Rightarrow> int \<Rightarrow> int list \<Rightarrow> exn + int option" where
  "vproc_find buf symtab stroff idx [] = Inr None"
| "vproc_find buf symtab stroff idx (i # is) = (let o' = row_pos symtab i in
     bind_e (u32 buf o') (\<lambda>n. bind_e (cstr buf (stroff + n)) (\<lambda>s.
     bind_e (if s = ascii ''v'' then bind_e (u16 buf (o' + 14)) (\<lambda>x. Inr (x = idx)) else Inr False) (\<lambda>hit.
     if hit then bind_e (u32 buf (o' + 4)) (\<lambda>v. Inr (Some v)) else vproc_find buf symtab stroff idx is))))"

definition vproc_value :: "byte list \<Rightarrow> exn + int" where
  "vproc_value buf = bind_e (section_table buf) (\<lambda>(sh, shstr). bind_e (map_e (sec_name buf shstr) sh) (\<lambda>names.
     let sec = py_dict (zip names (zip [0..<length sh] sh)) in
     bind_e (dict_get ''.data'' sec) (\<lambda>(idx, data). bind_e (dict_get ''.symtab'' sec) (\<lambda>(_, symtab).
     bind_e (py_nth sh (s_link symtab)) (\<lambda>strtab. bind_e (nrels symtab) (\<lambda>n.
     bind_e (vproc_find buf symtab (s_offset strtab) (int idx) (py_range n)) (\<lambda>r. case r of
       None \<Rightarrow> Inl (SystemExit ''ABORT: symbol v not found in .data'')
     | Some v \<Rightarrow> u32 buf (s_offset data + v + 8))))))))"

definition TABLE_SLOTS :: int where "TABLE_SLOTS = 200"

definition check_vproc :: "byte list \<Rightarrow> exn + unit" where
  "check_vproc buf = bind_e (vproc_value buf) (\<lambda>got.
     must (got = TABLE_SLOTS) ''ABORT: v.v_proc but Lkx_proc_depth has another number of cells'')"

subsection \<open>check_swap_boname\<close>

text \<open>The section headers are kept as slices of the file, and the words of a header are read from its slice.\<close>

definition raw_headers :: "byte list \<Rightarrow> exn + byte list list \<times> int" where
  "raw_headers b = bind_e (u32 b 32) (\<lambda>sho. bind_e (u16 b 46) (\<lambda>esz. bind_e (u16 b 48) (\<lambda>n. bind_e (u16 b 50) (\<lambda>stx.
     let sh = map (\<lambda>i. slice b (sho + i * esz) (sho + (i + 1) * esz)) (py_range n) in
     bind_e (py_nth sh stx) (\<lambda>s. bind_e (u32 s 16) (\<lambda>nameoff. bind_e (u32 s 20) (\<lambda>_. Inr (sh, nameoff))))))))"

definition raw_name :: "byte list \<Rightarrow> int \<Rightarrow> byte list \<Rightarrow> exn + string" where
  "raw_name b nameoff s = bind_e (u32 s 0) (\<lambda>n. utf8_at b (nameoff + n))"

definition raw_place :: "byte list \<Rightarrow> exn + int \<times> int" where
  "raw_place s = bind_e (u32 s 12) (\<lambda>a. bind_e (u32 s 16) (\<lambda>o'. bind_e (u32 s 20) (\<lambda>_. Inr (a, o'))))"

definition raw_sections :: "byte list \<Rightarrow> int \<Rightarrow> byte list list \<Rightarrow> exn + (string \<times> int \<times> int) list" where
  "raw_sections b nameoff sh = bind_e (map_e (\<lambda>s. bind_e (raw_name b nameoff s) (\<lambda>n.
     bind_e (raw_place s) (\<lambda>p. Inr (n, p)))) sh) (\<lambda>kvs. Inr (py_dict kvs))"

fun raw_first :: "byte list \<Rightarrow> int \<Rightarrow> string \<Rightarrow> byte list list \<Rightarrow> exn + byte list option" where
  "raw_first b nameoff name [] = Inr None"
| "raw_first b nameoff name (s # ss) = bind_e (raw_name b nameoff s) (\<lambda>n.
     if n = name then Inr (Some s) else raw_first b nameoff name ss)"

text \<open>The value of the first symbol with these bytes as its name.\<close>

fun raw_symbol :: "byte list \<Rightarrow> int \<Rightarrow> int \<Rightarrow> int \<Rightarrow> byte list \<Rightarrow> int list \<Rightarrow> exn + int option" where
  "raw_symbol b sy_off sy_ent str_off name [] = Inr None"
| "raw_symbol b sy_off sy_ent str_off name (i # is) = (let o' = sy_off + i * sy_ent in
     bind_e (u32 b o') (\<lambda>n. bind_e (cstr b (str_off + n)) (\<lambda>s.
     if s = name then bind_e (u32 b (o' + 4)) (\<lambda>v. Inr (Some v))
     else raw_symbol b sy_off sy_ent str_off name is)))"

definition boname_at :: "byte list \<Rightarrow> byte list list \<Rightarrow> int \<Rightarrow> byte list \<Rightarrow> exn + string" where
  "boname_at b sh nameoff symtab =
     bind_e (u32 symtab 16) (\<lambda>sy_off. bind_e (u32 symtab 20) (\<lambda>sy_size. bind_e (u32 symtab 24) (\<lambda>sy_link.
     bind_e (u32 symtab 28) (\<lambda>_. bind_e (u32 symtab 32) (\<lambda>_. bind_e (u32 symtab 36) (\<lambda>sy_ent.
     bind_e (py_nth sh sy_link) (\<lambda>strs. bind_e (u32 strs 16) (\<lambda>str_off. bind_e (py_div sy_size sy_ent) (\<lambda>n.
     bind_e (raw_symbol b sy_off sy_ent str_off (ascii ''swapfile'') (py_range n)) (\<lambda>r. case r of
       None \<Rightarrow> Inl (SystemExit ''ABORT: no swapfile symbol'')
     | Some v \<Rightarrow> bind_e (raw_sections b nameoff sh) (\<lambda>sec. bind_e (dict_get ''.data'' sec) (\<lambda>(da, d).
         lname_at b (data_pos d da v + 0x10)))))))))))))"

text \<open>\<open>None\<close> is the \<open>StopIteration\<close> of \<open>next\<close> over an image without \<open>.symtab\<close>.\<close>

definition swap_boname :: "byte list \<Rightarrow> (exn + string) option" where
  "swap_boname b = (if slice b 0 4 \<noteq> elf_magic then Some (Inl (SystemExit ''ABORT: not ELF''))
     else (case bind_e (raw_headers b) (\<lambda>(sh, nameoff). bind_e (raw_sections b nameoff sh) (\<lambda>_.
             bind_e (raw_first b nameoff ''.symtab'' sh) (\<lambda>r. Inr (sh, nameoff, r)))) of
       Inl e \<Rightarrow> Some (Inl e)
     | Inr (sh, nameoff, None) \<Rightarrow> None
     | Inr (sh, nameoff, Some symtab) \<Rightarrow> Some (bind_e (boname_at b sh nameoff symtab) (\<lambda>name.
         if take 9 name = ''/dev/dsk/'' then Inr name
         else Inl (SystemExit ''ABORT: not a /dev/dsk/ pathname'')))))"

end
