(* ===== verification/Rth1_Record.thy ===== *)
theory Rth1_Record
  imports Reloc_Base Rewire Data_Words
begin

text \<open>
  \<open>src/tools/rth1-record.py\<close>: the records by which an installer names the root disk to the kernel.
  The encoder seals seven longs so that they sum to zero modulo \<open>2^32\<close>; the decoder judges a record by magic, version,
  length and sum; the image commands put a record into the info block of a boot slice, or take it out.
  The descriptions are kept as data, the text around the fields is not modelled.
\<close>

subsection \<open>Longs\<close>

definition RTH1 :: int where "RTH1 = 0x52544831"
definition RTO1 :: int where "RTO1 = 0x52544F31"
definition RTO1_LEN :: nat where "RTO1_LEN = 0x1c"
definition RTH1_LEN :: nat where "RTH1_LEN = 0x38"

text \<open>\<open>& 0xFFFFFFFF\<close> on an unbounded integer is the remainder modulo \<open>2^32\<close>.\<close>

definition seal :: "int list \<Rightarrow> int list" where
  "seal longs = longs @ [(- sum_list longs) mod 4294967296]"

definition pack_longs :: "int list \<Rightarrow> exn + byte list" where
  "pack_longs ws = bind_e (map_e pack_I ws) (\<lambda>bs. Inr (concat bs))"

text \<open>\<open>struct.unpack(">nI", b)\<close> wants exactly \<open>4 n\<close> bytes.\<close>

definition longs_of :: "nat \<Rightarrow> byte list \<Rightarrow> exn + int list" where
  "longs_of n b = (if length b = 4 * n then map_e (\<lambda>i. u32 b (4 * i)) (py_range (int n)) else Inl StructError)"

definition sum0 :: "byte list \<Rightarrow> exn + bool" where
  "sum0 b = bind_e (longs_of (length b div 4) b) (\<lambda>ws. Inr (sum_list ws mod 4294967296 = 0))"

subsection \<open>The root record\<close>

definition rootrec :: "int \<Rightarrow> int \<Rightarrow> int \<Rightarrow> bool \<Rightarrow> exn + byte list" where
  "rootrec unit base ident mobo =
     bind_e (must (0 \<le> unit \<and> unit \<le> 7) ''ABORT: the Amix unit is a SCSI target 0-7'') (\<lambda>_.
     bind_e (must (mobo \<or> base \<noteq> 0 \<or> ident \<noteq> 0) ''ABORT: name the controller'') (\<lambda>_.
     bind_e (must (\<not> (mobo \<and> (base \<noteq> 0 \<or> ident \<noteq> 0))) ''ABORT: --mobo takes no --id/--base'') (\<lambda>_.
     pack_longs (seal [RTO1, 65536 + int RTO1_LEN, unit, base, ident, if mobo then 1 else 0]))))"

datatype controller = Motherboard | Board int | Ident int

record rto1 =
  d_valid :: bool
  d_unit :: int
  d_ctl :: controller
  d_id :: "int option"

definition describe_rto1 :: "byte list \<Rightarrow> exn + rto1" where
  "describe_rto1 b = bind_e (longs_of 7 b) (\<lambda>ws. case ws of
     [m, vl, unit, base, ident, fl, ck] \<Rightarrow>
       bind_e (if m = RTO1 \<and> vl div 65536 = 1 \<and> int RTO1_LEN \<le> vl mod 65536 then sum0 b else Inr False) (\<lambda>ok.
       Inr \<lparr>d_valid = ok, d_unit = unit,
            d_ctl = (if fl mod 2 = 1 then Motherboard else if base \<noteq> 0 then Board base else Ident (ident div 256)),
            d_id = (if base \<noteq> 0 \<and> ident \<noteq> 0 then Some (ident div 256) else None)\<rparr>)
   | _ \<Rightarrow> Inl StructError)"

subsection \<open>The record of the boot loader\<close>

definition FLAGS :: "(int \<times> string) list" where
  "FLAGS = [(0x01, ''BOOT''), (0x02, ''BCDEV''), (0x04, ''BMOBO''), (0x08, ''ROOT''), (0x10, ''AMBIG'')]"

record rth1 =
  h_valid :: bool
  h_flags :: "string list"
  h_unit :: int
  h_board :: int
  h_id :: int
  h_root :: "rto1 option"

definition describe_rth1 :: "byte list \<Rightarrow> exn + rth1" where
  "describe_rth1 b = bind_e (longs_of 14 (take RTH1_LEN b)) (\<lambda>w.
     bind_e (if w ! 0 = RTH1 \<and> w ! 1 div 65536 = 1 \<and> int RTH1_LEN \<le> w ! 1 mod 65536 then sum0 (take 28 b) else Inr False) (\<lambda>ok.
     let root = take 28 (drop 28 b) in
     bind_e (if list_ex (\<lambda>x. x \<noteq> 0) root then map_sum id Some (describe_rto1 root) else Inr None) (\<lambda>r.
     Inr \<lparr>h_valid = ok, h_flags = map snd (filter (\<lambda>(v, n). w ! 2 div v mod 2 = 1) FLAGS), h_unit = w ! 3,
          h_board = w ! 4, h_id = w ! 5 div 256, h_root = r\<rparr>)))"

subsection \<open>The image\<close>

definition IBLK_OFF :: nat where "IBLK_OFF = 0x2600"
definition REC_IN_IBLK :: nat where "REC_IN_IBLK = 0x100"

text \<open>The offset of the boot slice is not negative; a seek before the start of the file is not modelled.\<close>

definition image_slot :: "byte list \<Rightarrow> nat \<Rightarrow> exn + byte list" where
  "image_slot img off = (let iblk = take 512 (drop (off + IBLK_OFF) img) in
     if take 4 iblk \<noteq> ascii ''IBLK'' then Inl (SystemExit ''ABORT: no kernel IBLK'')
     else Inr (take RTO1_LEN (drop REC_IN_IBLK iblk)))"

text \<open>Writing past the end of a file fills the gap with zeros.\<close>

definition write_at :: "byte list \<Rightarrow> nat \<Rightarrow> byte list \<Rightarrow> byte list" where
  "write_at b p data = take p (b @ replicate (p - length b) 0) @ data @ drop (p + length data) b"

definition rto1_magic :: "byte list" where
  "rto1_magic = [0x52, 0x54, 0x4F, 0x31]"

definition any_set :: "byte list \<Rightarrow> bool" where
  "any_set b \<longleftrightarrow> list_ex (\<lambda>x. x \<noteq> 0) b"

definition may_overwrite :: "byte list \<Rightarrow> bool" where
  "may_overwrite cur \<longleftrightarrow> \<not> any_set cur \<or> take 4 cur = rto1_magic"

datatype cmd =
    Rootrec int int int bool
  | Decode "byte list"
  | Show_rootrec nat
  | Clear_rootrec nat
  | Write_rootrec nat int int int bool

datatype rec_outcome = Printed "byte list" | Is_rto1 rto1 | Is_rth1 rth1 | No_record | Cleared | Written rto1

definition show_rec :: "byte list \<Rightarrow> exn + rec_outcome" where
  "show_rec cur = (if any_set cur then map_sum id Is_rto1 (describe_rto1 cur) else Inr No_record)"

definition put_rec :: "byte list \<Rightarrow> nat \<Rightarrow> byte list \<Rightarrow> byte list \<times> (exn + rec_outcome)" where
  "put_rec img off rec = (let img' = write_at img (off + IBLK_OFF + REC_IN_IBLK) rec in
     (img', bind_e (image_slot img' off) (\<lambda>back.
        if back \<noteq> rec then Inl (SystemExit ''ABORT: read-back differs'')
        else map_sum id Written (describe_rto1 rec))))"

fun record_main :: "cmd \<Rightarrow> rec_outcome script" where
  "record_main (Rootrec unit base ident mobo) img = (img, map_sum id Printed (rootrec unit base ident mobo))"
| "record_main (Decode b) img = (img,
     if take 4 b = rto1_magic then map_sum id Is_rto1 (describe_rto1 (take RTO1_LEN b))
     else map_sum id Is_rth1 (describe_rth1 b))"
| "record_main (Show_rootrec off) img = (img, bind_e (image_slot img off) show_rec)"
| "record_main (Clear_rootrec off) img = (case image_slot img off of
     Inl e \<Rightarrow> (img, Inl e)
   | Inr cur \<Rightarrow> if \<not> may_overwrite cur then (img, Inl (SystemExit ''ABORT: not overwriting''))
       else (write_at img (off + IBLK_OFF + REC_IN_IBLK) (replicate RTO1_LEN 0), Inr Cleared))"
| "record_main (Write_rootrec off unit base ident mobo) img = (case image_slot img off of
     Inl e \<Rightarrow> (img, Inl e)
   | Inr cur \<Rightarrow> if \<not> may_overwrite cur then (img, Inl (SystemExit ''ABORT: not overwriting''))
       else (case rootrec unit base ident mobo of Inl e \<Rightarrow> (img, Inl e) | Inr rec \<Rightarrow> put_rec img off rec))"

subsection \<open>A byte string as longs\<close>

fun longs :: "byte list \<Rightarrow> int list" where
  "longs (a # b # c # d # r) = (uint a * 16777216 + uint b * 65536 + uint c * 256 + uint d) # longs r"
| "longs _ = []"

lemma longs_nth: "length b = 4 * n \<Longrightarrow> i < n \<Longrightarrow> length (longs b) = n \<and> unpack_I (sub (4 * i) 4 b) = Inr (longs b ! i)"
proof (induction b arbitrary: n i rule: longs.induct)
  case (1 a b c d r)
  obtain n' where n: "n = Suc n'" "length r = 4 * n'" using "1.prems" by (cases n) auto
  show ?case
  proof (cases i)
    case 0
    have "length (longs r) = n'"
    proof (cases n')
      case 0
      then show ?thesis using n by simp
    next
      case (Suc m)
      then show ?thesis using "1.IH" [OF n(2), of 0] by simp
    qed
    then show ?thesis using 0 n by (simp add: sub_def unpack_I_def)
  next
    case (Suc j)
    have "4 * i = 4 + 4 * j" using Suc by simp
    then have "sub (4 * i) 4 (a # b # c # d # r) = sub (4 * j) 4 r" by (simp add: sub_def drop_Cons split: nat.split)
    then show ?thesis using "1.IH" [OF n(2), of j] "1.prems"(2) Suc n by simp
  qed
qed auto

lemma map_e_all_Inr: "(\<And>x. x \<in> set xs \<Longrightarrow> f x = Inr (g x)) \<Longrightarrow> map_e f xs = Inr (map g xs)"
  by (induction xs) auto

lemma longs_of_eq: "longs_of n b = (if length b = 4 * n then Inr (longs b) else Inl StructError)"
proof (cases "length b = 4 * n")
  case True
  have r: "u32 b (4 * i) = Inr (longs b ! nat i)" if "i \<in> set (py_range (int n))" for i
  proof -
    have i: "0 \<le> i" "nat i < n" using that by (auto simp: py_range_def)
    have "slice b (4 * i) (4 * i + int 4) = sub (nat (4 * i)) 4 b"
      using i True by (intro slice_eq_sub) auto
    moreover have "nat (4 * i) = 4 * nat i" using i by (simp add: nat_mult_distrib)
    ultimately show ?thesis using longs_nth [OF True i(2)] by (simp add: u32_def)
  qed
  have len: "length (longs b) = n"
    using longs_nth [OF True, of 0] True by (cases n) auto
  have "map (\<lambda>i. longs b ! nat i) (py_range (int n)) = longs b"
    by (rule nth_equalityI) (simp_all add: py_range_def len)
  then have "map_e (\<lambda>i. u32 b (4 * i)) (py_range (int n)) = Inr (longs b)"
    using map_e_all_Inr [of "py_range (int n)" "\<lambda>i. u32 b (4 * i)" "\<lambda>i. longs b ! nat i"] r by simp
  then show ?thesis using True by (simp add: longs_of_def)
qed (simp add: longs_of_def)

lemma pack_each_Inl: "map_e pack_I ws = Inl e \<Longrightarrow> e = StructError"
  by (induction ws) (auto simp: bind_e_Inl_iff pack_I_def split: if_splits)

lemma longs_pack:
  assumes "pack_I w = Inr v" shows "longs (v @ r) = w # longs r"
proof -
  obtain a b c d where v: "v = [a, b, c, d]" using assms by (auto simp: pack_I_def split: if_splits)
  then show ?thesis using unpack_pack_I [OF assms] by (simp add: unpack_I_def)
qed

lemma pack_longs_Inr:
  "pack_longs ws = Inr b \<Longrightarrow> length b = 4 * length ws \<and> longs b = ws"
proof (induction ws arbitrary: b)
  case Nil
  then show ?case by (simp add: pack_longs_def)
next
  case (Cons w ws)
  then obtain v bs where v: "pack_I w = Inr v" and bs: "map_e pack_I ws = Inr bs" "b = v @ concat bs"
    by (auto simp: pack_longs_def)
  then have "pack_longs ws = Inr (concat bs)" by (simp add: pack_longs_def)
  from Cons.IH [OF this] show ?case using longs_pack [OF v] pack_I_length [OF v] bs(2) by simp
qed

lemma pack_longs_ok: "(\<exists>b. pack_longs ws = Inr b) \<longleftrightarrow> list_all (\<lambda>w. 0 \<le> w \<and> w < 4294967296) ws"
  by (induction ws) (auto simp: pack_longs_def pack_I_def)

text \<open>The sum of the longs moves by less than \<open>2^32\<close> and not by zero when one byte changes.\<close>

lemma longs_update:
  "i < length b \<Longrightarrow> length b mod 4 = 0 \<Longrightarrow>
    sum_list (longs (b[i := x])) = sum_list (longs b) + (uint x - uint (b ! i)) * 256 ^ (3 - i mod 4)"
proof (induction b arbitrary: i rule: longs.induct)
  case (1 a b c d r)
  have n: "length r mod 4 = 0" using "1.prems"(2) by simp
  show ?case
  proof (cases "i < 4")
    case True
    then consider "i = 0" | "i = 1" | "i = 2" | "i = 3" by linarith
    then show ?thesis by cases (simp_all add: algebra_simps)
  next
    case False
    then obtain j where j: "i = 4 + j" by (metis add.commute le_add_diff_inverse not_less)
    then have "j < length r" using "1.prems" by simp
    moreover have i: "i = Suc (Suc (Suc (Suc j)))" using j by simp
    moreover have "i mod 4 = j mod 4" using j by simp
    ultimately show ?thesis using "1.IH" [OF _ n, of j] by simp
  qed
qed auto

lemma sum_moves:
  assumes "i < length b" "length b = 4 * n" "x \<noteq> b ! i" "sum_list (longs b) mod 4294967296 = 0"
  shows "sum_list (longs (b[i := x])) mod 4294967296 \<noteq> 0"
proof -
  let ?d = "uint x - uint (b ! i)" and ?k = "3 - i mod 4"
  have d: "?d \<noteq> 0" using assms(3) by (simp add: word_uint_eq_iff)
  have d': "\<bar>?d\<bar> < 256" using uint_byte_bounds [of x] uint_byte_bounds [of "b ! i"] by linarith
  have k: "?k = 0 \<or> ?k = 1 \<or> ?k = 2 \<or> ?k = 3" by linarith
  have "?d * 256 ^ ?k \<noteq> 0" "\<bar>?d * 256 ^ ?k\<bar> < 4294967296" using d d' k by (auto simp: abs_mult)
  then have nd: "\<not> 4294967296 dvd ?d * 256 ^ ?k" using zdvd_not_zless [of "\<bar>?d * 256 ^ ?k\<bar>" 4294967296] by auto
  have "length b mod 4 = 0" using assms(2) by simp
  from longs_update [OF assms(1) this, of x] nd assms(4) show ?thesis
    by (simp add: mod_eq_0_iff_dvd dvd_add_right_iff)
qed

subsection \<open>Encoding and judging\<close>

text \<open>What the kernel asks of a root record: the magic, version 1, and seven longs that sum to zero.\<close>

definition record_good :: "byte list \<Rightarrow> bool" where
  "record_good b \<longleftrightarrow> length b = 28 \<and> longs b ! 0 = RTO1 \<and> longs b ! 1 div 65536 = 1
     \<and> 28 \<le> longs b ! 1 mod 65536 \<and> sum_list (longs b) mod 4294967296 = 0"

lemma length_longs: "length b = 4 * n \<Longrightarrow> length (longs b) = n"
  using longs_nth [of b n 0] by (cases n) auto

lemma describe_rto1_eq:
  assumes l: "length b = 28"
  shows "describe_rto1 b = Inr \<lparr>d_valid = record_good b, d_unit = longs b ! 2,
      d_ctl = (if longs b ! 5 mod 2 = 1 then Motherboard else if longs b ! 3 \<noteq> 0 then Board (longs b ! 3)
        else Ident (longs b ! 4 div 256)),
      d_id = (if longs b ! 3 \<noteq> 0 \<and> longs b ! 4 \<noteq> 0 then Some (longs b ! 4 div 256) else None)\<rparr>"
proof -
  have "length (longs b) = 7" using l by (intro length_longs) simp
  then obtain m vl un ba id fl ck where ws: "longs b = [m, vl, un, ba, id, fl, ck]"
    by (auto simp: length_Suc_conv numeral_eq_Suc)
  have s: "sum0 b = Inr (sum_list (longs b) mod 4294967296 = 0)" using l by (simp add: sum0_def longs_of_eq)
  show ?thesis using l ws s by (auto simp: describe_rto1_def longs_of_eq record_good_def RTO1_LEN_def)
qed

lemma describe_rto1_length: "describe_rto1 b = Inr d \<Longrightarrow> length b = 28"
  by (auto simp: describe_rto1_def longs_of_def split: if_splits)

lemma rootrec_Inr:
  assumes "rootrec unit base ident mobo = Inr rec"
  shows "length rec = 28" "longs rec = seal [RTO1, 65564, unit, base, ident, if mobo then 1 else 0]"
    and "take 4 rec = rto1_magic" "0 \<le> unit" "unit \<le> 7"
proof -
  have p: "pack_longs (seal [RTO1, 65564, unit, base, ident, if mobo then 1 else 0]) = Inr rec"
    and u: "0 \<le> unit" "unit \<le> 7"
    using assms by (auto simp: rootrec_def RTO1_LEN_def)
  then show "length rec = 28" "longs rec = seal [RTO1, 65564, unit, base, ident, if mobo then 1 else 0]"
    using pack_longs_Inr [OF p] by (auto simp: seal_def)
  obtain rest where "rec = rto1_magic @ rest"
    using p by (auto simp: pack_longs_def seal_def pack_I_def RTO1_def rto1_magic_def)
  then show "take 4 rec = rto1_magic" by (simp add: rto1_magic_def)
  show "0 \<le> unit" "unit \<le> 7" by (rule u)+
qed

lemma seal_sum: "sum_list (seal ws) mod 4294967296 = 0"
  by (simp add: seal_def mod_add_right_eq)

lemma rootrec_good:
  assumes "rootrec unit base ident mobo = Inr rec" shows "record_good rec"
proof -
  note r = rootrec_Inr [OF assms]
  have "sum_list (longs rec) mod 4294967296 = 0" unfolding r(2) by (rule seal_sum)
  then show ?thesis using r(1,2) by (simp add: record_good_def seal_def)
qed

lemma rootrec_accepts:
  "(\<exists>rec. rootrec unit base ident mobo = Inr rec) \<longleftrightarrow> 0 \<le> unit \<and> unit \<le> 7 \<and> mobo = (base = 0 \<and> ident = 0)
     \<and> 0 \<le> base \<and> base < 4294967296 \<and> 0 \<le> ident \<and> ident < 4294967296"
  by (auto simp: rootrec_def pack_longs_ok seal_def RTO1_def RTO1_LEN_def)

definition controller_of :: "int \<Rightarrow> int \<Rightarrow> bool \<Rightarrow> controller" where
  "controller_of base ident mobo = (if mobo then Motherboard else if base \<noteq> 0 then Board base else Ident (ident div 256))"

text \<open>
  C18: the root record of rth1-record.py, encoded and decoded.  The encoder accepts exactly a unit from 0 to
  7 with either the motherboard or a base or an id, each a 32-bit number; what it makes is 28 bytes that the
  kernel's rule accepts, and the decoder reads back the unit and the controller that were asked for.
\<close>

theorem rootrec_roundtrip:
  "case rootrec unit base ident mobo of
     Inr rec \<Rightarrow> record_good rec \<and> describe_rto1 rec = Inr \<lparr>d_valid = True, d_unit = unit,
        d_ctl = controller_of base ident mobo, d_id = (if base \<noteq> 0 \<and> ident \<noteq> 0 then Some (ident div 256) else None)\<rparr>
   | Inl e \<Rightarrow> \<not> (0 \<le> unit \<and> unit \<le> 7 \<and> mobo = (base = 0 \<and> ident = 0)
        \<and> 0 \<le> base \<and> base < 4294967296 \<and> 0 \<le> ident \<and> ident < 4294967296)"
proof (cases "rootrec unit base ident mobo")
  case (Inl e)
  then show ?thesis using rootrec_accepts [of unit base ident mobo] by auto
next
  case (Inr rec)
  note r = rootrec_Inr [OF Inr]
  show ?thesis unfolding Inr sum.case describe_rto1_eq [OF r(1)]
    using rootrec_good [OF Inr] r(2) by (simp add: seal_def controller_of_def)
qed

text \<open>
  No single wrong byte gets past the check of a root record.  If a record is good, then with any one of
  its 28 bytes changed to another value the decoder still answers, and says that it is invalid.
\<close>

theorem wrong_byte_detected:
  assumes "record_good rec" "i < 28" "x \<noteq> rec ! i"
  shows "case describe_rto1 (rec[i := x]) of Inl e \<Rightarrow> False | Inr d \<Rightarrow> \<not> d_valid d"
proof -
  have l: "length rec = 28" using assms(1) by (simp add: record_good_def)
  have "sum_list (longs (rec[i := x])) mod 4294967296 \<noteq> 0"
    using assms l by (intro sum_moves [where n = 7]) (auto simp: record_good_def)
  then show ?thesis using describe_rto1_eq [of "rec[i := x]"] l by (simp add: record_good_def)
qed

theorem wrong_byte_detected_witness:
  "case rootrec 6 0 0x144b0100 False of Inl e \<Rightarrow> False
   | Inr rec \<Rightarrow> (case describe_rto1 (rec[11 := 5]) of Inl e \<Rightarrow> False | Inr d \<Rightarrow> \<not> d_valid d)"
proof -
  obtain rec where r: "rootrec 6 0 0x144b0100 False = Inr rec" using rootrec_accepts [of 6 0 "0x144b0100" False] by auto
  have "rec ! 11 = 6" using r
    by (auto simp: rootrec_def pack_longs_def seal_def pack_I_def RTO1_def RTO1_LEN_def)
  then show ?thesis using wrong_byte_detected [OF rootrec_good [OF r], of 11 5] r by simp
qed

subsection \<open>The slot in the image\<close>

definition slot_pos :: "nat \<Rightarrow> nat" where
  "slot_pos off = off + IBLK_OFF + REC_IN_IBLK"

lemma image_slot_Inr:
  assumes "image_slot img off = Inr cur"
  shows "off + IBLK_OFF + 4 \<le> length img" "take 4 (drop (off + IBLK_OFF) img) = ascii ''IBLK''"
proof -
  show t: "take 4 (drop (off + IBLK_OFF) img) = ascii ''IBLK''"
    using assms by (auto simp: image_slot_def Let_def min_def split: if_splits)
  have "length (ascii ''IBLK'') = 4" by (simp add: ascii_def)
  then show "off + IBLK_OFF + 4 \<le> length img"
    using arg_cong [OF t, of length] by (simp add: min_def split: if_splits)
qed

lemma length_write_at: "length (write_at b p d) = max (length b) (p + length d)"
  by (auto simp: write_at_def max_def min_def)

lemma write_at_parts:
  "take p (write_at b p d) = take p (b @ replicate (p - length b) 0)"
  "drop (p + length d) (write_at b p d) = drop (p + length d) b"
  "take (length d) (drop p (write_at b p d)) = d"
  by (simp_all add: write_at_def)

lemma slot_after_write:
  assumes s: "image_slot img off = Inr cur" and d: "length d = 28"
  shows "image_slot (write_at img (slot_pos off) d) off = Inr d"
proof -
  let ?img = "write_at img (slot_pos off) d"
  note i = image_slot_Inr [OF s]
  have p: "slot_pos off = off + IBLK_OFF + REC_IN_IBLK" by (simp add: slot_pos_def)
  have "take 4 (drop (off + IBLK_OFF) ?img) = take 4 (drop (off + IBLK_OFF) (take (slot_pos off) ?img))"
    by (simp add: p REC_IN_IBLK_def drop_take min_def)
  also have "\<dots> = take 4 (drop (off + IBLK_OFF) img)"
    using i(1) by (auto simp: write_at_parts(1) p REC_IN_IBLK_def drop_take min_def)
  finally have t: "take 4 (take 512 (drop (off + IBLK_OFF) ?img)) = ascii ''IBLK''" using i(2) by (simp add: min_def)
  have "take RTO1_LEN (drop REC_IN_IBLK (take 512 (drop (off + IBLK_OFF) ?img))) = take 28 (drop (slot_pos off) ?img)"
    by (simp add: RTO1_LEN_def REC_IN_IBLK_def p drop_take min_def add.commute add.left_commute)
  also have "\<dots> = d" using write_at_parts(3) [where p = "slot_pos off" and d = d and b = img] d by simp
  finally show ?thesis using t by (simp add: image_slot_def)
qed

lemma may_overwrite_iff: "may_overwrite cur \<longleftrightarrow> list_all (\<lambda>x. x = 0) cur \<or> take 4 cur = [0x52, 0x54, 0x4F, 0x31]"
  by (simp add: may_overwrite_def any_set_def rto1_magic_def list_ex_iff list_all_iff)

text \<open>
  C19: write-rootrec of rth1-record.py.  A run either leaves the image alone, or the slot held zeros or an
  earlier root record, now holds the record asked for and nothing else of the image has changed; the
  written record is valid, show-rootrec prints it, and clear-rootrec takes it out again, after which the slot
  reads as empty.  The read-back never fails.
\<close>

theorem write_rootrec_slot:
  "case record_main (Write_rootrec off unit base ident mobo) img of
     (img', Inl e) \<Rightarrow> img' = img \<and> e \<noteq> SystemExit ''ABORT: read-back differs''
   | (img', Inr r) \<Rightarrow> (case (image_slot img off, rootrec unit base ident mobo) of
       (Inr cur, Inr rec) \<Rightarrow> (list_all (\<lambda>x. x = 0) cur \<or> take 4 cur = [0x52, 0x54, 0x4F, 0x31]) \<and> record_good rec \<and> image_slot img' off = Inr rec
         \<and> take (slot_pos off) img' = take (slot_pos off) (img @ replicate (slot_pos off - length img) 0)
         \<and> drop (slot_pos off + 28) img' = drop (slot_pos off + 28) img
         \<and> (case describe_rto1 rec of Inl e \<Rightarrow> False | Inr d \<Rightarrow> d_valid d \<and> d_unit d = unit \<and> r = Written d
              \<and> record_main (Show_rootrec off) img' = (img', Inr (Is_rto1 d)))
         \<and> (case record_main (Clear_rootrec off) img' of
              (img2, o2) \<Rightarrow> o2 = Inr Cleared \<and> record_main (Show_rootrec off) img2 = (img2, Inr No_record))
     | _ \<Rightarrow> False)"
proof (cases "image_slot img off")
  case (Inl e)
  then show ?thesis by (auto simp: image_slot_def Let_def split: if_splits)
next
  case cur: (Inr cur)
  show ?thesis
  proof (cases "rootrec unit base ident mobo")
    case (Inl e)
    then have "e \<noteq> SystemExit ''ABORT: read-back differs''"
      by (auto simp: rootrec_def bind_e_Inl_iff must_def pack_longs_def dest: pack_each_Inl split: if_splits)
    then show ?thesis using Inl cur by simp
  next
    case rec: (Inr rec)
    note r = rootrec_Inr [OF rec] and g = rootrec_good [OF rec]
    let ?img = "write_at img (slot_pos off) rec" and ?zero = "replicate RTO1_LEN (0 :: byte)"
    note s1 = slot_after_write [OF cur r(1)]
    have z: "length ?zero = 28" by (simp add: RTO1_LEN_def)
    note s2 = slot_after_write [OF s1 z]
    obtain d where d: "describe_rto1 rec = Inr d" "d_valid d" "d_unit d = unit"
      using describe_rto1_eq [OF r(1)] g r(2) by (simp add: seal_def)
    have ne: "any_set rec" using r(3) by (cases rec) (auto simp: any_set_def rto1_magic_def)
    have mo: "may_overwrite rec" using r(3) by (simp add: may_overwrite_def)
    have nz: "\<not> any_set ?zero" by (simp add: any_set_def list_ex_iff)
    note parts = write_at_parts [where p = "slot_pos off" and d = rec and b = img, unfolded r(1)]
    note pos = slot_pos_def [of off, symmetric]
    show ?thesis using cur rec s1 s2 d ne mo nz g parts
      by (simp add: put_rec_def pos show_rec_def flip: may_overwrite_iff)
  qed
qed

end
