(* ===== verification/Card1_Stamp.thy ===== *)
theory Card1_Stamp
  imports Root_Family Rewire
begin

unbundle bit_operations_syntax

text \<open>
  \<open>src/tools/stamp-card1.py\<close>, which moves the root of a stamped kernel from card 0 to card 1.  The tool it
  imports from another repository is a parameter: its reading of the input image, its own device arithmetic and
  node names, the vectors of its contract, and its relocation and type test of the output.
\<close>

subsection \<open>Device arithmetic\<close>

definition compose_minor :: "int \<Rightarrow> int \<Rightarrow> int \<Rightarrow> exn + int" where
  "compose_minor unit sl cd =
     (if 0 \<le> unit \<and> unit \<le> 7 \<and> 0 \<le> sl \<and> sl \<le> 7 \<and> 0 \<le> cd \<and> cd \<le> 1
      then Inr (push_bit 4 sl OR push_bit 3 cd OR unit) else Inl (AssertionError ''compose_minor''))"

definition BLOCK_MAJOR :: int where "BLOCK_MAJOR = 18"
definition L_MAXMIN :: int where "L_MAXMIN = 0x3FFFF"

definition compose_dev :: "int \<Rightarrow> int \<Rightarrow> int \<Rightarrow> exn + int" where
  "compose_dev unit sl cd = bind_e (compose_minor unit sl cd) (\<lambda>m. Inr (push_bit 18 BLOCK_MAJOR OR (m AND L_MAXMIN)))"

record cdev = devnum +
  d_drive :: int

definition card_decode :: "int \<Rightarrow> cdev" where
  "card_decode dev = (let minor = dev AND L_MAXMIN in
     \<lparr>d_major = drop_bit 18 dev AND 0xFF, d_minor = minor, d_unit = minor AND 7, d_card = drop_bit 3 minor AND 1,
      d_slice = drop_bit 4 minor AND 7, d_controller = minor AND 0x0F, d_drive = drop_bit 7 minor AND 1\<rparr>)"

definition card_node :: "int \<Rightarrow> int \<Rightarrow> int \<Rightarrow> string" where
  "card_node unit sl cd = ''/dev/dsk/c'' @ fmt_x (push_bit 3 cd OR unit) @ ''d0s'' @ int_str sl"

subsection \<open>The self-check\<close>

record vec =
  v_id :: int
  v_root_slice :: int
  v_rootdev :: string
  v_root_device :: string
  v_swap_slice :: int
  v_swap_device :: string

datatype problem =
    Dev_disagrees int int
  | Node_disagrees int int
  | Vector_dev int
  | Vector_root int
  | Vector_swap int
  | Measured nat

definition fmt_0x08x :: "int \<Rightarrow> string" where
  "fmt_0x08x v = (let s = fmt_x v in ''0x'' @ replicate (8 - length s) (CHR ''0'') @ s)"

definition check_unit :: "(int \<Rightarrow> int \<Rightarrow> int) \<Rightarrow> (int \<Rightarrow> int \<Rightarrow> string) \<Rightarrow> int \<times> int \<Rightarrow> exn + problem list" where
  "check_unit tool_dev tool_name p = (case p of (unit, sl) \<Rightarrow> bind_e (compose_dev unit sl 0) (\<lambda>dev.
     Inr ((if dev \<noteq> tool_dev unit sl then [Dev_disagrees unit sl] else [])
        @ (if card_node unit sl 0 \<noteq> tool_name unit sl then [Node_disagrees unit sl] else []))))"

definition check_vector :: "vec \<Rightarrow> exn + problem list" where
  "check_vector v = bind_e (compose_dev (v_id v) (v_root_slice v) 0) (\<lambda>got.
     Inr ((if fmt_0x08x got \<noteq> v_rootdev v then [Vector_dev (v_id v)] else [])
        @ (if card_node (v_id v) (v_root_slice v) 0 \<noteq> v_root_device v then [Vector_root (v_id v)] else [])
        @ (if card_node (v_id v) (v_swap_slice v) 0 \<noteq> v_swap_device v then [Vector_swap (v_id v)] else [])))"

definition check_measured :: "exn + problem list" where
  "check_measured = bind_e (compose_minor 0 0 1) (\<lambda>m.
     Inr ((if m \<noteq> 8 then [Measured 0] else [])
        @ (if card_node 0 0 1 \<noteq> ''/dev/dsk/c8d0s0'' then [Measured 1] else [])
        @ (if card_node 6 1 1 \<noteq> ''/dev/dsk/ced0s1'' then [Measured 2] else [])))"

definition units_slices :: "(int \<times> int) list" where
  "units_slices = List.product [0..7] [0..7]"

definition selfcheck :: "(int \<Rightarrow> int \<Rightarrow> int) \<Rightarrow> (int \<Rightarrow> int \<Rightarrow> string) \<Rightarrow> vec list \<Rightarrow> exn + problem list" where
  "selfcheck tool_dev tool_name vectors =
     bind_e (map_e (check_unit tool_dev tool_name) units_slices) (\<lambda>ps.
     bind_e (map_e check_vector vectors) (\<lambda>vs. bind_e check_measured (\<lambda>ms. Inr (concat ps @ concat vs @ ms))))"

subsection \<open>The image as the other tool reads it\<close>

record kimage =
  i_data :: "byte list"
  i_rootdev :: int
  i_swap :: string
  i_bo_size :: int
  i_off_rootdev :: nat
  i_off_name :: nat
  i_off_swapfile :: nat
  i_off_rootfstype :: nat
  i_rootfstype_size :: nat

record kspec =
  s_field :: nat
  s_zero_words :: "nat list"
  s_fstype :: "nat \<times> nat"
  s_bo_size :: nat
  s_anchor :: "byte list"
  s_forbidden :: "byte list list"

definition all_zero :: "byte list \<Rightarrow> bool" where
  "all_zero b \<longleftrightarrow> list_all (\<lambda>x. x = 0) b"

subsection \<open>The write\<close>

definition card1_image :: "kimage \<Rightarrow> nat \<Rightarrow> int \<Rightarrow> string \<Rightarrow> exn + byte list option" where
  "card1_image img field new_dev new_swap = bind_e (pack_I new_dev) (\<lambda>w.
     let out = splice (i_data img) (int (i_off_rootdev img)) (int (i_off_rootdev img) + 4) w; nm = ascii new_swap in
     if field < length nm + 1 then Inr None
     else Inr (Some (splice out (int (i_off_name img)) (int (i_off_name img) + int field) (nm @ replicate (field - length nm) 0))))"

text \<open>The positions that changed although they lie in neither range.\<close>

definition card_stray :: "kimage \<Rightarrow> nat \<Rightarrow> byte list \<Rightarrow> nat list" where
  "card_stray img field out = filter (\<lambda>i. i_data img ! i \<noteq> out ! i
       \<and> \<not> (i_off_rootdev img \<le> i \<and> i < i_off_rootdev img + 4 \<or> i_off_name img \<le> i \<and> i < i_off_name img + field))
     [0..<length out]"

subsection \<open>The validation of the output\<close>

datatype bad =
    Rootdev_differs int | Major_differs int | Card_differs int | Slice_unit_differ int int
  | Name_differs string | Not_padded | Controller_differs int int | Swap_slice_differs
  | Not_zero nat | Fstype_set | Size_changed int | Rootfstype_set
  | Anchor_not_once nat | Forbidden_there | Anchor_moved | Reloc_hits nat | Not_rel

text \<open>\<open>int(c, 16)\<close> and \<open>int(c)\<close> of one character.\<close>

definition int16_char :: "char \<Rightarrow> exn + int" where
  "int16_char c = (if is_hex c then Inr (hex_val c) else Inl ValueError)"

definition dec_char :: "char \<Rightarrow> exn + int" where
  "dec_char c = (if is_digit c then Inr (int (ord_c c) - 48) else Inl ValueError)"

definition bad_dev :: "int \<Rightarrow> int \<Rightarrow> bad list" where
  "bad_dev got new_dev = (let g = card_decode got in
     (if got \<noteq> new_dev then [Rootdev_differs got] else [])
     @ (if d_major g \<noteq> BLOCK_MAJOR then [Major_differs (d_major g)] else [])
     @ (if d_card g \<noteq> 1 then [Card_differs (d_card g)] else [])
     @ (if d_slice g \<noteq> 1 \<or> d_unit g \<noteq> 6 then [Slice_unit_differ (d_slice g) (d_unit g)] else []))"

definition bad_name :: "byte list \<Rightarrow> string \<Rightarrow> cdev \<Rightarrow> exn + bad list" where
  "bad_name raw new_swap g = (let name = decode_latin1 (takeWhile (\<lambda>x. x \<noteq> 0) raw) in
     bind_e (py_nth name 10) (\<lambda>c. bind_e (int16_char c) (\<lambda>v. bind_e (py_nth name (-1)) (\<lambda>l. bind_e (dec_char l) (\<lambda>d.
     Inr ((if name \<noteq> new_swap then [Name_differs name] else [])
       @ (if \<not> all_zero (drop (length name) raw) then [Not_padded] else [])
       @ (if v \<noteq> d_controller g then [Controller_differs v (d_controller g)] else [])
       @ (if d \<noteq> 2 then [Swap_slice_differs] else [])))))))"

definition bad_zero :: "kimage \<Rightarrow> byte list \<Rightarrow> nat \<Rightarrow> exn + bad list" where
  "bad_zero img back o' = bind_e (u32 back (int (i_off_swapfile img + o'))) (\<lambda>w. Inr (if w \<noteq> 0 then [Not_zero o'] else []))"

text \<open>\<open>back.count(anchor)\<close> and \<open>back.index(anchor)\<close> are given by the positions at which it is found.\<close>

definition bad_rest :: "kimage \<Rightarrow> kspec \<Rightarrow> nat \<Rightarrow> bool \<Rightarrow> byte list \<Rightarrow> exn + bad list" where
  "bad_rest img sp hits is_rel back =
     bind_e (map_e (bad_zero img back) (s_zero_words sp)) (\<lambda>zs.
     bind_e (u32 back (int (i_off_swapfile img + s_bo_size sp))) (\<lambda>sz.
     let fs = sub (i_off_swapfile img + fst (s_fstype sp)) (snd (s_fstype sp)) back;
         rf = sub (i_off_rootfstype img) (i_rootfstype_size img) back;
         at = occurrences (s_anchor sp) back 0 in
     bind_e (case at of [] \<Rightarrow> Inl ValueError | i # _ \<Rightarrow> Inr i) (\<lambda>first.
     Inr (concat zs
       @ (if \<not> all_zero fs then [Fstype_set] else [])
       @ (if sz \<noteq> i_bo_size img then [Size_changed sz] else [])
       @ (if \<not> all_zero rf then [Rootfstype_set] else [])
       @ (if length at \<noteq> 1 then [Anchor_not_once (length at)] else [])
       @ concat (map (\<lambda>f. if occurrences f back 0 \<noteq> [] then [Forbidden_there] else []) (s_forbidden sp))
       @ (if first \<noteq> i_off_name img then [Anchor_moved] else [])
       @ (if hits \<noteq> 0 then [Reloc_hits hits] else [])
       @ (if \<not> is_rel then [Not_rel] else [])))))"

definition card1_validate :: "kimage \<Rightarrow> kspec \<Rightarrow> nat \<Rightarrow> bool \<Rightarrow> int \<Rightarrow> string \<Rightarrow> byte list \<Rightarrow> exn + bad list" where
  "card1_validate img sp hits is_rel new_dev new_swap back =
     bind_e (u32 back (int (i_off_rootdev img))) (\<lambda>got.
     bind_e (bad_name (sub (i_off_name img) (s_field sp) back) new_swap (card_decode got)) (\<lambda>bn.
     bind_e (bad_rest img sp hits is_rel back) (\<lambda>br. Inr (bad_dev got new_dev @ bn @ br))))"

subsection \<open>The run\<close>

text \<open>
  The answer is the output file, if one was written, and the exit status; the file is in place before it is
  validated, so a refusal can leave it behind.
\<close>

definition card1_main :: "(int \<Rightarrow> int \<Rightarrow> int) \<Rightarrow> (int \<Rightarrow> int \<Rightarrow> string) \<Rightarrow> vec list \<Rightarrow> kspec \<Rightarrow>
    (byte list \<Rightarrow> nat) \<Rightarrow> (byte list \<Rightarrow> bool) \<Rightarrow> kimage \<Rightarrow> byte list option \<times> (exn + int)" where
  "card1_main tool_dev tool_name vectors sp hits is_rel img =
     (case selfcheck tool_dev tool_name vectors of
        Inl e \<Rightarrow> (None, Inl e)
      | Inr problems \<Rightarrow> if problems \<noteq> [] then (None, Inr 1)
          else (case (compose_dev 6 1 0, compose_dev 6 1 1) of
            (Inr want_in, Inr new_dev) \<Rightarrow>
              if i_rootdev img \<noteq> want_in \<or> i_swap img \<noteq> card_node 6 2 0 then (None, Inr 1)
              else (case card1_image img (s_field sp) new_dev (card_node 6 2 1) of
                  Inl e \<Rightarrow> (None, Inl e)
                | Inr None \<Rightarrow> (None, Inr 1)
                | Inr (Some back) \<Rightarrow> (Some back,
                    if length back \<noteq> length (i_data img) \<or> card_stray img (s_field sp) back \<noteq> [] then Inr 1
                    else bind_e (card1_validate img sp (hits back) (is_rel back) new_dev (card_node 6 2 1) back)
                      (\<lambda>bad. Inr (if bad = [] then 0 else 1))))
          | _ \<Rightarrow> (None, Inl (AssertionError ''compose_minor''))))"

subsection \<open>The arithmetic\<close>

lemma or_low:
  assumes "0 \<le> b" "b < 2 ^ n"
  shows "push_bit n a OR b = a * 2 ^ n + (b :: int)"
proof -
  have b: "take_bit n b = b" using assms by (simp add: take_bit_int_eq_self)
  have low: "bit b k \<Longrightarrow> k < n" for k using arg_cong [OF b, of "\<lambda>x. bit x k"] by (simp add: bit_simps)
  then have "push_bit n a AND b = 0" by (intro bit_eqI) (auto simp: bit_simps dest!: low)
  then show ?thesis using disjunctive_add_eq_or [of "push_bit n a" b] by (simp add: push_bit_int_def)
qed

lemma or_low3: "0 \<le> b \<Longrightarrow> b < 8 \<Longrightarrow> push_bit 3 a OR b = a * 8 + (b :: int)"
  using or_low [of b 3 a] by simp

lemma compose_minor_eq: "compose_minor unit sl cd =
    (if 0 \<le> unit \<and> unit \<le> 7 \<and> 0 \<le> sl \<and> sl \<le> 7 \<and> 0 \<le> cd \<and> cd \<le> 1
     then Inr (16 * sl + (8 * cd + unit)) else Inl (AssertionError ''compose_minor''))"
proof (cases "0 \<le> unit \<and> unit \<le> 7 \<and> 0 \<le> sl \<and> sl \<le> 7 \<and> 0 \<le> cd \<and> cd \<le> 1")
  case True
  have "push_bit 4 sl OR push_bit 3 cd OR unit = push_bit 4 sl OR (8 * cd + unit)"
    using True or_low3 [of unit cd] by (simp add: or.assoc mult.commute)
  also have "\<dots> = 16 * sl + (8 * cd + unit)" using True or_low [of "8 * cd + unit" 4 sl] by simp
  finally show ?thesis using True by (simp add: compose_minor_def)
qed (auto simp: compose_minor_def)

lemma and_low: "x AND (2 ^ n - 1) = x mod 2 ^ n" for x :: int
  by (simp flip: mask_eq_exp_minus_1 take_bit_eq_mask add: take_bit_eq_mod)

lemma masks:
  "x AND 0x3FFFF = x mod 2 ^ 18" "x AND 0xFF = x mod 256" "x AND 0x0F = x mod 16" "x AND 7 = x mod 8" "x AND 1 = x mod (2 :: int)"
  using and_low [of x 18] and_low [of x 8] and_low [of x 4] and_low [of x 3] and_low [of x 1] by simp_all

lemma compose_dev_eq: "compose_dev unit sl cd =
    (if 0 \<le> unit \<and> unit \<le> 7 \<and> 0 \<le> sl \<and> sl \<le> 7 \<and> 0 \<le> cd \<and> cd \<le> 1
     then Inr (18 * 2 ^ 18 + (16 * sl + (8 * cd + unit))) else Inl (AssertionError ''compose_minor''))"
proof (cases "0 \<le> unit \<and> unit \<le> 7 \<and> 0 \<le> sl \<and> sl \<le> 7 \<and> 0 \<le> cd \<and> cd \<le> 1")
  case True
  let ?m = "16 * sl + (8 * cd + unit)"
  have m: "0 \<le> ?m" "?m < 2 ^ 18" using True by simp_all
  then have "?m AND L_MAXMIN = ?m" by (simp add: L_MAXMIN_def masks(1) mod_pos_pos_trivial)
  then show ?thesis using True or_low [OF m, of 18] by (simp add: compose_dev_def compose_minor_eq BLOCK_MAJOR_def)
qed (auto simp: compose_dev_def compose_minor_eq)

lemma card_decode_eq: "card_decode dev = devnum.extend (decode_dev dev) (cdev.fields (dev mod 2 ^ 18 div 128 mod 2))"
  by (simp add: card_decode_def decode_dev_def masks Let_def drop_bit_int_def devnum.extend_def cdev.fields_def L_MAXMIN_def)

lemma decode_composed:
  assumes "0 \<le> unit" "unit \<le> 7" "0 \<le> sl" "sl \<le> 7" "0 \<le> cd" "cd \<le> 1"
  shows "decode_dev (18 * 2 ^ 18 + (16 * sl + (8 * cd + unit))) =
    \<lparr>d_major = 18, d_minor = 16 * sl + (8 * cd + unit), d_unit = unit, d_card = cd, d_slice = sl, d_controller = 8 * cd + unit\<rparr>"
proof -
  let ?m = "16 * sl + (8 * cd + unit)"
  have r: "0 \<le> ?m" "?m < 2 ^ 18" using assms by simp_all
  have m: "(18 * 2 ^ 18 + ?m) mod 2 ^ 18 = ?m" "(18 * 2 ^ 18 + ?m) div 2 ^ 18 = 18"
    by (rule int_mod_pos_eq [OF _ r], simp) (rule int_div_pos_eq [OF _ r], simp)
  have f1: "?m mod 8 = unit" using assms by (intro int_mod_pos_eq [of _ _ "2 * sl + cd"]) simp_all
  have f2: "?m div 8 = 2 * sl + cd" using assms by (intro int_div_pos_eq [of _ _ _ unit]) simp_all
  have f3: "(2 * sl + cd) mod 2 = cd" using assms by (intro int_mod_pos_eq [of _ _ sl]) simp_all
  have f4: "?m div 16 = sl" using assms by (intro int_div_pos_eq [of _ _ _ "8 * cd + unit"]) simp_all
  have f5: "sl mod 8 = sl" using assms by simp
  have f6: "?m mod 16 = 8 * cd + unit" using assms by (intro int_mod_pos_eq [of _ _ sl]) simp_all
  show ?thesis unfolding decode_dev_def m Let_def f1 f2 f3 f4 f5 f6 by simp
qed

lemma lower_digits: "list_all (\<lambda>v. is_hex (lower_digit v) \<and> hex_val (lower_digit v) = v) [0..15]"
  by code_simp

lemma lower_digit_hex: "0 \<le> v \<Longrightarrow> v < 16 \<Longrightarrow> is_hex (lower_digit v) \<and> hex_val (lower_digit v) = v"
  using lower_digits by (simp add: list_all_iff)

text \<open>
  The device arithmetic of stamp-card1.py.  Whatever unit, slice and card the card can have are composed
  into a device number that decodes to them again, under the tool's own decoder and under that of
  check_root_family.py, and every swap node it names on that controller passes the digit check there.
\<close>

theorem card1_arithmetic:
  "case compose_dev unit sl cd of
     Inl e \<Rightarrow> \<not> (0 \<le> unit \<and> unit \<le> 7 \<and> 0 \<le> sl \<and> sl \<le> 7 \<and> 0 \<le> cd \<and> cd \<le> 1)
   | Inr dev \<Rightarrow> d_major (card_decode dev) = 18 \<and> d_unit (card_decode dev) = unit \<and> d_slice (card_decode dev) = sl
       \<and> d_card (card_decode dev) = cd \<and> d_controller (card_decode dev) = 8 * cd + unit \<and> d_drive (card_decode dev) = 0
       \<and> devnum.truncate (card_decode dev) = decode_dev dev
       \<and> card_node unit sl2 cd = dev_node (d_card (decode_dev dev)) (d_unit (decode_dev dev)) sl2
       \<and> digit_complaint (Some (card_node unit sl2 cd)) (decode_dev dev) = Inr []"
proof (cases "0 \<le> unit \<and> unit \<le> 7 \<and> 0 \<le> sl \<and> sl \<le> 7 \<and> 0 \<le> cd \<and> cd \<le> 1")
  case True
  let ?m = "16 * sl + (8 * cd + unit)" let ?dev = "18 * 2 ^ 18 + ?m"
  have d: "decode_dev ?dev = \<lparr>d_major = 18, d_minor = ?m, d_unit = unit, d_card = cd, d_slice = sl, d_controller = 8 * cd + unit\<rparr>"
    using True by (intro decode_composed) auto
  have r: "0 \<le> ?m" "?m < 128" using True by simp_all
  then have "?dev mod 2 ^ 18 = ?m" by (intro int_mod_pos_eq [of _ _ 18]) simp_all
  then have drive: "?dev mod 2 ^ 18 div 128 mod 2 = 0" using r by simp
  have n: "card_node unit sl2 cd = ''/dev/dsk/c'' @ lower_digit (8 * cd + unit) # ''d0s'' @ int_str sl2"
    using True controller_or [of unit cd] fmt_x_digit [of "8 * cd + unit"] by (simp add: card_node_def)
  have dn: "dev_node cd unit sl2 = card_node unit sl2 cd" by (simp add: dev_node_def card_node_def)
  have hx: "is_hex (lower_digit v) \<and> hex_val (lower_digit v) = v" if "0 \<le> v" "v < 16" for v
    using that by (rule lower_digit_hex)
  show ?thesis unfolding compose_dev_eq if_P [OF True] sum.case card_decode_eq drive d
    using hx [of "8 * cd + unit"] True n dn
    by (simp add: devnum.extend_def cdev.fields_def devnum.truncate_def digit_complaint_def py_nth_def)
qed (auto simp: compose_dev_eq)

subsection \<open>What a successful stamp has done\<close>

lemma composed_constants: "compose_dev 6 1 0 = Inr 0x480016" "compose_dev 6 1 1 = Inr 0x48001e"
  by (simp_all add: compose_dev_eq)

text \<open>Every byte is kept but those of the two fields.\<close>

definition card_kept :: "kimage \<Rightarrow> nat \<Rightarrow> byte list \<Rightarrow> bool" where
  "card_kept img field out \<longleftrightarrow> length out = length (i_data img) \<and>
     list_all (\<lambda>i. out ! i = i_data img ! i \<or> i_off_rootdev img \<le> i \<and> i < i_off_rootdev img + 4
       \<or> i_off_name img \<le> i \<and> i < i_off_name img + field) [0..<length out]"

lemma card1_digit: "digit_complaint (Some (card_node 6 2 1)) (decode_dev 0x48001e) = Inr []"
  by code_simp

lemma card_stray_Nil: "card_stray img field out = [] \<Longrightarrow> length out = length (i_data img) \<Longrightarrow> card_kept img field out"
  unfolding card_stray_def card_kept_def filter_empty_conv list_all_iff
proof (intro conjI ballI)
  fix i
  assume a: "\<forall>i \<in> set [0..<length out]. \<not> (i_data img ! i \<noteq> out ! i
      \<and> \<not> (i_off_rootdev img \<le> i \<and> i < i_off_rootdev img + 4 \<or> i_off_name img \<le> i \<and> i < i_off_name img + field))"
    and "i \<in> set [0..<length out]"
  then have "\<not> (i_data img ! i \<noteq> out ! i
      \<and> \<not> (i_off_rootdev img \<le> i \<and> i < i_off_rootdev img + 4 \<or> i_off_name img \<le> i \<and> i < i_off_name img + field))"
    by blast
  then show "out ! i = i_data img ! i \<or> i_off_rootdev img \<le> i \<and> i < i_off_rootdev img + 4
      \<or> i_off_name img \<le> i \<and> i < i_off_name img + field" by argo
qed

lemma bad_name_Nil:
  assumes "bad_name raw new_swap g = Inr []"
  shows "decode_latin1 (takeWhile (\<lambda>x. x \<noteq> 0) raw) = new_swap" "all_zero (drop (length new_swap) raw)"
  using assms by (auto simp: bad_name_def Let_def split: if_splits)

lemma bad_rest_Nil:
  assumes "bad_rest img sp hits is_rel back = Inr []"
  shows "u32 back (int (i_off_swapfile img + s_bo_size sp)) = Inr (i_bo_size img)" "hits = 0" is_rel
    "occurrences (s_anchor sp) back 0 = [i_off_name img]"
  using assms
  by (auto simp: bad_rest_def Let_def length_Suc_conv split: if_splits list.splits)

lemma take_padded:
  assumes "takeWhile (\<lambda>x. x \<noteq> 0) raw = nm" "all_zero (drop (length nm) raw)"
  shows "raw = nm @ replicate (length raw - length nm) 0"
proof -
  have "take (length nm) raw = nm" using assms(1) takeWhile_eq_take by metis
  moreover have "drop (length nm) raw = replicate (length raw - length nm) 0"
    using assms(2) by (intro replicate_eqI [symmetric, THEN sym]) (auto simp: all_zero_def list_all_iff)
  ultimately show ?thesis by (metis append_take_drop_id)
qed

text \<open>The name field holds the new node, padded with zeros to its end.\<close>

definition holds_padded :: "byte list \<Rightarrow> string \<Rightarrow> bool" where
  "holds_padded raw name \<longleftrightarrow> raw = ascii name @ replicate (length raw - length name) 0"

lemma bad_name_field:
  assumes "bad_name raw new_swap g = Inr []"
  shows "holds_padded raw new_swap"
proof -
  have n: "takeWhile (\<lambda>x. x \<noteq> 0) raw = ascii new_swap"
    using bad_name_Nil(1) [OF assms] by (simp add: decode_latin1_iff)
  have "length (ascii new_swap) = length new_swap" by (simp add: ascii_def)
  then show ?thesis using take_padded [OF n] bad_name_Nil(2) [OF assms] by (simp add: holds_padded_def)
qed

text \<open>
  C20: a stamp of stamp-card1.py that exits with 0.  The output has the length of the input and differs from it in
  the root device and in the name field only; the root device is slice 1 of unit 6 on card 1; the field
  holds the swap node ced0s2, which check_root_family.py accepts for that root; the anchor string is there once, at
  the field; the size field of the swap object is as before; and no relocation touches what was written.
\<close>

theorem card1_stamped:
  "case card1_main tool_dev tool_name vectors sp hits is_rel img of
     (None, r) \<Rightarrow> r \<noteq> Inr 0
   | (Some out, r) \<Rightarrow> if r = Inr 0 then card_kept img (s_field sp) out
         \<and> u32 out (int (i_off_rootdev img)) = Inr 0x48001e
         \<and> holds_padded (sub (i_off_name img) (s_field sp) out) ''/dev/dsk/ced0s2''
         \<and> digit_complaint (Some ''/dev/dsk/ced0s2'') (decode_dev 0x48001e) = Inr []
         \<and> u32 out (int (i_off_swapfile img + s_bo_size sp)) = Inr (i_bo_size img)
         \<and> occurrences (s_anchor sp) out 0 = [i_off_name img] \<and> hits out = 0 \<and> is_rel out
       else True"
proof (cases "card1_main tool_dev tool_name vectors sp hits is_rel img")
  case (Pair dst r)
  have node: "card_node 6 2 1 = ''/dev/dsk/ced0s2''" by code_simp
  show ?thesis
  proof (cases "r = Inr 0")
    case True
    then obtain out where dst: "dst = Some out" and len: "length out = length (i_data img)"
      and st: "card_stray img (s_field sp) out = []"
      and v: "card1_validate img sp (hits out) (is_rel out) 0x48001e (card_node 6 2 1) out = Inr []"
      using Pair unfolding card1_main_def composed_constants
      by (auto split: sum.splits if_splits option.splits)
    obtain got bn br where g: "u32 out (int (i_off_rootdev img)) = Inr got" "bad_dev got 0x48001e = []"
      "bad_name (sub (i_off_name img) (s_field sp) out) (card_node 6 2 1) (card_decode got) = Inr []"
      "bad_rest img sp (hits out) (is_rel out) out = Inr []"
      using v by (auto simp: card1_validate_def)
    have "got = 0x48001e" using g(2) by (auto simp: bad_dev_def Let_def split: if_splits)
    moreover have "digit_complaint (Some ''/dev/dsk/ced0s2'') (decode_dev 0x48001e) = Inr []"
      using card1_digit node by simp
    ultimately show ?thesis using Pair True dst card_stray_Nil [OF st len] g(1) bad_name_field [OF g(3)] bad_rest_Nil [OF g(4)]
      by (simp add: node Let_def)
  next
    case False
    then show ?thesis using Pair by (simp split: option.split)
  qed
qed

end
