(* ===== verification/Source_Rewrites.thy ===== *)
theory Source_Rewrites
  imports Py_Strings
begin

text \<open>
  The two scripts that adapt the sources of external drivers to the page size of the port, \<open>va2000_modelb.py\<close>
  and \<open>z3660_modelb.py\<close>.  They rewrite copies and refuse a source they do not recognise.  The driver
  sources, and the SHA-256 digest, are parameters.
\<close>

subsection \<open>Counting and replacing\<close>

text \<open>\<open>s.split(p)\<close> for a pattern that is not empty; counting and replacing go by the same pieces.\<close>

function (sequential) pieces :: "'a list \<Rightarrow> 'a list \<Rightarrow> 'a list list" where
  "pieces p [] = [[]]"
| "pieces p (x # r) = (if p \<noteq> [] \<and> take (length p) (x # r) = p then [] # pieces p (drop (length p) (x # r))
     else case pieces p r of y # ys \<Rightarrow> (x # y) # ys | [] \<Rightarrow> [[x]])"
  by pat_completeness auto
termination
proof (relation "measure (\<lambda>(p, s). length s)", goal_cases)
  case (2 p x r)
  then have "0 < length p" by simp
  then have "Suc (length r) - length p < Suc (length r)" by linarith
  then show ?case by simp
qed auto

declare pieces.simps [simp del]

fun join :: "'a list \<Rightarrow> 'a list list \<Rightarrow> 'a list" where
  "join p [] = []"
| "join p [s] = s"
| "join p (s # t # ss) = s @ p @ join p (t # ss)"

definition occurs :: "'a list \<Rightarrow> 'a list \<Rightarrow> nat" where
  "occurs p s = length (pieces p s) - 1"

definition has_text :: "'a list \<Rightarrow> 'a list \<Rightarrow> bool" where
  "has_text p s \<longleftrightarrow> 0 < occurs p s"

definition replace_all :: "'a list \<Rightarrow> 'a list \<Rightarrow> 'a list \<Rightarrow> 'a list" where
  "replace_all old new s = join new (pieces old s)"

definition replace_first :: "'a list \<Rightarrow> 'a list \<Rightarrow> 'a list \<Rightarrow> 'a list" where
  "replace_first old new s = (case pieces old s of a # b # rest \<Rightarrow> a @ new @ join old (b # rest) | _ \<Rightarrow> s)"

lemma pieces_not_Nil [simp]: "pieces p s \<noteq> []"
  by (induction p s rule: pieces.induct) (simp_all add: pieces.simps split: list.split)

lemma join_Cons: "ps \<noteq> [] \<Longrightarrow> join p (s # ps) = s @ p @ join p ps"
  by (cases ps) auto

lemma join_head: "join p ((x # y) # ys) = x # join p (y # ys)"
  by (cases ys) auto

lemma join_pieces [simp]: "join p (pieces p s) = s"
proof (induction p s rule: pieces.induct)
  case (1 p)
  show ?case by (simp add: pieces.simps)
next
  case (2 p x r)
  show ?case
  proof (cases "p \<noteq> [] \<and> take (length p) (x # r) = p")
    case True
    have "join p (pieces p (x # r)) = p @ drop (length p) (x # r)"
      using True 2(1) by (simp add: pieces.simps join_Cons)
    also have "\<dots> = x # r" using True append_take_drop_id [of "length p" "x # r"] by simp
    finally show ?thesis .
  next
    case False
    then show ?thesis using 2(2) by (cases "pieces p r") (auto simp: pieces.simps join_head)
  qed
qed

lemma once_pieces:
  assumes "occurs p s = 1"
  obtains a b where "pieces p s = [a, b]" "s = a @ p @ b"
proof -
  have "length (pieces p s) = Suc (Suc 0)" using assms by (simp add: occurs_def)
  then obtain a b where p: "pieces p s = [a, b]" by (auto simp: length_Suc_conv)
  have "s = a @ p @ b" using join_pieces [of p s] unfolding p by simp
  then show thesis by (rule that [OF p])
qed

subsection \<open>va2000_modelb\<close>

datatype src_error = Abort string | File_not_found

definition nl :: string where "nl = [CHR 0x0A]"
definition tab :: string where "tab = [CHR 0x09]"

definition va_OLD :: string where
  "va_OLD = ''        return (int)((va2000_boards[mindev] + offset) >> 11);'' @ nl"

definition va_NEW :: string where
  "va_NEW = ''        /* Model-B (4 KiB page, PNUMSHFT=12) adaptation of the vanilla'' @ nl
    @ ''         * 2 KiB-page (PNUMSHFT=11) shift -- see va2000_modelb.py header.'' @ nl
    @ ''         * The VM builds the user mapping as (returned_pfn << 12), so this'' @ nl
    @ ''         * must return pa >> 12, not the stock kernel'' @ [CHR 0x27] @ ''s pa >> 11. */'' @ nl
    @ ''        return (int)((va2000_boards[mindev] + offset) >> 12);'' @ nl"

definition va_patch :: "string \<Rightarrow> src_error + string" where
  "va_patch text = (if occurs va_OLD text \<noteq> 1 then Inl (Abort ''expected exactly ONE occurrence'')
     else let patched = replace_first va_OLD va_NEW text in
       if occurs ''>> 12)'' patched \<noteq> 1 \<or> has_text ''>> 11)'' patched then Inl (Abort ''post-patch sanity check failed'')
       else Inr patched)"

text \<open>
  The files by their names in \<open>build\<close>; the header is copied last.  \<open>digest_ok\<close> is whether the source has the pinned
  digest.
\<close>

type_synonym build = "string \<rightharpoonup> string"

definition va2000_build :: "bool \<Rightarrow> string option \<Rightarrow> string option \<Rightarrow> build \<Rightarrow> build \<times> (src_error + unit)" where
  "va2000_build digest_ok src_c src_h out = (case (src_c, src_h) of
     (Some text, Some header) \<Rightarrow>
       if \<not> digest_ok then (out, Inl (Abort ''does not match the pinned source''))
       else (case va_patch text of
         Inl e \<Rightarrow> (out, Inl e)
       | Inr patched \<Rightarrow> (out(''va2000_040.c'' \<mapsto> patched, ''va2000.h'' \<mapsto> header), Inr ()))
   | _ \<Rightarrow> (out, Inl (Abort ''VA2000_SRC points at a tree without it'')))"

subsection \<open>z3660_modelb\<close>

text \<open>\<open>sub_exact\<close> is defined and never called.\<close>

definition sub_exact :: "string \<Rightarrow> string \<Rightarrow> string \<Rightarrow> nat \<Rightarrow> src_error + string" where
  "sub_exact text old new n = (if occurs old text \<noteq> n then Inl (Abort ''expected another number of occurrences'')
     else Inr (replace_all old new text))"

text \<open>\<open>re.search\<close> with \<open>^\<close> under \<open>re.M\<close>: the expression is tried at the start of the text and after every newline.\<close>

fun at_line_starts :: "(string \<Rightarrow> bool) \<Rightarrow> bool \<Rightarrow> string \<Rightarrow> bool" where
  "at_line_starts P start [] = (start \<and> P [])"
| "at_line_starts P start (c # s) = ((start \<and> P (c # s)) \<or> at_line_starts P (c = CHR 0x0A) s)"

definition page_count :: "string \<Rightarrow> string \<Rightarrow> string \<Rightarrow> (string \<Rightarrow> bool) \<Rightarrow> src_error + string" where
  "page_count text legacy_old legacy_new derived_re =
     (let n_legacy = occurs legacy_old text; derived = at_line_starts derived_re True text in
      if n_legacy \<noteq> 0 \<and> derived then Inl (Abort ''source has BOTH'')
      else if n_legacy = 1 then Inr (replace_all legacy_old legacy_new text)
      else if 1 < n_legacy then Inl (Abort ''copies of the legacy literal'')
      else if derived then Inr text
      else Inl (Abort ''neither the legacy 2 KiB literal nor an NBPP-derived definition''))"

definition PNUM :: string where
  "PNUM = ''((u_int)(paddr) >> 12)''"

definition override_block :: "string \<Rightarrow> string" where
  "override_block line = line @ nl
    @ ''/* Model B (4 KiB pages, PNUMSHFT=12): the stock immu.h inlines phystopfn()'' @ nl
    @ '' * with the 2 KiB shift, which would map (pa>>11)<<12 = 2*pa -- the wrong'' @ nl
    @ '' * physical page.  Added by amix-040-060-port/src/z3660_modelb.py. */'' @ nl
    @ ''#undef  phystopfn'' @ nl
    @ ''#define phystopfn(paddr)'' @ tab @ PNUM @ nl"

definition include_lines :: "string \<Rightarrow> string list" where
  "include_lines text = filter (\<lambda>l. has_text ''sys/immu.h'' l \<and> take 8 (dropWhile is_space l) = ''#include'')
     (split_on (CHR 0x0A) text)"

definition phystopfn_override :: "string \<Rightarrow> src_error + string" where
  "phystopfn_override text = (if \<not> has_text ''sys/immu.h'' text then Inl (Abort ''does not include sys/immu.h'')
     else (case include_lines text of
       [line] \<Rightarrow> Inr (replace_first line (override_block line) text)
     | _ \<Rightarrow> Inl (Abort ''sys/immu.h includes, expected 1'')))"

definition bounce_old :: string where
  "bounce_old = ''#define'' @ tab @ ''BOUNCE_PAGES'' @ tab @ ''32'' @ tab @ tab @ ''/* 64KB bounce; Amix NBPP is 2KB, not 4KB! */''"

definition bounce_new :: string where
  "bounce_new = ''#define'' @ tab @ ''BOUNCE_PAGES'' @ tab @ ''16'' @ tab @ tab
     @ ''/* 64KB bounce; Model B NBPP is 4 KiB (z3660_modelb.py) */''"

definition frame_old :: string where
  "frame_old = ''#define ZZ_FRAME_PAGES'' @ tab @ ''64'' @ tab @ tab @ tab @ ''/* 64 * 2048 = 128 KB */''"

definition frame_new :: string where
  "frame_new = ''#define ZZ_FRAME_PAGES'' @ tab @ ''32'' @ tab @ tab @ tab @ ''/* 32 * 4096 = 128 KB (z3660_modelb.py) */''"

definition blanks1 :: "string \<Rightarrow> string option" where
  "blanks1 s = (case s of c # r \<Rightarrow> if is_space c then Some (dropWhile is_space r) else None | [] \<Rightarrow> None)"

definition re_bounce :: "string \<Rightarrow> bool" where
  "re_bounce s = (do { s \<leftarrow> lit ''#define'' s; s \<leftarrow> blanks1 s; s \<leftarrow> lit ''BOUNCE_PAGES'' s; s \<leftarrow> blanks1 s;
     lit ''Z3660_PAGES('' s } \<noteq> None)"

definition re_frame :: "string \<Rightarrow> bool" where
  "re_frame s = (do { s \<leftarrow> lit ''#define'' s; s \<leftarrow> blanks1 s; s \<leftarrow> lit ''ZZ_FRAME_PAGES'' s; s \<leftarrow> blanks1 s;
     s \<leftarrow> lit ''((ZZ_FRAME_BYTES'' s; s \<leftarrow> lit ''+'' (dropWhile is_space s); lit ''NBPP'' (dropWhile is_space s) } \<noteq> None)"

record z3660_src =
  z_scsi :: "string option"
  z_net :: "string option"
  z_hdr :: "string option"
  z_user :: "string option"

text \<open>The outputs are written one after the other, so an error can leave the earlier ones behind.\<close>

definition z3660_scsi :: "string \<Rightarrow> src_error + string" where
  "z3660_scsi t = (case phystopfn_override t of Inl e \<Rightarrow> Inl e | Inr t' \<Rightarrow> page_count t' bounce_old bounce_new re_bounce)"

definition z3660_hdr :: "z3660_src \<Rightarrow> build \<Rightarrow> build \<times> (src_error + unit)" where
  "z3660_hdr s out = (case z_hdr s of
     None \<Rightarrow> (out, Inl File_not_found)
   | Some h \<Rightarrow> (case page_count h frame_old frame_new re_frame of
       Inl e \<Rightarrow> (out, Inl e)
     | Inr h' \<Rightarrow> ((case z_user s of None \<Rightarrow> out(''z3660eth.h'' \<mapsto> h')
         | Some u \<Rightarrow> out(''z3660eth.h'' \<mapsto> h', ''z3660ethuser.h'' \<mapsto> u)), Inr ())))"

definition z3660_net :: "z3660_src \<Rightarrow> build \<Rightarrow> build \<times> (src_error + unit)" where
  "z3660_net s out = (case z_net s of
     None \<Rightarrow> (out, Inl (Abort ''z3660eth.c missing''))
   | Some t \<Rightarrow> (case phystopfn_override t of
       Inl e \<Rightarrow> (out, Inl e)
     | Inr t' \<Rightarrow> z3660_hdr s (out(''z3660eth_040.c'' \<mapsto> t'))))"

definition z3660_build :: "z3660_src \<Rightarrow> build \<Rightarrow> build \<times> (src_error + unit)" where
  "z3660_build s out = (case z_scsi s of
     None \<Rightarrow> (out, Inl (Abort ''z3660.c missing''))
   | Some t \<Rightarrow> (case z3660_scsi t of
       Inl e \<Rightarrow> (out, Inl e)
     | Inr t' \<Rightarrow> z3660_net s (out(''z3660_040.c'' \<mapsto> t'))))"

subsection \<open>What a rewrite is\<close>

text \<open>One place of the text is another text; the rest is as it was.\<close>

definition rewritten :: "'a list \<Rightarrow> 'a list \<Rightarrow> 'a list \<Rightarrow> 'a list \<Rightarrow> bool" where
  "rewritten old new s t \<longleftrightarrow> (\<exists>a b. s = a @ old @ b \<and> t = a @ new @ b)"

lemma replace_once: "occurs old s = 1 \<Longrightarrow> rewritten old new s (replace_all old new s) \<and> rewritten old new s (replace_first old new s)"
  by (elim once_pieces) (auto simp: replace_all_def replace_first_def rewritten_def)

lemma replace_first_rewritten:
  assumes "has_text old s" shows "rewritten old new s (replace_first old new s)"
proof -
  have "2 \<le> length (pieces old s)" using assms by (simp add: has_text_def occurs_def)
  then obtain a b rest where p: "pieces old s = a # b # rest"
    by (metis One_nat_def Suc_1 Suc_le_length_iff)
  have "s = a @ old @ join old (b # rest)" using join_pieces [of old s] unfolding p by (simp add: join_Cons)
  moreover have "replace_first old new s = a @ new @ join old (b # rest)" by (simp add: replace_first_def p)
  ultimately show ?thesis unfolding rewritten_def by blast
qed

lemma va_patch_Inr: "va_patch s = Inr t \<Longrightarrow> rewritten va_OLD va_NEW s t \<and> occurs ''>> 12)'' t = 1 \<and> \<not> has_text ''>> 11)'' t"
  using replace_once [of va_OLD s va_NEW] by (auto simp: va_patch_def Let_def split: if_splits)

text \<open>A line of a text is a piece of it.\<close>

lemma split_on_not_Nil [simp]: "split_on c s \<noteq> []"
  by (induction c s rule: split_on.induct) (auto split: list.split)

lemma split_on_head: "split_on c s = y # ys \<Longrightarrow> \<exists>b. s = y @ b"
proof (induction s arbitrary: y ys)
  case (Cons x s)
  obtain z zs where z: "split_on c s = z # zs" by (cases "split_on c s") auto
  then show ?case using Cons.prems Cons.IH [OF z] by (auto split: if_splits)
qed simp

lemma split_on_infix: "l \<in> set (split_on c s) \<Longrightarrow> \<exists>a b. s = a @ l @ b"
proof (induction s arbitrary: l)
  case (Cons x s)
  obtain y ys where y: "split_on c s = y # ys" by (cases "split_on c s") auto
  have "l = [] \<or> l = x # y \<or> l \<in> set (split_on c s)" using Cons.prems y by (auto split: if_splits)
  then consider "l = []" | "l = x # y" | "l \<in> set (split_on c s)" by blast
  then show ?case
  proof cases
    case 2
    obtain b where "s = y @ b" using split_on_head [OF y] by blast
    then show ?thesis using 2 by (intro exI [of _ "[]"] exI [of _ b]) simp
  next
    case 3
    then obtain a b where "s = a @ l @ b" using Cons.IH by blast
    then show ?thesis by (intro exI [of _ "x # a"] exI [of _ b]) simp
  qed auto
qed simp

lemma infix_pieces: "p \<noteq> [] \<Longrightarrow> s = a @ p @ b \<Longrightarrow> 2 \<le> length (pieces p s)"
proof (induction p s arbitrary: a rule: pieces.induct)
  case (2 p x r)
  show ?case
  proof (cases "take (length p) (x # r) = p")
    case True
    have "1 \<le> length (pieces p (drop (length p) (x # r)))"
      by (metis One_nat_def Suc_leI length_greater_0_conv pieces_not_Nil)
    moreover have "pieces p (x # r) = [] # pieces p (drop (length p) (x # r))" using True "2.prems"(1) by (simp add: pieces.simps)
    ultimately show ?thesis by simp
  next
    case False
    then have "a \<noteq> []" using "2.prems" by auto
    then obtain a' where "r = a' @ p @ b" using "2.prems"(2) by (cases a) auto
    then have "2 \<le> length (pieces p r)" using "2.IH"(2) False "2.prems"(1) by blast
    then show ?thesis using False by (cases "pieces p r") (simp_all add: pieces.simps)
  qed
qed simp

lemma include_line_contained:
  assumes "include_lines s = [line]" shows "has_text line s"
proof -
  have l: "line \<in> set (split_on (CHR 0x0A) s)" "has_text ''sys/immu.h'' line"
    using assms by (auto simp: include_lines_def filter_eq_Cons_iff)
  then have "line \<noteq> []" by (auto simp: has_text_def occurs_def pieces.simps)
  then show ?thesis using split_on_infix [OF l(1)] infix_pieces [of line s]
    by (fastforce simp: has_text_def occurs_def)
qed

subsection \<open>What z3660_modelb.py writes\<close>

text \<open>
  The first place of \<open>old\<close> in the text holds \<open>new\<close> instead; \<open>first_place\<close> and \<open>only_place\<close> go by positions, not by
  the pieces of the code.
\<close>

definition first_place :: "'a list \<Rightarrow> 'a list \<Rightarrow> 'a list \<Rightarrow> bool" where
  "first_place old s a \<longleftrightarrow> (\<forall>a' b'. s = a' @ old @ b' \<longrightarrow> length a \<le> length a')"

definition only_place :: "'a list \<Rightarrow> 'a list \<Rightarrow> 'a list \<Rightarrow> bool" where
  "only_place old s a \<longleftrightarrow> (\<forall>a' b'. s = a' @ old @ b' \<longrightarrow> a' = a)"

definition whole_line :: "string \<Rightarrow> string \<Rightarrow> bool" where
  "whole_line a b \<longleftrightarrow> (a = [] \<or> last a = CHR 0x0A) \<and> (b = [] \<or> hd b = CHR 0x0A)"

text \<open>
  The override block follows the text of the only include line where that text first stands; where it stands
  once, that is the include line itself.
\<close>

definition overridden :: "string \<Rightarrow> string \<Rightarrow> bool" where
  "overridden t t' \<longleftrightarrow> (\<exists>line a b. include_lines t = [line] \<and> t = a @ line @ b \<and> t' = a @ override_block line @ b
     \<and> first_place line t a \<and> (only_place line t a \<longrightarrow> whole_line a b))"

text \<open>A derived page count stays; a literal one is there once and is changed.\<close>

definition recounted :: "string \<Rightarrow> string \<Rightarrow> (string \<Rightarrow> bool) \<Rightarrow> string \<Rightarrow> string \<Rightarrow> bool" where
  "recounted old new derived t t' \<longleftrightarrow> (if at_line_starts derived True t then occurs old t = 0 \<and> t' = t
     else occurs old t = 1 \<and> (\<exists>a b. t = a @ old @ b \<and> t' = a @ new @ b \<and> first_place old t a))"

definition scsi_port :: "string \<Rightarrow> string \<Rightarrow> bool" where
  "scsi_port t t' \<longleftrightarrow> (\<exists>t1. overridden t t1 \<and> recounted bounce_old bounce_new re_bounce t1 t')"

text \<open>A text that is a port of the source, which has to be there.\<close>

definition port_of :: "(string \<Rightarrow> string \<Rightarrow> bool) \<Rightarrow> string option \<Rightarrow> string \<Rightarrow> bool" where
  "port_of R src t' \<longleftrightarrow> (\<exists>t. src = Some t \<and> R t t')"

lemma pieces_Nil: "pieces [] s = [s]"
  by (induction s) (simp_all add: pieces.simps)

lemma pieces_first:
  "pieces p s = y # z # ys \<Longrightarrow> first_place p s y"
  unfolding first_place_def
proof (induction p s arbitrary: y z ys rule: pieces.induct)
  case (2 p x r)
  show ?case
  proof (cases "p \<noteq> [] \<and> take (length p) (x # r) = p")
    case True
    then show ?thesis using "2.prems" by (simp add: pieces.simps)
  next
    case False
    then obtain y' where y: "pieces p r = y' # z # ys" "y = x # y'"
      using "2.prems" by (auto simp: pieces.simps split: list.splits)
    have "p \<noteq> []" using y(1) by (auto simp: pieces_Nil)
    show ?thesis
    proof (intro allI impI)
      fix a' b' assume e: "x # r = a' @ p @ b'"
      then have "a' \<noteq> []" using False \<open>p \<noteq> []\<close> by auto
      then obtain a'' where "a' = x # a''" "r = a'' @ p @ b'" using e by (cases a') auto
      then show "length y \<le> length a'" using "2.IH"(2) [OF False y(1)] y(2) by auto
    qed
  qed
qed (simp add: pieces.simps)


lemma two_pieces:
  assumes "has_text p s" obtains a b rest where "pieces p s = a # b # rest"
proof -
  have "2 \<le> length (pieces p s)" using assms by (simp add: has_text_def occurs_def)
  then show thesis using that by (metis One_nat_def Suc_1 Suc_le_length_iff)
qed

text \<open>What \<open>replace_first\<close> does, and that the first place is one.\<close>

lemma replace_first_place:
  assumes "has_text p s"
  obtains a b where "s = a @ p @ b" "replace_first p q s = a @ q @ b" "first_place p s a"
proof -
  obtain a b rest where ps: "pieces p s = a # b # rest" using two_pieces [OF assms] .
  have "s = a @ p @ join p (b # rest)" using join_pieces [of p s] unfolding ps by (simp add: join_Cons)
  moreover have "replace_first p q s = a @ q @ join p (b # rest)" by (simp add: replace_first_def ps)
  ultimately show thesis using pieces_first [OF ps] by (rule that)
qed

lemma first_place_unique: "s = a @ p @ b \<Longrightarrow> s = a' @ p @ b' \<Longrightarrow> first_place p s a \<Longrightarrow> first_place p s a' \<Longrightarrow> a = a' \<and> b = b'"
  unfolding first_place_def by (metis append_eq_append_conv le_antisym)

lemma replace_first_eq:
  assumes "has_text p s" "s = a @ p @ b" "first_place p s a"
  shows "replace_first p q s = a @ q @ b"
  using replace_first_place [OF assms(1)] first_place_unique [OF assms(2) _ assms(3)] by metis

lemma replace_all_first: "occurs p s = 1 \<Longrightarrow> replace_all p q s = replace_first p q s"
  by (erule once_pieces) (simp add: replace_all_def replace_first_def)

lemma split_on_head_line: "split_on c s = y # ys \<Longrightarrow> \<exists>b. s = y @ b \<and> (b = [] \<or> hd b = c)"
proof (induction s arbitrary: y ys)
  case (Cons x s)
  obtain z zs where z: "split_on c s = z # zs" by (cases "split_on c s") auto
  then show ?case using Cons.prems Cons.IH [OF z] by (auto split: if_splits)
qed simp

lemma split_on_tail_line:
  "split_on c s = y # ys \<Longrightarrow> l \<in> set ys \<Longrightarrow> \<exists>a b. s = a @ l @ b \<and> a \<noteq> [] \<and> last a = c \<and> (b = [] \<or> hd b = c)"
proof (induction s arbitrary: y ys)
  case (Cons x s)
  obtain z zs where z: "split_on c s = z # zs" by (cases "split_on c s") auto
  consider "x = c" "l = z" | "l \<in> set zs" using Cons.prems by (cases "x = c") (auto simp: z)
  then show ?case
  proof cases
    case 1
    obtain b where "s = z @ b" "b = [] \<or> hd b = c" using split_on_head_line [OF z] by blast
    then show ?thesis using 1 by (intro exI [of _ "[x]"] exI [of _ b]) simp
  next
    case 2
    obtain a b where "s = a @ l @ b" "a \<noteq> []" "last a = c" "b = [] \<or> hd b = c" using Cons.IH [OF z 2] by blast
    then show ?thesis by (intro exI [of _ "x # a"] exI [of _ b]) simp
  qed
qed simp

lemma split_on_line:
  assumes "l \<in> set (split_on (CHR 0x0A) s)" shows "\<exists>a b. s = a @ l @ b \<and> whole_line a b"
proof -
  obtain y ys where y: "split_on (CHR 0x0A) s = y # ys" by (cases "split_on (CHR 0x0A) s") auto
  then consider "l = y" | "l \<in> set ys" using assms by auto
  then show ?thesis
  proof cases
    case 1
    then show ?thesis using split_on_head_line [OF y] unfolding whole_line_def by (metis append_Nil)
  next
    case 2
    then show ?thesis using split_on_tail_line [OF y] unfolding whole_line_def by blast
  qed
qed

lemma include_line:
  assumes "include_lines s = [line]"
  shows "line \<in> set (split_on (CHR 0x0A) s)" "has_text ''sys/immu.h'' line"
  using assms by (auto simp: include_lines_def filter_eq_Cons_iff)

lemma has_text_infix: "p \<noteq> [] \<Longrightarrow> s = a @ p @ b \<Longrightarrow> has_text p s"
  using infix_pieces [of p s a b] by (simp add: has_text_def occurs_def)

lemma include_text:
  assumes "include_lines s = [line]" shows "has_text ''sys/immu.h'' s"
proof -
  obtain a b where "s = a @ line @ b" using split_on_infix [OF include_line(1) [OF assms]] by blast
  moreover obtain c d where "line = c @ ''sys/immu.h'' @ d"
    using replace_first_place [OF include_line(2) [OF assms]] by metis
  ultimately have "s = (a @ c) @ ''sys/immu.h'' @ (d @ b)" by simp
  then show ?thesis by (rule has_text_infix [rotated]) simp
qed

lemma overridden_replace:
  assumes l: "include_lines t = [line]"
  shows "overridden t (replace_first line (override_block line) t)"
proof -
  obtain a b where ab: "t = a @ line @ b" "replace_first line (override_block line) t = a @ override_block line @ b"
    "first_place line t a" using replace_first_place [OF include_line_contained [OF l]] .
  obtain c d where cd: "t = c @ line @ d" "whole_line c d" using split_on_line [OF include_line(1) [OF l]] by blast
  have "whole_line a b" if "only_place line t a"
  proof -
    have "c = a" using that cd(1) unfolding only_place_def by blast
    then show ?thesis using ab(1) cd by simp
  qed
  then show ?thesis using l ab unfolding overridden_def by blast
qed

lemma override_exact: "phystopfn_override t = Inr t' \<longleftrightarrow> overridden t t'"
proof
  assume "phystopfn_override t = Inr t'"
  then obtain line where "include_lines t = [line]" "t' = replace_first line (override_block line) t"
    by (auto simp: phystopfn_override_def split: if_splits list.splits)
  then show "overridden t t'" by (simp add: overridden_replace)
next
  assume "overridden t t'"
  then obtain line a b where l: "include_lines t = [line]" "t = a @ line @ b" "t' = a @ override_block line @ b" "first_place line t a"
    unfolding overridden_def by blast
  have "replace_first line (override_block line) t = t'"
    unfolding l(3) by (rule replace_first_eq [OF include_line_contained [OF l(1)] l(2,4)])
  then show "phystopfn_override t = Inr t'" using include_text [OF l(1)] by (simp add: phystopfn_override_def l(1))
qed

lemma recounted_replace:
  assumes "occurs old t = 1"
  shows "(\<exists>a b. t = a @ old @ b \<and> t' = a @ new @ b \<and> first_place old t a) \<longleftrightarrow> t' = replace_all old new t"
proof -
  have h: "has_text old t" using assms by (simp add: has_text_def)
  show ?thesis unfolding replace_all_first [OF assms]
    by (metis replace_first_place [OF h] replace_first_eq [OF h])
qed

lemma page_count_exact: "page_count t old new P = Inr t' \<longleftrightarrow> recounted old new P t t'"
  by (auto simp: page_count_def recounted_def Let_def recounted_replace)

lemma z3660_scsi_exact: "z3660_scsi t = Inr t' \<longleftrightarrow> scsi_port t t'"
  by (auto simp: z3660_scsi_def scsi_port_def override_exact [symmetric] page_count_exact [symmetric] split: sum.splits)

text \<open>
  C21: what z3660_modelb.py writes.  On success the SCSI source with the override and the page count, the net
  source with the override, the header with the page count and, when it is there, the copy of the user header
  are what the files hold.  The override block follows the text of the only include line of immu.h, at the
  first place of that text, which is the include line itself where the text stands once; a page count is the
  one literal, halved, or is derived from the page size and left.  A run that fails has met a source that is
  missing or has no such form, and has written the ports of the sources before it and nothing else.
\<close>

theorem z3660_build_ports:
  "case z3660_build s out of
     (out', Inr _) \<Rightarrow> (\<exists>t n h. port_of scsi_port (z_scsi s) t \<and> port_of overridden (z_net s) n
       \<and> port_of (recounted frame_old frame_new re_frame) (z_hdr s) h
       \<and> out' = (case z_user s of
           None \<Rightarrow> out(''z3660_040.c'' \<mapsto> t, ''z3660eth_040.c'' \<mapsto> n, ''z3660eth.h'' \<mapsto> h)
         | Some u \<Rightarrow> out(''z3660_040.c'' \<mapsto> t, ''z3660eth_040.c'' \<mapsto> n, ''z3660eth.h'' \<mapsto> h, ''z3660ethuser.h'' \<mapsto> u)))
   | (out', Inl _) \<Rightarrow> (if Ex (port_of scsi_port (z_scsi s)) then (\<exists>t. port_of scsi_port (z_scsi s) t
         \<and> (if Ex (port_of overridden (z_net s)) then (\<exists>n. port_of overridden (z_net s) n
               \<and> \<not> Ex (port_of (recounted frame_old frame_new re_frame) (z_hdr s))
               \<and> out' = out(''z3660_040.c'' \<mapsto> t, ''z3660eth_040.c'' \<mapsto> n))
            else out' = out(''z3660_040.c'' \<mapsto> t)))
       else out' = out)"
proof -
  have some: "port_of R (Some t) = R t" and none: "port_of R None = (\<lambda>t'. False)" for R t by (auto simp: port_of_def)
  show ?thesis
    by (auto simp: z3660_build_def z3660_net_def z3660_hdr_def some none z3660_scsi_exact [symmetric] override_exact [symmetric]
        page_count_exact [symmetric] split: option.splits sum.splits)
qed

text \<open>
  The include line is replaced where its text is first found, which need not be the line: an earlier comment
  that quotes it receives the block, the block ends that comment, and the include itself stays without it.
\<close>

lemma override_in_comment:
  "phystopfn_override (''/* #include <sys/immu.h> */'' @ nl @ ''#include <sys/immu.h>'' @ nl) =
   Inr (''/* '' @ override_block ''#include <sys/immu.h>'' @ '' */'' @ nl @ ''#include <sys/immu.h>'' @ nl)"
  by code_simp

text \<open>
  A run of va2000_modelb.py.  It writes both files or none; what it writes needs both sources, the pinned
  digest, and exactly one copy of the old shift, which alone is replaced, and the written driver has one
  12-bit shift and no 11-bit one.
\<close>

theorem va2000_run:
  "case va2000_build digest_ok src_c src_h out of
     (out', Inl e) \<Rightarrow> out' = out
   | (out', Inr _) \<Rightarrow> digest_ok \<and> (case (src_c, src_h) of
       (Some text, Some header) \<Rightarrow> (\<exists>t. rewritten va_OLD va_NEW text t \<and> occurs ''>> 12)'' t = 1 \<and> \<not> has_text ''>> 11)'' t
          \<and> out' = out(''va2000_040.c'' \<mapsto> t, ''va2000.h'' \<mapsto> header))
     | _ \<Rightarrow> False)"
proof (cases "va2000_build digest_ok src_c src_h out")
  case (Pair out' r)
  then show ?thesis
    by (cases r) (auto simp: va2000_build_def dest!: va_patch_Inr split: option.splits if_splits sum.splits)
qed

end
