(* ===== verification/Spec2Isabelle.thy ===== *)
theory Spec2Isabelle
  imports Pipeline Execstk Prof_Ring Prof_Main Reloc_Order Reloc_Example Kelf_Pgrsv
    Driver_Edits Islands Data_Words Check_Fp Build_Ids Nfs_Test Root_Family Image_Edits Image_Checks Rth1_Record Card1_Stamp Source_Rewrites
begin

text \<open>
  A verification library for the Python tools of the repository that produce and analyse the Model-B
  (4 KB page) 68040/68060 kernel of AMIX.

  \<^bold>\<open>The program.\<close>  The repository turns a stock relocatable kernel, \<open>build/unix\<close>, into a Model-B one.  Shell
  scripts (\<open>src/relink-040.sh\<close> and its variants) assemble 68k modules, link them and then run a sequence
  of Python patchers \<open>src/src/patch_*.py\<close> over the linked image.  Each patcher reads the image, finds
  \<open>.text\<close>, checks that every site holds the bytes it expects to replace or the bytes it would write, applies
  its table and writes the image back; some check \<open>canaries\<close>, bytes of earlier steps they rely on.  Apart
  from the build, \<open>src/tools/prof-symbolize.py\<close> reads the serial capture of a profiling board and reports
  where the time of the guest went.  These two parts are what the library models.

  \<^bold>\<open>The patchers.\<close>
  \<^item> \<open>Py_Base\<close>: exceptions as values, slices, \<open>struct\<close> codecs, NUL-terminated names, dictionaries.
  \<^item> \<open>Text_Sites\<close>: the walk over the ELF section headers (\<open>sections\<close>, \<open>text_sec\<close>), one site
    (\<open>patch_site\<close>) and the loops over a table; frame lemmas: a write that stays off the headers changes no
    lookup.
  \<^item> \<open>Site_Tables\<close>: the abstract specification.  A table is applied by \<open>apply_new\<close>, which is a function of the
    position; the locale \<open>site_table\<close> is the contract of a consistent table and is interpreted on the
    table of every script.
  \<^item> \<open>Kernel_Index\<close>: the index of all site addresses of the sequence, in increasing order, from which the
    consistency of every table and of their union follows without comparing the tables pairwise.
  \<^item> \<open>Text_Patcher\<close>: the common body of the scripts with canaries, groups and counters, and the locale
    \<open>text_patcher\<close> that gives each script its outcome, refusal and step lemmas.
  \<^item> \<open>Modelb_Sites\<close>, \<open>Pager_Sites\<close>, \<open>Mmu_Sites\<close>, \<open>Group_Sites\<close>, \<open>Vm_Sites\<close>, \<open>Execstk\<close>: the tables and the
    \<open>main\<close> of \<open>patch_modelb\<close>; \<open>patch_modelb_pager\<close> and \<open>patch_writeback\<close>; \<open>patch_pflusha_040\<close>,
    \<open>patch_pmmu_040\<close> and \<open>patch_devmmap_pfn\<close>; \<open>patch_swapgeom\<close>, \<open>patch_mincore\<close>, \<open>patch_kmapools\<close>,
    \<open>patch_procio\<close>, \<open>patch_pageoutdefs\<close>, \<open>patch_memcntl\<close> and \<open>patch_segkmem\<close>; \<open>patch_pvntrunc\<close>, \<open>patch_ufsbmap\<close>, \<open>patch_pagecreate\<close>,
    \<open>patch_execboundary\<close> and \<open>patch_devmmap2\<close>; \<open>patch_execstk\<close> and \<open>patch_swapin\<close>.
  \<^item> \<open>Stock_Image\<close>: a concrete unconverted image, with the headers of an ELF file and a blank \<open>.text\<close>, for the
    witnesses.
  \<^item> \<open>Pipeline\<close>: the eighteen text patchers that walk the section headers, in the order of
    \<open>relink-040.sh\<close>, run with \<open>set -e\<close>.
  \<^item> \<open>Fixed_Sites\<close>: the patchers that take \<open>.text\<close> at file offset \<open>0x34\<close>: \<open>patch_autocon_lsr\<close>, \<open>patch_xpanic_sync\<close>,
    \<open>patch_sysconfig_pagesize\<close>, and the two-phase \<open>patch_nfs_putpage\<close> and \<open>patch_nfs_getpage\<close>.

  \<^bold>\<open>Relocations.\<close>  The other patchers change which symbol a relocation entry names.
  \<^item> \<open>Reloc_Base\<close>, \<open>Reloc_Image\<close>: sections, symbols and entries as the scripts read them; which images are
    well-formed, and that changing an entry keeps them so.
  \<^item> \<open>Reloc_Latch\<close>, \<open>Reloc_Order\<close>: the eight scripts that redirect single calls (\<open>patch_usptrap\<close> to
    \<open>patch_swapadd\<close>), and the order in which two of them can be installed.
  \<^item> \<open>Reloc_Vec\<close>, \<open>Reloc_Fp\<close>: the five scripts that fill the vector table, one by one and in build order.
  \<^item> \<open>Reloc_Example\<close>: a small relocatable image for the witnesses.
  \<^item> \<open>Kelf\<close>, \<open>Kelf_Hooks\<close>, \<open>Kelf_Pgrsv\<close>: \<open>kelf.py\<close> and the scripts on it (\<open>patch_rth1_hook\<close>,
    \<open>patch_isp060_hook\<close>, \<open>patch_pgrsv_sites\<close>), which read their own result again.
  \<^item> \<open>Rewire\<close>: what the driver patchers share, and the relation \<open>edits\<close>, the abstract account of a run as a
    sequence of checked steps.  \<open>Device_Relocs\<close>: twelve driver patchers.  \<open>Device_Edits\<close>, \<open>Driver_Edits\<close>: the
    contract that a run is such a sequence (locales \<open>edit_script\<close>, \<open>slot_script\<close>), interpreted on every script.
  \<^item> \<open>Islands\<close>: the scripts that write a branch to a routine of the image (\<open>patch_btwalk\<close>, \<open>patch_inituser\<close>
    and four diagnostic hooks), and where the branch goes.
  \<^item> \<open>Data_Words\<close>: the scripts that set a word of \<open>.data\<close> (\<open>patch_b2_flip\<close>, \<open>patch_btrace_on\<close>,
    \<open>patch_framesz060\<close>, \<open>patch_z3660_cache\<close>, \<open>stamp-cputype\<close>).
  \<^item> \<open>Check_Fp\<close>: the checkers of the finished image for the floating-point link (\<open>check_fpu_relocs\<close>,
    \<open>check_fpe_relocs\<close>), against what the scripts of \<open>Reloc_Fp\<close> leave.
  \<^item> \<open>Root_Family\<close>: \<open>check_root_family.py\<close>, the root device, the swap node and the controller registry.
  \<^item> \<open>Image_Edits\<close>: five patchers that stand alone (\<open>patch_segdev_bridge\<close>, \<open>patch_sl_closedq\<close>, \<open>patch_ttcompat_init\<close>,
    \<open>patch_xpage_flip\<close>, \<open>patch_pstart_040\<close>).  \<open>Image_Checks\<close>: the simulation of the loader
    (\<open>check_relink_relocs\<close>) and two checks of a single word (\<open>check_vproc\<close>, \<open>check_swap_boname\<close>).
  \<^item> \<open>Rth1_Record\<close>: \<open>rth1-record.py\<close>, the records of the root hint.  \<open>Card1_Stamp\<close>: \<open>stamp-card1.py\<close>, the device
    numbers of the second card.  \<open>Source_Rewrites\<close>: \<open>z3660_modelb.py\<close> and \<open>va2000_modelb.py\<close>, which rewrite C sources.
  \<^item> \<open>Build_Ids\<close>: \<open>blocks.py\<close> and \<open>stamp_buildid.py\<close>, the numbers that kernels are stamped with, as a step
    relation over the build directories of all machines.  \<open>Py_Strings\<close>: the strings they use.
  \<^item> \<open>Nfs_Test\<close>: the acceptance tests of the NFS repairs, the generator of the corpus (\<open>nfstail-gen.py\<close>), its
    reader on the kernel under test (\<open>nfstail.c\<close>), and the check on the host (\<open>nfstruth-verify.py\<close>).

  \<^bold>\<open>The profiler.\<close>
  \<^item> \<open>Prof_Wire\<close>: bucket and counter tables per wire version, \<open>WIRE_VERSIONS\<close> and its refusals.
  \<^item> \<open>Prof_Scan\<close>: the regular expressions as scanners, and the two repairs of dirty lines.
  \<^item> \<open>Prof_Capture\<close>: \<open>parse_capture\<close>, one step per line over the record \<open>parser\<close>, every refusal a value;
    the invariant \<open>parser_ok\<close> (rings closed and complete) and the exceptions each step can raise.
  \<^item> \<open>Prof_Types\<close>: the invariant of the stats dumps.  \<open>Prof_Ring\<close>: round trip of a ring body, the contract of
    a whole capture, and the inputs that fall outside it.
  \<^item> \<open>Prof_Symbols\<close>: \<open>SymbolTable\<close>, the ELF and \<open>nm\<close> loaders, the lookup with its binary search.
  \<^item> \<open>Prof_Opcode\<close>: the opcode table and \<open>mnemonic\<close>.
  \<^item> \<open>Prof_Probe\<close>: the model of bucket entries, where probe costs land, the measured spans, the subtraction.
  \<^item> \<open>Prof_Report\<close>: the profile of a ring: weights, histogram, tables by symbol, PC and opcode, ranking, wrap
    check.
  \<^item> \<open>Prof_Checks\<close>, \<open>Prof_Verdicts\<close>: the other sections of a stats dump (clock, tail, loop, swept spans,
    counters, rates, identities, calibration), each as the list of its rows and of its warnings; when they warn.
  \<^item> \<open>Prof_Main\<close>: the choice of the probe price, the loading of symbols, and the run up to its outcome.

  \<^bold>\<open>What the lemmas show.\<close>  For the patchers: what a run leaves behind on every input, byte for byte; that a
  failed run leaves the file alone; which images are accepted; that a second run changes nothing; that the
  sequence can only be run in its order; and that some checks of the scripts can never fire.  For the
  profiler: that a delivered capture is complete and well-formed, that no weight, sample or probe is lost
  or counted twice, how a PC is attributed, when its cross-checks warn, and which exceptions its readers let escape.

  \<^bold>\<open>Conventions.\<close>  A file is the list of its bytes, a text file the list of its lines.  Python integers are
  \<open>int\<close>; bytes are \<open>8 word\<close>.  An exception is a value of type \<open>exn\<close>; messages keep the fixed text that
  identifies them.  There is no fuel: every loop is a recursion over a list, or has a termination proof
  (\<open>re_kv\<close>, \<open>bisect_loop\<close>, \<open>hex_nat\<close>).  A text is a list of characters with codes below 256; strict UTF-8
  decoding is the identity on well-formed byte strings.  Two comparisons of percentages in the profiler are
  written over the integers instead of floating point; they agree as long as the counts stay below \<open>2^46\<close>.

  \<^bold>\<open>Not modelled.\<close>  The 68k assembler and C modules; the shell scripts other than the order of the patch
  steps; \<open>detect_pagesize.py\<close>, a report over a disassembly listing, and \<open>mk_fpe_cc.py\<close>, a printer of a table; the
  fixture generator of the profiler and the checker of quotations; the tools that talk to an emulator or a board, and their logs; and of the
  profiler the layout and the wording of the printed report, the percentages as floating-point numbers (\<open>float\<close>
  raises \<open>OverflowError\<close> on a count of some three hundred digits) and the parsing of the command line, so that the
  model bounds the exceptions of its readers and not those of the whole program.
\<close>

section \<open>The relink sequence\<close>

text \<open>
  C1: The sequence of the eighteen table patchers of \<open>relink-040.sh\<close> that walk the section headers, in
  the order the script runs them, succeeds on every image whose sites
  each hold old or new bytes and whose untouched canaries are in place, and the image it leaves is,
  byte by byte, the union of the eighteen tables over the input.
\<close>

theorem relink_sequence:
  assumes "ready off addr lo hi relink_sites b" "canaries_ready off addr b"
  shows "\<exists>b'. run_steps relink_steps b = (b', Inr ()) \<and> length b' = length b \<and>
    (\<forall>i. i < length b \<longrightarrow> b' ! i =
      (case site_byte relink_sites (int i - off + addr) of Some x \<Rightarrow> x | None \<Rightarrow> b ! i))"
  using relink_run [OF assms] ready_room [OF assms(1)] nth_apply_new [OF relink_consistent]
  by (intro exI [of _ "apply_new off addr relink_sites b"]) auto

text \<open>
  Running the whole sequence twice is running it once: the second run succeeds and leaves the
  image alone, canaries included.
\<close>

theorem relink_rerun:
  assumes "ready off addr lo hi relink_sites b" "canaries_ready off addr b"
    "run_steps relink_steps b = (b', r)"
  shows "run_steps relink_steps b' = (b', Inr ())"
  using relink_again [OF assms(1,2)] relink_run [OF assms(1,2)] assms(3) by simp

text \<open>
  C3: The order of the steps is enforced by the scripts: on an unconverted image the four scripts
  that build on earlier ones (\<open>patch_pagecreate\<close> on the pager, \<open>patch_ufsbmap\<close> on \<open>patch_pagecreate\<close>,
  \<open>patch_execboundary\<close> on \<open>patch_modelb\<close>, \<open>patch_devmmap2\<close> on \<open>patch_devmmap_pfn\<close>) abort and leave the
  file alone, whatever groups are selected.
\<close>

theorem relink_order_enforced:
  assumes "text_of_sections b = Inr (addr, off)" "room off addr 0 (length b) relink_sites"
    "all_old off addr relink_sites b"
  shows "(\<exists>e. pagecreate_main env b = (b, Inl e)) \<and> (\<exists>e. ufsbmap_main b = (b, Inl e)) \<and>
    (\<exists>e. execboundary_main env b = (b, Inl e)) \<and> (\<exists>e. devmmap2_main env b = (b, Inl e))"
proof -
  have sub: "room off addr 0 (length b) ps \<and> all_old off addr ps b" if "set ps \<subseteq> set relink_sites" for ps
    using room_subset [OF assms(2) that] assms(3) that by (auto simp: all_old_def)
  have sets: "set pager_P \<subseteq> set relink_sites" "set pagecreate_all \<subseteq> set relink_sites"
    "set modelb_P \<subseteq> set relink_sites" "set devmmap_SITES \<subseteq> set relink_sites"
    by (auto simp: relink_sites_def)
  note s = sets [THEN sub]
  show ?thesis
    by (intro conjI pagecreate_needs_pager [OF assms(1)] ufsbmap_needs_pagecreate [OF assms(1)]
        execboundary_needs_modelb [OF assms(1)] devmmap2_needs_devmmap [OF assms(1)]) (use s in blast)+
qed

text \<open>
  C2: Every step of the sequence is fail-closed on every input, readable as an ELF file or not: when
  it ends in an exception the file is as it was, and when it succeeds the length is unchanged.  The
  scripts that exit with status 1 after writing are included, because that exit cannot happen.
\<close>

theorem relink_steps_fail_closed:
  "list_all (\<lambda>m. \<forall>b. case m b of (b', Inl e) \<Rightarrow> b' = b | (b', Inr _) \<Rightarrow> length b' = length b) relink_steps"
  using relink_fail_closed by (simp add: fail_closed_def [abs_def])

text \<open>
  C5: Which checks against half-done work can fire.  Ten patchers of the sequence compare the number of sites
  they changed or found changed with the number of their sites: eight of them for an \<open>ABORT: partial ...\<close>
  message before the write, six of these and \<open>patch_execboundary\<close> and \<open>patch_devmmap2\<close> for an exit with status 1
  after it.  No such message and no such exit ends a run, on any image.  (The second look of
  \<open>patch_execboundary\<close> at its groups is another check, and not meant here.)  The three patchers of relocations
  with such a message compare the entries they changed with those they found changed, and there it does what it
  says: it lets pass exactly the counts of which one is zero, so that a run of \<open>patch_va2000_cdevsw\<close>,
  \<open>patch_xsvga\<close> or \<open>patch_a3091_dma\<close> that ends well has changed its whole group or found all of it changed.
\<close>

theorem partial_checks_dead:
  "list_all (\<lambda>m. snd (m b) \<noteq> Inl (SystemExit (''ABORT: partial '' @ what)))
     [swapgeom_main, segkmem_main, kmapools_main, procio_main, memcntl_main, pvntrunc_main, ufsbmap_main]
   \<and> snd (pagecreate_main env b) \<noteq> Inl (SystemExit (''ABORT: partial '' @ what))
   \<and> snd (kmapools_main b) \<noteq> Inl (SystemExit ''1'') \<and> snd (procio_main b) \<noteq> Inl (SystemExit ''1'')
   \<and> snd (memcntl_main b) \<noteq> Inl (SystemExit ''1'')
   \<and> snd (pvntrunc_main b) \<noteq> Inl (SystemExit ''1'') \<and> snd (ufsbmap_main b) \<noteq> Inl (SystemExit ''1'')
   \<and> snd (pagecreate_main env b) \<noteq> Inl (SystemExit ''1'')
   \<and> snd (execboundary_main env b) \<noteq> Inl (SystemExit ''1'') \<and> snd (devmmap2_main env b) \<noteq> Inl (SystemExit ''1'')
   \<and> (whole_group n k = Inr u) = (n = 0 \<or> k = 0)
   \<and> (case va2000_main b of (_, Inr (d, s)) \<Rightarrow> (d, s) = (6, 0) \<or> (d, s) = (0, 6) | _ \<Rightarrow> True)
   \<and> (case xsvga_main b of (_, Inr (d, w)) \<Rightarrow> d = 6 \<or> d = 0 | _ \<Rightarrow> True)
   \<and> (case a3091_dma_main b of (_, Inr ((d, s), sd, ss)) \<Rightarrow>
        (d = 0 \<or> s = 0) \<and> ((sd, ss) = (2, 0) \<or> (sd, ss) = (0, 2)) | _ \<Rightarrow> True)"
  unfolding list.pred_inject
  by (intro conjI list.pred_inject(1) swapgeom_never segkmem_never kmapools_never procio_never memcntl_never
      pvntrunc_never ufsbmap_never pagecreate_never execboundary_exit devmmap2_exit whole_group_Inr va2000_whole
      xsvga_whole dma_whole)

text \<open>
  A half-converted swap-geometry group is accepted: if every one of the twelve sites holds its
  old or its new bytes, in whatever mixture, the script completes the conversion and reports success,
  although its last check calls the group atomic.
\<close>

theorem swapgeom_completes_partial:
  assumes "text_of_sections b = Inr (addr, off)" "room off addr 0 (length b) swapgeom_TEXT"
    "all_known off addr swapgeom_TEXT b"
  shows "\<exists>d s. swapgeom_main b = (apply_new off addr swapgeom_TEXT b, Inr (d, s)) \<and> d + s = 12"
proof -
  obtain r where r: "swapgeom_main b = (apply_new off addr swapgeom_TEXT b, Inr r)"
    using swapgeom.step [OF assms] by auto
  obtain d s where "r = (d, s)" by (cases r)
  then show ?thesis using r swapgeom.outcome [of b] by (auto simp: swapgeom_length)
qed

text \<open>
  The three ways the scripts look for \<open>.text\<close> agree: the latin-1 walk of the \<open>pflusha\<close> patcher
  and the byte walk of the others find the same section on every image.
\<close>

theorem text_section_agrees:
  "text_section b = Inr (addr, off) \<longleftrightarrow> text_sec b = Inr (addr, off)"
  by (rule text_section_ok)

text \<open>
  C34: The stack and swap-in patchers, which are not part of the text sequence because they also convert a
  data word, are fail-closed too: a run that fails leaves the file alone, and a run that succeeds has applied
  its \<open>.text\<close> sites and then the four bytes of \<open>exec_initialstk\<close> or \<open>klustsize\<close> where the symbol table of the
  converted image places them, and has counted every place.
\<close>

theorem word_scripts_outcome:
  "word_run execstk_TEXT ''exec_initialstk'' b (execstk_main b) \<and> word_run swapin_TEXT ''klustsize'' b (swapin_main b)"
  unfolding execstk_main_def swapin_main_def
  by (intro conjI sites_and_word_run execstk_table.site_table_axioms swapin_table.site_table_axioms)

section \<open>The relocation patchers\<close>

text \<open>
  C35: On every well-formed relocatable image each of the twelve scripts that change the symbol of a
  relocation computes its abstract specification on the view of the image (the entries of
  \<open>.rela.text\<close>, the names and the places of the symbols): it refuses and leaves the file alone exactly when
  the specification refuses, and otherwise leaves a well-formed image of the same length whose view is the
  specified one.  A second run changes nothing and says so.
\<close>

theorem reloc_scripts_refine:
  assumes "wf_rel b" "rel_view b = Inr v"
  shows "list_all (\<lambda>(run, spec). run_meets b run (spec v) \<and> rerun_same b run) reloc_specs"
  by (rule reloc_specs_meet [OF assms])

text \<open>
  C36: The two instruments of the call at \<open>0x5A640\<close> can be installed in one order only.  While the call
  names \<open>cmn_err\<close>, \<open>patch_ufault\<close> refuses; \<open>patch_usptrap\<close> followed by \<open>patch_ufault\<close> succeeds and leaves the call
  with \<open>uft_latch\<close>; and \<open>patch_usptrap\<close> refuses the image that results.
\<close>

theorem latch_order:
  assumes "wf_rel b" "rel_view b = Inr v" "latch_ready v"
  shows "fst (ufault_main b) = b \<and> isl (snd (ufault_main b))
    \<and> (\<exists>b' rels'. run_steps [step_of usptrap_main, step_of ufault_main] b = (b', Inr ()) \<and> wf_rel b'
      \<and> rel_view b' = Inr (rels', snd v) \<and> slot (fst (snd v)) 0x5A640 rels' = Some (''uft_latch'', 1)
      \<and> fst (usptrap_main b') = b' \<and> isl (snd (usptrap_main b')))"
  using latch_order_run [OF assms] by blast

text \<open>
  C37: The five scripts that install the floating-point and integer emulation run to the end on an image
  whose vectors name \<open>nullvect\<close> and whose handlers are linked, and then every slot names what it should:
  vectors 11 and 60 the soft-FPU arms, the operands of their declines the handlers the arms were put in
  front of, vector 61 and 48 to 55 their handlers, and every other relocation what it named before.
\<close>

theorem vectors_installed:
  assumes "wf_rel b" "rel_view b = Inr (rels, names, homes)" "fp_ready (rels, names, homes) base d11 d60"
  shows "\<exists>b' rels'. run_steps fp_steps b = (b', Inr ()) \<and> wf_rel b' \<and> rel_view b' = Inr (rels', names, homes)
    \<and> length b' = length b
    \<and> (\<forall>x. slot names x rels' = (case map_of (fp_targets base d11 d60) x of
         Some n \<Rightarrow> Some (n, 1) | None \<Rightarrow> slot names x rels))"
  by (rule fp_installed [OF assms])

text \<open>
  C38: The three scripts that route calls through a hook check their own work, on every input.  A run that
  ends leaves a file that, read again, is in order: the one call hooked, or every collected call of
  \<open>page_get\<close> on the path its caller belongs on.  A run that reports a skip leaves the file alone, and no
  run, failing or not, changes a byte outside the symbol words of \<open>.rela.text\<close>.\<close>

theorem hook_scripts_outcome:
  "checked_run rth1_patch (hooked_file rth1_state) b \<and> checked_run isp060_patch (hooked_file isp060_state) b
   \<and> checked_run pgrsv_patch pg_settled_file b"
  by (intro conjI rth1_hook.outcome isp060_hook.outcome pgrsv_hook.outcome)

section \<open>Witnesses\<close>

text \<open>The stock image with the first swap-geometry site already converted.\<close>

definition half_swapgeom :: "byte list" where
  "half_swapgeom = stock_image (revert (take 1 swapgeom_TEXT) @ drop 1 swapgeom_TEXT)"

lemma relink_sequence_witness:
  "run_steps relink_steps relink_stock = (apply_new 192 0 relink_sites relink_stock, Inr ())
   \<and> (\<exists>b'. run_steps relink_steps relink_stock = (b', Inr ()) \<and> length b' = 192 + text_bytes)"
  using relink_sequence [OF relink_stock_ready relink_stock_canaries] relink_run [OF relink_stock_ready relink_stock_canaries]
  by (auto simp: relink_stock_facts(1))

lemma relink_rerun_witness:
  "run_steps relink_steps (apply_new 192 0 relink_sites relink_stock) =
    (apply_new 192 0 relink_sites relink_stock, Inr ())"
  by (rule relink_rerun [OF relink_stock_ready relink_stock_canaries
        relink_run [OF relink_stock_ready relink_stock_canaries]])

lemma relink_stock_sections: "text_of_sections relink_stock = Inr (0, 192)"
  using relink_stock_ready by (simp add: ready_def)

lemma relink_order_witness: "(\<exists>e. ufsbmap_main relink_stock = (relink_stock, Inl e))
   \<and> (\<exists>e. pagecreate_main (Some ''live'') relink_stock = (relink_stock, Inl e))"
proof -
  have "all_old 192 0 relink_sites relink_stock" using relink_stock_facts(5) by (simp add: all_old_def)
  from relink_order_enforced [OF relink_stock_sections ready_room [OF relink_stock_ready] this]
  show ?thesis by blast
qed

lemma half_swapgeom_consistent: "consistent (revert (take 1 swapgeom_TEXT) @ drop 1 swapgeom_TEXT)"
  by (simp add: swapgeom_TEXT_def revert_def consistent_def compat_def)

lemma half_swapgeom_room: "room 192 0 192 (192 + text_bytes) (revert (take 1 swapgeom_TEXT) @ drop 1 swapgeom_TEXT)"
  by (simp add: swapgeom_TEXT_def revert_def text_bytes_def)

lemmas half_swapgeom_facts =
  stock_image_facts [OF half_swapgeom_consistent half_swapgeom_room, folded half_swapgeom_def]

lemma half_swapgeom_known: "all_known 192 0 swapgeom_TEXT half_swapgeom"
  using half_swapgeom_facts(5)
  by (auto simp: all_old_def all_known_def swapgeom_TEXT_def revert_def site_read_def)

lemma swapgeom_completes_partial_witness:
  "\<exists>d s. swapgeom_main half_swapgeom = (apply_new 192 0 swapgeom_TEXT half_swapgeom, Inr (d, s)) \<and> d + s = 12"
proof (rule swapgeom_completes_partial)
  show "text_of_sections half_swapgeom = Inr (0, 192)"
    by (simp add: text_of_sections_def half_swapgeom_facts(3) dict_get_def)
  show "room 192 0 0 (length half_swapgeom) swapgeom_TEXT"
    using swapgeom_room by (rule room_mono) (simp_all add: half_swapgeom_facts(1))
qed (rule half_swapgeom_known)

text \<open>The relocation patchers on the example image.\<close>

lemma reloc_scripts_witness: "run_meets ex_image usptrap_main
    (abs_retarget False 0x5A640 ''cmn_err'' ''unt_latch'' (ex_rels, ex_names, ex_homes))"
  using reloc_scripts_refine [OF ex_wf ex_view] by (simp add: reloc_specs_def)

lemma ex_latch_ready: "latch_ready (ex_rels, ex_names, ex_homes)"
  by (simp add: latch_ready_def) (simp add: slot_def rel_pos_def sym_pos_def ex_rels_def ex_names_def ex_homes_def)

lemma latch_order_witness: "isl (snd (ufault_main ex_image))
   \<and> (\<exists>b'. run_steps [step_of usptrap_main, step_of ufault_main] ex_image = (b', Inr ()) \<and> isl (snd (usptrap_main b')))"
  using latch_order [OF ex_wf ex_view ex_latch_ready] by blast

lemma vectors_installed_witness: "\<exists>b' rels'. run_steps fp_steps ex_image = (b', Inr ())
   \<and> rel_view b' = Inr (rels', ex_names, ex_homes) \<and> slot ex_names (0x1000 + 44) rels' = Some (''fpe_vec11'', 1)"
  using vectors_installed [OF ex_wf ex_view ex_ready] by (auto simp: fp_targets_def)

end
